(* ===== verification/Prelude.thy ===== *)
theory Prelude
  imports Main "HOL-Library.Multiset"
begin

text \<open>
  Shared ground of the development.

  \<^item> How Go code that can fail is modelled: an operation takes a state and gives a result or a
    \<open>failure\<close>, and the state it leaves behind. \<open>Err\<close> is a value of type \<open>error\<close> that the code
    makes or passes on, \<open>SqlErr\<close> an error of the database driver, \<open>Panic\<close> a nil dereference or
    another run-time panic, \<open>NoFuel\<close> the end of the fuel of a bounded recursion.
  \<^item> \<open>op_relation\<close>, the interface of a reflexive and transitive relation between the state before
    and the state after an operation: its lemmas lift a fact about single statements to whole
    handlers, for every outcome, errors included.
  \<^item> Go's 64-bit integer arithmetic, and the counting loops of the \<open>Equals\<close> methods.
  \<^item> Tables as lists of rows, with the operations of the SQL statements on them.
\<close>

named_theorems op_simps \<open>evaluation of operations\<close>
named_theorems keeps_intros \<open>what single operations keep\<close>

section \<open>Operations with failures\<close>

datatype failure = Err string | SqlErr string | Panic | NoFuel

type_synonym ('s, 'a) op = "'s \<Rightarrow> (failure + 'a) \<times> 's"

definition retM :: "'a \<Rightarrow> ('s, 'a) op" where
  "retM x s = (Inr x, s)"

definition throwM :: "failure \<Rightarrow> ('s, 'a) op" where
  "throwM e s = (Inl e, s)"

definition bindM :: "('s, 'a) op \<Rightarrow> ('a \<Rightarrow> ('s, 'b) op) \<Rightarrow> ('s, 'b) op" where
  "bindM m f s = (case m s of (Inl e, s') \<Rightarrow> (Inl e, s') | (Inr x, s') \<Rightarrow> f x s')"

text \<open>\<open>thenM\<close> is the statement sequence \<open>m; k\<close>, where the result of \<open>m\<close> is not used.\<close>

definition thenM :: "('s, 'a) op \<Rightarrow> ('s, 'b) op \<Rightarrow> ('s, 'b) op" where
  "thenM m k = bindM m (\<lambda>_. k)"

definition getM :: "('s \<Rightarrow> 'a) \<Rightarrow> ('s, 'a) op" where
  "getM f s = (Inr (f s), s)"

definition modifyM :: "('s \<Rightarrow> 's) \<Rightarrow> ('s, unit) op" where
  "modifyM f s = (Inr (), f s)"

text \<open>
  Errors are values a caller may inspect (\<open>x, err := m()\<close>); panics unwind the caller too.
  \<open>tryM\<close> hands an error to the caller as a value and lets a panic through.
\<close>

fun is_error :: "failure \<Rightarrow> bool" where
  "is_error (Err _) = True"
| "is_error (SqlErr _) = True"
| "is_error Panic = False"
| "is_error NoFuel = False"

definition tryM :: "('s, 'a) op \<Rightarrow> ('s, failure + 'a) op" where
  "tryM m s = (case m s of
       (Inl e, s') \<Rightarrow> (if is_error e then (Inr (Inl e), s') else (Inl e, s'))
     | (Inr x, s') \<Rightarrow> (Inr (Inr x), s'))"

text \<open>A call whose error result the code drops.\<close>

definition ignoreM :: "('s, 'a) op \<Rightarrow> ('s, unit) op" where
  "ignoreM m = bindM (tryM m) (\<lambda>_. retM ())"

text \<open>Dereferencing a pointer: \<open>None\<close> is nil.\<close>

definition derefM :: "'a option \<Rightarrow> ('s, 'a) op" where
  "derefM p = (case p of None \<Rightarrow> throwM Panic | Some x \<Rightarrow> retM x)"

definition guardM :: "bool \<Rightarrow> failure \<Rightarrow> ('s, unit) op" where
  "guardM b e = (if b then retM () else throwM e)"

definition whenM :: "bool \<Rightarrow> ('s, unit) op \<Rightarrow> ('s, unit) op" where
  "whenM b m = (if b then m else retM ())"

text \<open>A range loop that returns at the first error, and one with an accumulator.\<close>

primrec forM :: "'a list \<Rightarrow> ('a \<Rightarrow> ('s, unit) op) \<Rightarrow> ('s, unit) op" where
  "forM [] f = retM ()"
| "forM (x # xs) f = thenM (f x) (forM xs f)"

primrec foldM :: "('b \<Rightarrow> 'a \<Rightarrow> ('s, 'b) op) \<Rightarrow> 'b \<Rightarrow> 'a list \<Rightarrow> ('s, 'b) op" where
  "foldM f acc [] = retM acc"
| "foldM f acc (x # xs) = bindM (f acc x) (\<lambda>acc'. foldM f acc' xs)"

primrec mapM :: "('a \<Rightarrow> ('s, 'b) op) \<Rightarrow> 'a list \<Rightarrow> ('s, 'b list) op" where
  "mapM f [] = retM []"
| "mapM f (x # xs) = bindM (f x) (\<lambda>y. bindM (mapM f xs) (\<lambda>ys. retM (y # ys)))"

definition liftE :: "failure + 'a \<Rightarrow> ('s, 'a) op" where
  "liftE r s = (r, s)"

section \<open>64-bit integers of Go\<close>

text \<open>\<open>int\<close>, \<open>int64\<close> and \<open>time.Duration\<close> are two's complement with 64 bits; results wrap.\<close>

definition wrap64 :: "int \<Rightarrow> int" where
  "wrap64 x = (x + 2 ^ 63) mod 2 ^ 64 - 2 ^ 63"

definition in64 :: "int \<Rightarrow> bool" where
  "in64 x \<longleftrightarrow> - (2 ^ 63) \<le> x \<and> x < 2 ^ 63"

text \<open>Go's integer division truncates toward zero.\<close>

definition go_div :: "int \<Rightarrow> int \<Rightarrow> int" where
  "go_div a b = (if (a < 0) = (b < 0) then \<bar>a\<bar> div \<bar>b\<bar> else - (\<bar>a\<bar> div \<bar>b\<bar>))"

text \<open>\<open>Time.Sub\<close> saturates at the bounds of \<open>Duration\<close>.\<close>

definition sat64 :: "int \<Rightarrow> int" where
  "sat64 x = max (- (2 ^ 63)) (min (2 ^ 63 - 1) x)"

section \<open>Counting loops\<close>

text \<open>
  The pattern \<open>for _, x := range xs { for _, y := range ys { if eq(x, y) { counter++ } } }\<close>.
\<close>

primrec count_pairs :: "('a \<Rightarrow> 'b \<Rightarrow> bool) \<Rightarrow> 'a list \<Rightarrow> 'b list \<Rightarrow> nat" where
  "count_pairs eq [] ys = 0"
| "count_pairs eq (x # xs) ys = length (filter (eq x) ys) + count_pairs eq xs ys"

section \<open>Tables\<close>

definition update_where :: "('r \<Rightarrow> bool) \<Rightarrow> ('r \<Rightarrow> 'r) \<Rightarrow> 'r list \<Rightarrow> 'r list" where
  "update_where P f rows = map (\<lambda>r. if P r then f r else r) rows"

definition delete_where :: "('r \<Rightarrow> bool) \<Rightarrow> 'r list \<Rightarrow> 'r list" where
  "delete_where P rows = filter (\<lambda>r. \<not> P r) rows"

text \<open>
  \<open>ORDER BY\<close> an integer column, ascending or descending. SQL leaves the order of rows with equal
  keys open; here they stay in table order, and no property below depends on it.
\<close>

definition order_asc :: "('r \<Rightarrow> int) \<Rightarrow> 'r list \<Rightarrow> 'r list" where
  "order_asc k rows = sort_key k rows"

definition order_desc :: "('r \<Rightarrow> int) \<Rightarrow> 'r list \<Rightarrow> 'r list" where
  "order_desc k rows = sort_key (\<lambda>r. - k r) rows"

section \<open>Lemmas on operations\<close>

lemma retM_run [op_simps, simp]: "retM x s = (Inr x, s)"
  by (simp add: retM_def)

lemma throwM_run [op_simps, simp]: "throwM e s = (Inl e, s)"
  by (simp add: throwM_def)

lemma getM_run [op_simps, simp]: "getM f s = (Inr (f s), s)"
  by (simp add: getM_def)

lemma modifyM_run [op_simps, simp]: "modifyM f s = (Inr (), f s)"
  by (simp add: modifyM_def)

lemma liftE_run [op_simps, simp]: "liftE r s = (r, s)"
  by (simp add: liftE_def)

lemma derefM_simps [op_simps, simp]:
  "derefM None = throwM Panic" "derefM (Some x) = retM x"
  by (simp_all add: derefM_def)

lemma guardM_simps [op_simps, simp]:
  "guardM True e = retM ()" "guardM False e = throwM e"
  by (simp_all add: guardM_def)

lemma whenM_simps [op_simps, simp]:
  "whenM True m = m" "whenM False m = retM ()"
  by (simp_all add: whenM_def)

lemma bindM_Inr [op_simps]: "m s = (Inr x, s') \<Longrightarrow> bindM m f s = f x s'"
  by (simp add: bindM_def)

lemma bindM_Inl [op_simps]: "m s = (Inl e, s') \<Longrightarrow> bindM m f s = (Inl e, s')"
  by (simp add: bindM_def)

lemma thenM_Inr [op_simps]: "m s = (Inr x, s') \<Longrightarrow> thenM m k s = k s'"
  by (simp add: thenM_def bindM_def)

lemma thenM_Inl [op_simps]: "m s = (Inl e, s') \<Longrightarrow> thenM m k s = (Inl e, s')"
  by (simp add: thenM_def bindM_def)

lemma monad_ret: "bindM (retM x) f = f x" "thenM (retM x) k = k" "bindM m retM = m"
  by (auto simp: fun_eq_iff thenM_def bindM_def split: prod.splits sum.splits)

lemma tryM_Inr [op_simps]: "m s = (Inr x, s') \<Longrightarrow> tryM m s = (Inr (Inr x), s')"
  by (simp add: tryM_def)

lemma tryM_error [op_simps]:
  "m s = (Inl e, s') \<Longrightarrow> is_error e \<Longrightarrow> tryM m s = (Inr (Inl e), s')"
  by (simp add: tryM_def)

lemma tryM_panic [op_simps]:
  "m s = (Inl e, s') \<Longrightarrow> \<not> is_error e \<Longrightarrow> tryM m s = (Inl e, s')"
  by (simp add: tryM_def)

lemma ignoreM_Inr [op_simps]: "m s = (Inr x, s') \<Longrightarrow> ignoreM m s = (Inr (), s')"
  by (simp add: ignoreM_def bindM_def tryM_def)

lemma ignoreM_error [op_simps]:
  "m s = (Inl e, s') \<Longrightarrow> is_error e \<Longrightarrow> ignoreM m s = (Inr (), s')"
  by (simp add: ignoreM_def bindM_def tryM_def)

lemma bindM_eq_Inr [elim]:
  assumes "bindM m f s = (Inr y, t)"
  obtains x s' where "m s = (Inr x, s')" "f x s' = (Inr y, t)"
  using assms by (auto simp: bindM_def split: prod.splits sum.splits)

lemma thenM_eq_Inr [elim]:
  assumes "thenM m k s = (Inr y, t)"
  obtains x s' where "m s = (Inr x, s')" "k s' = (Inr y, t)"
  using assms by (auto simp: thenM_def elim!: bindM_eq_Inr)

lemma forM_append: "forM (xs @ ys) f = thenM (forM xs f) (forM ys f)"
  by (induction xs) (auto simp: fun_eq_iff thenM_def bindM_def split: prod.splits sum.splits)

subsection \<open>What operations keep\<close>

text \<open>
  \<open>keeps R m\<close>: whatever \<open>m\<close> returns, the state it leaves is related by \<open>R\<close> to the one it got.
\<close>

definition keeps :: "('s \<Rightarrow> 's \<Rightarrow> bool) \<Rightarrow> ('s, 'a) op \<Rightarrow> bool" where
  "keeps R m \<longleftrightarrow> (\<forall>s. R s (snd (m s)))"

lemma keepsI: "(\<And>s. R s (snd (m s))) \<Longrightarrow> keeps R m"
  by (simp add: keeps_def)

lemma keepsD: "keeps R m \<Longrightarrow> R s (snd (m s))"
  by (simp add: keeps_def)

lemma keeps_mono: "keeps R m \<Longrightarrow> (\<And>s t. R s t \<Longrightarrow> R' s t) \<Longrightarrow> keeps R' m"
  by (simp add: keeps_def)

locale op_relation =
  fixes R :: "'s \<Rightarrow> 's \<Rightarrow> bool"
  assumes rel_refl: "R s s"
    and rel_trans: "R s t \<Longrightarrow> R t u \<Longrightarrow> R s u"
begin

lemma keeps_retM: "keeps R (retM x)"
  by (auto simp: keeps_def rel_refl)

lemma keeps_throwM: "keeps R (throwM e)"
  by (auto simp: keeps_def rel_refl)

lemma keeps_getM: "keeps R (getM f)"
  by (auto simp: keeps_def rel_refl)

lemma keeps_liftE: "keeps R (liftE r)"
  by (auto simp: keeps_def rel_refl)

lemma keeps_derefM: "keeps R (derefM p)"
  by (cases p) (simp_all add: keeps_retM keeps_throwM)

lemma keeps_guardM: "keeps R (guardM b e)"
  by (cases b) (simp_all add: keeps_retM keeps_throwM)

lemma keeps_bindM: "keeps R m \<Longrightarrow> (\<And>x. keeps R (f x)) \<Longrightarrow> keeps R (bindM m f)"
  unfolding keeps_def bindM_def
  by (auto split: prod.splits sum.splits)
    (metis rel_trans snd_conv)+

lemma keeps_thenM: "keeps R m \<Longrightarrow> keeps R k \<Longrightarrow> keeps R (thenM m k)"
  by (simp add: thenM_def keeps_bindM)

lemma keeps_tryM: "keeps R m \<Longrightarrow> keeps R (tryM m)"
  unfolding keeps_def tryM_def
  by (auto split: prod.splits sum.splits) (metis snd_conv)+

lemma keeps_ignoreM: "keeps R m \<Longrightarrow> keeps R (ignoreM m)"
  by (simp add: ignoreM_def keeps_bindM keeps_tryM keeps_retM)

lemma keeps_whenM: "(b \<Longrightarrow> keeps R m) \<Longrightarrow> keeps R (whenM b m)"
  by (cases b) (simp_all add: keeps_retM)

lemma keeps_if: "(b \<Longrightarrow> keeps R m) \<Longrightarrow> (\<not> b \<Longrightarrow> keeps R k) \<Longrightarrow> keeps R (if b then m else k)"
  by simp

lemma keeps_case_option:
  "(p = None \<Longrightarrow> keeps R m) \<Longrightarrow> (\<And>x. p = Some x \<Longrightarrow> keeps R (f x)) \<Longrightarrow>
   keeps R (case p of None \<Rightarrow> m | Some x \<Rightarrow> f x)"
  by (cases p) simp_all

lemma keeps_case_sum:
  "(\<And>e. p = Inl e \<Longrightarrow> keeps R (g e)) \<Longrightarrow> (\<And>x. p = Inr x \<Longrightarrow> keeps R (f x)) \<Longrightarrow>
   keeps R (case p of Inl e \<Rightarrow> g e | Inr x \<Rightarrow> f x)"
  by (cases p) simp_all

lemma keeps_forM: "(\<And>x. x \<in> set xs \<Longrightarrow> keeps R (f x)) \<Longrightarrow> keeps R (forM xs f)"
  by (induction xs) (simp_all add: keeps_retM keeps_thenM)

lemma keeps_foldM: "(\<And>acc x. x \<in> set xs \<Longrightarrow> keeps R (f acc x)) \<Longrightarrow> keeps R (foldM f acc xs)"
  by (induction xs arbitrary: acc) (simp_all add: keeps_retM keeps_bindM)

lemma keeps_mapM: "(\<And>x. x \<in> set xs \<Longrightarrow> keeps R (f x)) \<Longrightarrow> keeps R (mapM f xs)"
  by (induction xs) (simp_all add: keeps_retM keeps_bindM)

lemmas keeps_rules =
  keeps_retM keeps_throwM keeps_getM keeps_liftE keeps_derefM keeps_guardM keeps_bindM
  keeps_thenM keeps_tryM keeps_ignoreM keeps_whenM keeps_if keeps_case_option keeps_case_sum
  keeps_forM keeps_foldM keeps_mapM

end

subsection \<open>64-bit integers\<close>

lemma wrap64_in64 [simp]: "in64 (wrap64 x)"
  by (simp add: wrap64_def in64_def)

lemma wrap64_id: "in64 x \<Longrightarrow> wrap64 x = x"
  by (simp add: wrap64_def in64_def)

lemma in64_sat64 [simp]: "in64 (sat64 x)"
  by (simp add: in64_def sat64_def)

lemma go_div_nonneg: "0 \<le> a \<Longrightarrow> 0 < b \<Longrightarrow> go_div a b = a div b"
  by (simp add: go_div_def)

subsection \<open>Counting loops\<close>

lemma count_pairs_le: "count_pairs eq xs ys \<le> length xs * length ys"
  by (induction xs) (auto intro: add_mono)

lemma length_filter_eq_distinct:
  "distinct ys \<Longrightarrow> length (filter ((=) x) ys) = (if x \<in> set ys then 1 else 0)"
proof (induction ys)
  case (Cons y ys)
  then show ?case by auto
qed simp

lemma count_pairs_distinct:
  assumes "distinct xs" "distinct ys"
  shows "count_pairs (=) xs ys = card (set xs \<inter> set ys)"
  using assms
  by (induction xs) (auto simp: length_filter_eq_distinct card_insert_if)

lemma count_pairs_eq_length1:
  assumes "distinct xs" "distinct ys"
  shows "count_pairs (=) xs ys = length xs \<longleftrightarrow> set xs \<subseteq> set ys"
proof -
  have "card (set xs \<inter> set ys) = card (set xs) \<longleftrightarrow> set xs \<inter> set ys = set xs"
    by (metis List.finite_set card_subset_eq inf_le1)
  then show ?thesis
    using assms by (simp add: count_pairs_distinct distinct_card[symmetric] inf.absorb_iff1)
qed

lemma count_pairs_eq_length2:
  assumes "distinct xs" "distinct ys"
  shows "count_pairs (=) xs ys = length ys \<longleftrightarrow> set ys \<subseteq> set xs"
proof -
  have "card (set xs \<inter> set ys) = card (set ys) \<longleftrightarrow> set xs \<inter> set ys = set ys"
    by (metis List.finite_set card_subset_eq inf_le2)
  then show ?thesis
    using assms by (simp add: count_pairs_distinct distinct_card[symmetric] inf.absorb_iff2)
qed

lemma count_pairs_self: "count_pairs (=) xs xs \<ge> length xs"
proof -
  have "count_pairs (=) zs ys \<ge> length zs" if "set zs \<subseteq> set ys" for zs ys :: "'a list"
    using that
  proof (induction zs)
    case (Cons z zs)
    then have "filter ((=) z) ys \<noteq> []" by (auto simp: filter_empty_conv)
    with Cons show ?case by (cases "filter ((=) z) ys") auto
  qed simp
  then show ?thesis by simp
qed

subsection \<open>Tables\<close>

lemma map_update_where:
  "(\<And>r. g (f r) = g r) \<Longrightarrow> map g (update_where P f rows) = map g rows"
  by (simp add: update_where_def)

lemma length_update_where [simp]: "length (update_where P f rows) = length rows"
  by (simp add: update_where_def)

lemma set_update_where: "set (update_where P f rows) = (\<lambda>r. if P r then f r else r) ` set rows"
  by (simp add: update_where_def)

lemma set_delete_where [simp]: "set (delete_where P rows) = {r \<in> set rows. \<not> P r}"
  by (auto simp: delete_where_def)

lemma distinct_map_filter: "distinct (map f xs) \<Longrightarrow> distinct (map f (filter P xs))"
  by (induction xs) auto

lemma distinct_delete_where: "distinct (map k rows) \<Longrightarrow> distinct (map k (delete_where P rows))"
  by (simp add: delete_where_def distinct_map_filter)

lemma order_asc_set [simp]: "set (order_asc k rows) = set rows"
  by (simp add: order_asc_def)

lemma order_desc_set [simp]: "set (order_desc k rows) = set rows"
  by (simp add: order_desc_def)

lemma order_asc_sorted: "sorted (map k (order_asc k rows))"
  by (simp add: order_asc_def)

lemma find_filter: "find P xs = (case filter P xs of [] \<Rightarrow> None | x # _ \<Rightarrow> Some x)"
  by (induction xs) auto

lemma filter_key_unique:
  assumes "distinct (map k rows)" "r \<in> set rows"
  shows "filter (\<lambda>x. k x = k r) rows = [r]"
  using assms
proof (induction rows)
  case (Cons x xs)
  show ?case
  proof (cases "x = r")
    case True
    with Cons.prems have "filter (\<lambda>y. k y = k r) xs = []" by (auto simp: filter_empty_conv image_iff)
    with True show ?thesis by simp
  next
    case False
    with Cons.prems have "r \<in> set xs" and "k x \<noteq> k r" by auto
    with Cons show ?thesis by simp
  qed
qed simp

end
