(* ===== verification/Core_Types.thy ===== *)
theory Core_Types
  imports Prelude Complex_Main
begin

text \<open>
  The data of \<open>pkg/core\<close>: function specifications, processes, attributes, executors, with their
  constructors, setters and \<open>Equals\<close> methods.

  Conventions. A Go field \<open>F\<close> of struct \<open>S\<close> is the record field \<open>s_F\<close>. A slice or map whose
  nil-ness the code looks at is an \<open>option\<close> (\<open>None\<close> is nil); where nil and empty behave alike it is
  a list. A Go map is an association list with distinct keys, in one of its iteration orders.
  \<open>time.Time\<close> is the number of nanoseconds since the Unix epoch. \<open>interface{}\<close> values are those
  \<open>encoding/json\<close> makes; a finite \<open>float64\<close> is the rational number it denotes.
\<close>

section \<open>Values\<close>

type_synonym time = int

text \<open>The zero \<open>time.Time\<close> is 1 January of year 1, UTC.\<close>

definition time_zero :: time where
  "time_zero = - 62135596800 * 10 ^ 9"

definition time_Unix :: "time \<Rightarrow> int" where
  "time_Unix t = t div 10 ^ 9"

definition time_Sub :: "time \<Rightarrow> time \<Rightarrow> int" where
  "time_Sub t u = sat64 (t - u)"

text \<open>\<open>time.Duration(n) * time.Second\<close>\<close>

definition seconds :: "int \<Rightarrow> int" where
  "seconds n = wrap64 (n * 10 ^ 9)"

datatype iface =
    INil
  | IBool bool
  | INum rat
  | IStr string
  | IArr "iface list"
  | IMap "(string \<times> iface) list"

text \<open>
  \<open>a == b\<close> on interface values panics when both hold the same uncomparable dynamic type (slice,
  map); values of different dynamic types are unequal.
\<close>

fun iface_panics :: "iface \<Rightarrow> iface \<Rightarrow> bool" where
  "iface_panics (IArr _) (IArr _) = True"
| "iface_panics (IMap _) (IMap _) = True"
| "iface_panics _ _ = False"

text \<open>The counting loop over interface values, with the panic of a comparison.\<close>

definition iface_count :: "iface list \<Rightarrow> iface list \<Rightarrow> failure + nat" where
  "iface_count xs ys =
     (if \<exists>x \<in> set xs. \<exists>y \<in> set ys. iface_panics x y then Inl Panic
      else Inr (count_pairs (=) xs ys))"

text \<open>A slice or map of which only the elements matter.\<close>

fun elems :: "'a list option \<Rightarrow> 'a list" where
  "elems None = []"
| "elems (Some xs) = xs"

text \<open>Indexing a map of strings: a missing key gives the empty string.\<close>

definition env_get :: "(string \<times> string) list \<Rightarrow> string \<Rightarrow> string" where
  "env_get m k = (case map_of m k of None \<Rightarrow> '''' | Some v \<Rightarrow> v)"

section \<open>Constants\<close>

text \<open>Process states.\<close>

definition WAITING :: int where "WAITING = 0"
definition RUNNING :: int where "RUNNING = 1"
definition SUCCESS :: int where "SUCCESS = 2"
definition FAILED :: int where "FAILED = 3"
definition NOTSET :: int where "NOTSET = -1"

text \<open>Executor states.\<close>

definition PENDING :: int where "PENDING = 0"
definition APPROVED :: int where "APPROVED = 1"
definition REJECTED :: int where "REJECTED = 2"

text \<open>Attribute types.\<close>

definition attr_IN :: int where "attr_IN = 0"
definition attr_OUT :: int where "attr_OUT = 1"
definition attr_ERR :: int where "attr_ERR = 2"
definition attr_ENV :: int where "attr_ENV = 3"

lemmas state_defs = WAITING_def RUNNING_def SUCCESS_def FAILED_def NOTSET_def
lemmas exec_state_defs = PENDING_def APPROVED_def REJECTED_def
lemmas attr_type_defs = attr_IN_def attr_OUT_def attr_ERR_def attr_ENV_def

section \<open>Function specifications\<close>

record SnapshotMount =
  sm_SnapshotID :: string
  sm_Label :: string
  sm_Dir :: string
  sm_KeepFiles :: bool
  sm_KeepSnaphot :: bool

record ConflictResolution =
  cr_OnStartKeepLocal :: bool
  cr_OnCloseKeepLocal :: bool

record SyncDirMount =
  sd_Label :: string
  sd_Dir :: string
  sd_KeepFiles :: bool
  sd_ConflictResolution :: ConflictResolution

record Filesystem =
  fs_Mount :: string
  fs_SnapshotMounts :: "SnapshotMount list"
  fs_SyncDirMounts :: "SyncDirMount list"

record GPU =
  gpu_Name :: string
  gpu_Memory :: string
  gpu_Count :: int
  gpu_NodeCount :: int

record Conditions =
  cond_ColonyName :: string
  cond_ExecutorNames :: "string list option"
  cond_ExecutorType :: string
  cond_Dependencies :: "string list option"
  cond_Nodes :: int
  cond_CPU :: string
  cond_Processes :: int
  cond_ProcessesPerNode :: int
  cond_Memory :: string
  cond_Storage :: string
  cond_GPU :: GPU
  cond_WallTime :: int

record FunctionSpec =
  spec_NodeName :: string
  spec_FuncName :: string
  spec_Args :: "iface list option"
  spec_KwArgs :: "(string \<times> iface) list option"
  spec_Priority :: int
  spec_MaxWaitTime :: int
  spec_MaxExecTime :: int
  spec_MaxRetries :: int
  spec_Conditions :: Conditions
  spec_Label :: string
  spec_Filesystem :: Filesystem
  spec_Env :: "(string \<times> string) list option"

definition zero_GPU :: GPU where
  "zero_GPU = \<lparr>gpu_Name = '''', gpu_Memory = '''', gpu_Count = 0, gpu_NodeCount = 0\<rparr>"

definition zero_Filesystem :: Filesystem where
  "zero_Filesystem = \<lparr>fs_Mount = '''', fs_SnapshotMounts = [], fs_SyncDirMounts = []\<rparr>"

definition zero_Conditions :: Conditions where
  "zero_Conditions = \<lparr>cond_ColonyName = '''', cond_ExecutorNames = None, cond_ExecutorType = '''',
     cond_Dependencies = None, cond_Nodes = 0, cond_CPU = '''', cond_Processes = 0,
     cond_ProcessesPerNode = 0, cond_Memory = '''', cond_Storage = '''', cond_GPU = zero_GPU,
     cond_WallTime = 0\<rparr>"

definition CreateEmptyFunctionSpec :: FunctionSpec where
  "CreateEmptyFunctionSpec = \<lparr>spec_NodeName = '''', spec_FuncName = '''', spec_Args = Some [],
     spec_KwArgs = Some [], spec_Priority = 0, spec_MaxWaitTime = 0, spec_MaxExecTime = -1,
     spec_MaxRetries = -1, spec_Conditions = zero_Conditions, spec_Label = '''',
     spec_Filesystem = zero_Filesystem, spec_Env = Some []\<rparr>"

definition CreateFunctionSpec ::
  "string \<Rightarrow> string \<Rightarrow> iface list option \<Rightarrow> (string \<times> iface) list option \<Rightarrow> string \<Rightarrow>
   string list option \<Rightarrow> string \<Rightarrow> int \<Rightarrow> int \<Rightarrow> int \<Rightarrow> (string \<times> string) list option \<Rightarrow>
   string list option \<Rightarrow> int \<Rightarrow> string \<Rightarrow> FunctionSpec" where
  "CreateFunctionSpec nodeName funcName args kwargs colonyName executorNames executorType
     maxWaitTime maxExecTime maxRetries env dependencies priority label =
     \<lparr>spec_NodeName = nodeName, spec_FuncName = funcName, spec_Args = Some (elems args),
      spec_KwArgs = Some (elems kwargs), spec_Priority = priority,
      spec_MaxWaitTime = maxWaitTime, spec_MaxExecTime = maxExecTime, spec_MaxRetries = maxRetries,
      spec_Conditions = zero_Conditions\<lparr>cond_ColonyName := colonyName,
         cond_ExecutorNames := executorNames, cond_ExecutorType := executorType,
         cond_Dependencies := dependencies\<rparr>,
      spec_Label = label, spec_Filesystem = zero_Filesystem, spec_Env = env\<rparr>"

text \<open>
  The nil tests and the counting test that the \<open>Equals\<close> methods repeat:
  \<open>counter != len(xs) && counter != len(ys)\<close> is the only way a pair of slices counts as different.
\<close>

definition same_nil :: "'a list option \<Rightarrow> 'b list option \<Rightarrow> bool" where
  "same_nil xs ys \<longleftrightarrow> (xs = None) = (ys = None)"

definition counter_ok :: "nat \<Rightarrow> 'a list \<Rightarrow> 'b list \<Rightarrow> bool" where
  "counter_ok c xs ys \<longleftrightarrow> \<not> (c \<noteq> length xs \<and> c \<noteq> length ys)"

definition strings_match :: "string list \<Rightarrow> string list \<Rightarrow> bool" where
  "strings_match xs ys = counter_ok (count_pairs (=) xs ys) xs ys"

definition ifaces_match :: "iface list \<Rightarrow> iface list \<Rightarrow> failure + bool" where
  "ifaces_match xs ys = map_sum id (\<lambda>c. counter_ok c xs ys) (iface_count xs ys)"

text \<open>Keyword arguments compare the values first (which may panic) and then the names.\<close>

definition kwargs_match :: "(string \<times> iface) list \<Rightarrow> (string \<times> iface) list \<Rightarrow> failure + bool" where
  "kwargs_match xs ys =
     (if \<exists>x \<in> set xs. \<exists>y \<in> set ys. iface_panics (snd x) (snd y) then Inl Panic
      else Inr (counter_ok (count_pairs (\<lambda>x y. snd x = snd y \<and> fst x = fst y) xs ys) xs ys))"

definition env_match :: "(string \<times> string) list \<Rightarrow> (string \<times> string) list \<Rightarrow> bool" where
  "env_match m1 m2 \<longleftrightarrow>
     (let counter = length (filter (\<lambda>(k, v). env_get m2 k = v) m1)
      in counter = length m1 \<and> counter = length m2)"

definition conditions_same :: "Conditions \<Rightarrow> Conditions \<Rightarrow> bool" where
  "conditions_same c1 c2 \<longleftrightarrow>
     gpu_Name (cond_GPU c1) = gpu_Name (cond_GPU c2) \<and>
     gpu_Count (cond_GPU c1) = gpu_Count (cond_GPU c2) \<and>
     gpu_Memory (cond_GPU c1) = gpu_Memory (cond_GPU c2) \<and>
     cond_CPU c1 = cond_CPU c2 \<and>
     cond_Processes c1 = cond_Processes c2 \<and>
     cond_ProcessesPerNode c1 = cond_ProcessesPerNode c2 \<and>
     cond_Memory c1 = cond_Memory c2 \<and>
     cond_Storage c1 = cond_Storage c2 \<and>
     cond_Nodes c1 = cond_Nodes c2 \<and>
     cond_WallTime c1 = cond_WallTime c2"

definition syncdir_same :: "SyncDirMount \<Rightarrow> SyncDirMount \<Rightarrow> bool" where
  "syncdir_same a b \<longleftrightarrow> sd_Label a = sd_Label b \<and> sd_Dir a = sd_Dir b \<and> sd_KeepFiles a = sd_KeepFiles b"

definition snapshot_mount_same :: "SnapshotMount \<Rightarrow> SnapshotMount \<Rightarrow> bool" where
  "snapshot_mount_same a b \<longleftrightarrow>
     sm_SnapshotID a = sm_SnapshotID b \<and> sm_Dir a = sm_Dir b \<and> sm_Label a = sm_Label b \<and>
     sm_KeepFiles a = sm_KeepFiles b \<and> sm_KeepSnaphot a = sm_KeepSnaphot b"

definition sum_bind :: "failure + 'a \<Rightarrow> ('a \<Rightarrow> failure + 'b) \<Rightarrow> failure + 'b" where
  "sum_bind m f = (case m of Inl e \<Rightarrow> Inl e | Inr x \<Rightarrow> f x)"

definition FunctionSpec_Equals :: "FunctionSpec \<Rightarrow> FunctionSpec option \<Rightarrow> failure + bool" where
  "FunctionSpec_Equals f f2 = (case f2 of None \<Rightarrow> Inr False | Some g \<Rightarrow>
     (let c1 = spec_Conditions f; c2 = spec_Conditions g;
          basic = (spec_NodeName f = spec_NodeName g \<and> spec_FuncName f = spec_FuncName g \<and>
            spec_MaxWaitTime f = spec_MaxWaitTime g \<and> spec_MaxExecTime f = spec_MaxExecTime g \<and>
            spec_MaxRetries f = spec_MaxRetries g \<and> cond_ColonyName c1 = cond_ColonyName c2 \<and>
            cond_ExecutorType c1 = cond_ExecutorType c2 \<and> spec_Priority f = spec_Priority g \<and>
            spec_Label f = spec_Label g)
      in sum_bind (if same_nil (spec_Args f) (spec_Args g)
           then ifaces_match (elems (spec_Args f)) (elems (spec_Args g)) else Inr False) (\<lambda>args.
         sum_bind (if same_nil (spec_KwArgs f) (spec_KwArgs g)
           then kwargs_match (elems (spec_KwArgs f)) (elems (spec_KwArgs g)) else Inr False) (\<lambda>kwargs.
         (let names = (same_nil (cond_ExecutorNames c1) (cond_ExecutorNames c2) \<and>
                strings_match (elems (cond_ExecutorNames c1)) (elems (cond_ExecutorNames c2)) \<and>
                conditions_same c1 c2);
              deps = (same_nil (cond_Dependencies c1) (cond_Dependencies c2) \<and>
                strings_match (elems (cond_Dependencies c1)) (elems (cond_Dependencies c2)));
              env = (same_nil (spec_Env f) (spec_Env g) \<and>
                env_match (elems (spec_Env f)) (elems (spec_Env g)));
              fs1 = spec_Filesystem f; fs2 = spec_Filesystem g
          in if length (fs_SyncDirMounts fs1) \<noteq> length (fs_SyncDirMounts fs2) then Inr False
             else if length (fs_SnapshotMounts fs1) \<noteq> length (fs_SnapshotMounts fs2) then Inr False
             else Inr (basic \<and> args \<and> kwargs \<and> names \<and> deps \<and> env \<and>
               fs_Mount fs1 = fs_Mount fs2 \<and>
               list_all2 syncdir_same (fs_SyncDirMounts fs1) (fs_SyncDirMounts fs2) \<and>
               list_all2 snapshot_mount_same (fs_SnapshotMounts fs1) (fs_SnapshotMounts fs2)))))))"

definition AddDependency :: "FunctionSpec \<Rightarrow> string \<Rightarrow> FunctionSpec" where
  "AddDependency f dependency =
     f\<lparr>spec_Conditions := (spec_Conditions f)
        \<lparr>cond_Dependencies := Some (elems (cond_Dependencies (spec_Conditions f)) @ [dependency])\<rparr>\<rparr>"

text \<open>The defaults that \<open>ConvertJSONToFunctionSpec\<close> sets after decoding.\<close>

definition ConvertJSONToFunctionSpec_defaults :: "FunctionSpec \<Rightarrow> FunctionSpec" where
  "ConvertJSONToFunctionSpec_defaults f =
     (let f1 = (if spec_MaxWaitTime f = 0 then f\<lparr>spec_MaxWaitTime := -1\<rparr> else f)
      in if spec_MaxExecTime f1 = 0 then f1\<lparr>spec_MaxExecTime := -1\<rparr> else f1)"

record WorkflowSpec =
  wf_ColonyName :: string
  wf_FunctionSpecs :: "FunctionSpec list"

section \<open>Attributes\<close>

record Attribute =
  attr_ID :: string
  attr_TargetID :: string
  attr_TargetColonyName :: string
  attr_TargetProcessGraphID :: string
  attr_State :: int
  attr_AttributeType :: int
  attr_Key :: string
  attr_Value :: string

text \<open>\<open>strconv.Itoa\<close> in base 10.\<close>

fun digits10 :: "nat \<Rightarrow> string" where
  "digits10 n = (if n < 10 then [char_of (48 + n)] else digits10 (n div 10) @ [char_of (48 + n mod 10)])"

declare digits10.simps [simp del]

definition Itoa :: "int \<Rightarrow> string" where
  "Itoa i = (if i < 0 then CHR ''-'' # digits10 (nat (- i)) else digits10 (nat i))"

text \<open>\<open>hash\<close> is \<open>crypto.GenerateHash\<close>, the SHA3-256 digest in hexadecimal.\<close>

definition GenerateID :: "(string \<Rightarrow> string) \<Rightarrow> Attribute \<Rightarrow> Attribute" where
  "GenerateID hash a =
     a\<lparr>attr_ID := hash (attr_TargetID a @ attr_Key a @ Itoa (attr_AttributeType a))\<rparr>"

definition CreateAttribute ::
  "(string \<Rightarrow> string) \<Rightarrow> string \<Rightarrow> string \<Rightarrow> string \<Rightarrow> int \<Rightarrow> string \<Rightarrow> string \<Rightarrow> Attribute" where
  "CreateAttribute hash targetID targetColonyName targetProcessGraphID attributeType key val =
     GenerateID hash \<lparr>attr_ID = '''', attr_TargetID = targetID,
       attr_TargetColonyName = targetColonyName,
       attr_TargetProcessGraphID = targetProcessGraphID, attr_State = PENDING,
       attr_AttributeType = attributeType, attr_Key = key, attr_Value = val\<rparr>"

definition Attribute_SetValue :: "string \<Rightarrow> Attribute \<Rightarrow> Attribute" where
  "Attribute_SetValue v a = a\<lparr>attr_Value := v\<rparr>"

definition Attribute_Equals :: "Attribute \<Rightarrow> Attribute \<Rightarrow> bool" where
  "Attribute_Equals a b \<longleftrightarrow>
     attr_ID a = attr_ID b \<and> attr_TargetID a = attr_TargetID b \<and>
     attr_TargetColonyName a = attr_TargetColonyName b \<and>
     attr_TargetProcessGraphID a = attr_TargetProcessGraphID b \<and>
     attr_State a = attr_State b \<and> attr_AttributeType a = attr_AttributeType b \<and>
     attr_Key a = attr_Key b \<and> attr_Value a = attr_Value b"

definition IsAttributeArraysEqual :: "Attribute list \<Rightarrow> Attribute list \<Rightarrow> bool" where
  "IsAttributeArraysEqual as bs \<longleftrightarrow>
     (let counter = count_pairs Attribute_Equals as bs
      in counter = length as \<and> counter = length bs)"

section \<open>Processes\<close>

record Process =
  proc_ID :: string
  proc_InitiatorID :: string
  proc_InitiatorName :: string
  proc_AssignedExecutorID :: string
  proc_IsAssigned :: bool
  proc_State :: int
  proc_PriorityTime :: int
  proc_SubmissionTime :: time
  proc_StartTime :: time
  proc_EndTime :: time
  proc_WaitDeadline :: time
  proc_ExecDeadline :: time
  proc_Retries :: int
  proc_Attributes :: "Attribute list"
  proc_FunctionSpec :: FunctionSpec
  proc_WaitForParents :: bool
  proc_Parents :: "string list"
  proc_Children :: "string list"
  proc_ProcessGraphID :: string
  proc_Input :: "iface list"
  proc_Output :: "iface list"
  proc_Errors :: "string list"

text \<open>\<open>pid\<close> is the hash of a fresh UUID.\<close>

definition CreateProcess :: "string \<Rightarrow> FunctionSpec \<Rightarrow> Process" where
  "CreateProcess pid funcSpec =
     \<lparr>proc_ID = pid, proc_InitiatorID = '''', proc_InitiatorName = '''',
      proc_AssignedExecutorID = '''', proc_IsAssigned = False, proc_State = WAITING,
      proc_PriorityTime = 0, proc_SubmissionTime = time_zero, proc_StartTime = time_zero,
      proc_EndTime = time_zero, proc_WaitDeadline = time_zero, proc_ExecDeadline = time_zero,
      proc_Retries = 0, proc_Attributes = [], proc_FunctionSpec = funcSpec,
      proc_WaitForParents = False, proc_Parents = [], proc_Children = [],
      proc_ProcessGraphID = '''', proc_Input = [], proc_Output = [], proc_Errors = []\<rparr>"

definition CreateProcessFromDB ::
  "FunctionSpec \<Rightarrow> string \<Rightarrow> string \<Rightarrow> bool \<Rightarrow> int \<Rightarrow> int \<Rightarrow> time \<Rightarrow> time \<Rightarrow> time \<Rightarrow> time \<Rightarrow> time \<Rightarrow>
   string list \<Rightarrow> int \<Rightarrow> Attribute list \<Rightarrow> Process" where
  "CreateProcessFromDB funcSpec pid assignedExecutorID isAssigned state priorityTime submissionTime
     startTime endTime waitDeadline execDeadline errors retries attributes =
     (CreateProcess pid funcSpec)\<lparr>proc_AssignedExecutorID := assignedExecutorID,
       proc_IsAssigned := isAssigned, proc_State := state, proc_PriorityTime := priorityTime,
       proc_SubmissionTime := submissionTime, proc_StartTime := startTime, proc_EndTime := endTime,
       proc_WaitDeadline := waitDeadline, proc_ExecDeadline := execDeadline, proc_Errors := errors,
       proc_Retries := retries, proc_Attributes := attributes\<rparr>"

definition Process_scalars_same :: "Process \<Rightarrow> Process \<Rightarrow> bool" where
  "Process_scalars_same p q \<longleftrightarrow>
     proc_ID p = proc_ID q \<and> proc_InitiatorID p = proc_InitiatorID q \<and>
     proc_InitiatorName p = proc_InitiatorName q \<and>
     proc_AssignedExecutorID p = proc_AssignedExecutorID q \<and>
     proc_State p = proc_State q \<and> proc_PriorityTime p = proc_PriorityTime q \<and>
     proc_IsAssigned p = proc_IsAssigned q \<and>
     time_Unix (proc_SubmissionTime p) = time_Unix (proc_SubmissionTime q) \<and>
     time_Unix (proc_StartTime p) = time_Unix (proc_StartTime q) \<and>
     time_Unix (proc_EndTime p) = time_Unix (proc_EndTime q) \<and>
     time_Unix (proc_WaitDeadline p) = time_Unix (proc_WaitDeadline q) \<and>
     time_Unix (proc_ExecDeadline p) = time_Unix (proc_ExecDeadline q) \<and>
     proc_Retries p = proc_Retries q \<and> proc_WaitForParents p = proc_WaitForParents q \<and>
     proc_ProcessGraphID p = proc_ProcessGraphID q"

definition sum_and :: "failure + bool \<Rightarrow> failure + bool \<Rightarrow> failure + bool" where
  "sum_and m k = sum_bind m (\<lambda>b. if b then k else Inr False)"

definition Process_Equals :: "Process \<Rightarrow> Process option \<Rightarrow> failure + bool" where
  "Process_Equals p p2 = (case p2 of None \<Rightarrow> Inr False | Some q \<Rightarrow>
     sum_and (Inr (Process_scalars_same p q))
    (sum_and (ifaces_match (proc_Output p) (proc_Output q))
    (sum_and (ifaces_match (proc_Input p) (proc_Input q))
    (sum_and (Inr (IsAttributeArraysEqual (proc_Attributes p) (proc_Attributes q)))
    (sum_and (FunctionSpec_Equals (proc_FunctionSpec p) (Some (proc_FunctionSpec q)))
    (sum_and (Inr (strings_match (proc_Parents p) (proc_Parents q)))
    (sum_and (Inr (strings_match (proc_Children p) (proc_Children q)))
             (ifaces_match (proc_Output p) (proc_Output q)))))))))"

definition Process_Assign :: "Process \<Rightarrow> Process" where
  "Process_Assign p = p\<lparr>proc_IsAssigned := True\<rparr>"

definition Process_Unassign :: "Process \<Rightarrow> Process" where
  "Process_Unassign p = p\<lparr>proc_IsAssigned := False\<rparr>"

definition SetProcessGraphID :: "string \<Rightarrow> Process \<Rightarrow> Process" where
  "SetProcessGraphID gid p = p\<lparr>proc_ProcessGraphID := gid\<rparr>"

definition SetState :: "int \<Rightarrow> Process \<Rightarrow> Process" where
  "SetState state p = p\<lparr>proc_State := state\<rparr>"

definition SetAssignedExecutorID :: "string \<Rightarrow> Process \<Rightarrow> Process" where
  "SetAssignedExecutorID executorID p =
     p\<lparr>proc_AssignedExecutorID := executorID, proc_IsAssigned := True\<rparr>"

definition SetAttributes :: "Attribute list \<Rightarrow> Process \<Rightarrow> Process" where
  "SetAttributes attributes p = p\<lparr>proc_Attributes := attributes\<rparr>"

text \<open>One unit of priority is worth one day of submission time, in 64-bit arithmetic.\<close>

definition priority_dt :: int where
  "priority_dt = - 1000000000 * 60 * 60 * 24"

definition SetSubmissionTime :: "time \<Rightarrow> Process \<Rightarrow> Process" where
  "SetSubmissionTime submissionTime p =
     p\<lparr>proc_SubmissionTime := submissionTime,
       proc_PriorityTime :=
         wrap64 (wrap64 (spec_Priority (proc_FunctionSpec p) * priority_dt) + wrap64 submissionTime)\<rparr>"

definition SetStartTime :: "time \<Rightarrow> Process \<Rightarrow> Process" where
  "SetStartTime t p = p\<lparr>proc_StartTime := t\<rparr>"

definition SetEndTime :: "time \<Rightarrow> Process \<Rightarrow> Process" where
  "SetEndTime t p = p\<lparr>proc_EndTime := t\<rparr>"

text \<open>Durations in nanoseconds; \<open>now\<close> is the reading of the clock.\<close>

definition WaitingTime :: "time \<Rightarrow> Process \<Rightarrow> int" where
  "WaitingTime now p =
     (if proc_State p = WAITING then time_Sub now (proc_SubmissionTime p)
      else time_Sub (proc_StartTime p) (proc_SubmissionTime p))"

definition ProcessingTime :: "time \<Rightarrow> Process \<Rightarrow> int" where
  "ProcessingTime now p =
     (if proc_State p = RUNNING then time_Sub now (proc_StartTime p)
      else time_Sub (proc_EndTime p) (proc_StartTime p))"

definition AddParent :: "string \<Rightarrow> Process \<Rightarrow> Process" where
  "AddParent parentID p = p\<lparr>proc_Parents := proc_Parents p @ [parentID]\<rparr>"

definition AddChild :: "string \<Rightarrow> Process \<Rightarrow> Process" where
  "AddChild childID p = p\<lparr>proc_Children := proc_Children p @ [childID]\<rparr>"

lemmas setter_defs = Process_Assign_def Process_Unassign_def SetProcessGraphID_def SetState_def
  SetAssignedExecutorID_def SetAttributes_def SetStartTime_def SetEndTime_def AddParent_def
  AddChild_def

end
