(* ===== verification/Parsers.thy ===== *)
theory Parsers
  imports Core_Types "HOL-Library.Sublist" "HOL-Library.AList"
begin

text \<open>
  \<open>pkg/parsers\<close>: CPU and memory quantities as strings and as numbers, with the parts of
  \<open>strconv\<close> and \<open>strings\<close> they use. Ranging over \<open>unitMap\<close> visits its entries in any order, so the
  order is an argument. Strings are byte strings; \<open>ToUpper\<close> is modelled on ASCII.
\<close>

section \<open>Standard library\<close>

definition HasSuffix :: "string \<Rightarrow> string \<Rightarrow> bool" where
  "HasSuffix s suf \<longleftrightarrow> suf = drop (length s - length suf) s \<and> length suf \<le> length s"

definition TrimSuffix :: "string \<Rightarrow> string \<Rightarrow> string" where
  "TrimSuffix s suf = (if HasSuffix s suf then take (length s - length suf) s else s)"

definition upper_char :: "char \<Rightarrow> char" where
  "upper_char c = (let n = of_char c :: nat in if 97 \<le> n \<and> n \<le> 122 then char_of (n - 32) else c)"

definition ToUpper :: "string \<Rightarrow> string" where
  "ToUpper s = map upper_char s"

definition is_digit :: "char \<Rightarrow> bool" where
  "is_digit c \<longleftrightarrow> (let n = of_char c :: nat in 48 \<le> n \<and> n \<le> 57)"

definition digit_val :: "char \<Rightarrow> nat" where
  "digit_val c = of_char c - 48"

definition digits_val :: "string \<Rightarrow> nat" where
  "digits_val s = foldl (\<lambda>acc c. 10 * acc + digit_val c) 0 s"

definition parse_nat :: "string \<Rightarrow> int option" where
  "parse_nat s = (if s \<noteq> [] \<and> list_all is_digit s then Some (int (digits_val s)) else None)"

text \<open>\<open>strconv.ParseInt(s, 10, 64)\<close>: an optional sign, digits, and the range of \<open>int64\<close>.\<close>

definition ParseInt :: "string \<Rightarrow> int option" where
  "ParseInt s =
     (let v = (case s of
          c # cs \<Rightarrow> (if c = CHR ''-'' then map_option uminus (parse_nat cs)
                     else if c = CHR ''+'' then parse_nat cs else parse_nat s)
        | [] \<Rightarrow> None)
      in case v of None \<Rightarrow> None | Some i \<Rightarrow> (if in64 i then Some i else None))"

definition FormatInt :: "int \<Rightarrow> string" where
  "FormatInt i = Itoa i"

section \<open>Quantities\<close>

definition ConvertCPUToInt :: "string \<Rightarrow> failure + int" where
  "ConvertCPUToInt cpu =
     (if HasSuffix cpu ''m'' then
        (case ParseInt (TrimSuffix cpu ''m'') of
           None \<Rightarrow> Inl (Err ''Error converting CPU to int'')
         | Some v \<Rightarrow> Inr v)
      else Inr 0)"

definition unitMap :: "(string \<times> int) list" where
  "unitMap =
     [(''Ki'', 1024), (''KiB'', 1024), (''Mi'', 1024 * 1024), (''MiB'', 1024 * 1024),
      (''Gi'', 1024 * 1024 * 1024), (''GiB'', 1024 * 1024 * 1024),
      (''TiB'', 1024 * 1024 * 1024 * 1024), (''K'', 1000), (''KB'', 1000), (''Kb'', 1000),
      (''M'', 1000 * 1000), (''MB'', 1000 * 1000), (''Mb'', 1000 * 1000),
      (''G'', 1000 * 1000 * 1000), (''Gb'', 1000 * 1000 * 1000),
      (''TB'', 1000 * 1000 * 1000 * 1000), (''Tb'', 1000 * 1000 * 1000 * 1000)]"

text \<open>The loop over the units: the first entry, in iteration order, whose suffix matches.\<close>

definition find_unit :: "(string \<times> int) list \<Rightarrow> string \<Rightarrow> string \<times> string" where
  "find_unit order mem =
     (case find (\<lambda>(u, _). HasSuffix (ToUpper mem) (ToUpper u)) order of
        None \<Rightarrow> ('''', '''')
      | Some (u, _) \<Rightarrow> (TrimSuffix mem u, u))"

definition ConvertMemoryToBytes :: "(string \<times> int) list \<Rightarrow> string \<Rightarrow> failure + int" where
  "ConvertMemoryToBytes order mem =
     (if mem = [] then Inr 0
      else let (numStr, unit) = find_unit order mem
           in case ParseInt numStr of
                None \<Rightarrow> Inl (Err ''error converting memory to int'')
              | Some num \<Rightarrow>
                  (if unit = [] then Inl (Err ''no valid unit found in input'')
                   else Inr (wrap64 (num * the (map_of unitMap unit)))))"

definition ConvertCPUToString :: "int \<Rightarrow> string" where
  "ConvertCPUToString cpu = FormatInt cpu @ ''m''"

definition ConvertMemoryToString :: "int \<Rightarrow> string" where
  "ConvertMemoryToString mem = FormatInt (go_div mem (1024 * 1024)) @ ''Mi''"

section \<open>Decimal round trip\<close>

lemma HasSuffix_append [simp]: "HasSuffix (s @ suf) suf"
  by (simp add: HasSuffix_def)

lemma HasSuffix_suffix: "HasSuffix s suf \<longleftrightarrow> suffix suf s"
  by (auto simp: HasSuffix_def suffix_def)
    (metis append_take_drop_id)

lemma TrimSuffix_append [simp]: "TrimSuffix (s @ suf) suf = s"
  by (simp add: TrimSuffix_def)

lemma digit_char:
  assumes "d < 10"
  shows "of_char (char_of (48 + d) :: char) = (48 + d :: nat)"
  using assms by (simp add: of_char_of)

lemma is_digit_char: "(d::nat) < 10 \<Longrightarrow> is_digit (char_of (48 + d))"
  by (simp add: is_digit_def digit_char Let_def)

lemma digits10_digits: "list_all is_digit (digits10 n)"
proof (induction n rule: digits10.induct)
  case (1 n)
  then show ?case
    by (subst digits10.simps) (auto simp: is_digit_char)
qed

lemma digits10_nonempty: "digits10 n \<noteq> []"
  by (subst digits10.simps) simp

lemma digits_val_append: "digits_val (s @ [c]) = 10 * digits_val s + digit_val c"
  by (simp add: digits_val_def)

lemma digits_val_digits10 [simp]: "digits_val (digits10 n) = n"
proof (induction n rule: digits10.induct)
  case (1 n)
  show ?case
  proof (cases "n < 10")
    case True
    then show ?thesis
      by (subst digits10.simps) (simp add: digits_val_def digit_val_def digit_char)
  next
    case False
    then show ?thesis
      using 1 by (subst digits10.simps) (simp add: digits_val_append digit_val_def digit_char)
  qed
qed

lemma parse_nat_digits10 [simp]: "parse_nat (digits10 n) = Some (int n)"
  by (simp add: parse_nat_def digits10_digits digits10_nonempty)

lemma digits10_head: "digits10 n = c # cs \<Longrightarrow> c \<noteq> CHR ''-'' \<and> c \<noteq> CHR ''+''"
  using digits10_digits[of n] by (auto simp: is_digit_def)

lemma ParseInt_digits10: "in64 (int n) \<Longrightarrow> ParseInt (digits10 n) = Some (int n)"
  using digits10_head[of n] parse_nat_digits10[of n]
  by (cases "digits10 n") (auto simp: ParseInt_def parse_nat_def Let_def simp del: parse_nat_digits10)

lemma ParseInt_FormatInt:
  assumes "in64 i"
  shows "ParseInt (FormatInt i) = Some i"
proof (cases "i < 0")
  case True
  with assms show ?thesis
    by (simp add: FormatInt_def Itoa_def ParseInt_def)
next
  case False
  with assms show ?thesis
    by (simp add: FormatInt_def Itoa_def ParseInt_digits10)
qed

section \<open>Which unit a quantity has\<close>

text \<open>The units of \<open>unitMap\<close> that match a quantity, whatever the iteration order.\<close>

definition matching_units :: "string \<Rightarrow> (string \<times> int) list" where
  "matching_units mem = filter (\<lambda>(u, _). HasSuffix (ToUpper mem) (ToUpper u)) unitMap"

lemma find_unit_unique:
  assumes "set order = set unitMap" "set (matching_units mem) = {(u, f)}"
  shows "find_unit order mem = (TrimSuffix mem u, u)"
proof -
  let ?P = "\<lambda>(u, _). HasSuffix (ToUpper mem) (ToUpper u)"
  have *: "e \<in> set order \<Longrightarrow> ?P e \<Longrightarrow> e = (u, f)" for e
    using assms by (auto simp: matching_units_def)
  have "(u, f) \<in> set (matching_units mem)" using assms by simp
  then have ex: "(u, f) \<in> set order" "?P (u, f)"
    using assms(1) by (auto simp: matching_units_def)
  then obtain e where e: "find ?P order = Some e"
    by (cases "find ?P order") (auto simp: find_None_iff)
  then have "e = (u, f)"
    using * by (auto simp: find_Some_iff in_set_conv_nth)
  with e show ?thesis by (simp add: find_unit_def)
qed

lemma ToUpper_append: "ToUpper (s @ t) = ToUpper s @ ToUpper t"
  by (simp add: ToUpper_def)

text \<open>A suffix test on \<open>n Mi\<close> only looks at the last characters, of which the digits are never letters.\<close>

lemma upper_digit: "is_digit c \<Longrightarrow> upper_char c = c"
  by (auto simp: upper_char_def is_digit_def Let_def)

lemma ToUpper_digits: "list_all is_digit s \<Longrightarrow> ToUpper s = s"
  by (induction s) (auto simp: ToUpper_def upper_digit)

lemma ToUpper_Itoa: "ToUpper (Itoa i) = Itoa i"
  by (auto simp: Itoa_def digits10_digits ToUpper_digits)
    (auto simp: ToUpper_def upper_char_def digits10_digits
      ToUpper_digits[unfolded ToUpper_def, OF digits10_digits])

lemma HasSuffix_rev: "HasSuffix s u \<longleftrightarrow> prefix (rev u) (rev s)"
  by (simp add: HasSuffix_suffix suffix_to_prefix)

lemma matching_units_Mi: "matching_units (FormatInt i @ ''Mi'') = [(''Mi'', 1024 * 1024)]"
  by (simp add: matching_units_def unitMap_def HasSuffix_rev ToUpper_append FormatInt_def ToUpper_Itoa)
    (simp add: ToUpper_def upper_char_def char_of_def)

lemma go_div_mult_in64: "in64 b \<Longrightarrow> 0 < d \<Longrightarrow> in64 (go_div b d * d)"
proof -
  assume b: "in64 b" and d: "0 < d"
  have "\<bar>b\<bar> div d * d \<le> \<bar>b\<bar>"
    using d pos_mod_sign[of d "\<bar>b\<bar>"] by (simp add: minus_mod_eq_div_mult [symmetric])
  moreover have "0 \<le> \<bar>b\<bar> div d * d"
    using d by (simp add: pos_imp_zdiv_nonneg_iff)
  ultimately show ?thesis
    using b d by (auto simp: in64_def go_div_def abs_if split: if_splits)
qed

lemma go_div_in64: "in64 b \<Longrightarrow> 0 < d \<Longrightarrow> in64 (go_div b d)"
proof -
  assume b: "in64 b" and d: "0 < d"
  have "\<bar>b\<bar> div d \<le> \<bar>b\<bar>"
    using d div_le_dividend[of "nat \<bar>b\<bar>" "nat d"]
    by (metis abs_ge_zero int_nat_eq less_le nat_div_distrib nat_le_eq_zle zdiv_int)
  moreover have "0 \<le> \<bar>b\<bar> div d"
    using d by (simp add: pos_imp_zdiv_nonneg_iff)
  ultimately show ?thesis
    using b d by (auto simp: in64_def go_div_def abs_if split: if_splits)
qed

lemma unitMap_Mi: "map_of unitMap ''Mi'' = Some (1024 * 1024)"
  by (simp add: unitMap_def)

section \<open>Properties\<close>

text \<open>
  The memory column of a process is read back as the number of whole mebibytes that was
  stored: printing a byte count and parsing it again truncates it toward zero to a multiple of
  1 MiB, in every iteration order of the unit table.
\<close>

theorem memory_roundtrip:
  assumes "set order = set unitMap" "in64 b"
  shows "ConvertMemoryToBytes order (ConvertMemoryToString b) =
         Inr (go_div b (1024 * 1024) * (1024 * 1024))"
proof -
  have "find_unit order (ConvertMemoryToString b) = (FormatInt (go_div b (1024 * 1024)), ''Mi'')"
    unfolding ConvertMemoryToString_def
    using find_unit_unique[OF assms(1), where u = "''Mi''" and f = "1024 * 1024"]
    by (simp add: matching_units_Mi)
  then show ?thesis
    using go_div_mult_in64[OF assms(2), of "1024 * 1024"] go_div_in64[OF assms(2), of "1024 * 1024"]
    by (simp add: ConvertMemoryToBytes_def ConvertMemoryToString_def ParseInt_FormatInt unitMap_Mi
        wrap64_id)
qed

theorem memory_roundtrip_witness:
  "ConvertMemoryToBytes unitMap (ConvertMemoryToString 3145729) = Inr 3145728"
  using memory_roundtrip[of unitMap 3145729] by (simp add: in64_def go_div_def)

text \<open>
  The CPU column round-trips exactly for every 64-bit value.
\<close>

theorem cpu_roundtrip:
  assumes "in64 c"
  shows "ConvertCPUToInt (ConvertCPUToString c) = Inr c"
  using assms TrimSuffix_append[of "FormatInt c" "''m''"] HasSuffix_append[of "FormatInt c" "''m''"]
  by (simp add: ConvertCPUToInt_def ConvertCPUToString_def ParseInt_FormatInt)

theorem cpu_roundtrip_witness: "ConvertCPUToInt (ConvertCPUToString 1500) = Inr 1500"
  using cpu_roundtrip[of 1500] by (simp add: in64_def)

text \<open>
  What a quantity written in \<open>KB\<close> means depends on the iteration order of the Go map, since
  the suffix test ignores case and the trimming does not: \<open>10KB\<close> is 10000 bytes when the entry
  \<open>KB\<close> is met before \<open>Kb\<close> and an error otherwise.
\<close>

theorem memory_unit_order_dependent:
  "\<exists>order1 order2. mset order1 = mset unitMap \<and> mset order2 = mset unitMap \<and>
     ConvertMemoryToBytes order1 ''10KB'' = Inr 10000 \<and>
     ConvertMemoryToBytes order2 ''10KB'' = Inl (Err ''error converting memory to int'')"
proof (intro exI conjI)
  show "mset unitMap = mset unitMap" by simp
  show "mset (rev unitMap) = mset unitMap" by simp
  show "ConvertMemoryToBytes unitMap ''10KB'' = Inr 10000" by code_simp
  show "ConvertMemoryToBytes (rev unitMap) ''10KB'' = Inl (Err ''error converting memory to int'')"
    by code_simp
qed

end
