(* ===== verification/Core_Members.thy ===== *)
theory Core_Members
  imports Core_Types
begin

text \<open>
  The members of a colony and what hangs on them, from \<open>pkg/core\<close>: \<open>executor.go\<close>, \<open>user.go\<close>,
  \<open>colony.go\<close>, \<open>function.go\<close>, \<open>cron.go\<close>, \<open>generator.go\<close>, \<open>generator_arg.go\<close>, \<open>log.go\<close>, \<open>statistics.go\<close>.
\<close>

section \<open>Executors\<close>

record Location =
  loc_Long :: rat
  loc_Lat :: rat
  loc_Description :: string

record Software =
  sw_Name :: string
  sw_Type :: string
  sw_Version :: string

record Hardware =
  hw_Model :: string
  hw_Nodes :: int
  hw_CPU :: string
  hw_Memory :: string
  hw_Storage :: string
  hw_GPU :: GPU

record Capabilities =
  cap_Hardware :: Hardware
  cap_Software :: Software

record Project =
  prj_AllocatedCPU :: int
  prj_UsedCPU :: int
  prj_AllocatedGPU :: int
  prj_UsedGPU :: int
  prj_AllocatedStorage :: int
  prj_UsedStorage :: int

record Allocations =
  alloc_Projects :: "(string \<times> Project) list option"

record Executor =
  exec_ID :: string
  exec_Type :: string
  exec_Name :: string
  exec_ColonyName :: string
  exec_State :: int
  exec_RequireFuncReg :: bool
  exec_CommissionTime :: time
  exec_LastHeardFromTime :: time
  exec_Location :: Location
  exec_Capabilities :: Capabilities
  exec_Allocations :: Allocations

definition zero_Location :: Location where
  "zero_Location = \<lparr>loc_Long = 0, loc_Lat = 0, loc_Description = ''''\<rparr>"

definition zero_Capabilities :: Capabilities where
  "zero_Capabilities =
     \<lparr>cap_Hardware = \<lparr>hw_Model = '''', hw_Nodes = 0, hw_CPU = '''', hw_Memory = '''', hw_Storage = '''', hw_GPU = zero_GPU\<rparr>,
      cap_Software = \<lparr>sw_Name = '''', sw_Type = '''', sw_Version = ''''\<rparr>\<rparr>"

definition zero_Project :: Project where
  "zero_Project = \<lparr>prj_AllocatedCPU = 0, prj_UsedCPU = 0, prj_AllocatedGPU = 0, prj_UsedGPU = 0,
     prj_AllocatedStorage = 0, prj_UsedStorage = 0\<rparr>"

definition CreateExecutor :: "string \<Rightarrow> string \<Rightarrow> string \<Rightarrow> string \<Rightarrow> time \<Rightarrow> time \<Rightarrow> Executor" where
  "CreateExecutor eid executorType name colonyName commissionTime lastHeardFromTime =
     \<lparr>exec_ID = eid, exec_Type = executorType, exec_Name = name, exec_ColonyName = colonyName,
      exec_State = PENDING, exec_RequireFuncReg = False, exec_CommissionTime = commissionTime,
      exec_LastHeardFromTime = lastHeardFromTime, exec_Location = zero_Location,
      exec_Capabilities = zero_Capabilities, exec_Allocations = \<lparr>alloc_Projects = None\<rparr>\<rparr>"

definition CreateExecutorFromDB ::
  "string \<Rightarrow> string \<Rightarrow> string \<Rightarrow> string \<Rightarrow> int \<Rightarrow> bool \<Rightarrow> time \<Rightarrow> time \<Rightarrow> Executor" where
  "CreateExecutorFromDB eid executorType name colonyName state requireFuncReg commissionTime lastHeardFromTime =
     (CreateExecutor eid executorType name colonyName commissionTime lastHeardFromTime)
       \<lparr>exec_State := state, exec_RequireFuncReg := requireFuncReg\<rparr>"

definition IsProjectEqual :: "Project \<Rightarrow> Project \<Rightarrow> bool" where
  "IsProjectEqual p q \<longleftrightarrow>
     prj_AllocatedCPU p = prj_AllocatedCPU q \<and> prj_UsedCPU p = prj_UsedCPU q \<and>
     prj_AllocatedGPU p = prj_AllocatedGPU q \<and> prj_UsedGPU p = prj_UsedGPU q \<and>
     prj_AllocatedStorage p = prj_AllocatedStorage q \<and> prj_UsedStorage p = prj_UsedStorage q"

text \<open>Indexing a map with a missing key gives the zero \<open>Project\<close>.\<close>

definition project_get :: "(string \<times> Project) list \<Rightarrow> string \<Rightarrow> Project" where
  "project_get m k = (case map_of m k of None \<Rightarrow> zero_Project | Some p \<Rightarrow> p)"

definition IsProjectsEqual :: "(string \<times> Project) list \<Rightarrow> (string \<times> Project) list \<Rightarrow> bool" where
  "IsProjectsEqual ps qs \<longleftrightarrow>
     length ps = length qs \<and> (\<forall>(key, p) \<in> set ps. IsProjectEqual p (project_get qs key))"

definition allocations_same :: "Allocations \<Rightarrow> Allocations \<Rightarrow> bool" where
  "allocations_same a b \<longleftrightarrow>
     (case (alloc_Projects a, alloc_Projects b) of
        (None, None) \<Rightarrow> True
      | (None, Some _) \<Rightarrow> False
      | (Some _, None) \<Rightarrow> False
      | (Some ps, Some qs) \<Rightarrow> length ps = length qs \<and> IsProjectsEqual ps qs)"

definition Executor_Equals :: "Executor \<Rightarrow> Executor \<Rightarrow> bool" where
  "Executor_Equals e f \<longleftrightarrow>
     exec_ID e = exec_ID f \<and> exec_Type e = exec_Type f \<and> exec_Name e = exec_Name f \<and>
     exec_ColonyName e = exec_ColonyName f \<and> exec_State e = exec_State f \<and>
     exec_RequireFuncReg e = exec_RequireFuncReg f \<and>
     loc_Lat (exec_Location e) = loc_Lat (exec_Location f) \<and>
     loc_Long (exec_Location e) = loc_Long (exec_Location f) \<and>
     loc_Description (exec_Location e) = loc_Description (exec_Location f) \<and>
     (let h = cap_Hardware (exec_Capabilities e); k = cap_Hardware (exec_Capabilities f);
          s = cap_Software (exec_Capabilities e); t = cap_Software (exec_Capabilities f) in
      hw_Nodes h = hw_Nodes k \<and> hw_CPU h = hw_CPU k \<and> hw_Memory h = hw_Memory k \<and>
      hw_Storage h = hw_Storage k \<and> gpu_Name (hw_GPU h) = gpu_Name (hw_GPU k) \<and>
      gpu_Memory (hw_GPU h) = gpu_Memory (hw_GPU k) \<and> gpu_Count (hw_GPU h) = gpu_Count (hw_GPU k) \<and>
      gpu_NodeCount (hw_GPU h) = gpu_NodeCount (hw_GPU k) \<and>
      sw_Name s = sw_Name t \<and> sw_Type s = sw_Type t \<and> sw_Version s = sw_Version t) \<and>
     allocations_same (exec_Allocations e) (exec_Allocations f)"

definition IsExecutorArraysEqual :: "Executor list \<Rightarrow> Executor list \<Rightarrow> bool" where
  "IsExecutorArraysEqual xs ys \<longleftrightarrow>
     (let counter = count_pairs Executor_Equals xs ys in counter = length xs \<and> counter = length ys)"

definition IsApproved :: "Executor \<Rightarrow> bool" where
  "IsApproved e \<longleftrightarrow> exec_State e = APPROVED"

definition IsRejected :: "Executor \<Rightarrow> bool" where
  "IsRejected e \<longleftrightarrow> exec_State e = REJECTED"

definition IsPending :: "Executor \<Rightarrow> bool" where
  "IsPending e \<longleftrightarrow> exec_State e = PENDING"

definition Approve :: "Executor \<Rightarrow> Executor" where
  "Approve e = e\<lparr>exec_State := APPROVED\<rparr>"

definition Reject :: "Executor \<Rightarrow> Executor" where
  "Reject e = e\<lparr>exec_State := REJECTED\<rparr>"

section \<open>Users, colonies, functions\<close>

record User =
  user_ColonyName :: string
  user_ID :: string
  user_Name :: string
  user_Email :: string
  user_Phone :: string

definition CreateUser :: "string \<Rightarrow> string \<Rightarrow> string \<Rightarrow> string \<Rightarrow> string \<Rightarrow> User" where
  "CreateUser colonyName userID name email phone =
     \<lparr>user_ColonyName = colonyName, user_ID = userID, user_Name = name, user_Email = email, user_Phone = phone\<rparr>"

definition User_Equals :: "User \<Rightarrow> User \<Rightarrow> bool" where
  "User_Equals u v \<longleftrightarrow>
     user_ID u = user_ID v \<and> user_ColonyName u = user_ColonyName v \<and> user_Name u = user_Name v \<and>
     user_Email u = user_Email v \<and> user_Phone u = user_Phone v"

definition IsUserArraysEqual :: "User list \<Rightarrow> User list \<Rightarrow> bool" where
  "IsUserArraysEqual xs ys \<longleftrightarrow>
     (let counter = count_pairs User_Equals xs ys in counter = length xs \<and> counter = length ys)"

record Colony =
  colony_ID :: string
  colony_Name :: string

definition CreateColony :: "string \<Rightarrow> string \<Rightarrow> Colony" where
  "CreateColony cid name = \<lparr>colony_ID = cid, colony_Name = name\<rparr>"

definition Colony_Equals :: "Colony \<Rightarrow> Colony \<Rightarrow> bool" where
  "Colony_Equals c d \<longleftrightarrow> colony_ID c = colony_ID d \<and> colony_Name c = colony_Name d"

definition IsColonyArraysEqual :: "Colony list \<Rightarrow> Colony list \<Rightarrow> bool" where
  "IsColonyArraysEqual xs ys \<longleftrightarrow>
     (let counter = count_pairs Colony_Equals xs ys in counter = length xs \<and> counter = length ys)"

record Function =
  fn_FunctionID :: string
  fn_ExecutorName :: string
  fn_ExecutorType :: string
  fn_ColonyName :: string
  fn_FuncName :: string
  fn_Counter :: int
  fn_MinWaitTime :: rat
  fn_MaxWaitTime :: rat
  fn_MinExecTime :: rat
  fn_MaxExecTime :: rat
  fn_AvgWaitTime :: rat
  fn_AvgExecTime :: rat

definition CreateFunction ::
  "string \<Rightarrow> string \<Rightarrow> string \<Rightarrow> string \<Rightarrow> string \<Rightarrow> int \<Rightarrow> rat \<Rightarrow> rat \<Rightarrow> rat \<Rightarrow> rat \<Rightarrow> rat \<Rightarrow> rat \<Rightarrow> Function" where
  "CreateFunction functionID executorName executorType colonyName funcName cnt
     minWaitTime maxWaitTime minExecTime maxExecTime avgWaitTime avgExecTime =
     \<lparr>fn_FunctionID = functionID, fn_ExecutorName = executorName, fn_ExecutorType = executorType,
      fn_ColonyName = colonyName, fn_FuncName = funcName, fn_Counter = cnt, fn_MinWaitTime = minWaitTime,
      fn_MaxWaitTime = maxWaitTime, fn_MinExecTime = minExecTime, fn_MaxExecTime = maxExecTime,
      fn_AvgWaitTime = avgWaitTime, fn_AvgExecTime = avgExecTime\<rparr>"

definition Function_Equals :: "Function \<Rightarrow> Function \<Rightarrow> bool" where
  "Function_Equals f g \<longleftrightarrow>
     fn_FunctionID f = fn_FunctionID g \<and> fn_ExecutorName f = fn_ExecutorName g \<and>
     fn_ExecutorType f = fn_ExecutorType g \<and> fn_ColonyName f = fn_ColonyName g \<and>
     fn_FuncName f = fn_FuncName g \<and> fn_Counter f = fn_Counter g \<and>
     fn_MinWaitTime f = fn_MinWaitTime g \<and> fn_MaxWaitTime f = fn_MaxWaitTime g \<and>
     fn_MinExecTime f = fn_MinExecTime g \<and> fn_MaxExecTime f = fn_MaxExecTime g \<and>
     fn_AvgWaitTime f = fn_AvgWaitTime g \<and> fn_AvgExecTime f = fn_AvgExecTime g"

definition IsFunctionArraysEqual :: "Function list \<Rightarrow> Function list \<Rightarrow> bool" where
  "IsFunctionArraysEqual xs ys \<longleftrightarrow>
     (let counter = count_pairs Function_Equals xs ys in counter = length xs \<and> counter = length ys)"

section \<open>Crons, generators, logs, statistics\<close>

record Cron =
  cron_ID :: string
  cron_InitiatorID :: string
  cron_InitiatorName :: string
  cron_ColonyName :: string
  cron_Name :: string
  cron_CronExpression :: string
  cron_Interval :: int
  cron_Random :: bool
  cron_NextRun :: time
  cron_LastRun :: time
  cron_WorkflowSpec :: string
  cron_PrevProcessGraphID :: string
  cron_WaitForPrevProcessGraph :: bool
  cron_CheckerPeriod :: int

definition Cron_Equals :: "Cron \<Rightarrow> Cron \<Rightarrow> bool" where
  "Cron_Equals c d \<longleftrightarrow>
     cron_ID c = cron_ID d \<and> cron_ColonyName c = cron_ColonyName d \<and> cron_Name c = cron_Name d \<and>
     cron_CronExpression c = cron_CronExpression d \<and> cron_Interval c = cron_Interval d \<and>
     cron_Random c = cron_Random d \<and> time_Unix (cron_NextRun c) = time_Unix (cron_NextRun d) \<and>
     time_Unix (cron_LastRun c) = time_Unix (cron_LastRun d) \<and> cron_WorkflowSpec c = cron_WorkflowSpec d \<and>
     cron_PrevProcessGraphID c = cron_PrevProcessGraphID d \<and>
     cron_WaitForPrevProcessGraph c = cron_WaitForPrevProcessGraph d \<and>
     cron_CheckerPeriod c = cron_CheckerPeriod d"

text \<open>\<open>now\<close> is the reading of the clock.\<close>

definition HasExpired :: "time \<Rightarrow> Cron \<Rightarrow> bool" where
  "HasExpired now c \<longleftrightarrow> time_Sub now (cron_NextRun c) > 0"

record Generator =
  gen_ID :: string
  gen_InitiatorID :: string
  gen_InitiatorName :: string
  gen_ColonyName :: string
  gen_Name :: string
  gen_WorkflowSpec :: string
  gen_Trigger :: int
  gen_Timeout :: int
  gen_FirstPack :: time
  gen_LastRun :: time
  gen_QueueSize :: int
  gen_CheckerPeriod :: int

definition Generator_Equals :: "Generator \<Rightarrow> Generator \<Rightarrow> bool" where
  "Generator_Equals g h \<longleftrightarrow>
     gen_ID g = gen_ID h \<and> gen_ColonyName g = gen_ColonyName h \<and> gen_Name g = gen_Name h \<and>
     gen_WorkflowSpec g = gen_WorkflowSpec h \<and> gen_Trigger g = gen_Trigger h \<and>
     gen_Timeout g = gen_Timeout h \<and> gen_CheckerPeriod g = gen_CheckerPeriod h \<and>
     gen_QueueSize g = gen_QueueSize h"

record GeneratorArg =
  ga_ID :: string
  ga_GeneratorID :: string
  ga_ColonyName :: string
  ga_Arg :: string

record Log =
  log_ProcessID :: string
  log_ColonyName :: string
  log_ExecutorName :: string
  log_Message :: string
  log_Timestamp :: int

record Statistics =
  stat_Colonies :: int
  stat_Executors :: int
  stat_WaitingProcesses :: int
  stat_RunningProcesses :: int
  stat_SuccessfulProcesses :: int
  stat_FailedProcesses :: int
  stat_WaitingWorkflows :: int
  stat_RunningWorkflows :: int
  stat_SuccessfulWorkflows :: int
  stat_FailedWorkflows :: int

definition CreateStatistics ::
  "int \<Rightarrow> int \<Rightarrow> int \<Rightarrow> int \<Rightarrow> int \<Rightarrow> int \<Rightarrow> int \<Rightarrow> int \<Rightarrow> int \<Rightarrow> int \<Rightarrow> Statistics" where
  "CreateStatistics colonies executors waitingProcesses runningProcesses successfulProcesses failedProcesses
     waitingWorkflows runningWorkflows successfulWorkflows failedWorkflows =
     \<lparr>stat_Colonies = colonies, stat_Executors = executors, stat_WaitingProcesses = waitingProcesses,
      stat_RunningProcesses = runningProcesses, stat_SuccessfulProcesses = successfulProcesses,
      stat_FailedProcesses = failedProcesses, stat_WaitingWorkflows = waitingWorkflows,
      stat_RunningWorkflows = runningWorkflows, stat_SuccessfulWorkflows = successfulWorkflows,
      stat_FailedWorkflows = failedWorkflows\<rparr>"

section \<open>Lemmas\<close>

lemma User_Equals_iff: "User_Equals u v \<longleftrightarrow> u = (v :: User)"
  by (auto simp: User_Equals_def)

lemma Colony_Equals_iff: "Colony_Equals c d \<longleftrightarrow> c = (d :: Colony)"
  by (auto simp: Colony_Equals_def)

lemma Function_Equals_iff: "Function_Equals f g \<longleftrightarrow> f = (g :: Function)"
  by (auto simp: Function_Equals_def)

lemma IsProjectEqual_iff: "IsProjectEqual p q \<longleftrightarrow> p = (q :: Project)"
  by (auto simp: IsProjectEqual_def)

lemma IsProjectsEqual_refl: "distinct (map fst ps) \<Longrightarrow> IsProjectsEqual ps ps"
  by (auto simp: IsProjectsEqual_def IsProjectEqual_iff project_get_def)

lemma Executor_Equals_refl:
  "distinct (map fst (elems (alloc_Projects (exec_Allocations e)))) \<Longrightarrow> Executor_Equals e e"
  by (auto simp: Executor_Equals_def allocations_same_def Let_def IsProjectsEqual_refl split: option.splits)

end
