(* ===== verification/Pq_State.thy ===== *)
theory Pq_State
  imports Parsers Core_Members
begin

text \<open>
  The state behind \<open>pkg/database/postgresql\<close>: the tables that \<open>database.go\<close> creates, as lists of rows,
  and the environment the code reads: the clock, fresh UUIDs, the hash function, the iteration orders
  of Go maps, and which of the coming SQL statements fail because the connection does. A SQL
  statement of the source is one \<open>sql_exec\<close> or \<open>sql_query\<close>. Text columns that hold JSON are kept as
  \<open>JSON v\<close>, the text \<open>encoding/json\<close> makes of \<open>v\<close>. A nullable array column is an option.

  \<open>FILE_SEQ\<close> is the last value the sequence of that name gave.
  The state is extensible, so that the operations on the tables are also operations on the state of
  the controller, which extends it.
\<close>

section \<open>Rows\<close>

datatype 'a json = JSON (decoded: 'a)

definition json_Marshal :: "'a \<Rightarrow> 'a json" where
  "json_Marshal v = JSON v"

definition json_Unmarshal :: "'a json \<Rightarrow> 'a" where
  "json_Unmarshal j = decoded j"

record process_row =
  PR_PROCESS_ID :: string
  PR_TARGET_COLONY_NAME :: string
  PR_TARGET_EXECUTOR_NAMES :: "string list option"
  PR_ASSIGNED_EXECUTOR_ID :: string
  PR_STATE :: int
  PR_IS_ASSIGNED :: bool
  PR_EXECUTOR_TYPE :: string
  PR_SUBMISSION_TIME :: time
  PR_START_TIME :: time
  PR_END_TIME :: time
  PR_WAIT_DEADLINE :: time
  PR_EXEC_DEADLINE :: time
  PR_ERRORS :: "string list"
  PR_NODENAME :: string
  PR_FUNCNAME :: string
  PR_ARGS :: "iface list option json"
  PR_KWARGS :: "(string \<times> iface) list option json"
  PR_MAX_WAIT_TIME :: int
  PR_MAX_EXEC_TIME :: int
  PR_RETRIES :: int
  PR_MAX_RETRIES :: int
  PR_DEPENDENCIES :: "string list option"
  PR_PRIORITY :: int
  PR_PRIORITYTIME :: int
  PR_WAIT_FOR_PARENTS :: bool
  PR_PARENTS :: "string list"
  PR_CHILDREN :: "string list"
  PR_PROCESSGRAPH_ID :: string
  PR_INPUT :: "iface list json"
  PR_OUTPUT :: "iface list json"
  PR_LABEL :: string
  PR_FS :: "Filesystem json"
  PR_NODES :: int
  PR_CPU :: int
  PR_PROCESSES :: int
  PR_PROCESSES_PER_NODE :: int
  PR_MEMORY :: int
  PR_STORAGE :: int
  PR_GPUNAME :: string
  PR_GPUCOUNT :: int
  PR_GPUMEM :: int
  PR_WALLTIME :: int
  PR_INITIATOR_ID :: string
  PR_INITIATOR_NAME :: string

record attribute_row =
  AT_ATTRIBUTE_ID :: string
  AT_KEY :: string
  AT_VALUE :: string
  AT_ATTRIBUTE_TYPE :: int
  AT_TARGET_ID :: string
  AT_TARGET_COLONY_NAME :: string
  AT_PROCESSGRAPH_ID :: string
  AT_ADDED :: time
  AT_STATE :: int

record processgraph_row =
  PG_PROCESSGRAPH_ID :: string
  PG_TARGET_COLONY_NAME :: string
  PG_ROOTS :: "string list"
  PG_STATE :: int
  PG_SUBMISSION_TIME :: time
  PG_START_TIME :: time
  PG_END_TIME :: time
  PG_INITIATOR_ID :: string
  PG_INITIATOR_NAME :: string

record colony_row =
  CO_NAME :: string
  CO_COLONY_ID :: string

record user_row =
  US_NAME :: string
  US_USER_ID :: string
  US_COLONY_NAME :: string
  US_EMAIL :: string
  US_PHONE :: string

record executor_row =
  EX_NAME :: string
  EX_EXECUTOR_TYPE :: string
  EX_EXECUTOR_ID :: string
  EX_COLONY_NAME :: string
  EX_STATE :: int
  EX_REQUIRE_FUNC_REG :: bool
  EX_COMMISSIONTIME :: time
  EX_LASTHEARDFROM :: time
  EX_LONG :: rat
  EX_LAT :: rat
  EX_LOCDESC :: string
  EX_HWMODEL :: string
  EX_HWNODES :: int
  EX_HWCPU :: string
  EX_HWMEM :: string
  EX_HWSTORAGE :: string
  EX_HWGPUNAME :: string
  EX_HWGPUCOUNT :: int
  EX_HWGPUNODECOUNT :: int
  EX_HWGPUMEM :: string
  EX_SWNAME :: string
  EX_SWTYPE :: string
  EX_SWVERSION :: string
  EX_ALLOCATIONS :: "Allocations json"

record function_row =
  FN_FUNCTION_ID :: string
  FN_EXECUTOR_NAME :: string
  FN_EXECUTOR_TYPE :: string
  FN_COLONY_NAME :: string
  FN_FUNCNAME :: string
  FN_COUNTER :: int
  FN_MINWAITTIME :: rat
  FN_MAXWAITTIME :: rat
  FN_MINEXECTIME :: rat
  FN_MAXEXECTIME :: rat
  FN_AVGWAITTIME :: rat
  FN_AVGEXECTIME :: rat

record log_row =
  LG_PROCESS_ID :: string
  LG_COLONY_NAME :: string
  LG_EXECUTOR_NAME :: string
  LG_TS :: int
  LG_MSG :: string
  LG_ADDED :: time

record file_row =
  FI_FILE_ID :: string
  FI_COLONY_NAME :: string
  FI_LABEL :: string
  FI_NAME :: string
  FI_SIZE :: int
  FI_SEQNR :: int
  FI_CHECKSUM :: string
  FI_CHECKSUM_ALG :: string
  FI_ADDED :: time
  FI_PROTOCOL :: string
  FI_S3_SERVER :: string
  FI_S3_PORT :: int
  FI_S3_TLS :: bool
  FI_S3_ACCESSKEY :: string
  FI_S3_SECRETKEY :: string
  FI_S3_REGION :: string
  FI_S3_ENCKEY :: string
  FI_S3_ENCALG :: string
  FI_S3_OBJ :: string
  FI_S3_BUCKET :: string

record snapshot_row =
  SN_SNAPSHOT_ID :: string
  SN_COLONY_NAME :: string
  SN_LABEL :: string
  SN_NAME :: string
  SN_FILE_IDS :: "string list"
  SN_ADDED :: time

record generator_row =
  GE_GENERATOR_ID :: string
  GE_COLONY_NAME :: string
  GE_NAME :: string
  GE_WORKFLOW_SPEC :: string
  GE_TRIGGER :: int
  GE_TIMEOUT :: int
  GE_LASTRUN :: time
  GE_FIRSTPACK :: time
  GE_INITIATOR_ID :: string
  GE_INITIATOR_NAME :: string

record generatorarg_row =
  GA_GENERATORARG_ID :: string
  GA_GENERATOR_ID :: string
  GA_COLONY_NAME :: string
  GA_ARG :: string

record cron_row =
  CR_CRON_ID :: string
  CR_COLONY_NAME :: string
  CR_NAME :: string
  CR_CRON_EXPR :: string
  CR_INTERVAL :: int
  CR_RANDOM :: bool
  CR_NEXT_RUN :: time
  CR_LAST_RUN :: time
  CR_WORKFLOW_SPEC :: string
  CR_PREV_PROCESSGRAPH_ID :: string
  CR_WAIT_FOR_PREV_PROCESSGRAPH :: bool
  CR_INITIATOR_ID :: string
  CR_INITIATOR_NAME :: string

section \<open>State\<close>

record pq_state =
  PROCESSES :: "process_row list"
  ATTRIBUTES :: "attribute_row list"
  PROCESSGRAPHS :: "processgraph_row list"
  COLONIES :: "colony_row list"
  USERS :: "user_row list"
  EXECUTORS :: "executor_row list"
  FUNCTIONS :: "function_row list"
  LOGS :: "log_row list"
  FILES :: "file_row list"
  SNAPSHOTS :: "snapshot_row list"
  GENERATORS :: "generator_row list"
  GENERATORARGS :: "generatorarg_row list"
  CRONS :: "cron_row list"
  SERVER :: "string list"
  FILE_SEQ :: int
  env_hash :: "string \<Rightarrow> string"
  env_clock :: "nat \<Rightarrow> time"
  env_uuid :: "nat \<Rightarrow> string"
  env_orders :: "nat \<Rightarrow> (string \<times> int) list"
  env_ticks :: nat
  env_faults :: "bool list"

text \<open>Freshly created tables; every environment component is a parameter.\<close>

definition new_pq ::
  "(string \<Rightarrow> string) \<Rightarrow> (nat \<Rightarrow> time) \<Rightarrow> (nat \<Rightarrow> string) \<Rightarrow> (nat \<Rightarrow> (string \<times> int) list) \<Rightarrow> pq_state" where
  "new_pq hash clock uuid orders =
     \<lparr>PROCESSES = [], ATTRIBUTES = [], PROCESSGRAPHS = [], COLONIES = [], USERS = [], EXECUTORS = [],
      FUNCTIONS = [], LOGS = [], FILES = [], SNAPSHOTS = [], GENERATORS = [], GENERATORARGS = [],
      CRONS = [], SERVER = [], FILE_SEQ = 0, env_hash = hash, env_clock = clock, env_uuid = uuid, env_orders = orders,
      env_ticks = 0, env_faults = []\<rparr>"

text \<open>No coming statement fails for lack of a connection.\<close>

definition healthy :: "'z pq_state_scheme \<Rightarrow> bool" where
  "healthy db \<longleftrightarrow> env_faults db = []"

text \<open>The iteration orders of \<open>unitMap\<close> are orders of its entries.\<close>

definition env_ok :: "'z pq_state_scheme \<Rightarrow> bool" where
  "env_ok db \<longleftrightarrow> (\<forall>n. set (env_orders db n) = set unitMap)"

section \<open>Reading the environment\<close>

definition time_Now :: "('z pq_state_scheme, time) op" where
  "time_Now db = (Inr (env_clock db (env_ticks db)), db\<lparr>env_ticks := Suc (env_ticks db)\<rparr>)"

definition uuid_New :: "('z pq_state_scheme, string) op" where
  "uuid_New db = (Inr (env_uuid db (env_ticks db)), db\<lparr>env_ticks := Suc (env_ticks db)\<rparr>)"

definition GenerateHash :: "string \<Rightarrow> ('z pq_state_scheme, string) op" where
  "GenerateHash s = getM (\<lambda>db. env_hash db s)"

definition range_unitMap :: "('z pq_state_scheme, (string \<times> int) list) op" where
  "range_unitMap db = (Inr (env_orders db (env_ticks db)), db\<lparr>env_ticks := Suc (env_ticks db)\<rparr>)"

definition ConvertMemoryToBytesM :: "string \<Rightarrow> ('z pq_state_scheme, int) op" where
  "ConvertMemoryToBytesM mem = bindM range_unitMap (\<lambda>order. liftE (ConvertMemoryToBytes order mem))"

section \<open>Statements\<close>

definition sql_connection :: "('z pq_state_scheme, unit) op" where
  "sql_connection db =
     (case env_faults db of
        [] \<Rightarrow> (Inr (), db)
      | bad # rest \<Rightarrow> (if bad then Inl (SqlErr ''connection'') else Inr (), db\<lparr>env_faults := rest\<rparr>))"

definition sql_exec :: "('z pq_state_scheme \<Rightarrow> failure + 'z pq_state_scheme) \<Rightarrow> ('z pq_state_scheme, unit) op" where
  "sql_exec stmt = thenM sql_connection
     (\<lambda>db. case stmt db of Inl e \<Rightarrow> (Inl e, db) | Inr db' \<Rightarrow> (Inr (), db'))"

definition sql_query :: "('z pq_state_scheme \<Rightarrow> failure + 'a) \<Rightarrow> ('z pq_state_scheme, 'a) op" where
  "sql_query q = thenM sql_connection (bindM (getM q) liftE)"

definition insert_row :: "('r \<Rightarrow> string) \<Rightarrow> 'r \<Rightarrow> 'r list \<Rightarrow> failure + 'r list" where
  "insert_row key r rows =
     (if key r \<in> set (map key rows)
      then Inl (SqlErr ''pq: duplicate key value violates unique constraint'')
      else Inr (rows @ [r]))"

text \<open>Values of \<open>INTEGER\<close> columns have 32 bits.\<close>

definition int4 :: "int \<Rightarrow> bool" where
  "int4 x \<longleftrightarrow> - (2 ^ 31) \<le> x \<and> x < 2 ^ 31"

definition sql_limit :: "int \<Rightarrow> 'r list \<Rightarrow> failure + 'r list" where
  "sql_limit n rows =
     (if n < 0 then Inl (SqlErr ''pq: LIMIT must not be negative'') else Inr (take (nat n) rows))"

section \<open>Lemmas\<close>

lemma json_roundtrip [simp]: "json_Unmarshal (json_Marshal v) = v"
  by (simp add: json_Marshal_def json_Unmarshal_def)

lemma time_Now_run [op_simps]:
  "time_Now db = (Inr (env_clock db (env_ticks db)), db\<lparr>env_ticks := Suc (env_ticks db)\<rparr>)"
  by (simp add: time_Now_def)

lemma sql_connection_healthy [op_simps]: "healthy db \<Longrightarrow> sql_connection db = (Inr (), db)"
  by (simp add: sql_connection_def healthy_def)

lemma sql_exec_healthy [op_simps]:
  "healthy db \<Longrightarrow> sql_exec stmt db = (case stmt db of Inl e \<Rightarrow> (Inl e, db) | Inr db' \<Rightarrow> (Inr (), db'))"
  by (simp add: sql_exec_def thenM_def bindM_def sql_connection_healthy)

lemma sql_query_healthy [op_simps]: "healthy db \<Longrightarrow> sql_query q db = (q db, db)"
  by (cases "q db") (simp_all add: sql_query_def thenM_def bindM_def sql_connection_healthy)

lemma healthy_update [simp]:
  "healthy (db\<lparr>PROCESSES := a\<rparr>) = healthy db"
  "healthy (db\<lparr>ATTRIBUTES := b\<rparr>) = healthy db"
  "healthy (db\<lparr>PROCESSGRAPHS := c\<rparr>) = healthy db"
  "healthy (db\<lparr>COLONIES := d\<rparr>) = healthy db"
  "healthy (db\<lparr>USERS := e\<rparr>) = healthy db"
  "healthy (db\<lparr>EXECUTORS := f\<rparr>) = healthy db"
  "healthy (db\<lparr>FUNCTIONS := g\<rparr>) = healthy db"
  "healthy (db\<lparr>LOGS := h\<rparr>) = healthy db"
  "healthy (db\<lparr>FILES := i\<rparr>) = healthy db"
  "healthy (db\<lparr>SNAPSHOTS := j\<rparr>) = healthy db"
  "healthy (db\<lparr>GENERATORS := k\<rparr>) = healthy db"
  "healthy (db\<lparr>GENERATORARGS := l\<rparr>) = healthy db"
  "healthy (db\<lparr>CRONS := m\<rparr>) = healthy db"
  "healthy (db\<lparr>SERVER := sv\<rparr>) = healthy db"
  "healthy (db\<lparr>FILE_SEQ := sq\<rparr>) = healthy db"
  "healthy (db\<lparr>env_ticks := n\<rparr>) = healthy db"
  by (simp_all add: healthy_def)

lemma env_ok_update [simp]:
  "env_ok (db\<lparr>PROCESSES := a\<rparr>) = env_ok db"
  "env_ok (db\<lparr>ATTRIBUTES := b\<rparr>) = env_ok db"
  "env_ok (db\<lparr>PROCESSGRAPHS := c\<rparr>) = env_ok db"
  "env_ok (db\<lparr>env_ticks := n\<rparr>) = env_ok db"
  by (simp_all add: env_ok_def)

lemma healthy_new_pq [simp]: "healthy (new_pq hash clock uuid orders)"
  by (simp add: healthy_def new_pq_def)

lemma insert_row_Inr:
  "insert_row key r rows = Inr rows' \<longleftrightarrow> key r \<notin> set (map key rows) \<and> rows' = rows @ [r]"
  by (auto simp: insert_row_def)

end
