(* ===== verification/Pq_Attributes.thy ===== *)
theory Pq_Attributes
  imports Pq_State
begin

text \<open>
  \<open>pkg/database/postgresql/attributes.go\<close>: the ATTRIBUTES table, one definition per method.
\<close>

section \<open>Operations\<close>

definition AddAttribute :: "Attribute \<Rightarrow> ('z pq_state_scheme, unit) op" where
  "AddAttribute a = bindM time_Now (\<lambda>now. sql_exec (\<lambda>db.
     if \<not> (int4 (attr_AttributeType a) \<and> int4 (attr_State a))
     then Inl (SqlErr ''pq: integer out of range'')
     else map_sum id (\<lambda>rows. db\<lparr>ATTRIBUTES := rows\<rparr>)
       (insert_row AT_ATTRIBUTE_ID
         \<lparr>AT_ATTRIBUTE_ID = attr_ID a, AT_KEY = attr_Key a, AT_VALUE = attr_Value a,
          AT_ATTRIBUTE_TYPE = attr_AttributeType a, AT_TARGET_ID = attr_TargetID a,
          AT_TARGET_COLONY_NAME = attr_TargetColonyName a,
          AT_PROCESSGRAPH_ID = attr_TargetProcessGraphID a, AT_ADDED = now,
          AT_STATE = attr_State a\<rparr> (ATTRIBUTES db))))"

definition AddAttributes :: "Attribute list \<Rightarrow> ('z pq_state_scheme, unit) op" where
  "AddAttributes attributes = forM attributes AddAttribute"

definition parse_attribute :: "(string \<Rightarrow> string) \<Rightarrow> attribute_row \<Rightarrow> Attribute" where
  "parse_attribute hash r =
     (CreateAttribute hash (AT_TARGET_ID r) (AT_TARGET_COLONY_NAME r) (AT_PROCESSGRAPH_ID r)
        (AT_ATTRIBUTE_TYPE r) (AT_KEY r) (AT_VALUE r))\<lparr>attr_State := AT_STATE r\<rparr>"

definition parseAttributes :: "attribute_row list \<Rightarrow> ('z pq_state_scheme, Attribute list) op" where
  "parseAttributes rows = getM (\<lambda>db. map (parse_attribute (env_hash db)) rows)"

definition select_attributes :: "(attribute_row \<Rightarrow> bool) \<Rightarrow> ('z pq_state_scheme, Attribute list) op" where
  "select_attributes P =
     bindM (sql_query (\<lambda>db. Inr (filter P (ATTRIBUTES db)))) parseAttributes"

definition unique_attribute :: "Attribute list \<Rightarrow> ('z pq_state_scheme, Attribute) op" where
  "unique_attribute attributes =
     (case attributes of
        [] \<Rightarrow> throwM (Err ''Attribute does not exists'')
      | [a] \<Rightarrow> retM a
      | _ \<Rightarrow> throwM (Err ''Expected attributes to be unique''))"

definition GetAttributeByID :: "string \<Rightarrow> ('z pq_state_scheme, Attribute) op" where
  "GetAttributeByID attributeID =
     bindM (select_attributes (\<lambda>r. AT_ATTRIBUTE_ID r = attributeID)) unique_attribute"

definition GetAttributesByColonyName :: "string \<Rightarrow> ('z pq_state_scheme, Attribute list) op" where
  "GetAttributesByColonyName colonyName = select_attributes (\<lambda>r. AT_TARGET_COLONY_NAME r = colonyName)"

definition GetAttribute :: "string \<Rightarrow> string \<Rightarrow> int \<Rightarrow> ('z pq_state_scheme, Attribute) op" where
  "GetAttribute targetID key attributeType =
     bindM (select_attributes (\<lambda>r. AT_TARGET_ID r = targetID \<and> AT_KEY r = key \<and>
        AT_ATTRIBUTE_TYPE r = attributeType)) unique_attribute"

definition GetAttributes :: "string \<Rightarrow> ('z pq_state_scheme, Attribute list) op" where
  "GetAttributes targetID = select_attributes (\<lambda>r. AT_TARGET_ID r = targetID)"

definition GetAttributesByType :: "string \<Rightarrow> int \<Rightarrow> ('z pq_state_scheme, Attribute list) op" where
  "GetAttributesByType targetID attributeType =
     select_attributes (\<lambda>r. AT_TARGET_ID r = targetID \<and> AT_ATTRIBUTE_TYPE r = attributeType)"

text \<open>
  The statement of \<open>UpdateAttribute\<close> has no WHERE clause: it assigns the primary key and the value of
  every row, which the key constraint refuses as soon as the table has two rows.
\<close>

definition UpdateAttribute :: "Attribute \<Rightarrow> ('z pq_state_scheme, unit) op" where
  "UpdateAttribute a = thenM (GetAttributeByID (attr_ID a)) (sql_exec (\<lambda>db.
     if length (ATTRIBUTES db) > 1
     then Inl (SqlErr ''pq: duplicate key value violates unique constraint'')
     else Inr (db\<lparr>ATTRIBUTES := update_where (\<lambda>_. True)
       (\<lambda>r. r\<lparr>AT_ATTRIBUTE_ID := attr_ID a, AT_VALUE := attr_Value a\<rparr>) (ATTRIBUTES db)\<rparr>)))"

definition update_attributes ::
  "(attribute_row \<Rightarrow> bool) \<Rightarrow> (attribute_row \<Rightarrow> attribute_row) \<Rightarrow> ('z pq_state_scheme, unit) op" where
  "update_attributes P f =
     sql_exec (\<lambda>db. Inr (db\<lparr>ATTRIBUTES := update_where P f (ATTRIBUTES db)\<rparr>))"

definition delete_attributes :: "(attribute_row \<Rightarrow> bool) \<Rightarrow> ('z pq_state_scheme, unit) op" where
  "delete_attributes P =
     sql_exec (\<lambda>db. Inr (db\<lparr>ATTRIBUTES := delete_where P (ATTRIBUTES db)\<rparr>))"

definition SetAttributeState :: "string \<Rightarrow> int \<Rightarrow> ('z pq_state_scheme, unit) op" where
  "SetAttributeState processID state =
     update_attributes (\<lambda>r. AT_TARGET_ID r = processID) (\<lambda>r. r\<lparr>AT_STATE := state\<rparr>)"

definition RemoveAttributeByID :: "string \<Rightarrow> ('z pq_state_scheme, unit) op" where
  "RemoveAttributeByID attributeID = delete_attributes (\<lambda>r. AT_ATTRIBUTE_ID r = attributeID)"

definition RemoveAllAttributesByColonyName :: "string \<Rightarrow> ('z pq_state_scheme, unit) op" where
  "RemoveAllAttributesByColonyName colonyName =
     delete_attributes (\<lambda>r. AT_TARGET_COLONY_NAME r = colonyName)"

definition RemoveAllAttributesByColonyNameWithState :: "string \<Rightarrow> int \<Rightarrow> ('z pq_state_scheme, unit) op" where
  "RemoveAllAttributesByColonyNameWithState colonyName state =
     delete_attributes (\<lambda>r. AT_TARGET_COLONY_NAME r = colonyName \<and> AT_STATE r = state \<and>
       AT_PROCESSGRAPH_ID r = '''')"

definition RemoveAllAttributesByProcessGraphID :: "string \<Rightarrow> ('z pq_state_scheme, unit) op" where
  "RemoveAllAttributesByProcessGraphID processGraphID =
     delete_attributes (\<lambda>r. AT_PROCESSGRAPH_ID r = processGraphID)"

definition RemoveAllAttributesInProcessGraphsByColonyName :: "string \<Rightarrow> ('z pq_state_scheme, unit) op" where
  "RemoveAllAttributesInProcessGraphsByColonyName colonyName =
     delete_attributes (\<lambda>r. AT_PROCESSGRAPH_ID r \<noteq> '''' \<and> AT_TARGET_COLONY_NAME r = colonyName)"

definition RemoveAllAttributesInProcessGraphsByColonyNameWithState ::
  "string \<Rightarrow> int \<Rightarrow> ('z pq_state_scheme, unit) op" where
  "RemoveAllAttributesInProcessGraphsByColonyNameWithState colonyName state =
     delete_attributes (\<lambda>r. AT_TARGET_COLONY_NAME r = colonyName \<and> AT_STATE r = state \<and>
       AT_PROCESSGRAPH_ID r \<noteq> '''')"

definition RemoveAttributesByTargetID :: "string \<Rightarrow> int \<Rightarrow> ('z pq_state_scheme, unit) op" where
  "RemoveAttributesByTargetID targetID attributeType =
     delete_attributes (\<lambda>r. AT_TARGET_ID r = targetID \<and> AT_ATTRIBUTE_TYPE r = attributeType)"

definition RemoveAllAttributesByTargetID :: "string \<Rightarrow> ('z pq_state_scheme, unit) op" where
  "RemoveAllAttributesByTargetID targetID = delete_attributes (\<lambda>r. AT_TARGET_ID r = targetID)"

definition RemoveAllAttributes :: "('z pq_state_scheme, unit) op" where
  "RemoveAllAttributes = delete_attributes (\<lambda>_. True)"

section \<open>Evaluation without connection faults\<close>

lemma select_attributes_run [op_simps]:
  "healthy db \<Longrightarrow>
   select_attributes P db = (Inr (map (parse_attribute (env_hash db)) (filter P (ATTRIBUTES db))), db)"
  by (simp add: select_attributes_def bindM_def sql_query_healthy parseAttributes_def)

lemma GetAttributes_run [op_simps]:
  "healthy db \<Longrightarrow> GetAttributes pid db =
     (Inr (map (parse_attribute (env_hash db)) (filter (\<lambda>r. AT_TARGET_ID r = pid) (ATTRIBUTES db))), db)"
  by (simp add: GetAttributes_def select_attributes_run)

lemma GetAttributesByType_run [op_simps]:
  "healthy db \<Longrightarrow> GetAttributesByType pid t db =
     (Inr (map (parse_attribute (env_hash db))
        (filter (\<lambda>r. AT_TARGET_ID r = pid \<and> AT_ATTRIBUTE_TYPE r = t) (ATTRIBUTES db))), db)"
  by (simp add: GetAttributesByType_def select_attributes_run)

lemma update_attributes_run [op_simps]:
  "healthy db \<Longrightarrow>
   update_attributes P f db = (Inr (), db\<lparr>ATTRIBUTES := update_where P f (ATTRIBUTES db)\<rparr>)"
  by (simp add: update_attributes_def sql_exec_healthy)

lemma delete_attributes_run [op_simps]:
  "healthy db \<Longrightarrow>
   delete_attributes P db = (Inr (), db\<lparr>ATTRIBUTES := delete_where P (ATTRIBUTES db)\<rparr>)"
  by (simp add: delete_attributes_def sql_exec_healthy)

lemma SetAttributeState_run [op_simps]:
  "healthy db \<Longrightarrow> SetAttributeState pid st db =
     (Inr (), db\<lparr>ATTRIBUTES := update_where (\<lambda>r. AT_TARGET_ID r = pid)
                 (\<lambda>r. r\<lparr>AT_STATE := st\<rparr>) (ATTRIBUTES db)\<rparr>)"
  by (simp add: SetAttributeState_def update_attributes_run)

end
