(* ===== verification/Pq_Processes.thy ===== *)
theory Pq_Processes
  imports Pq_Attributes
begin

text \<open>
  \<open>pkg/database/postgresql/processes.go\<close>: the PROCESSES table. Methods that also write fields of the
  \<open>Process\<close> they are given return the updated process.
\<close>

section \<open>Rows and processes\<close>

text \<open>The row that \<open>AddProcess\<close> inserts, with the parsed quantities of the conditions.\<close>

definition process_row_of ::
  "Process \<Rightarrow> time \<Rightarrow> time \<Rightarrow> int \<Rightarrow> int \<Rightarrow> int \<Rightarrow> int \<Rightarrow> process_row" where
  "process_row_of p submissionTime deadline cpu memory storage gpuMem =
     (let f = proc_FunctionSpec p; c = spec_Conditions f in
      \<lparr>PR_PROCESS_ID = proc_ID p, PR_TARGET_COLONY_NAME = cond_ColonyName c,
       PR_TARGET_EXECUTOR_NAMES = cond_ExecutorNames c,
       PR_ASSIGNED_EXECUTOR_ID = proc_AssignedExecutorID p, PR_STATE = proc_State p,
       PR_IS_ASSIGNED = proc_IsAssigned p, PR_EXECUTOR_TYPE = cond_ExecutorType c,
       PR_SUBMISSION_TIME = submissionTime, PR_START_TIME = time_zero, PR_END_TIME = time_zero,
       PR_WAIT_DEADLINE = deadline, PR_EXEC_DEADLINE = proc_ExecDeadline p,
       PR_ERRORS = proc_Errors p, PR_NODENAME = spec_NodeName f, PR_FUNCNAME = spec_FuncName f,
       PR_ARGS = json_Marshal (spec_Args f), PR_KWARGS = json_Marshal (spec_KwArgs f),
       PR_MAX_WAIT_TIME = spec_MaxWaitTime f, PR_MAX_EXEC_TIME = spec_MaxExecTime f,
       PR_RETRIES = 0, PR_MAX_RETRIES = spec_MaxRetries f,
       PR_DEPENDENCIES = cond_Dependencies c, PR_PRIORITY = spec_Priority f,
       PR_PRIORITYTIME = proc_PriorityTime p, PR_WAIT_FOR_PARENTS = proc_WaitForParents p,
       PR_PARENTS = proc_Parents p, PR_CHILDREN = proc_Children p,
       PR_PROCESSGRAPH_ID = proc_ProcessGraphID p, PR_INPUT = json_Marshal (proc_Input p),
       PR_OUTPUT = json_Marshal (proc_Output p), PR_LABEL = spec_Label f,
       PR_FS = json_Marshal (spec_Filesystem f), PR_NODES = cond_Nodes c, PR_CPU = cpu,
       PR_PROCESSES = cond_Processes c, PR_PROCESSES_PER_NODE = cond_ProcessesPerNode c,
       PR_MEMORY = memory, PR_STORAGE = storage, PR_GPUNAME = gpu_Name (cond_GPU c),
       PR_GPUCOUNT = gpu_Count (cond_GPU c), PR_GPUMEM = gpuMem, PR_WALLTIME = cond_WallTime c,
       PR_INITIATOR_ID = proc_InitiatorID p, PR_INITIATOR_NAME = proc_InitiatorName p\<rparr>)"

definition row_int4 :: "process_row \<Rightarrow> bool" where
  "row_int4 r \<longleftrightarrow> int4 (PR_STATE r) \<and> int4 (PR_MAX_WAIT_TIME r) \<and> int4 (PR_MAX_EXEC_TIME r) \<and>
     int4 (PR_RETRIES r) \<and> int4 (PR_MAX_RETRIES r) \<and> int4 (PR_PRIORITY r) \<and> int4 (PR_NODES r) \<and>
     int4 (PR_PROCESSES r) \<and> int4 (PR_PROCESSES_PER_NODE r)"

definition insert_process :: "process_row \<Rightarrow> ('z pq_state_scheme, unit) op" where
  "insert_process r = sql_exec (\<lambda>db.
     if \<not> row_int4 r then Inl (SqlErr ''pq: integer out of range'')
     else map_sum id (\<lambda>rows. db\<lparr>PROCESSES := rows\<rparr>) (insert_row PR_PROCESS_ID r (PROCESSES db)))"

text \<open>The attributes made of the environment of the function specification.\<close>

definition env_attributes :: "(string \<Rightarrow> string) \<Rightarrow> Process \<Rightarrow> Attribute list" where
  "env_attributes hash p =
     map (\<lambda>(key, v). CreateAttribute hash (proc_ID p)
            (cond_ColonyName (spec_Conditions (proc_FunctionSpec p))) (proc_ProcessGraphID p)
            attr_ENV key v)
       (elems (spec_Env (proc_FunctionSpec p)))"

definition AddProcess :: "Process \<Rightarrow> ('z pq_state_scheme, Process) op" where
  "AddProcess process =
     (let c = spec_Conditions (proc_FunctionSpec process);
          maxWaitTime = spec_MaxWaitTime (proc_FunctionSpec process)
      in bindM time_Now (\<lambda>submissionTime.
         bindM (if maxWaitTime > 0 then bindM time_Now (\<lambda>t. retM (t + seconds maxWaitTime))
                else retM time_zero) (\<lambda>deadline.
         (let process1 = SetSubmissionTime submissionTime process in
         bindM (liftE (ConvertCPUToInt (cond_CPU c))) (\<lambda>cpu.
         bindM (ConvertMemoryToBytesM (cond_Memory c)) (\<lambda>memory.
         bindM (ConvertMemoryToBytesM (cond_Storage c)) (\<lambda>storage.
         bindM (ConvertMemoryToBytesM (gpu_Memory (cond_GPU c))) (\<lambda>gpuMem.
         thenM (insert_process (process_row_of process1 submissionTime deadline cpu memory storage gpuMem))
         (bindM (getM (\<lambda>db. env_attributes (env_hash db) process1)) (\<lambda>envs.
         (let process2 = process1\<lparr>proc_Attributes := proc_Attributes process1 @ envs\<rparr> in
          thenM (AddAttributes (proc_Attributes process2)) (retM process2))))))))))))"

text \<open>\<open>env[attribute.Key] = attribute.Value\<close> over the ENV attributes.\<close>

definition restore_env :: "Attribute list \<Rightarrow> (string \<times> string) list" where
  "restore_env attributes =
     foldl (\<lambda>env a. AList.update (attr_Key a) (attr_Value a) env) [] attributes"

definition restore_spec :: "process_row \<Rightarrow> Attribute list \<Rightarrow> FunctionSpec" where
  "restore_spec r envAttributes =
     (let names = (if PR_TARGET_EXECUTOR_NAMES r = Some [''*''] then Some []
                   else PR_TARGET_EXECUTOR_NAMES r);
          f = CreateFunctionSpec (PR_NODENAME r) (PR_FUNCNAME r) (json_Unmarshal (PR_ARGS r))
                (json_Unmarshal (PR_KWARGS r)) (PR_TARGET_COLONY_NAME r) names (PR_EXECUTOR_TYPE r)
                (PR_MAX_WAIT_TIME r) (PR_MAX_EXEC_TIME r) (PR_MAX_RETRIES r)
                (Some (restore_env envAttributes)) (Some (elems (PR_DEPENDENCIES r)))
                (PR_PRIORITY r) (PR_LABEL r)
      in f\<lparr>spec_Conditions := (spec_Conditions f)\<lparr>cond_Nodes := PR_NODES r,
             cond_CPU := ConvertCPUToString (PR_CPU r), cond_Processes := PR_PROCESSES r,
             cond_ProcessesPerNode := PR_PROCESSES_PER_NODE r,
             cond_Memory := ConvertMemoryToString (PR_MEMORY r),
             cond_Storage := ConvertMemoryToString (PR_STORAGE r),
             cond_GPU := (cond_GPU (spec_Conditions f))\<lparr>gpu_Name := PR_GPUNAME r,
                gpu_Count := PR_GPUCOUNT r, gpu_Memory := ConvertMemoryToString (PR_GPUMEM r)\<rparr>,
             cond_WallTime := PR_WALLTIME r\<rparr>,
           spec_Filesystem := json_Unmarshal (PR_FS r)\<rparr>)"

definition process_of_row :: "process_row \<Rightarrow> Attribute list \<Rightarrow> Attribute list \<Rightarrow> Process" where
  "process_of_row r attributes envAttributes =
     (CreateProcessFromDB (restore_spec r envAttributes) (PR_PROCESS_ID r)
        (PR_ASSIGNED_EXECUTOR_ID r) (PR_IS_ASSIGNED r) (PR_STATE r) (PR_PRIORITYTIME r)
        (PR_SUBMISSION_TIME r) (PR_START_TIME r) (PR_END_TIME r) (PR_WAIT_DEADLINE r)
        (PR_EXEC_DEADLINE r) (PR_ERRORS r) (PR_RETRIES r) attributes)
      \<lparr>proc_Input := json_Unmarshal (PR_INPUT r), proc_Output := json_Unmarshal (PR_OUTPUT r),
       proc_WaitForParents := PR_WAIT_FOR_PARENTS r, proc_Parents := PR_PARENTS r,
       proc_Children := PR_CHILDREN r, proc_ProcessGraphID := PR_PROCESSGRAPH_ID r,
       proc_InitiatorID := PR_INITIATOR_ID r, proc_InitiatorName := PR_INITIATOR_NAME r\<rparr>"

definition parse_process :: "process_row \<Rightarrow> ('z pq_state_scheme, Process) op" where
  "parse_process r =
     bindM (GetAttributes (PR_PROCESS_ID r)) (\<lambda>attributes.
     bindM (GetAttributesByType (PR_PROCESS_ID r) attr_ENV) (\<lambda>inAttributes.
     retM (process_of_row r attributes inAttributes)))"

definition parseProcesses :: "process_row list \<Rightarrow> ('z pq_state_scheme, Process list) op" where
  "parseProcesses rows = mapM parse_process rows"

section \<open>Queries\<close>

definition select_processes ::
  "(process_row list \<Rightarrow> failure + process_row list) \<Rightarrow> ('z pq_state_scheme, Process list) op" where
  "select_processes q = bindM (sql_query (\<lambda>db. q (PROCESSES db))) parseProcesses"

definition GetProcesses :: "('z pq_state_scheme, Process list) op" where
  "GetProcesses = select_processes (\<lambda>rows. Inr (order_desc PR_SUBMISSION_TIME rows))"

definition GetProcessByID :: "string \<Rightarrow> ('z pq_state_scheme, Process option) op" where
  "GetProcessByID processID =
     bindM (select_processes (\<lambda>rows. Inr (filter (\<lambda>r. PR_PROCESS_ID r = processID) rows))) (\<lambda>ps.
     retM (case ps of [] \<Rightarrow> None | p # _ \<Rightarrow> Some p))"

definition selectCandidate :: "Process list \<Rightarrow> Process option" where
  "selectCandidate candidates = (case candidates of [] \<Rightarrow> None | c # _ \<Rightarrow> Some c)"

text \<open>
  \<open>NOW()\<close> is the time of the statement; the interval is \<open>seconds\<close> long.
\<close>

definition FindProcessesByColonyName :: "string \<Rightarrow> int \<Rightarrow> int \<Rightarrow> ('z pq_state_scheme, Process list) op" where
  "FindProcessesByColonyName colonyName secs state =
     bindM time_Now (\<lambda>now. select_processes (\<lambda>rows. Inr (order_asc PR_SUBMISSION_TIME
       (filter (\<lambda>r. PR_TARGET_COLONY_NAME r = colonyName \<and> PR_STATE r = state \<and>
          now - secs * 10 ^ 9 \<le> PR_SUBMISSION_TIME r \<and> PR_SUBMISSION_TIME r \<le> now) rows))))"

definition FindProcessesByExecutorID ::
  "string \<Rightarrow> string \<Rightarrow> int \<Rightarrow> int \<Rightarrow> ('z pq_state_scheme, Process list) op" where
  "FindProcessesByExecutorID colonyName executorID secs state =
     bindM time_Now (\<lambda>now. select_processes (\<lambda>rows. Inr (order_asc PR_SUBMISSION_TIME
       (filter (\<lambda>r. PR_TARGET_COLONY_NAME r = colonyName \<and> PR_ASSIGNED_EXECUTOR_ID r = executorID \<and>
          PR_STATE r = state \<and>
          now - secs * 10 ^ 9 \<le> PR_SUBMISSION_TIME r \<and> PR_SUBMISSION_TIME r \<le> now) rows))))"

text \<open>
  The four listing methods filter on the first of executor type, initiator and label that is not
  empty, and differ in the state and the order.
\<close>

definition listing_filter :: "string \<Rightarrow> string \<Rightarrow> string \<Rightarrow> string \<Rightarrow> process_row \<Rightarrow> bool" where
  "listing_filter colonyName executorType label initiator r \<longleftrightarrow>
     PR_TARGET_COLONY_NAME r = colonyName \<and>
     (if executorType \<noteq> '''' then PR_EXECUTOR_TYPE r = executorType
      else if initiator \<noteq> '''' then PR_INITIATOR_NAME r = initiator
      else if label \<noteq> '''' then PR_LABEL r = label
      else True)"

definition FindWaitingProcesses ::
  "string \<Rightarrow> string \<Rightarrow> string \<Rightarrow> string \<Rightarrow> int \<Rightarrow> ('z pq_state_scheme, Process list) op" where
  "FindWaitingProcesses colonyName executorType label initiator cnt =
     select_processes (\<lambda>rows. sql_limit cnt (order_asc PR_PRIORITYTIME
       (filter (\<lambda>r. listing_filter colonyName executorType label initiator r \<and> PR_STATE r = WAITING) rows)))"

definition FindRunningProcesses ::
  "string \<Rightarrow> string \<Rightarrow> string \<Rightarrow> string \<Rightarrow> int \<Rightarrow> ('z pq_state_scheme, Process list) op" where
  "FindRunningProcesses colonyName executorType label initiator cnt =
     select_processes (\<lambda>rows. sql_limit cnt (order_asc PR_START_TIME
       (filter (\<lambda>r. listing_filter colonyName executorType label initiator r \<and> PR_STATE r = RUNNING) rows)))"

definition FindSuccessfulProcesses ::
  "string \<Rightarrow> string \<Rightarrow> string \<Rightarrow> string \<Rightarrow> int \<Rightarrow> ('z pq_state_scheme, Process list) op" where
  "FindSuccessfulProcesses colonyName executorType label initiator cnt =
     select_processes (\<lambda>rows. sql_limit cnt (order_desc PR_END_TIME
       (filter (\<lambda>r. listing_filter colonyName executorType label initiator r \<and> PR_STATE r = SUCCESS) rows)))"

definition FindFailedProcesses ::
  "string \<Rightarrow> string \<Rightarrow> string \<Rightarrow> string \<Rightarrow> int \<Rightarrow> ('z pq_state_scheme, Process list) op" where
  "FindFailedProcesses colonyName executorType label initiator cnt =
     select_processes (\<lambda>rows. sql_limit cnt (order_desc PR_END_TIME
       (filter (\<lambda>r. listing_filter colonyName executorType label initiator r \<and> PR_STATE r = FAILED) rows)))"

definition FindAllRunningProcesses :: "('z pq_state_scheme, Process list) op" where
  "FindAllRunningProcesses =
     select_processes (\<lambda>rows. Inr (order_asc PR_START_TIME (filter (\<lambda>r. PR_STATE r = RUNNING) rows)))"

definition FindAllWaitingProcesses :: "('z pq_state_scheme, Process list) op" where
  "FindAllWaitingProcesses =
     select_processes (\<lambda>rows. sql_limit 1000
       (order_asc PR_PRIORITYTIME (filter (\<lambda>r. PR_STATE r = WAITING) rows)))"

text \<open>The conditions on resources that both candidate queries share.\<close>

definition fits :: "int \<Rightarrow> int \<Rightarrow> int \<Rightarrow> int \<Rightarrow> int \<Rightarrow> int \<Rightarrow> process_row \<Rightarrow> bool" where
  "fits cpu memory storage nodes processes processesPerNode r \<longleftrightarrow>
     PR_CPU r \<le> cpu \<and> PR_MEMORY r \<le> memory \<and> PR_STORAGE r \<le> storage \<and> PR_NODES r \<le> nodes \<and>
     PR_PROCESSES r \<le> processes \<and> PR_PROCESSES_PER_NODE r \<le> processesPerNode"

definition assignable :: "string \<Rightarrow> string \<Rightarrow> process_row \<Rightarrow> bool" where
  "assignable colonyName executorType r \<longleftrightarrow>
     PR_STATE r = WAITING \<and> PR_EXECUTOR_TYPE r = executorType \<and> \<not> PR_IS_ASSIGNED r \<and>
     \<not> PR_WAIT_FOR_PARENTS r \<and> PR_TARGET_COLONY_NAME r = colonyName"

text \<open>\<open>array_length(a, 1) IS NULL\<close> holds for NULL and for the empty array.\<close>

definition FindCandidates ::
  "string \<Rightarrow> string \<Rightarrow> int \<Rightarrow> int \<Rightarrow> int \<Rightarrow> int \<Rightarrow> int \<Rightarrow> int \<Rightarrow> int \<Rightarrow> ('z pq_state_scheme, Process list) op" where
  "FindCandidates colonyName executorType cpu memory storage nodes processes processesPerNode cnt =
     select_processes (\<lambda>rows. sql_limit cnt (order_asc PR_PRIORITYTIME
       (filter (\<lambda>r. assignable colonyName executorType r \<and> elems (PR_TARGET_EXECUTOR_NAMES r) = [] \<and>
          fits cpu memory storage nodes processes processesPerNode r) rows)))"

definition FindCandidatesByName ::
  "string \<Rightarrow> string \<Rightarrow> string \<Rightarrow> int \<Rightarrow> int \<Rightarrow> int \<Rightarrow> int \<Rightarrow> int \<Rightarrow> int \<Rightarrow> int \<Rightarrow>
   ('z pq_state_scheme, Process list) op" where
  "FindCandidatesByName colonyName executorName executorType cpu memory storage nodes processes
     processesPerNode cnt =
     select_processes (\<lambda>rows. sql_limit cnt (order_asc PR_PRIORITYTIME
       (filter (\<lambda>r. assignable colonyName executorType r \<and>
          executorName \<in> set (elems (PR_TARGET_EXECUTOR_NAMES r)) \<and>
          fits cpu memory storage nodes processes processesPerNode r) rows)))"

section \<open>Removal\<close>

definition delete_processes :: "(process_row \<Rightarrow> bool) \<Rightarrow> ('z pq_state_scheme, unit) op" where
  "delete_processes P = sql_exec (\<lambda>db. Inr (db\<lparr>PROCESSES := delete_where P (PROCESSES db)\<rparr>))"

definition RemoveProcessByID :: "string \<Rightarrow> ('z pq_state_scheme, unit) op" where
  "RemoveProcessByID processID =
     thenM (delete_processes (\<lambda>r. PR_PROCESS_ID r = processID))
           (RemoveAllAttributesByTargetID processID)"

definition RemoveAllProcesses :: "('z pq_state_scheme, unit) op" where
  "RemoveAllProcesses = thenM (delete_processes (\<lambda>_. True)) RemoveAllAttributes"

definition remove_processes_with_state :: "string \<Rightarrow> int \<Rightarrow> ('z pq_state_scheme, unit) op" where
  "remove_processes_with_state colonyName state =
     thenM (delete_processes (\<lambda>r. PR_TARGET_COLONY_NAME r = colonyName \<and>
              PR_PROCESSGRAPH_ID r = '''' \<and> PR_STATE r = state))
           (RemoveAllAttributesByColonyNameWithState colonyName state)"

definition RemoveAllWaitingProcessesByColonyName :: "string \<Rightarrow> ('z pq_state_scheme, unit) op" where
  "RemoveAllWaitingProcessesByColonyName colonyName = remove_processes_with_state colonyName WAITING"

definition RemoveAllRunningProcessesByColonyName :: "string \<Rightarrow> ('z pq_state_scheme, unit) op" where
  "RemoveAllRunningProcessesByColonyName colonyName = remove_processes_with_state colonyName RUNNING"

definition RemoveAllSuccessfulProcessesByColonyName :: "string \<Rightarrow> ('z pq_state_scheme, unit) op" where
  "RemoveAllSuccessfulProcessesByColonyName colonyName = remove_processes_with_state colonyName SUCCESS"

definition RemoveAllFailedProcessesByColonyName :: "string \<Rightarrow> ('z pq_state_scheme, unit) op" where
  "RemoveAllFailedProcessesByColonyName colonyName = remove_processes_with_state colonyName FAILED"

definition RemoveAllProcessesByColonyName :: "string \<Rightarrow> ('z pq_state_scheme, unit) op" where
  "RemoveAllProcessesByColonyName colonyName =
     thenM (delete_processes (\<lambda>r. PR_TARGET_COLONY_NAME r = colonyName \<and> PR_PROCESSGRAPH_ID r = ''''))
           (RemoveAllAttributesByColonyName colonyName)"

definition RemoveAllProcessesByProcessGraphID :: "string \<Rightarrow> ('z pq_state_scheme, unit) op" where
  "RemoveAllProcessesByProcessGraphID processGraphID =
     thenM (delete_processes (\<lambda>r. PR_PROCESSGRAPH_ID r = processGraphID))
           (RemoveAllAttributesByProcessGraphID processGraphID)"

definition RemoveAllProcessesInProcessGraphsByColonyName :: "string \<Rightarrow> ('z pq_state_scheme, unit) op" where
  "RemoveAllProcessesInProcessGraphsByColonyName colonyName =
     thenM (RemoveAllAttributesInProcessGraphsByColonyName colonyName)
       (delete_processes (\<lambda>r. PR_TARGET_COLONY_NAME r = colonyName \<and> PR_PROCESSGRAPH_ID r \<noteq> ''''))"

definition RemoveAllProcessesInProcessGraphsByColonyNameWithState ::
  "string \<Rightarrow> int \<Rightarrow> ('z pq_state_scheme, unit) op" where
  "RemoveAllProcessesInProcessGraphsByColonyNameWithState colonyName state =
     thenM (RemoveAllAttributesInProcessGraphsByColonyNameWithState colonyName state)
       (delete_processes (\<lambda>r. PR_TARGET_COLONY_NAME r = colonyName \<and> PR_PROCESSGRAPH_ID r \<noteq> '''' \<and>
          PR_STATE r = state))"

section \<open>Updates\<close>

definition update_process ::
  "string \<Rightarrow> (process_row \<Rightarrow> process_row) \<Rightarrow> ('z pq_state_scheme, unit) op" where
  "update_process processID f =
     sql_exec (\<lambda>db. Inr (db\<lparr>PROCESSES := update_where (\<lambda>r. PR_PROCESS_ID r = processID) f (PROCESSES db)\<rparr>))"

definition ResetProcess :: "Process \<Rightarrow> ('z pq_state_scheme, Process) op" where
  "ResetProcess process =
     (let maxWaitTime = spec_MaxWaitTime (proc_FunctionSpec process) in
      bindM time_Now (\<lambda>submissionTime.
      thenM (if maxWaitTime > 0 then
               bindM time_Now (\<lambda>t. update_process (proc_ID process) (\<lambda>r. r\<lparr>PR_IS_ASSIGNED := False,
                 PR_SUBMISSION_TIME := submissionTime, PR_START_TIME := time_zero,
                 PR_END_TIME := time_zero, PR_ASSIGNED_EXECUTOR_ID := '''', PR_STATE := WAITING,
                 PR_WAIT_DEADLINE := t + seconds maxWaitTime\<rparr>))
             else
               update_process (proc_ID process) (\<lambda>r. r\<lparr>PR_IS_ASSIGNED := False,
                 PR_SUBMISSION_TIME := submissionTime, PR_START_TIME := time_zero,
                 PR_END_TIME := time_zero, PR_ASSIGNED_EXECUTOR_ID := '''', PR_STATE := WAITING\<rparr>))
      (retM (SetState WAITING (SetAssignedExecutorID '''' (SetEndTime time_zero
               (SetStartTime time_zero (SetSubmissionTime submissionTime process))))))))"

definition SetWaitForParents :: "string \<Rightarrow> bool \<Rightarrow> ('z pq_state_scheme, unit) op" where
  "SetWaitForParents processID waitForParent =
     update_process processID (\<lambda>r. r\<lparr>PR_WAIT_FOR_PARENTS := waitForParent\<rparr>)"

definition SetParents :: "string \<Rightarrow> string list \<Rightarrow> ('z pq_state_scheme, unit) op" where
  "SetParents processID parents = update_process processID (\<lambda>r. r\<lparr>PR_PARENTS := parents\<rparr>)"

definition SetChildren :: "string \<Rightarrow> string list \<Rightarrow> ('z pq_state_scheme, unit) op" where
  "SetChildren processID children = update_process processID (\<lambda>r. r\<lparr>PR_CHILDREN := children\<rparr>)"

definition SetProcessState :: "string \<Rightarrow> int \<Rightarrow> ('z pq_state_scheme, unit) op" where
  "SetProcessState processID state =
     thenM (update_process processID (\<lambda>r. r\<lparr>PR_STATE := state\<rparr>)) (SetAttributeState processID state)"

definition SetInput :: "string \<Rightarrow> iface list \<Rightarrow> ('z pq_state_scheme, unit) op" where
  "SetInput processID input = update_process processID (\<lambda>r. r\<lparr>PR_INPUT := json_Marshal input\<rparr>)"

definition SetOutput :: "string \<Rightarrow> iface list \<Rightarrow> ('z pq_state_scheme, unit) op" where
  "SetOutput processID output = update_process processID (\<lambda>r. r\<lparr>PR_OUTPUT := json_Marshal output\<rparr>)"

definition SetErrors :: "string \<Rightarrow> string list \<Rightarrow> ('z pq_state_scheme, unit) op" where
  "SetErrors processID errs = update_process processID (\<lambda>r. r\<lparr>PR_ERRORS := errs\<rparr>)"

definition SetExecDeadline :: "Process \<Rightarrow> time \<Rightarrow> ('z pq_state_scheme, Process) op" where
  "SetExecDeadline process execDeadline =
     thenM (update_process (proc_ID process) (\<lambda>r. r\<lparr>PR_EXEC_DEADLINE := execDeadline\<rparr>))
           (retM (process\<lparr>proc_ExecDeadline := execDeadline\<rparr>))"

text \<open>The in-memory field that \<open>SetWaitDeadline\<close> writes is the execution deadline, as in the source.\<close>

definition SetWaitDeadline :: "Process \<Rightarrow> time \<Rightarrow> ('z pq_state_scheme, Process) op" where
  "SetWaitDeadline process waitDeadline =
     thenM (update_process (proc_ID process) (\<lambda>r. r\<lparr>PR_WAIT_DEADLINE := waitDeadline\<rparr>))
           (retM (process\<lparr>proc_ExecDeadline := waitDeadline\<rparr>))"

definition AssignProcess :: "string \<Rightarrow> Process \<Rightarrow> ('z pq_state_scheme, Process) op" where
  "AssignProcess executorID process =
     bindM (GetProcessByID (proc_ID process)) (\<lambda>fromDB.
     bindM (derefM fromDB) (\<lambda>processFromDB.
     if proc_IsAssigned processFromDB then throwM (Err ''Process already assigned'')
     else
       (let maxExecTime = spec_MaxExecTime (proc_FunctionSpec process) in
        bindM time_Now (\<lambda>startTime.
        thenM (if maxExecTime > 0 then
                 bindM time_Now (\<lambda>t. update_process (proc_ID process) (\<lambda>r. r\<lparr>PR_IS_ASSIGNED := True,
                   PR_START_TIME := startTime, PR_ASSIGNED_EXECUTOR_ID := executorID,
                   PR_STATE := RUNNING, PR_EXEC_DEADLINE := t + seconds maxExecTime\<rparr>))
               else
                 update_process (proc_ID process) (\<lambda>r. r\<lparr>PR_IS_ASSIGNED := True,
                   PR_START_TIME := startTime, PR_ASSIGNED_EXECUTOR_ID := executorID,
                   PR_STATE := RUNNING\<rparr>))
       (thenM (SetAttributeState (proc_ID process) RUNNING)
       (retM (SetState RUNNING (SetAssignedExecutorID executorID
                (Process_Assign (SetStartTime startTime process))))))))))"

definition UnassignProcess :: "Process \<Rightarrow> ('z pq_state_scheme, Process) op" where
  "UnassignProcess process =
     (let maxWaitTime = spec_MaxWaitTime (proc_FunctionSpec process) in
      bindM time_Now (\<lambda>endTime.
      thenM (if maxWaitTime > 0 then
               bindM time_Now (\<lambda>t. update_process (proc_ID process) (\<lambda>r. r\<lparr>PR_IS_ASSIGNED := False,
                 PR_END_TIME := endTime, PR_STATE := WAITING, PR_RETRIES := proc_Retries process + 1,
                 PR_ASSIGNED_EXECUTOR_ID := '''', PR_WAIT_DEADLINE := t + seconds maxWaitTime\<rparr>))
             else
               update_process (proc_ID process) (\<lambda>r. r\<lparr>PR_IS_ASSIGNED := False,
                 PR_END_TIME := endTime, PR_STATE := WAITING, PR_RETRIES := proc_Retries process + 1,
                 PR_ASSIGNED_EXECUTOR_ID := ''''\<rparr>))
     (thenM (SetAttributeState (proc_ID process) PENDING)
     (retM (SetState WAITING (Process_Unassign (SetEndTime endTime process)))))))"

text \<open>
  \<open>MarkSuccessful\<close> returns the waiting and the processing time in nanoseconds (\<open>Seconds()\<close> divides
  them by \<open>10 ^ 9\<close>).
\<close>

definition MarkSuccessful :: "string \<Rightarrow> ('z pq_state_scheme, int \<times> int) op" where
  "MarkSuccessful processID =
     bindM (GetProcessByID processID) (\<lambda>found.
     bindM (derefM found) (\<lambda>process.
     if proc_State process = FAILED then throwM (Err ''Tried to set failed process as successful'')
     else if proc_State process = WAITING
     then throwM (Err ''Tried to set waiting process as successful without being running'')
     else
       bindM time_Now (\<lambda>endTime.
       thenM (update_process (proc_ID process) (\<lambda>r. r\<lparr>PR_END_TIME := endTime, PR_STATE := SUCCESS\<rparr>))
      (thenM (SetAttributeState (proc_ID process) SUCCESS)
      (let process1 = SetState SUCCESS (SetEndTime endTime process)
       in retM (WaitingTime endTime process1, ProcessingTime endTime process1))))))"

definition MarkFailed :: "string \<Rightarrow> string list \<Rightarrow> ('z pq_state_scheme, unit) op" where
  "MarkFailed processID errs =
     bindM time_Now (\<lambda>endTime.
     bindM (GetProcessByID processID) (\<lambda>found.
     (case found of
        None \<Rightarrow> throwM (Err (''Process with Id <'' @ processID @ ''> not found''))
      | Some process \<Rightarrow>
        if proc_State process = SUCCESS then throwM (Err ''Tried to set successful process as failed'')
        else if proc_State process = FAILED then throwM (Err ''Tried to set failed process as failed'')
        else
          thenM (update_process (proc_ID process) (\<lambda>r. r\<lparr>PR_END_TIME := endTime, PR_STATE := FAILED\<rparr>))
         (thenM (SetAttributeState (proc_ID process) FAILED)
                (SetErrors (proc_ID process) errs)))))"

section \<open>Counts\<close>

definition CountProcesses :: "('z pq_state_scheme, int) op" where
  "CountProcesses = sql_query (\<lambda>db. Inr (int (length (PROCESSES db))))"

definition countProcesses :: "int \<Rightarrow> ('z pq_state_scheme, int) op" where
  "countProcesses state =
     sql_query (\<lambda>db. Inr (int (length (filter (\<lambda>r. PR_STATE r = state) (PROCESSES db)))))"

definition countProcessesByColonyName :: "int \<Rightarrow> string \<Rightarrow> ('z pq_state_scheme, int) op" where
  "countProcessesByColonyName state colonyName =
     sql_query (\<lambda>db. Inr (int (length (filter (\<lambda>r. PR_STATE r = state \<and>
       PR_TARGET_COLONY_NAME r = colonyName) (PROCESSES db)))))"

definition CountWaitingProcesses :: "('z pq_state_scheme, int) op" where
  "CountWaitingProcesses = countProcesses WAITING"

definition CountRunningProcesses :: "('z pq_state_scheme, int) op" where
  "CountRunningProcesses = countProcesses RUNNING"

definition CountSuccessfulProcesses :: "('z pq_state_scheme, int) op" where
  "CountSuccessfulProcesses = countProcesses SUCCESS"

definition CountFailedProcesses :: "('z pq_state_scheme, int) op" where
  "CountFailedProcesses = countProcesses FAILED"

definition CountWaitingProcessesByColonyName :: "string \<Rightarrow> ('z pq_state_scheme, int) op" where
  "CountWaitingProcessesByColonyName = countProcessesByColonyName WAITING"

definition CountRunningProcessesByColonyName :: "string \<Rightarrow> ('z pq_state_scheme, int) op" where
  "CountRunningProcessesByColonyName = countProcessesByColonyName RUNNING"

definition CountSuccessfulProcessesByColonyName :: "string \<Rightarrow> ('z pq_state_scheme, int) op" where
  "CountSuccessfulProcessesByColonyName = countProcessesByColonyName SUCCESS"

definition CountFailedProcessesByColonyName :: "string \<Rightarrow> ('z pq_state_scheme, int) op" where
  "CountFailedProcessesByColonyName = countProcessesByColonyName FAILED"

end
