(* ===== verification/Pq_Process_Facts.thy ===== *)
theory Pq_Process_Facts
  imports Pq_Processes
begin

text \<open>
  What the methods of \<open>processes.go\<close> do: their effect on the tables when the connection holds, and,
  for any connection, the relations between the PROCESSES table before and after that they keep.
\<close>

section \<open>Vocabulary\<close>

text \<open>The process that reading a row gives.\<close>

definition process_view :: "'z pq_state_scheme \<Rightarrow> process_row \<Rightarrow> Process" where
  "process_view db r =
     process_of_row r
       (map (parse_attribute (env_hash db)) (filter (\<lambda>a. AT_TARGET_ID a = PR_PROCESS_ID r) (ATTRIBUTES db)))
       (map (parse_attribute (env_hash db)) (filter (\<lambda>a. AT_TARGET_ID a = PR_PROCESS_ID r \<and>
          AT_ATTRIBUTE_TYPE a = attr_ENV) (ATTRIBUTES db)))"

definition find_row :: "string \<Rightarrow> 'z pq_state_scheme \<Rightarrow> process_row option" where
  "find_row pid db = find (\<lambda>r. PR_PROCESS_ID r = pid) (PROCESSES db)"

text \<open>The effect of one UPDATE statement on the row of a process.\<close>

definition upd_row :: "string \<Rightarrow> (process_row \<Rightarrow> process_row) \<Rightarrow> 'z pq_state_scheme \<Rightarrow> 'z pq_state_scheme" where
  "upd_row pid f db = db\<lparr>PROCESSES := update_where (\<lambda>r. PR_PROCESS_ID r = pid) f (PROCESSES db)\<rparr>"

definition upd_attr_state :: "string \<Rightarrow> int \<Rightarrow> 'z pq_state_scheme \<Rightarrow> 'z pq_state_scheme" where
  "upd_attr_state pid st db = db\<lparr>ATTRIBUTES := update_where (\<lambda>r. AT_TARGET_ID r = pid)
     (\<lambda>r. r\<lparr>AT_STATE := st\<rparr>) (ATTRIBUTES db)\<rparr>"

definition tick :: "nat \<Rightarrow> 'z pq_state_scheme \<Rightarrow> 'z pq_state_scheme" where
  "tick n db = db\<lparr>env_ticks := env_ticks db + n\<rparr>"

text \<open>The primary key of PROCESSES.\<close>

definition process_ids :: "'z pq_state_scheme \<Rightarrow> string list" where
  "process_ids db = map PR_PROCESS_ID (PROCESSES db)"

section \<open>Evaluation without connection faults\<close>

lemma parse_process_run [op_simps]:
  "healthy db \<Longrightarrow> parse_process r db = (Inr (process_view db r), db)"
  by (simp add: parse_process_def process_view_def bindM_def GetAttributes_run GetAttributesByType_run)

lemma parseProcesses_run [op_simps]:
  "healthy db \<Longrightarrow> parseProcesses rows db = (Inr (map (process_view db) rows), db)"
  unfolding parseProcesses_def
  by (induction rows) (simp_all add: bindM_def parse_process_run)

lemma select_processes_run [op_simps]:
  "healthy db \<Longrightarrow> select_processes q db =
     (map_sum id (map (process_view db)) (q (PROCESSES db)), db)"
  by (cases "q (PROCESSES db)")
    (simp_all add: select_processes_def bindM_def sql_query_healthy parseProcesses_run)

lemma GetProcessByID_run [op_simps]:
  "healthy db \<Longrightarrow> GetProcessByID pid db = (Inr (map_option (process_view db) (find_row pid db)), db)"
  by (simp add: GetProcessByID_def bindM_def select_processes_run find_row_def find_filter
      split: list.split)

lemma update_process_run [op_simps]:
  "healthy db \<Longrightarrow> update_process pid f db = (Inr (), upd_row pid f db)"
  by (simp add: update_process_def sql_exec_healthy upd_row_def)

lemma SetAttributeState_upd [op_simps]:
  "healthy db \<Longrightarrow> SetAttributeState pid st db = (Inr (), upd_attr_state pid st db)"
  by (simp add: SetAttributeState_run upd_attr_state_def)

lemma time_Now_tick: "time_Now db = (Inr (env_clock db (env_ticks db)), tick 1 db)"
  by (simp add: time_Now_def tick_def)

lemma healthy_effects [simp]:
  "healthy (upd_row pid f db) = healthy db"
  "healthy (upd_attr_state pid st db) = healthy db"
  "healthy (tick n db) = healthy db"
  by (simp_all add: upd_row_def upd_attr_state_def tick_def)

lemma tick_fields [simp]:
  "PROCESSES (tick n db) = PROCESSES db" "ATTRIBUTES (tick n db) = ATTRIBUTES db"
  "PROCESSGRAPHS (tick n db) = PROCESSGRAPHS db" "EXECUTORS (tick n db) = EXECUTORS db"
  "FUNCTIONS (tick n db) = FUNCTIONS db" "env_hash (tick n db) = env_hash db"
  "env_clock (tick n db) = env_clock db" "env_ticks (tick n db) = env_ticks db + n"
  by (simp_all add: tick_def)

lemma upd_row_fields [simp]:
  "ATTRIBUTES (upd_row pid f db) = ATTRIBUTES db" "PROCESSGRAPHS (upd_row pid f db) = PROCESSGRAPHS db"
  "EXECUTORS (upd_row pid f db) = EXECUTORS db" "FUNCTIONS (upd_row pid f db) = FUNCTIONS db"
  "env_hash (upd_row pid f db) = env_hash db" "env_clock (upd_row pid f db) = env_clock db"
  "env_ticks (upd_row pid f db) = env_ticks db"
  by (simp_all add: upd_row_def)

lemma upd_attr_state_fields [simp]:
  "PROCESSES (upd_attr_state pid st db) = PROCESSES db"
  "PROCESSGRAPHS (upd_attr_state pid st db) = PROCESSGRAPHS db"
  "EXECUTORS (upd_attr_state pid st db) = EXECUTORS db"
  "FUNCTIONS (upd_attr_state pid st db) = FUNCTIONS db"
  "env_hash (upd_attr_state pid st db) = env_hash db" "env_clock (upd_attr_state pid st db) = env_clock db"
  "env_ticks (upd_attr_state pid st db) = env_ticks db"
  by (simp_all add: upd_attr_state_def)

lemma find_row_tick [simp]: "find_row pid (tick n db) = find_row pid db"
  by (simp add: find_row_def)

lemma find_row_upd_attr [simp]: "find_row pid (upd_attr_state q st db) = find_row pid db"
  by (simp add: find_row_def)

lemma find_row_id: "find_row pid db = Some r \<Longrightarrow> PR_PROCESS_ID r = pid"
  by (auto simp: find_row_def find_Some_iff)

lemma find_row_in: "find_row pid db = Some r \<Longrightarrow> r \<in> set (PROCESSES db)"
  by (auto simp: find_row_def find_Some_iff)

lemma find_row_None: "find_row pid db = None \<longleftrightarrow> pid \<notin> set (process_ids db)"
  by (auto simp: find_row_def find_None_iff process_ids_def)

text \<open>Reading a row after an UPDATE that keeps the key.\<close>

lemma find_row_upd:
  assumes "\<And>r. PR_PROCESS_ID (f r) = PR_PROCESS_ID r"
  shows "find_row pid (upd_row q f db) =
         (if pid = q then map_option f (find_row pid db) else find_row pid db)"
proof -
  have "find (\<lambda>r. PR_PROCESS_ID r = pid) (update_where (\<lambda>r. PR_PROCESS_ID r = q) f rows) =
        (if pid = q then map_option f (find (\<lambda>r. PR_PROCESS_ID r = pid) rows)
         else find (\<lambda>r. PR_PROCESS_ID r = pid) rows)" for rows
    using assms by (induction rows) (auto simp: update_where_def)
  then show ?thesis by (simp add: find_row_def upd_row_def)
qed

lemma process_ids_upd [simp]:
  assumes "\<And>r. PR_PROCESS_ID (f r) = PR_PROCESS_ID r"
  shows "process_ids (upd_row q f db) = process_ids db"
  using assms by (simp add: process_ids_def upd_row_def update_where_def)

lemma process_ids_others [simp]:
  "process_ids (tick n db) = process_ids db" "process_ids (upd_attr_state q st db) = process_ids db"
  by (simp_all add: process_ids_def)

subsection \<open>Fields of a process read from its row\<close>

lemma process_of_row_fields [simp]:
  "proc_ID (process_of_row r as es) = PR_PROCESS_ID r"
  "proc_State (process_of_row r as es) = PR_STATE r"
  "proc_IsAssigned (process_of_row r as es) = PR_IS_ASSIGNED r"
  "proc_AssignedExecutorID (process_of_row r as es) = PR_ASSIGNED_EXECUTOR_ID r"
  "proc_PriorityTime (process_of_row r as es) = PR_PRIORITYTIME r"
  "proc_SubmissionTime (process_of_row r as es) = PR_SUBMISSION_TIME r"
  "proc_StartTime (process_of_row r as es) = PR_START_TIME r"
  "proc_EndTime (process_of_row r as es) = PR_END_TIME r"
  "proc_WaitDeadline (process_of_row r as es) = PR_WAIT_DEADLINE r"
  "proc_ExecDeadline (process_of_row r as es) = PR_EXEC_DEADLINE r"
  "proc_Retries (process_of_row r as es) = PR_RETRIES r"
  "proc_WaitForParents (process_of_row r as es) = PR_WAIT_FOR_PARENTS r"
  "proc_Parents (process_of_row r as es) = PR_PARENTS r"
  "proc_Children (process_of_row r as es) = PR_CHILDREN r"
  "proc_ProcessGraphID (process_of_row r as es) = PR_PROCESSGRAPH_ID r"
  "proc_Errors (process_of_row r as es) = PR_ERRORS r"
  "proc_Output (process_of_row r as es) = json_Unmarshal (PR_OUTPUT r)"
  "proc_Input (process_of_row r as es) = json_Unmarshal (PR_INPUT r)"
  "proc_FunctionSpec (process_of_row r as es) = restore_spec r es"
  "proc_Attributes (process_of_row r as es) = as"
  "proc_InitiatorID (process_of_row r as es) = PR_INITIATOR_ID r"
  "proc_InitiatorName (process_of_row r as es) = PR_INITIATOR_NAME r"
  by (simp_all add: process_of_row_def CreateProcessFromDB_def CreateProcess_def)

lemma restore_spec_fields [simp]:
  "spec_MaxWaitTime (restore_spec r es) = PR_MAX_WAIT_TIME r"
  "spec_MaxExecTime (restore_spec r es) = PR_MAX_EXEC_TIME r"
  "spec_MaxRetries (restore_spec r es) = PR_MAX_RETRIES r"
  "spec_Priority (restore_spec r es) = PR_PRIORITY r"
  "spec_FuncName (restore_spec r es) = PR_FUNCNAME r"
  "spec_NodeName (restore_spec r es) = PR_NODENAME r"
  "cond_ColonyName (spec_Conditions (restore_spec r es)) = PR_TARGET_COLONY_NAME r"
  "cond_ExecutorType (spec_Conditions (restore_spec r es)) = PR_EXECUTOR_TYPE r"
  by (simp_all add: restore_spec_def CreateFunctionSpec_def Let_def zero_Conditions_def)

lemma process_view_fields [simp]:
  "proc_ID (process_view db r) = PR_PROCESS_ID r"
  "proc_State (process_view db r) = PR_STATE r"
  "proc_IsAssigned (process_view db r) = PR_IS_ASSIGNED r"
  "proc_AssignedExecutorID (process_view db r) = PR_ASSIGNED_EXECUTOR_ID r"
  "proc_PriorityTime (process_view db r) = PR_PRIORITYTIME r"
  "proc_SubmissionTime (process_view db r) = PR_SUBMISSION_TIME r"
  "proc_StartTime (process_view db r) = PR_START_TIME r"
  "proc_EndTime (process_view db r) = PR_END_TIME r"
  "proc_WaitDeadline (process_view db r) = PR_WAIT_DEADLINE r"
  "proc_ExecDeadline (process_view db r) = PR_EXEC_DEADLINE r"
  "proc_Retries (process_view db r) = PR_RETRIES r"
  "proc_WaitForParents (process_view db r) = PR_WAIT_FOR_PARENTS r"
  "proc_Parents (process_view db r) = PR_PARENTS r"
  "proc_Children (process_view db r) = PR_CHILDREN r"
  "proc_ProcessGraphID (process_view db r) = PR_PROCESSGRAPH_ID r"
  "proc_Output (process_view db r) = json_Unmarshal (PR_OUTPUT r)"
  "spec_MaxWaitTime (proc_FunctionSpec (process_view db r)) = PR_MAX_WAIT_TIME r"
  "spec_MaxExecTime (proc_FunctionSpec (process_view db r)) = PR_MAX_EXEC_TIME r"
  "spec_MaxRetries (proc_FunctionSpec (process_view db r)) = PR_MAX_RETRIES r"
  "spec_FuncName (proc_FunctionSpec (process_view db r)) = PR_FUNCNAME r"
  "cond_ColonyName (spec_Conditions (proc_FunctionSpec (process_view db r))) = PR_TARGET_COLONY_NAME r"
  by (simp_all add: process_view_def)

subsection \<open>Effects\<close>

lemma SetProcessState_run [op_simps]:
  "healthy db \<Longrightarrow> SetProcessState pid st db =
     (Inr (), upd_attr_state pid st (upd_row pid (\<lambda>r. r\<lparr>PR_STATE := st\<rparr>) db))"
  by (simp add: SetProcessState_def thenM_def bindM_def update_process_run SetAttributeState_upd)

lemma SetWaitForParents_run [op_simps]:
  "healthy db \<Longrightarrow> SetWaitForParents pid b db = (Inr (), upd_row pid (\<lambda>r. r\<lparr>PR_WAIT_FOR_PARENTS := b\<rparr>) db)"
  by (simp add: SetWaitForParents_def update_process_run)

text \<open>The column changes that \<open>Assign\<close> makes, with the clock readings of its statements.\<close>

definition assigned_row :: "string \<Rightarrow> int \<Rightarrow> time \<Rightarrow> time \<Rightarrow> process_row \<Rightarrow> process_row" where
  "assigned_row executorID maxExecTime startTime now r =
     (let r1 = r\<lparr>PR_IS_ASSIGNED := True, PR_START_TIME := startTime,
                 PR_ASSIGNED_EXECUTOR_ID := executorID, PR_STATE := RUNNING\<rparr>
      in if maxExecTime > 0 then r1\<lparr>PR_EXEC_DEADLINE := now + seconds maxExecTime\<rparr> else r1)"

lemma assigned_row_cases:
  "0 < m \<Longrightarrow> assigned_row e m t u = (\<lambda>r. r\<lparr>PR_IS_ASSIGNED := True, PR_START_TIME := t,
     PR_ASSIGNED_EXECUTOR_ID := e, PR_STATE := RUNNING, PR_EXEC_DEADLINE := u + seconds m\<rparr>)"
  "\<not> 0 < m \<Longrightarrow> assigned_row e m t u = (\<lambda>r. r\<lparr>PR_IS_ASSIGNED := True, PR_START_TIME := t,
     PR_ASSIGNED_EXECUTOR_ID := e, PR_STATE := RUNNING\<rparr>)"
  by (simp_all add: assigned_row_def Let_def fun_eq_iff)

lemma tick_tick [simp]: "tick m (tick n db) = tick (n + m) db"
  by (simp add: tick_def add.assoc)

lemma AssignProcess_ok:
  assumes "healthy db" "find_row (proc_ID p) db = Some r" "\<not> PR_IS_ASSIGNED r"
  defines "t1 \<equiv> env_clock db (env_ticks db)" and "t2 \<equiv> env_clock db (Suc (env_ticks db))"
    and "maxExec \<equiv> spec_MaxExecTime (proc_FunctionSpec p)"
  shows "AssignProcess executorID p db =
     (Inr (p\<lparr>proc_StartTime := t1, proc_AssignedExecutorID := executorID, proc_IsAssigned := True,
            proc_State := RUNNING\<rparr>),
      upd_attr_state (proc_ID p) RUNNING (upd_row (proc_ID p) (assigned_row executorID maxExec t1 t2)
        (tick (if maxExec > 0 then 2 else 1) db)))"
  using assms(1-3)
  by (cases "maxExec > 0")
    (simp_all add: AssignProcess_def bindM_def thenM_def GetProcessByID_run time_Now_tick
      update_process_run SetAttributeState_upd setter_defs assigned_row_cases t1_def t2_def
      maxExec_def numeral_2_eq_2)

lemma AssignProcess_refused:
  assumes "healthy db" "find_row (proc_ID p) db = Some r" "PR_IS_ASSIGNED r"
  shows "AssignProcess executorID p db = (Inl (Err ''Process already assigned''), db)"
  using assms by (simp add: AssignProcess_def bindM_def GetProcessByID_run)

lemma AssignProcess_missing:
  assumes "healthy db" "find_row (proc_ID p) db = None"
  shows "AssignProcess executorID p db = (Inl Panic, db)"
  using assms by (simp add: AssignProcess_def bindM_def GetProcessByID_run)

lemma MarkSuccessful_run:
  assumes "healthy db" "find_row pid db = Some r"
  shows "MarkSuccessful pid db =
     (if PR_STATE r = FAILED then (Inl (Err ''Tried to set failed process as successful''), db)
      else if PR_STATE r = WAITING
      then (Inl (Err ''Tried to set waiting process as successful without being running''), db)
      else let t = env_clock db (env_ticks db) in
        (Inr (time_Sub (PR_START_TIME r) (PR_SUBMISSION_TIME r), time_Sub t (PR_START_TIME r)),
         upd_attr_state pid SUCCESS (upd_row pid (\<lambda>r. r\<lparr>PR_END_TIME := t, PR_STATE := SUCCESS\<rparr>)
           (tick 1 db))))"
  using assms find_row_id[OF assms(2)]
  by (simp add: MarkSuccessful_def bindM_def thenM_def GetProcessByID_run time_Now_tick update_process_run
      SetAttributeState_upd setter_defs WaitingTime_def ProcessingTime_def state_defs Let_def)

lemma MarkFailed_run:
  assumes "healthy db" "find_row pid db = Some r"
  shows "MarkFailed pid errs db =
     (if PR_STATE r = SUCCESS then (Inl (Err ''Tried to set successful process as failed''), tick 1 db)
      else if PR_STATE r = FAILED then (Inl (Err ''Tried to set failed process as failed''), tick 1 db)
      else (Inr (), upd_row pid (\<lambda>r. r\<lparr>PR_ERRORS := errs\<rparr>) (upd_attr_state pid FAILED
         (upd_row pid (\<lambda>r. r\<lparr>PR_END_TIME := env_clock db (env_ticks db), PR_STATE := FAILED\<rparr>) (tick 1 db)))))"
  using assms find_row_id[OF assms(2)]
  by (simp add: MarkFailed_def bindM_def thenM_def GetProcessByID_run time_Now_tick update_process_run
      SetAttributeState_upd SetErrors_def)

lemma MarkFailed_missing:
  assumes "healthy db" "find_row pid db = None"
  shows "MarkFailed pid errs db = (Inl (Err (''Process with Id <'' @ pid @ ''> not found'')), tick 1 db)"
  using assms by (simp add: MarkFailed_def bindM_def GetProcessByID_run time_Now_tick)

end
