(* ===== verification/Pq_Keeps.thy ===== *)
theory Pq_Keeps
  imports Pq_Process_Facts
begin

text \<open>
  The interface between the database layer and its clients' invariants. \<open>process_relation\<close> is a
  reflexive and transitive relation that only looks at the PROCESSES table; its lemmas say which
  methods keep every such relation (all readers, all methods on other tables) and what has to be
  shown for the others, for every outcome and every pattern of connection faults.
\<close>

section \<open>Relations on the PROCESSES table\<close>

locale process_relation = op_relation R
  for R :: "'z pq_state_scheme \<Rightarrow> 'z pq_state_scheme \<Rightarrow> bool" +
  assumes rel_same: "PROCESSES t = PROCESSES s \<Longrightarrow> R s t"
begin

lemma keeps_time_Now: "keeps R time_Now"
  by (rule keepsI) (auto simp: time_Now_def intro: rel_same)

lemma keeps_range_unitMap: "keeps R range_unitMap"
  by (rule keepsI) (auto simp: range_unitMap_def intro: rel_same)

lemma keeps_uuid_New: "keeps R uuid_New"
  by (rule keepsI) (auto simp: uuid_New_def intro: rel_same)

lemma keeps_sql_connection: "keeps R sql_connection"
  by (rule keepsI) (auto simp: sql_connection_def intro: rel_same split: list.splits)

lemma keeps_sql_query: "keeps R (sql_query q)"
  unfolding sql_query_def by (intro keeps_rules keeps_sql_connection)

lemma keeps_sql_exec:
  assumes "\<And>s s'. stmt s = Inr s' \<Longrightarrow> R s s'"
  shows "keeps R (sql_exec stmt)"
proof -
  have "keeps R (\<lambda>db. case stmt db of Inl e \<Rightarrow> (Inl e, db) | Inr db' \<Rightarrow> (Inr (), db'))"
    using assms by (intro keepsI) (auto split: sum.splits intro: rel_refl)
  then show ?thesis
    unfolding sql_exec_def by (intro keeps_thenM keeps_sql_connection)
qed

lemma keeps_attribute_ops:
  "keeps R (AddAttribute a)" "keeps R (AddAttributes as)" "keeps R (select_attributes P)"
  "keeps R (delete_attributes P)" "keeps R (update_attributes P f)" "keeps R (SetAttributeState pid st)"
proof -
  show a: "keeps R (AddAttribute a)" for a
    unfolding AddAttribute_def
    by (intro keeps_rules keeps_time_Now keeps_sql_exec)
      (auto split: if_splits simp: insert_row_def intro: rel_same)
  show "keeps R (AddAttributes as)"
    unfolding AddAttributes_def by (intro keeps_rules a)
  show "keeps R (select_attributes P)"
    unfolding select_attributes_def parseAttributes_def by (intro keeps_rules keeps_sql_query)
  show "keeps R (delete_attributes P)"
    unfolding delete_attributes_def by (intro keeps_sql_exec) (auto intro: rel_same)
  show u: "keeps R (update_attributes P f)" for P f
    unfolding update_attributes_def by (intro keeps_sql_exec) (auto intro: rel_same)
  show "keeps R (SetAttributeState pid st)"
    unfolding SetAttributeState_def by (rule u)
qed

lemma keeps_select_processes: "keeps R (select_processes q)"
  unfolding select_processes_def parseProcesses_def parse_process_def GetAttributes_def
    GetAttributesByType_def
  by (intro keeps_rules keeps_sql_query keeps_attribute_ops)

lemma keeps_GetProcessByID: "keeps R (GetProcessByID pid)"
  unfolding GetProcessByID_def by (intro keeps_rules keeps_select_processes)

lemma keeps_finders:
  "keeps R GetProcesses"
  "keeps R (FindProcessesByColonyName c secs st)" "keeps R (FindProcessesByExecutorID c e secs st)"
  "keeps R FindAllRunningProcesses" "keeps R FindAllWaitingProcesses"
  "keeps R (FindCandidates c et cpu mem sto n p ppn cnt)"
  "keeps R (FindCandidatesByName c en et cpu mem sto n p ppn cnt)"
  unfolding GetProcesses_def FindProcessesByColonyName_def FindProcessesByExecutorID_def
    FindAllRunningProcesses_def FindAllWaitingProcesses_def FindCandidates_def FindCandidatesByName_def
  by (intro keeps_rules keeps_select_processes keeps_time_Now)+

lemma keeps_update_process:
  assumes "\<And>s. R s (upd_row pid f s)"
  shows "keeps R (update_process pid f)"
  unfolding update_process_def
  using assms by (intro keeps_sql_exec) (auto simp: upd_row_def)

lemma keeps_insert_process:
  assumes "\<And>s. PR_PROCESS_ID r \<notin> set (process_ids s) \<Longrightarrow> row_int4 r \<Longrightarrow>
             R s (s\<lparr>PROCESSES := PROCESSES s @ [r]\<rparr>)"
  shows "keeps R (insert_process r)"
  unfolding insert_process_def
  using assms by (intro keeps_sql_exec) (auto simp: insert_row_def process_ids_def split: if_splits)

lemma keeps_delete_processes:
  assumes "\<And>s. R s (s\<lparr>PROCESSES := delete_where P (PROCESSES s)\<rparr>)"
  shows "keeps R (delete_processes P)"
  unfolding delete_processes_def
  using assms by (intro keeps_sql_exec) auto

lemma keeps_ConvertMemoryToBytesM: "keeps R (ConvertMemoryToBytesM mem)"
  unfolding ConvertMemoryToBytesM_def by (intro keeps_rules keeps_range_unitMap)

lemma keeps_AddProcess:
  assumes "\<And>s now deadline cpu mem sto gpu. let r = process_row_of (SetSubmissionTime now p) now deadline cpu mem sto gpu in
     PR_PROCESS_ID r \<notin> set (process_ids s) \<longrightarrow> row_int4 r \<longrightarrow> R s (s\<lparr>PROCESSES := PROCESSES s @ [r]\<rparr>)"
  shows "keeps R (AddProcess p)"
  unfolding AddProcess_def Let_def
  using assms[unfolded Let_def]
  by (intro keeps_rules keeps_time_Now keeps_ConvertMemoryToBytesM keeps_insert_process
      keeps_attribute_ops) blast+

lemmas keeps_readers = keeps_time_Now keeps_range_unitMap keeps_uuid_New keeps_sql_query
  keeps_attribute_ops keeps_select_processes keeps_GetProcessByID keeps_finders
  keeps_ConvertMemoryToBytesM

text \<open>Methods that write no column of interest.\<close>

lemma keeps_column_updates:
  assumes "\<And>s pid b. R s (upd_row pid (\<lambda>r. r\<lparr>PR_WAIT_FOR_PARENTS := b\<rparr>) s)"
    and "\<And>s pid v. R s (upd_row pid (\<lambda>r. r\<lparr>PR_PARENTS := v\<rparr>) s)"
    and "\<And>s pid v. R s (upd_row pid (\<lambda>r. r\<lparr>PR_CHILDREN := v\<rparr>) s)"
    and "\<And>s pid v. R s (upd_row pid (\<lambda>r. r\<lparr>PR_INPUT := v\<rparr>) s)"
    and "\<And>s pid v. R s (upd_row pid (\<lambda>r. r\<lparr>PR_OUTPUT := v\<rparr>) s)"
    and "\<And>s pid v. R s (upd_row pid (\<lambda>r. r\<lparr>PR_ERRORS := v\<rparr>) s)"
  shows "keeps R (SetWaitForParents pid b)" "keeps R (SetParents pid ps)" "keeps R (SetChildren pid ps)"
    "keeps R (SetInput pid vs)" "keeps R (SetOutput pid vs)" "keeps R (SetErrors pid es)"
  unfolding SetWaitForParents_def SetParents_def SetChildren_def SetInput_def SetOutput_def SetErrors_def
  by (rule keeps_update_process; rule assms)+

end

section \<open>Growing tables\<close>

text \<open>
  \<open>rows_grow rel xs ys\<close>: every row of \<open>xs\<close> is still there, at its place, in relation \<open>rel\<close> to what it
  was, and new rows come after them.
\<close>

definition rows_grow :: "('r \<Rightarrow> 'r \<Rightarrow> bool) \<Rightarrow> 'r list \<Rightarrow> 'r list \<Rightarrow> bool" where
  "rows_grow rel xs ys \<longleftrightarrow> length xs \<le> length ys \<and> (\<forall>i < length xs. rel (xs ! i) (ys ! i))"

definition processes_grow ::
  "(process_row \<Rightarrow> process_row \<Rightarrow> bool) \<Rightarrow> 'z pq_state_scheme \<Rightarrow> 'z pq_state_scheme \<Rightarrow> bool" where
  "processes_grow rel s t \<longleftrightarrow>
     (distinct (process_ids s) \<longrightarrow> distinct (process_ids t) \<and> rows_grow rel (PROCESSES s) (PROCESSES t))"

lemma process_relation_grow:
  assumes "\<And>r. rel r r" "\<And>r r' r''. rel r r' \<Longrightarrow> rel r' r'' \<Longrightarrow> rel r r''"
  shows "process_relation (processes_grow rel :: 'z pq_state_scheme \<Rightarrow> 'z pq_state_scheme \<Rightarrow> bool)"
proof unfold_locales
  fix s t u :: "'z pq_state_scheme"
  show "processes_grow rel s s" using assms(1) by (simp add: processes_grow_def rows_grow_def)
  show "processes_grow rel s u" if "processes_grow rel s t" "processes_grow rel t u"
    using that assms(2) unfolding processes_grow_def rows_grow_def by (meson less_le_trans order_trans)
  show "PROCESSES t = PROCESSES s \<Longrightarrow> processes_grow rel s t"
    using assms(1) by (simp add: processes_grow_def rows_grow_def process_ids_def)
qed

lemma processes_grow_upd:
  assumes "\<And>r. PR_PROCESS_ID (f r) = PR_PROCESS_ID r" "\<And>r. rel r r"
    and "\<And>r. r \<in> set (PROCESSES s) \<Longrightarrow> PR_PROCESS_ID r = pid \<Longrightarrow> rel r (f r)"
  shows "processes_grow rel s (upd_row pid f s)"
  using assms unfolding processes_grow_def rows_grow_def
  by (auto simp: upd_row_def update_where_def process_ids_def comp_def if_distrib[of PR_PROCESS_ID] cong: if_cong)

lemma processes_grow_insert:
  assumes "PR_PROCESS_ID r \<notin> set (process_ids s)" "\<And>r. rel r r"
  shows "processes_grow rel s (s\<lparr>PROCESSES := PROCESSES s @ [r]\<rparr>)"
  using assms by (auto simp: processes_grow_def rows_grow_def process_ids_def nth_append)

text \<open>What a growing table says about one process.\<close>

lemma find_row_distinct:
  assumes "distinct (process_ids s)" "r \<in> set (PROCESSES s)"
  shows "find_row (PR_PROCESS_ID r) s = Some r"
proof -
  have "filter (\<lambda>x. PR_PROCESS_ID x = PR_PROCESS_ID r) (PROCESSES s) = [r]"
    using assms by (intro filter_key_unique) (simp_all add: process_ids_def)
  then show ?thesis by (simp add: find_row_def find_filter)
qed

lemma processes_grow_find:
  assumes "processes_grow rel s t" "distinct (process_ids s)" "find_row pid s = Some r"
    and "\<And>r r'. rel r r' \<Longrightarrow> PR_PROCESS_ID r' = PR_PROCESS_ID r"
  obtains r' where "find_row pid t = Some r'" "rel r r'"
proof -
  obtain i where i: "i < length (PROCESSES s)" "PROCESSES s ! i = r"
    using find_row_in[OF assms(3)] by (auto simp: in_set_conv_nth)
  let ?r' = "PROCESSES t ! i"
  have rel: "rel r ?r'" "i < length (PROCESSES t)" "distinct (process_ids t)"
    using assms(1,2) i by (auto simp: processes_grow_def rows_grow_def)
  then have "find_row (PR_PROCESS_ID ?r') t = Some ?r'"
    by (simp add: find_row_distinct)
  moreover have "PR_PROCESS_ID ?r' = pid"
    using assms(4)[OF rel(1)] find_row_id[OF assms(3)] by simp
  ultimately show thesis using that rel(1) by simp
qed

section \<open>Readers under connection faults\<close>

text \<open>A reader that returns gives what the tables hold, even if statements before it failed.\<close>

definition reads_only :: "('z pq_state_scheme, 'a) op \<Rightarrow> bool" where
  "reads_only m \<longleftrightarrow> (\<forall>s. PROCESSES (snd (m s)) = PROCESSES s)"

interpretation unchanged: process_relation "\<lambda>s t :: 'z pq_state_scheme. PROCESSES t = PROCESSES s"
  by unfold_locales auto

lemma reads_only_keeps: "reads_only m = keeps (\<lambda>s t. PROCESSES t = PROCESSES s) m"
  by (simp add: reads_only_def keeps_def)

lemma reads_onlyD: "reads_only m \<Longrightarrow> m s = (x, s') \<Longrightarrow> PROCESSES s' = PROCESSES s"
  by (metis reads_only_def snd_conv)

lemma reads_only_readers:
  "reads_only time_Now" "reads_only (GetProcessByID pid)" "reads_only (select_processes q)"
  "reads_only (SetAttributeState pid st)" "reads_only (sql_query qq)" "reads_only uuid_New"
  "reads_only FindAllRunningProcesses" "reads_only FindAllWaitingProcesses"
  unfolding reads_only_keeps by (rule unchanged.keeps_readers)+

lemma mapM_parse_process_ids:
  assumes "mapM parse_process rows s = (Inr ps, s')"
  shows "list_all2 (\<lambda>r p. \<exists>as es. p = process_of_row r as es) rows ps"
  using assms
proof (induction rows arbitrary: s ps s')
  case (Cons r rows)
  then show ?case
    unfolding mapM.simps parse_process_def
    by (auto elim!: bindM_eq_Inr) blast
qed simp

lemma select_processes_Inr:
  assumes "select_processes q s = (Inr ps, s')"
  obtains rows where "q (PROCESSES s) = Inr rows"
    and "list_all2 (\<lambda>r p. \<exists>as es. p = process_of_row r as es) rows ps"
proof -
  from assms obtain rows s1 where 1: "sql_query (\<lambda>db. q (PROCESSES db)) s = (Inr rows, s1)"
    and 2: "parseProcesses rows s1 = (Inr ps, s')"
    unfolding select_processes_def by (auto elim: bindM_eq_Inr)
  from 1 have "q (PROCESSES s) = Inr rows"
    by (auto simp: sql_query_def sql_connection_def elim!: thenM_eq_Inr bindM_eq_Inr
        split: list.splits if_splits)
  with that mapM_parse_process_ids 2 show thesis by (auto simp: parseProcesses_def)
qed

lemma GetProcessByID_Some:
  assumes "GetProcessByID pid s = (Inr (Some p), s')"
  obtains r as es where "find_row pid s = Some r" "p = process_of_row r as es"
    "PROCESSES s' = PROCESSES s"
proof -
  from assms obtain ps s1 where
    1: "select_processes (\<lambda>rows. Inr (filter (\<lambda>r. PR_PROCESS_ID r = pid) rows)) s = (Inr ps, s1)"
    and 2: "(case ps of [] \<Rightarrow> None | p # _ \<Rightarrow> Some p) = Some p"
    unfolding GetProcessByID_def by (auto elim!: bindM_eq_Inr)
  from 1 have l: "list_all2 (\<lambda>r p. \<exists>as es. p = process_of_row r as es)
      (filter (\<lambda>r. PR_PROCESS_ID r = pid) (PROCESSES s)) ps"
    by (auto elim: select_processes_Inr)
  from 2 obtain ps' where "ps = p # ps'" by (auto split: list.splits)
  with l obtain r rs as es where r: "filter (\<lambda>r. PR_PROCESS_ID r = pid) (PROCESSES s) = r # rs"
    "p = process_of_row r as es"
    by (auto simp: list_all2_Cons2)
  then have "find_row pid s = Some r"
    by (simp add: find_row_def find_filter)
  moreover have "PROCESSES s' = PROCESSES s"
    using assms reads_only_readers(2) by (rule reads_onlyD[rotated])
  ultimately show thesis using that r(2) by blast
qed

end
