(* ===== verification/Pq_ProcessGraphs.thy ===== *)
theory Pq_ProcessGraphs
  imports Pq_Keeps
begin

text \<open>
  The \<open>ProcessGraph\<close> struct of \<open>pkg/core/processgraph.go\<close> and the PROCESSGRAPHS table of
  \<open>pkg/database/postgresql/processgraphs.go\<close>.
\<close>

section \<open>Process graphs\<close>

record Edge =
  edge_ID :: string
  edge_Source :: string
  edge_Target :: string
  edge_Animated :: bool

record Node =
  node_ID :: string
  node_Label :: string
  node_X :: int
  node_Y :: int
  node_Type :: string
  node_Background :: string

record ProcessGraph =
  graph_ID :: string
  graph_InitiatorID :: string
  graph_InitiatorName :: string
  graph_ColonyName :: string
  graph_Roots :: "string list"
  graph_State :: int
  graph_SubmissionTime :: time
  graph_StartTime :: time
  graph_EndTime :: time
  graph_ProcessIDs :: "string list"
  graph_Nodes :: "Node list"
  graph_Edges :: "Edge list"

definition CreateProcessGraph :: "string \<Rightarrow> ('z pq_state_scheme, ProcessGraph) op" where
  "CreateProcessGraph colonyName =
     bindM uuid_New (\<lambda>uuid. bindM (GenerateHash uuid) (\<lambda>gid.
     retM \<lparr>graph_ID = gid, graph_InitiatorID = '''', graph_InitiatorName = '''',
           graph_ColonyName = colonyName, graph_Roots = [], graph_State = 0,
           graph_SubmissionTime = time_zero, graph_StartTime = time_zero, graph_EndTime = time_zero,
           graph_ProcessIDs = [], graph_Nodes = [], graph_Edges = []\<rparr>))"

definition AddRoot :: "string \<Rightarrow> ProcessGraph \<Rightarrow> ProcessGraph" where
  "AddRoot processID g = g\<lparr>graph_Roots := graph_Roots g @ [processID]\<rparr>"

text \<open>
  The method compares the initiator name of one graph with the initiator \<^emph>\<open>identity\<close> of the other.
\<close>

definition ProcessGraph_Equals :: "ProcessGraph \<Rightarrow> ProcessGraph \<Rightarrow> bool" where
  "ProcessGraph_Equals g g2 \<longleftrightarrow>
     graph_State g = graph_State g2 \<and> graph_ID g = graph_ID g2 \<and>
     graph_ColonyName g = graph_ColonyName g2 \<and> graph_InitiatorID g = graph_InitiatorID g2 \<and>
     graph_InitiatorName g = graph_InitiatorID g2"

definition IsProcessGraphArraysEqual :: "ProcessGraph list \<Rightarrow> ProcessGraph list \<Rightarrow> bool" where
  "IsProcessGraphArraysEqual gs hs \<longleftrightarrow>
     (let counter = count_pairs ProcessGraph_Equals gs hs
      in counter = length gs \<and> counter = length hs)"

section \<open>The table\<close>

definition AddProcessGraph :: "ProcessGraph \<Rightarrow> ('z pq_state_scheme, unit) op" where
  "AddProcessGraph g = bindM time_Now (\<lambda>now. sql_exec (\<lambda>db.
     if \<not> int4 (graph_State g) then Inl (SqlErr ''pq: integer out of range'')
     else map_sum id (\<lambda>rows. db\<lparr>PROCESSGRAPHS := rows\<rparr>)
      (insert_row PG_PROCESSGRAPH_ID
        \<lparr>PG_PROCESSGRAPH_ID = graph_ID g, PG_TARGET_COLONY_NAME = graph_ColonyName g,
         PG_ROOTS = graph_Roots g, PG_STATE = graph_State g, PG_SUBMISSION_TIME = now,
         PG_START_TIME = time_zero, PG_END_TIME = time_zero,
         PG_INITIATOR_ID = graph_InitiatorID g, PG_INITIATOR_NAME = graph_InitiatorName g\<rparr>
        (PROCESSGRAPHS db))))"

definition parse_graph :: "processgraph_row \<Rightarrow> ('z pq_state_scheme, ProcessGraph) op" where
  "parse_graph r =
     bindM (CreateProcessGraph (PG_TARGET_COLONY_NAME r)) (\<lambda>g.
     retM (foldl (\<lambda>g root. AddRoot root g)
       (g\<lparr>graph_ID := PG_PROCESSGRAPH_ID r, graph_ColonyName := PG_TARGET_COLONY_NAME r,
          graph_State := PG_STATE r, graph_SubmissionTime := PG_SUBMISSION_TIME r,
          graph_StartTime := PG_START_TIME r, graph_EndTime := PG_END_TIME r,
          graph_InitiatorID := PG_INITIATOR_ID r, graph_InitiatorName := PG_INITIATOR_NAME r\<rparr>)
       (PG_ROOTS r)))"

definition parseProcessGraphs :: "processgraph_row list \<Rightarrow> ('z pq_state_scheme, ProcessGraph list) op" where
  "parseProcessGraphs rows = mapM parse_graph rows"

definition GetProcessGraphByID :: "string \<Rightarrow> ('z pq_state_scheme, ProcessGraph option) op" where
  "GetProcessGraphByID processGraphID =
     bindM (sql_query (\<lambda>db. Inr (filter (\<lambda>r. PG_PROCESSGRAPH_ID r = processGraphID) (PROCESSGRAPHS db)))) (\<lambda>rows.
     bindM (parseProcessGraphs rows) (\<lambda>graphs.
     retM (case graphs of [] \<Rightarrow> None | g # _ \<Rightarrow> Some g)))"

definition update_graph ::
  "string \<Rightarrow> (processgraph_row \<Rightarrow> processgraph_row) \<Rightarrow> ('z pq_state_scheme, unit) op" where
  "update_graph processGraphID f =
     sql_exec (\<lambda>db. Inr (db\<lparr>PROCESSGRAPHS :=
       update_where (\<lambda>r. PG_PROCESSGRAPH_ID r = processGraphID) f (PROCESSGRAPHS db)\<rparr>))"

definition SetProcessGraphState :: "string \<Rightarrow> int \<Rightarrow> ('z pq_state_scheme, unit) op" where
  "SetProcessGraphState processGraphID state =
     bindM (GetProcessGraphByID processGraphID) (\<lambda>found.
     bindM (derefM found) (\<lambda>graph.
     if graph_State graph = WAITING \<and> state = RUNNING then
       bindM time_Now (\<lambda>now. update_graph processGraphID (\<lambda>r. r\<lparr>PG_START_TIME := now, PG_STATE := state\<rparr>))
     else if state = SUCCESS \<or> state = FAILED then
       bindM time_Now (\<lambda>now. update_graph processGraphID (\<lambda>r. r\<lparr>PG_END_TIME := now, PG_STATE := state\<rparr>))
     else update_graph processGraphID (\<lambda>r. r\<lparr>PG_STATE := state\<rparr>)))"

definition findProcessGraphsByState :: "string \<Rightarrow> int \<Rightarrow> int \<Rightarrow> ('z pq_state_scheme, ProcessGraph list) op" where
  "findProcessGraphsByState colonyName state cnt =
     bindM (sql_query (\<lambda>db. sql_limit cnt (order_desc PG_SUBMISSION_TIME
       (filter (\<lambda>r. PG_TARGET_COLONY_NAME r = colonyName \<and> PG_STATE r = state) (PROCESSGRAPHS db)))))
     parseProcessGraphs"

definition FindWaitingProcessGraphs :: "string \<Rightarrow> int \<Rightarrow> ('z pq_state_scheme, ProcessGraph list) op" where
  "FindWaitingProcessGraphs colonyName cnt = findProcessGraphsByState colonyName WAITING cnt"

definition FindRunningProcessGraphs :: "string \<Rightarrow> int \<Rightarrow> ('z pq_state_scheme, ProcessGraph list) op" where
  "FindRunningProcessGraphs colonyName cnt = findProcessGraphsByState colonyName RUNNING cnt"

definition FindSuccessfulProcessGraphs :: "string \<Rightarrow> int \<Rightarrow> ('z pq_state_scheme, ProcessGraph list) op" where
  "FindSuccessfulProcessGraphs colonyName cnt = findProcessGraphsByState colonyName SUCCESS cnt"

definition FindFailedProcessGraphs :: "string \<Rightarrow> int \<Rightarrow> ('z pq_state_scheme, ProcessGraph list) op" where
  "FindFailedProcessGraphs colonyName cnt = findProcessGraphsByState colonyName FAILED cnt"

definition countProcessGraphsByColonyName :: "int \<Rightarrow> string \<Rightarrow> ('z pq_state_scheme, int) op" where
  "countProcessGraphsByColonyName state colonyName =
     sql_query (\<lambda>db. Inr (int (length (filter (\<lambda>r. PG_STATE r = state \<and>
       PG_TARGET_COLONY_NAME r = colonyName) (PROCESSGRAPHS db)))))"

definition CountWaitingProcessGraphsByColonyName :: "string \<Rightarrow> ('z pq_state_scheme, int) op" where
  "CountWaitingProcessGraphsByColonyName = countProcessGraphsByColonyName WAITING"

definition CountRunningProcessGraphsByColonyName :: "string \<Rightarrow> ('z pq_state_scheme, int) op" where
  "CountRunningProcessGraphsByColonyName = countProcessGraphsByColonyName RUNNING"

definition CountSuccessfulProcessGraphsByColonyName :: "string \<Rightarrow> ('z pq_state_scheme, int) op" where
  "CountSuccessfulProcessGraphsByColonyName = countProcessGraphsByColonyName SUCCESS"

definition CountFailedProcessGraphsByColonyName :: "string \<Rightarrow> ('z pq_state_scheme, int) op" where
  "CountFailedProcessGraphsByColonyName = countProcessGraphsByColonyName FAILED"

definition countProcessGraphs :: "int \<Rightarrow> ('z pq_state_scheme, int) op" where
  "countProcessGraphs state =
     sql_query (\<lambda>db. Inr (int (length (filter (\<lambda>r. PG_STATE r = state) (PROCESSGRAPHS db)))))"

definition delete_graphs :: "(processgraph_row \<Rightarrow> bool) \<Rightarrow> ('z pq_state_scheme, unit) op" where
  "delete_graphs P = sql_exec (\<lambda>db. Inr (db\<lparr>PROCESSGRAPHS := delete_where P (PROCESSGRAPHS db)\<rparr>))"

definition RemoveAllProcessGraphsByColonyName :: "string \<Rightarrow> ('z pq_state_scheme, unit) op" where
  "RemoveAllProcessGraphsByColonyName colonyName =
     thenM (delete_graphs (\<lambda>r. PG_TARGET_COLONY_NAME r = colonyName))
           (RemoveAllProcessesInProcessGraphsByColonyName colonyName)"

definition remove_graphs_with_state :: "string \<Rightarrow> int \<Rightarrow> ('z pq_state_scheme, unit) op" where
  "remove_graphs_with_state colonyName state =
     thenM (delete_graphs (\<lambda>r. PG_TARGET_COLONY_NAME r = colonyName \<and> PG_STATE r = state))
           (RemoveAllProcessesInProcessGraphsByColonyNameWithState colonyName state)"

definition RemoveAllWaitingProcessGraphsByColonyName :: "string \<Rightarrow> ('z pq_state_scheme, unit) op" where
  "RemoveAllWaitingProcessGraphsByColonyName colonyName = remove_graphs_with_state colonyName WAITING"

definition RemoveAllRunningProcessGraphsByColonyName :: "string \<Rightarrow> ('z pq_state_scheme, unit) op" where
  "RemoveAllRunningProcessGraphsByColonyName colonyName = remove_graphs_with_state colonyName RUNNING"

definition RemoveAllSuccessfulProcessGraphsByColonyName :: "string \<Rightarrow> ('z pq_state_scheme, unit) op" where
  "RemoveAllSuccessfulProcessGraphsByColonyName colonyName = remove_graphs_with_state colonyName SUCCESS"

definition RemoveAllFailedProcessGraphsByColonyName :: "string \<Rightarrow> ('z pq_state_scheme, unit) op" where
  "RemoveAllFailedProcessGraphsByColonyName colonyName = remove_graphs_with_state colonyName FAILED"

definition RemoveProcessGraphByID :: "string \<Rightarrow> ('z pq_state_scheme, unit) op" where
  "RemoveProcessGraphByID processGraphID =
     thenM (delete_graphs (\<lambda>r. PG_PROCESSGRAPH_ID r = processGraphID))
           (RemoveAllProcessesByProcessGraphID processGraphID)"

definition CountWaitingProcessGraphs :: "('z pq_state_scheme, int) op" where
  "CountWaitingProcessGraphs = countProcessGraphs WAITING"

definition CountRunningProcessGraphs :: "('z pq_state_scheme, int) op" where
  "CountRunningProcessGraphs = countProcessGraphs RUNNING"

definition CountSuccessfulProcessGraphs :: "('z pq_state_scheme, int) op" where
  "CountSuccessfulProcessGraphs = countProcessGraphs SUCCESS"

definition CountFailedProcessGraphs :: "('z pq_state_scheme, int) op" where
  "CountFailedProcessGraphs = countProcessGraphs FAILED"

section \<open>Evaluation without connection faults\<close>

definition find_graph :: "string \<Rightarrow> 'z pq_state_scheme \<Rightarrow> processgraph_row option" where
  "find_graph gid db = find (\<lambda>r. PG_PROCESSGRAPH_ID r = gid) (PROCESSGRAPHS db)"

definition upd_graph ::
  "string \<Rightarrow> (processgraph_row \<Rightarrow> processgraph_row) \<Rightarrow> 'z pq_state_scheme \<Rightarrow> 'z pq_state_scheme" where
  "upd_graph gid f db =
     db\<lparr>PROCESSGRAPHS := update_where (\<lambda>r. PG_PROCESSGRAPH_ID r = gid) f (PROCESSGRAPHS db)\<rparr>"

definition graph_view :: "processgraph_row \<Rightarrow> ProcessGraph" where
  "graph_view r =
     \<lparr>graph_ID = PG_PROCESSGRAPH_ID r, graph_InitiatorID = PG_INITIATOR_ID r,
      graph_InitiatorName = PG_INITIATOR_NAME r, graph_ColonyName = PG_TARGET_COLONY_NAME r,
      graph_Roots = PG_ROOTS r, graph_State = PG_STATE r, graph_SubmissionTime = PG_SUBMISSION_TIME r,
      graph_StartTime = PG_START_TIME r, graph_EndTime = PG_END_TIME r, graph_ProcessIDs = [],
      graph_Nodes = [], graph_Edges = []\<rparr>"

lemma foldl_AddRoot: "foldl (\<lambda>g root. AddRoot root g) g roots = g\<lparr>graph_Roots := graph_Roots g @ roots\<rparr>"
  by (induction roots arbitrary: g) (simp_all add: AddRoot_def)

lemma parse_graph_run [op_simps]: "parse_graph r db = (Inr (graph_view r), tick 1 db)"
  by (simp add: parse_graph_def CreateProcessGraph_def bindM_def uuid_New_def GenerateHash_def
      foldl_AddRoot graph_view_def tick_def)

lemma parseProcessGraphs_run [op_simps]:
  "parseProcessGraphs rows db = (Inr (map graph_view rows), tick (length rows) db)"
  unfolding parseProcessGraphs_def
  by (induction rows arbitrary: db) (simp_all add: bindM_def parse_graph_run tick_def)

lemma GetProcessGraphByID_run [op_simps]:
  "healthy db \<Longrightarrow> GetProcessGraphByID gid db =
     (Inr (map_option graph_view (find_graph gid db)),
      tick (length (filter (\<lambda>r. PG_PROCESSGRAPH_ID r = gid) (PROCESSGRAPHS db))) db)"
  by (simp add: GetProcessGraphByID_def bindM_def sql_query_healthy parseProcessGraphs_run
      find_graph_def find_filter split: list.split)

lemma update_graph_run [op_simps]: "healthy db \<Longrightarrow> update_graph gid f db = (Inr (), upd_graph gid f db)"
  by (simp add: update_graph_def sql_exec_healthy upd_graph_def)

lemma upd_graph_fields [simp]:
  "healthy (upd_graph gid f db) = healthy db" "PROCESSES (upd_graph gid f db) = PROCESSES db"
  "ATTRIBUTES (upd_graph gid f db) = ATTRIBUTES db" "find_row pid (upd_graph gid f db) = find_row pid db"
  "process_ids (upd_graph gid f db) = process_ids db" "EXECUTORS (upd_graph gid f db) = EXECUTORS db"
  by (simp_all add: upd_graph_def find_row_def process_ids_def)

lemma find_graph_other [simp]:
  "find_graph gid (tick n db) = find_graph gid db" "find_graph gid (upd_row pid h db) = find_graph gid db"
  "find_graph gid (upd_attr_state pid st db) = find_graph gid db"
  by (simp_all add: find_graph_def)

lemma find_graph_upd:
  assumes "\<And>r. PG_PROCESSGRAPH_ID (f r) = PG_PROCESSGRAPH_ID r"
  shows "find_graph gid (upd_graph gid' f db) =
         (if gid = gid' then map_option f (find_graph gid db) else find_graph gid db)"
proof -
  have "find (\<lambda>r. PG_PROCESSGRAPH_ID r = gid) (update_where (\<lambda>r. PG_PROCESSGRAPH_ID r = gid') f rows) =
        (if gid = gid' then map_option f (find (\<lambda>r. PG_PROCESSGRAPH_ID r = gid) rows)
         else find (\<lambda>r. PG_PROCESSGRAPH_ID r = gid) rows)" for rows
    using assms by (induction rows) (auto simp: update_where_def)
  then show ?thesis by (simp add: find_graph_def upd_graph_def)
qed

lemma graph_view_fields [simp]:
  "graph_ID (graph_view r) = PG_PROCESSGRAPH_ID r" "graph_Roots (graph_view r) = PG_ROOTS r"
  "graph_State (graph_view r) = PG_STATE r"
  by (simp_all add: graph_view_def)

lemma SetProcessGraphState_run:
  assumes "healthy db" "find_graph gid db = Some g"
  obtains db' where "SetProcessGraphState gid st db = (Inr (), db')" "healthy db'"
    "PROCESSES db' = PROCESSES db" "ATTRIBUTES db' = ATTRIBUTES db" "EXECUTORS db' = EXECUTORS db"
    "\<exists>g'. find_graph gid db' = Some g' \<and> PG_STATE g' = st \<and> PG_ROOTS g' = PG_ROOTS g"
  using assms
  by (cases "PG_STATE g = WAITING \<and> st = RUNNING"; cases "st = SUCCESS \<or> st = FAILED")
    (auto simp: SetProcessGraphState_def bindM_def GetProcessGraphByID_run time_Now_tick
      update_graph_run find_graph_upd)

context process_relation
begin

lemma keeps_graph_ops:
  "keeps R (GetProcessGraphByID gid)" "keeps R (update_graph gid f)" "keeps R (SetProcessGraphState gid st)"
  "keeps R (AddProcessGraph g)" "keeps R (findProcessGraphsByState c st cnt)" "keeps R (CreateProcessGraph c)"
  "keeps R (delete_graphs P)"
proof -
  show c: "keeps R (CreateProcessGraph c)" for c
    unfolding CreateProcessGraph_def GenerateHash_def by (intro keeps_rules keeps_readers)
  have p: "keeps R (parseProcessGraphs rows)" for rows
    unfolding parseProcessGraphs_def parse_graph_def by (intro keeps_rules c)
  show g: "keeps R (GetProcessGraphByID gid)"
    unfolding GetProcessGraphByID_def by (intro keeps_rules keeps_readers p)
  show u: "keeps R (update_graph gid f)" for f
    unfolding update_graph_def by (intro keeps_sql_exec) (auto intro: rel_same)
  show "keeps R (SetProcessGraphState gid st)"
    unfolding SetProcessGraphState_def by (intro keeps_rules keeps_readers g u)
  show "keeps R (AddProcessGraph g)"
    unfolding AddProcessGraph_def
    by (intro keeps_rules keeps_readers keeps_sql_exec)
      (auto split: if_splits simp: insert_row_def intro: rel_same)
  show "keeps R (findProcessGraphsByState c st cnt)"
    unfolding findProcessGraphsByState_def by (intro keeps_rules keeps_readers p)
  show "keeps R (delete_graphs P)"
    unfolding delete_graphs_def by (intro keeps_sql_exec) (auto intro: rel_same)
qed

end

end
