(* ===== verification/Demo.thy ===== *)
theory Demo
  imports Pq_ProcessGraphs
begin

text \<open>
  A small concrete database on which the properties of the development are applied: a colony \<open>c\<close>
  whose only graph \<open>g\<close> has the processes \<open>a\<close>, the root, and \<open>b\<close>, its child, and an executor of the colony.
\<close>

definition demo_row :: "string \<Rightarrow> int \<Rightarrow> string list \<Rightarrow> string list \<Rightarrow> process_row" where
  "demo_row pid state parents children =
     \<lparr>PR_PROCESS_ID = pid, PR_TARGET_COLONY_NAME = ''c'', PR_TARGET_EXECUTOR_NAMES = None,
      PR_ASSIGNED_EXECUTOR_ID = (if state = WAITING then [] else ''e''), PR_STATE = state,
      PR_IS_ASSIGNED = (state \<noteq> WAITING), PR_EXECUTOR_TYPE = ''t'', PR_SUBMISSION_TIME = 10,
      PR_START_TIME = 20, PR_END_TIME = time_zero, PR_WAIT_DEADLINE = time_zero,
      PR_EXEC_DEADLINE = time_zero, PR_ERRORS = [], PR_NODENAME = pid, PR_FUNCNAME = ''f'',
      PR_ARGS = JSON None, PR_KWARGS = JSON None, PR_MAX_WAIT_TIME = - 1, PR_MAX_EXEC_TIME = 5,
      PR_RETRIES = 0, PR_MAX_RETRIES = 3, PR_DEPENDENCIES = None, PR_PRIORITY = 0,
      PR_PRIORITYTIME = 10, PR_WAIT_FOR_PARENTS = (parents \<noteq> []), PR_PARENTS = parents,
      PR_CHILDREN = children, PR_PROCESSGRAPH_ID = ''g'', PR_INPUT = JSON [], PR_OUTPUT = JSON [],
      PR_LABEL = [], PR_FS = JSON zero_Filesystem, PR_NODES = 0, PR_CPU = 0, PR_PROCESSES = 0,
      PR_PROCESSES_PER_NODE = 0, PR_MEMORY = 0, PR_STORAGE = 0, PR_GPUNAME = [], PR_GPUCOUNT = 0,
      PR_GPUMEM = 0, PR_WALLTIME = 0, PR_INITIATOR_ID = ''u'', PR_INITIATOR_NAME = ''user''\<rparr>"

definition demo_graph_row :: processgraph_row where
  "demo_graph_row =
     \<lparr>PG_PROCESSGRAPH_ID = ''g'', PG_TARGET_COLONY_NAME = ''c'', PG_ROOTS = [''a''], PG_STATE = WAITING,
      PG_SUBMISSION_TIME = 10, PG_START_TIME = time_zero, PG_END_TIME = time_zero,
      PG_INITIATOR_ID = ''u'', PG_INITIATOR_NAME = ''user''\<rparr>"

definition demo_db :: "int \<Rightarrow> int \<Rightarrow> pq_state" where
  "demo_db state_a state_b =
     (new_pq (\<lambda>s. s) (\<lambda>n. 100 + int n) (\<lambda>n. replicate (Suc n) CHR ''x'') (\<lambda>_. unitMap))
       \<lparr>PROCESSES := [demo_row ''a'' state_a [] [''b''], demo_row ''b'' state_b [''a''] []],
        PROCESSGRAPHS := [demo_graph_row]\<rparr>"

definition demo_executor :: Executor where
  "demo_executor = CreateExecutor ''e'' ''t'' ''exec'' ''c'' 0 0"

lemma demo_row_fields [simp]:
  "PR_PROCESS_ID (demo_row p st ps cs) = p" "PR_STATE (demo_row p st ps cs) = st"
  "PR_PARENTS (demo_row p st ps cs) = ps" "PR_CHILDREN (demo_row p st ps cs) = cs"
  "PR_IS_ASSIGNED (demo_row p st ps cs) = (st \<noteq> WAITING)"
  "PR_WAIT_FOR_PARENTS (demo_row p st ps cs) = (ps \<noteq> [])"
  by (simp_all add: demo_row_def)

lemma demo_graph_row_fields [simp]:
  "PG_ROOTS demo_graph_row = [''a'']" "PG_PROCESSGRAPH_ID demo_graph_row = ''g''" "PG_STATE demo_graph_row = WAITING"
  by (simp_all add: demo_graph_row_def)

lemma demo_db_simps [simp]:
  "healthy (demo_db x y)" "process_ids (demo_db x y) = [''a'', ''b'']"
  "find_row ''a'' (demo_db x y) = Some (demo_row ''a'' x [] [''b''])"
  "find_row ''b'' (demo_db x y) = Some (demo_row ''b'' y [''a''] [])"
  "find_graph ''g'' (demo_db x y) = Some demo_graph_row"
  by (simp_all add: demo_db_def healthy_def new_pq_def process_ids_def find_row_def find_graph_def
      demo_graph_row_def)

lemma demo_db_tables:
  "PROCESSES (demo_db x y) = [demo_row ''a'' x [] [''b''], demo_row ''b'' y [''a''] []]"
  "EXECUTORS (demo_db x y) = []" "USERS (demo_db x y) = []" "COLONIES (demo_db x y) = []" "ATTRIBUTES (demo_db x y) = []"
  "env_clock (demo_db x y) n = 100 + int n" "env_ticks (demo_db x y) = 0" "env_hash (demo_db x y) = (\<lambda>s. s)"
  "PR_SUBMISSION_TIME (demo_row p st ps cs) = 10"
  by (simp_all add: demo_db_def new_pq_def demo_row_def)


end

