(* ===== verification/Process_Graph_Facts.thy ===== *)
theory Process_Graph_Facts
  imports Process_Graph Demo
begin

text \<open>
  \<open>Iterate\<close> visits exactly the processes that the roots reach through children, each once, and never
  runs out of fuel; with it, what the counters return and what \<open>Resolve\<close> does to the tables.
\<close>

declare dfs.simps(2) [simp del] graph_iterate.simps(2) [simp del] graph_getRoot.simps(2) [simp del]

section \<open>Depth-first order\<close>

text \<open>What one more search adds to the visited list, inside a set \<open>S\<close> closed under children.\<close>

definition dfs_spec :: "(string \<Rightarrow> string list) \<Rightarrow> string set \<Rightarrow> string set \<Rightarrow> string list \<Rightarrow> string list \<Rightarrow> bool" where
  "dfs_spec ch S targets vis vis' \<longleftrightarrow>
     (\<exists>L. vis' = L @ vis \<and> distinct L \<and> set L \<subseteq> S - set vis) \<and> targets \<subseteq> set vis' \<and>
     (\<forall>x \<in> set vis' - set vis. set (ch x) \<subseteq> set vis')"

lemma dfs_specD:
  assumes "dfs_spec ch S T vis vis'"
  shows "set vis \<subseteq> set vis'" "set vis' \<subseteq> set vis \<union> S" "T \<subseteq> set vis'"
  using assms by (auto simp: dfs_spec_def)

lemma dfs_spec_trans:
  assumes "dfs_spec ch S T vis vis'" "dfs_spec ch S T' vis' vis''"
  shows "dfs_spec ch S (T \<union> T') vis vis''"
proof -
  obtain L L' where L: "vis' = L @ vis" "distinct L" "set L \<subseteq> S - set vis"
    and L': "vis'' = L' @ vis'" "distinct L'" "set L' \<subseteq> S - set vis'"
    using assms by (auto simp: dfs_spec_def)
  then have "vis'' = (L' @ L) @ vis" "distinct (L' @ L)" "set (L' @ L) \<subseteq> S - set vis" by auto
  moreover have "T \<union> T' \<subseteq> set vis''"
    using assms L' by (auto simp: dfs_spec_def)
  moreover have "\<forall>x \<in> set vis'' - set vis. set (ch x) \<subseteq> set vis''"
  proof
    fix x assume "x \<in> set vis'' - set vis"
    then consider "x \<in> set vis'' - set vis'" | "x \<in> set vis' - set vis" by auto
    then show "set (ch x) \<subseteq> set vis''"
      using assms L' by cases (auto simp: dfs_spec_def)
  qed
  ultimately show ?thesis by (auto simp: dfs_spec_def)
qed

lemma card_less_Diff:
  assumes "finite S" "p \<in> S" "p \<notin> V" "card (S - V) < Suc n"
  shows "card (S - insert p V) < n"
proof -
  have "S - insert p V = (S - V) - {p}" by auto
  then have "card (S - insert p V) = card (S - V) - 1"
    using assms by simp
  moreover have "card (S - V) > 0" using assms by (auto simp: card_gt_0_iff)
  ultimately show ?thesis using assms(4) by simp
qed

lemma dfs_foldl_correct:
  assumes "\<And>p vis. p \<in> S \<Longrightarrow> card (S - set vis) < n \<Longrightarrow> dfs_spec ch S {p} vis (dfs n ch p vis)"
    and "finite S" "set ps \<subseteq> S" "card (S - set vis) < n"
  shows "dfs_spec ch S (set ps) vis (foldl (\<lambda>v c. dfs n ch c v) vis ps)"
  using assms(3,4)
proof (induction ps arbitrary: vis)
  case Nil
  then show ?case by (auto simp: dfs_spec_def)
next
  case (Cons p ps)
  have 1: "dfs_spec ch S {p} vis (dfs n ch p vis)"
    using Cons.prems assms(1) by simp
  have "card (S - set (dfs n ch p vis)) \<le> card (S - set vis)"
    using dfs_specD(1)[OF 1] assms(2) by (intro card_mono) auto
  then have "dfs_spec ch S (set ps) (dfs n ch p vis) (foldl (\<lambda>v c. dfs n ch c v) (dfs n ch p vis) ps)"
    using Cons by simp
  from dfs_spec_trans[OF 1 this] show ?case by simp
qed

lemma dfs_correct:
  assumes "finite S" "\<And>x. x \<in> S \<Longrightarrow> set (ch x) \<subseteq> S" "p \<in> S" "card (S - set vis) < n"
  shows "dfs_spec ch S {p} vis (dfs n ch p vis)"
  using assms(3,4)
proof (induction n arbitrary: p vis)
  case (Suc n)
  show ?case
  proof (cases "p \<in> set vis")
    case True
    then show ?thesis by (auto simp: dfs_spec_def dfs.simps)
  next
    case False
    let ?v = "foldl (\<lambda>v c. dfs n ch c v) (p # vis) (ch p)"
    have "card (S - set (p # vis)) < n"
      using card_less_Diff[OF assms(1) Suc.prems(1) False Suc.prems(2)] by simp
    then have f: "dfs_spec ch S (set (ch p)) (p # vis) ?v"
      using Suc assms by (intro dfs_foldl_correct) auto
    then obtain L where "?v = L @ p # vis" "distinct L" "set L \<subseteq> S - set (p # vis)"
      by (auto simp: dfs_spec_def)
    then have "?v = (L @ [p]) @ vis" "distinct (L @ [p])" "set (L @ [p]) \<subseteq> S - set vis"
      using Suc.prems False by auto
    moreover have "\<forall>x \<in> set ?v - set vis. set (ch x) \<subseteq> set ?v"
      using f by (auto simp: dfs_spec_def)
    ultimately have "dfs_spec ch S {p} vis ?v"
      unfolding dfs_spec_def by (metis Un_iff empty_subsetI insert_subset list.set_intros(1) set_append)
    with False show ?thesis by (simp add: dfs.simps)
  qed
qed simp

section \<open>The walk in a fixed graph\<close>

text \<open>The part of the state that a walk relies on.\<close>

definition graph_ctx :: "string set \<Rightarrow> (string \<Rightarrow> string list) \<Rightarrow> 'z pq_state_scheme \<Rightarrow> bool" where
  "graph_ctx S ch db \<longleftrightarrow> healthy db \<and> S \<subseteq> set (process_ids db) \<and> (\<forall>x \<in> S. children_of db x = ch x)"

definition stable :: "string set \<Rightarrow> (string \<Rightarrow> string list) \<Rightarrow> ('z, 'b) visitor \<Rightarrow> bool" where
  "stable S ch visit \<longleftrightarrow> (\<forall>process acc. keeps (\<lambda>s t. graph_ctx S ch s \<longrightarrow> graph_ctx S ch t) (visit process acc))"

interpretation ctx: op_relation "\<lambda>s t :: 'z pq_state_scheme. graph_ctx S ch s \<longrightarrow> graph_ctx S ch t"
  for S ch
  by unfold_locales auto

lemma graph_ctx_find:
  assumes "graph_ctx S ch db" "p \<in> S"
  obtains r where "find_row p db = Some r" "PR_CHILDREN r = ch p" "PR_PROCESS_ID r = p"
proof -
  have "find_row p db \<noteq> None"
    using assms by (auto simp: graph_ctx_def find_row_None)
  then obtain r where r: "find_row p db = Some r" by auto
  then have "PR_CHILDREN r = ch p"
    using assms by (auto simp: graph_ctx_def children_of_def)
  with r find_row_id[OF r] that show thesis by blast
qed

lemma visit_one_run:
  assumes "graph_ctx S ch db" "find_row p db = Some r"
  shows "visit_one visit acc p db = visit (process_view db r) acc db"
  using assms by (simp add: visit_one_def bindM_def GetProcessByID_run graph_ctx_def)

lemma run_visits_simps:
  "run_visits visit [] acc = retM acc"
  "run_visits visit (p # ps) acc = bindM (visit_one visit acc p) (run_visits visit ps)"
  by (auto simp: run_visits_def fun_eq_iff bindM_def split: prod.splits sum.splits)

lemma run_visits_append:
  "run_visits visit (ps @ qs) acc = bindM (run_visits visit ps acc) (run_visits visit qs)"
  by (induction ps arbitrary: acc)
    (auto simp: run_visits_simps fun_eq_iff bindM_def split: prod.splits sum.splits)

lemma run_visits_ctx:
  assumes "stable S ch visit" "graph_ctx S ch db" "set ps \<subseteq> S"
  shows "graph_ctx S ch (snd (run_visits visit ps acc db))"
  using assms(2,3)
proof (induction ps arbitrary: acc db)
  case (Cons p ps)
  obtain r where r: "find_row p db = Some r" using graph_ctx_find Cons.prems by (metis insert_subset list.set(2))
  have v: "visit_one visit acc p db = visit (process_view db r) acc db"
    by (rule visit_one_run[OF Cons.prems(1) r])
  have "graph_ctx S ch (snd (visit (process_view db r) acc db))"
    using assms(1) Cons.prems(1) by (auto simp: stable_def keeps_def)
  with v Cons show ?case
    by (auto simp: run_visits_simps bindM_def split: prod.splits sum.splits)
qed (simp add: run_visits_simps)

text \<open>\<open>after L v\<close>: run the visits \<open>L\<close> and return the visited list \<open>v\<close> beside the accumulator.\<close>

definition after_visits ::
  "('z, 'b) visitor \<Rightarrow> string list \<Rightarrow> string list \<Rightarrow> 'b \<Rightarrow> ('z pq_state_scheme, string list \<times> 'b) op" where
  "after_visits visit L v acc = bindM (run_visits visit L acc) (\<lambda>a. retM (v, a))"

lemma after_visits_seq:
  assumes "stable S ch visit" "graph_ctx S ch db" "set L \<subseteq> S"
    and "\<And>a s. graph_ctx S ch s \<Longrightarrow> k (v, a) s = after_visits visit L' v' a s"
  shows "bindM (after_visits visit L v acc) k db = after_visits visit (L @ L') v' acc db"
proof -
  have c: "graph_ctx S ch (snd (run_visits visit L acc db))"
    by (rule run_visits_ctx[OF assms(1-3)])
  show ?thesis
    using c assms(4)
    by (cases "run_visits visit L acc db"; cases "fst (run_visits visit L acc db)")
      (auto simp: after_visits_def run_visits_append bindM_def)
qed

lemma after_visits_bind:
  assumes "run_visits visit L acc db = m db"
  shows "bindM (after_visits visit L v acc) k db = bindM m (\<lambda>a. k (v, a)) db"
  using assms by (cases "m db"; cases "fst (m db)") (simp_all add: after_visits_def bindM_def)

text \<open>With fuel \<open>n\<close>, the search from one process is the run of the visits that \<open>dfs\<close> adds.\<close>

definition iterate_is_dfs :: "nat \<Rightarrow> string set \<Rightarrow> (string \<Rightarrow> string list) \<Rightarrow> ('z, 'b) visitor \<Rightarrow> bool" where
  "iterate_is_dfs n S ch visit \<longleftrightarrow>
     (\<forall>p vis acc db. p \<in> S \<longrightarrow> card (S - set vis) < n \<longrightarrow> graph_ctx S ch db \<longrightarrow>
        graph_iterate n visit p (vis, acc) db =
          after_visits visit (rev (take (length (dfs n ch p vis) - length vis) (dfs n ch p vis)))
            (dfs n ch p vis) acc db)"

lemma foldM_iterate_normal:
  assumes IH: "iterate_is_dfs n S ch visit"
    and closed: "finite S" "\<And>x. x \<in> S \<Longrightarrow> set (ch x) \<subseteq> S" and st: "stable S ch visit"
    and ps: "set ps \<subseteq> S" "card (S - set vis) < n" "graph_ctx S ch db"
  defines "v' \<equiv> foldl (\<lambda>v c. dfs n ch c v) vis ps"
  shows "foldM (\<lambda>s c. graph_iterate n visit c s) (vis, acc) ps db =
         after_visits visit (rev (take (length v' - length vis) v')) v' acc db"
  using ps unfolding v'_def
proof (induction ps arbitrary: vis acc db)
  case Nil
  then show ?case by (simp add: after_visits_def run_visits_simps bindM_def)
next
  case (Cons p ps)
  let ?v1 = "dfs n ch p vis" and ?v2 = "foldl (\<lambda>v c. dfs n ch c v) (dfs n ch p vis) ps"
  have s1: "dfs_spec ch S {p} vis ?v1"
    using Cons.prems closed by (intro dfs_correct) auto
  then have c1: "card (S - set ?v1) < n"
    using dfs_specD(1)[OF s1] closed(1) Cons.prems(2)
    by (meson Diff_mono card_mono finite_Diff le_less_trans subset_refl)
  have s2: "dfs_spec ch S (set ps) ?v1 ?v2"
    using Cons.prems closed c1 by (intro dfs_foldl_correct dfs_correct) auto
  obtain L1 where L1: "?v1 = L1 @ vis" "set L1 \<subseteq> S" using s1 by (auto simp: dfs_spec_def)
  obtain L2 where L2: "?v2 = L2 @ ?v1" using s2 by (auto simp: dfs_spec_def)
  have "bindM (after_visits visit (rev L1) ?v1 acc) (\<lambda>s. foldM (\<lambda>s c. graph_iterate n visit c s) s ps) db =
        after_visits visit (rev L1 @ rev L2) ?v2 acc db"
  proof (rule after_visits_seq[OF st Cons.prems(3)])
    show "set (rev L1) \<subseteq> S" using L1 by simp
    show "foldM (\<lambda>s c. graph_iterate n visit c s) (?v1, a) ps s = after_visits visit (rev L2) ?v2 a s"
      if "graph_ctx S ch s" for a s
      using Cons.IH[of ?v1 s a] Cons.prems(1) c1 that L2 by simp
  qed
  moreover have "graph_iterate n visit p (vis, acc) db = after_visits visit (rev L1) ?v1 acc db"
    using IH Cons.prems L1(1) by (simp add: iterate_is_dfs_def)
  ultimately have "foldM (\<lambda>s c. graph_iterate n visit c s) (vis, acc) (p # ps) db =
      after_visits visit (rev L1 @ rev L2) ?v2 acc db"
    by (simp add: bindM_def)
  then show ?case using L1(1) L2 by simp
qed

lemma iterate_normal:
  fixes visit :: "('z, 'b) visitor"
  assumes closed: "finite S" "\<And>x. x \<in> S \<Longrightarrow> set (ch x) \<subseteq> S" and st: "stable S ch visit"
  shows "iterate_is_dfs n S ch visit"
proof (induction n)
  case 0
  show ?case by (simp add: iterate_is_dfs_def)
next
  case (Suc n)
  show ?case
    unfolding iterate_is_dfs_def
  proof (intro allI impI)
  fix p vis acc and db :: "'z pq_state_scheme"
  assume prems: "p \<in> S" "card (S - set vis) < Suc n" "graph_ctx S ch db"
  obtain r where r: "find_row p db = Some r" "PR_CHILDREN r = ch p"
    using graph_ctx_find[OF prems(3,1)] by blast
  have get: "GetProcessByID p db = (Inr (Some (process_view db r)), db)"
    using r prems(3) by (simp add: GetProcessByID_run graph_ctx_def)
  show "graph_iterate (Suc n) visit p (vis, acc) db =
      after_visits visit (rev (take (length (dfs (Suc n) ch p vis) - length vis) (dfs (Suc n) ch p vis)))
        (dfs (Suc n) ch p vis) acc db"
  proof (cases "p \<in> set vis")
    case True
    with get show ?thesis
      by (simp add: graph_iterate.simps dfs.simps bindM_def after_visits_def run_visits_simps)
  next
    case False
    let ?v = "foldl (\<lambda>v c. dfs n ch c v) (p # vis) (ch p)"
    have c: "card (S - set (p # vis)) < n"
      using card_less_Diff[OF closed(1) prems(1) False prems(2)] by simp
    have "dfs_spec ch S (set (ch p)) (p # vis) ?v"
      using closed prems(1) c by (intro dfs_foldl_correct dfs_correct) auto
    then obtain L where L: "?v = L @ p # vis" by (auto simp: dfs_spec_def)
    have one: "run_visits visit [p] acc db = visit (process_view db r) acc db"
      by (simp add: run_visits_simps visit_one_run[OF prems(3) r(1)] bindM_def
          split: prod.splits sum.splits)
    have "bindM (after_visits visit [p] (p # vis) acc)
        (\<lambda>s. foldM (\<lambda>s c. graph_iterate n visit c s) s (ch p)) db = after_visits visit ([p] @ rev L) ?v acc db"
    proof (rule after_visits_seq[OF st prems(3)])
      show "set [p] \<subseteq> S" using prems by simp
      show "foldM (\<lambda>s c. graph_iterate n visit c s) (p # vis, a) (ch p) s = after_visits visit (rev L) ?v a s"
        if "graph_ctx S ch s" for a s
        using foldM_iterate_normal[OF Suc.IH closed st, of "ch p" "p # vis" s a]
          that c L closed(2)[OF prems(1)] by simp
    qed
    then have "bindM (visit (process_view db r) acc)
        (\<lambda>a. foldM (\<lambda>s c. graph_iterate n visit c s) (p # vis, a) (ch p)) db =
        after_visits visit ([p] @ rev L) ?v acc db"
      by (simp only: after_visits_bind[where m = "visit (process_view db r) acc", OF one])
    moreover have "graph_iterate (Suc n) visit p (vis, acc) db =
        bindM (visit (process_view db r) acc)
          (\<lambda>a. foldM (\<lambda>s c. graph_iterate n visit c s) (p # vis, a) (ch p)) db"
      using False r(2) get by (simp add: graph_iterate.simps bindM_Inr[where m = "GetProcessByID p"])
    moreover have "dfs (Suc n) ch p vis = ?v" using False by (simp add: dfs.simps)
    ultimately show ?thesis by (simp only:) (simp add: L)
  qed
  qed
qed

section \<open>Iterate\<close>

lemma reachable_closed:
  "x \<in> reachable ch roots \<Longrightarrow> set (ch x) \<subseteq> reachable ch roots" "set roots \<subseteq> reachable ch roots"
  by (auto intro: reachable.intros)

lemma reachable_least:
  assumes "set roots \<subseteq> V" "\<And>x. x \<in> V \<Longrightarrow> set (ch x) \<subseteq> V"
  shows "reachable ch roots \<subseteq> V"
proof
  fix x assume "x \<in> reachable ch roots"
  then show "x \<in> V" by (induction rule: reachable.induct) (use assms in auto)
qed

lemma graph_closed_finite: "graph_closed db roots \<Longrightarrow> finite (reachable (children_of db) roots)"
  by (auto simp: graph_closed_def intro: finite_subset)

lemma graph_closed_fuel:
  assumes "graph_closed db roots"
  shows "card (reachable (children_of db) roots) < Suc (length (PROCESSES db))"
proof -
  have "card (reachable (children_of db) roots) \<le> card (set (process_ids db))"
    using assms by (intro card_mono) (auto simp: graph_closed_def)
  also have "\<dots> \<le> length (PROCESSES db)"
    using card_length[of "process_ids db"] by (simp add: process_ids_def)
  finally show ?thesis by simp
qed

lemma walk_spec:
  assumes "graph_closed db roots"
  shows "dfs_spec (children_of db) (reachable (children_of db) roots) (set roots) [] (rev (walk db roots))"
  unfolding walk_def rev_rev_ident
  using graph_closed_finite[OF assms] graph_closed_fuel[OF assms] reachable_closed
  by (intro dfs_foldl_correct dfs_correct) auto

lemma walk_reachable:
  assumes "graph_closed db roots"
  shows "distinct (walk db roots)" "set (walk db roots) = reachable (children_of db) roots"
proof -
  have sp: "dfs_spec (children_of db) (reachable (children_of db) roots) (set roots) [] (rev (walk db roots))"
    by (rule walk_spec[OF assms])
  then show "distinct (walk db roots)" by (auto simp: dfs_spec_def)
  have "reachable (children_of db) roots \<subseteq> set (walk db roots)"
    using sp by (intro reachable_least) (auto simp: dfs_spec_def)
  with sp show "set (walk db roots) = reachable (children_of db) roots"
    by (auto simp: dfs_spec_def)
qed

lemma graph_closed_ctx:
  "healthy db \<Longrightarrow> graph_closed db roots \<Longrightarrow> graph_ctx (reachable (children_of db) roots) (children_of db) db"
  by (simp add: graph_ctx_def graph_closed_def)

lemma Iterate_run:
  assumes "healthy db" "graph_closed db roots"
    and "stable (reachable (children_of db) roots) (children_of db) visit"
  shows "Iterate roots visit acc db = run_visits visit (walk db roots) acc db"
proof -
  let ?S = "reachable (children_of db) roots" and ?n = "Suc (length (PROCESSES db))"
  let ?v = "foldl (\<lambda>v c. dfs ?n (children_of db) c v) [] roots"
  have closed: "finite ?S" "\<And>x. x \<in> ?S \<Longrightarrow> set (children_of db x) \<subseteq> ?S" "card (?S - set []) < ?n"
    using assms(2) graph_closed_finite graph_closed_fuel reachable_closed by auto
  have "foldM (\<lambda>st root. graph_iterate ?n visit root st) ([], acc) roots db =
        after_visits visit (rev (take (length ?v - length ([] :: string list)) ?v)) ?v acc db"
    using closed reachable_closed(2)[of roots "children_of db"] graph_closed_ctx[OF assms(1,2)]
    by (intro foldM_iterate_normal[where S = ?S] iterate_normal assms(3)) auto
  then show ?thesis
    by (simp add: Iterate_def bindM_def after_visits_def walk_def split: prod.splits sum.splits)
qed

section \<open>Visitors\<close>

lemma ctx_keepsI:
  "(\<And>s. graph_ctx S ch s \<Longrightarrow> graph_ctx S ch (snd (m s))) \<Longrightarrow>
   keeps (\<lambda>s t. graph_ctx S ch s \<longrightarrow> graph_ctx S ch t) m"
  by (simp add: keeps_def)

lemma graph_ctx_upd:
  assumes "graph_ctx S ch s" "\<And>r. PR_PROCESS_ID (f r) = PR_PROCESS_ID r" "\<And>r. PR_CHILDREN (f r) = PR_CHILDREN r"
  shows "graph_ctx S ch (upd_row pid f s)" "graph_ctx S ch (upd_attr_state pid st s)"
  using assms by (auto simp: graph_ctx_def children_of_def find_row_upd split: option.splits)

lemma ctx_healthy: "graph_ctx S ch s \<Longrightarrow> healthy s"
  by (simp add: graph_ctx_def)

lemma stable_pure: "stable S ch (\<lambda>process acc. retM (g process acc))"
  unfolding stable_def by (intro allI ctx.keeps_rules)

lemma ctx_process_ops:
  "keeps (\<lambda>s t. graph_ctx S ch s \<longrightarrow> graph_ctx S ch t) (GetProcessByID pid)"
  "keeps (\<lambda>s t. graph_ctx S ch s \<longrightarrow> graph_ctx S ch t) (SetProcessState pid st)"
  "keeps (\<lambda>s t. graph_ctx S ch s \<longrightarrow> graph_ctx S ch t) (SetWaitForParents pid b)"
  by (rule ctx_keepsI, simp add: GetProcessByID_run SetProcessState_run SetWaitForParents_run ctx_healthy
      graph_ctx_upd)+

text \<open>What the walk keeps, if the visitor keeps it; also outside the graphs above and under faults.\<close>

lemma keeps_graph_iterate:
  assumes "op_relation R" "\<And>pid. keeps R (GetProcessByID pid)" "\<And>process acc. keeps R (visit process acc)"
  shows "keeps R (graph_iterate n visit p st)"
proof (induction n arbitrary: p st)
  case (Suc n)
  obtain vis acc where "st = (vis, acc)" by fastforce
  with Suc assms(2,3) show ?case
    by (simp add: graph_iterate.simps(2)) (intro op_relation.keeps_rules[OF assms(1)]; simp)
qed (simp add: op_relation.keeps_rules(2)[OF assms(1)])

lemma keeps_Iterate:
  assumes "op_relation R" "\<And>pid. keeps R (GetProcessByID pid)" "\<And>process acc. keeps R (visit process acc)"
  shows "keeps R (Iterate roots visit acc)"
  unfolding Iterate_def
  by (intro op_relation.keeps_rules[OF assms(1)] keeps_graph_iterate[OF assms])
    (simp add: split_beta op_relation.keeps_rules(1)[OF assms(1)])

lemma keeps_fail_all:
  assumes "op_relation R" "\<And>pid. keeps R (GetProcessByID pid)" "\<And>pid. keeps R (SetProcessState pid FAILED)"
  shows "keeps R (fail_all roots)"
  unfolding fail_all_def by (intro keeps_Iterate[OF assms(1,2)] assms(3))

lemma keeps_resolve_visit:
  assumes "op_relation R" "\<And>pid. keeps R (GetProcessByID pid)" "\<And>pid. keeps R (SetProcessState pid FAILED)"
    and "\<And>pid. keeps R (SetWaitForParents pid False)"
  shows "keeps R (resolve_visit roots process counters)"
  unfolding resolve_visit_def resolve_parent_def
  by (intro op_relation.keeps_rules[OF assms(1)] keeps_fail_all[OF assms(1-3)] assms)

text \<open>A visitor that only computes sees the rows of the walk in order.\<close>

definition row_of :: "'z pq_state_scheme \<Rightarrow> string \<Rightarrow> process_row" where
  "row_of db pid = the (find_row pid db)"

lemma run_visits_pure:
  assumes "healthy db" "set ps \<subseteq> set (process_ids db)"
  shows "run_visits (\<lambda>process acc. retM (g process acc)) ps acc db =
         (Inr (foldl (\<lambda>acc p. g (process_view db (row_of db p)) acc) acc ps), db)"
  using assms(2)
proof (induction ps arbitrary: acc)
  case (Cons p ps)
  then have "find_row p db \<noteq> None" by (simp add: find_row_None)
  then obtain r where "find_row p db = Some r" by blast
  with Cons assms(1) show ?case
    by (simp add: run_visits_simps bindM_def visit_one_def GetProcessByID_run row_of_def)
qed (simp add: run_visits_simps)

lemma Iterate_pure:
  assumes "healthy db" "graph_closed db roots"
  shows "Iterate roots (\<lambda>process acc. retM (g process acc)) acc db =
         (Inr (foldl (\<lambda>acc p. g (process_view db (row_of db p)) acc) acc (walk db roots)), db)"
  using assms walk_reachable(2)[OF assms(2)]
  by (simp add: Iterate_run stable_pure run_visits_pure graph_closed_def)

lemma foldl_count: "foldl (\<lambda>n x. if P x then n + 1 else n) (k :: int) xs = k + int (length (filter P xs))"
  by (induction xs arbitrary: k) auto

lemma foldl_collect: "foldl (\<lambda>ys x. if P x then ys @ [f x] else ys) ys xs = ys @ map f (filter P xs)"
  by (induction xs arbitrary: ys) auto

lemma count_where_run:
  assumes "healthy db" "graph_closed db (graph_Roots graph)"
  shows "count_where graph P db =
     (Inr (int (card {p \<in> reachable (children_of db) (graph_Roots graph). P (process_view db (row_of db p))})), db)"
proof -
  let ?Q = "\<lambda>p. P (process_view db (row_of db p))" and ?w = "walk db (graph_Roots graph)"
  have "length (filter ?Q ?w) = card (set (filter ?Q ?w))"
    using walk_reachable(1)[OF assms(2)] by (intro distinct_card[symmetric] distinct_filter)
  also have "set (filter ?Q ?w) = {p \<in> reachable (children_of db) (graph_Roots graph). ?Q p}"
    using walk_reachable(2)[OF assms(2)] by auto
  finally show ?thesis
    by (simp add: count_where_def Iterate_pure[OF assms] foldl_count)
qed

lemma graph_closedI:
  assumes "set roots \<subseteq> V" "\<And>x. x \<in> V \<Longrightarrow> set (children_of db x) \<subseteq> V" "V \<subseteq> set (process_ids db)"
  shows "graph_closed db roots"
  using reachable_least[of roots V "children_of db"] assms by (auto simp: graph_closed_def)

lemma demo_children [simp]:
  "children_of (demo_db x y) ''a'' = [''b'']" "children_of (demo_db x y) ''b'' = []"
  by (simp_all add: children_of_def)

lemma demo_reachable [simp]: "reachable (children_of (demo_db x y)) [''a''] = {''a'', ''b''}"
proof
  show "reachable (children_of (demo_db x y)) [''a''] \<subseteq> {''a'', ''b''}"
    by (rule reachable_least) auto
  have "''a'' \<in> reachable (children_of (demo_db x y)) [''a'']" by (simp add: reachable.root)
  then show "{''a'', ''b''} \<subseteq> reachable (children_of (demo_db x y)) [''a'']"
    using reachable.child[of "''a''" "children_of (demo_db x y)" "[''a'']" "''b''"] by simp
qed

lemma demo_closed [simp]: "graph_closed (demo_db x y) [''a'']"
  by (simp add: graph_closed_def)

section \<open>Properties\<close>

text \<open>
  C23: when the processes of a graph are all stored, \<open>Iterate\<close> is the run of its visitor over a list
  of processes that has every process reachable from the roots exactly once; the fuel of the model
  is never used up, so the walk ends on every graph, cyclic ones included.
\<close>

theorem Iterate_visits_reachable_once:
  assumes "healthy db" "graph_closed db roots"
    and "stable (reachable (children_of db) roots) (children_of db) visit"
  shows "Iterate roots visit acc db = run_visits visit (walk db roots) acc db \<and>
         distinct (walk db roots) \<and> set (walk db roots) = reachable (children_of db) roots"
  using Iterate_run[OF assms] walk_reachable[OF assms(2)] by simp

theorem Iterate_visits_reachable_once_witness:
  "set (walk (demo_db RUNNING WAITING) [''a'']) = {''a'', ''b''} \<and> distinct (walk (demo_db RUNNING WAITING) [''a'']) \<and>
   Iterate [''a''] (\<lambda>process n. retM (n + 1)) (0 :: int) (demo_db RUNNING WAITING) =
   run_visits (\<lambda>process n. retM (n + 1)) (walk (demo_db RUNNING WAITING) [''a'']) 0 (demo_db RUNNING WAITING)"
  using Iterate_visits_reachable_once[of "demo_db RUNNING WAITING" "[''a'']" "\<lambda>process n. retM (n + 1)" "0 :: int"]
  by (simp add: stable_pure)

text \<open>
  \<open>Leaves\<close> returns the processes of the graph that have no children, each once, and the counter
  methods return how many processes the graph has and how many of them are in each state.
\<close>

theorem graph_counters_exact:
  assumes "healthy db" "graph_closed db (graph_Roots graph)"
  defines "G \<equiv> reachable (children_of db) (graph_Roots graph)"
  shows "(\<exists>leafs. Leaves graph db = (Inr leafs, db) \<and> distinct leafs \<and> set leafs = {p \<in> G. children_of db p = []}) \<and>
         graph_Processes graph db = (Inr (int (card G)), db) \<and>
         WaitProcesses graph db = (Inr (int (card {p \<in> G. state_of db p = WAITING})), db) \<and>
         RunningProcesses graph db = (Inr (int (card {p \<in> G. state_of db p = RUNNING})), db) \<and>
         SuccessfulProcesses graph db = (Inr (int (card {p \<in> G. state_of db p = SUCCESS})), db) \<and>
         FailedProcesses graph db = (Inr (int (card {p \<in> G. state_of db p = FAILED})), db)"
proof -
  have row: "find_row p db = Some (row_of db p)" "PR_PROCESS_ID (row_of db p) = p" if "p \<in> G" for p
  proof -
    from that assms(2) have "find_row p db \<noteq> None" by (auto simp: find_row_None graph_closed_def G_def)
    then show "find_row p db = Some (row_of db p)" by (auto simp: row_of_def)
    then show "PR_PROCESS_ID (row_of db p) = p" by (rule find_row_id)
  qed
  then have st: "PR_STATE (row_of db p) = state_of db p" "PR_CHILDREN (row_of db p) = children_of db p" if "p \<in> G" for p
    using that by (auto simp: state_of_def children_of_def)
  then have cnt: "{p \<in> G. PR_STATE (row_of db p) = s} = {p \<in> G. state_of db p = s}" for s by auto
  let ?w = "walk db (graph_Roots graph)"
  have w: "distinct ?w" "set ?w = G" using walk_reachable[OF assms(2)] by (simp_all add: G_def)
  have "map (\<lambda>p. PR_PROCESS_ID (row_of db p)) (filter (\<lambda>p. PR_CHILDREN (row_of db p) = []) ?w) =
        filter (\<lambda>p. children_of db p = []) ?w"
    using row(2) st(2) w(2) by (intro map_idI[THEN trans] filter_cong) auto
  then have "Leaves graph db = (Inr (filter (\<lambda>p. children_of db p = []) ?w), db)"
    by (simp add: Leaves_def Iterate_pure[OF assms(1,2)] foldl_collect)
  with w have "\<exists>leafs. Leaves graph db = (Inr leafs, db) \<and> distinct leafs \<and> set leafs = {p \<in> G. children_of db p = []}"
    by auto
  moreover note run = count_where_run[OF assms(1,2), folded G_def]
  ultimately show ?thesis
    by (simp add: graph_Processes_def WaitProcesses_def RunningProcesses_def SuccessfulProcesses_def
        FailedProcesses_def run cnt)
qed

theorem graph_counters_exact_witness:
  "graph_Processes (graph_view demo_graph_row) (demo_db RUNNING WAITING) = (Inr 2, demo_db RUNNING WAITING) \<and>
   fst (RunningProcesses (graph_view demo_graph_row) (demo_db RUNNING WAITING)) = Inr 1"
proof -
  have r: "graph_Roots (graph_view demo_graph_row) = [''a'']" by (simp add: demo_graph_row_def)
  have "{p \<in> {''a'', ''b''}. state_of (demo_db RUNNING WAITING) p = RUNNING} = {''a''}"
    by (auto simp: state_of_def state_defs)
  with r show ?thesis
    using graph_counters_exact[of "demo_db RUNNING WAITING" "graph_view demo_graph_row"] by simp
qed

end
