(* ===== verification/Resolve_Facts.thy ===== *)
theory Resolve_Facts
  imports Process_Graph_Facts
begin

text \<open>
  What \<open>Resolve\<close> does: the tables it leaves, the state it gives the graph, and which processes it
  releases from waiting for their parents.
\<close>

section \<open>The tables that Resolve leaves\<close>

text \<open>
  \<open>resolved G X F db\<close>: the processes \<open>X\<close> no longer wait for their parents and, if \<open>F\<close>, the processes
  \<open>G\<close> and their attributes are FAILED.
\<close>

definition resolved :: "string set \<Rightarrow> string set \<Rightarrow> bool \<Rightarrow> 'z pq_state_scheme \<Rightarrow> 'z pq_state_scheme" where
  "resolved G X F db = db\<lparr>
     PROCESSES := map (\<lambda>r. r\<lparr>PR_STATE := if F \<and> PR_PROCESS_ID r \<in> G then FAILED else PR_STATE r,
       PR_WAIT_FOR_PARENTS := PR_WAIT_FOR_PARENTS r \<and> PR_PROCESS_ID r \<notin> X\<rparr>) (PROCESSES db),
     ATTRIBUTES := map (\<lambda>a. a\<lparr>AT_STATE := if F \<and> AT_TARGET_ID a \<in> G then FAILED else AT_STATE a\<rparr>) (ATTRIBUTES db)\<rparr>"

lemma find_row_resolved:
  "find_row p (resolved G X F db) =
   map_option (\<lambda>r. r\<lparr>PR_STATE := if F \<and> p \<in> G then FAILED else PR_STATE r,
     PR_WAIT_FOR_PARENTS := PR_WAIT_FOR_PARENTS r \<and> p \<notin> X\<rparr>) (find_row p db)"
proof -
  let ?f = "\<lambda>r. r\<lparr>PR_STATE := if F \<and> PR_PROCESS_ID r \<in> G then FAILED else PR_STATE r,
       PR_WAIT_FOR_PARENTS := PR_WAIT_FOR_PARENTS r \<and> PR_PROCESS_ID r \<notin> X\<rparr>"
  let ?g = "\<lambda>r. r\<lparr>PR_STATE := if F \<and> p \<in> G then FAILED else PR_STATE r,
       PR_WAIT_FOR_PARENTS := PR_WAIT_FOR_PARENTS r \<and> p \<notin> X\<rparr>"
  have "find (\<lambda>r. PR_PROCESS_ID r = p) (map ?f rows) = map_option ?g (find (\<lambda>r. PR_PROCESS_ID r = p) rows)" for rows
    by (induction rows) simp_all
  then show ?thesis by (simp add: find_row_def resolved_def)
qed

lemma resolved_same [simp]: "resolved G {} False db = db"
  by (simp add: resolved_def)

lemma resolved_fields [simp]:
  "healthy (resolved G X F db) = healthy db" "process_ids (resolved G X F db) = process_ids db"
  "children_of (resolved G X F db) = children_of db" "parents_of (resolved G X F db) = parents_of db"
  "PROCESSGRAPHS (resolved G X F db) = PROCESSGRAPHS db" "find_graph gid (resolved G X F db) = find_graph gid db"
  "length (PROCESSES (resolved G X F db)) = length (PROCESSES db)" "EXECUTORS (resolved G X F db) = EXECUTORS db"
  by (auto simp: resolved_def healthy_def process_ids_def find_graph_def)
    (auto simp: fun_eq_iff children_of_def parents_of_def find_row_resolved[unfolded resolved_def] split: option.splits)

lemma state_of_resolved:
  "p \<in> set (process_ids db) \<Longrightarrow>
   state_of (resolved G X F db) p = (if F \<and> p \<in> G then FAILED else state_of db p)"
  by (auto simp: state_of_def find_row_resolved find_row_None split: option.splits)

lemma graph_closed_resolved [simp]: "graph_closed (resolved G X F db) roots = graph_closed db roots"
  by (simp add: graph_closed_def)

lemma release_resolved:
  "upd_row p (\<lambda>r. r\<lparr>PR_WAIT_FOR_PARENTS := False\<rparr>) (resolved G X F db) = resolved G (insert p X) F db"
  by (simp add: upd_row_def resolved_def update_where_def)

section \<open>Failing the whole graph\<close>

lemma run_fail_visits:
  assumes "healthy db" "set ps \<subseteq> set (process_ids db)"
  shows "run_visits (\<lambda>process _. SetProcessState (proc_ID process) FAILED) ps () (resolved G X True db) =
         (Inr (), resolved (G \<union> set ps) X True db)"
  using assms(2)
proof (induction ps arbitrary: G)
  case (Cons p ps)
  then have "find_row p db \<noteq> None" by (simp add: find_row_None)
  then obtain r where r: "find_row p db = Some r" by blast
  have step: "upd_attr_state p FAILED (upd_row p (\<lambda>r. r\<lparr>PR_STATE := FAILED\<rparr>) (resolved G X True db)) =
        resolved (insert p G) X True db"
    by (simp add: upd_row_def upd_attr_state_def resolved_def update_where_def)
  from r Cons assms(1) find_row_id[OF r] show ?case
    by (simp add: run_visits_simps bindM_def visit_one_def GetProcessByID_run find_row_resolved
        SetProcessState_run step)
qed (simp add: run_visits_simps)

lemma stable_fail: "stable S ch (\<lambda>process _. SetProcessState (proc_ID process) FAILED)"
  unfolding stable_def by (intro allI ctx_process_ops)

lemma resolved_idle: "F = False \<Longrightarrow> resolved {} X True db = resolved G X F db"
  by (simp add: resolved_def)

lemma fail_all_run:
  assumes "healthy db" "graph_closed db roots"
  defines "G \<equiv> reachable (children_of db) roots"
  shows "fail_all roots (resolved G X F db) = (Inr (), resolved G X True db)"
proof -
  let ?G0 = "if F then G else {}"
  have eq: "resolved G X F db = resolved ?G0 X True db"
    by (auto simp: resolved_idle resolved_def)
  have w: "walk (resolved ?G0 X True db) roots = walk db roots" by (simp add: walk_def)
  have "set (walk db roots) = G" using walk_reachable[OF assms(2)] by (simp add: G_def)
  moreover have "G \<subseteq> set (process_ids db)" using assms(2) by (simp add: graph_closed_def G_def)
  moreover have "?G0 \<union> G = G" by simp
  ultimately show ?thesis
    unfolding eq fail_all_def using assms(1,2) w
    by (simp add: Iterate_run stable_fail run_fail_visits)
qed

section \<open>One visit of Resolve\<close>

text \<open>The parents of the processes of a graph are processes of the graph.\<close>

definition graph_linked :: "'z pq_state_scheme \<Rightarrow> string list \<Rightarrow> bool" where
  "graph_linked db roots \<longleftrightarrow> graph_closed db roots \<and>
     (\<forall>p \<in> reachable (children_of db) roots. set (parents_of db p) \<subseteq> reachable (children_of db) roots)"

lemma resolve_parents_run:
  assumes "healthy db" "graph_closed db roots"
  defines "G \<equiv> reachable (children_of db) roots"
  assumes "set qs \<subseteq> G"
  shows "foldM (resolve_parent roots) n qs (resolved G X F db) =
     (Inr (n + (if F then 0 else length (filter (\<lambda>q. state_of db q = SUCCESS)
             (takeWhile (\<lambda>q. state_of db q \<noteq> FAILED) qs)))),
      resolved G X (F \<or> (\<exists>q \<in> set qs. state_of db q = FAILED)) db)"
  using assms(4)
proof (induction qs arbitrary: n F)
  case (Cons q qs)
  then have "q \<in> set (process_ids db)" using assms(2) by (auto simp: graph_closed_def G_def)
  then have "find_row q db \<noteq> None" by (simp add: find_row_None)
  then obtain r where r: "find_row q db = Some r" by blast
  have st: "state_of db q = PR_STATE r" using r by (simp add: state_of_def)
  have fail: "fail_all roots (resolved G X F db) = (Inr (), resolved G X True db)" for F
    unfolding G_def by (rule fail_all_run[OF assms(1,2)])
  have "resolve_parent roots n q (resolved G X F db) =
      (Inr (n + (if \<not> F \<and> PR_STATE r = SUCCESS then 1 else 0)),
       resolved G X (F \<or> PR_STATE r = FAILED) db)"
    using r Cons.prems assms(1) fail
    by (auto simp: resolve_parent_def bindM_def thenM_def GetProcessByID_run find_row_resolved state_defs)
  with Cons st show ?case
    by (auto simp: bindM_def state_defs)
qed simp

definition parents_done :: "'z pq_state_scheme \<Rightarrow> string \<Rightarrow> bool" where
  "parents_done db p \<longleftrightarrow> (\<forall>q \<in> set (parents_of db p). state_of db q = SUCCESS)"

definition parent_failed :: "'z pq_state_scheme \<Rightarrow> string \<Rightarrow> bool" where
  "parent_failed db p \<longleftrightarrow> (\<exists>q \<in> set (parents_of db p). state_of db q = FAILED)"

lemma all_finished_iff:
  "length (filter P (takeWhile Q xs)) = length xs \<longleftrightarrow> (\<forall>x \<in> set xs. P x \<and> Q x)"
proof
  assume eq: "length (filter P (takeWhile Q xs)) = length xs"
  have le: "length (filter P (takeWhile Q xs)) \<le> length (takeWhile Q xs)" "length (takeWhile Q xs) \<le> length xs"
    by (rule length_filter_le, rule length_takeWhile_le)
  with eq have "length (takeWhile Q xs) = length xs" by linarith
  then have t: "takeWhile Q xs = xs" by (metis takeWhile_eq_take take_all order_refl)
  with eq have "filter P xs = xs" by (metis filter_True length_filter_less nat_less_le)
  with t show "\<forall>x \<in> set xs. P x \<and> Q x" by (metis filter_eq_ConsD filter_id_conv takeWhile_eq_all_conv)
next
  assume "\<forall>x \<in> set xs. P x \<and> Q x"
  then have "filter P (takeWhile Q xs) = xs" by (simp add: takeWhile_eq_all_conv[THEN iffD2])
  then show "length (filter P (takeWhile Q xs)) = length xs" by simp
qed

lemma resolve_visit_run:
  assumes "healthy db" "graph_linked db roots"
  defines "G \<equiv> reachable (children_of db) roots"
  assumes "p \<in> G"
  shows "visit_one (resolve_visit roots) c p (resolved G X F db) =
     (Inr (count_state (if F then FAILED else state_of db p) c),
      resolved G (if parents_done db p \<and> (F \<longrightarrow> parents_of db p = []) then insert p X else X)
        (F \<or> parent_failed db p) db)"
proof -
  have cl: "graph_closed db roots" using assms(2) by (simp add: graph_linked_def)
  with assms(4) have "p \<in> set (process_ids db)" by (auto simp: graph_closed_def G_def)
  then have "find_row p db \<noteq> None" by (simp add: find_row_None)
  then obtain r where r: "find_row p db = Some r" by blast
  then have f: "PR_PARENTS r = parents_of db p" "PR_STATE r = state_of db p" "PR_PROCESS_ID r = p"
    by (simp_all add: parents_of_def state_of_def find_row_id)
  have "set (parents_of db p) \<subseteq> G" using assms by (simp add: graph_linked_def)
  note parents = resolve_parents_run[OF assms(1) cl, folded G_def, OF this, where n = 0]
  have fin: "length (filter (\<lambda>q. state_of db q = SUCCESS)
      (takeWhile (\<lambda>q. state_of db q \<noteq> FAILED) (parents_of db p))) = length (parents_of db p) \<longleftrightarrow> parents_done db p"
    by (auto simp: all_finished_iff parents_done_def state_defs)
  have "(if F then 0 else length (filter (\<lambda>q. state_of db q = SUCCESS)
      (takeWhile (\<lambda>q. state_of db q \<noteq> FAILED) (parents_of db p)))) = length (parents_of db p) \<longleftrightarrow>
      parents_done db p \<and> (F \<longrightarrow> parents_of db p = [])"
    using fin by (auto simp: parents_done_def)
  with r f assms(1,4) show ?thesis
    by (simp add: visit_one_def resolve_visit_def bindM_def thenM_def GetProcessByID_run find_row_resolved
        parents parent_failed_def ignoreM_def tryM_def SetWaitForParents_run release_resolved whenM_def) auto
qed

section \<open>All visits of Resolve\<close>

lemma resolve_visits_no_failure:
  assumes "healthy db" "graph_linked db roots"
  defines "G \<equiv> reachable (children_of db) roots"
  assumes "set ps \<subseteq> G" "\<And>p. p \<in> set ps \<Longrightarrow> \<not> parent_failed db p"
  shows "run_visits (resolve_visit roots) ps c (resolved G X False db) =
     (Inr (foldl (\<lambda>c p. count_state (state_of db p) c) c ps),
      resolved G (X \<union> {p \<in> set ps. parents_done db p}) False db)"
  using assms(4,5)
proof (induction ps arbitrary: c X)
  case (Cons p ps)
  then have "p \<in> G" "\<not> parent_failed db p" by simp_all
  note one = resolve_visit_run[OF assms(1,2), folded G_def, OF this(1), where F = False] this(2)
  have set: "(if parents_done db p then insert p X else X) \<union> {q \<in> set ps. parents_done db q} =
      X \<union> {q \<in> set (p # ps). parents_done db q}" by auto
  let ?X = "if parents_done db p then insert p X else X"
  have "visit_one (resolve_visit roots) c p (resolved G X False db) =
      (Inr (count_state (state_of db p) c), resolved G ?X False db)"
    using one by simp
  moreover have "run_visits (resolve_visit roots) ps (count_state (state_of db p) c) (resolved G ?X False db) =
     (Inr (foldl (\<lambda>c p. count_state (state_of db p) c) c (p # ps)),
      resolved G (X \<union> {q \<in> set (p # ps). parents_done db q}) False db)"
    using Cons.prems by (subst Cons.IH) (simp_all only: set foldl_Cons list.set_intros simp_thms, auto)
  ultimately show ?case
    by (simp only: run_visits_simps bindM_def prod.case sum.case)
qed (simp add: run_visits_simps)

lemma resolve_visits_failure:
  assumes "healthy db" "graph_linked db roots"
  defines "G \<equiv> reachable (children_of db) roots"
  assumes "set ps \<subseteq> G"
  shows "\<exists>c' X'. run_visits (resolve_visit roots) ps c (resolved G X F db) =
       (Inr c', resolved G X' (F \<or> (\<exists>p \<in> set ps. parent_failed db p)) db) \<and>
     X' \<subseteq> X \<union> set ps \<and> rc_failed c \<le> rc_failed c' \<and>
     (\<forall>p \<in> set ps. state_of db p = FAILED \<longrightarrow> 1 \<le> rc_failed c')"
  using assms(4)
proof (induction ps arbitrary: c X F)
  case (Cons p ps)
  then have "p \<in> G" by simp
  note one = resolve_visit_run[OF assms(1,2), folded G_def, OF this]
  let ?c = "count_state (if F then FAILED else state_of db p) c"
  let ?X = "if parents_done db p \<and> (F \<longrightarrow> parents_of db p = []) then insert p X else X"
  from Cons.prems have "set ps \<subseteq> G" by simp
  from Cons.IH[OF this, of ?c ?X "F \<or> parent_failed db p"] obtain c' X' where
    ih: "run_visits (resolve_visit roots) ps ?c (resolved G ?X (F \<or> parent_failed db p) db) =
       (Inr c', resolved G X' ((F \<or> parent_failed db p) \<or> (\<exists>p \<in> set ps. parent_failed db p)) db)"
    "X' \<subseteq> ?X \<union> set ps" "rc_failed ?c \<le> rc_failed c'" "\<forall>p \<in> set ps. state_of db p = FAILED \<longrightarrow> 1 \<le> rc_failed c'"
    by blast
  moreover have "rc_failed c \<le> rc_failed ?c" "state_of db p = FAILED \<longrightarrow> 1 \<le> rc_failed ?c"
    by (auto simp: count_state_def)
  moreover have "run_visits (resolve_visit roots) (p # ps) c (resolved G X F db) =
       (Inr c', resolved G X' (F \<or> (\<exists>p \<in> set (p # ps). parent_failed db p)) db)"
    using one[of c X F] ih(1) by (simp add: run_visits_simps bindM_def disj_assoc)
  moreover have "X' \<subseteq> X \<union> set (p # ps)" using ih(2) by (auto split: if_splits)
  ultimately show ?case by (intro exI[of _ c'] exI[of _ X']) auto
qed (auto simp: run_visits_simps)

lemma stable_resolve_visit: "stable S ch (resolve_visit roots)"
  unfolding stable_def by (intro allI keeps_resolve_visit ctx.op_relation_axioms ctx_process_ops)

section \<open>The state of a graph\<close>

text \<open>The state of a graph as a function of the set of states of its processes.\<close>

definition graph_state_spec :: "int set \<Rightarrow> int" where
  "graph_state_spec S =
     (if FAILED \<in> S then FAILED else if S \<subseteq> {SUCCESS} then SUCCESS
      else if SUCCESS \<in> S \<or> RUNNING \<in> S then RUNNING else WAITING)"

lemma foldl_count_state:
  fixes f :: "'a \<Rightarrow> int"
  shows "foldl (\<lambda>c p. count_state (f p) c) c ps =
     \<lparr>rc_processes = rc_processes c + length ps,
      rc_failed = rc_failed c + length (filter (\<lambda>p. f p = FAILED) ps),
      rc_running = rc_running c + length (filter (\<lambda>p. f p = RUNNING) ps),
      rc_successful = rc_successful c + length (filter (\<lambda>p. f p = SUCCESS) ps),
      rc_waiting = rc_waiting c + length (filter (\<lambda>p. f p = WAITING) ps)\<rparr>"
  by (induction ps arbitrary: c) (simp_all add: count_state_def)

lemma length_filter_pos: "0 < length (filter P xs) \<longleftrightarrow> (\<exists>x \<in> set xs. P x)"
  by (auto simp: filter_empty_conv)

lemma length_filter_all: "length (filter P xs) = length xs \<longleftrightarrow> (\<forall>x \<in> set xs. P x)"
  by (metis filter_True length_filter_less order_less_irrefl)

lemma graph_state_of_counts:
  "graph_state_of (foldl (\<lambda>c p. count_state (f p) c) no_counters ps) = graph_state_spec (f ` set ps)"
proof -
  let ?c = "foldl (\<lambda>c p. count_state (f p) c) no_counters ps"
  have n: "rc_failed ?c = length (filter (\<lambda>p. f p = FAILED) ps)" "rc_processes ?c = length ps"
    "rc_successful ?c = length (filter (\<lambda>p. f p = SUCCESS) ps)"
    "rc_running ?c = length (filter (\<lambda>p. f p = RUNNING) ps)"
    by (simp_all add: foldl_count_state no_counters_def)
  have "1 \<le> rc_failed ?c \<longleftrightarrow> FAILED \<in> f ` set ps"
    unfolding n One_nat_def Suc_le_eq length_filter_pos by (metis image_iff)
  moreover have "rc_successful ?c = rc_processes ?c \<longleftrightarrow> f ` set ps \<subseteq> {SUCCESS}"
    unfolding n length_filter_all by auto
  moreover have "0 < rc_successful ?c \<longleftrightarrow> SUCCESS \<in> f ` set ps"
    unfolding n length_filter_pos by (metis image_iff)
  moreover have "1 \<le> rc_running ?c \<longleftrightarrow> RUNNING \<in> f ` set ps"
    unfolding n One_nat_def Suc_le_eq length_filter_pos by (metis image_iff)
  ultimately show ?thesis by (simp only: graph_state_of_def graph_state_spec_def)
qed

lemma Resolve_stores:
  assumes "healthy db" "graph_closed db (graph_Roots graph)"
    and "run_visits (resolve_visit (graph_Roots graph)) (walk db (graph_Roots graph)) no_counters db = (Inr c, db1)"
    and "healthy db1" "find_graph (graph_ID graph) db1 = Some g"
  obtains db' where "Resolve graph db = (Inr (graph\<lparr>graph_State := graph_state_of c\<rparr>), db')"
    "PROCESSES db' = PROCESSES db1" "ATTRIBUTES db' = ATTRIBUTES db1" "healthy db'" "EXECUTORS db' = EXECUTORS db1"
    "\<exists>g'. find_graph (graph_ID graph) db' = Some g' \<and> PG_STATE g' = graph_state_of c"
proof -
  obtain db' where set: "SetProcessGraphState (graph_ID graph) (graph_state_of c) db1 = (Inr (), db')" "healthy db'"
    "PROCESSES db' = PROCESSES db1" "ATTRIBUTES db' = ATTRIBUTES db1" "EXECUTORS db' = EXECUTORS db1"
    "\<exists>g'. find_graph (graph_ID graph) db' = Some g' \<and> PG_STATE g' = graph_state_of c \<and> PG_ROOTS g' = PG_ROOTS g"
    using SetProcessGraphState_run[OF assms(4,5), of "graph_state_of c"] by metis
  have "Iterate (graph_Roots graph) (resolve_visit (graph_Roots graph)) no_counters db = (Inr c, db1)"
    using assms by (simp add: Iterate_run stable_resolve_visit)
  then have "Resolve graph db = (Inr (graph\<lparr>graph_State := graph_state_of c\<rparr>), db')"
    using set(1) by (simp add: Resolve_def bindM_def thenM_def ignoreM_def tryM_def Let_def)
  with that set show thesis by blast
qed

lemma Resolve_ready:
  assumes "healthy db" "graph_linked db (graph_Roots graph)" "find_graph (graph_ID graph) db = Some g"
  defines "G \<equiv> reachable (children_of db) (graph_Roots graph)"
  assumes "\<forall>p \<in> G. \<not> parent_failed db p"
  shows "\<exists>db'. Resolve graph db = (Inr (graph\<lparr>graph_State := graph_state_spec (state_of db ` G)\<rparr>), db') \<and>
     (\<forall>p. find_row p db' = map_option (\<lambda>r. r\<lparr>PR_WAIT_FOR_PARENTS :=
        PR_WAIT_FOR_PARENTS r \<and> \<not> (p \<in> G \<and> parents_done db p)\<rparr>) (find_row p db)) \<and>
     ATTRIBUTES db' = ATTRIBUTES db \<and> healthy db' \<and> EXECUTORS db' = EXECUTORS db \<and>
     (\<exists>g'. find_graph (graph_ID graph) db' = Some g' \<and> PG_STATE g' = graph_state_spec (state_of db ` G))"
proof -
  let ?w = "walk db (graph_Roots graph)" and ?X = "{p \<in> G. parents_done db p}"
  have cl: "graph_closed db (graph_Roots graph)" using assms(2) by (simp add: graph_linked_def)
  have w: "set ?w = G" using walk_reachable(2)[OF cl] by (simp add: G_def)
  have "run_visits (resolve_visit (graph_Roots graph)) ?w no_counters (resolved G {} False db) =
      (Inr (foldl (\<lambda>c p. count_state (state_of db p) c) no_counters ?w),
       resolved G ({} \<union> {p \<in> set ?w. parents_done db p}) False db)"
    unfolding G_def by (rule resolve_visits_no_failure[OF assms(1,2)]) (use w assms(5) in \<open>auto simp: G_def\<close>)
  then have run: "run_visits (resolve_visit (graph_Roots graph)) ?w no_counters db =
      (Inr (foldl (\<lambda>c p. count_state (state_of db p) c) no_counters ?w), resolved G ?X False db)"
    by (simp add: w)
  obtain db' where db': "Resolve graph db = (Inr (graph\<lparr>graph_State := graph_state_spec (state_of db ` G)\<rparr>), db')"
    "PROCESSES db' = PROCESSES (resolved G ?X False db)" "ATTRIBUTES db' = ATTRIBUTES (resolved G ?X False db)"
    "healthy db'" "EXECUTORS db' = EXECUTORS db"
    "\<exists>g'. find_graph (graph_ID graph) db' = Some g' \<and> PG_STATE g' = graph_state_spec (state_of db ` G)"
    by (rule Resolve_stores[OF assms(1) cl run, of g]) (use assms(1,3) in \<open>simp_all add: graph_state_of_counts w\<close>)
  then have "find_row p db' = find_row p (resolved G ?X False db)" for p by (simp add: find_row_def)
  moreover have "ATTRIBUTES db' = ATTRIBUTES db" using db'(3) by (simp add: resolved_def)
  ultimately show ?thesis using db'(1,4-6) by (auto simp: find_row_resolved)
qed

lemma Resolve_failed:
  assumes "healthy db" "graph_linked db (graph_Roots graph)" "find_graph (graph_ID graph) db = Some g"
  defines "G \<equiv> reachable (children_of db) (graph_Roots graph)"
  assumes "p \<in> G" "parent_failed db p"
  shows "\<exists>db'. Resolve graph db = (Inr (graph\<lparr>graph_State := FAILED\<rparr>), db') \<and>
     (\<forall>q \<in> G. state_of db' q = FAILED) \<and> (\<forall>q. q \<notin> G \<longrightarrow> find_row q db' = find_row q db) \<and>
     (\<forall>q. map_option PR_ERRORS (find_row q db') = map_option PR_ERRORS (find_row q db)) \<and>
     healthy db' \<and> EXECUTORS db' = EXECUTORS db \<and> (\<exists>g'. find_graph (graph_ID graph) db' = Some g' \<and> PG_STATE g' = FAILED)"
proof -
  let ?w = "walk db (graph_Roots graph)"
  have cl: "graph_closed db (graph_Roots graph)" using assms(2) by (simp add: graph_linked_def)
  have w: "set ?w = G" using walk_reachable(2)[OF cl] by (simp add: G_def)
  obtain q where q: "q \<in> set (parents_of db p)" "state_of db q = FAILED"
    using assms(6) by (auto simp: parent_failed_def)
  then have "q \<in> G" using assms(2,5) by (auto simp: graph_linked_def G_def)
  have ex: "\<exists>p \<in> set ?w. parent_failed db p" using assms(5,6) w by blast
  have "set ?w \<subseteq> reachable (children_of db) (graph_Roots graph)" using w by (simp add: G_def)
  from resolve_visits_failure[OF assms(1,2) this, folded G_def, of no_counters "{}" False]
  obtain c X where run: "run_visits (resolve_visit (graph_Roots graph)) ?w no_counters db = (Inr c, resolved G X True db)"
    and c: "\<forall>p \<in> set ?w. state_of db p = FAILED \<longrightarrow> 1 \<le> rc_failed c" and X: "X \<subseteq> set ?w"
    using ex by auto
  have "1 \<le> rc_failed c" using c w q(2) \<open>q \<in> G\<close> by blast
  then have st: "graph_state_of c = FAILED" by (simp add: graph_state_of_def)
  obtain db' where db': "Resolve graph db = (Inr (graph\<lparr>graph_State := FAILED\<rparr>), db')"
    "PROCESSES db' = PROCESSES (resolved G X True db)" "healthy db'" "EXECUTORS db' = EXECUTORS db"
    "\<exists>g'. find_graph (graph_ID graph) db' = Some g' \<and> PG_STATE g' = FAILED"
    by (rule Resolve_stores[OF assms(1) cl run, of g]) (use assms(1,3) st in simp_all)
  then have row: "find_row q db' = find_row q (resolved G X True db)" for q by (simp add: find_row_def)
  have "find_row q db' = find_row q db" if "q \<notin> G" for q
  proof -
    have "q \<notin> X" using that X w by blast
    with that show ?thesis unfolding row find_row_resolved by (cases "find_row q db") simp_all
  qed
  moreover have "state_of db' q = FAILED" if "q \<in> G" for q
  proof -
    have "q \<in> set (process_ids db)" using that cl by (auto simp: graph_closed_def G_def)
    then have "state_of (resolved G X True db) q = FAILED" using that by (simp add: state_of_resolved)
    then show ?thesis by (simp add: state_of_def row)
  qed
  moreover have "map_option PR_ERRORS (find_row q db') = map_option PR_ERRORS (find_row q db)" for q
    unfolding row find_row_resolved by (cases "find_row q db") simp_all
  ultimately show ?thesis using db'(1,3-5) by blast
qed

section \<open>The way to the root\<close>

text \<open>The process that \<open>getRoot\<close> goes to: the first parent.\<close>

definition first_parent :: "'z pq_state_scheme \<Rightarrow> string \<Rightarrow> string" where
  "first_parent db p = hd (parents_of db p)"

text \<open>What the search from \<open>p\<close> ends in, \<open>k\<close> steps up: a root, a process seen before, a missing row.\<close>

datatype way_end = RootAt nat | LoopAt nat | MissingAt nat

fun way_ok :: "'z pq_state_scheme \<Rightarrow> string \<Rightarrow> string list \<Rightarrow> way_end \<Rightarrow> bool" where
  "way_ok db p seen (RootAt k) \<longleftrightarrow> parents_of db ((first_parent db ^^ k) p) = [] \<and>
     (first_parent db ^^ k) p \<in> set (process_ids db)"
| "way_ok db p seen (LoopAt k) \<longleftrightarrow>
     (first_parent db ^^ k) p \<in> set seen \<union> (\<lambda>i. (first_parent db ^^ i) p) ` {..<k}"
| "way_ok db p seen (MissingAt k) \<longleftrightarrow> (first_parent db ^^ k) p \<notin> set (process_ids db)"

fun way_result :: "'z pq_state_scheme \<Rightarrow> string \<Rightarrow> int \<Rightarrow> way_end \<Rightarrow> failure + (Process \<times> int)" where
  "way_result db p c (RootAt k) = Inr (process_view db (row_of db ((first_parent db ^^ k) p)), c + int k)"
| "way_result db p c (LoopAt k) = Inl (Err ''Loops are not allowed in process graphs'')"
| "way_result db p c (MissingAt k) = Inl Panic"

fun one_more :: "way_end \<Rightarrow> way_end" where
  "one_more (RootAt k) = RootAt (Suc k)"
| "one_more (LoopAt k) = LoopAt (Suc k)"
| "one_more (MissingAt k) = MissingAt (Suc k)"

lemma way_step:
  assumes "way_ok db (first_parent db p) (p # seen) w"
  shows "way_ok db p seen (one_more w)" "way_result db (first_parent db p) (c + 1) w = way_result db p c (one_more w)"
proof -
  have shift: "(first_parent db ^^ Suc k) p = (first_parent db ^^ k) (first_parent db p)" for k
    by (simp add: funpow_swap1)
  have img: "(\<lambda>i. (first_parent db ^^ i) p) ` {..<Suc k} =
      insert p ((\<lambda>i. (first_parent db ^^ i) (first_parent db p)) ` {..<k})" for k
    by (simp add: lessThan_Suc_eq_insert_0 image_image shift del: funpow.simps)
  from assms show "way_ok db p seen (one_more w)"
    by (cases w) (auto simp: shift img simp del: funpow.simps)
  from assms show "way_result db (first_parent db p) (c + 1) w = way_result db p c (one_more w)"
    by (cases w) (simp_all add: shift del: funpow.simps)
qed

lemma getRoot_way:
  assumes "healthy db" "distinct seen" "set seen \<subseteq> set (process_ids db)"
    and "length (PROCESSES db) + 1 < n + length seen"
  shows "\<exists>w. way_ok db p seen w \<and> graph_getRoot n p c seen db = (way_result db p c w, db)"
  using assms(2-4)
proof (induction n arbitrary: p c seen)
  case 0
  have "card (set seen) \<le> card (set (process_ids db))" using 0 by (intro card_mono) auto
  also have "\<dots> \<le> length (PROCESSES db)" using card_length[of "process_ids db"] by (simp add: process_ids_def)
  finally show ?case using 0 by (simp add: distinct_card)
next
  case (Suc n)
  note unfold = graph_getRoot.simps(2) bindM_def GetProcessByID_run[OF assms(1)]
  consider (seen) "p \<in> set seen" | (missing) "p \<notin> set seen" "find_row p db = None"
    | (root) r where "p \<notin> set seen" "find_row p db = Some r" "PR_PARENTS r = []"
    | (up) r q qs where "p \<notin> set seen" "find_row p db = Some r" "PR_PARENTS r = q # qs"
    by (metis list.exhaust option.exhaust)
  then show ?case
  proof cases
    case seen
    then show ?thesis by (intro exI[of _ "LoopAt 0"]) (simp add: unfold)
  next
    case missing
    moreover have "p \<notin> set (process_ids db)" using missing find_row_None[of p db] by simp
    ultimately show ?thesis by (intro exI[of _ "MissingAt 0"]) (simp add: unfold)
  next
    case root
    moreover have "p \<in> set (process_ids db)" using root find_row_None[of p db] by auto
    ultimately show ?thesis
      by (intro exI[of _ "RootAt 0"]) (simp add: unfold row_of_def parents_of_def)
  next
    case up
    then have q: "q = first_parent db p" by (simp add: first_parent_def parents_of_def)
    have p: "p \<in> set (process_ids db)" using up(2) find_row_None[of p db] by auto
    obtain w where "way_ok db q (p # seen) w" "graph_getRoot n q (c + 1) (p # seen) db = (way_result db q (c + 1) w, db)"
      using Suc.IH[of "p # seen" q "c + 1"] Suc.prems p up(1) by auto
    with way_step[of db p seen w] up show ?thesis
      unfolding q by (intro exI[of _ "one_more w"]) (simp add: unfold)
  qed
qed

lemma demo_linked [simp]: "graph_linked (demo_db x y) [''a'']"
  by (simp add: graph_linked_def parents_of_def)

section \<open>Properties\<close>

text \<open>
  C6: when no process of a graph has a FAILED parent, \<open>Resolve\<close> succeeds; the state it returns and
  stores for the graph is FAILED if a process of the graph is FAILED, SUCCESS if all are SUCCESS,
  RUNNING if one is SUCCESS or RUNNING, and WAITING otherwise; a process stops waiting for its parents
  exactly if all of them are SUCCESS; and no other column of any process changes.
\<close>

theorem Resolve_releases_ready:
  assumes "healthy db" "graph_linked db (graph_Roots graph)" "find_graph (graph_ID graph) db = Some g"
  defines "G \<equiv> reachable (children_of db) (graph_Roots graph)"
  assumes "\<forall>p \<in> G. \<not> parent_failed db p"
  shows "\<exists>db'. Resolve graph db = (Inr (graph\<lparr>graph_State := graph_state_spec (state_of db ` G)\<rparr>), db') \<and>
     (\<forall>p. find_row p db' = map_option (\<lambda>r. r\<lparr>PR_WAIT_FOR_PARENTS :=
        PR_WAIT_FOR_PARENTS r \<and> \<not> (p \<in> G \<and> parents_done db p)\<rparr>) (find_row p db)) \<and>
     ATTRIBUTES db' = ATTRIBUTES db \<and>
     (\<exists>g'. find_graph (graph_ID graph) db' = Some g' \<and> PG_STATE g' = graph_state_spec (state_of db ` G))"
proof -
  have "\<forall>p \<in> reachable (children_of db) (graph_Roots graph). \<not> parent_failed db p" using assms(5) by (simp add: G_def)
  from Resolve_ready[OF assms(1-3) this] show ?thesis unfolding G_def by blast
qed

theorem Resolve_releases_ready_witness:
  "\<exists>db'. Resolve (graph_view demo_graph_row) (demo_db SUCCESS WAITING) =
       (Inr ((graph_view demo_graph_row)\<lparr>graph_State := RUNNING\<rparr>), db') \<and>
     map_option PR_WAIT_FOR_PARENTS (find_row ''b'' db') = Some False"
proof -
  let ?db = "demo_db SUCCESS WAITING"
  have "parents_done ?db ''b''" "\<forall>p \<in> {''a'', ''b''}. \<not> parent_failed ?db p"
    "graph_state_spec (state_of ?db ` {''a'', ''b''}) = RUNNING"
    by (simp_all add: parents_done_def parent_failed_def parents_of_def state_of_def graph_state_spec_def state_defs)
  then show ?thesis
    using Resolve_releases_ready[of ?db "graph_view demo_graph_row" demo_graph_row] by simp force
qed

text \<open>
  C7: when a process of a graph has a FAILED parent, \<open>Resolve\<close> succeeds, the graph it returns and
  stores is FAILED, and every process of the graph is FAILED afterwards, those that already ended
  with SUCCESS included; processes outside the graph stay as they are.
\<close>

theorem Resolve_propagates_failure:
  assumes "healthy db" "graph_linked db (graph_Roots graph)" "find_graph (graph_ID graph) db = Some g"
  defines "G \<equiv> reachable (children_of db) (graph_Roots graph)"
  assumes "p \<in> G" "parent_failed db p"
  shows "\<exists>db'. Resolve graph db = (Inr (graph\<lparr>graph_State := FAILED\<rparr>), db') \<and>
     (\<forall>q \<in> G. state_of db' q = FAILED) \<and> (\<forall>q. q \<notin> G \<longrightarrow> find_row q db' = find_row q db) \<and>
     (\<exists>g'. find_graph (graph_ID graph) db' = Some g' \<and> PG_STATE g' = FAILED)"
proof -
  have "p \<in> reachable (children_of db) (graph_Roots graph)" using assms(5) by (simp add: G_def)
  from Resolve_failed[OF assms(1-3) this assms(6)] show ?thesis unfolding G_def by blast
qed

theorem Resolve_propagates_failure_witness:
  "\<exists>db'. Resolve (graph_view demo_graph_row) (demo_db FAILED WAITING) =
       (Inr ((graph_view demo_graph_row)\<lparr>graph_State := FAILED\<rparr>), db') \<and> state_of db' ''b'' = FAILED"
proof -
  have "parent_failed (demo_db FAILED WAITING) ''b''"
    by (simp add: parent_failed_def parents_of_def state_of_def)
  then show ?thesis
    using Resolve_propagates_failure[of "demo_db FAILED WAITING" "graph_view demo_graph_row" demo_graph_row "''b''"]
    by simp blast
qed


text \<open>
  C24: \<open>GetRoot\<close> and \<open>Depth\<close> always end: going from first parent to first parent they reach a process
  without parents, which is returned with the number of steps, or they meet a process again and
  return the error about loops, or they meet a process that is not stored and dereference nil.
\<close>

theorem GetRoot_Depth_end:
  assumes "healthy db"
  shows "\<exists>w. way_ok db p [] w \<and> GetRoot p db = (map_sum id fst (way_result db p 0 w), db) \<and>
             Depth p db = (map_sum id snd (way_result db p 0 w), db)"
proof -
  obtain w where w: "way_ok db p [] w"
    "graph_getRoot (Suc (Suc (length (PROCESSES db)))) p 0 [] db = (way_result db p 0 w, db)"
    using getRoot_way[OF assms, of "[]"] by fastforce
  then show ?thesis
    by (intro exI[of _ w]) (cases w; simp add: GetRoot_def Depth_def bindM_def)
qed

theorem GetRoot_Depth_end_witness:
  "Depth ''b'' (demo_db RUNNING WAITING) = (Inr 1, demo_db RUNNING WAITING) \<and>
   (\<exists>w. way_ok (demo_db RUNNING WAITING) ''b'' [] w \<and>
        Inr 1 = map_sum id snd (way_result (demo_db RUNNING WAITING) ''b'' 0 w))"
proof -
  let ?db = "demo_db RUNNING WAITING"
  have "Depth ''b'' ?db = (Inr 1, ?db)"
    by (simp add: Depth_def bindM_def graph_getRoot.simps(2) GetProcessByID_run demo_db_def[unfolded new_pq_def]
        healthy_def find_row_def)
  then show ?thesis using GetRoot_Depth_end[of ?db "''b''"] by auto
qed

end
