(* ===== verification/Pq_Members.thy ===== *)
theory Pq_Members
  imports Pq_ProcessGraphs
begin

text \<open>
  The tables of members and what belongs to colonies: \<open>executors.go\<close>, \<open>users.go\<close>, \<open>functions.go\<close>,
  \<open>crons.go\<close>, \<open>generators.go\<close>, \<open>generator_args.go\<close>, \<open>logs.go\<close> and \<open>colonies.go\<close> of
  \<open>pkg/database/postgresql\<close>. Executors and users are stored under the key \<open>colony:name\<close>.
\<close>

section \<open>Keys\<close>

text \<open>\<open>strings.Split(s, ":")\<close>\<close>

fun Split_colon :: "string \<Rightarrow> string list" where
  "Split_colon [] = [[]]"
| "Split_colon (c # cs) =
     (if c = CHR '':'' then [] # Split_colon cs
      else case Split_colon cs of [] \<Rightarrow> [[c]] | w # ws \<Rightarrow> (c # w) # ws)"

definition colony_key :: "string \<Rightarrow> string \<Rightarrow> string" where
  "colony_key colonyName name = colonyName @ '':'' @ name"

definition strip_key :: "string \<Rightarrow> string \<Rightarrow> failure + string" where
  "strip_key what s = (case Split_colon s of [_, name] \<Rightarrow> Inr name | _ \<Rightarrow> Inl (Err (''Failed to parse '' @ what @ '' name'')))"

section \<open>Functions\<close>

definition AddFunction :: "Function \<Rightarrow> ('z pq_state_scheme, unit) op" where
  "AddFunction f = sql_exec (\<lambda>db.
     if \<not> int4 (fn_Counter f) then Inl (SqlErr ''pq: integer out of range'')
     else map_sum id (\<lambda>rows. db\<lparr>FUNCTIONS := rows\<rparr>)
       (insert_row FN_FUNCTION_ID
         \<lparr>FN_FUNCTION_ID = fn_FunctionID f, FN_EXECUTOR_NAME = fn_ExecutorName f, FN_EXECUTOR_TYPE = fn_ExecutorType f,
          FN_COLONY_NAME = fn_ColonyName f, FN_FUNCNAME = fn_FuncName f, FN_COUNTER = fn_Counter f,
          FN_MINWAITTIME = fn_MinWaitTime f, FN_MAXWAITTIME = fn_MaxWaitTime f, FN_MINEXECTIME = fn_MinExecTime f,
          FN_MAXEXECTIME = fn_MaxExecTime f, FN_AVGWAITTIME = fn_AvgWaitTime f, FN_AVGEXECTIME = fn_AvgExecTime f\<rparr>
         (FUNCTIONS db)))"

definition parse_function :: "function_row \<Rightarrow> Function" where
  "parse_function r = CreateFunction (FN_FUNCTION_ID r) (FN_EXECUTOR_NAME r) (FN_EXECUTOR_TYPE r)
     (FN_COLONY_NAME r) (FN_FUNCNAME r) (FN_COUNTER r) (FN_MINWAITTIME r) (FN_MAXWAITTIME r)
     (FN_MINEXECTIME r) (FN_MAXEXECTIME r) (FN_AVGWAITTIME r) (FN_AVGEXECTIME r)"

definition parseFunctions :: "function_row list \<Rightarrow> ('z pq_state_scheme, Function list) op" where
  "parseFunctions rows = retM (map parse_function rows)"

definition select_functions :: "(function_row \<Rightarrow> bool) \<Rightarrow> ('z pq_state_scheme, Function list) op" where
  "select_functions P = bindM (sql_query (\<lambda>db. Inr (filter P (FUNCTIONS db)))) parseFunctions"

definition GetFunctionByID :: "string \<Rightarrow> ('z pq_state_scheme, Function) op" where
  "GetFunctionByID functionID =
     bindM (select_functions (\<lambda>r. FN_FUNCTION_ID r = functionID)) (\<lambda>functions.
     case functions of [] \<Rightarrow> throwM Panic | f # _ \<Rightarrow> retM f)"

definition GetFunctionsByExecutorName :: "string \<Rightarrow> string \<Rightarrow> ('z pq_state_scheme, Function list) op" where
  "GetFunctionsByExecutorName colonyName executorName =
     select_functions (\<lambda>r. FN_COLONY_NAME r = colonyName \<and> FN_EXECUTOR_NAME r = executorName)"

definition GetFunctionsByExecutorAndName ::
  "string \<Rightarrow> string \<Rightarrow> string \<Rightarrow> ('z pq_state_scheme, Function option) op" where
  "GetFunctionsByExecutorAndName colonyName executorName name =
     bindM (select_functions (\<lambda>r. FN_COLONY_NAME r = colonyName \<and> FN_EXECUTOR_NAME r = executorName \<and>
       FN_FUNCNAME r = name)) (\<lambda>functions.
     retM (case functions of [] \<Rightarrow> None | f # _ \<Rightarrow> Some f))"

definition GetFunctionsByColonyName :: "string \<Rightarrow> ('z pq_state_scheme, Function list) op" where
  "GetFunctionsByColonyName colonyName = select_functions (\<lambda>r. FN_COLONY_NAME r = colonyName)"

definition UpdateFunctionStats ::
  "string \<Rightarrow> string \<Rightarrow> string \<Rightarrow> int \<Rightarrow> rat \<Rightarrow> rat \<Rightarrow> rat \<Rightarrow> rat \<Rightarrow> rat \<Rightarrow> rat \<Rightarrow> ('z pq_state_scheme, unit) op" where
  "UpdateFunctionStats colonyName executorName name cnt minWait maxWait minExec maxExec avgWait avgExec =
     sql_exec (\<lambda>db. if \<not> int4 cnt then Inl (SqlErr ''pq: integer out of range'')
       else Inr (db\<lparr>FUNCTIONS := update_where
         (\<lambda>r. FN_EXECUTOR_NAME r = executorName \<and> FN_FUNCNAME r = name \<and> FN_COLONY_NAME r = colonyName)
         (\<lambda>r. r\<lparr>FN_COUNTER := cnt, FN_MINWAITTIME := minWait, FN_MAXWAITTIME := maxWait, FN_MINEXECTIME := minExec,
               FN_MAXEXECTIME := maxExec, FN_AVGWAITTIME := avgWait, FN_AVGEXECTIME := avgExec\<rparr>) (FUNCTIONS db)\<rparr>))"

definition delete_functions :: "(function_row \<Rightarrow> bool) \<Rightarrow> ('z pq_state_scheme, unit) op" where
  "delete_functions P = sql_exec (\<lambda>db. Inr (db\<lparr>FUNCTIONS := delete_where P (FUNCTIONS db)\<rparr>))"

definition RemoveFunctionByID :: "string \<Rightarrow> ('z pq_state_scheme, unit) op" where
  "RemoveFunctionByID functionID = delete_functions (\<lambda>r. FN_FUNCTION_ID r = functionID)"

definition RemoveFunctionByName :: "string \<Rightarrow> string \<Rightarrow> string \<Rightarrow> ('z pq_state_scheme, unit) op" where
  "RemoveFunctionByName colonyName executorName name =
     delete_functions (\<lambda>r. FN_COLONY_NAME r = colonyName \<and> FN_EXECUTOR_NAME r = executorName \<and> FN_FUNCNAME r = name)"

definition RemoveFunctionsByExecutorName :: "string \<Rightarrow> string \<Rightarrow> ('z pq_state_scheme, unit) op" where
  "RemoveFunctionsByExecutorName colonyName executorName =
     delete_functions (\<lambda>r. FN_COLONY_NAME r = colonyName \<and> FN_EXECUTOR_NAME r = executorName)"

definition RemoveFunctionsByColonyName :: "string \<Rightarrow> ('z pq_state_scheme, unit) op" where
  "RemoveFunctionsByColonyName colonyName = delete_functions (\<lambda>r. FN_COLONY_NAME r = colonyName)"

definition RemoveFunctions :: "('z pq_state_scheme, unit) op" where
  "RemoveFunctions = delete_functions (\<lambda>_. True)"

section \<open>Executors\<close>

definition executor_row_of :: "time \<Rightarrow> Executor \<Rightarrow> executor_row" where
  "executor_row_of now e =
     (let hw = cap_Hardware (exec_Capabilities e); sw = cap_Software (exec_Capabilities e) in
      \<lparr>EX_NAME = colony_key (exec_ColonyName e) (exec_Name e), EX_EXECUTOR_TYPE = exec_Type e,
       EX_EXECUTOR_ID = exec_ID e, EX_COLONY_NAME = exec_ColonyName e, EX_STATE = 0,
       EX_REQUIRE_FUNC_REG = exec_RequireFuncReg e, EX_COMMISSIONTIME = now,
       EX_LASTHEARDFROM = exec_LastHeardFromTime e, EX_LONG = loc_Long (exec_Location e),
       EX_LAT = loc_Lat (exec_Location e), EX_LOCDESC = loc_Description (exec_Location e),
       EX_HWMODEL = hw_Model hw, EX_HWNODES = hw_Nodes hw, EX_HWCPU = hw_CPU hw, EX_HWMEM = hw_Memory hw,
       EX_HWSTORAGE = hw_Storage hw, EX_HWGPUNAME = gpu_Name (hw_GPU hw), EX_HWGPUCOUNT = gpu_Count (hw_GPU hw),
       EX_HWGPUNODECOUNT = gpu_NodeCount (hw_GPU hw), EX_HWGPUMEM = gpu_Memory (hw_GPU hw),
       EX_SWNAME = sw_Name sw, EX_SWTYPE = sw_Type sw, EX_SWVERSION = sw_Version sw,
       EX_ALLOCATIONS = json_Marshal (exec_Allocations e)\<rparr>)"

definition parse_executor :: "executor_row \<Rightarrow> failure + Executor" where
  "parse_executor r =
     map_sum id (\<lambda>name.
       (CreateExecutorFromDB (EX_EXECUTOR_ID r) (EX_EXECUTOR_TYPE r) name (EX_COLONY_NAME r) (EX_STATE r)
          (EX_REQUIRE_FUNC_REG r) (EX_COMMISSIONTIME r) (EX_LASTHEARDFROM r))
       \<lparr>exec_Location := \<lparr>loc_Long = EX_LONG r, loc_Lat = EX_LAT r, loc_Description = EX_LOCDESC r\<rparr>,
        exec_Capabilities :=
          \<lparr>cap_Hardware = \<lparr>hw_Model = EX_HWMODEL r, hw_Nodes = EX_HWNODES r, hw_CPU = EX_HWCPU r,
             hw_Memory = EX_HWMEM r, hw_Storage = EX_HWSTORAGE r,
             hw_GPU = \<lparr>gpu_Name = EX_HWGPUNAME r, gpu_Memory = EX_HWGPUMEM r, gpu_Count = EX_HWGPUCOUNT r,
                       gpu_NodeCount = EX_HWGPUNODECOUNT r\<rparr>\<rparr>,
           cap_Software = \<lparr>sw_Name = EX_SWNAME r, sw_Type = EX_SWTYPE r, sw_Version = EX_SWVERSION r\<rparr>\<rparr>,
        exec_Allocations := json_Unmarshal (EX_ALLOCATIONS r)\<rparr>)
     (strip_key ''Executor'' (EX_NAME r))"

definition parseExecutors :: "executor_row list \<Rightarrow> ('z pq_state_scheme, Executor list) op" where
  "parseExecutors rows = mapM (\<lambda>r. liftE (parse_executor r)) rows"

definition select_executors :: "(executor_row \<Rightarrow> bool) \<Rightarrow> ('z pq_state_scheme, Executor list) op" where
  "select_executors P = bindM (sql_query (\<lambda>db. Inr (filter P (EXECUTORS db)))) parseExecutors"

definition GetExecutors :: "('z pq_state_scheme, Executor list) op" where
  "GetExecutors = select_executors (\<lambda>_. True)"

definition GetExecutorByID :: "string \<Rightarrow> ('z pq_state_scheme, Executor option) op" where
  "GetExecutorByID executorID =
     bindM (select_executors (\<lambda>r. EX_EXECUTOR_ID r = executorID)) (\<lambda>executors.
     retM (case executors of [] \<Rightarrow> None | e # _ \<Rightarrow> Some e))"

definition GetExecutorsByColonyName :: "string \<Rightarrow> ('z pq_state_scheme, Executor list) op" where
  "GetExecutorsByColonyName colonyName = select_executors (\<lambda>r. EX_COLONY_NAME r = colonyName)"

definition GetExecutorByName :: "string \<Rightarrow> string \<Rightarrow> ('z pq_state_scheme, Executor option) op" where
  "GetExecutorByName colonyName executorName =
     bindM (select_executors (\<lambda>r. EX_COLONY_NAME r = colonyName \<and> EX_NAME r = colony_key colonyName executorName))
     (\<lambda>executors. retM (case executors of [] \<Rightarrow> None | e # _ \<Rightarrow> Some e))"

text \<open>The error message of the unique constraint gets a text of its own.\<close>

definition is_duplicate_key :: "failure \<Rightarrow> bool" where
  "is_duplicate_key e \<longleftrightarrow> e = SqlErr ''pq: duplicate key value violates unique constraint''"

definition insert_executor :: "executor_row \<Rightarrow> ('z pq_state_scheme, unit) op" where
  "insert_executor r = sql_exec (\<lambda>db.
     if \<not> (int4 (EX_HWNODES r) \<and> int4 (EX_HWGPUNODECOUNT r)) then Inl (SqlErr ''pq: integer out of range'')
     else map_sum id (\<lambda>rows. db\<lparr>EXECUTORS := rows\<rparr>) (insert_row EX_NAME r (EXECUTORS db)))"

definition AddExecutor :: "Executor option \<Rightarrow> ('z pq_state_scheme, unit) op" where
  "AddExecutor executor =
     (case executor of
        None \<Rightarrow> throwM (Err ''Executor is nil'')
      | Some e \<Rightarrow>
          bindM (GetExecutorByName (exec_ColonyName e) (exec_Name e)) (\<lambda>existingExecutor.
          if existingExecutor \<noteq> None then
            throwM (Err (''Executor with name <'' @ exec_Name e @ ''> already exists in Colony with name <'' @
              exec_ColonyName e @ ''>''))
          else
            bindM time_Now (\<lambda>now.
            bindM (tryM (insert_executor (executor_row_of now e))) (\<lambda>res.
            case res of
              Inr u \<Rightarrow> retM u
            | Inl err \<Rightarrow>
                if is_duplicate_key err
                then throwM (Err ''Executor not unique, both Name and ExecutorId must be unique within a Colony'')
                else throwM err))))"

definition update_executors ::
  "(executor_row \<Rightarrow> bool) \<Rightarrow> (executor_row \<Rightarrow> executor_row) \<Rightarrow> ('z pq_state_scheme, unit) op" where
  "update_executors P f = sql_exec (\<lambda>db. Inr (db\<lparr>EXECUTORS := update_where P f (EXECUTORS db)\<rparr>))"

definition SetAllocations :: "string \<Rightarrow> string \<Rightarrow> Allocations \<Rightarrow> ('z pq_state_scheme, unit) op" where
  "SetAllocations colonyName executorName allocations =
     bindM (GetExecutorByName colonyName executorName) (\<lambda>executor.
     if executor = None then
       throwM (Err (''Executor with name <'' @ executorName @ ''> does not exists in Colony with name <'' @
         colonyName @ ''>''))
     else update_executors
       (\<lambda>r. EX_COLONY_NAME r = colonyName \<and> EX_NAME r = colony_key colonyName executorName)
       (\<lambda>r. r\<lparr>EX_ALLOCATIONS := json_Marshal allocations\<rparr>))"

definition ApproveExecutor :: "Executor \<Rightarrow> ('z pq_state_scheme, Executor) op" where
  "ApproveExecutor executor =
     thenM (update_executors (\<lambda>r. EX_EXECUTOR_ID r = exec_ID executor) (\<lambda>r. r\<lparr>EX_STATE := 1\<rparr>))
           (retM (Approve executor))"

definition RejectExecutor :: "Executor \<Rightarrow> ('z pq_state_scheme, Executor) op" where
  "RejectExecutor executor =
     thenM (update_executors (\<lambda>r. EX_EXECUTOR_ID r = exec_ID executor) (\<lambda>r. r\<lparr>EX_STATE := 2\<rparr>))
           (retM (Reject executor))"

definition MarkAlive :: "Executor \<Rightarrow> ('z pq_state_scheme, unit) op" where
  "MarkAlive executor =
     bindM time_Now (\<lambda>now.
     update_executors (\<lambda>r. EX_EXECUTOR_ID r = exec_ID executor) (\<lambda>r. r\<lparr>EX_LASTHEARDFROM := now\<rparr>))"

definition ChangeExecutorID :: "string \<Rightarrow> string \<Rightarrow> string \<Rightarrow> ('z pq_state_scheme, unit) op" where
  "ChangeExecutorID colonyName oldExecutorID newExecutorID =
     update_executors (\<lambda>r. EX_COLONY_NAME r = colonyName \<and> EX_EXECUTOR_ID r = oldExecutorID)
       (\<lambda>r. r\<lparr>EX_EXECUTOR_ID := newExecutorID\<rparr>)"

text \<open>Processes go back to the queue.\<close>

definition requeue_row :: "process_row \<Rightarrow> process_row" where
  "requeue_row r = r\<lparr>PR_IS_ASSIGNED := False, PR_START_TIME := time_zero, PR_END_TIME := time_zero,
     PR_ASSIGNED_EXECUTOR_ID := '''', PR_STATE := WAITING\<rparr>"

definition requeue_processes :: "(process_row \<Rightarrow> bool) \<Rightarrow> ('z pq_state_scheme, unit) op" where
  "requeue_processes P = sql_exec (\<lambda>db. Inr (db\<lparr>PROCESSES := update_where P requeue_row (PROCESSES db)\<rparr>))"

definition delete_executors :: "(executor_row \<Rightarrow> bool) \<Rightarrow> ('z pq_state_scheme, unit) op" where
  "delete_executors P = sql_exec (\<lambda>db. Inr (db\<lparr>EXECUTORS := delete_where P (EXECUTORS db)\<rparr>))"

definition RemoveExecutorByName :: "string \<Rightarrow> string \<Rightarrow> ('z pq_state_scheme, unit) op" where
  "RemoveExecutorByName colonyName executorName =
     bindM (GetExecutorByName colonyName executorName) (\<lambda>found.
     (case found of
        None \<Rightarrow> throwM (Err (''Executor <'' @ executorName @ ''> does not exists''))
      | Some executor \<Rightarrow>
          thenM (delete_executors (\<lambda>r. EX_COLONY_NAME r = colonyName \<and> EX_NAME r = colony_key colonyName executorName))
          (thenM (requeue_processes (\<lambda>r. PR_ASSIGNED_EXECUTOR_ID r = exec_ID executor \<and> PR_STATE r = RUNNING))
          (RemoveFunctionsByExecutorName (exec_ColonyName executor) (exec_Name executor)))))"

definition RemoveExecutorsByColonyName :: "string \<Rightarrow> ('z pq_state_scheme, unit) op" where
  "RemoveExecutorsByColonyName colonyName =
     thenM (delete_executors (\<lambda>r. EX_COLONY_NAME r = colonyName))
     (thenM (requeue_processes (\<lambda>r. PR_TARGET_COLONY_NAME r = colonyName \<and> PR_STATE r = RUNNING))
     (RemoveFunctionsByColonyName colonyName))"

definition CountExecutors :: "('z pq_state_scheme, int) op" where
  "CountExecutors = bindM GetExecutors (\<lambda>es. retM (int (length es)))"

definition CountExecutorsByColonyName :: "string \<Rightarrow> ('z pq_state_scheme, int) op" where
  "CountExecutorsByColonyName colonyName =
     bindM (GetExecutorsByColonyName colonyName) (\<lambda>es. retM (int (length es)))"

section \<open>Users\<close>

definition parse_user :: "user_row \<Rightarrow> failure + User" where
  "parse_user r = map_sum id (\<lambda>name. CreateUser (US_COLONY_NAME r) (US_USER_ID r) name (US_EMAIL r) (US_PHONE r))
     (strip_key ''User'' (US_NAME r))"

definition parseUsers :: "user_row list \<Rightarrow> ('z pq_state_scheme, User list) op" where
  "parseUsers rows = mapM (\<lambda>r. liftE (parse_user r)) rows"

definition select_users :: "(user_row \<Rightarrow> bool) \<Rightarrow> ('z pq_state_scheme, User list) op" where
  "select_users P = bindM (sql_query (\<lambda>db. Inr (filter P (USERS db)))) parseUsers"

definition GetUsersByColonyName :: "string \<Rightarrow> ('z pq_state_scheme, User list) op" where
  "GetUsersByColonyName colonyName = select_users (\<lambda>r. US_COLONY_NAME r = colonyName)"

definition GetUserByID :: "string \<Rightarrow> string \<Rightarrow> ('z pq_state_scheme, User option) op" where
  "GetUserByID colonyName userID =
     bindM (select_users (\<lambda>r. US_COLONY_NAME r = colonyName \<and> US_USER_ID r = userID)) (\<lambda>users.
     retM (case users of [] \<Rightarrow> None | u # _ \<Rightarrow> Some u))"

definition GetUserByName :: "string \<Rightarrow> string \<Rightarrow> ('z pq_state_scheme, User option) op" where
  "GetUserByName colonyName name =
     bindM (select_users (\<lambda>r. US_NAME r = colony_key colonyName name \<and> US_COLONY_NAME r = colonyName)) (\<lambda>users.
     retM (case users of [] \<Rightarrow> None | u # _ \<Rightarrow> Some u))"

definition AddUser :: "User option \<Rightarrow> ('z pq_state_scheme, unit) op" where
  "AddUser user =
     (case user of
        None \<Rightarrow> throwM (Err ''User is nil'')
      | Some u \<Rightarrow>
          bindM (GetUserByName (user_ColonyName u) (user_Name u)) (\<lambda>existingUser.
          if existingUser \<noteq> None then
            throwM (Err (''User with name <'' @ user_Name u @ ''> already exists in Colony with name <'' @
              user_ColonyName u @ ''>''))
          else sql_exec (\<lambda>db. map_sum id (\<lambda>rows. db\<lparr>USERS := rows\<rparr>)
            (insert_row US_NAME
              \<lparr>US_NAME = colony_key (user_ColonyName u) (user_Name u), US_USER_ID = user_ID u,
               US_COLONY_NAME = user_ColonyName u, US_EMAIL = user_Email u, US_PHONE = user_Phone u\<rparr>
              (USERS db)))))"

definition ChangeUserID :: "string \<Rightarrow> string \<Rightarrow> string \<Rightarrow> ('z pq_state_scheme, unit) op" where
  "ChangeUserID colonyName oldUserID newUserID = sql_exec (\<lambda>db. Inr (db\<lparr>USERS :=
     update_where (\<lambda>r. US_COLONY_NAME r = colonyName \<and> US_USER_ID r = oldUserID)
       (\<lambda>r. r\<lparr>US_USER_ID := newUserID\<rparr>) (USERS db)\<rparr>))"

definition delete_users :: "(user_row \<Rightarrow> bool) \<Rightarrow> ('z pq_state_scheme, unit) op" where
  "delete_users P = sql_exec (\<lambda>db. Inr (db\<lparr>USERS := delete_where P (USERS db)\<rparr>))"

definition RemoveUserByID :: "string \<Rightarrow> string \<Rightarrow> ('z pq_state_scheme, unit) op" where
  "RemoveUserByID colonyName userID = delete_users (\<lambda>r. US_COLONY_NAME r = colonyName \<and> US_USER_ID r = userID)"

definition RemoveUserByName :: "string \<Rightarrow> string \<Rightarrow> ('z pq_state_scheme, unit) op" where
  "RemoveUserByName colonyName name =
     delete_users (\<lambda>r. US_NAME r = colony_key colonyName name \<and> US_COLONY_NAME r = colonyName)"

definition RemoveUsersByColonyName :: "string \<Rightarrow> ('z pq_state_scheme, unit) op" where
  "RemoveUsersByColonyName colonyName = delete_users (\<lambda>r. US_COLONY_NAME r = colonyName)"

end
