(* ===== verification/Scheduler.thy ===== *)
theory Scheduler
  imports Pq_Members Demo
begin

text \<open>
  \<open>pkg/scheduler/scheduler.go\<close>: which processes an executor is offered. The scheduler only sees the
  database through the interface \<open>ProcessLookup\<close> (\<open>pkg/database/processlookup.go\<close>), so its operations
  take the two methods of that interface, and \<open>sort.Sort\<close>, as arguments. The locale \<open>process_lookup\<close>
  is the contract of the interface; it is interpreted on the PostgreSQL implementation.
\<close>

section \<open>Scheduler\<close>

type_synonym 's find_candidates =
  "string \<Rightarrow> string \<Rightarrow> int \<Rightarrow> int \<Rightarrow> int \<Rightarrow> int \<Rightarrow> int \<Rightarrow> int \<Rightarrow> int \<Rightarrow> ('s, Process list) op"

type_synonym 's find_candidates_by_name =
  "string \<Rightarrow> string \<Rightarrow> string \<Rightarrow> int \<Rightarrow> int \<Rightarrow> int \<Rightarrow> int \<Rightarrow> int \<Rightarrow> int \<Rightarrow> int \<Rightarrow> ('s, Process list) op"

definition MaxInt8 :: int where "MaxInt8 = 127"

definition min_int :: "int \<Rightarrow> int \<Rightarrow> int" where
  "min_int x y = (if x < y then x else y)"

definition Prioritize ::
  "'s find_candidates \<Rightarrow> 's find_candidates_by_name \<Rightarrow> (Process list \<Rightarrow> Process list) \<Rightarrow>
   string \<Rightarrow> Executor \<Rightarrow> int \<Rightarrow> int \<Rightarrow> int \<Rightarrow> ('s, Process list) op" where
  "Prioritize find_open find_by_name sort_priority colonyName executor cpu memory cnt =
     (let storage = 0; nodes = MaxInt8; processes = MaxInt8; processesPerNode = MaxInt8 in
      bindM (find_by_name colonyName (exec_Name executor) (exec_Type executor) cpu memory storage nodes processes
        processesPerNode cnt) (\<lambda>candidates.
      bindM (find_open colonyName (exec_Type executor) cpu memory storage nodes processes processesPerNode cnt) (\<lambda>candidates2.
      (let all = candidates @ candidates2 in
       if all = [] then retM []
       else retM (take (nat (min_int cnt (int (length all)))) (sort_priority all))))))"

definition Select ::
  "'s find_candidates \<Rightarrow> 's find_candidates_by_name \<Rightarrow> (Process list \<Rightarrow> Process list) \<Rightarrow>
   string \<Rightarrow> Executor \<Rightarrow> int \<Rightarrow> int \<Rightarrow> ('s, Process) op" where
  "Select find_open find_by_name sort_priority colonyName executor cpu memory =
     bindM (Prioritize find_open find_by_name sort_priority colonyName executor cpu memory 1) (\<lambda>prioritizedProcesses.
     (case prioritizedProcesses of
        [] \<Rightarrow> throwM (Err (''No processes can be selected for executor with Id <'' @ exec_ID executor @ ''>''))
      | process # _ \<Rightarrow> retM process))"

text \<open>Sorting by \<open>byLowestPriorityTime\<close>; \<open>sort.Sort\<close> may order processes of equal priority time anyhow.\<close>

definition sorts_priority :: "(Process list \<Rightarrow> Process list) \<Rightarrow> bool" where
  "sorts_priority srt \<longleftrightarrow> (\<forall>ps. mset (srt ps) = mset ps \<and> sorted (map proc_PriorityTime (srt ps)))"

definition byLowestPriorityTime :: "Process list \<Rightarrow> Process list" where
  "byLowestPriorityTime ps = sort_key proc_PriorityTime ps"

lemma sorts_byLowestPriorityTime: "sorts_priority byLowestPriorityTime"
  by (simp add: sorts_priority_def byLowestPriorityTime_def)

section \<open>The contract of ProcessLookup\<close>

text \<open>\<open>lowest k ps X\<close>: \<open>ps\<close> are the \<open>k\<close> elements of \<open>X\<close> with the lowest priority times, or all of \<open>X\<close>.\<close>

definition lowest :: "nat \<Rightarrow> Process list \<Rightarrow> Process set \<Rightarrow> bool" where
  "lowest k ps X \<longleftrightarrow> set ps \<subseteq> X \<and> length ps \<le> k \<and>
     (\<forall>q \<in> X - set ps. length ps = k \<and> (\<forall>p \<in> set ps. proc_PriorityTime p \<le> proc_PriorityTime q))"

lemma lowest_take:
  assumes "sorted (map proc_PriorityTime ps)" "set ps \<subseteq> X"
    and "\<And>q. q \<in> X - set ps \<Longrightarrow> k \<le> length ps \<and> (\<forall>p \<in> set (take k ps). proc_PriorityTime p \<le> proc_PriorityTime q)"
  shows "lowest k (take k ps) X"
proof -
  have "length (take k ps) = k \<and> (\<forall>p \<in> set (take k ps). proc_PriorityTime p \<le> proc_PriorityTime q)"
    if q: "q \<in> X - set (take k ps)" for q
  proof (cases "q \<in> set ps")
    case True
    then have "q \<in> set (drop k ps)" using q by (metis DiffD2 Un_iff append_take_drop_id set_append)
    moreover have "sorted (map proc_PriorityTime (take k ps) @ map proc_PriorityTime (drop k ps))"
      using assms(1) by (metis append_take_drop_id map_append)
    ultimately show ?thesis by (auto simp: sorted_append) (metis drop_all length_greater_0_conv length_pos_if_in_set
        list.size(3) nat_le_linear min.absorb2 not_less_zero)
  next
    case False
    then show ?thesis using q assms(3) by auto
  qed
  then show ?thesis using assms(2) set_take_subset[of k ps] by (auto simp: lowest_def)
qed

lemma sorted_take_le:
  fixes f :: "'a \<Rightarrow> int"
  assumes "sorted (map f xs)" "k \<le> length (filter (\<lambda>x. f x \<le> v) xs)" "p \<in> set (take k xs)"
  shows "f p \<le> v"
  using assms
proof (induction xs arbitrary: k)
  case (Cons x xs)
  show ?case
  proof (cases "f x \<le> v")
    case True
    then obtain k' where "k = Suc k'" using Cons.prems(3) by (cases k) auto
    with True Cons show ?thesis by (auto simp: take_Cons')
  next
    case False
    then have "filter (\<lambda>y. f y \<le> v) xs = []" using Cons.prems(1) by (auto simp: filter_empty_conv)
    with False Cons.prems show ?thesis by simp
  qed
qed simp

lemma sorts_priority_props:
  assumes "sorts_priority srt"
  shows "set (srt ps) = set ps" "length (srt ps) = length ps" "sorted (map proc_PriorityTime (srt ps))"
    "length (filter P (srt ps)) = length (filter P ps)"
proof -
  have m: "mset (srt ps) = mset ps" and s: "sorted (map proc_PriorityTime (srt ps))"
    using assms by (simp_all add: sorts_priority_def)
  show "set (srt ps) = set ps" using m by (rule mset_eq_setD)
  show "length (srt ps) = length ps" using m by (rule mset_eq_length)
  show "sorted (map proc_PriorityTime (srt ps))" by (rule s)
  have "mset (filter P (srt ps)) = mset (filter P ps)" using m by simp
  then show "length (filter P (srt ps)) = length (filter P ps)" by (rule mset_eq_length)
qed

text \<open>The lowest of two selections together are the lowest of both pools.\<close>

lemma lowest_merge:
  assumes "sorts_priority srt" "lowest k ns X" "lowest k os Y"
  shows "lowest k (take k (srt (ns @ os))) (X \<union> Y)"
proof (rule lowest_take)
  let ?all = "srt (ns @ os)"
  note srt = sorts_priority_props[OF assms(1)]
  show "sorted (map proc_PriorityTime ?all)" by (rule srt(3))
  show "set ?all \<subseteq> X \<union> Y" using assms(2,3) by (auto simp: lowest_def srt)
  show "k \<le> length ?all \<and> (\<forall>p \<in> set (take k ?all). proc_PriorityTime p \<le> proc_PriorityTime q)"
    if q: "q \<in> X \<union> Y - set ?all" for q
  proof -
    let ?le = "\<lambda>p. proc_PriorityTime p \<le> proc_PriorityTime q"
    consider "length ns = k \<and> filter ?le ns = ns" | "length os = k \<and> filter ?le os = os"
    proof (cases "q \<in> X")
      case True
      then have "length ns = k \<and> (\<forall>p \<in> set ns. ?le p)" using q assms(2) by (auto simp: lowest_def srt(1))
      then show thesis using that(1) by simp
    next
      case False
      then have "length os = k \<and> (\<forall>p \<in> set os. ?le p)" using q assms(3) by (auto simp: lowest_def srt(1))
      then show thesis using that(2) by simp
    qed
    then have "k \<le> length (filter ?le (ns @ os))" by cases simp_all
    then have n: "k \<le> length (filter ?le ?all)" by (simp add: srt(4))
    then have "k \<le> length ?all" using length_filter_le[of ?le ?all] by linarith
    with sorted_take_le[OF srt(3) n] show ?thesis by blast
  qed
qed

text \<open>What an executor may be given, from the pools of the two methods.\<close>

definition offered ::
  "(string \<Rightarrow> string \<Rightarrow> int \<Rightarrow> int \<Rightarrow> int \<Rightarrow> int \<Rightarrow> int \<Rightarrow> int \<Rightarrow> Process set) \<Rightarrow>
   (string \<Rightarrow> string \<Rightarrow> string \<Rightarrow> int \<Rightarrow> int \<Rightarrow> int \<Rightarrow> int \<Rightarrow> int \<Rightarrow> int \<Rightarrow> Process set) \<Rightarrow>
   string \<Rightarrow> Executor \<Rightarrow> int \<Rightarrow> int \<Rightarrow> Process set" where
  "offered open_pool named_pool c e cpu mem =
     named_pool c (exec_Name e) (exec_Type e) cpu mem 0 MaxInt8 MaxInt8 MaxInt8 \<union>
     open_pool c (exec_Type e) cpu mem 0 MaxInt8 MaxInt8 MaxInt8"

locale process_lookup =
  fixes ready :: "'s \<Rightarrow> bool"
    and find_open :: "'s find_candidates"
    and find_by_name :: "'s find_candidates_by_name"
    and open_pool :: "'s \<Rightarrow> string \<Rightarrow> string \<Rightarrow> int \<Rightarrow> int \<Rightarrow> int \<Rightarrow> int \<Rightarrow> int \<Rightarrow> int \<Rightarrow> Process set"
    and named_pool :: "'s \<Rightarrow> string \<Rightarrow> string \<Rightarrow> string \<Rightarrow> int \<Rightarrow> int \<Rightarrow> int \<Rightarrow> int \<Rightarrow> int \<Rightarrow> int \<Rightarrow> Process set"
  assumes find_lowest: "ready s \<Longrightarrow> 0 \<le> cnt \<Longrightarrow>
      \<exists>ps. find_open c t cpu mem sto n p ppn cnt s = (Inr ps, s) \<and> lowest (nat cnt) ps (open_pool s c t cpu mem sto n p ppn)"
    and find_by_name_lowest: "ready s \<Longrightarrow> 0 \<le> cnt \<Longrightarrow>
      \<exists>ps. find_by_name c en t cpu mem sto n p ppn cnt s = (Inr ps, s) \<and>
           lowest (nat cnt) ps (named_pool s c en t cpu mem sto n p ppn)"
begin

lemma Prioritize_lowest:
  assumes "ready s" "0 \<le> cnt" "sorts_priority srt"
  shows "\<exists>ps. Prioritize find_open find_by_name srt c e cpu mem cnt s = (Inr ps, s) \<and>
     sorted (map proc_PriorityTime ps) \<and> lowest (nat cnt) ps (offered (open_pool s) (named_pool s) c e cpu mem)"
proof -
  obtain ns where ns: "find_by_name c (exec_Name e) (exec_Type e) cpu mem 0 MaxInt8 MaxInt8 MaxInt8 cnt s = (Inr ns, s)"
    "lowest (nat cnt) ns (named_pool s c (exec_Name e) (exec_Type e) cpu mem 0 MaxInt8 MaxInt8 MaxInt8)"
    using find_by_name_lowest[OF assms(1,2)] by blast
  obtain os where os: "find_open c (exec_Type e) cpu mem 0 MaxInt8 MaxInt8 MaxInt8 cnt s = (Inr os, s)"
    "lowest (nat cnt) os (open_pool s c (exec_Type e) cpu mem 0 MaxInt8 MaxInt8 MaxInt8)"
    using find_lowest[OF assms(1,2)] by blast
  let ?all = "srt (ns @ os)"
  note props = sorts_priority_props[OF assms(3)]
  have "take (nat (min_int cnt (int (length (ns @ os))))) ?all = take (nat cnt) ?all"
    using assms(2) props(2)[of "ns @ os"] by (auto simp: min_int_def)
  moreover have "?all = []" if "ns = []" "os = []" using props(2)[of "[]"] that by simp
  ultimately have "Prioritize find_open find_by_name srt c e cpu mem cnt s = (Inr (take (nat cnt) ?all), s)"
    using ns(1) os(1) by (simp add: Prioritize_def Let_def bindM_def)
  moreover have "sorted (map proc_PriorityTime (take (nat cnt) ?all))"
    using props(3) by (metis sorted_wrt_take take_map)
  moreover have "lowest (nat cnt) (take (nat cnt) ?all) (offered (open_pool s) (named_pool s) c e cpu mem)"
    unfolding offered_def by (rule lowest_merge[OF assms(3) ns(2) os(2)])
  ultimately show ?thesis by blast
qed

lemma Select_lowest:
  assumes "ready s" "sorts_priority srt"
  shows "offered (open_pool s) (named_pool s) c e cpu mem = {} \<and> Select find_open find_by_name srt c e cpu mem s =
      (Inl (Err (''No processes can be selected for executor with Id <'' @ exec_ID e @ ''>'')), s) \<or>
    (\<exists>p. Select find_open find_by_name srt c e cpu mem s = (Inr p, s) \<and> p \<in> offered (open_pool s) (named_pool s) c e cpu mem \<and>
      (\<forall>q \<in> offered (open_pool s) (named_pool s) c e cpu mem. proc_PriorityTime p \<le> proc_PriorityTime q))"
proof -
  obtain ps where ps: "Prioritize find_open find_by_name srt c e cpu mem 1 s = (Inr ps, s)"
    "lowest 1 ps (offered (open_pool s) (named_pool s) c e cpu mem)"
    using Prioritize_lowest[OF assms(1) _ assms(2), of 1 c e cpu mem] by auto
  show ?thesis
  proof (cases ps)
    case Nil
    then have "offered (open_pool s) (named_pool s) c e cpu mem = {}" using ps(2) by (auto simp: lowest_def)
    with Nil ps(1) show ?thesis by (simp add: Select_def bindM_def)
  next
    case (Cons p ps')
    with ps(2) have "ps' = []" by (simp add: lowest_def)
    with Cons ps(2) have "p \<in> offered (open_pool s) (named_pool s) c e cpu mem"
      "\<forall>q \<in> offered (open_pool s) (named_pool s) c e cpu mem. proc_PriorityTime p \<le> proc_PriorityTime q"
      by (auto simp: lowest_def)
    with Cons ps(1) show ?thesis by (simp add: Select_def bindM_def)
  qed
qed

end

section \<open>The PostgreSQL implementation\<close>

text \<open>The rows that the two queries select from.\<close>

definition open_rows :: "'z pq_state_scheme \<Rightarrow> string \<Rightarrow> string \<Rightarrow> int \<Rightarrow> int \<Rightarrow> int \<Rightarrow> int \<Rightarrow> int \<Rightarrow> int \<Rightarrow> process_row list" where
  "open_rows db c t cpu mem sto n p ppn =
     filter (\<lambda>r. assignable c t r \<and> elems (PR_TARGET_EXECUTOR_NAMES r) = [] \<and> fits cpu mem sto n p ppn r) (PROCESSES db)"

definition named_rows ::
  "'z pq_state_scheme \<Rightarrow> string \<Rightarrow> string \<Rightarrow> string \<Rightarrow> int \<Rightarrow> int \<Rightarrow> int \<Rightarrow> int \<Rightarrow> int \<Rightarrow> int \<Rightarrow> process_row list" where
  "named_rows db c en t cpu mem sto n p ppn =
     filter (\<lambda>r. assignable c t r \<and> en \<in> set (elems (PR_TARGET_EXECUTOR_NAMES r)) \<and> fits cpu mem sto n p ppn r)
       (PROCESSES db)"

lemma select_lowest:
  assumes "healthy db" "0 \<le> cnt"
  shows "\<exists>ps. select_processes (\<lambda>rows. sql_limit cnt (order_asc PR_PRIORITYTIME (filter P rows))) db = (Inr ps, db) \<and>
     lowest (nat cnt) ps (process_view db ` set (filter P (PROCESSES db)))"
proof -
  let ?rows = "order_asc PR_PRIORITYTIME (filter P (PROCESSES db))"
  let ?ps = "map (process_view db) ?rows"
  have "map proc_PriorityTime ?ps = map PR_PRIORITYTIME ?rows" by simp
  then have "sorted (map proc_PriorityTime ?ps)" using order_asc_sorted by metis
  then have "lowest (nat cnt) (take (nat cnt) ?ps) (process_view db ` set (filter P (PROCESSES db)))"
    by (rule lowest_take) auto
  with assms show ?thesis
    by (simp add: select_processes_run sql_limit_def take_map)
qed

interpretation pq_lookup: process_lookup healthy FindCandidates FindCandidatesByName
  "\<lambda>db c t cpu mem sto n p ppn. process_view db ` set (open_rows db c t cpu mem sto n p ppn)"
  "\<lambda>db c en t cpu mem sto n p ppn. process_view db ` set (named_rows db c en t cpu mem sto n p ppn)"
proof unfold_locales
  fix s :: "'a pq_state_scheme" and cnt :: int and c t cpu mem sto n p ppn
  assume s: "healthy s" "0 \<le> cnt"
  show "\<exists>ps. FindCandidates c t cpu mem sto n p ppn cnt s = (Inr ps, s) \<and>
      lowest (nat cnt) ps (process_view s ` set (open_rows s c t cpu mem sto n p ppn))"
    unfolding FindCandidates_def open_rows_def by (rule select_lowest[OF s])
next
  fix s :: "'a pq_state_scheme" and cnt :: int and c en t cpu mem sto n p ppn
  assume s: "healthy s" "0 \<le> cnt"
  show "\<exists>ps. FindCandidatesByName c en t cpu mem sto n p ppn cnt s = (Inr ps, s) \<and>
      lowest (nat cnt) ps (process_view s ` set (named_rows s c en t cpu mem sto n p ppn))"
    unfolding FindCandidatesByName_def named_rows_def by (rule select_lowest[OF s])
qed

text \<open>The processes that an executor may be given, as the table has them.\<close>

definition offered_row :: "string \<Rightarrow> Executor \<Rightarrow> int \<Rightarrow> int \<Rightarrow> process_row \<Rightarrow> bool" where
  "offered_row colonyName executor cpu memory r \<longleftrightarrow>
     assignable colonyName (exec_Type executor) r \<and>
     (elems (PR_TARGET_EXECUTOR_NAMES r) = [] \<or> exec_Name executor \<in> set (elems (PR_TARGET_EXECUTOR_NAMES r))) \<and>
     fits cpu memory 0 MaxInt8 MaxInt8 MaxInt8 r"

lemma offered_rows:
  "offered (\<lambda>c t cpu mem sto n p ppn. process_view db ` set (open_rows db c t cpu mem sto n p ppn))
     (\<lambda>c en t cpu mem sto n p ppn. process_view db ` set (named_rows db c en t cpu mem sto n p ppn)) c e cpu mem =
   process_view db ` {r \<in> set (PROCESSES db). offered_row c e cpu mem r}"
  by (auto simp: offered_def open_rows_def named_rows_def offered_row_def)

lemma Select_row_lowest:
  fixes db :: "'z pq_state_scheme" and c :: string and e :: Executor and cpu mem :: int
  assumes "healthy db" "sorts_priority srt"
  defines "R \<equiv> {r \<in> set (PROCESSES db). offered_row c e cpu mem r}"
  shows "R = {} \<and> Select FindCandidates FindCandidatesByName srt c e cpu mem db =
      (Inl (Err (''No processes can be selected for executor with Id <'' @ exec_ID e @ ''>'')), db) \<or>
    (\<exists>r \<in> R. Select FindCandidates FindCandidatesByName srt c e cpu mem db = (Inr (process_view db r), db) \<and>
      (\<forall>q \<in> R. PR_PRIORITYTIME r \<le> PR_PRIORITYTIME q))"
  using pq_lookup.Select_lowest[OF assms(1,2), of c e cpu mem] unfolding offered_rows R_def by auto

section \<open>Properties\<close>

text \<open>
  C25: \<open>Select\<close>, for any way of sorting by priority time, returns the process of a row that is WAITING,
  unassigned, not waiting for parents, of the colony and executor type, open to the executor by name
  and within its resources, whose priority time is the lowest of all such rows, and changes nothing;
  it returns its error exactly when there is no such row.
\<close>

theorem Select_offers_lowest:
  fixes db :: "'z pq_state_scheme" and c :: string and e :: Executor and cpu mem :: int
  assumes "healthy db" "sorts_priority srt"
  defines "R \<equiv> {r \<in> set (PROCESSES db). offered_row c e cpu mem r}"
  shows "R = {} \<and> Select FindCandidates FindCandidatesByName srt c e cpu mem db =
      (Inl (Err (''No processes can be selected for executor with Id <'' @ exec_ID e @ ''>'')), db) \<or>
    (\<exists>r \<in> R. Select FindCandidates FindCandidatesByName srt c e cpu mem db = (Inr (process_view db r), db) \<and>
      (\<forall>q \<in> R. PR_PRIORITYTIME r \<le> PR_PRIORITYTIME q))"
  unfolding R_def by (rule Select_row_lowest[OF assms(1,2)])

theorem Select_offers_lowest_witness:
  "\<exists>r \<in> set (PROCESSES (demo_db WAITING WAITING)).
     Select FindCandidates FindCandidatesByName byLowestPriorityTime ''c'' demo_executor 1 1 (demo_db WAITING WAITING) =
       (Inr (process_view (demo_db WAITING WAITING) r), demo_db WAITING WAITING) \<and> PR_PROCESS_ID r = ''a''"
proof -
  let ?db = "demo_db WAITING WAITING"
  have "{r \<in> set (PROCESSES ?db). offered_row ''c'' demo_executor 1 1 r} = {demo_row ''a'' WAITING [] [''b'']}"
    by (auto simp: demo_db_def demo_row_def offered_row_def assignable_def fits_def demo_executor_def
        CreateExecutor_def MaxInt8_def)
  then show ?thesis
    using Select_offers_lowest[of ?db byLowestPriorityTime "''c''" demo_executor 1 1]
    by (auto simp: sorts_byLowestPriorityTime)
qed

end
