(* ===== verification/Pq_Colonies.thy ===== *)
theory Pq_Colonies
  imports Pq_Members
begin

text \<open>
  Crons, generators, their packed arguments, logs, the server id, and the colonies whose removal
  removes all of these: \<open>crons.go\<close>, \<open>generators.go\<close>, \<open>generator_args.go\<close>, \<open>logs.go\<close>, \<open>server.go\<close>,
  \<open>colonies.go\<close> and \<open>retention.go\<close>. Of \<open>files.go\<close> and \<open>snapshots.go\<close> only what \<open>colonies.go\<close> calls.
\<close>

section \<open>Crons\<close>

definition parse_cron :: "cron_row \<Rightarrow> Cron" where
  "parse_cron r =
     \<lparr>cron_ID = CR_CRON_ID r, cron_InitiatorID = CR_INITIATOR_ID r, cron_InitiatorName = CR_INITIATOR_NAME r,
      cron_ColonyName = CR_COLONY_NAME r, cron_Name = CR_NAME r, cron_CronExpression = CR_CRON_EXPR r,
      cron_Interval = CR_INTERVAL r, cron_Random = CR_RANDOM r, cron_NextRun = CR_NEXT_RUN r,
      cron_LastRun = CR_LAST_RUN r, cron_WorkflowSpec = CR_WORKFLOW_SPEC r,
      cron_PrevProcessGraphID = CR_PREV_PROCESSGRAPH_ID r,
      cron_WaitForPrevProcessGraph = CR_WAIT_FOR_PREV_PROCESSGRAPH r, cron_CheckerPeriod = 0\<rparr>"

definition select_crons :: "(cron_row list \<Rightarrow> failure + cron_row list) \<Rightarrow> ('z pq_state_scheme, Cron list) op" where
  "select_crons q = bindM (sql_query (\<lambda>db. q (CRONS db))) (\<lambda>rows. retM (map parse_cron rows))"

definition GetCronByID :: "string \<Rightarrow> ('z pq_state_scheme, Cron option) op" where
  "GetCronByID cronID =
     bindM (select_crons (\<lambda>rows. Inr (filter (\<lambda>r. CR_CRON_ID r = cronID) rows))) (\<lambda>crons.
     retM (case crons of [] \<Rightarrow> None | c # _ \<Rightarrow> Some c))"

definition GetCronByName :: "string \<Rightarrow> string \<Rightarrow> ('z pq_state_scheme, Cron option) op" where
  "GetCronByName colonyName cronName =
     bindM (select_crons (\<lambda>rows. Inr (filter (\<lambda>r. CR_COLONY_NAME r = colonyName \<and> CR_NAME r = cronName) rows))) (\<lambda>crons.
     retM (case crons of [] \<Rightarrow> None | c # _ \<Rightarrow> Some c))"

definition FindCronsByColonyName :: "string \<Rightarrow> int \<Rightarrow> ('z pq_state_scheme, Cron list) op" where
  "FindCronsByColonyName colonyName cnt =
     select_crons (\<lambda>rows. sql_limit cnt (filter (\<lambda>r. CR_COLONY_NAME r = colonyName) rows))"

definition FindAllCrons :: "('z pq_state_scheme, Cron list) op" where
  "FindAllCrons = select_crons Inr"

text \<open>The table has two unique columns, \<open>CRON_ID\<close> and \<open>NAME\<close>.\<close>

definition AddCron :: "Cron \<Rightarrow> ('z pq_state_scheme, unit) op" where
  "AddCron c =
     bindM (GetCronByName (cron_ColonyName c) (cron_Name c)) (\<lambda>existingCron.
     if existingCron \<noteq> None then
       throwM (Err (''Cron with name <'' @ cron_Name c @ ''> in Colony <'' @ cron_ColonyName c @ ''> already exists''))
     else sql_exec (\<lambda>db.
       if \<not> int4 (cron_Interval c) then Inl (SqlErr ''pq: integer out of range'')
       else if cron_Name c \<in> set (map CR_NAME (CRONS db))
       then Inl (SqlErr ''pq: duplicate key value violates unique constraint'')
       else map_sum id (\<lambda>rows. db\<lparr>CRONS := rows\<rparr>)
         (insert_row CR_CRON_ID
           \<lparr>CR_CRON_ID = cron_ID c, CR_COLONY_NAME = cron_ColonyName c, CR_NAME = cron_Name c,
            CR_CRON_EXPR = cron_CronExpression c, CR_INTERVAL = cron_Interval c, CR_RANDOM = cron_Random c,
            CR_NEXT_RUN = cron_NextRun c, CR_LAST_RUN = cron_LastRun c, CR_WORKFLOW_SPEC = cron_WorkflowSpec c,
            CR_PREV_PROCESSGRAPH_ID = cron_PrevProcessGraphID c,
            CR_WAIT_FOR_PREV_PROCESSGRAPH = cron_WaitForPrevProcessGraph c,
            CR_INITIATOR_ID = cron_InitiatorID c, CR_INITIATOR_NAME = cron_InitiatorName c\<rparr>
           (CRONS db))))"

definition UpdateCron :: "string \<Rightarrow> time \<Rightarrow> time \<Rightarrow> string \<Rightarrow> ('z pq_state_scheme, unit) op" where
  "UpdateCron cronID nextRun lastRun lastProcessGraphID = sql_exec (\<lambda>db. Inr (db\<lparr>CRONS :=
     update_where (\<lambda>r. CR_CRON_ID r = cronID)
       (\<lambda>r. r\<lparr>CR_NEXT_RUN := nextRun, CR_LAST_RUN := lastRun, CR_PREV_PROCESSGRAPH_ID := lastProcessGraphID\<rparr>)
       (CRONS db)\<rparr>))"

definition delete_crons :: "(cron_row \<Rightarrow> bool) \<Rightarrow> ('z pq_state_scheme, unit) op" where
  "delete_crons P = sql_exec (\<lambda>db. Inr (db\<lparr>CRONS := delete_where P (CRONS db)\<rparr>))"

definition RemoveCronByID :: "string \<Rightarrow> ('z pq_state_scheme, unit) op" where
  "RemoveCronByID cronID = delete_crons (\<lambda>r. CR_CRON_ID r = cronID)"

definition RemoveAllCronsByColonyName :: "string \<Rightarrow> ('z pq_state_scheme, unit) op" where
  "RemoveAllCronsByColonyName colonyName = delete_crons (\<lambda>r. CR_COLONY_NAME r = colonyName)"

section \<open>Generators\<close>

definition AddGeneratorArg :: "GeneratorArg \<Rightarrow> ('z pq_state_scheme, unit) op" where
  "AddGeneratorArg a = sql_exec (\<lambda>db. map_sum id (\<lambda>rows. db\<lparr>GENERATORARGS := rows\<rparr>)
     (insert_row GA_GENERATORARG_ID
       \<lparr>GA_GENERATORARG_ID = ga_ID a, GA_GENERATOR_ID = ga_GeneratorID a, GA_COLONY_NAME = ga_ColonyName a,
        GA_ARG = ga_Arg a\<rparr> (GENERATORARGS db)))"

definition parse_generatorarg :: "generatorarg_row \<Rightarrow> GeneratorArg" where
  "parse_generatorarg r =
     \<lparr>ga_ID = GA_GENERATORARG_ID r, ga_GeneratorID = GA_GENERATOR_ID r, ga_ColonyName = GA_COLONY_NAME r, ga_Arg = GA_ARG r\<rparr>"

definition GetGeneratorArgs :: "string \<Rightarrow> int \<Rightarrow> ('z pq_state_scheme, GeneratorArg list) op" where
  "GetGeneratorArgs generatorID cnt =
     bindM (sql_query (\<lambda>db. sql_limit cnt (filter (\<lambda>r. GA_GENERATOR_ID r = generatorID) (GENERATORARGS db)))) (\<lambda>rows.
     retM (map parse_generatorarg rows))"

definition CountGeneratorArgs :: "string \<Rightarrow> ('z pq_state_scheme, int) op" where
  "CountGeneratorArgs generatorID =
     sql_query (\<lambda>db. Inr (int (length (filter (\<lambda>r. GA_GENERATOR_ID r = generatorID) (GENERATORARGS db)))))"

definition delete_generatorargs :: "(generatorarg_row \<Rightarrow> bool) \<Rightarrow> ('z pq_state_scheme, unit) op" where
  "delete_generatorargs P = sql_exec (\<lambda>db. Inr (db\<lparr>GENERATORARGS := delete_where P (GENERATORARGS db)\<rparr>))"

definition RemoveGeneratorArgByID :: "string \<Rightarrow> ('z pq_state_scheme, unit) op" where
  "RemoveGeneratorArgByID generatorArgsID = delete_generatorargs (\<lambda>r. GA_GENERATORARG_ID r = generatorArgsID)"

definition RemoveAllGeneratorArgsByGeneratorID :: "string \<Rightarrow> ('z pq_state_scheme, unit) op" where
  "RemoveAllGeneratorArgsByGeneratorID generatorID = delete_generatorargs (\<lambda>r. GA_GENERATOR_ID r = generatorID)"

definition RemoveAllGeneratorArgsByColonyName :: "string \<Rightarrow> ('z pq_state_scheme, unit) op" where
  "RemoveAllGeneratorArgsByColonyName colonyName = delete_generatorargs (\<lambda>r. GA_COLONY_NAME r = colonyName)"

definition parse_generator :: "generator_row \<Rightarrow> Generator" where
  "parse_generator r =
     \<lparr>gen_ID = GE_GENERATOR_ID r, gen_InitiatorID = GE_INITIATOR_ID r, gen_InitiatorName = GE_INITIATOR_NAME r,
      gen_ColonyName = GE_COLONY_NAME r, gen_Name = GE_NAME r, gen_WorkflowSpec = GE_WORKFLOW_SPEC r,
      gen_Trigger = GE_TRIGGER r, gen_Timeout = GE_TIMEOUT r, gen_FirstPack = GE_FIRSTPACK r,
      gen_LastRun = GE_LASTRUN r, gen_QueueSize = 0, gen_CheckerPeriod = 0\<rparr>"

definition select_generators ::
  "(generator_row list \<Rightarrow> failure + generator_row list) \<Rightarrow> ('z pq_state_scheme, Generator list) op" where
  "select_generators q = bindM (sql_query (\<lambda>db. q (GENERATORS db))) (\<lambda>rows. retM (map parse_generator rows))"

definition GetGeneratorByID :: "string \<Rightarrow> ('z pq_state_scheme, Generator option) op" where
  "GetGeneratorByID generatorID =
     bindM (select_generators (\<lambda>rows. Inr (filter (\<lambda>r. GE_GENERATOR_ID r = generatorID) rows))) (\<lambda>generators.
     retM (case generators of [] \<Rightarrow> None | g # _ \<Rightarrow> Some g))"

definition GetGeneratorByName :: "string \<Rightarrow> string \<Rightarrow> ('z pq_state_scheme, Generator option) op" where
  "GetGeneratorByName colonyName name =
     bindM (select_generators (\<lambda>rows. Inr (filter (\<lambda>r. GE_COLONY_NAME r = colonyName \<and> GE_NAME r = name) rows))) (\<lambda>generators.
     (case generators of
        [] \<Rightarrow> retM None
      | [g] \<Rightarrow> retM (Some g)
      | _ \<Rightarrow> throwM (Err ''Expected one generator, generator name should be unique'')))"

definition AddGenerator :: "Generator \<Rightarrow> ('z pq_state_scheme, unit) op" where
  "AddGenerator g =
     bindM (GetGeneratorByName (gen_ColonyName g) (gen_Name g)) (\<lambda>existingGenerator.
     if existingGenerator \<noteq> None then
       throwM (Err (''Generator with name <'' @ gen_Name g @ ''> in Colony <'' @ gen_ColonyName g @ ''> already exists''))
     else sql_exec (\<lambda>db.
       if \<not> (int4 (gen_Trigger g) \<and> int4 (gen_Timeout g)) then Inl (SqlErr ''pq: integer out of range'')
       else map_sum id (\<lambda>rows. db\<lparr>GENERATORS := rows\<rparr>)
         (insert_row GE_GENERATOR_ID
           \<lparr>GE_GENERATOR_ID = gen_ID g, GE_COLONY_NAME = gen_ColonyName g, GE_NAME = gen_Name g,
            GE_WORKFLOW_SPEC = gen_WorkflowSpec g, GE_TRIGGER = gen_Trigger g, GE_TIMEOUT = gen_Timeout g,
            GE_LASTRUN = time_zero, GE_FIRSTPACK = time_zero, GE_INITIATOR_ID = gen_InitiatorID g,
            GE_INITIATOR_NAME = gen_InitiatorName g\<rparr> (GENERATORS db))))"

definition update_generator ::
  "string \<Rightarrow> (time \<Rightarrow> generator_row \<Rightarrow> generator_row) \<Rightarrow> ('z pq_state_scheme, unit) op" where
  "update_generator generatorID f =
     bindM (GetGeneratorByID generatorID) (\<lambda>found.
     bindM time_Now (\<lambda>now.
     bindM (derefM found) (\<lambda>generator.
     sql_exec (\<lambda>db. Inr (db\<lparr>GENERATORS :=
       update_where (\<lambda>r. GE_GENERATOR_ID r = gen_ID generator) (f now) (GENERATORS db)\<rparr>)))))"

definition SetGeneratorLastRun :: "string \<Rightarrow> ('z pq_state_scheme, unit) op" where
  "SetGeneratorLastRun generatorID = update_generator generatorID (\<lambda>now r. r\<lparr>GE_LASTRUN := now\<rparr>)"

definition SetGeneratorFirstPack :: "string \<Rightarrow> ('z pq_state_scheme, unit) op" where
  "SetGeneratorFirstPack generatorID = update_generator generatorID (\<lambda>now r. r\<lparr>GE_FIRSTPACK := now\<rparr>)"

definition FindGeneratorsByColonyName :: "string \<Rightarrow> int \<Rightarrow> ('z pq_state_scheme, Generator list) op" where
  "FindGeneratorsByColonyName colonyName cnt =
     select_generators (\<lambda>rows. sql_limit cnt (filter (\<lambda>r. GE_COLONY_NAME r = colonyName) rows))"

definition FindAllGenerators :: "('z pq_state_scheme, Generator list) op" where
  "FindAllGenerators = select_generators Inr"

definition delete_generators :: "(generator_row \<Rightarrow> bool) \<Rightarrow> ('z pq_state_scheme, unit) op" where
  "delete_generators P = sql_exec (\<lambda>db. Inr (db\<lparr>GENERATORS := delete_where P (GENERATORS db)\<rparr>))"

definition RemoveGeneratorByID :: "string \<Rightarrow> ('z pq_state_scheme, unit) op" where
  "RemoveGeneratorByID generatorID =
     thenM (delete_generators (\<lambda>r. GE_GENERATOR_ID r = generatorID))
           (RemoveAllGeneratorArgsByGeneratorID generatorID)"

definition RemoveAllGeneratorsByColonyName :: "string \<Rightarrow> ('z pq_state_scheme, unit) op" where
  "RemoveAllGeneratorsByColonyName colonyName =
     thenM (delete_generators (\<lambda>r. GE_COLONY_NAME r = colonyName))
           (RemoveAllGeneratorArgsByColonyName colonyName)"

section \<open>Logs\<close>

definition addHistoricalLog ::
  "string \<Rightarrow> string \<Rightarrow> string \<Rightarrow> int \<Rightarrow> string \<Rightarrow> time \<Rightarrow> ('z pq_state_scheme, unit) op" where
  "addHistoricalLog processID colonyName executorName timestamp msg t = sql_exec (\<lambda>db. Inr (db\<lparr>LOGS := LOGS db @
     [\<lparr>LG_PROCESS_ID = processID, LG_COLONY_NAME = colonyName, LG_EXECUTOR_NAME = executorName,
       LG_TS = timestamp, LG_MSG = msg, LG_ADDED = t\<rparr>]\<rparr>))"

definition AddLog :: "string \<Rightarrow> string \<Rightarrow> string \<Rightarrow> int \<Rightarrow> string \<Rightarrow> ('z pq_state_scheme, unit) op" where
  "AddLog processID colonyName executorName timestamp msg =
     bindM time_Now (addHistoricalLog processID colonyName executorName timestamp msg)"

definition parse_log :: "log_row \<Rightarrow> Log" where
  "parse_log r = \<lparr>log_ProcessID = LG_PROCESS_ID r, log_ColonyName = LG_COLONY_NAME r,
     log_ExecutorName = LG_EXECUTOR_NAME r, log_Message = LG_MSG r, log_Timestamp = LG_TS r\<rparr>"

definition select_logs :: "(log_row \<Rightarrow> bool) \<Rightarrow> int \<Rightarrow> ('z pq_state_scheme, Log list) op" where
  "select_logs P limit =
     bindM (sql_query (\<lambda>db. sql_limit limit (order_asc LG_TS (filter P (LOGS db))))) (\<lambda>rows. retM (map parse_log rows))"

definition GetLogsByProcessID :: "string \<Rightarrow> int \<Rightarrow> ('z pq_state_scheme, Log list) op" where
  "GetLogsByProcessID processID limit = select_logs (\<lambda>r. LG_PROCESS_ID r = processID) limit"

definition GetLogsByExecutor :: "string \<Rightarrow> int \<Rightarrow> ('z pq_state_scheme, Log list) op" where
  "GetLogsByExecutor executorName limit = select_logs (\<lambda>r. LG_EXECUTOR_NAME r = executorName) limit"

definition GetLogsByProcessIDSince :: "string \<Rightarrow> int \<Rightarrow> int \<Rightarrow> ('z pq_state_scheme, Log list) op" where
  "GetLogsByProcessIDSince processID limit since =
     select_logs (\<lambda>r. LG_PROCESS_ID r = processID \<and> LG_TS r > since) limit"

definition GetLogsByExecutorSince :: "string \<Rightarrow> int \<Rightarrow> int \<Rightarrow> ('z pq_state_scheme, Log list) op" where
  "GetLogsByExecutorSince executorName limit since =
     select_logs (\<lambda>r. LG_EXECUTOR_NAME r = executorName \<and> LG_TS r > since) limit"

definition RemoveLogsByColonyName :: "string \<Rightarrow> ('z pq_state_scheme, unit) op" where
  "RemoveLogsByColonyName colonyName =
     sql_exec (\<lambda>db. Inr (db\<lparr>LOGS := delete_where (\<lambda>r. LG_COLONY_NAME r = colonyName) (LOGS db)\<rparr>))"

definition CountLogs :: "string \<Rightarrow> ('z pq_state_scheme, int) op" where
  "CountLogs colonyName = sql_query (\<lambda>db. Inr (int (length (filter (\<lambda>r. LG_COLONY_NAME r = colonyName) (LOGS db)))))"

section \<open>Server id, files, snapshots\<close>

definition SetServerID :: "string \<Rightarrow> string \<Rightarrow> ('z pq_state_scheme, unit) op" where
  "SetServerID oldServerID newServerID =
     sql_exec (\<lambda>db.
       if oldServerID = '''' then map_sum id (\<lambda>rows. db\<lparr>SERVER := rows\<rparr>) (insert_row id newServerID (SERVER db))
       else (let rows = update_where (\<lambda>r. r = oldServerID) (\<lambda>_. newServerID) (SERVER db) in
         if distinct rows then Inr (db\<lparr>SERVER := rows\<rparr>)
         else Inl (SqlErr ''pq: duplicate key value violates unique constraint'')))"

text \<open>\<open>QueryRow(...).Scan\<close> returns an error when there is no row, and the first row otherwise.\<close>

definition GetServerID :: "('z pq_state_scheme, string) op" where
  "GetServerID = sql_query (\<lambda>db. case SERVER db of [] \<Rightarrow> Inl (SqlErr ''sql: no rows in result set'') | sid # _ \<Rightarrow> Inr sid)"

definition RemoveFilesByColonyName :: "string \<Rightarrow> ('z pq_state_scheme, unit) op" where
  "RemoveFilesByColonyName colonyName =
     sql_exec (\<lambda>db. Inr (db\<lparr>FILES := delete_where (\<lambda>r. FI_COLONY_NAME r = colonyName) (FILES db)\<rparr>))"

definition RemoveSnapshotsByColonyName :: "string \<Rightarrow> ('z pq_state_scheme, unit) op" where
  "RemoveSnapshotsByColonyName colonyName =
     sql_exec (\<lambda>db. Inr (db\<lparr>SNAPSHOTS := delete_where (\<lambda>r. SN_COLONY_NAME r = colonyName) (SNAPSHOTS db)\<rparr>))"

section \<open>Colonies\<close>

definition parse_colony :: "colony_row \<Rightarrow> Colony" where
  "parse_colony r = CreateColony (CO_COLONY_ID r) (CO_NAME r)"

definition select_colonies :: "(colony_row \<Rightarrow> bool) \<Rightarrow> ('z pq_state_scheme, Colony list) op" where
  "select_colonies P = bindM (sql_query (\<lambda>db. Inr (filter P (COLONIES db)))) (\<lambda>rows. retM (map parse_colony rows))"

definition GetColonies :: "('z pq_state_scheme, Colony list) op" where
  "GetColonies = select_colonies (\<lambda>_. True)"

definition GetColonyByID :: "string \<Rightarrow> ('z pq_state_scheme, Colony option) op" where
  "GetColonyByID cid =
     bindM (select_colonies (\<lambda>r. CO_COLONY_ID r = cid)) (\<lambda>colonies.
     retM (case colonies of [] \<Rightarrow> None | c # _ \<Rightarrow> Some c))"

definition GetColonyByName :: "string \<Rightarrow> ('z pq_state_scheme, Colony option) op" where
  "GetColonyByName name =
     bindM (select_colonies (\<lambda>r. CO_NAME r = name)) (\<lambda>colonies.
     retM (case colonies of [] \<Rightarrow> None | c # _ \<Rightarrow> Some c))"

definition AddColony :: "Colony option \<Rightarrow> ('z pq_state_scheme, unit) op" where
  "AddColony colony =
     (case colony of
        None \<Rightarrow> throwM (Err ''Colony is nil'')
      | Some c \<Rightarrow>
          bindM (GetColonyByName (colony_Name c)) (\<lambda>existingColony.
          if existingColony \<noteq> None then throwM (Err (''Colony with name <'' @ colony_Name c @ ''> already exists''))
          else sql_exec (\<lambda>db. map_sum id (\<lambda>rows. db\<lparr>COLONIES := rows\<rparr>)
            (insert_row CO_NAME \<lparr>CO_NAME = colony_Name c, CO_COLONY_ID = colony_ID c\<rparr> (COLONIES db)))))"

definition ChangeColonyID :: "string \<Rightarrow> string \<Rightarrow> string \<Rightarrow> ('z pq_state_scheme, unit) op" where
  "ChangeColonyID colonyName oldColonyID newColonyID = sql_exec (\<lambda>db. Inr (db\<lparr>COLONIES :=
     update_where (\<lambda>r. CO_NAME r = colonyName \<and> CO_COLONY_ID r = oldColonyID)
       (\<lambda>r. r\<lparr>CO_COLONY_ID := newColonyID\<rparr>) (COLONIES db)\<rparr>))"

definition RenameColony :: "string \<Rightarrow> string \<Rightarrow> ('z pq_state_scheme, unit) op" where
  "RenameColony colonyName newName = sql_exec (\<lambda>db.
     let rows = update_where (\<lambda>r. CO_NAME r = colonyName) (\<lambda>r. r\<lparr>CO_NAME := newName\<rparr>) (COLONIES db) in
     if distinct (map CO_NAME rows) then Inr (db\<lparr>COLONIES := rows\<rparr>)
     else Inl (SqlErr ''pq: duplicate key value violates unique constraint''))"

definition RemoveColonyByName :: "string \<Rightarrow> ('z pq_state_scheme, unit) op" where
  "RemoveColonyByName colonyName =
     bindM (GetColonyByName colonyName) (\<lambda>found.
     (case found of
        None \<Rightarrow> throwM (Err ''Colony does not exists'')
      | Some colony \<Rightarrow>
          thenM (RemoveUsersByColonyName (colony_Name colony))
          (thenM (RemoveExecutorsByColonyName (colony_Name colony))
          (thenM (sql_exec (\<lambda>db. Inr (db\<lparr>COLONIES := delete_where (\<lambda>r. CO_NAME r = colonyName) (COLONIES db)\<rparr>)))
          (thenM (RemoveAllProcessesByColonyName (colony_Name colony))
          (thenM (RemoveAllProcessGraphsByColonyName (colony_Name colony))
          (thenM (RemoveAllGeneratorsByColonyName (colony_Name colony))
          (thenM (RemoveAllCronsByColonyName (colony_Name colony))
          (thenM (RemoveFunctionsByColonyName (colony_Name colony))
          (thenM (RemoveLogsByColonyName (colony_Name colony))
          (thenM (RemoveFilesByColonyName (colony_Name colony))
          (RemoveSnapshotsByColonyName (colony_Name colony)))))))))))))"

definition CountColonies :: "('z pq_state_scheme, int) op" where
  "CountColonies = bindM GetColonies (\<lambda>cs. retM (int (length cs)))"

section \<open>Retention\<close>

definition calcTimestamp :: "int \<Rightarrow> ('z pq_state_scheme, time \<times> time) op" where
  "calcTimestamp retentionPeriod =
     bindM time_Now (\<lambda>now. retM (now, now + wrap64 (- seconds retentionPeriod)))"

definition ApplyRetentionPolicy :: "int \<Rightarrow> ('z pq_state_scheme, unit) op" where
  "ApplyRetentionPolicy retentionPeriod =
     bindM (calcTimestamp retentionPeriod) (\<lambda>(now, timestamp).
     thenM (delete_attributes (\<lambda>r. AT_ADDED r < timestamp \<and> AT_STATE r = SUCCESS))
     (thenM (sql_exec (\<lambda>db. Inr (db\<lparr>LOGS := delete_where (\<lambda>r. LG_ADDED r < timestamp) (LOGS db)\<rparr>)))
     (thenM (delete_processes (\<lambda>r. PR_SUBMISSION_TIME r < timestamp \<and> PR_STATE r = SUCCESS))
     (delete_graphs (\<lambda>r. PG_SUBMISSION_TIME r < timestamp \<and> PG_STATE r = SUCCESS)))))"

end
