(* ===== verification/Controller.thy ===== *)
theory Controller
  imports Scheduler Pq_Colonies Process_Graph "HOL-Library.AList"
begin

text \<open>
  \<open>pkg/server/colonies_controller.go\<close> and \<open>colonies_controller_worker.go\<close>: the handlers that the queue
  workers run, one definition per handler, over the database state extended with what the controller
  keeps itself. A handler is run as one step; what it sends on \<open>errorChan\<close> is its failure, what it
  sends on a reply channel its result. \<open>eventHandler.signal\<close> appends to \<open>ctl_signals\<close>. etcd is not part
  of the source: its replies are parameters of the state. Logging is left out.
\<close>

section \<open>State\<close>

record ctl_state = pq_state +
  ctl_signals :: "Process list"
  ctl_etcd_client :: bool
  ctl_etcd_get :: "nat \<Rightarrow> string \<Rightarrow> failure + nat"
  ctl_etcd_write :: "nat \<Rightarrow> string \<Rightarrow> failure + unit"
  ctl_pauseChannels :: "(string \<times> nat list) list"
  ctl_nextChannel :: nat
  ctl_channelFull :: "nat \<Rightarrow> bool"
  ctl_range :: "nat \<Rightarrow> string list \<Rightarrow> string list"

type_synonym 'a ctl = "(ctl_state, 'a) op"

text \<open>A signal to a nil process panics where the event handler reads its fields.\<close>

definition signal :: "Process \<Rightarrow> unit ctl" where
  "signal process = modifyM (\<lambda>s. s\<lparr>ctl_signals := ctl_signals s @ [process]\<rparr>)"

text \<open>The order in which a \<open>range\<close> over a map meets its keys.\<close>

definition range_keys :: "string list \<Rightarrow> string list ctl" where
  "range_keys ks s = (Inr (ctl_range s (env_ticks s) ks), s\<lparr>env_ticks := Suc (env_ticks s)\<rparr>)"

fun err_text :: "failure \<Rightarrow> string" where
  "err_text (Err s) = s"
| "err_text (SqlErr s) = s"
| "err_text Panic = ''''"
| "err_text NoFuel = ''''"

section \<open>Colonies and executors\<close>

definition ctl_getColonies :: "Colony list ctl" where
  "ctl_getColonies = GetColonies"

definition ctl_getColony :: "string \<Rightarrow> Colony option ctl" where
  "ctl_getColony colonyName = GetColonyByName colonyName"

definition ctl_addColony :: "Colony option \<Rightarrow> Colony option ctl" where
  "ctl_addColony colony =
     thenM (AddColony colony)
     (case colony of
        None \<Rightarrow> throwM (Err ''Invalid colony, colony is nil'')
      | Some c \<Rightarrow> GetColonyByID (colony_ID c))"

definition ctl_removeColony :: "string \<Rightarrow> unit ctl" where
  "ctl_removeColony colonyName = RemoveColonyByName colonyName"

definition ctl_addExecutor :: "Executor option \<Rightarrow> bool \<Rightarrow> Executor option ctl" where
  "ctl_addExecutor executor allowExecutorReregister =
     (case executor of
        None \<Rightarrow> throwM (Err ''Invalid executor, executor is nil'')
      | Some e \<Rightarrow>
          bindM (GetExecutorByName (exec_ColonyName e) (exec_Name e)) (\<lambda>executorFromDB.
          thenM (case executorFromDB of
                   None \<Rightarrow> retM ()
                 | Some f \<Rightarrow>
                     if allowExecutorReregister then RemoveExecutorByName (exec_ColonyName e) (exec_Name f)
                     else throwM (Err (''Executor with name <'' @ exec_Name f @ ''> in Colony <'' @
                       exec_ColonyName f @ ''> already exists'')))
          (thenM (AddExecutor (Some e)) (GetExecutorByID (exec_ID e)))))"

definition ctl_getExecutor :: "string \<Rightarrow> Executor option ctl" where
  "ctl_getExecutor executorID = GetExecutorByID executorID"

definition ctl_getExecutorByColonyName :: "string \<Rightarrow> Executor list ctl" where
  "ctl_getExecutorByColonyName colonyName = GetExecutorsByColonyName colonyName"

section \<open>Processes\<close>

definition addProcessToDB :: "Process option \<Rightarrow> Process option ctl" where
  "addProcessToDB process =
     (case process of
        None \<Rightarrow> throwM (Err ''Invalid process, process is nil'')
      | Some p \<Rightarrow> thenM (AddProcess p) (GetProcessByID (proc_ID p)))"

definition ctl_addProcess :: "Process option \<Rightarrow> Process ctl" where
  "ctl_addProcess process =
     bindM (addProcessToDB process) (\<lambda>added.
     bindM (derefM added) (\<lambda>addedProcess.
     thenM (whenM (\<not> proc_WaitForParents addedProcess) (signal addedProcess))
           (retM addedProcess)))"

text \<open>Between a parent and its children, or beside its children above one existing child.\<close>

definition insert_between :: "string \<Rightarrow> string \<Rightarrow> string list \<Rightarrow> unit ctl" where
  "insert_between pid parentProcessID parentsChildren =
     thenM (ignoreM (SetChildren pid parentsChildren))
     (thenM (ignoreM (SetChildren parentProcessID [pid]))
     (forM parentsChildren (\<lambda>parentsChildID.
        bindM (GetProcessByID parentsChildID) (\<lambda>found.
        bindM (derefM found) (\<lambda>parentChild.
        ignoreM (SetParents parentsChildID (filter (\<lambda>p. p \<noteq> parentProcessID) (proc_Parents parentChild) @ [pid])))))))"

definition insert_beside :: "string \<Rightarrow> string \<Rightarrow> string list \<Rightarrow> string \<Rightarrow> unit ctl" where
  "insert_beside pid parentProcessID parentsChildren childProcessID =
     thenM (ignoreM (SetChildren parentProcessID (parentsChildren @ [pid])))
     (whenM (childProcessID \<noteq> '''')
        (thenM (ignoreM (SetChildren pid [childProcessID]))
        (bindM (GetProcessByID childProcessID) (\<lambda>found.
         bindM (derefM found) (\<lambda>childProcess.
         ignoreM (SetParents childProcessID (proc_Parents childProcess @ [pid])))))))"

definition ctl_addChild :: "string \<Rightarrow> string \<Rightarrow> string \<Rightarrow> Process \<Rightarrow> string \<Rightarrow> bool \<Rightarrow> Process option ctl" where
  "ctl_addChild processGraphID parentProcessID childProcessID process executorID do_insert =
     bindM (GetProcessByID parentProcessID) (\<lambda>found.
     bindM (derefM found) (\<lambda>parentProcess.
     if proc_State parentProcess \<noteq> RUNNING then
       throwM (Err (''Process with Id '' @ parentProcessID @ '' is not running''))
     else if proc_AssignedExecutorID parentProcess \<noteq> executorID then
       throwM (Err (''Process with Id '' @ parentProcessID @ '' is not assigned to executor with Id '' @ executorID))
     else if proc_ProcessGraphID parentProcess = '''' then
       throwM (Err (''Process with Id '' @ parentProcessID @ '' does not belong to a processgraph''))
     else
       (let process1 = process\<lparr>proc_WaitForParents := True, proc_Parents := [proc_ID parentProcess],
                               proc_ProcessGraphID := processGraphID\<rparr>;
            pid = proc_ID process1 in
        bindM (addProcessToDB (Some process1)) (\<lambda>added.
        thenM (if do_insert then insert_between pid parentProcessID (proc_Children parentProcess)
               else insert_beside pid parentProcessID (proc_Children parentProcess) childProcessID)
        (bindM (derefM added) (\<lambda>addedProcess.
         thenM (whenM (\<not> proc_WaitForParents addedProcess) (signal addedProcess))
               (GetProcessByID (proc_ID addedProcess))))))))"

definition ctl_getProcess :: "string \<Rightarrow> Process option ctl" where
  "ctl_getProcess processID = GetProcessByID processID"

definition ctl_findProcessHistory :: "string \<Rightarrow> string \<Rightarrow> int \<Rightarrow> int \<Rightarrow> Process list ctl" where
  "ctl_findProcessHistory colonyName executorID secs state =
     (if executorID = '''' then FindProcessesByColonyName colonyName secs state
      else FindProcessesByExecutorID colonyName executorID secs state)"

definition ctl_removeProcess :: "string \<Rightarrow> unit ctl" where
  "ctl_removeProcess processID = RemoveProcessByID processID"

definition ctl_removeAllProcesses :: "string \<Rightarrow> int \<Rightarrow> unit ctl" where
  "ctl_removeAllProcesses colonyName state =
     (if state = WAITING then RemoveAllWaitingProcessesByColonyName colonyName
      else if state = RUNNING then throwM (Err ''Not possible to remove running processes'')
      else if state = SUCCESS then RemoveAllSuccessfulProcessesByColonyName colonyName
      else if state = FAILED then RemoveAllFailedProcessesByColonyName colonyName
      else if state = NOTSET then RemoveAllProcessesByColonyName colonyName
      else throwM (Err ''Invalid state when deleting all processes''))"

definition ctl_setOutput :: "string \<Rightarrow> iface list \<Rightarrow> unit ctl" where
  "ctl_setOutput processID output = whenM (output \<noteq> []) (SetOutput processID output)"

section \<open>Process graphs\<close>

definition MAX_COUNT :: int where "MAX_COUNT = 100"

definition updateProcessGraph :: "ProcessGraph \<Rightarrow> ProcessGraph ctl" where
  "updateProcessGraph graph = UpdateProcessIDs graph"

definition ctl_getProcessGraphByID :: "string \<Rightarrow> ProcessGraph option ctl" where
  "ctl_getProcessGraphByID processGraphID =
     bindM (GetProcessGraphByID processGraphID) (\<lambda>found.
     (case found of
        None \<Rightarrow> retM None
      | Some graph \<Rightarrow> bindM (updateProcessGraph graph) (\<lambda>g. retM (Some g))))"

definition find_graphs :: "(string \<Rightarrow> int \<Rightarrow> ProcessGraph list ctl) \<Rightarrow> string \<Rightarrow> int \<Rightarrow> ProcessGraph list ctl" where
  "find_graphs find_in_db colonyName cnt =
     (if cnt > MAX_COUNT then throwM (Err (''Count is larger than MaxCount limit <'' @ Itoa MAX_COUNT @ ''>''))
      else bindM (find_in_db colonyName cnt) (mapM updateProcessGraph))"

definition ctl_findWaitingProcessGraphs :: "string \<Rightarrow> int \<Rightarrow> ProcessGraph list ctl" where
  "ctl_findWaitingProcessGraphs = find_graphs FindWaitingProcessGraphs"

definition ctl_findRunningProcessGraphs :: "string \<Rightarrow> int \<Rightarrow> ProcessGraph list ctl" where
  "ctl_findRunningProcessGraphs = find_graphs FindRunningProcessGraphs"

definition ctl_findSuccessfulProcessGraphs :: "string \<Rightarrow> int \<Rightarrow> ProcessGraph list ctl" where
  "ctl_findSuccessfulProcessGraphs = find_graphs FindSuccessfulProcessGraphs"

definition ctl_findFailedProcessGraphs :: "string \<Rightarrow> int \<Rightarrow> ProcessGraph list ctl" where
  "ctl_findFailedProcessGraphs = find_graphs FindFailedProcessGraphs"

definition ctl_removeProcessGraph :: "string \<Rightarrow> unit ctl" where
  "ctl_removeProcessGraph processID = RemoveProcessGraphByID processID"

definition ctl_removeAllProcessGraphs :: "string \<Rightarrow> int \<Rightarrow> unit ctl" where
  "ctl_removeAllProcessGraphs colonyName state =
     (if state = WAITING then RemoveAllWaitingProcessGraphsByColonyName colonyName
      else if state = RUNNING then throwM (Err ''not possible to remove running processgraphs'')
      else if state = SUCCESS then RemoveAllSuccessfulProcessGraphsByColonyName colonyName
      else if state = FAILED then RemoveAllFailedProcessGraphsByColonyName colonyName
      else if state = NOTSET then RemoveAllProcessGraphsByColonyName colonyName
      else throwM (Err ''invalid state when deleting all processgraphs''))"

section \<open>Submitting workflows\<close>

definition resolveInitiator :: "string \<Rightarrow> string \<Rightarrow> ('z pq_state_scheme, string) op" where
  "resolveInitiator colonyName recoveredID =
     bindM (GetExecutorByID recoveredID) (\<lambda>executor.
     (case executor of
        Some e \<Rightarrow> retM (exec_Name e)
      | None \<Rightarrow>
          bindM (GetUserByID colonyName recoveredID) (\<lambda>user.
          (case user of
             Some u \<Rightarrow> retM (user_Name u)
           | None \<Rightarrow> throwM (Err ''Could not derive InitiatorName'')))))"

text \<open>\<open>core.CreateProcess\<close> with its fresh id.\<close>

definition NewProcess :: "FunctionSpec \<Rightarrow> ('z pq_state_scheme, Process) op" where
  "NewProcess funcSpec =
     bindM uuid_New (\<lambda>uuid. bindM (GenerateHash uuid) (\<lambda>pid. retM (CreateProcess pid funcSpec)))"

text \<open>
  One round of the first loop of \<open>createProcessGraph\<close>. \<open>processMap\<close> is the list of its entries, in the
  order of insertion.
\<close>

definition root_args :: "iface list \<Rightarrow> (string \<times> iface) list \<Rightarrow> iface list \<Rightarrow> Process \<Rightarrow> Process" where
  "root_args args kwargs rootInput p =
     (let p1 = (if args \<noteq> [] then p\<lparr>proc_FunctionSpec := (proc_FunctionSpec p)\<lparr>spec_Args := Some args, spec_KwArgs := Some kwargs\<rparr>\<rparr>
                else p)
      in if rootInput \<noteq> [] then p1\<lparr>proc_Input := rootInput\<rparr> else p1)"

definition node_process ::
  "string \<Rightarrow> iface list \<Rightarrow> (string \<times> iface) list \<Rightarrow> iface list \<Rightarrow> string \<Rightarrow> string \<Rightarrow> string \<Rightarrow> FunctionSpec \<Rightarrow> Process \<Rightarrow> Process" where
  "node_process colonyName args kwargs rootInput graphID recoveredID initiatorName funcSpec process =
     (let isRoot = elems (cond_Dependencies (spec_Conditions funcSpec)) = [];
          p1 = (if isRoot then root_args args kwargs rootInput (process\<lparr>proc_WaitForParents := False\<rparr>)
                else process\<lparr>proc_WaitForParents := True\<rparr>);
          spec = proc_FunctionSpec p1
      in p1\<lparr>proc_ProcessGraphID := graphID,
            proc_FunctionSpec := spec\<lparr>spec_Conditions := (spec_Conditions spec)\<lparr>cond_ColonyName := colonyName\<rparr>\<rparr>,
            proc_InitiatorID := recoveredID, proc_InitiatorName := initiatorName\<rparr>)"

definition add_node ::
  "string \<Rightarrow> iface list \<Rightarrow> (string \<times> iface) list \<Rightarrow> iface list \<Rightarrow> string \<Rightarrow> string \<Rightarrow>
   ProcessGraph \<times> (string \<times> Process) list \<Rightarrow> FunctionSpec \<Rightarrow>
   ('z pq_state_scheme, ProcessGraph \<times> (string \<times> Process) list) op" where
  "add_node colonyName args kwargs rootInput recoveredID initiatorName st funcSpec0 =
     (case st of (graph, processMap) \<Rightarrow>
     if spec_NodeName funcSpec0 = '''' then throwM (Err ''Nodename is missing, check function spec for errors'')
     else
       (let funcSpec = (if spec_MaxExecTime funcSpec0 = 0 then funcSpec0\<lparr>spec_MaxExecTime := -1\<rparr> else funcSpec0) in
        bindM (NewProcess funcSpec) (\<lambda>process.
        (let node = node_process colonyName args kwargs rootInput (graph_ID graph) recoveredID initiatorName funcSpec process;
             graph1 = (if elems (cond_Dependencies (spec_Conditions funcSpec)) = [] then AddRoot (proc_ID node) graph else graph)
         in if spec_NodeName funcSpec \<in> fst ` set processMap
            then throwM (Err (''Duplicate nodename: '' @ spec_NodeName funcSpec))
            else retM (graph1, processMap @ [(spec_NodeName funcSpec, node)])))))"

text \<open>The second loop: links in both directions, on the shared processes of the map.\<close>

definition map_process :: "string \<Rightarrow> (Process \<Rightarrow> Process) \<Rightarrow> (string \<times> Process) list \<Rightarrow> (string \<times> Process) list" where
  "map_process name f m = map (\<lambda>(k, p). (k, if k = name then f p else p)) m"

definition dep_error :: failure where
  "dep_error = Err (''Failed to submit workflow, invalid dependencies, are you depending on a nodename '' @
     ''that does not exits?'')"

definition link_dependency :: "string \<Rightarrow> (string \<times> Process) list \<Rightarrow> string \<Rightarrow> failure + (string \<times> Process) list" where
  "link_dependency name m dependsOn =
     (case (map_of m name, map_of m dependsOn) of
        (Some process, Some parentProcess) \<Rightarrow>
          Inr (map_process dependsOn (AddChild (proc_ID process))
                (map_process name (AddParent (proc_ID parentProcess)) m))
      | _ \<Rightarrow> Inl dep_error)"

definition dependencies_of :: "(string \<times> Process) list \<Rightarrow> string \<Rightarrow> string list" where
  "dependencies_of m name =
     (case map_of m name of
        None \<Rightarrow> []
      | Some process \<Rightarrow> elems (cond_Dependencies (spec_Conditions (proc_FunctionSpec process))))"

definition link_node :: "(string \<times> Process) list \<Rightarrow> string \<Rightarrow> ('s, (string \<times> Process) list) op" where
  "link_node m name = foldM (\<lambda>m' dependsOn. liftE (link_dependency name m' dependsOn)) m (dependencies_of m name)"

definition start_process :: "Process \<Rightarrow> unit ctl" where
  "start_process process =
     bindM (tryM (addProcessToDB (Some process))) (\<lambda>res.
     (case res of
        Inl _ \<Rightarrow> throwM (Err ''Failed to submit workflow, failed to add process'')
      | Inr added \<Rightarrow>
          bindM (derefM added) (\<lambda>addedProcess.
          whenM (\<not> proc_WaitForParents addedProcess) (signal addedProcess))))"

definition createProcessGraph ::
  "WorkflowSpec \<Rightarrow> iface list \<Rightarrow> (string \<times> iface) list \<Rightarrow> iface list \<Rightarrow> string \<Rightarrow> ProcessGraph ctl" where
  "createProcessGraph workflowSpec args kwargs rootInput recoveredID =
     bindM (CreateProcessGraph (wf_ColonyName workflowSpec)) (\<lambda>graph0.
     bindM (resolveInitiator (wf_ColonyName workflowSpec) recoveredID) (\<lambda>initiatorName.
     bindM (foldM (add_node (wf_ColonyName workflowSpec) args kwargs rootInput recoveredID initiatorName)
              (graph0, []) (wf_FunctionSpecs workflowSpec)) (\<lambda>(graph1, processMap).
     (let graph2 = graph1\<lparr>graph_ProcessIDs := map (\<lambda>(_, p). proc_ID p) processMap,
                          graph_InitiatorID := recoveredID, graph_InitiatorName := initiatorName\<rparr> in
      bindM (tryM (AddProcessGraph graph2)) (\<lambda>res.
      (case res of
         Inl _ \<Rightarrow> throwM (Err ''Failed to create processgraph, failed to add processgraph'')
       | Inr _ \<Rightarrow>
           bindM (range_keys (map fst processMap)) (\<lambda>order1.
           bindM (foldM link_node processMap order1) (\<lambda>linked.
           bindM (range_keys (map fst linked)) (\<lambda>order2.
           thenM (forM order2 (\<lambda>name. bindM (derefM (map_of linked name)) start_process))
                 (retM graph2))))))))))"

definition ctl_submitWorkflowSpec :: "WorkflowSpec \<Rightarrow> string \<Rightarrow> ProcessGraph ctl" where
  "ctl_submitWorkflowSpec workflowSpec recoveredID = createProcessGraph workflowSpec [] [] [] recoveredID"

section \<open>Closing processes\<close>

definition handleDefunctProcessgraph :: "string \<Rightarrow> string \<Rightarrow> failure \<Rightarrow> unit ctl" where
  "handleDefunctProcessgraph processGraphID processID err =
     thenM (MarkFailed processID [err_text err]) (SetProcessGraphState processGraphID FAILED)"

text \<open>
  The part that \<open>closeSuccessful\<close> and \<open>closeFailed\<close> share: resolve the graph of the process; if that
  fails, mark process and graph as failed and return the error.
\<close>

definition resolve_graph_of :: "Process \<Rightarrow> unit ctl" where
  "resolve_graph_of process =
     bindM (GetProcessGraphByID (proc_ProcessGraphID process)) (\<lambda>found.
     bindM (derefM found) (\<lambda>processGraph.
     bindM (tryM (Resolve processGraph)) (\<lambda>res.
     (case res of
        Inr _ \<Rightarrow> retM ()
      | Inl err \<Rightarrow> thenM (handleDefunctProcessgraph (graph_ID processGraph) (proc_ID process) err) (throwM err)))))"

definition notifyChildren :: "Process \<Rightarrow> unit ctl" where
  "notifyChildren process =
     bindM (foldM (\<lambda>counter parentProcessID.
       bindM (GetProcessByID parentProcessID) (\<lambda>found.
       bindM (derefM found) (\<lambda>parentProcess.
       retM (if proc_State parentProcess = SUCCESS then counter + 1 else counter)))) (0 :: nat) (proc_Parents process))
     (\<lambda>counter.
       whenM (counter = length (proc_Parents process))
         (forM (proc_Children process) (\<lambda>childProcessID.
            bindM (GetProcessByID childProcessID) (\<lambda>found.
            bindM (derefM found) signal))))"

text \<open>\<open>Seconds()\<close> of a duration in nanoseconds; the statistics of functions are \<open>float64\<close> values.\<close>

definition Seconds :: "int \<Rightarrow> rat" where
  "Seconds ns = of_int ns / 10 ^ 9"

definition least_seen :: "rat \<Rightarrow> rat \<Rightarrow> rat" where
  "least_seen old new = (if old > 0 then min old new else new)"

definition greatest_seen :: "rat \<Rightarrow> rat \<Rightarrow> rat" where
  "greatest_seen old new = (if old > 0 then max old new else new)"

definition halfway_seen :: "rat \<Rightarrow> rat \<Rightarrow> rat" where
  "halfway_seen old new = (if old > 0 then (old + new) / 2 else new)"

definition update_function_stats :: "Process \<Rightarrow> Function \<Rightarrow> rat \<Rightarrow> rat \<Rightarrow> unit ctl" where
  "update_function_stats process func waitingTime processingTime =
     ignoreM (UpdateFunctionStats (cond_ColonyName (spec_Conditions (proc_FunctionSpec process)))
       (fn_ExecutorName func) (fn_FuncName func) (wrap64 (fn_Counter func + 1))
       (least_seen (fn_MinWaitTime func) waitingTime) (greatest_seen (fn_MaxWaitTime func) waitingTime)
       (least_seen (fn_MinExecTime func) processingTime) (greatest_seen (fn_MaxExecTime func) processingTime)
       (halfway_seen (fn_AvgWaitTime func) waitingTime) (halfway_seen (fn_AvgExecTime func) processingTime))"

text \<open>The end of \<open>closeSuccessful\<close>: the statistics of the function that ran, and the signal.\<close>

definition finish_successful :: "string \<Rightarrow> string \<Rightarrow> Process \<Rightarrow> rat \<Rightarrow> rat \<Rightarrow> unit ctl" where
  "finish_successful processID executorID process waitingTime processingTime =
     bindM (GetExecutorByID executorID) (\<lambda>foundExecutor.
     bindM (derefM foundExecutor) (\<lambda>executor.
     bindM (GetFunctionsByExecutorAndName (cond_ColonyName (spec_Conditions (proc_FunctionSpec process)))
       (exec_Name executor) (spec_FuncName (proc_FunctionSpec process))) (\<lambda>func.
     (case func of
        None \<Rightarrow> signal process
      | Some f \<Rightarrow>
          bindM (GetProcessByID processID) (\<lambda>found.
          bindM (derefM found) (\<lambda>process1.
          thenM (update_function_stats process1 f waitingTime processingTime)
                (signal process1)))))))"

definition ctl_closeSuccessful :: "string \<Rightarrow> string \<Rightarrow> iface list \<Rightarrow> unit ctl" where
  "ctl_closeSuccessful processID executorID output =
     bindM (GetProcessByID processID) (\<lambda>found.
     thenM (whenM (output \<noteq> []) (ignoreM (SetOutput processID output)))
     (bindM (MarkSuccessful processID) (\<lambda>(waiting, processing).
      bindM (derefM found) (\<lambda>process.
      thenM (whenM (proc_ProcessGraphID process \<noteq> '''')
               (thenM (resolve_graph_of process) (notifyChildren process)))
            (finish_successful processID executorID (process\<lparr>proc_State := SUCCESS\<rparr>) (Seconds waiting) (Seconds processing))))))"

definition ctl_closeFailed :: "string \<Rightarrow> string list \<Rightarrow> unit ctl" where
  "ctl_closeFailed processID errs =
     thenM (MarkFailed processID errs)
     (bindM (GetProcessByID processID) (\<lambda>found.
      bindM (derefM found) (\<lambda>process.
      thenM (whenM (proc_ProcessGraphID process \<noteq> '''') (resolve_graph_of process))
            (signal (process\<lparr>proc_State := FAILED\<rparr>)))))"

section \<open>Pausing assignments\<close>

text \<open>\<open>pkg/cluster/etcd.go\<close>: what the methods make of the replies of etcd.\<close>

definition pause_key :: "string \<Rightarrow> string" where
  "pause_key colonyName = ''/colonies/colony/'' @ colonyName @ ''/assignments-paused''"

definition etcd_ask :: "(ctl_state \<Rightarrow> nat \<Rightarrow> string \<Rightarrow> failure + 'a) \<Rightarrow> string \<Rightarrow> 'a ctl" where
  "etcd_ask request colonyName s =
     (if \<not> ctl_etcd_client s then (Inl (Err ''etcd client is not initialized''), s)
      else (request s (env_ticks s) (pause_key colonyName), s\<lparr>env_ticks := Suc (env_ticks s)\<rparr>))"

definition AreColonyAssignmentsPaused :: "string \<Rightarrow> bool ctl" where
  "AreColonyAssignmentsPaused colonyName = bindM (etcd_ask ctl_etcd_get colonyName) (\<lambda>kvs. retM (kvs > 0))"

definition ctl_pauseColonyAssignments :: "string \<Rightarrow> unit ctl" where
  "ctl_pauseColonyAssignments colonyName = etcd_ask ctl_etcd_write colonyName"

text \<open>\<open>pauseChannels\<close> maps a colony to the channels of its waiting executors; a channel holds one value.\<close>

definition channels_of :: "string \<Rightarrow> (string \<times> nat list) list \<Rightarrow> nat list" where
  "channels_of colonyName m = (case map_of m colonyName of None \<Rightarrow> [] | Some cs \<Rightarrow> cs)"

definition createResumeChannel :: "string \<Rightarrow> nat ctl" where
  "createResumeChannel colonyName s =
     (let ch = ctl_nextChannel s in
      (Inr ch, s\<lparr>ctl_nextChannel := Suc ch, ctl_channelFull := (ctl_channelFull s)(ch := False),
                 ctl_pauseChannels := AList.update colonyName
                   (channels_of colonyName (ctl_pauseChannels s) @ [ch]) (ctl_pauseChannels s)\<rparr>))"

definition wakeupPausedAssignments :: "string \<Rightarrow> unit ctl" where
  "wakeupPausedAssignments colonyName =
     modifyM (\<lambda>s. s\<lparr>ctl_channelFull := (\<lambda>ch. ctl_channelFull s ch \<or> ch \<in> set (channels_of colonyName (ctl_pauseChannels s))),
                    ctl_pauseChannels := AList.delete colonyName (ctl_pauseChannels s)\<rparr>)"

definition ctl_resumeColonyAssignments :: "string \<Rightarrow> unit ctl" where
  "ctl_resumeColonyAssignments colonyName =
     thenM (etcd_ask ctl_etcd_write colonyName) (wakeupPausedAssignments colonyName)"

section \<open>Assigning processes\<close>

record AssignResult =
  ar_Process :: "Process option"
  ar_IsPaused :: bool
  ar_ResumeChannel :: "nat option"

definition no_process :: AssignResult where
  "no_process = \<lparr>ar_Process = None, ar_IsPaused = False, ar_ResumeChannel = None\<rparr>"

text \<open>
  The retry loop around \<open>Resolve\<close>: \<open>fuel\<close> counts the rounds that are left, \<open>err\<close> is the error of the
  last one. The sleep between two rounds lets other servers change the tables; \<open>others\<close> is what they
  do then.
\<close>

fun resolve_retries :: "nat \<Rightarrow> (ctl_state \<Rightarrow> ctl_state) \<Rightarrow> ProcessGraph \<Rightarrow> string \<Rightarrow> failure \<Rightarrow> unit ctl" where
  "resolve_retries 0 others processGraph processID err =
     thenM (handleDefunctProcessgraph (graph_ID processGraph) processID err) (throwM err)"
| "resolve_retries (Suc n) others processGraph processID err =
     bindM (tryM (Resolve processGraph)) (\<lambda>res.
     (case res of
        Inr _ \<Rightarrow> retM ()
      | Inl err' \<Rightarrow> thenM (modifyM others) (resolve_retries n others processGraph processID err')))"

definition collect_input :: "Process \<Rightarrow> Process ctl" where
  "collect_input process =
     bindM (foldM (\<lambda>output parentID.
       bindM (GetProcessByID parentID) (\<lambda>found.
       bindM (derefM found) (\<lambda>parentProcess.
       retM (output @ proc_Output parentProcess)))) [] (proc_Parents process)) (\<lambda>output.
     if proc_Parents process \<noteq> [] then
       thenM (ignoreM (SetInput (proc_ID process) output)) (retM (process\<lparr>proc_Input := output\<rparr>))
     else retM process)"

text \<open>What follows an assignment: resolve the graph of the process and take the output of its parents as input.\<close>

definition resolve_assigned :: "(ctl_state \<Rightarrow> ctl_state) \<Rightarrow> Process \<Rightarrow> Process ctl" where
  "resolve_assigned others selectedProcess =
     (if proc_ProcessGraphID selectedProcess \<noteq> '''' then
        bindM (GetProcessGraphByID (proc_ProcessGraphID selectedProcess)) (\<lambda>foundGraph.
        bindM (derefM foundGraph) (\<lambda>processGraph.
        thenM (resolve_retries 10 others processGraph (proc_ID selectedProcess) (Err ''''))
              (collect_input selectedProcess)))
      else retM selectedProcess)"

definition select_and_assign ::
  "(Process list \<Rightarrow> Process list) \<Rightarrow> (ctl_state \<Rightarrow> ctl_state) \<Rightarrow> string \<Rightarrow> string \<Rightarrow> Executor \<Rightarrow> int \<Rightarrow> int \<Rightarrow> AssignResult ctl" where
  "select_and_assign sort_priority others executorID colonyName executor cpu mem =
     bindM (tryM (Select FindCandidates FindCandidatesByName sort_priority colonyName executor cpu mem)) (\<lambda>sel.
     (case sel of
        Inl err \<Rightarrow>
          if err_text err = ''No processes can be selected for executor with Id <'' @ executorID @ ''>''
          then retM no_process else throwM err
      | Inr selected \<Rightarrow>
          bindM (AssignProcess executorID selected) (\<lambda>selectedProcess.
          bindM (resolve_assigned others selectedProcess) (\<lambda>process.
          retM \<lparr>ar_Process = Some process, ar_IsPaused = False, ar_ResumeChannel = None\<rparr>))))"

definition ctl_assign ::
  "(Process list \<Rightarrow> Process list) \<Rightarrow> (ctl_state \<Rightarrow> ctl_state) \<Rightarrow> string \<Rightarrow> string \<Rightarrow> int \<Rightarrow> int \<Rightarrow> AssignResult ctl" where
  "ctl_assign sort_priority others executorID colonyName cpu mem =
     bindM (GetExecutorByID executorID) (\<lambda>found.
     (case found of
        None \<Rightarrow> throwM (Err (''Executor with Id <'' @ executorID @ ''> could not be found''))
      | Some executor \<Rightarrow>
          thenM (MarkAlive executor)
          (bindM (AreColonyAssignmentsPaused colonyName) (\<lambda>paused.
           if paused then
             bindM (createResumeChannel colonyName) (\<lambda>ch.
             retM \<lparr>ar_Process = None, ar_IsPaused = True, ar_ResumeChannel = Some ch\<rparr>)
           else select_and_assign sort_priority others executorID colonyName executor cpu mem))))"

text \<open>The error goes to the caller; the signal follows in any case.\<close>

definition ctl_unassignExecutor :: "string \<Rightarrow> unit ctl" where
  "ctl_unassignExecutor processID =
     bindM (GetProcessByID processID) (\<lambda>found.
     bindM (derefM found) (\<lambda>process.
     bindM (tryM (UnassignProcess process)) (\<lambda>res.
     (case res of
        Inl err \<Rightarrow> thenM (signal process) (throwM err)
      | Inr process1 \<Rightarrow> signal process1))))"

definition ctl_resetProcess :: "string \<Rightarrow> unit ctl" where
  "ctl_resetProcess processID =
     bindM (GetProcessByID processID) (\<lambda>found.
     bindM (derefM found) (\<lambda>process.
     bindM (tryM (ResetProcess process)) (\<lambda>res.
     (case res of
        Inl err \<Rightarrow> thenM (signal process) (throwM err)
      | Inr process1 \<Rightarrow> signal process1))))"

section \<open>Timeouts\<close>

text \<open>One round of \<open>timeoutLoop\<close>. Errors of the handlers are only logged.\<close>

definition check_exec_time :: "Process \<Rightarrow> unit ctl" where
  "check_exec_time process =
     whenM (spec_MaxExecTime (proc_FunctionSpec process) \<noteq> - 1)
       (bindM time_Now (\<lambda>now.
        whenM (time_Unix now > time_Unix (proc_ExecDeadline process))
          (if proc_Retries process \<ge> spec_MaxRetries (proc_FunctionSpec process) \<and>
              spec_MaxRetries (proc_FunctionSpec process) > - 1
           then ignoreM (ctl_closeFailed (proc_ID process) [''Maximum execution time limit exceeded''])
           else ignoreM (ctl_unassignExecutor (proc_ID process)))))"

definition check_wait_time :: "Process \<Rightarrow> unit ctl" where
  "check_wait_time process =
     whenM (spec_MaxWaitTime (proc_FunctionSpec process) \<noteq> - 1 \<and> spec_MaxWaitTime (proc_FunctionSpec process) \<noteq> 0)
       (bindM time_Now (\<lambda>now.
        whenM (time_Unix now > time_Unix (proc_WaitDeadline process))
          (ignoreM (ctl_closeFailed (proc_ID process) [''Maximum waiting time limit exceeded'']))))"

definition timeout_round :: "unit ctl" where
  "timeout_round =
     bindM (tryM FindAllRunningProcesses) (\<lambda>res.
     (case res of
        Inl _ \<Rightarrow> retM ()
      | Inr running \<Rightarrow>
          thenM (forM running check_exec_time)
          (bindM (tryM FindAllWaitingProcesses) (\<lambda>res2.
           (case res2 of Inl _ \<Rightarrow> retM () | Inr waiting \<Rightarrow> forM waiting check_wait_time)))))"

definition retention_round :: "bool \<Rightarrow> bool \<Rightarrow> int \<Rightarrow> unit ctl" where
  "retention_round isLeader retention retentionPolicy =
     whenM (isLeader \<and> retention) (ignoreM (ApplyRetentionPolicy retentionPolicy))"

section \<open>Statistics, attributes, functions\<close>

definition ctl_getColonyStatistics :: "string \<Rightarrow> Statistics ctl" where
  "ctl_getColonyStatistics colonyName =
     bindM (CountExecutorsByColonyName colonyName) (\<lambda>executors.
     bindM (CountWaitingProcessesByColonyName colonyName) (\<lambda>waitingProcesses.
     bindM (CountRunningProcessesByColonyName colonyName) (\<lambda>runningProcesses.
     bindM (CountSuccessfulProcessesByColonyName colonyName) (\<lambda>successProcesses.
     bindM (CountFailedProcessesByColonyName colonyName) (\<lambda>failedProcesses.
     bindM (CountWaitingProcessGraphsByColonyName colonyName) (\<lambda>waitingWorkflows.
     bindM (CountRunningProcessGraphsByColonyName colonyName) (\<lambda>runningWorkflows.
     bindM (CountSuccessfulProcessGraphsByColonyName colonyName) (\<lambda>successWorkflows.
     bindM (CountFailedProcessGraphsByColonyName colonyName) (\<lambda>failedWorkflows.
     retM (CreateStatistics 1 executors waitingProcesses runningProcesses successProcesses failedProcesses
       waitingWorkflows runningWorkflows successWorkflows failedWorkflows))))))))))"

definition ctl_getStatistics :: "Statistics ctl" where
  "ctl_getStatistics =
     bindM CountColonies (\<lambda>colonies.
     bindM CountExecutors (\<lambda>executors.
     bindM CountWaitingProcesses (\<lambda>waitingProcesses.
     bindM CountRunningProcesses (\<lambda>runningProcesses.
     bindM CountSuccessfulProcesses (\<lambda>successProcesses.
     bindM CountFailedProcesses (\<lambda>failedProcesses.
     bindM CountWaitingProcessGraphs (\<lambda>waitingWorkflows.
     bindM CountRunningProcessGraphs (\<lambda>runningWorkflows.
     bindM CountSuccessfulProcessGraphs (\<lambda>successWorkflows.
     bindM CountFailedProcessGraphs (\<lambda>failedWorkflows.
     retM (CreateStatistics colonies executors waitingProcesses runningProcesses successProcesses failedProcesses
       waitingWorkflows runningWorkflows successWorkflows failedWorkflows)))))))))))"

definition ctl_addAttribute :: "Attribute \<Rightarrow> Attribute ctl" where
  "ctl_addAttribute attribute = thenM (AddAttribute attribute) (GetAttributeByID (attr_ID attribute))"

definition ctl_getAttribute :: "string \<Rightarrow> Attribute ctl" where
  "ctl_getAttribute attributeID = GetAttributeByID attributeID"

definition ctl_addFunction :: "Function \<Rightarrow> Function ctl" where
  "ctl_addFunction func = thenM (AddFunction func) (GetFunctionByID (fn_FunctionID func))"

definition ctl_getFunctionsByExecutorName :: "string \<Rightarrow> string \<Rightarrow> Function list ctl" where
  "ctl_getFunctionsByExecutorName colonyName executorName = GetFunctionsByExecutorName colonyName executorName"

definition ctl_getFunctionsByColonyName :: "string \<Rightarrow> Function list ctl" where
  "ctl_getFunctionsByColonyName colonyName = GetFunctionsByColonyName colonyName"

definition ctl_getFunctionByID :: "string \<Rightarrow> Function ctl" where
  "ctl_getFunctionByID functionID = GetFunctionByID functionID"

definition ctl_removeFunction :: "string \<Rightarrow> unit ctl" where
  "ctl_removeFunction functionID = RemoveFunctionByID functionID"

end
