(* ===== verification/Lifecycle.thy ===== *)
theory Lifecycle
  imports Controller Resolve_Facts
begin

text \<open>
  What every handler of the controller keeps of the PROCESSES table, for every outcome and under
  every pattern of failing statements: keys stay unique, no row disappears, the columns that
  describe the function stay as submitted, and the state of a process only moves forward in the
  order WAITING, RUNNING, SUCCESS, FAILED.
\<close>

section \<open>Relations on rows\<close>

text \<open>The columns that are fixed when a process is submitted: the row with all others blanked.\<close>

definition submitted_part :: "process_row \<Rightarrow> process_row" where
  "submitted_part r =
     r\<lparr>PR_STATE := WAITING, PR_IS_ASSIGNED := False, PR_ASSIGNED_EXECUTOR_ID := '''', PR_START_TIME := time_zero,
       PR_END_TIME := time_zero, PR_WAIT_DEADLINE := time_zero, PR_EXEC_DEADLINE := time_zero, PR_ERRORS := [],
       PR_RETRIES := 0, PR_WAIT_FOR_PARENTS := False, PR_PARENTS := [], PR_CHILDREN := [], PR_INPUT := JSON [],
       PR_OUTPUT := JSON []\<rparr>"

definition same_spec :: "process_row \<Rightarrow> process_row \<Rightarrow> bool" where
  "same_spec r r' \<longleftrightarrow> submitted_part r' = submitted_part r"

definition valid_state :: "int \<Rightarrow> bool" where
  "valid_state st \<longleftrightarrow> st \<in> {WAITING, RUNNING, SUCCESS, FAILED}"

definition moves_forward :: "process_row \<Rightarrow> process_row \<Rightarrow> bool" where
  "moves_forward r r' \<longleftrightarrow>
     same_spec r r' \<and> (valid_state (PR_STATE r) \<longrightarrow> valid_state (PR_STATE r') \<and> PR_STATE r \<le> PR_STATE r')"

lemma moves_forward_refl: "moves_forward r r"
  by (simp add: moves_forward_def same_spec_def)

lemma moves_forward_trans: "moves_forward r r' \<Longrightarrow> moves_forward r' r'' \<Longrightarrow> moves_forward r r''"
  unfolding moves_forward_def same_spec_def by auto

lemma same_spec_id: "same_spec r r' \<Longrightarrow> PR_PROCESS_ID r' = PR_PROCESS_ID r"
proof -
  assume "same_spec r r'"
  then have "PR_PROCESS_ID (submitted_part r') = PR_PROCESS_ID (submitted_part r)" by (simp add: same_spec_def)
  then show ?thesis by (simp add: submitted_part_def)
qed

section \<open>Forward relation of states\<close>

definition forward :: "'z pq_state_scheme \<Rightarrow> 'z pq_state_scheme \<Rightarrow> bool" where
  "forward = processes_grow moves_forward"

interpretation fwd: process_relation "forward :: 'z pq_state_scheme \<Rightarrow> 'z pq_state_scheme \<Rightarrow> bool"
  unfolding forward_def
  by (rule process_relation_grow) (use moves_forward_refl moves_forward_trans in blast)+

lemma forward_upd:
  assumes "\<And>r. submitted_part (f r) = submitted_part r"
    and "\<And>r. r \<in> set (PROCESSES s) \<Longrightarrow> PR_PROCESS_ID r = pid \<Longrightarrow> distinct (process_ids s) \<Longrightarrow>
             valid_state (PR_STATE r) \<Longrightarrow> valid_state (PR_STATE (f r)) \<and> PR_STATE r \<le> PR_STATE (f r)"
  shows "forward s (upd_row pid f s)"
proof (cases "distinct (process_ids s)")
  case True
  have "PR_PROCESS_ID (f r) = PR_PROCESS_ID r" for r
    by (rule same_spec_id) (simp add: same_spec_def assms(1))
  then show ?thesis
    unfolding forward_def using assms(2) True
    by (intro processes_grow_upd) (auto simp: moves_forward_refl moves_forward_def same_spec_def assms(1))
qed (simp add: forward_def processes_grow_def)

lemma forward_column:
  "forward s (upd_row pid (\<lambda>r. r\<lparr>PR_WAIT_FOR_PARENTS := b\<rparr>) s)"
  "forward s (upd_row pid (\<lambda>r. r\<lparr>PR_PARENTS := v\<rparr>) s)"
  "forward s (upd_row pid (\<lambda>r. r\<lparr>PR_CHILDREN := v\<rparr>) s)"
  "forward s (upd_row pid (\<lambda>r. r\<lparr>PR_INPUT := w\<rparr>) s)"
  "forward s (upd_row pid (\<lambda>r. r\<lparr>PR_OUTPUT := w\<rparr>) s)"
  "forward s (upd_row pid (\<lambda>r. r\<lparr>PR_ERRORS := v\<rparr>) s)"
  by (rule forward_upd; simp add: submitted_part_def)+

lemma forward_insert:
  "PR_PROCESS_ID r \<notin> set (process_ids s) \<Longrightarrow> forward s (s\<lparr>PROCESSES := PROCESSES s @ [r]\<rparr>)"
  unfolding forward_def by (intro processes_grow_insert moves_forward_refl)

lemmas fwd_columns = fwd.keeps_column_updates[OF forward_column]

lemma fwd_AddProcess: "keeps forward (AddProcess p)"
  by (rule fwd.keeps_AddProcess) (simp add: Let_def forward_insert)

lemma fwd_SetProcessState_FAILED: "keeps forward (SetProcessState pid FAILED)"
  unfolding SetProcessState_def
  by (intro fwd.keeps_rules fwd.keeps_readers fwd.keeps_update_process forward_upd)
    (auto simp: submitted_part_def valid_state_def state_defs)

lemmas fwd_basic = fwd.keeps_rules fwd.keeps_readers fwd_columns fwd.keeps_graph_ops fwd_AddProcess
  fwd_SetProcessState_FAILED

lemma fwd_Iterate:
  assumes "\<And>process acc. keeps forward (visit process acc)"
  shows "keeps forward (Iterate roots visit acc)"
  by (intro keeps_Iterate fwd.op_relation_axioms fwd_basic assms)

lemma fwd_Resolve: "keeps forward (Resolve graph)"
proof -
  have "keeps forward (resolve_visit roots p c)" for roots p c
    by (intro keeps_resolve_visit fwd.op_relation_axioms fwd_basic)
  then show ?thesis
    unfolding Resolve_def Let_def by (intro fwd_Iterate fwd_basic)
qed

section \<open>State changes\<close>

text \<open>A statement that may use what the one before it returned.\<close>

lemma keeps_bind_post:
  assumes "op_relation R" "keeps R m" "\<And>s x s'. m s = (Inr x, s') \<Longrightarrow> R s' (snd (f x s'))"
  shows "keeps R (bindM m f)"
proof (rule keepsI)
  fix s
  obtain res s' where m: "m s = (res, s')" by fastforce
  have 1: "R s s'" using keepsD[OF assms(2), of s] m by simp
  show "R s (snd (bindM m f s))"
  proof (cases res)
    case (Inl e)
    then show ?thesis using m 1 by (simp add: bindM_def)
  next
    case (Inr x)
    then have "R s' (snd (f x s'))" using m assms(3) by blast
    with op_relation.rel_trans[OF assms(1) 1] show ?thesis using m Inr by (simp add: bindM_def)
  qed
qed

text \<open>
  The rows of a process may move to state \<open>st\<close>; where they may, operations that move no row beyond
  \<open>st\<close> go forward.
\<close>

definition may_become :: "int \<Rightarrow> string \<Rightarrow> 'z pq_state_scheme \<Rightarrow> bool" where
  "may_become st pid s \<longleftrightarrow> (distinct (process_ids s) \<longrightarrow>
     (\<forall>r \<in> set (PROCESSES s). PR_PROCESS_ID r = pid \<longrightarrow> valid_state (PR_STATE r) \<longrightarrow> PR_STATE r \<le> st))"

definition forward_upto :: "int \<Rightarrow> string \<Rightarrow> 'z pq_state_scheme \<Rightarrow> 'z pq_state_scheme \<Rightarrow> bool" where
  "forward_upto st pid s t \<longleftrightarrow> (may_become st pid s \<longrightarrow> forward s t \<and> may_become st pid t)"

interpretation upto: process_relation "forward_upto st pid :: 'z pq_state_scheme \<Rightarrow> 'z pq_state_scheme \<Rightarrow> bool"
  for st pid
proof unfold_locales
  fix s t u :: "'z pq_state_scheme"
  show "forward_upto st pid s s" by (simp add: forward_upto_def fwd.rel_refl)
  show "forward_upto st pid s t \<Longrightarrow> forward_upto st pid t u \<Longrightarrow> forward_upto st pid s u"
    unfolding forward_upto_def using fwd.rel_trans by blast
  show "PROCESSES t = PROCESSES s \<Longrightarrow> forward_upto st pid s t"
    by (simp add: forward_upto_def fwd.rel_same may_become_def process_ids_def)
qed

lemma upto_update_state:
  assumes "\<And>r. submitted_part (f r) = submitted_part r" "\<And>r. PR_STATE (f r) = st" "valid_state st"
  shows "keeps (forward_upto st pid) (update_process pid f)"
proof (rule upto.keeps_update_process)
  fix s :: "'z pq_state_scheme"
  have id: "PR_PROCESS_ID (f r) = PR_PROCESS_ID r" for r
    by (rule same_spec_id) (simp add: same_spec_def assms(1))
  have "forward s (upd_row pid f s)" if "may_become st pid s"
    using that assms by (intro forward_upd) (auto simp: may_become_def)
  moreover have "may_become st pid (upd_row pid f s)"
    using assms(2) by (auto simp: may_become_def upd_row_def set_update_where)
  ultimately show "forward_upto st pid s (upd_row pid f s)" by (simp add: forward_upto_def)
qed

lemma upto_SetErrors: "keeps (forward_upto st pid) (SetErrors qid es)"
  unfolding SetErrors_def
proof (rule upto.keeps_update_process)
  fix s :: "'z pq_state_scheme"
  have "may_become st pid (upd_row qid (\<lambda>r. r\<lparr>PR_ERRORS := es\<rparr>) s)" if "may_become st pid s"
    using that by (auto simp: may_become_def upd_row_def set_update_where process_ids_def update_where_def
        comp_def if_distrib[of PR_PROCESS_ID] cong: if_cong)
  then show "forward_upto st pid s (upd_row qid (\<lambda>r. r\<lparr>PR_ERRORS := es\<rparr>) s)"
    by (simp add: forward_upto_def forward_column)
qed

lemma may_become_read:
  assumes "GetProcessByID pid s = (Inr (Some p), s')" "valid_state (proc_State p) \<Longrightarrow> proc_State p \<le> st"
  shows "may_become st pid s'" "proc_ID p = pid"
proof -
  obtain r as es where r: "find_row pid s = Some r" "p = process_of_row r as es" "PROCESSES s' = PROCESSES s"
    using GetProcessByID_Some[OF assms(1)] by blast
  then show "proc_ID p = pid" by (simp add: find_row_id)
  show "may_become st pid s'"
    unfolding may_become_def
  proof (intro impI ballI)
    fix r' assume "distinct (process_ids s')" "r' \<in> set (PROCESSES s')" "PR_PROCESS_ID r' = pid" "valid_state (PR_STATE r')"
    then have "find_row pid s' = Some r'" using find_row_distinct by metis
    then have "r' = r" using r by (simp add: find_row_def)
    then show "PR_STATE r' \<le> st" using assms(2) r(2) \<open>valid_state (PR_STATE r')\<close> by simp
  qed
qed

lemma upto_forward: "keeps (forward_upto st pid) m \<Longrightarrow> may_become st pid s \<Longrightarrow> forward s (snd (m s))"
  using keepsD[of "forward_upto st pid" m s] by (simp add: forward_upto_def)

lemma fwd_MarkSuccessful: "keeps forward (MarkSuccessful pid)"
  unfolding MarkSuccessful_def
proof (rule keeps_bind_post[OF fwd.op_relation_axioms fwd.keeps_GetProcessByID])
  fix s found and s' :: "'a pq_state_scheme"
  assume get: "GetProcessByID pid s = (Inr found, s')"
  show "forward s' (snd (bindM (derefM found) (\<lambda>process.
     if proc_State process = FAILED then throwM (Err ''Tried to set failed process as successful'')
     else if proc_State process = WAITING
     then throwM (Err ''Tried to set waiting process as successful without being running'')
     else
       bindM time_Now (\<lambda>endTime.
       thenM (update_process (proc_ID process) (\<lambda>r. r\<lparr>PR_END_TIME := endTime, PR_STATE := SUCCESS\<rparr>))
      (thenM (SetAttributeState (proc_ID process) SUCCESS)
      (let process1 = SetState SUCCESS (SetEndTime endTime process)
       in retM (WaitingTime endTime process1, ProcessingTime endTime process1))))) s'))"
  proof (cases found)
    case (Some p)
    show ?thesis
    proof (cases "proc_State p = FAILED \<or> proc_State p = WAITING")
      case False
      have "valid_state (proc_State p) \<Longrightarrow> proc_State p \<le> SUCCESS"
        using False by (auto simp: valid_state_def state_defs)
      note m = may_become_read[OF get[unfolded Some] this]
      show ?thesis
        unfolding Some using False m(2)
        by (simp add: bindM_def[of "retM _"] Let_def)
          (intro upto_forward[OF _ m(1)] upto.keeps_rules upto.keeps_readers upto_update_state;
            simp add: submitted_part_def valid_state_def)
    qed (auto simp: Some bindM_def fwd.rel_refl)
  qed (simp add: bindM_def fwd.rel_refl)
qed

lemma fwd_MarkFailed: "keeps forward (MarkFailed pid errs)"
  unfolding MarkFailed_def
proof (rule fwd.keeps_bindM[OF fwd.keeps_time_Now], rule keeps_bind_post[OF fwd.op_relation_axioms fwd.keeps_GetProcessByID])
  fix endTime found and s s' :: "'a pq_state_scheme"
  assume get: "GetProcessByID pid s = (Inr found, s')"
  show "forward s' (snd ((case found of
        None \<Rightarrow> throwM (Err (''Process with Id <'' @ pid @ ''> not found''))
      | Some process \<Rightarrow>
        if proc_State process = SUCCESS then throwM (Err ''Tried to set successful process as failed'')
        else if proc_State process = FAILED then throwM (Err ''Tried to set failed process as failed'')
        else
          thenM (update_process (proc_ID process) (\<lambda>r. r\<lparr>PR_END_TIME := endTime, PR_STATE := FAILED\<rparr>))
         (thenM (SetAttributeState (proc_ID process) FAILED)
                (SetErrors (proc_ID process) errs))) s'))"
  proof (cases found)
    case (Some p)
    have "valid_state (proc_State p) \<Longrightarrow> proc_State p \<le> FAILED"
      by (auto simp: valid_state_def state_defs)
    note m = may_become_read[OF get[unfolded Some] this]
    have "keeps (forward_upto FAILED pid) (thenM (update_process pid (\<lambda>r. r\<lparr>PR_END_TIME := endTime, PR_STATE := FAILED\<rparr>))
         (thenM (SetAttributeState pid FAILED) (SetErrors pid errs)) :: ('a pq_state_scheme, unit) op)"
      by (intro upto.keeps_rules upto.keeps_readers upto_update_state upto_SetErrors)
        (simp_all add: submitted_part_def valid_state_def)
    from upto_forward[OF this m(1)] m(2) show ?thesis
      by (auto simp: Some fwd.rel_refl)
  qed (simp add: fwd.rel_refl)
qed

section \<open>Other tables\<close>

text \<open>The methods on other tables leave PROCESSES alone.\<close>

lemma fwd_sql_exec_other:
  "(\<And>db db'. stmt db = Inr db' \<Longrightarrow> PROCESSES db' = PROCESSES db) \<Longrightarrow> keeps forward (sql_exec stmt)"
  by (intro fwd.keeps_sql_exec fwd.rel_same)

lemma fwd_members:
  "keeps forward (GetExecutorByID eid)" "keeps forward (GetExecutorByName c n)" "keeps forward (GetUserByID c uid)"
  "keeps forward (MarkAlive e)" "keeps forward (GetFunctionsByExecutorAndName c en f)" "keeps forward (GetFunctionByID fid)"
  "keeps forward (UpdateFunctionStats c en f k a b d e' g h)" "keeps forward (AddFunction fn)" "keeps forward (AddExecutor ex)"
  "keeps forward (AddColony col)" "keeps forward (GetColonyByID cid)"
proof -
  have ex: "keeps forward (select_executors P)" for P :: "executor_row \<Rightarrow> bool"
    unfolding select_executors_def parseExecutors_def by (intro fwd_basic)
  show "keeps forward (GetExecutorByID eid)" and n: "keeps forward (GetExecutorByName c n)" for c n
    unfolding GetExecutorByID_def GetExecutorByName_def by (intro fwd_basic ex)+
  show "keeps forward (GetUserByID c uid)"
    unfolding GetUserByID_def select_users_def parseUsers_def by (intro fwd_basic)
  show "keeps forward (MarkAlive e)"
    unfolding MarkAlive_def update_executors_def by (intro fwd_basic fwd_sql_exec_other) auto
  show "keeps forward (GetFunctionsByExecutorAndName c en f)" "keeps forward (GetFunctionByID fid)"
    unfolding GetFunctionsByExecutorAndName_def GetFunctionByID_def select_functions_def parseFunctions_def
    by (intro fwd_basic | (simp split: list.split, intro conjI impI allI))+
  show "keeps forward (UpdateFunctionStats c en f k a b d e' g h)" "keeps forward (AddFunction fn)"
    unfolding UpdateFunctionStats_def AddFunction_def
    by (intro fwd_sql_exec_other; auto split: if_splits simp: insert_row_def)+
  have "keeps forward (insert_executor r)" for r
    unfolding insert_executor_def by (intro fwd_sql_exec_other) (auto split: if_splits simp: insert_row_def)
  then show "keeps forward (AddExecutor ex)"
    unfolding AddExecutor_def by (intro fwd_basic n)
  have co: "keeps forward (select_colonies P)" for P :: "colony_row \<Rightarrow> bool"
    unfolding select_colonies_def by (intro fwd_basic)
  show "keeps forward (GetColonyByID cid)"
    unfolding GetColonyByID_def by (intro fwd_basic co)
  show "keeps forward (AddColony col)"
    unfolding AddColony_def GetColonyByName_def
    by (intro fwd_basic co fwd_sql_exec_other) (auto simp: insert_row_def split: if_splits)
qed

lemma fwd_ctl:
  "keeps forward (signal p)" "keeps forward (range_keys ks)" "keeps forward (etcd_ask req c)"
  "keeps forward (createResumeChannel c)" "keeps forward (wakeupPausedAssignments c)"
  by (rule keepsI, rule fwd.rel_same,
      simp add: signal_def range_keys_def etcd_ask_def createResumeChannel_def wakeupPausedAssignments_def Let_def)+

lemmas fwd_ops = fwd_basic fwd_members fwd_ctl fwd_Resolve fwd_MarkSuccessful fwd_MarkFailed

section \<open>Assigning\<close>

lemma upto_AssignProcess: "keeps (forward_upto RUNNING (proc_ID p)) (AssignProcess e p)"
  unfolding AssignProcess_def Let_def
  by (intro upto.keeps_rules upto.keeps_readers upto_update_state)
    (simp_all add: submitted_part_def valid_state_def)

text \<open>A candidate comes from a row that is WAITING and not assigned, even if statements failed before.\<close>

definition from_waiting_row :: "'z pq_state_scheme \<Rightarrow> Process \<Rightarrow> bool" where
  "from_waiting_row s p \<longleftrightarrow>
     (\<exists>r \<in> set (PROCESSES s). PR_STATE r = WAITING \<and> \<not> PR_IS_ASSIGNED r \<and> (\<exists>as es. p = process_of_row r as es))"

lemma candidates_waiting:
  assumes "select_processes (\<lambda>rows. sql_limit cnt (order_asc k (filter P rows))) s = (Inr ps, s')"
    and "\<And>r. P r \<Longrightarrow> PR_STATE r = WAITING \<and> \<not> PR_IS_ASSIGNED r" "p \<in> set ps"
  shows "from_waiting_row s p"
proof -
  obtain rows where rows: "sql_limit cnt (order_asc k (filter P (PROCESSES s))) = Inr rows"
    "list_all2 (\<lambda>r p. \<exists>as es. p = process_of_row r as es) rows ps"
    by (rule select_processes_Inr[OF assms(1)])
  obtain i where i: "i < length ps" "ps ! i = p" using assms(3) by (auto simp: in_set_conv_nth)
  then have "rows ! i \<in> set rows" "\<exists>as es. p = process_of_row (rows ! i) as es"
    using rows(2) by (auto simp: list_all2_conv_all_nth)
  then obtain r where r: "r \<in> set rows" "\<exists>as es. p = process_of_row r as es" by blast
  have "set rows \<subseteq> set (filter P (PROCESSES s))"
    using rows(1) set_take_subset[of "nat cnt" "order_asc k (filter P (PROCESSES s))"]
    by (auto simp: sql_limit_def split: if_splits)
  with r assms(2) show ?thesis by (auto simp: from_waiting_row_def)
qed

lemma Select_from_waiting:
  assumes "Select FindCandidates FindCandidatesByName srt c e cpu mem s = (Inr p, s')" "sorts_priority srt"
  shows "from_waiting_row s p" "PROCESSES s' = PROCESSES s"
proof -
  obtain ns os s1 where ns: "FindCandidatesByName c (exec_Name e) (exec_Type e) cpu mem 0 MaxInt8 MaxInt8 MaxInt8 1 s = (Inr ns, s1)"
    and os: "FindCandidates c (exec_Type e) cpu mem 0 MaxInt8 MaxInt8 MaxInt8 1 s1 = (Inr os, s')"
    and p: "p \<in> set (srt (ns @ os))"
    using assms(1)
    by (auto simp: Select_def Prioritize_def Let_def elim!: bindM_eq_Inr split: list.splits if_splits)
      (metis in_set_takeD list.set_intros(1))+
  have s1: "PROCESSES s1 = PROCESSES s" "PROCESSES s' = PROCESSES s1"
    using ns os reads_only_keeps unchanged.keeps_finders(6,7) by (metis reads_onlyD)+
  then show "PROCESSES s' = PROCESSES s" by simp
  have "p \<in> set ns \<union> set os" using p sorts_priority_props(1)[OF assms(2)] by auto
  moreover have "from_waiting_row s p" if "p \<in> set ns"
    using candidates_waiting[OF ns[unfolded FindCandidatesByName_def] _ that] by (simp add: assignable_def)
  moreover have "from_waiting_row s p" if "p \<in> set os"
    using candidates_waiting[OF os[unfolded FindCandidates_def] _ that] s1 by (simp add: assignable_def from_waiting_row_def)
  ultimately show "from_waiting_row s p" by blast
qed

lemma from_waiting_may_run:
  assumes "from_waiting_row s p" "PROCESSES s' = PROCESSES s"
  shows "may_become RUNNING (proc_ID p) s'"
proof -
  obtain r as es where r: "r \<in> set (PROCESSES s')" "PR_STATE r = WAITING" "p = process_of_row r as es"
    using assms by (auto simp: from_waiting_row_def)
  have "PR_STATE r' \<le> RUNNING" if "distinct (process_ids s')" "r' \<in> set (PROCESSES s')" "PR_PROCESS_ID r' = proc_ID p" for r'
  proof -
    have "r' = r" using that r find_row_distinct[OF that(1)] by (metis option.inject process_of_row_fields(1))
    then show ?thesis using r(2) by (simp add: state_defs)
  qed
  then show ?thesis by (auto simp: may_become_def)
qed

text \<open>
  A relation that every forward step satisfies. What an assignment keeps of it depends on \<open>others\<close>, the
  changes of other servers during the retries, which need not go forward themselves.
\<close>

locale run_relation = process_relation R for R :: "ctl_state \<Rightarrow> ctl_state \<Rightarrow> bool" +
  assumes of_forward: "forward s t \<Longrightarrow> R s t"
begin

lemma keeps_of_forward: "keeps forward m \<Longrightarrow> keeps R m"
  by (auto simp: keeps_def intro: of_forward)

lemma keeps_select_assign:
  assumes "sorts_priority srt" "\<And>p. keeps R (k p)" "\<And>err. keeps R (h err)"
  shows "keeps R (bindM (tryM (Select FindCandidates FindCandidatesByName srt c e cpu mem)) (\<lambda>sel.
     case sel of Inl err \<Rightarrow> h err | Inr p \<Rightarrow> bindM (AssignProcess eid p) k))"
proof (rule keeps_bind_post[OF op_relation_axioms])
  show "keeps R (tryM (Select FindCandidates FindCandidatesByName srt c e cpu mem))"
    unfolding Select_def Prioritize_def Let_def
    by (intro keeps_rules keeps_finders) (simp split: list.split, intro conjI allI impI keeps_rules)
  fix s s' :: ctl_state and sel
  assume sel: "tryM (Select FindCandidates FindCandidatesByName srt c e cpu mem) s = (Inr sel, s')"
  show "R s' (snd ((case sel of Inl err \<Rightarrow> h err | Inr p \<Rightarrow> bindM (AssignProcess eid p) k) s'))"
  proof (cases sel)
    case (Inl err)
    then show ?thesis using keepsD[OF assms(3)] by simp
  next
    case (Inr p)
    then have "Select FindCandidates FindCandidatesByName srt c e cpu mem s = (Inr p, s')"
      using sel by (auto simp: tryM_def split: prod.splits sum.splits if_splits)
    then have m: "may_become RUNNING (proc_ID p) s'"
      using Select_from_waiting assms(1) from_waiting_may_run by metis
    obtain res s1 where a: "AssignProcess eid p s' = (res, s1)" by fastforce
    then have "R s' s1" using of_forward[OF upto_forward[OF upto_AssignProcess m, of eid]] by simp
    then show ?thesis
      using a keepsD[OF assms(2)] by (cases res) (auto simp: Inr bindM_def intro: rel_trans)
  qed
qed

lemma keeps_resolve_retries:
  assumes "\<And>s. R s (others s)"
  shows "keeps R (resolve_retries n others g pid err)"
proof (induction n arbitrary: err)
  case (Suc n)
  have "keeps R (modifyM others)" using assms by (intro keepsI) simp
  with Suc keeps_of_forward[OF fwd_Resolve] show ?case
    by (simp only: resolve_retries.simps) (intro keeps_rules; blast)
next
  case 0
  show ?case
    by (rule keeps_of_forward) (simp only: resolve_retries.simps handleDefunctProcessgraph_def, intro fwd_ops)
qed

lemma keeps_resolve_assigned:
  assumes "\<And>s. R s (others s)"
  shows "keeps R (resolve_assigned others p)"
proof -
  have "keeps R (GetProcessGraphByID gid)" for gid
    by (rule keeps_of_forward) (intro fwd_ops)
  moreover have "keeps R (collect_input p)"
    unfolding collect_input_def by (rule keeps_of_forward) (intro fwd_ops)
  ultimately show ?thesis
    unfolding resolve_assigned_def by (intro keeps_rules keeps_resolve_retries assms; blast)
qed

lemma keeps_ctl_assign:
  assumes "\<And>s. R s (others s)" "sorts_priority srt"
  shows "keeps R (ctl_assign srt others eid c cpu mem)"
proof -
  have "keeps R (GetExecutorByID eid)" "keeps R (MarkAlive e)" "keeps R (etcd_ask ctl_etcd_get c)"
    "keeps R (createResumeChannel c)" for e
    by (rule keeps_of_forward, intro fwd_ops)+
  then show ?thesis
    unfolding ctl_assign_def select_and_assign_def AreColonyAssignmentsPaused_def
    by (intro keeps_rules keeps_select_assign[OF assms(2)] keeps_resolve_assigned assms(1); blast)
qed

end

interpretation fwd_run: run_relation forward
  by unfold_locales

section \<open>Handlers\<close>

lemma fwd_addProcessToDB: "keeps forward (addProcessToDB p)"
  unfolding addProcessToDB_def by (intro fwd_ops)

lemma fwd_ctl_addProcess: "keeps forward (ctl_addProcess p)"
  unfolding ctl_addProcess_def by (intro fwd_ops fwd_addProcessToDB)

lemma fwd_ctl_addChild: "keeps forward (ctl_addChild gid parent child p eid ins)"
  unfolding ctl_addChild_def insert_between_def insert_beside_def Let_def
  by (intro fwd_ops fwd_addProcessToDB)

lemma fwd_createProcessGraph: "keeps forward (createProcessGraph spec args kwargs input rid)"
proof -
  have node: "keeps forward (add_node c as ks rs rd iname st fs)" for c as ks rs rd iname st fs
    unfolding add_node_def NewProcess_def GenerateHash_def Let_def
    by (cases st) (simp, intro conjI impI fwd_ops)
  have link: "keeps forward (link_node m n :: (string \<times> Process) list ctl)" for m n
    unfolding link_node_def by (intro fwd_ops)
  have start: "keeps forward (start_process p)" for p
    unfolding start_process_def by (intro fwd_ops fwd_addProcessToDB)
  show ?thesis
    unfolding createProcessGraph_def resolveInitiator_def Let_def
    by (intro fwd_ops | simp add: split_beta, intro fwd_ops node link start)+
qed

lemma fwd_resolve_graph_of: "keeps forward (resolve_graph_of p)"
  unfolding resolve_graph_of_def handleDefunctProcessgraph_def by (intro fwd_ops)

lemma fwd_ctl_closeFailed: "keeps forward (ctl_closeFailed pid errs)"
  unfolding ctl_closeFailed_def by (intro fwd_ops fwd_resolve_graph_of)

lemma fwd_notifyChildren: "keeps forward (notifyChildren p)"
  unfolding notifyChildren_def by (intro fwd_ops)

lemma fwd_finish_successful: "keeps forward (finish_successful pid eid p w t)"
  unfolding finish_successful_def update_function_stats_def by (intro fwd_ops)

lemma fwd_ctl_closeSuccessful: "keeps forward (ctl_closeSuccessful pid eid output)"
  unfolding ctl_closeSuccessful_def split_beta
  by (intro fwd_ops fwd_resolve_graph_of fwd_notifyChildren fwd_finish_successful)

lemma fwd_small_handlers:
  "keeps forward (ctl_setOutput pid out)" "keeps forward (ctl_addAttribute a)" "keeps forward (ctl_addFunction f)"
  "keeps forward (ctl_addExecutor ex False)" "keeps forward (ctl_addColony col)"
  "keeps forward (ctl_pauseColonyAssignments c)" "keeps forward (ctl_resumeColonyAssignments c)"
proof -
  show "keeps forward (ctl_setOutput pid out)" "keeps forward (ctl_addFunction f)" "keeps forward (ctl_addColony col)"
    "keeps forward (ctl_pauseColonyAssignments c)" "keeps forward (ctl_resumeColonyAssignments c)"
    unfolding ctl_setOutput_def ctl_addFunction_def ctl_addColony_def ctl_pauseColonyAssignments_def
      ctl_resumeColonyAssignments_def
    by (intro fwd_ops)+
  show "keeps forward (ctl_addAttribute a)"
    unfolding ctl_addAttribute_def GetAttributeByID_def unique_attribute_def
    by (intro fwd_ops) (simp split: list.split, intro conjI allI impI fwd_ops)
  show "keeps forward (ctl_addExecutor ex False)"
    unfolding ctl_addExecutor_def if_False by (intro fwd_ops)
qed

section \<open>Moving back\<close>

text \<open>
  Two kinds of requests move processes back. Where an executor is removed, also when it registers again under
  its name, its RUNNING processes wait again. The timeout loop reads the running processes first and unassigns
  those that are overdue without another look at their state. \<open>moves_on_from b\<close> is what both keep: a process that
  reached \<open>b\<close> only moves forward.
\<close>

definition moves_on_from :: "int \<Rightarrow> process_row \<Rightarrow> process_row \<Rightarrow> bool" where
  "moves_on_from b r r' \<longleftrightarrow>
     same_spec r r' \<and> (valid_state (PR_STATE r) \<longrightarrow>
       valid_state (PR_STATE r') \<and> (b \<le> PR_STATE r \<longrightarrow> PR_STATE r \<le> PR_STATE r'))"

definition moving :: "int \<Rightarrow> 'z pq_state_scheme \<Rightarrow> 'z pq_state_scheme \<Rightarrow> bool" where
  "moving b = processes_grow (moves_on_from b)"

lemma moves_on_from_refl: "moves_on_from b r r"
  by (simp add: moves_on_from_def same_spec_def)

lemma moves_on_from_trans: "moves_on_from b r r' \<Longrightarrow> moves_on_from b r' r'' \<Longrightarrow> moves_on_from b r r''"
  unfolding moves_on_from_def same_spec_def by auto

interpretation mov: process_relation "moving b :: 'z pq_state_scheme \<Rightarrow> 'z pq_state_scheme \<Rightarrow> bool" for b
  unfolding moving_def
  by (rule process_relation_grow) (use moves_on_from_refl moves_on_from_trans in blast)+

lemma moving_mono: "moving b s t \<Longrightarrow> b \<le> b' \<Longrightarrow> moving b' s t"
  by (auto simp: moving_def processes_grow_def rows_grow_def moves_on_from_def)

lemma forward_moving: "forward s t \<longleftrightarrow> moving WAITING s t"
  by (auto simp: forward_def moving_def processes_grow_def rows_grow_def moves_forward_def moves_on_from_def
      valid_state_def state_defs)

lemma run_relation_moving: "WAITING \<le> b \<Longrightarrow> run_relation (moving b)"
  by unfold_locales (auto simp: forward_moving intro: moving_mono)

lemma processes_grow_update_where:
  assumes "\<And>r. PR_PROCESS_ID (f r) = PR_PROCESS_ID r" "\<And>r. rel r r" "\<And>r. P r \<Longrightarrow> rel r (f r)"
  shows "processes_grow rel s (s\<lparr>PROCESSES := update_where P f (PROCESSES s)\<rparr>)"
  using assms unfolding processes_grow_def rows_grow_def
  by (auto simp: update_where_def process_ids_def comp_def if_distrib[of PR_PROCESS_ID] cong: if_cong)

lemma mov_requeue_processes:
  assumes "\<And>r. P r \<Longrightarrow> PR_STATE r = RUNNING"
  shows "keeps (moving SUCCESS) (requeue_processes P)"
  unfolding requeue_processes_def moving_def
proof (rule mov.keeps_sql_exec[unfolded moving_def])
  fix s s' :: "'a pq_state_scheme"
  assume "Inr (s\<lparr>PROCESSES := update_where P requeue_row (PROCESSES s)\<rparr>) = (Inr s' :: failure + 'a pq_state_scheme)"
  then have "s' = s\<lparr>PROCESSES := update_where P requeue_row (PROCESSES s)\<rparr>" by simp
  then show "processes_grow (moves_on_from SUCCESS) s s'"
    using assms
    by (auto intro!: processes_grow_update_where
        simp: moves_on_from_def same_spec_def submitted_part_def requeue_row_def valid_state_def state_defs)
qed

text \<open>\<open>b\<close> beyond FAILED: nothing is said about the state but that it is one.\<close>

lemma mov_update_waiting:
  assumes "\<And>r. submitted_part (f r) = submitted_part r" "\<And>r. PR_STATE (f r) = WAITING"
  shows "keeps (moving (FAILED + 1)) (update_process pid f)"
proof (rule mov.keeps_update_process)
  fix s :: "'a pq_state_scheme"
  have "PR_PROCESS_ID (f r) = PR_PROCESS_ID r" for r
    by (rule same_spec_id) (simp add: same_spec_def assms(1))
  then show "moving (FAILED + 1) s (upd_row pid f s)"
    unfolding moving_def using assms
    by (intro processes_grow_upd) (auto simp: moves_on_from_refl moves_on_from_def same_spec_def valid_state_def state_defs)
qed

lemma fwd_remove_members:
  "keeps forward (delete_executors P)" "keeps forward (RemoveFunctionsByExecutorName c n)"
  unfolding delete_executors_def RemoveFunctionsByExecutorName_def delete_functions_def
  by (intro fwd_sql_exec_other; auto)+

abbreviation closed_stay :: "ctl_state \<Rightarrow> ctl_state \<Rightarrow> bool" where
  "closed_stay \<equiv> moving SUCCESS"

abbreviation rows_stay :: "ctl_state \<Rightarrow> ctl_state \<Rightarrow> bool" where
  "rows_stay \<equiv> moving (FAILED + 1)"

interpretation closed_run: run_relation closed_stay
  by (rule run_relation_moving) (simp add: state_defs)

interpretation rows_run: run_relation rows_stay
  by (rule run_relation_moving) (simp add: state_defs)

lemma closed_RemoveExecutorByName: "keeps closed_stay (RemoveExecutorByName c n)"
  unfolding RemoveExecutorByName_def
  by (intro mov.keeps_rules mov_requeue_processes closed_run.keeps_of_forward[OF fwd_members(2)]
      closed_run.keeps_of_forward[OF fwd_remove_members(1)] closed_run.keeps_of_forward[OF fwd_remove_members(2)])
    simp

lemma closed_ctl_addExecutor: "keeps closed_stay (ctl_addExecutor ex b)"
  unfolding ctl_addExecutor_def
  by (intro mov.keeps_rules closed_RemoveExecutorByName closed_run.keeps_of_forward[OF fwd_members(1)]
      closed_run.keeps_of_forward[OF fwd_members(2)] closed_run.keeps_of_forward[OF fwd_members(9)])

lemma rows_UnassignProcess: "keeps rows_stay (UnassignProcess p)"
  unfolding UnassignProcess_def Let_def
  by (intro mov.keeps_rules mov.keeps_readers mov_update_waiting) (simp_all add: submitted_part_def)

lemma rows_timeout_round: "keeps rows_stay timeout_round"
proof -
  have "keeps rows_stay (ctl_unassignExecutor pid)" for pid
    unfolding ctl_unassignExecutor_def
    by (intro mov.keeps_rules mov.keeps_readers rows_UnassignProcess rows_run.keeps_of_forward[OF fwd_ctl(1)])
  then show ?thesis
    unfolding timeout_round_def check_exec_time_def check_wait_time_def
    by (intro mov.keeps_rules mov.keeps_readers rows_run.keeps_of_forward[OF fwd_ctl_closeFailed]; blast)
qed

section \<open>Runs\<close>

text \<open>
  What works on the processes of a colony, one after the other, on a server whose scheduler sorts with
  \<open>srt\<close>: the requests of executors and users, and the rounds of the timeout loop. \<open>AddExecutorReq\<close> carries
  the setting \<open>allowExecutorReregister\<close> of the server. \<open>others\<close> are the changes of other servers during the
  retries of an assignment, which are such requests too. Not among them are the requests that delete
  processes; \<open>resetProcess\<close> of the controller is called by no handler.
\<close>

datatype request =
    AddProcessReq Process
  | AddChildReq string string string Process string bool
  | SubmitWorkflowReq WorkflowSpec string
  | AssignReq "ctl_state \<Rightarrow> ctl_state" string string int int
  | SetOutputReq string "iface list"
  | CloseSuccessfulReq string string "iface list"
  | CloseFailedReq string "string list"
  | AddAttributeReq Attribute
  | AddFunctionReq Function
  | AddExecutorReq Executor bool
  | RemoveExecutorReq string string
  | PauseReq string
  | ResumeReq string
  | TimeoutRound

fun serve :: "(Process list \<Rightarrow> Process list) \<Rightarrow> request \<Rightarrow> ctl_state \<Rightarrow> ctl_state" where
  "serve srt (AddProcessReq p) s = snd (ctl_addProcess (Some p) s)"
| "serve srt (AddChildReq gid parent child p eid ins) s = snd (ctl_addChild gid parent child p eid ins s)"
| "serve srt (SubmitWorkflowReq spec rid) s = snd (ctl_submitWorkflowSpec spec rid s)"
| "serve srt (AssignReq others eid c cpu mem) s = snd (ctl_assign srt others eid c cpu mem s)"
| "serve srt (SetOutputReq pid out) s = snd (ctl_setOutput pid out s)"
| "serve srt (CloseSuccessfulReq pid eid out) s = snd (ctl_closeSuccessful pid eid out s)"
| "serve srt (CloseFailedReq pid errs) s = snd (ctl_closeFailed pid errs s)"
| "serve srt (AddAttributeReq a) s = snd (ctl_addAttribute a s)"
| "serve srt (AddFunctionReq f) s = snd (ctl_addFunction f s)"
| "serve srt (AddExecutorReq e allowExecutorReregister) s = snd (ctl_addExecutor (Some e) allowExecutorReregister s)"
| "serve srt (RemoveExecutorReq c n) s = snd (RemoveExecutorByName c n s)"
| "serve srt (PauseReq c) s = snd (ctl_pauseColonyAssignments c s)"
| "serve srt (ResumeReq c) s = snd (ctl_resumeColonyAssignments c s)"
| "serve srt TimeoutRound s = snd (timeout_round s)"

text \<open>The requests that may move processes of a removed executor, or any process, back to WAITING.\<close>

fun removes_executor :: "request \<Rightarrow> bool" where
  "removes_executor (AddExecutorReq e allowExecutorReregister) = allowExecutorReregister"
| "removes_executor (RemoveExecutorReq c n) = True"
| "removes_executor _ = False"

definition keeps_back :: "request \<Rightarrow> int" where
  "keeps_back req = (if req = TimeoutRound then FAILED + 1 else if removes_executor req then SUCCESS else WAITING)"

text \<open>
  Sequences of requests from a set \<open>A\<close>. The environment changes between requests: faults, clock and replies
  of etcd are arbitrary.
\<close>

inductive served :: "(Process list \<Rightarrow> Process list) \<Rightarrow> request set \<Rightarrow> ctl_state \<Rightarrow> ctl_state \<Rightarrow> bool"
  for srt :: "Process list \<Rightarrow> Process list" and A :: "request set" where
  none: "served srt A s s"
| request: "served srt A s t \<Longrightarrow> (\<And>x. served srt A x (others x)) \<Longrightarrow> AssignReq others eid c cpu mem \<in> A \<Longrightarrow>
    served srt A s (serve srt (AssignReq others eid c cpu mem) t)"
| plain: "served srt A s t \<Longrightarrow> (\<forall>others eid c cpu mem. req \<noteq> AssignReq others eid c cpu mem) \<Longrightarrow> req \<in> A \<Longrightarrow>
    served srt A s (serve srt req t)"
| environment: "served srt A s t \<Longrightarrow> PROCESSES t' = PROCESSES t \<Longrightarrow> served srt A s t'"

inductive_cases served_cases: "served srt A s t"

lemma forward_plain:
  assumes "\<forall>others eid c cpu mem. req \<noteq> AssignReq others eid c cpu mem"
    and "\<not> removes_executor req" "req \<noteq> TimeoutRound"
  shows "forward s (serve srt req s)"
  using assms
  by (cases req)
    (auto intro: keepsD fwd_ctl_addProcess fwd_ctl_addChild fwd_createProcessGraph fwd_ctl_closeFailed
      fwd_ctl_closeSuccessful fwd_small_handlers simp: ctl_submitWorkflowSpec_def)

lemma moving_plain:
  assumes "\<forall>others eid c cpu mem. req \<noteq> AssignReq others eid c cpu mem" "keeps_back req \<le> b"
  shows "moving b s (serve srt req s)"
proof -
  consider "req = TimeoutRound" | "removes_executor req" | "\<not> removes_executor req" "req \<noteq> TimeoutRound" by blast
  then have "moving (keeps_back req) s (serve srt req s)"
  proof cases
    case 1
    then show ?thesis using keepsD[OF rows_timeout_round] by (simp add: keeps_back_def)
  next
    case 2
    then show ?thesis
      using keepsD[OF closed_RemoveExecutorByName] keepsD[OF closed_ctl_addExecutor]
      by (cases req) (simp_all add: keeps_back_def)
  next
    case 3
    then show ?thesis using forward_plain[OF assms(1)] by (simp add: keeps_back_def forward_moving)
  qed
  then show ?thesis using assms(2) by (rule moving_mono)
qed

lemma served_moving:
  assumes "served srt A s t" "sorts_priority srt" "\<forall>req \<in> A. keeps_back req \<le> b" "WAITING \<le> b"
  shows "moving b s t"
  using assms
proof (induction rule: served.induct)
  case (request s t others eid c cpu mem)
  then have "keeps (moving b) (ctl_assign srt others eid c cpu mem)"
    by (intro run_relation.keeps_ctl_assign[OF run_relation_moving]) auto
  then show ?case using request.IH(1) request.prems mov.rel_trans keepsD by fastforce
next
  case (plain s t req)
  then show ?case using mov.rel_trans[OF _ moving_plain] by blast
next
  case (environment s t t')
  then show ?case using mov.rel_trans[OF _ mov.rel_same] by blast
qed (rule mov.rel_refl)

lemma moving_find:
  assumes "moving b s t" "distinct (process_ids s)" "find_row pid s = Some r"
  obtains r' where "find_row pid t = Some r'" "moves_on_from b r r'"
  using processes_grow_find[OF assms(1)[unfolded moving_def] assms(2,3)]
  by (metis moves_on_from_def same_spec_id)

lemma served_forward:
  assumes "served srt A s t" "sorts_priority srt" "TimeoutRound \<notin> A" "\<forall>req \<in> A. \<not> removes_executor req"
  shows "forward s t"
  unfolding forward_moving using assms by (intro served_moving) (auto simp: keeps_back_def)

section \<open>Properties\<close>

text \<open>
  C1: whatever requests are served, executors that register again and rounds of the timeout loop included, and
  whichever statements fail on the way, the keys of PROCESSES stay unique and a stored process stays stored with
  the columns it was submitted with and one of the four states. As long as no timeout round runs, a process that
  is SUCCESS stays SUCCESS or becomes FAILED and one that is FAILED stays so. As long as in addition no executor is
  removed or registers again, its state only moves forward in the order WAITING, RUNNING, SUCCESS, FAILED.
\<close>

theorem processes_move_forward:
  assumes "served srt A s t" "sorts_priority srt" "distinct (process_ids s)"
    and "find_row pid s = Some r" "valid_state (PR_STATE r)"
  shows "distinct (process_ids t) \<and>
    (\<exists>r'. find_row pid t = Some r' \<and> same_spec r r' \<and> valid_state (PR_STATE r') \<and>
       (TimeoutRound \<notin> A \<longrightarrow> SUCCESS \<le> PR_STATE r \<longrightarrow> PR_STATE r \<le> PR_STATE r') \<and>
       (TimeoutRound \<notin> A \<longrightarrow> (\<forall>req \<in> A. \<not> removes_executor req) \<longrightarrow> PR_STATE r \<le> PR_STATE r'))"
proof -
  have all: "moving (FAILED + 1) s t"
    using assms(1,2) by (rule served_moving) (auto simp: keeps_back_def state_defs)
  then have d: "distinct (process_ids t)" using assms(3) by (simp add: moving_def processes_grow_def)
  obtain r' where r': "find_row pid t = Some r'" "moves_on_from (FAILED + 1) r r'"
    by (rule moving_find[OF all assms(3,4)])
  have step: "moves_on_from b r r'" if "moving b s t" for b
    using moving_find[OF that assms(3,4)] r'(1) by auto
  have closed: "moves_on_from SUCCESS r r'" if "TimeoutRound \<notin> A"
    by (rule step, rule served_moving[OF assms(1,2)]) (use that in \<open>auto simp: keeps_back_def state_defs\<close>)
  have fwd: "moves_on_from WAITING r r'" if "TimeoutRound \<notin> A" "\<forall>req \<in> A. \<not> removes_executor req"
    by (rule step, rule served_moving[OF assms(1,2)]) (use that in \<open>auto simp: keeps_back_def\<close>)
  have "WAITING \<le> PR_STATE r" using assms(5) by (auto simp: valid_state_def state_defs)
  with closed fwd assms(5) r'(2) show ?thesis
    by (intro conjI[OF d] exI[of _ r'] conjI r'(1) impI) (simp_all add: moves_on_from_def)
qed


definition demo_ctl :: "int \<Rightarrow> int \<Rightarrow> ctl_state" where
  "demo_ctl state_a state_b =
     pq_state.extend (demo_db state_a state_b)
       (ctl_state.fields [] True (\<lambda>_ _. Inr 0) (\<lambda>_ _. Inr ()) [] 0 (\<lambda>_. False) (\<lambda>_ ks. ks))"

lemma demo_ctl_simps [simp]:
  "healthy (demo_ctl x y)" "process_ids (demo_ctl x y) = [''a'', ''b'']"
  "find_row ''a'' (demo_ctl x y) = Some (demo_row ''a'' x [] [''b''])"
  "find_row ''b'' (demo_ctl x y) = Some (demo_row ''b'' y [''a''] [])"
  "find_graph ''g'' (demo_ctl x y) = Some demo_graph_row"
  by (simp_all add: demo_ctl_def demo_db_def pq_state.defs ctl_state.defs new_pq_def healthy_def process_ids_def
      find_row_def find_graph_def)

theorem processes_move_forward_witness:
  "\<exists>r'. find_row ''a'' (serve byLowestPriorityTime (CloseFailedReq ''a'' [''e'']) (demo_ctl RUNNING WAITING)) = Some r' \<and>
     PR_FUNCNAME r' = ''f'' \<and> RUNNING \<le> PR_STATE r'"
proof -
  let ?s = "demo_ctl RUNNING WAITING" and ?A = "{CloseFailedReq ''a'' [''e'']}"
  have "served byLowestPriorityTime ?A ?s (serve byLowestPriorityTime (CloseFailedReq ''a'' [''e'']) ?s)"
    by (rule served.plain[OF served.none]) simp_all
  from processes_move_forward[OF this sorts_byLowestPriorityTime, of "''a''" "demo_row ''a'' RUNNING [] [''b'']"]
  obtain r' where r': "find_row ''a'' (serve byLowestPriorityTime (CloseFailedReq ''a'' [''e'']) ?s) = Some r'"
    "same_spec (demo_row ''a'' RUNNING [] [''b'']) r'" "RUNNING \<le> PR_STATE r'"
    by (auto simp: valid_state_def simp del: serve.simps)
  have "PR_FUNCNAME (submitted_part r') = PR_FUNCNAME (submitted_part (demo_row ''a'' RUNNING [] [''b'']))"
    using r'(2) by (simp add: same_spec_def)
  then have "PR_FUNCNAME r' = ''f''" by (simp add: submitted_part_def demo_row_def)
  with r' show ?thesis by blast
qed

end
