(* ===== verification/Pq_Member_Facts.thy ===== *)
theory Pq_Member_Facts
  imports Pq_Colonies Demo
begin

text \<open>
  Facts about the tables of members. Executors and users are stored under \<open>colony:name\<close> and read by
  splitting at the colon, so names without a colon round trip and names with one cannot be read.
  The interface \<open>registry\<close>, names that are added once and then found, is shared by executors, users
  and colonies.
\<close>

section \<open>Keys\<close>

definition no_colon :: "string \<Rightarrow> bool" where
  "no_colon s \<longleftrightarrow> CHR '':'' \<notin> set s"

lemma no_colon_simps [simp]:
  "no_colon []" "no_colon (c # cs) \<longleftrightarrow> c \<noteq> CHR '':'' \<and> no_colon cs"
  "no_colon (xs @ ys) \<longleftrightarrow> no_colon xs \<and> no_colon ys"
  by (auto simp: no_colon_def)

lemma Split_colon_plain: "no_colon s \<Longrightarrow> Split_colon s = [s]"
  by (induction s) auto

lemma Split_colon_append: "no_colon s \<Longrightarrow> Split_colon (s @ CHR '':'' # t) = s # Split_colon t"
  by (induction s) auto

lemma length_Split_colon: "length (Split_colon s) = Suc (count_list s CHR '':'')"
  by (induction s) (auto split: list.splits)

lemma strip_key_colony_key: "no_colon c \<Longrightarrow> no_colon n \<Longrightarrow> strip_key what (colony_key c n) = Inr n"
  by (simp add: strip_key_def colony_key_def Split_colon_append Split_colon_plain)

lemma strip_key_colon:
  assumes "\<not> no_colon c \<or> \<not> no_colon n"
  shows "strip_key what (colony_key c n) = Inl (Err (''Failed to parse '' @ what @ '' name''))"
proof -
  have "count_list c CHR '':'' + count_list n CHR '':'' \<noteq> 0"
    using assms by (auto simp: no_colon_def count_list_0_iff)
  then have "length (Split_colon (colony_key c n)) > 2"
    by (simp add: length_Split_colon colony_key_def)
  then show ?thesis
    by (auto simp: strip_key_def split: list.splits)
qed

lemma colony_key_inj:
  assumes "no_colon c" "no_colon d"
  shows "colony_key c n = colony_key d m \<longleftrightarrow> c = d \<and> n = m"
  using assms
proof (induction c arbitrary: d)
  case Nil
  then show ?case by (cases d) (auto simp: colony_key_def)
next
  case (Cons x c)
  then show ?case by (cases d) (auto simp: colony_key_def)
qed

section \<open>Reading executors and users\<close>

lemma mapM_liftE_Inr:
  "(\<And>x. x \<in> set xs \<Longrightarrow> f x = Inr (g x)) \<Longrightarrow> mapM (\<lambda>x. liftE (f x)) xs s = (Inr (map g xs), s)"
  by (induction xs) (simp_all add: bindM_def)

lemma mapM_liftE_Inl:
  assumes "x \<in> set xs" "\<And>y. y \<in> set xs \<Longrightarrow> f y = Inl e \<or> (\<exists>z. f y = Inr z)" "f x = Inl e"
  shows "mapM (\<lambda>x. liftE (f x)) xs s = (Inl e, s)"
  using assms
proof (induction xs)
  case (Cons y ys)
  show ?case
  proof (cases "f y")
    case (Inl e')
    with Cons.prems(2)[of y] show ?thesis by (auto simp: bindM_def)
  next
    case (Inr z)
    with Cons.prems have rest: "mapM (\<lambda>x. liftE (f x)) ys s = (Inl e, s)" by (intro Cons.IH) auto
    have "mapM (\<lambda>x. liftE (f x)) (y # ys) s = bindM (mapM (\<lambda>x. liftE (f x)) ys) (\<lambda>zs. retM (z # zs)) s"
      unfolding mapM.simps by (rule bindM_Inr) (simp add: Inr)
    also have "\<dots> = (Inl e, s)" by (rule bindM_Inl) (rule rest)
    finally show ?thesis .
  qed
qed simp

text \<open>A row that \<open>AddExecutor\<close> or \<open>AddUser\<close> wrote for names without a colon.\<close>

definition executor_row_ok :: "executor_row \<Rightarrow> bool" where
  "executor_row_ok r \<longleftrightarrow> no_colon (EX_COLONY_NAME r) \<and>
     (\<exists>n. no_colon n \<and> EX_NAME r = colony_key (EX_COLONY_NAME r) n)"

definition user_row_ok :: "user_row \<Rightarrow> bool" where
  "user_row_ok r \<longleftrightarrow> no_colon (US_COLONY_NAME r) \<and>
     (\<exists>n. no_colon n \<and> US_NAME r = colony_key (US_COLONY_NAME r) n)"

definition executor_of :: "executor_row \<Rightarrow> Executor" where
  "executor_of r = projr (parse_executor r)"

definition user_of :: "user_row \<Rightarrow> User" where
  "user_of r = projr (parse_user r)"

lemma parse_executor_ok: "executor_row_ok r \<Longrightarrow> parse_executor r = Inr (executor_of r)"
  by (auto simp: executor_row_ok_def executor_of_def parse_executor_def strip_key_colony_key)

lemma parse_user_ok: "user_row_ok r \<Longrightarrow> parse_user r = Inr (user_of r)"
  by (auto simp: user_row_ok_def user_of_def parse_user_def strip_key_colony_key)

lemma select_executors_run [op_simps]:
  "healthy db \<Longrightarrow> \<forall>r \<in> set (EXECUTORS db). executor_row_ok r \<Longrightarrow>
   select_executors P db = (Inr (map executor_of (filter P (EXECUTORS db))), db)"
  by (auto simp: select_executors_def bindM_def sql_query_healthy parseExecutors_def
      intro!: mapM_liftE_Inr[where g = executor_of] parse_executor_ok)

lemma select_users_run [op_simps]:
  "healthy db \<Longrightarrow> \<forall>r \<in> set (USERS db). user_row_ok r \<Longrightarrow>
   select_users P db = (Inr (map user_of (filter P (USERS db))), db)"
  by (auto simp: select_users_def bindM_def sql_query_healthy parseUsers_def
      intro!: mapM_liftE_Inr[where g = user_of] parse_user_ok)

lemma case_map_first: "(case map f rows of [] \<Rightarrow> None | x # _ \<Rightarrow> Some x) = map_option f (find (\<lambda>_. True) rows)"
  by (cases rows) auto

lemma find_filter_True: "find (\<lambda>_. True) (filter P rows) = find P rows"
  by (induction rows) auto

lemma find_filter_other: "(\<And>r. Q r \<Longrightarrow> P r) \<Longrightarrow> find Q (filter P rows) = find Q rows"
  by (induction rows) auto

lemmas first_of_filter = case_map_first find_filter_True

lemma GetExecutorByID_run [op_simps]:
  "healthy db \<Longrightarrow> \<forall>r \<in> set (EXECUTORS db). executor_row_ok r \<Longrightarrow>
   GetExecutorByID eid db = (Inr (map_option executor_of (find (\<lambda>r. EX_EXECUTOR_ID r = eid) (EXECUTORS db))), db)"
  by (simp add: GetExecutorByID_def bindM_def select_executors_run first_of_filter)

lemma GetExecutorByName_run [op_simps]:
  "healthy db \<Longrightarrow> \<forall>r \<in> set (EXECUTORS db). executor_row_ok r \<Longrightarrow>
   GetExecutorByName c n db = (Inr (map_option executor_of
     (find (\<lambda>r. EX_COLONY_NAME r = c \<and> EX_NAME r = colony_key c n) (EXECUTORS db))), db)"
  by (simp add: GetExecutorByName_def bindM_def select_executors_run first_of_filter)

lemma GetUserByID_run [op_simps]:
  "healthy db \<Longrightarrow> \<forall>r \<in> set (USERS db). user_row_ok r \<Longrightarrow>
   GetUserByID c uid db = (Inr (map_option user_of
     (find (\<lambda>r. US_COLONY_NAME r = c \<and> US_USER_ID r = uid) (USERS db))), db)"
  by (simp add: GetUserByID_def bindM_def select_users_run first_of_filter)

lemma GetUserByName_run [op_simps]:
  "healthy db \<Longrightarrow> \<forall>r \<in> set (USERS db). user_row_ok r \<Longrightarrow>
   GetUserByName c n db = (Inr (map_option user_of
     (find (\<lambda>r. US_NAME r = colony_key c n \<and> US_COLONY_NAME r = c) (USERS db))), db)"
  by (simp add: GetUserByName_def bindM_def select_users_run first_of_filter)

lemma GetColonyByName_run [op_simps]:
  "healthy db \<Longrightarrow> GetColonyByName n db = (Inr (map_option parse_colony (find (\<lambda>r. CO_NAME r = n) (COLONIES db))), db)"
  by (simp add: GetColonyByName_def select_colonies_def bindM_def sql_query_healthy first_of_filter)

section \<open>Registries\<close>

text \<open>
  What the code that registers a member relies on: a lookup by key changes nothing, a free key can be
  added and is then found as it was stored, a taken key is refused and nothing changes.
\<close>

locale registry =
  fixes ok :: "'s \<Rightarrow> bool" and lookup :: "'s \<Rightarrow> 'k \<Rightarrow> 'v option"
    and find_op :: "'k \<Rightarrow> ('s, 'v option) op" and add_op :: "'v \<Rightarrow> ('s, unit) op"
    and key :: "'v \<Rightarrow> 'k" and valid :: "'v \<Rightarrow> bool" and stored :: "'s \<Rightarrow> 'v \<Rightarrow> 'v"
    and taken :: "'v \<Rightarrow> failure"
  assumes find_run: "ok s \<Longrightarrow> find_op k s = (Inr (lookup s k), s)"
    and add_taken: "ok s \<Longrightarrow> lookup s (key v) \<noteq> None \<Longrightarrow> add_op v s = (Inl (taken v), s)"
    and add_free: "ok s \<Longrightarrow> valid v \<Longrightarrow> lookup s (key v) = None \<Longrightarrow>
      \<exists>s'. add_op v s = (Inr (), s') \<and> ok s' \<and> (\<forall>k. lookup s' k = (if k = key v then Some (stored s v) else lookup s k))"
begin

lemma add_find:
  assumes "ok s" "valid v" "lookup s (key v) = None"
  shows "\<exists>s'. add_op v s = (Inr (), s') \<and> ok s' \<and> find_op (key v) s' = (Inr (Some (stored s v)), s') \<and>
    (\<forall>w. key w = key v \<longrightarrow> add_op w s' = (Inl (taken w), s')) \<and>
    (\<forall>k. k \<noteq> key v \<longrightarrow> find_op k s' = (Inr (lookup s k), s'))"
proof -
  obtain s' where s': "add_op v s = (Inr (), s')" "ok s'"
    "\<And>k. lookup s' k = (if k = key v then Some (stored s v) else lookup s k)"
    using add_free[OF assms] by blast
  then show ?thesis
    by (intro exI[of _ s']) (auto simp: find_run intro!: add_taken)
qed

lemma add_all:
  assumes "ok s" "\<forall>v \<in> set vs. valid v \<and> lookup s (key v) = None" "distinct (map key vs)"
  shows "\<exists>s'. forM vs add_op s = (Inr (), s') \<and> ok s' \<and>
    (\<forall>k. (lookup s' k = None) = (lookup s k = None \<and> k \<notin> key ` set vs))"
  using assms
proof (induction vs arbitrary: s)
  case (Cons v vs)
  obtain s1 where s1: "add_op v s = (Inr (), s1)" "ok s1"
    "\<And>k. lookup s1 k = (if k = key v then Some (stored s v) else lookup s k)"
    using add_free[of s v] Cons.prems by auto
  have "\<forall>w \<in> set vs. valid w \<and> lookup s1 (key w) = None"
    using Cons.prems by (auto simp: s1(3) image_iff)
  then obtain s' where "forM vs add_op s1 = (Inr (), s')" "ok s'"
    "\<forall>k. (lookup s' k = None) = (lookup s1 k = None \<and> k \<notin> key ` set vs)"
    using Cons.IH[OF s1(2)] Cons.prems by auto
  with s1 show ?case by (intro exI[of _ s']) (auto simp: thenM_def bindM_def)
qed simp

end

subsection \<open>Executors\<close>

definition executors_ok :: "'z pq_state_scheme \<Rightarrow> bool" where
  "executors_ok db \<longleftrightarrow> healthy db \<and> (\<forall>r \<in> set (EXECUTORS db). executor_row_ok r)"

definition find_executor :: "'z pq_state_scheme \<Rightarrow> string \<times> string \<Rightarrow> Executor option" where
  "find_executor db k = map_option executor_of
     (find (\<lambda>r. EX_COLONY_NAME r = fst k \<and> EX_NAME r = colony_key (fst k) (snd k)) (EXECUTORS db))"

definition executor_key :: "Executor \<Rightarrow> string \<times> string" where
  "executor_key e = (exec_ColonyName e, exec_Name e)"

definition valid_executor :: "Executor \<Rightarrow> bool" where
  "valid_executor e \<longleftrightarrow> no_colon (exec_ColonyName e) \<and> no_colon (exec_Name e) \<and>
     int4 (hw_Nodes (cap_Hardware (exec_Capabilities e))) \<and>
     int4 (gpu_NodeCount (hw_GPU (cap_Hardware (exec_Capabilities e))))"

definition stored_executor :: "'z pq_state_scheme \<Rightarrow> Executor \<Rightarrow> Executor" where
  "stored_executor db e = e\<lparr>exec_State := PENDING, exec_CommissionTime := env_clock db (env_ticks db)\<rparr>"

definition executor_taken :: "Executor \<Rightarrow> failure" where
  "executor_taken e = Err (''Executor with name <'' @ exec_Name e @ ''> already exists in Colony with name <'' @
     exec_ColonyName e @ ''>'')"

lemma executor_of_row_of:
  assumes "valid_executor e"
  shows "executor_of (executor_row_of t e) = e\<lparr>exec_State := PENDING, exec_CommissionTime := t\<rparr>"
    and "executor_row_ok (executor_row_of t e)"
proof -
  have "strip_key ''Executor'' (colony_key (exec_ColonyName e) (exec_Name e)) = Inr (exec_Name e)"
    using assms by (simp add: valid_executor_def strip_key_colony_key)
  then show "executor_of (executor_row_of t e) = e\<lparr>exec_State := PENDING, exec_CommissionTime := t\<rparr>"
    by (simp add: executor_of_def executor_row_of_def parse_executor_def Let_def CreateExecutorFromDB_def
        CreateExecutor_def PENDING_def)
  show "executor_row_ok (executor_row_of t e)"
    using assms by (auto simp: valid_executor_def executor_row_ok_def executor_row_of_def Let_def)
qed

lemma executor_name_free:
  assumes "executors_ok db" "valid_executor e" "find_executor db (executor_key e) = None"
  shows "colony_key (exec_ColonyName e) (exec_Name e) \<notin> EX_NAME ` set (EXECUTORS db)"
proof
  assume "colony_key (exec_ColonyName e) (exec_Name e) \<in> EX_NAME ` set (EXECUTORS db)"
  then obtain r where r: "r \<in> set (EXECUTORS db)" "EX_NAME r = colony_key (exec_ColonyName e) (exec_Name e)" by auto
  moreover have "executor_row_ok r" using assms(1) r(1) by (simp add: executors_ok_def)
  ultimately have "EX_COLONY_NAME r = exec_ColonyName e"
    using assms(2) by (auto simp: executor_row_ok_def valid_executor_def colony_key_inj)
  with r assms(3) show False by (auto simp: find_executor_def executor_key_def find_None_iff)
qed

lemma find_snoc: "find P (xs @ [x]) = (case find P xs of None \<Rightarrow> (if P x then Some x else None) | Some y \<Rightarrow> Some y)"
  by (induction xs) auto

lemma AddExecutor_free:
  assumes "executors_ok db" "valid_executor e" "find_executor db (executor_key e) = None"
  shows "\<exists>db'. AddExecutor (Some e) db = (Inr (), db') \<and> executors_ok db' \<and>
    (\<forall>k. find_executor db' k = (if k = executor_key e then Some (stored_executor db e) else find_executor db k))"
proof -
  let ?r = "executor_row_of (env_clock db (env_ticks db)) e"
  let ?db = "db\<lparr>env_ticks := Suc (env_ticks db), EXECUTORS := EXECUTORS db @ [?r]\<rparr>"
  have row: "EX_NAME ?r = colony_key (exec_ColonyName e) (exec_Name e)" "EX_COLONY_NAME ?r = exec_ColonyName e"
    "int4 (EX_HWNODES ?r)" "int4 (EX_HWGPUNODECOUNT ?r)"
    using assms(2) by (simp_all add: executor_row_of_def Let_def valid_executor_def)
  have get: "GetExecutorByName (exec_ColonyName e) (exec_Name e) db = (Inr None, db)"
    using assms by (simp add: executors_ok_def GetExecutorByName_run find_executor_def executor_key_def)
  have ins: "insert_executor ?r (db\<lparr>env_ticks := Suc (env_ticks db)\<rparr>) = (Inr (), ?db)"
    using assms(1) executor_name_free[OF assms] row
    by (simp add: insert_executor_def sql_exec_healthy executors_ok_def insert_row_def)
  have "AddExecutor (Some e) db = (Inr (), ?db)"
    using get ins by (simp add: AddExecutor_def bindM_def time_Now_run tryM_def)
  moreover have "executors_ok ?db"
    using assms(1) executor_of_row_of(2)[OF assms(2)] by (simp add: executors_ok_def healthy_def)
  moreover have "find_executor ?db k = (if k = executor_key e then Some (stored_executor db e) else find_executor db k)" for k
    using assms(3) row executor_of_row_of(1)[OF assms(2)] assms(2)
    by (cases k) (auto simp: find_executor_def find_snoc executor_key_def stored_executor_def valid_executor_def
        colony_key_inj split: option.splits)
  ultimately show ?thesis by blast
qed

interpretation executors: registry executors_ok find_executor "\<lambda>k. GetExecutorByName (fst k) (snd k)"
  "\<lambda>e. AddExecutor (Some e)" executor_key valid_executor stored_executor executor_taken
proof
  show "GetExecutorByName (fst k) (snd k) db = (Inr (find_executor db k), db)"
    if "executors_ok db" for db :: "'a pq_state_scheme" and k
    using that by (simp add: executors_ok_def GetExecutorByName_run find_executor_def)
  show "AddExecutor (Some e) db = (Inl (executor_taken e), db)"
    if "executors_ok db" "find_executor db (executor_key e) \<noteq> None" for db :: "'a pq_state_scheme" and e
    using that by (auto simp: executors_ok_def AddExecutor_def bindM_def GetExecutorByName_run find_executor_def
        executor_key_def executor_taken_def)
qed (rule AddExecutor_free)


subsection \<open>Users\<close>

definition users_ok :: "'z pq_state_scheme \<Rightarrow> bool" where
  "users_ok db \<longleftrightarrow> healthy db \<and> (\<forall>r \<in> set (USERS db). user_row_ok r)"

definition find_user :: "'z pq_state_scheme \<Rightarrow> string \<times> string \<Rightarrow> User option" where
  "find_user db k = map_option user_of
     (find (\<lambda>r. US_NAME r = colony_key (fst k) (snd k) \<and> US_COLONY_NAME r = fst k) (USERS db))"

definition user_key :: "User \<Rightarrow> string \<times> string" where
  "user_key u = (user_ColonyName u, user_Name u)"

definition valid_user :: "User \<Rightarrow> bool" where
  "valid_user u \<longleftrightarrow> no_colon (user_ColonyName u) \<and> no_colon (user_Name u)"

definition user_taken :: "User \<Rightarrow> failure" where
  "user_taken u = Err (''User with name <'' @ user_Name u @ ''> already exists in Colony with name <'' @
     user_ColonyName u @ ''>'')"

lemma user_name_free:
  assumes "users_ok db" "valid_user u" "find_user db (user_key u) = None"
  shows "colony_key (user_ColonyName u) (user_Name u) \<notin> US_NAME ` set (USERS db)"
proof
  assume "colony_key (user_ColonyName u) (user_Name u) \<in> US_NAME ` set (USERS db)"
  then obtain r where r: "r \<in> set (USERS db)" "US_NAME r = colony_key (user_ColonyName u) (user_Name u)" by auto
  moreover have "user_row_ok r" using assms(1) r(1) by (simp add: users_ok_def)
  ultimately have "US_COLONY_NAME r = user_ColonyName u"
    using assms(2) by (auto simp: user_row_ok_def valid_user_def colony_key_inj)
  with r assms(3) show False by (auto simp: find_user_def user_key_def find_None_iff)
qed

lemma AddUser_free:
  assumes "users_ok db" "valid_user u" "find_user db (user_key u) = None"
  shows "\<exists>db'. AddUser (Some u) db = (Inr (), db') \<and> users_ok db' \<and>
    (\<forall>k. find_user db' k = (if k = user_key u then Some u else find_user db k))"
proof -
  let ?r = "\<lparr>US_NAME = colony_key (user_ColonyName u) (user_Name u), US_USER_ID = user_ID u,
               US_COLONY_NAME = user_ColonyName u, US_EMAIL = user_Email u, US_PHONE = user_Phone u\<rparr>"
  let ?db = "db\<lparr>USERS := USERS db @ [?r]\<rparr>"
  have row: "user_of ?r = u" "user_row_ok ?r"
    using assms(2) by (auto simp: user_of_def parse_user_def valid_user_def strip_key_colony_key CreateUser_def user_row_ok_def)
  have "AddUser (Some u) db = (Inr (), ?db)"
    using assms user_name_free[OF assms]
    by (simp add: AddUser_def bindM_def users_ok_def GetUserByName_run find_user_def user_key_def
        sql_exec_healthy insert_row_def)
  moreover have "users_ok ?db" using assms(1) row(2) by (simp add: users_ok_def)
  moreover have "find_user ?db k = (if k = user_key u then Some u else find_user db k)" for k
    using assms(2,3) row(1)
    by (cases k) (auto simp: find_user_def find_snoc user_key_def valid_user_def colony_key_inj split: option.splits)
  ultimately show ?thesis by blast
qed

interpretation users: registry users_ok find_user "\<lambda>k. GetUserByName (fst k) (snd k)"
  "\<lambda>u. AddUser (Some u)" user_key valid_user "\<lambda>_ u. u" user_taken
proof
  show "GetUserByName (fst k) (snd k) db = (Inr (find_user db k), db)"
    if "users_ok db" for db :: "'a pq_state_scheme" and k
    using that by (simp add: users_ok_def GetUserByName_run find_user_def)
  show "AddUser (Some u) db = (Inl (user_taken u), db)"
    if "users_ok db" "find_user db (user_key u) \<noteq> None" for db :: "'a pq_state_scheme" and u
    using that by (auto simp: users_ok_def AddUser_def bindM_def GetUserByName_run find_user_def
        user_key_def user_taken_def)
qed (rule AddUser_free)

subsection \<open>Colonies\<close>

definition find_colony :: "'z pq_state_scheme \<Rightarrow> string \<Rightarrow> Colony option" where
  "find_colony db n = map_option parse_colony (find (\<lambda>r. CO_NAME r = n) (COLONIES db))"

definition colony_taken :: "Colony \<Rightarrow> failure" where
  "colony_taken c = Err (''Colony with name <'' @ colony_Name c @ ''> already exists'')"

lemma AddColony_free:
  assumes "healthy db" "find_colony db (colony_Name c) = None"
  shows "\<exists>db'. AddColony (Some c) db = (Inr (), db') \<and> healthy db' \<and>
    (\<forall>k. find_colony db' k = (if k = colony_Name c then Some c else find_colony db k))"
proof -
  let ?r = "\<lparr>CO_NAME = colony_Name c, CO_COLONY_ID = colony_ID c\<rparr>"
  let ?db = "db\<lparr>COLONIES := COLONIES db @ [?r]\<rparr>"
  have "colony_Name c \<notin> CO_NAME ` set (COLONIES db)"
    using assms(2) by (auto simp: find_colony_def find_None_iff)
  then have "AddColony (Some c) db = (Inr (), ?db)"
    using assms by (simp add: AddColony_def bindM_def GetColonyByName_run find_colony_def sql_exec_healthy insert_row_def)
  moreover have "find_colony ?db k = (if k = colony_Name c then Some c else find_colony db k)" for k
    using assms(2) by (auto simp: find_colony_def find_snoc parse_colony_def CreateColony_def split: option.splits)
  ultimately show ?thesis using assms(1) by auto
qed

interpretation colonies: registry healthy find_colony GetColonyByName
  "\<lambda>c. AddColony (Some c)" colony_Name "\<lambda>_. True" "\<lambda>_ c. c" colony_taken
proof
  show "GetColonyByName k db = (Inr (find_colony db k), db)"
    if "healthy db" for db :: "'a pq_state_scheme" and k
    using that by (simp add: GetColonyByName_run find_colony_def)
  show "AddColony (Some c) db = (Inl (colony_taken c), db)"
    if "healthy db" "find_colony db (colony_Name c) \<noteq> None" for db :: "'a pq_state_scheme" and c
    using that by (auto simp: AddColony_def bindM_def GetColonyByName_run find_colony_def colony_taken_def)
qed (rule AddColony_free)

section \<open>Removing\<close>

lemma RemoveExecutorByName_run:
  assumes "executors_ok db" "find_executor db (c, n) = Some e"
  shows "RemoveExecutorByName c n db = (Inr (),
    db\<lparr>EXECUTORS := delete_where (\<lambda>r. EX_COLONY_NAME r = c \<and> EX_NAME r = colony_key c n) (EXECUTORS db),
       PROCESSES := update_where (\<lambda>r. PR_ASSIGNED_EXECUTOR_ID r = exec_ID e \<and> PR_STATE r = RUNNING) requeue_row (PROCESSES db),
       FUNCTIONS := delete_where (\<lambda>r. FN_COLONY_NAME r = exec_ColonyName e \<and> FN_EXECUTOR_NAME r = exec_Name e) (FUNCTIONS db)\<rparr>)"
  using assms executors.find_run[OF assms(1), of "(c, n)"]
  by (simp add: RemoveExecutorByName_def bindM_def thenM_def executors_ok_def delete_executors_def requeue_processes_def
      RemoveFunctionsByExecutorName_def delete_functions_def sql_exec_healthy)


text \<open>What is left of a database when a colony is removed: no row of it, every row of others.\<close>

definition without_colony :: "string \<Rightarrow> 'z pq_state_scheme \<Rightarrow> 'z pq_state_scheme" where
  "without_colony c db = db\<lparr>
     PROCESSES := filter (\<lambda>r. PR_TARGET_COLONY_NAME r \<noteq> c) (PROCESSES db),
     ATTRIBUTES := filter (\<lambda>r. AT_TARGET_COLONY_NAME r \<noteq> c) (ATTRIBUTES db),
     PROCESSGRAPHS := filter (\<lambda>r. PG_TARGET_COLONY_NAME r \<noteq> c) (PROCESSGRAPHS db),
     COLONIES := filter (\<lambda>r. CO_NAME r \<noteq> c) (COLONIES db),
     USERS := filter (\<lambda>r. US_COLONY_NAME r \<noteq> c) (USERS db),
     EXECUTORS := filter (\<lambda>r. EX_COLONY_NAME r \<noteq> c) (EXECUTORS db),
     FUNCTIONS := filter (\<lambda>r. FN_COLONY_NAME r \<noteq> c) (FUNCTIONS db),
     LOGS := filter (\<lambda>r. LG_COLONY_NAME r \<noteq> c) (LOGS db),
     FILES := filter (\<lambda>r. FI_COLONY_NAME r \<noteq> c) (FILES db),
     SNAPSHOTS := filter (\<lambda>r. SN_COLONY_NAME r \<noteq> c) (SNAPSHOTS db),
     GENERATORS := filter (\<lambda>r. GE_COLONY_NAME r \<noteq> c) (GENERATORS db),
     GENERATORARGS := filter (\<lambda>r. GA_COLONY_NAME r \<noteq> c) (GENERATORARGS db),
     CRONS := filter (\<lambda>r. CR_COLONY_NAME r \<noteq> c) (CRONS db)\<rparr>"

lemma filter_requeued:
  "filter (\<lambda>r. PR_TARGET_COLONY_NAME r \<noteq> c) (update_where (\<lambda>r. PR_TARGET_COLONY_NAME r = c \<and> Q r) requeue_row rows) =
   filter (\<lambda>r. PR_TARGET_COLONY_NAME r \<noteq> c) rows"
  by (induction rows) (auto simp: update_where_def requeue_row_def)

lemma delete_colony_processes:
  "delete_where (\<lambda>r. PR_TARGET_COLONY_NAME r = c \<and> PR_PROCESSGRAPH_ID r \<noteq> '''')
     (delete_where (\<lambda>r. PR_TARGET_COLONY_NAME r = c \<and> PR_PROCESSGRAPH_ID r = '''') rows) =
   filter (\<lambda>r. PR_TARGET_COLONY_NAME r \<noteq> c) rows"
  by (induction rows) (auto simp: delete_where_def)

lemma absorb: "((a \<or> b) \<and> b) = b"
  by blast

lemma delete_twice: "delete_where P (delete_where Q rows) = filter (\<lambda>r. \<not> P r \<and> \<not> Q r) rows"
  by (simp add: delete_where_def conj_commute)

section \<open>Properties\<close>

text \<open>
  C29: an executor whose name and colony name have no colon, and whose name is free in its colony, is
  added; \<open>GetExecutorByName\<close> then returns it as it was given, with state PENDING and the time of the
  call as its commission time; a second executor of that name is refused and nothing changes, and
  lookups of other names give what they gave before.
\<close>

theorem executor_registration:
  assumes "executors_ok db" "valid_executor e" "find_executor db (executor_key e) = None"
  shows "\<exists>db'. AddExecutor (Some e) db = (Inr (), db') \<and>
    GetExecutorByName (exec_ColonyName e) (exec_Name e) db' =
      (Inr (Some (e\<lparr>exec_State := PENDING, exec_CommissionTime := env_clock db (env_ticks db)\<rparr>)), db') \<and>
    (\<forall>w. executor_key w = executor_key e \<longrightarrow> AddExecutor (Some w) db' = (Inl (executor_taken w), db')) \<and>
    (\<forall>c n. (c, n) \<noteq> executor_key e \<longrightarrow> GetExecutorByName c n db' = (Inr (find_executor db (c, n)), db'))"
proof -
  obtain db' where "AddExecutor (Some e) db = (Inr (), db')"
    "GetExecutorByName (exec_ColonyName e) (exec_Name e) db' = (Inr (Some (stored_executor db e)), db')"
    "\<forall>w. executor_key w = executor_key e \<longrightarrow> AddExecutor (Some w) db' = (Inl (executor_taken w), db')"
    "\<forall>k. k \<noteq> executor_key e \<longrightarrow> GetExecutorByName (fst k) (snd k) db' = (Inr (find_executor db k), db')"
    using executors.add_find[OF assms] by (auto simp: executor_key_def)
  then show ?thesis by (auto simp: stored_executor_def)
qed

theorem executor_registration_witness:
  "\<exists>db'. AddExecutor (Some demo_executor) (demo_db WAITING WAITING) = (Inr (), db') \<and>
     GetExecutorByName ''c'' ''exec'' db' = (Inr (Some (demo_executor\<lparr>exec_CommissionTime := 100\<rparr>)), db')"
proof -
  have "executors_ok (demo_db WAITING WAITING)" "find_executor (demo_db WAITING WAITING) k = None" for k
    by (simp_all add: executors_ok_def find_executor_def, simp_all add: demo_db_def new_pq_def)
  moreover have "valid_executor demo_executor"
    by (simp add: valid_executor_def demo_executor_def CreateExecutor_def zero_Capabilities_def zero_GPU_def int4_def no_colon_def)
  ultimately show ?thesis
    using executor_registration[of "demo_db WAITING WAITING" demo_executor]
    by (auto simp: demo_executor_def CreateExecutor_def demo_db_def new_pq_def)
qed


text \<open>
  C35: nothing refuses an executor whose name has a colon, but once it is in the table every listing of
  the executors of its colony fails, as does looking it up by name and removing it by name.
\<close>

theorem executor_name_with_colon:
  assumes "executors_ok db" "\<not> no_colon (exec_Name e)"
    and "int4 (hw_Nodes (cap_Hardware (exec_Capabilities e)))"
    and "int4 (gpu_NodeCount (hw_GPU (cap_Hardware (exec_Capabilities e))))"
    and "colony_key (exec_ColonyName e) (exec_Name e) \<notin> EX_NAME ` set (EXECUTORS db)"
  defines "failed \<equiv> Err ''Failed to parse Executor name''"
  shows "\<exists>db'. AddExecutor (Some e) db = (Inr (), db') \<and>
    GetExecutorsByColonyName (exec_ColonyName e) db' = (Inl failed, db') \<and>
    GetExecutorByName (exec_ColonyName e) (exec_Name e) db' = (Inl failed, db') \<and>
    RemoveExecutorByName (exec_ColonyName e) (exec_Name e) db' = (Inl failed, db')"
proof -
  let ?r = "executor_row_of (env_clock db (env_ticks db)) e"
  let ?db = "db\<lparr>env_ticks := Suc (env_ticks db), EXECUTORS := EXECUTORS db @ [?r]\<rparr>"
  have row: "EX_NAME ?r = colony_key (exec_ColonyName e) (exec_Name e)" "EX_COLONY_NAME ?r = exec_ColonyName e"
    "int4 (EX_HWNODES ?r)" "int4 (EX_HWGPUNODECOUNT ?r)"
    using assms(3,4) by (simp_all add: executor_row_of_def Let_def)
  have healthy: "healthy ?db" using assms(1) by (simp add: executors_ok_def healthy_def)
  have "find (\<lambda>r. EX_COLONY_NAME r = exec_ColonyName e \<and> EX_NAME r = colony_key (exec_ColonyName e) (exec_Name e)) (EXECUTORS db) = None"
    using assms(5) by (auto simp: find_None_iff image_iff)
  then have get: "GetExecutorByName (exec_ColonyName e) (exec_Name e) db = (Inr None, db)"
    using assms(1) by (simp add: executors_ok_def GetExecutorByName_run)
  have add: "AddExecutor (Some e) db = (Inr (), ?db)"
    using get assms(1,5) row
    by (auto simp: AddExecutor_def bindM_def time_Now_run tryM_def insert_executor_def sql_exec_healthy
        executors_ok_def insert_row_def)
  have fails: "select_executors P ?db = (Inl failed, ?db)" if "P ?r" for P
  proof -
    have "parse_executor ?r = Inl failed"
      using assms(2) by (simp add: parse_executor_def row strip_key_colon failed_def)
    moreover have "parse_executor y = Inl failed \<or> (\<exists>z. parse_executor y = Inr z)" for y
      by (auto simp: parse_executor_def strip_key_def failed_def split: list.splits)
    ultimately have "mapM (\<lambda>r. liftE (parse_executor r)) (filter P (EXECUTORS ?db)) ?db = (Inl failed, ?db)"
      using that by (intro mapM_liftE_Inl[of ?r]) simp_all
    moreover have "sql_query (\<lambda>db. Inr (filter P (EXECUTORS db))) ?db = (Inr (filter P (EXECUTORS ?db)), ?db)"
      by (rule sql_query_healthy[OF healthy])
    ultimately show ?thesis
      by (simp only: select_executors_def parseExecutors_def bindM_def prod.case sum.case)
  qed
  have "GetExecutorsByColonyName (exec_ColonyName e) ?db = (Inl failed, ?db)"
    unfolding GetExecutorsByColonyName_def by (rule fails) (simp add: row)
  moreover have get': "GetExecutorByName (exec_ColonyName e) (exec_Name e) ?db = (Inl failed, ?db)"
    unfolding GetExecutorByName_def by (rule bindM_Inl, rule fails) (simp add: row)
  moreover have "RemoveExecutorByName (exec_ColonyName e) (exec_Name e) ?db = (Inl failed, ?db)"
    unfolding RemoveExecutorByName_def by (rule bindM_Inl, rule get')
  ultimately show ?thesis using add by blast
qed

theorem executor_name_with_colon_witness:
  "\<exists>db'. AddExecutor (Some (demo_executor\<lparr>exec_Name := ''a:b''\<rparr>)) (demo_db WAITING WAITING) = (Inr (), db') \<and>
     GetExecutorsByColonyName ''c'' db' = (Inl (Err ''Failed to parse Executor name''), db')"
proof -
  have "EXECUTORS (demo_db WAITING WAITING) = []" by (simp add: demo_db_def new_pq_def)
  then show ?thesis
    using executor_name_with_colon[of "demo_db WAITING WAITING" "demo_executor\<lparr>exec_Name := ''a:b''\<rparr>"]
    by (auto simp: executors_ok_def demo_executor_def CreateExecutor_def zero_Capabilities_def zero_GPU_def int4_def)
qed

text \<open>
  C36: removing an executor deletes its row and its functions and puts exactly the processes that run on
  it back to the queue, unassigned and WAITING; the other processes and executors stay as they are.
\<close>

theorem RemoveExecutorByName_requeues:
  assumes "executors_ok db" "find_executor db (c, n) = Some e"
  shows "\<exists>db'. RemoveExecutorByName c n db = (Inr (), db') \<and> find_executor db' (c, n) = None \<and>
    (\<forall>k. k \<noteq> (c, n) \<longrightarrow> find_executor db' k = find_executor db k) \<and>
    PROCESSES db' = map (\<lambda>r. if PR_ASSIGNED_EXECUTOR_ID r = exec_ID e \<and> PR_STATE r = RUNNING then requeue_row r else r) (PROCESSES db) \<and>
    FUNCTIONS db' = filter (\<lambda>r. \<not> (FN_COLONY_NAME r = exec_ColonyName e \<and> FN_EXECUTOR_NAME r = exec_Name e)) (FUNCTIONS db)"
proof -
  let ?P = "\<lambda>r. EX_COLONY_NAME r = c \<and> EX_NAME r = colony_key c n"
  have "find_executor (db\<lparr>EXECUTORS := delete_where ?P (EXECUTORS db), PROCESSES := ps, FUNCTIONS := fs\<rparr>) k =
      (if k = (c, n) then None else find_executor db k)" for k ps fs
  proof -
    have other: "find (\<lambda>r. EX_COLONY_NAME r = fst k \<and> EX_NAME r = colony_key (fst k) (snd k)) (filter (\<lambda>r. \<not> ?P r) rows) =
        find (\<lambda>r. EX_COLONY_NAME r = fst k \<and> EX_NAME r = colony_key (fst k) (snd k)) rows" if "k \<noteq> (c, n)" for rows
      using that by (intro find_filter_other) (cases k, auto simp: colony_key_def)
    have none: "find ?P (filter (\<lambda>r. \<not> ?P r) rows) = None" for rows
      by (auto simp: find_None_iff)
    show ?thesis using other[of "EXECUTORS db"] none[of "EXECUTORS db"]
      by (cases "k = (c, n)") (simp_all add: find_executor_def delete_where_def)
  qed
  then show ?thesis
    by (simp add: RemoveExecutorByName_run[OF assms] update_where_def delete_where_def)
qed

definition demo_members :: "pq_state" where
  "demo_members = (demo_db RUNNING WAITING)\<lparr>COLONIES := [\<lparr>CO_NAME = ''c'', CO_COLONY_ID = ''i''\<rparr>, \<lparr>CO_NAME = ''d'', CO_COLONY_ID = ''j''\<rparr>],
     EXECUTORS := [executor_row_of 0 demo_executor]\<rparr>"

lemma valid_demo_executor: "valid_executor demo_executor"
  by (simp add: valid_executor_def demo_executor_def CreateExecutor_def zero_Capabilities_def zero_GPU_def int4_def)

lemma demo_executor_row:
  "executor_row_ok (executor_row_of t demo_executor)" "executor_of (executor_row_of 0 demo_executor) = demo_executor"
  "EX_EXECUTOR_ID (executor_row_of t demo_executor) = ''e''" "EX_COLONY_NAME (executor_row_of t demo_executor) = ''c''"
  "EX_NAME (executor_row_of t demo_executor) = colony_key ''c'' ''exec''"
  using executor_of_row_of[OF valid_demo_executor]
  by (simp_all add: demo_executor_def CreateExecutor_def executor_row_of_def Let_def)

theorem RemoveExecutorByName_requeues_witness:
  "\<exists>db'. RemoveExecutorByName ''c'' ''exec'' demo_members = (Inr (), db') \<and>
     PROCESSES db' = [requeue_row (demo_row ''a'' RUNNING [] [''b'']), demo_row ''b'' WAITING [''a''] []]"
proof -
  have "executors_ok demo_members" "find_executor demo_members (''c'', ''exec'') = Some demo_executor"
    by (simp_all add: executors_ok_def find_executor_def demo_members_def demo_executor_row)
  from RemoveExecutorByName_requeues[OF this] show ?thesis
    by (auto simp: demo_members_def demo_db_def demo_row_def demo_executor_def CreateExecutor_def state_defs)
qed

text \<open>
  C37: removing an existing colony leaves no row of it in any of the thirteen tables that name a
  colony and every row of other colonies as it was; the server id stays too.
\<close>

theorem RemoveColonyByName_removes_all:
  assumes "healthy db" "find_colony db c \<noteq> None"
  shows "RemoveColonyByName c db = (Inr (), without_colony c db)"
proof -
  obtain r where r: "find (\<lambda>r. CO_NAME r = c) (COLONIES db) = Some r" using assms(2) by (auto simp: find_colony_def)
  then have "CO_NAME r = c" by (auto simp: find_Some_iff)
  then obtain co where co: "GetColonyByName c db = (Inr (Some co), db)" "colony_Name co = c"
    using colonies.find_run[OF assms(1), of c] r by (simp add: find_colony_def parse_colony_def CreateColony_def)
  show ?thesis
    using assms(1) co
    by (simp add: RemoveColonyByName_def bindM_def thenM_def sql_exec_healthy
        RemoveUsersByColonyName_def delete_users_def RemoveExecutorsByColonyName_def delete_executors_def
        requeue_processes_def RemoveFunctionsByColonyName_def delete_functions_def
        RemoveAllProcessesByColonyName_def delete_processes_def RemoveAllAttributesByColonyName_def delete_attributes_def
        RemoveAllProcessGraphsByColonyName_def delete_graphs_def RemoveAllProcessesInProcessGraphsByColonyName_def
        RemoveAllAttributesInProcessGraphsByColonyName_def RemoveAllGeneratorsByColonyName_def delete_generators_def
        RemoveAllGeneratorArgsByColonyName_def delete_generatorargs_def RemoveAllCronsByColonyName_def delete_crons_def
        RemoveLogsByColonyName_def RemoveFilesByColonyName_def RemoveSnapshotsByColonyName_def
        without_colony_def delete_colony_processes filter_requeued delete_twice)
      (rule pq_state.equality; simp add: delete_where_def absorb)
qed

theorem RemoveColonyByName_removes_all_witness:
  "\<exists>db'. RemoveColonyByName ''c'' demo_members = (Inr (), db') \<and> PROCESSES db' = [] \<and> EXECUTORS db' = [] \<and>
     COLONIES db' = [\<lparr>CO_NAME = ''d'', CO_COLONY_ID = ''j''\<rparr>]"
proof -
  have "healthy demo_members" "find_colony demo_members ''c'' \<noteq> None"
    by (simp_all add: demo_members_def find_colony_def)
  from RemoveColonyByName_removes_all[OF this] show ?thesis
    by (simp add: without_colony_def demo_members_def demo_executor_row demo_db_def demo_row_def new_pq_def)
qed


end
