(* ===== verification/Controller_Facts.thy ===== *)
theory Controller_Facts
  imports Lifecycle Pq_Member_Facts
begin

text \<open>
  What single handlers do: exclusive assignment, the guards of closing a process, pausing and
  resuming, unassigning and the retry budget of the timeout loop.
\<close>

section \<open>Statements that succeed\<close>

lemma update_process_Inr:
  assumes "update_process pid f s = (Inr u, s')"
  shows "PROCESSES s' = update_where (\<lambda>r. PR_PROCESS_ID r = pid) f (PROCESSES s)"
  using assms
  by (auto simp: update_process_def sql_exec_def sql_connection_def thenM_def bindM_def
      split: list.splits if_splits prod.splits)

lemma derefM_eq_Inr [elim!]:
  assumes "derefM found s = (Inr x, t)"
  obtains "found = Some x" "t = s"
  using assms by (cases found) auto

lemma row_after_update:
  assumes "GetProcessByID pid s = (Inr (Some q), s1)" "update_process pid f s2 = (Inr u, s3)"
    and "PROCESSES s2 = PROCESSES s1" "SetAttributeState pid st s3 = (Inr v, s')"
    and "\<And>r. PR_PROCESS_ID (f r) = PR_PROCESS_ID r"
  shows "\<exists>r. find_row pid s' = Some (f r)"
proof -
  obtain r as es where r: "find_row pid s = Some r" "PROCESSES s1 = PROCESSES s"
    using GetProcessByID_Some[OF assms(1)] by blast
  then have "find_row pid s2 = Some r" using assms(3) by (simp add: find_row_def)
  then have "find_row pid (upd_row pid f s2) = Some (f r)" using assms(5) by (simp add: find_row_upd)
  moreover have "PROCESSES s' = PROCESSES s3"
    using reads_only_readers(4) assms(4) by (rule reads_onlyD)
  then have "PROCESSES s' = PROCESSES (upd_row pid f s2)"
    using update_process_Inr[OF assms(2)] by (simp add: upd_row_def)
  ultimately show ?thesis by (auto simp: find_row_def)
qed

lemma AssignProcess_Inr:
  assumes "AssignProcess eid p s = (Inr p', s')"
  shows "proc_ID p' = proc_ID p"
    "\<exists>r. find_row (proc_ID p) s' = Some r \<and> PR_STATE r = RUNNING \<and> PR_IS_ASSIGNED r \<and> PR_ASSIGNED_EXECUTOR_ID r = eid"
proof -
  show "proc_ID p' = proc_ID p"
    using assms by (auto simp: AssignProcess_def Let_def setter_defs elim!: bindM_eq_Inr thenM_eq_Inr split: if_splits)
  show "\<exists>r. find_row (proc_ID p) s' = Some r \<and> PR_STATE r = RUNNING \<and> PR_IS_ASSIGNED r \<and> PR_ASSIGNED_EXECUTOR_ID r = eid"
  proof (cases "spec_MaxExecTime (proc_FunctionSpec p) > 0")
    case True
    with assms obtain q s1 t t' s3 where get: "GetProcessByID (proc_ID p) s = (Inr (Some q), s1)"
      and upd: "update_process (proc_ID p) (\<lambda>r. r\<lparr>PR_IS_ASSIGNED := True, PR_START_TIME := t,
            PR_ASSIGNED_EXECUTOR_ID := eid, PR_STATE := RUNNING, PR_EXEC_DEADLINE := t'\<rparr>)
            (s1\<lparr>env_ticks := Suc (Suc (env_ticks s1))\<rparr>) = (Inr (), s3)"
      and att: "SetAttributeState (proc_ID p) RUNNING s3 = (Inr (), s')"
      by (auto simp: AssignProcess_def Let_def time_Now_run elim!: bindM_eq_Inr thenM_eq_Inr split: if_splits)
    from row_after_update[OF get upd _ att] show ?thesis by auto
  next
    case False
    with assms obtain q s1 t s3 where get: "GetProcessByID (proc_ID p) s = (Inr (Some q), s1)"
      and upd: "update_process (proc_ID p) (\<lambda>r. r\<lparr>PR_IS_ASSIGNED := True, PR_START_TIME := t,
            PR_ASSIGNED_EXECUTOR_ID := eid, PR_STATE := RUNNING\<rparr>)
            (s1\<lparr>env_ticks := Suc (env_ticks s1)\<rparr>) = (Inr (), s3)"
      and att: "SetAttributeState (proc_ID p) RUNNING s3 = (Inr (), s')"
      by (auto simp: AssignProcess_def Let_def time_Now_run elim!: bindM_eq_Inr thenM_eq_Inr split: if_splits)
    from row_after_update[OF get upd _ att] show ?thesis by auto
  qed
qed

section \<open>Exclusive assignment\<close>

lemma collect_input_ID: "collect_input p s = (Inr q, s') \<Longrightarrow> proc_ID q = proc_ID p"
  by (auto simp: collect_input_def elim!: bindM_eq_Inr thenM_eq_Inr split: if_splits)

lemma resolve_assigned_ID: "resolve_assigned others p s = (Inr q, s') \<Longrightarrow> proc_ID q = proc_ID p"
  by (auto simp: resolve_assigned_def elim!: bindM_eq_Inr thenM_eq_Inr split: if_splits dest: collect_input_ID)

text \<open>The states between the steps of an assignment that returned a process.\<close>

lemma ctl_assign_steps:
  assumes "ctl_assign srt others eid c cpu mem s = (Inr res, s')" "ar_Process res = Some p"
  obtains e s1 s2 p1 p2 s3 where
    "Select FindCandidates FindCandidatesByName srt c e cpu mem s1 = (Inr p1, s2)"
    "AssignProcess eid p1 s2 = (Inr p2, s3)" "resolve_assigned others p2 s3 = (Inr p, s')" "forward s s1"
proof -
  from assms(1) obtain found t1 where found: "GetExecutorByID eid s = (Inr found, t1)"
    unfolding ctl_assign_def by (auto elim: bindM_eq_Inr)
  with assms obtain e where e: "found = Some e"
    by (cases found) (auto simp: ctl_assign_def bindM_def)
  with assms found obtain t2 paused t3 where t: "MarkAlive e t1 = (Inr (), t2)"
    "AreColonyAssignmentsPaused c t2 = (Inr paused, t3)"
    unfolding ctl_assign_def by (auto elim!: bindM_eq_Inr thenM_eq_Inr)
  with assms found e have np: "\<not> paused"
    by (auto simp: ctl_assign_def bindM_def thenM_def createResumeChannel_def Let_def)
  have f: "forward s t1" "forward t1 t2" "forward t2 t3"
    using keepsD[OF fwd_members(1), of s eid] keepsD[OF fwd_members(4), of t1 e]
      found t(1) keepsD[of forward "AreColonyAssignmentsPaused c" t2] t(2)
    by (auto simp: AreColonyAssignmentsPaused_def intro!: fwd_ops)
  from assms found e t np obtain sel t4 where
    sel: "tryM (Select FindCandidates FindCandidatesByName srt c e cpu mem) t3 = (Inr sel, t4)"
    and rest: "(case sel of
                Inl err \<Rightarrow>
                  if err_text err = ''No processes can be selected for executor with Id <'' @ eid @ ''>''
                  then retM no_process else throwM err
              | Inr selected \<Rightarrow>
                  bindM (AssignProcess eid selected) (\<lambda>selectedProcess.
                  bindM (resolve_assigned others selectedProcess) (\<lambda>process.
                  retM \<lparr>ar_Process = Some process, ar_IsPaused = False, ar_ResumeChannel = None\<rparr>))) t4 = (Inr res, s')"
    by (auto simp: ctl_assign_def select_and_assign_def bindM_def thenM_def split: prod.splits sum.splits if_splits)
  then obtain p1 where p1: "sel = Inr p1"
    using assms(2) by (cases sel) (auto simp: no_process_def split: if_splits)
  then have s: "Select FindCandidates FindCandidatesByName srt c e cpu mem t3 = (Inr p1, t4)"
    using sel by (auto simp: tryM_def split: prod.splits sum.splits if_splits)
  from rest p1 assms(2) obtain p2 s3 where "AssignProcess eid p1 t4 = (Inr p2, s3)" "resolve_assigned others p2 s3 = (Inr p, s')"
    by (auto elim!: bindM_eq_Inr)
  with s f that fwd.rel_trans show thesis by metis
qed

lemma forward_find:
  assumes "forward s t" "distinct (process_ids s)" "find_row pid s = Some r"
  obtains r' where "find_row pid t = Some r'" "moves_forward r r'"
  using processes_grow_find[OF assms(1)[unfolded forward_def] assms(2,3)]
  by (metis moves_forward_def same_spec_id)

lemma forward_distinct: "forward s t \<Longrightarrow> distinct (process_ids s) \<Longrightarrow> distinct (process_ids t)"
  by (simp add: forward_def processes_grow_def)

lemma from_waiting_find:
  assumes "from_waiting_row s p" "distinct (process_ids s)"
  obtains r where "find_row (proc_ID p) s = Some r" "PR_STATE r = WAITING" "\<not> PR_IS_ASSIGNED r"
  using assms find_row_distinct by (fastforce simp: from_waiting_row_def)

lemma assigned_runs:
  assumes "ctl_assign srt others eid c cpu mem s = (Inr res, s')" "ar_Process res = Some p"
    and "sorts_priority srt" "\<And>x. forward x (others x)" "distinct (process_ids s)"
  shows "\<exists>r. find_row (proc_ID p) s' = Some r \<and> RUNNING \<le> PR_STATE r \<and> valid_state (PR_STATE r)" "forward s s'"
    "\<exists>r t. forward s t \<and> find_row (proc_ID p) t = Some r \<and> PR_STATE r = WAITING"
proof -
  obtain e s1 s2 p1 p2 s3 where sel: "Select FindCandidates FindCandidatesByName srt c e cpu mem s1 = (Inr p1, s2)"
    and asg: "AssignProcess eid p1 s2 = (Inr p2, s3)" and res: "resolve_assigned others p2 s3 = (Inr p, s')" and f1: "forward s s1"
    by (rule ctl_assign_steps[OF assms(1,2)])
  note w = Select_from_waiting[OF sel assms(3)]
  have id: "proc_ID p = proc_ID p1" using resolve_assigned_ID[OF res] AssignProcess_Inr(1)[OF asg] by simp
  have "forward s2 s3" using upto_forward[OF upto_AssignProcess from_waiting_may_run[OF w], of eid] asg by simp
  moreover have f12: "forward s1 s2" using w(2) by (simp add: fwd.rel_same)
  ultimately have f3: "forward s s3" using f1 fwd.rel_trans by blast
  have f4: "forward s3 s'" using keepsD[OF fwd_run.keeps_resolve_assigned[OF assms(4)], of s3 p2] res by simp
  show "forward s s'" using f3 f4 fwd.rel_trans by blast
  obtain r where r: "find_row (proc_ID p) s3 = Some r" "PR_STATE r = RUNNING"
    using AssignProcess_Inr(2)[OF asg] id by auto
  obtain r' where "find_row (proc_ID p) s' = Some r'" "moves_forward r r'"
    using forward_find[OF f4 forward_distinct[OF f3 assms(5)] r(1)] by blast
  with r(2) show "\<exists>r. find_row (proc_ID p) s' = Some r \<and> RUNNING \<le> PR_STATE r \<and> valid_state (PR_STATE r)"
    by (auto simp: moves_forward_def valid_state_def)
  show "\<exists>r t. forward s t \<and> find_row (proc_ID p) t = Some r \<and> PR_STATE r = WAITING"
    using from_waiting_find[OF w(1) forward_distinct[OF f1 assms(5)]] f1 id by metis
qed

text \<open>
  C4: an executor is given a process that no one else was given, as long as no executor is removed or registers
  again and no round of the timeout loop puts processes back: after an assignment returned a process, no
  later assignment, to whichever executor and after whichever other requests, returns it again, also
  when statements fail and other servers work on the same tables during the retries.
\<close>

theorem assignment_exclusive:
  assumes "ctl_assign srt others eid c cpu mem s = (Inr res, s')" "ar_Process res = Some p"
    and "served srt A s' t"
    and "ctl_assign srt others2 eid2 c2 cpu2 mem2 t = (Inr res2, t')" "ar_Process res2 = Some q"
    and "sorts_priority srt" "\<forall>x. served srt A x (others x)" "\<forall>x. served srt A x (others2 x)" "distinct (process_ids s)"
    and "TimeoutRound \<notin> A" "\<forall>req \<in> A. \<not> removes_executor req"
  shows "proc_ID q \<noteq> proc_ID p"
proof
  assume eq: "proc_ID q = proc_ID p"
  note fwd = served_forward[OF _ assms(6,10,11)]
  have o: "forward x (others x)" "forward x (others2 x)" for x
    using assms(7,8) fwd by blast+
  note p = assigned_runs[OF assms(1,2,6) o(1) assms(9)]
  have st: "forward s t" using p(2) fwd[OF assms(3)] fwd.rel_trans by blast
  have dt: "distinct (process_ids t)" using forward_distinct[OF st assms(9)] .
  obtain r where r: "find_row (proc_ID p) s' = Some r" "RUNNING \<le> PR_STATE r" "valid_state (PR_STATE r)"
    using p(1) by blast
  obtain u w where u: "forward t u" "find_row (proc_ID p) u = Some w" "PR_STATE w = WAITING"
    using assigned_runs(3)[OF assms(4,5,6) o(2) dt] eq by auto
  have "forward s' u" using fwd[OF assms(3)] u(1) fwd.rel_trans by blast
  then obtain w' where "find_row (proc_ID p) u = Some w'" "moves_forward r w'"
    using forward_find[OF _ forward_distinct[OF p(2) assms(9)] r(1)] by blast
  then show False using u(2,3) r(2,3) by (auto simp: moves_forward_def state_defs)
qed

section \<open>Assignment step by step\<close>

text \<open>The state after the executor is marked alive and etcd was asked.\<close>

lemma assign_prefix:
  assumes "healthy s" "GetExecutorByID eid s = (Inr (Some e), s)" "ctl_etcd_client s"
    and "\<And>n. ctl_etcd_get s n (pause_key c) = Inr k"
  obtains s2 where "ctl_assign srt others eid c cpu mem s =
      (if k > 0 then bindM (createResumeChannel c) (\<lambda>ch. retM \<lparr>ar_Process = None, ar_IsPaused = True, ar_ResumeChannel = Some ch\<rparr>)
       else select_and_assign srt others eid c e cpu mem) s2"
    "healthy s2" "PROCESSES s2 = PROCESSES s" "PROCESSGRAPHS s2 = PROCESSGRAPHS s" "ATTRIBUTES s2 = ATTRIBUTES s" "env_hash s2 = env_hash s"
    "ctl_pauseChannels s2 = ctl_pauseChannels s" "ctl_nextChannel s2 = ctl_nextChannel s"
    "ctl_etcd_client s2" "ctl_etcd_write s2 = ctl_etcd_write s" "ctl_channelFull s2 = ctl_channelFull s"
proof -
  define s1 where "s1 = (s\<lparr>env_ticks := Suc (env_ticks s)\<rparr>)\<lparr>EXECUTORS := update_where (\<lambda>r. EX_EXECUTOR_ID r = exec_ID e)
     (\<lambda>r. r\<lparr>EX_LASTHEARDFROM := env_clock s (env_ticks s)\<rparr>) (EXECUTORS s)\<rparr>"
  have "MarkAlive e s = (Inr (), s1)"
    using assms(1) by (simp add: MarkAlive_def bindM_def time_Now_run update_executors_def sql_exec_healthy s1_def)
  moreover have "AreColonyAssignmentsPaused c s1 = (Inr (k > 0), s1\<lparr>env_ticks := Suc (env_ticks s1)\<rparr>)"
    using assms(3,4) by (simp add: AreColonyAssignmentsPaused_def bindM_def etcd_ask_def s1_def)
  ultimately show thesis
    using assms(1-3) by (intro that[of "s1\<lparr>env_ticks := Suc (env_ticks s1)\<rparr>"])
      (simp_all add: ctl_assign_def bindM_def[of "GetExecutorByID _"] thenM_Inr bindM_Inr[of "AreColonyAssignmentsPaused c"] s1_def)
qed

lemma GetExecutorByID_has_ID:
  assumes "GetExecutorByID eid s = (Inr (Some e), s')"
  shows "exec_ID e = eid"
proof -
  have m: "list_all2 (\<lambda>r e. exec_ID e = EX_EXECUTOR_ID r) rows es"
    if "mapM (\<lambda>r. liftE (parse_executor r)) rows t = (Inr es, t')" for rows es and t t' :: "'a pq_state_scheme"
    using that
  proof (induction rows arbitrary: es t t')
    case (Cons r rows)
    then show ?case
      by (auto simp: parse_executor_def CreateExecutorFromDB_def CreateExecutor_def strip_key_def
          elim!: bindM_eq_Inr split: list.splits)
  qed simp
  from assms obtain rows es t where "mapM (\<lambda>r. liftE (parse_executor r)) (filter (\<lambda>r. EX_EXECUTOR_ID r = eid) rows) t = (Inr es, s')"
    "(case es of [] \<Rightarrow> None | e # _ \<Rightarrow> Some e) = Some e"
    by (auto simp: GetExecutorByID_def select_executors_def parseExecutors_def sql_query_def
        elim!: bindM_eq_Inr thenM_eq_Inr)
  with m[OF this(1)] obtain z zs where z: "filter (\<lambda>r. EX_EXECUTOR_ID r = eid) rows = z # zs" "exec_ID e = EX_EXECUTOR_ID z"
    by (auto split: list.splits simp: list_all2_Cons2)
  then have "z \<in> set (filter (\<lambda>r. EX_EXECUTOR_ID r = eid) rows)" by simp
  with z(2) show ?thesis by simp
qed

lemma find_row_assigned:
  "find_row q (upd_row pid (assigned_row e m t u) db) =
   (if q = pid then map_option (assigned_row e m t u) (find_row q db) else find_row q db)"
  by (rule find_row_upd) (simp add: assigned_row_def Let_def)

text \<open>The tables once the process is assigned: only its row differs.\<close>

lemma AssignProcess_marks:
  assumes "healthy s" "find_row pid s = Some r" "\<not> PR_IS_ASSIGNED r"
  obtains v t u where "AssignProcess eid (process_view s r) s = (Inr ((process_view s r)\<lparr>proc_StartTime := t,
      proc_AssignedExecutorID := eid, proc_IsAssigned := True, proc_State := RUNNING\<rparr>), v)" "healthy v"
    "\<And>q. find_row q v = (if q = pid then Some (assigned_row eid (PR_MAX_EXEC_TIME r) t u r) else find_row q s)"
    "\<And>gid. find_graph gid v = find_graph gid s" "process_ids v = process_ids s"
proof -
  let ?p = "process_view s r"
  have id: "proc_ID ?p = pid" using find_row_id[OF assms(2)] by simp
  then have row: "find_row (proc_ID ?p) s = Some r" using assms(2) by simp
  define t u where "t = env_clock s (env_ticks s)" and "u = env_clock s (Suc (env_ticks s))"
  let ?m = "spec_MaxExecTime (proc_FunctionSpec ?p)"
  let ?v = "upd_attr_state (proc_ID ?p) RUNNING (upd_row (proc_ID ?p) (assigned_row eid ?m t u)
        (tick (if ?m > 0 then 2 else 1) s))"
  have "PR_PROCESS_ID (assigned_row eid ?m t u x) = PR_PROCESS_ID x" for x by (simp add: assigned_row_def Let_def)
  then show thesis
    using AssignProcess_ok[OF assms(1) row assms(3), of eid] assms(1,2) id
    by (intro that[of t ?v u]) (simp_all add: t_def u_def find_row_assigned find_graph_def)
qed

lemma assign_free_process:
  assumes "healthy s2" "find_row pid s2 = Some r" "\<not> PR_IS_ASSIGNED r" "PR_PROCESSGRAPH_ID r = ''''"
  shows "\<exists>p s' t u. bindM (AssignProcess eid (process_view s2 r)) (\<lambda>selectedProcess.
        bindM (resolve_assigned others selectedProcess) (\<lambda>process.
        retM \<lparr>ar_Process = Some process, ar_IsPaused = False, ar_ResumeChannel = None\<rparr>)) s2 =
      (Inr \<lparr>ar_Process = Some p, ar_IsPaused = False, ar_ResumeChannel = None\<rparr>, s') \<and>
     proc_ID p = pid \<and> proc_State p = RUNNING \<and> proc_AssignedExecutorID p = eid \<and>
     (\<forall>q. find_row q s' = (if q = pid then Some (assigned_row eid (PR_MAX_EXEC_TIME r) t u r) else find_row q s2))"
proof -
  obtain v t u where run: "AssignProcess eid (process_view s2 r) s2 = (Inr ((process_view s2 r)\<lparr>proc_StartTime := t,
      proc_AssignedExecutorID := eid, proc_IsAssigned := True, proc_State := RUNNING\<rparr>), v)" (is "_ = (Inr ?q, v)")
    and rows: "\<And>q. find_row q v = (if q = pid then Some (assigned_row eid (PR_MAX_EXEC_TIME r) t u r) else find_row q s2)"
    by (rule AssignProcess_marks[OF assms(1-3), of eid]) (use that in blast)
  have "resolve_assigned others ?q v = (Inr ?q, v)" using assms(4) by (simp add: resolve_assigned_def)
  then show ?thesis
    using run rows find_row_id[OF assms(2)] by (intro exI[of _ ?q] exI[of _ v] exI[of _ t] exI[of _ u]) (simp add: bindM_def)
qed

lemma foldM_reads:
  assumes "\<And>acc x. x \<in> set xs \<Longrightarrow> \<exists>acc'. f acc x s = (Inr acc', s)"
  shows "\<exists>acc'. foldM f acc xs s = (Inr acc', s)"
  using assms
proof (induction xs arbitrary: acc)
  case (Cons x xs)
  then obtain acc1 where "f acc x s = (Inr acc1, s)" by force
  moreover obtain acc2 where "foldM f acc1 xs s = (Inr acc2, s)" using Cons by force
  ultimately show ?case by (simp add: bindM_def)
qed simp

section \<open>Assignment in a graph\<close>

lemma table_views:
  assumes "\<And>q. find_row q u = (if q = pid then Some r' else find_row q s)" "find_row pid s = Some r"
    and "PR_PARENTS r' = PR_PARENTS r" "PR_CHILDREN r' = PR_CHILDREN r"
  shows "children_of u = children_of s" "parents_of u = parents_of s"
    "state_of u q = (if q = pid then PR_STATE r' else state_of s q)"
  using assms by (auto simp: fun_eq_iff children_of_def parents_of_def state_of_def)

lemma views_tick [simp]:
  "children_of (tick n s) = children_of s" "parents_of (tick n s) = parents_of s" "state_of (tick n s) = state_of s"
  "find_graph gid (tick n s) = find_graph gid s"
  by (auto simp: fun_eq_iff children_of_def parents_of_def state_of_def find_graph_def)

text \<open>The input of a process: the outputs of its parents, one after the other.\<close>

definition parents_output :: "'z pq_state_scheme \<Rightarrow> string list \<Rightarrow> iface list" where
  "parents_output s parents = concat (map (\<lambda>q. json_Unmarshal (PR_OUTPUT (row_of s q))) parents)"

lemma collect_input_run:
  assumes "healthy s" "\<forall>q \<in> set (proc_Parents p). find_row q s \<noteq> None"
  defines "out \<equiv> parents_output s (proc_Parents p)"
  shows "collect_input p s =
    (if proc_Parents p = [] then (Inr p, s)
     else (Inr (p\<lparr>proc_Input := out\<rparr>), upd_row (proc_ID p) (\<lambda>r. r\<lparr>PR_INPUT := json_Marshal out\<rparr>) s))"
proof -
  let ?step = "\<lambda>output parentID. bindM (GetProcessByID parentID) (\<lambda>found.
       bindM (derefM found) (\<lambda>parentProcess. retM (output @ proc_Output parentProcess)))"
  have "foldM ?step acc ps s = (Inr (acc @ parents_output s ps), s)" if "\<forall>q \<in> set ps. find_row q s \<noteq> None" for acc ps
    using that
  proof (induction ps arbitrary: acc)
    case (Cons q ps)
    then obtain r where "find_row q s = Some r" by auto
    then have "?step acc q s = (Inr (acc @ json_Unmarshal (PR_OUTPUT (row_of s q))), s)"
      using assms(1) by (simp add: bindM_def GetProcessByID_run row_of_def)
    then have "foldM ?step acc (q # ps) s = foldM ?step (acc @ json_Unmarshal (PR_OUTPUT (row_of s q))) ps s"
      unfolding foldM.simps by (rule bindM_Inr)
    also have "\<dots> = (Inr ((acc @ json_Unmarshal (PR_OUTPUT (row_of s q))) @ parents_output s ps), s)"
      using Cons.prems by (intro Cons.IH) simp
    finally show ?case by (simp only: parents_output_def list.map concat.simps append_assoc)
  qed (simp add: parents_output_def)
  from this[OF assms(2), of "[]"] have "foldM ?step [] (proc_Parents p) s = (Inr out, s)" by (simp only: out_def append_Nil)
  then have "collect_input p s = (if proc_Parents p \<noteq> []
      then thenM (ignoreM (SetInput (proc_ID p) out)) (retM (p\<lparr>proc_Input := out\<rparr>)) else retM p) s"
    unfolding collect_input_def by (rule bindM_Inr)
  then show ?thesis
    using assms(1) by (simp add: thenM_Inr ignoreM_Inr update_process_run SetInput_def)
qed

lemma resolve_retries_first:
  "Resolve g s = (Inr g', s') \<Longrightarrow> 0 < n \<Longrightarrow> resolve_retries n others g pid err s = (Inr (), s')"
  by (cases n) (simp_all add: bindM_def tryM_def)

lemma resolve_assigned_run:
  assumes "healthy s" "proc_ProcessGraphID p \<noteq> ''''" "find_graph (proc_ProcessGraphID p) s = Some g"
    and "\<And>n. \<exists>g' s'. Resolve (graph_view g) (tick n s) = (Inr g', s') \<and> P s' \<and> healthy s' \<and>
           (\<forall>q \<in> set (proc_Parents p). find_row q s' \<noteq> None)"
  obtains v where "P v" "healthy v" "resolve_assigned others p s =
    (if proc_Parents p = [] then (Inr p, v)
     else (Inr (p\<lparr>proc_Input := parents_output v (proc_Parents p)\<rparr>),
           upd_row (proc_ID p) (\<lambda>r. r\<lparr>PR_INPUT := json_Marshal (parents_output v (proc_Parents p))\<rparr>) v))"
proof -
  obtain n where get: "GetProcessGraphByID (proc_ProcessGraphID p) s = (Inr (Some (graph_view g)), tick n s)"
    using assms(1,3) by (simp add: GetProcessGraphByID_run)
  obtain g' v where v: "Resolve (graph_view g) (tick n s) = (Inr g', v)" "P v" "healthy v"
    "\<forall>q \<in> set (proc_Parents p). find_row q v \<noteq> None" using assms(4) by blast
  have "resolve_assigned others p s = collect_input p v"
    using assms(2) get resolve_retries_first[OF v(1), of 10]
    by (simp add: resolve_assigned_def bindM_Inr[of "GetProcessGraphByID _"] thenM_Inr bindM_def[of "retM _"])
  with that v collect_input_run[OF v(3,4)] show thesis by metis
qed

text \<open>
  The rows after a process of a graph was assigned: the process runs, with the outputs of its parents as input,
  and what has become ready in the graph stops waiting.
\<close>

definition assigned_in_graph ::
  "string set \<Rightarrow> (process_row \<Rightarrow> process_row) \<Rightarrow> string \<Rightarrow> 'z pq_state_scheme \<Rightarrow> string \<Rightarrow> process_row \<Rightarrow> process_row" where
  "assigned_in_graph G f pid s q x =
     (let y = (if q = pid then f x else x);
          z = y\<lparr>PR_WAIT_FOR_PARENTS := PR_WAIT_FOR_PARENTS y \<and> \<not> (q \<in> G \<and> parents_done s q)\<rparr>
      in if q = pid \<and> PR_PARENTS x \<noteq> [] then z\<lparr>PR_INPUT := json_Marshal (parents_output s (PR_PARENTS x))\<rparr> else z)"

lemma assigned_row_fields [simp]:
  "PR_STATE (assigned_row e m t u r) = RUNNING" "PR_PARENTS (assigned_row e m t u r) = PR_PARENTS r"
  "PR_CHILDREN (assigned_row e m t u r) = PR_CHILDREN r" "PR_OUTPUT (assigned_row e m t u r) = PR_OUTPUT r"
  by (simp_all add: assigned_row_def Let_def)

lemma assigned_views:
  assumes "\<And>q. find_row q v = (if q = pid then Some (assigned_row eid m t u r) else find_row q s)"
    and "find_row pid s = Some r" "PR_STATE r = WAITING" "process_ids v = process_ids s"
  shows "children_of v = children_of s" "graph_linked (tick n v) roots = graph_linked s roots"
    "parent_failed (tick n v) q = parent_failed s q" "parents_done (tick n v) q = parents_done s q"
proof -
  note views = table_views[OF assms(1,2)]
  show ch: "children_of v = children_of s" by (simp add: views)
  have pa: "parents_of v = parents_of s" by (simp add: views)
  have st: "state_of v x = (if x = pid then RUNNING else state_of s x)" for x by (simp add: views)
  have old: "state_of s pid = WAITING" using assms(2,3) by (simp add: state_of_def)
  show "graph_linked (tick n v) roots = graph_linked s roots"
    by (simp add: graph_linked_def graph_closed_def ch pa assms(4))
  have "state_of v x = FAILED \<longleftrightarrow> state_of s x = FAILED" "state_of v x = SUCCESS \<longleftrightarrow> state_of s x = SUCCESS" for x
    using old by (auto simp: st state_defs)
  then show "parent_failed (tick n v) q = parent_failed s q" "parents_done (tick n v) q = parents_done s q"
    by (simp_all only: parent_failed_def parents_done_def views_tick pa)
qed

lemma assign_ready_process:
  fixes s :: ctl_state
  assumes "healthy s" "find_row pid s = Some r" "\<not> PR_IS_ASSIGNED r" "PR_STATE r = WAITING" "PR_PROCESSGRAPH_ID r \<noteq> ''''"
    and "find_graph (PR_PROCESSGRAPH_ID r) s = Some g" "graph_linked s (PG_ROOTS g)"
  defines "G \<equiv> reachable (children_of s) (PG_ROOTS g)"
  assumes "pid \<in> G" "\<forall>q \<in> G. \<not> parent_failed s q"
  shows "\<exists>p s' t u. bindM (AssignProcess eid (process_view s r)) (\<lambda>selectedProcess.
        bindM (resolve_assigned others selectedProcess) (\<lambda>process.
        retM \<lparr>ar_Process = Some process, ar_IsPaused = False, ar_ResumeChannel = None\<rparr>)) s =
      (Inr \<lparr>ar_Process = Some p, ar_IsPaused = False, ar_ResumeChannel = None\<rparr>, s') \<and>
     proc_ID p = pid \<and> proc_State p = RUNNING \<and> proc_AssignedExecutorID p = eid \<and>
     (PR_PARENTS r \<noteq> [] \<longrightarrow> proc_Input p = parents_output s (PR_PARENTS r)) \<and>
     (\<forall>q. find_row q s' = map_option (assigned_in_graph G (assigned_row eid (PR_MAX_EXEC_TIME r) t u) pid s q) (find_row q s))"
proof -
  obtain v t u where run: "AssignProcess eid (process_view s r) s = (Inr ((process_view s r)\<lparr>proc_StartTime := t,
      proc_AssignedExecutorID := eid, proc_IsAssigned := True, proc_State := RUNNING\<rparr>), v)" (is "_ = (Inr ?q, v)")
    and hv: "healthy v"
    and rows: "\<And>q. find_row q v = (if q = pid then Some (assigned_row eid (PR_MAX_EXEC_TIME r) t u r) else find_row q s)"
    and gv: "\<And>gid. find_graph gid v = find_graph gid s" and ids: "process_ids v = process_ids s"
    by (rule AssignProcess_marks[OF assms(1-3), of eid]) (use that in blast)
  note views = assigned_views[OF rows assms(2,4) ids]
  have gid: "PG_PROCESSGRAPH_ID g = PR_PROCESSGRAPH_ID r" using assms(6) by (auto simp: find_graph_def find_Some_iff)
  have id: "PR_PROCESS_ID r = pid" using find_row_id[OF assms(2)] .
  have inG: "set (PR_PARENTS r) \<subseteq> G"
  proof -
    have "parents_of s pid = PR_PARENTS r" using assms(2) by (simp add: parents_of_def)
    then show ?thesis using assms(7,9) unfolding graph_linked_def G_def by metis
  qed
  have stored: "find_row q s \<noteq> None" if "q \<in> G" for q
    using that assms(7) by (auto simp: G_def graph_linked_def graph_closed_def find_row_None)
  let ?w = "\<lambda>q x. x\<lparr>PR_WAIT_FOR_PARENTS := PR_WAIT_FOR_PARENTS x \<and> \<not> (q \<in> G \<and> parents_done s q)\<rparr>"
  define P where "P w \<longleftrightarrow> (\<forall>q. find_row q w = map_option (?w q) (find_row q v))" for w :: ctl_state
  have "\<exists>g' w. Resolve (graph_view g) (tick n v) = (Inr g', w) \<and> P w \<and> healthy w \<and>
      (\<forall>q \<in> set (proc_Parents ?q). find_row q w \<noteq> None)" for n
    using Resolve_ready[of "tick n v" "graph_view g" g] hv gid gv assms(6,7,10) inG stored
    by (auto simp: P_def views G_def[symmetric] rows subset_iff)
  note resolved = this
  have q: "proc_Parents ?q = PR_PARENTS r" "proc_ID ?q = pid" "proc_ProcessGraphID ?q = PR_PROCESSGRAPH_ID r"
    using id by simp_all
  have "find_graph (proc_ProcessGraphID ?q) v = Some g" "proc_ProcessGraphID ?q \<noteq> ''''" using assms(5,6) gv by simp_all
  from resolve_assigned_run[OF hv this(2,1) resolved, of others, unfolded q] obtain w where w: "P w" "healthy w"
    and res: "resolve_assigned others ?q v = (if PR_PARENTS r = [] then (Inr ?q, w)
       else (Inr (?q\<lparr>proc_Input := parents_output w (PR_PARENTS r)\<rparr>),
         upd_row pid (\<lambda>x. x\<lparr>PR_INPUT := json_Marshal (parents_output w (PR_PARENTS r))\<rparr>) w))"
    by blast
  have "PR_OUTPUT (row_of w q) = PR_OUTPUT (row_of s q)" if "q \<in> G" for q
    using w(1) stored[OF that] assms(2) by (auto simp: P_def row_of_def rows)
  then have out: "parents_output w (PR_PARENTS r) = parents_output s (PR_PARENTS r)"
    using inG by (auto simp: parents_output_def subset_iff intro!: arg_cong[of _ _ concat])
  define s' where "s' = snd (resolve_assigned others ?q v)"
  define p where "p = (if PR_PARENTS r = [] then ?q else ?q\<lparr>proc_Input := parents_output s (PR_PARENTS r)\<rparr>)"
  have "find_row q s' = map_option (assigned_in_graph G (assigned_row eid (PR_MAX_EXEC_TIME r) t u) pid s q) (find_row q s)" for q
    using w(1) res out assms(2)
    by (cases "find_row q s") (auto simp: s'_def P_def rows assigned_in_graph_def find_row_upd Let_def)
  moreover have "resolve_assigned others ?q v = (Inr p, s')" using res out by (simp add: p_def s'_def)
  ultimately show ?thesis
    using run id by (intro exI[of _ p] exI[of _ s'] exI[of _ t] exI[of _ u]) (simp add: bindM_def p_def)
qed

lemma same_tables:
  assumes "PROCESSES t = PROCESSES s" "PROCESSGRAPHS t = PROCESSGRAPHS s"
  shows "find_row q t = find_row q s" "find_graph gid t = find_graph gid s" "children_of t = children_of s"
    "graph_linked t roots = graph_linked s roots" "parent_failed t q = parent_failed s q"
    "parents_output t ps = parents_output s ps" "assigned_in_graph G f pid t = assigned_in_graph G f pid s"
proof -
  show row: "find_row q t = find_row q s" for q using assms(1) by (simp add: find_row_def)
  show "find_graph gid t = find_graph gid s" using assms(2) by (simp add: find_graph_def)
  have eq: "children_of t = children_of s" "parents_of t = parents_of s" "state_of t = state_of s" "row_of t = row_of s"
    by (auto simp: fun_eq_iff children_of_def parents_of_def state_of_def row_of_def row)
  then show "children_of t = children_of s" "graph_linked t roots = graph_linked s roots"
    "parent_failed t q = parent_failed s q" and out: "parents_output t ps = parents_output s ps" for ps
    using assms(1) by (simp_all add: graph_linked_def graph_closed_def process_ids_def parent_failed_def parents_output_def)
  show "assigned_in_graph G f pid t = assigned_in_graph G f pid s"
    by (intro ext) (simp only: assigned_in_graph_def parents_done_def eq out)
qed

text \<open>
  C5: when statements succeed, the executor is known and assignments are not paused, \<open>assign\<close> gives it
  the process with the lowest priority time that it may have, or none exactly if there is none. The process
  returned is running on the executor, its row is too, with start time and deadline. For a process outside
  graphs no other row changes. For a process of a graph whose processes are stored and in which no process has
  a FAILED parent, its input becomes the outputs of its parents, and of the other rows only those of processes
  of the graph change that wait though all their parents are SUCCESS: they stop waiting.
\<close>

theorem assign_gives_lowest:
  fixes c :: string and cpu mem :: int
  assumes "healthy s" "GetExecutorByID eid s = (Inr (Some e), s)" "ctl_etcd_client s"
    and "\<forall>n. ctl_etcd_get s n (pause_key c) = Inr 0" "sorts_priority srt" "distinct (process_ids s)"
  defines "R \<equiv> {r \<in> set (PROCESSES s). offered_row c e cpu mem r}"
  shows "R = {} \<and> (\<exists>s'. ctl_assign srt others eid c cpu mem s = (Inr no_process, s') \<and> PROCESSES s' = PROCESSES s) \<or>
    (\<exists>r \<in> R. (\<forall>q \<in> R. PR_PRIORITYTIME r \<le> PR_PRIORITYTIME q) \<and>
      (PR_PROCESSGRAPH_ID r = '''' \<longrightarrow> (\<exists>p s' t u. ctl_assign srt others eid c cpu mem s =
          (Inr \<lparr>ar_Process = Some p, ar_IsPaused = False, ar_ResumeChannel = None\<rparr>, s') \<and>
        proc_ID p = PR_PROCESS_ID r \<and> proc_State p = RUNNING \<and> proc_AssignedExecutorID p = eid \<and>
        (\<forall>q. find_row q s' = (if q = PR_PROCESS_ID r then Some (assigned_row eid (PR_MAX_EXEC_TIME r) t u r)
               else find_row q s)))) \<and>
      (\<forall>g G. PR_PROCESSGRAPH_ID r \<noteq> '''' \<and> find_graph (PR_PROCESSGRAPH_ID r) s = Some g \<and> graph_linked s (PG_ROOTS g) \<and>
         G = reachable (children_of s) (PG_ROOTS g) \<and> PR_PROCESS_ID r \<in> G \<and> (\<forall>q \<in> G. \<not> parent_failed s q) \<longrightarrow>
        (\<exists>p s' t u. ctl_assign srt others eid c cpu mem s =
          (Inr \<lparr>ar_Process = Some p, ar_IsPaused = False, ar_ResumeChannel = None\<rparr>, s') \<and>
        proc_ID p = PR_PROCESS_ID r \<and> proc_State p = RUNNING \<and> proc_AssignedExecutorID p = eid \<and>
        (PR_PARENTS r \<noteq> [] \<longrightarrow> proc_Input p = parents_output s (PR_PARENTS r)) \<and>
        (\<forall>q. find_row q s' = map_option
           (assigned_in_graph G (assigned_row eid (PR_MAX_EXEC_TIME r) t u) (PR_PROCESS_ID r) s q) (find_row q s)))))"
proof -
  obtain s2 where run: "ctl_assign srt others eid c cpu mem s =
      select_and_assign srt others eid c e cpu mem s2"
    and s2: "healthy s2" "PROCESSES s2 = PROCESSES s" "PROCESSGRAPHS s2 = PROCESSGRAPHS s"
  proof (rule assign_prefix[OF assms(1-3), where c = c and k = 0 and srt = srt and others = others and cpu = cpu and mem = mem])
    show "ctl_etcd_get s n (pause_key c) = Inr 0" for n using assms(4) by simp
  qed (use that in simp)
  have R: "{r \<in> set (PROCESSES s2). offered_row c e cpu mem r} = R" using s2 by (simp add: R_def)
  have id: "exec_ID e = eid" by (rule GetExecutorByID_has_ID[OF assms(2)])
  consider (none) "R = {}" "Select FindCandidates FindCandidatesByName srt c e cpu mem s2 =
      (Inl (Err (''No processes can be selected for executor with Id <'' @ exec_ID e @ ''>'')), s2)"
    | (one) r where "r \<in> R" "Select FindCandidates FindCandidatesByName srt c e cpu mem s2 = (Inr (process_view s2 r), s2)"
      "\<forall>q \<in> R. PR_PRIORITYTIME r \<le> PR_PRIORITYTIME q"
    using Select_row_lowest[OF s2(1) assms(5), of c e cpu mem] unfolding R by blast
  then show ?thesis
  proof cases
    case none
    then show ?thesis using run s2(2) id by (auto simp: select_and_assign_def bindM_def tryM_def)
  next
    case one
    have r: "\<not> PR_IS_ASSIGNED r" "PR_STATE r = WAITING" "r \<in> set (PROCESSES s2)"
      using one(1) s2(2) by (auto simp: R_def offered_row_def assignable_def)
    have d: "distinct (process_ids s2)" using assms(6) s2(2) by (simp add: process_ids_def)
    have row: "find_row (PR_PROCESS_ID r) s2 = Some r" by (rule find_row_distinct[OF d r(3)])
    note same = same_tables[OF s2(2,3)]
    have eq: "ctl_assign srt others eid c cpu mem s = bindM (AssignProcess eid (process_view s2 r)) (\<lambda>selectedProcess.
              bindM (resolve_assigned others selectedProcess) (\<lambda>process.
              retM \<lparr>ar_Process = Some process, ar_IsPaused = False, ar_ResumeChannel = None\<rparr>)) s2"
      unfolding run select_and_assign_def by (simp add: bindM_def[of "tryM _"] tryM_def one(2))
    show ?thesis
      using assign_free_process[OF s2(1) row r(1), of eid others] assign_ready_process[OF s2(1) row r(1,2), of _ eid others]
        one(1,3) unfolding eq same by blast
  qed
qed

section \<open>A queue of two processes\<close>

definition free_row :: "string \<Rightarrow> int \<Rightarrow> process_row" where
  "free_row pid prio = (demo_row pid WAITING [] [])\<lparr>PR_PROCESSGRAPH_ID := '''', PR_PRIORITYTIME := prio\<rparr>"

definition demo_queue :: ctl_state where
  "demo_queue = (demo_ctl WAITING WAITING)
     \<lparr>PROCESSES := [free_row ''y'' 20, free_row ''x'' 10], EXECUTORS := [executor_row_of 0 demo_executor]\<rparr>"

definition given_id :: "failure + AssignResult \<Rightarrow> string option" where
  "given_id r = (case r of Inl _ \<Rightarrow> None | Inr res \<Rightarrow> map_option proc_ID (ar_Process res))"

lemma demo_queue_first:
  "given_id (fst (ctl_assign byLowestPriorityTime id ''e'' ''c'' 1 1 demo_queue)) = Some ''x''"
  by code_simp

lemma demo_queue_second:
  "given_id (fst (ctl_assign byLowestPriorityTime id ''e'' ''c'' 1 1
     (snd (ctl_assign byLowestPriorityTime id ''e'' ''c'' 1 1 demo_queue)))) = Some ''y''"
  by code_simp


lemma given_idE:
  assumes "given_id (fst y) = Some i"
  obtains res p where "y = (Inr res, snd y)" "ar_Process res = Some p" "proc_ID p = i"
proof (cases "fst y")
  case (Inr res)
  with assms that show ?thesis by (cases y) (auto simp: given_id_def)
qed (use assms in \<open>simp add: given_id_def\<close>)

lemma demo_queue_simps:
  "healthy demo_queue" "ctl_etcd_client demo_queue" "process_ids demo_queue = [''y'', ''x'']"
  "ctl_etcd_get demo_queue n k = Inr 0" "PROCESSES demo_queue = [free_row ''y'' 20, free_row ''x'' 10]"
  by (simp_all add: demo_queue_def demo_ctl_def demo_db_def pq_state.defs ctl_state.defs new_pq_def healthy_def process_ids_def free_row_def)


lemma demo_queue_executor:
  "GetExecutorByID ''e'' demo_queue = (Inr (Some demo_executor), demo_queue)"
  using demo_queue_simps(1)
  by (subst GetExecutorByID_run) (simp_all add: demo_queue_def demo_executor_row)

theorem assignment_exclusive_witness:
  "\<exists>res p res2 q s' t'. ctl_assign byLowestPriorityTime id ''e'' ''c'' 1 1 demo_queue = (Inr res, s') \<and> ar_Process res = Some p \<and>
     ctl_assign byLowestPriorityTime id ''e'' ''c'' 1 1 s' = (Inr res2, t') \<and> ar_Process res2 = Some q \<and> proc_ID q \<noteq> proc_ID p"
proof -
  let ?a = "ctl_assign byLowestPriorityTime id ''e'' ''c'' 1 1"
  obtain res p where r: "?a demo_queue = (Inr res, snd (?a demo_queue))" "ar_Process res = Some p"
    using given_idE[OF demo_queue_first] by metis
  obtain res2 q where q: "?a (snd (?a demo_queue)) = (Inr res2, snd (?a (snd (?a demo_queue))))" "ar_Process res2 = Some q"
    using given_idE[OF demo_queue_second] by metis
  have "proc_ID q \<noteq> proc_ID p"
    by (rule assignment_exclusive[OF r served.none[of _ "{}"] q sorts_byLowestPriorityTime])
      (auto simp: demo_queue_simps served.none)
  with r q show ?thesis by blast
qed

theorem assign_gives_lowest_witness:
  "\<exists>p s' t u. ctl_assign byLowestPriorityTime id ''e'' ''c'' 1 1 demo_queue =
      (Inr \<lparr>ar_Process = Some p, ar_IsPaused = False, ar_ResumeChannel = None\<rparr>, s') \<and> proc_ID p = ''x'' \<and>
     find_row ''x'' s' = Some (assigned_row ''e'' 5 t u (free_row ''x'' 10)) \<and>
     find_row ''y'' s' = Some (free_row ''y'' 20)"
proof -
  have R: "{r \<in> set (PROCESSES demo_queue). offered_row ''c'' demo_executor 1 1 r} = {free_row ''y'' 20, free_row ''x'' 10}"
    by (auto simp: demo_queue_simps free_row_def demo_row_def offered_row_def assignable_def fits_def demo_executor_def
        CreateExecutor_def MaxInt8_def)
  have row: "find_row ''x'' demo_queue = Some (free_row ''x'' 10)" "find_row ''y'' demo_queue = Some (free_row ''y'' 20)"
    "PR_PROCESS_ID (free_row p n) = p" "PR_PRIORITYTIME (free_row p n) = n" "PR_PROCESSGRAPH_ID (free_row p n) = ''''"
    "PR_MAX_EXEC_TIME (free_row p n) = 5" for p n
    by (simp_all add: find_row_def demo_queue_simps free_row_def demo_row_def)
  have d: "distinct (process_ids demo_queue)" by (simp add: demo_queue_simps)
  have z: "\<forall>n. ctl_etcd_get demo_queue n (pause_key ''c'') = Inr 0" by (simp add: demo_queue_simps)
  show ?thesis
    using assign_gives_lowest[OF demo_queue_simps(1) demo_queue_executor demo_queue_simps(2) z sorts_byLowestPriorityTime d,
        where cpu = 1 and mem = 1 and others = id]
    unfolding R by (auto simp: row) blast
qed


end
