(* ===== verification/Retention_Facts.thy ===== *)
theory Retention_Facts
  imports Pq_Colonies Process_Graph Demo
begin

text \<open>
  What the retention policy of \<open>retention.go\<close> deletes, and what that does to a process graph that is
  not finished.
\<close>

lemma cutoff_in_range:
  assumes "0 \<le> n" "in64 (n * 10 ^ 9)"
  shows "wrap64 (- seconds n) = - (n * 10 ^ 9)"
proof -
  have "seconds n = n * 10 ^ 9" using assms(2) by (simp add: seconds_def wrap64_def in64_def)
  then show ?thesis using assms by (simp add: wrap64_def in64_def)
qed

definition retained :: "int \<Rightarrow> 'z pq_state_scheme \<Rightarrow> 'z pq_state_scheme" where
  "retained cutoff db = db\<lparr>env_ticks := Suc (env_ticks db),
     ATTRIBUTES := filter (\<lambda>r. \<not> (AT_ADDED r < cutoff \<and> AT_STATE r = SUCCESS)) (ATTRIBUTES db),
     LOGS := filter (\<lambda>r. \<not> LG_ADDED r < cutoff) (LOGS db),
     PROCESSES := filter (\<lambda>r. \<not> (PR_SUBMISSION_TIME r < cutoff \<and> PR_STATE r = SUCCESS)) (PROCESSES db),
     PROCESSGRAPHS := filter (\<lambda>r. \<not> (PG_SUBMISSION_TIME r < cutoff \<and> PG_STATE r = SUCCESS)) (PROCESSGRAPHS db)\<rparr>"

lemma ApplyRetentionPolicy_run:
  assumes "healthy db" "0 \<le> n" "in64 (n * 10 ^ 9)"
  shows "ApplyRetentionPolicy n db = (Inr (), retained (env_clock db (env_ticks db) - n * 10 ^ 9) db)"
  using assms(1) cutoff_in_range[OF assms(2,3)]
  by (simp add: ApplyRetentionPolicy_def calcTimestamp_def bindM_def thenM_def time_Now_run sql_exec_healthy
      delete_attributes_def delete_processes_def delete_graphs_def retained_def delete_where_def)

lemma find_row_retained:
  assumes "distinct (process_ids db)" "find_row pid db = Some r"
  shows "find_row pid (retained cutoff db) =
    (if PR_SUBMISSION_TIME r < cutoff \<and> PR_STATE r = SUCCESS then None else Some r)"
proof -
  have "find (\<lambda>r. PR_PROCESS_ID r = pid) (filter Q rows) = (if Q r then Some r else None)"
    if "distinct (map PR_PROCESS_ID rows)" "find (\<lambda>r. PR_PROCESS_ID r = pid) rows = Some r" for rows Q
    using that
  proof (induction rows)
    case (Cons x rows)
    show ?case
    proof (cases "PR_PROCESS_ID x = pid")
      case True
      with Cons.prems have "find (\<lambda>r. PR_PROCESS_ID r = pid) (filter Q rows) = None"
        by (auto simp: find_None_iff image_iff)
      with True Cons.prems(2) show ?thesis by simp
    qed (use Cons in simp)
  qed simp
  from this[OF assms(1)[unfolded process_ids_def] assms(2)[unfolded find_row_def]] show ?thesis
    by (simp add: find_row_def retained_def)
qed

section \<open>Properties\<close>

text \<open>
  C38: with a period of \<open>n\<close> seconds the retention policy deletes the logs older than \<open>n\<close> seconds, and of
  processes, attributes and graphs those that are older and SUCCESS; a process, graph or attribute that
  waits, runs or failed is kept whatever its age, and no other table changes.
\<close>

theorem retention_deletes_old_successes:
  assumes "healthy db" "0 \<le> n" "in64 (n * 10 ^ 9)"
  defines "cutoff \<equiv> env_clock db (env_ticks db) - n * 10 ^ 9"
  shows "ApplyRetentionPolicy n db = (Inr (), db\<lparr>env_ticks := Suc (env_ticks db),
     ATTRIBUTES := filter (\<lambda>r. AT_STATE r = SUCCESS \<longrightarrow> cutoff \<le> AT_ADDED r) (ATTRIBUTES db),
     LOGS := filter (\<lambda>r. cutoff \<le> LG_ADDED r) (LOGS db),
     PROCESSES := filter (\<lambda>r. PR_STATE r = SUCCESS \<longrightarrow> cutoff \<le> PR_SUBMISSION_TIME r) (PROCESSES db),
     PROCESSGRAPHS := filter (\<lambda>r. PG_STATE r = SUCCESS \<longrightarrow> cutoff \<le> PG_SUBMISSION_TIME r) (PROCESSGRAPHS db)\<rparr>)"
proof -
  have "(\<not> (a < b \<and> P)) = (P \<longrightarrow> b \<le> a)" for a b :: int and P by auto
  then show ?thesis
    unfolding ApplyRetentionPolicy_run[OF assms(1-3)] cutoff_def by (simp add: retained_def not_less)
qed

theorem retention_deletes_old_successes_witness:
  "\<exists>db'. ApplyRetentionPolicy 0 (demo_db SUCCESS RUNNING) = (Inr (), db') \<and>
     PROCESSES db' = [demo_row ''b'' RUNNING [''a''] []]"
  using retention_deletes_old_successes[of "demo_db SUCCESS RUNNING" 0]
  by (simp add: in64_def demo_db_tables state_defs)

text \<open>
  C39: the policy looks at a process and not at its graph. When the first root of a graph is SUCCESS and
  old, it is deleted also while the rest of the graph waits or runs; from then on resolving the graph
  fails, with the graph and every process left as they are.
\<close>

theorem retention_breaks_open_graph:
  assumes "healthy db" "0 \<le> n" "in64 (n * 10 ^ 9)" "distinct (process_ids db)"
    and "graph_Roots graph = pid # roots" "find_row pid db = Some r" "PR_STATE r = SUCCESS"
    and "PR_SUBMISSION_TIME r < env_clock db (env_ticks db) - n * 10 ^ 9"
  shows "\<exists>db'. ApplyRetentionPolicy n db = (Inr (), db') \<and>
    Resolve graph db' = (Inl (Err (''Failed to iterate processgraph, process with ID='' @ pid @ '' not found'')), db')"
proof -
  let ?db = "retained (env_clock db (env_ticks db) - n * 10 ^ 9) db"
  have h: "healthy ?db" using assms(1) by (simp add: retained_def)
  have none: "find_row pid ?db = None" using assms(7,8) by (simp add: find_row_retained[OF assms(4,6)])
  have "Resolve graph ?db = (Inl (Err (''Failed to iterate processgraph, process with ID='' @ pid @ '' not found'')), ?db)"
    using GetProcessByID_run[OF h, of pid] none by (simp add: Resolve_def Iterate_def assms(5) bindM_def)
  then show ?thesis using ApplyRetentionPolicy_run[OF assms(1-3)] by blast
qed

theorem retention_breaks_open_graph_witness:
  "\<exists>db'. ApplyRetentionPolicy 0 (demo_db SUCCESS RUNNING) = (Inr (), db') \<and>
     fst (Resolve (graph_view demo_graph_row) db') =
       Inl (Err ''Failed to iterate processgraph, process with ID=a not found'')"
proof -
  have "graph_Roots (graph_view demo_graph_row) = ''a'' # []" by (simp add: graph_view_def)
  then show ?thesis
    using retention_breaks_open_graph[of "demo_db SUCCESS RUNNING" 0 "graph_view demo_graph_row" "''a''" "[]"
        "demo_row ''a'' SUCCESS [] [''b'']"]
    by (auto simp: in64_def demo_db_tables)
qed

end
