(* ===== verification/Closing_Facts.thy ===== *)
theory Closing_Facts
  imports Controller_Facts Resolve_Facts
begin

text \<open>
  Closing processes: what \<open>closeSuccessful\<close> and \<open>closeFailed\<close> do to the process, to the graph it belongs
  to and to the processes that wait for it, and when they refuse.
\<close>

section \<open>The steps of closing\<close>

lemma SetOutput_run: "healthy s \<Longrightarrow> SetOutput pid out s = (Inr (), upd_row pid (\<lambda>r. r\<lparr>PR_OUTPUT := json_Marshal out\<rparr>) s)"
  by (simp add: SetOutput_def update_process_run)

text \<open>The tables after the first statement of \<open>closeSuccessful\<close>.\<close>

definition with_output :: "string \<Rightarrow> iface list \<Rightarrow> 'z pq_state_scheme \<Rightarrow> 'z pq_state_scheme" where
  "with_output pid out s = (if out = [] then s else upd_row pid (\<lambda>r. r\<lparr>PR_OUTPUT := json_Marshal out\<rparr>) s)"

definition output_row :: "iface list \<Rightarrow> process_row \<Rightarrow> process_row" where
  "output_row out r = (if out = [] then r else r\<lparr>PR_OUTPUT := json_Marshal out\<rparr>)"

lemma with_output_fields [simp]:
  "healthy (with_output pid out s) = healthy s" "EXECUTORS (with_output pid out s) = EXECUTORS s"
  "find_graph gid (with_output pid out s) = find_graph gid s" "FUNCTIONS (with_output pid out s) = FUNCTIONS s"
  "env_clock (with_output pid out s) = env_clock s" "env_ticks (with_output pid out s) = env_ticks s"
  "process_ids (with_output pid out s) = process_ids s"
  by (simp_all add: with_output_def find_graph_def)

lemma output_row_fields [simp]:
  "PR_STATE (output_row out r) = PR_STATE r" "PR_PROCESS_ID (output_row out r) = PR_PROCESS_ID r"
  "PR_PARENTS (output_row out r) = PR_PARENTS r" "PR_CHILDREN (output_row out r) = PR_CHILDREN r"
  "PR_WAIT_FOR_PARENTS (output_row out r) = PR_WAIT_FOR_PARENTS r"
  by (simp_all add: output_row_def)

lemma find_with_output:
  "find_row q (with_output pid out s) = (if q = pid then map_option (output_row out) (find_row q s) else find_row q s)"
  by (cases "find_row pid s") (auto simp: with_output_def output_row_def find_row_upd)

lemma closeSuccessful_output:
  assumes "healthy s" "find_row pid s = Some r"
  shows "ctl_closeSuccessful pid eid out s =
    bindM (MarkSuccessful pid) (\<lambda>(waiting, processing).
      thenM (whenM (PR_PROCESSGRAPH_ID r \<noteq> '''')
               (thenM (resolve_graph_of (process_view s r)) (notifyChildren (process_view s r))))
            (finish_successful pid eid ((process_view s r)\<lparr>proc_State := SUCCESS\<rparr>) (Seconds waiting) (Seconds processing)))
      (with_output pid out s)"
proof -
  have "whenM (out \<noteq> []) (ignoreM (SetOutput pid out)) s = (Inr (), with_output pid out s)"
    using assms(1) by (simp add: with_output_def ignoreM_Inr[OF SetOutput_run])
  then show ?thesis
    using assms
    by (simp add: ctl_closeSuccessful_def bindM_Inr[of "GetProcessByID pid"] GetProcessByID_run thenM_Inr[of "whenM _ _" s] monad_ret)
qed


lemma notifyChildren_run:
  assumes "healthy s" "\<forall>q \<in> set (proc_Parents p) \<union> set (proc_Children p). find_row q s \<noteq> None"
  shows "\<exists>sigs. notifyChildren p s = (Inr (), s\<lparr>ctl_signals := ctl_signals s @ sigs\<rparr>)"
proof -
  let ?step = "\<lambda>(counter :: nat) parentProcessID. bindM (GetProcessByID parentProcessID) (\<lambda>found.
       bindM (derefM found) (\<lambda>parentProcess.
       retM (if proc_State parentProcess = SUCCESS then counter + 1 else counter)))"
  have count: "\<exists>n. foldM ?step (k :: nat) ps s = (Inr n, s)" if ps: "\<forall>q \<in> set ps. find_row q s \<noteq> None" for k ps
  proof (rule foldM_reads)
    fix acc q assume "q \<in> set ps"
    then obtain r where "find_row q s = Some r" using ps by auto
    then show "\<exists>acc'. ?step acc q s = (Inr acc', s)" using assms(1) by (simp add: bindM_def GetProcessByID_run)
  qed
  have send: "\<exists>sigs. forM cs (\<lambda>q. bindM (GetProcessByID q) (\<lambda>found. bindM (derefM found) signal)) t =
      (Inr (), t\<lparr>ctl_signals := ctl_signals t @ sigs\<rparr>)"
    if "\<forall>q \<in> set cs. find_row q t \<noteq> None" "healthy t" for cs and t :: ctl_state
    using that
  proof (induction cs arbitrary: t)
    case Nil
    show ?case by (rule exI[of _ "[]"]) simp
  next
    case (Cons q cs)
    then obtain r where r: "find_row q t = Some r" by auto
    let ?t = "t\<lparr>ctl_signals := ctl_signals t @ [process_view t r]\<rparr>"
    have "\<forall>q \<in> set cs. find_row q ?t \<noteq> None" "healthy ?t" using Cons.prems by (simp_all add: find_row_def healthy_def)
    then obtain sigs where rest: "forM cs (\<lambda>q. bindM (GetProcessByID q) (\<lambda>found. bindM (derefM found) signal)) ?t =
        (Inr (), ?t\<lparr>ctl_signals := ctl_signals ?t @ sigs\<rparr>)" using Cons.IH by blast
    have "bindM (GetProcessByID q) (\<lambda>found. bindM (derefM found) signal) t = (Inr (), ?t)"
      using r Cons.prems(2) by (simp add: bindM_def GetProcessByID_run signal_def)
    then have "forM (q # cs) (\<lambda>q. bindM (GetProcessByID q) (\<lambda>found. bindM (derefM found) signal)) t =
        (Inr (), ?t\<lparr>ctl_signals := ctl_signals ?t @ sigs\<rparr>)"
      unfolding forM.simps using rest by (simp only: thenM_def bindM_def prod.case sum.case)
    then show ?case by (intro exI[of _ "process_view t r # sigs"]) simp
  qed
  have "\<forall>q \<in> set (proc_Parents p). find_row q s \<noteq> None" using assms(2) by simp
  from count[OF this, of 0] obtain n where "foldM ?step 0 (proc_Parents p) s = (Inr n, s)" ..
  then have eq: "notifyChildren p s = whenM (n = length (proc_Parents p)) (forM (proc_Children p)
      (\<lambda>q. bindM (GetProcessByID q) (\<lambda>found. bindM (derefM found) signal))) s"
    unfolding notifyChildren_def by (rule bindM_Inr)
  show ?thesis
  proof (cases "n = length (proc_Parents p)")
    case True
    with send[of "proc_Children p" s] assms eq show ?thesis by simp
  next
    case False
    with eq show ?thesis by (intro exI[of _ "[]"]) simp
  qed
qed

lemma select_functions_run [op_simps]:
  "healthy db \<Longrightarrow> select_functions P db = (Inr (map parse_function (filter P (FUNCTIONS db))), db)"
  by (simp add: select_functions_def bindM_def sql_query_healthy parseFunctions_def)

lemma finish_successful_run:
  assumes "executors_ok s" "find (\<lambda>r. EX_EXECUTOR_ID r = eid) (EXECUTORS s) \<noteq> None" "find_row pid s \<noteq> None"
  shows "\<exists>s'. finish_successful pid eid p w t s = (Inr (), s') \<and> PROCESSES s' = PROCESSES s \<and> PROCESSGRAPHS s' = PROCESSGRAPHS s"
proof -
  have h: "healthy s" using assms(1) by (simp add: executors_ok_def)
  obtain e where e: "GetExecutorByID eid s = (Inr (Some e), s)"
    using assms(1,2) GetExecutorByID_run[of s eid] by (auto simp: executors_ok_def)
  obtain found where f: "GetFunctionsByExecutorAndName (cond_ColonyName (spec_Conditions (proc_FunctionSpec p)))
       (exec_Name e) (spec_FuncName (proc_FunctionSpec p)) s = (Inr found, s)"
    using h by (auto simp: GetFunctionsByExecutorAndName_def bindM_def select_functions_run)
  have stats: "\<exists>s'. update_function_stats q func w t s = (Inr (), s') \<and> PROCESSES s' = PROCESSES s \<and> PROCESSGRAPHS s' = PROCESSGRAPHS s"
    for q func
    using h by (auto simp: update_function_stats_def UpdateFunctionStats_def ignoreM_def tryM_def bindM_def sql_exec_healthy)
  show ?thesis
  proof (cases found)
    case None
    with e f show ?thesis by (auto simp: finish_successful_def bindM_def signal_def)
  next
    case (Some func)
    obtain r where r: "find_row pid s = Some r" using assms(3) by blast
    with e f Some h stats[of "process_view s r" func] show ?thesis
      by (auto simp: finish_successful_def bindM_def thenM_def signal_def GetProcessByID_run)
  qed
qed

lemma resolve_graph_of_run:
  assumes "healthy s" "find_graph (proc_ProcessGraphID p) s = Some g"
    and "\<And>n. \<exists>g' s'. Resolve (graph_view g) (tick n s) = (Inr g', s') \<and> Q s'"
  shows "\<exists>s'. resolve_graph_of p s = (Inr (), s') \<and> Q s'"
proof -
  obtain n where get: "GetProcessGraphByID (proc_ProcessGraphID p) s = (Inr (Some (graph_view g)), tick n s)"
    using assms(1,2) by (simp add: GetProcessGraphByID_run)
  obtain g' s' where "Resolve (graph_view g) (tick n s) = (Inr g', s')" "Q s'" using assms(3) by blast
  with get show ?thesis by (simp add: resolve_graph_of_def bindM_def tryM_def)
qed


text \<open>The tables once the process is marked: only its row differs, in state, end time and output.\<close>

lemma MarkSuccessful_marks:
  assumes "healthy s" "find_row pid s = Some r" "PR_STATE r \<noteq> FAILED" "PR_STATE r \<noteq> WAITING"
  obtains w p u t where "MarkSuccessful pid (with_output pid out s) = (Inr (w, p), u)" "healthy u"
    "EXECUTORS u = EXECUTORS s" "\<And>gid. find_graph gid u = find_graph gid s" "process_ids u = process_ids s"
    "\<And>q. find_row q u = (if q = pid then Some ((output_row out r)\<lparr>PR_END_TIME := t, PR_STATE := SUCCESS\<rparr>) else find_row q s)"
proof -
  let ?t = "env_clock s (env_ticks s)"
  let ?f = "\<lambda>r. r\<lparr>PR_END_TIME := ?t, PR_STATE := SUCCESS\<rparr>"
  let ?u = "upd_attr_state pid SUCCESS (upd_row pid ?f (tick 1 (with_output pid out s)))"
  have row: "find_row pid (with_output pid out s) = Some (output_row out r)" using assms(2) by (simp add: find_with_output)
  have "find_row q ?u = (if q = pid then Some ((output_row out r)\<lparr>PR_END_TIME := ?t, PR_STATE := SUCCESS\<rparr>) else find_row q s)" for q
    using assms(2) by (auto simp: find_row_upd find_with_output)
  moreover have "find_graph gid ?u = find_graph gid s" for gid by (simp add: find_graph_def with_output_def)
  moreover have "MarkSuccessful pid (with_output pid out s) = (Inr (time_Sub (PR_START_TIME (output_row out r))
      (PR_SUBMISSION_TIME (output_row out r)), time_Sub ?t (PR_START_TIME (output_row out r))), ?u)"
    using assms MarkSuccessful_run[OF _ row] by (simp add: Let_def)
  ultimately show thesis using assms(1) by (intro that[of _ _ ?u ?t]) simp_all
qed

text \<open>The state of a graph in which one process just became SUCCESS.\<close>

lemma graph_state_closed:
  assumes "pid \<in> G" "\<And>q. f' q = (if q = pid then SUCCESS else f q)" "f pid \<noteq> FAILED"
  shows "graph_state_spec (f' ` G) =
    (if \<exists>q \<in> G. f q = FAILED then FAILED else if \<forall>q \<in> G. q = pid \<or> f q = SUCCESS then SUCCESS else RUNNING)"
proof -
  have "FAILED \<in> f' ` G \<longleftrightarrow> (\<exists>q \<in> G. f q = FAILED)" using assms by (auto simp: state_defs image_iff split: if_splits)
  moreover have "f' ` G \<subseteq> {SUCCESS} \<longleftrightarrow> (\<forall>q \<in> G. q = pid \<or> f q = SUCCESS)" using assms(2) by (auto split: if_splits)
  moreover have "SUCCESS \<in> f' ` G" using assms(1,2) by force
  ultimately show ?thesis unfolding graph_state_spec_def by presburger
qed

section \<open>Properties\<close>

text \<open>
  C8: closing a running process of a graph whose processes are stored, and in which no process has a FAILED
  parent (processes without children may be FAILED), succeeds for a known executor. Afterwards the process is
  SUCCESS, with the output given; no other process changes its state; a process of the graph stops waiting
  exactly if all its parents are SUCCESS, the one just closed included; and the graph is FAILED if one of its
  processes is, SUCCESS if all are, and RUNNING otherwise.
\<close>

theorem close_releases_children:
  fixes s :: ctl_state
  assumes "executors_ok s" "find (\<lambda>x. EX_EXECUTOR_ID x = eid) (EXECUTORS s) \<noteq> None"
    and "find_row pid s = Some r" "PR_STATE r = RUNNING" "PR_PROCESSGRAPH_ID r \<noteq> ''''"
    and "find_graph (PR_PROCESSGRAPH_ID r) s = Some g" "graph_linked s (PG_ROOTS g)"
  defines "G \<equiv> reachable (children_of s) (PG_ROOTS g)"
    and "finished \<equiv> \<lambda>q. q = pid \<or> state_of s q = SUCCESS"
  assumes "pid \<in> G" "\<forall>q \<in> G. \<not> parent_failed s q"
  shows "\<exists>s'. ctl_closeSuccessful pid eid out s = (Inr (), s') \<and>
    (\<exists>r'. find_row pid s' = Some r' \<and> PR_STATE r' = SUCCESS \<and> (out \<noteq> [] \<longrightarrow> PR_OUTPUT r' = json_Marshal out)) \<and>
    (\<forall>q. q \<noteq> pid \<longrightarrow> state_of s' q = state_of s q) \<and>
    (\<forall>q \<in> G. \<exists>r'. find_row q s' = Some r' \<and>
       (PR_WAIT_FOR_PARENTS r' \<longleftrightarrow> PR_WAIT_FOR_PARENTS (row_of s q) \<and> \<not> (\<forall>p \<in> set (parents_of s q). finished p))) \<and>
    (\<exists>g'. find_graph (PR_PROCESSGRAPH_ID r) s' = Some g' \<and>
       PG_STATE g' = (if \<exists>q \<in> G. state_of s q = FAILED then FAILED
                      else if \<forall>q \<in> G. finished q then SUCCESS else RUNNING))"
proof -
  have h: "healthy s" using assms(1) by (simp add: executors_ok_def)
  obtain w p u t where mark: "MarkSuccessful pid (with_output pid out s) = (Inr (w, p), u)" and hu: "healthy u"
    and exu: "EXECUTORS u = EXECUTORS s" and gu: "\<And>gid. find_graph gid u = find_graph gid s" and ids: "process_ids u = process_ids s"
    and rows: "\<And>q. find_row q u = (if q = pid then Some ((output_row out r)\<lparr>PR_END_TIME := t, PR_STATE := SUCCESS\<rparr>) else find_row q s)"
    by (rule MarkSuccessful_marks[OF h assms(3)]) (use assms(4) in \<open>auto simp: state_defs\<close>)
  note views = table_views[OF rows assms(3)]
  have ch: "children_of u = children_of s" and pa: "parents_of u = parents_of s" by (simp_all add: views)
  have st: "state_of u q = (if q = pid then SUCCESS else state_of s q)" for q by (simp add: views)
  have pdone: "parents_done u q \<longleftrightarrow> (\<forall>p \<in> set (parents_of s q). finished p)" for q
    by (auto simp: parents_done_def pa st finished_def)
  have linked: "graph_linked (tick n u) (PG_ROOTS g)" for n
    using assms(7) by (simp add: graph_linked_def graph_closed_def ch pa ids)
  define P where "P v \<longleftrightarrow> healthy v \<and> EXECUTORS v = EXECUTORS s \<and>
      (\<forall>q. find_row q v = map_option (\<lambda>r. r\<lparr>PR_WAIT_FOR_PARENTS :=
         PR_WAIT_FOR_PARENTS r \<and> \<not> (q \<in> G \<and> parents_done u q)\<rparr>) (find_row q u)) \<and>
      (\<exists>g'. find_graph (PR_PROCESSGRAPH_ID r) v = Some g' \<and> PG_STATE g' = graph_state_spec (state_of u ` G))" for v :: ctl_state
  have gid: "PG_PROCESSGRAPH_ID g = PR_PROCESSGRAPH_ID r" using assms(6) by (auto simp: find_graph_def find_Some_iff)
  have notfailed: "\<not> parent_failed (tick n u) q" if "q \<in> G" for n q
    using assms(11) that by (auto simp: parent_failed_def pa st state_defs)
  have "\<exists>g' s'. Resolve (graph_view g) (tick n u) = (Inr g', s') \<and> P s'" for n
    using Resolve_ready[of "tick n u" "graph_view g" g] hu linked[of n] gid gu assms(6) notfailed[of _ n] exu
    by (auto simp: P_def ch G_def[symmetric] parents_done_def)
  then obtain v where res: "resolve_graph_of (process_view s r) u = (Inr (), v)" and v: "P v"
    using resolve_graph_of_run[OF hu, of "process_view s r" g P] gu assms(6) by auto
  have rowv: "find_row q v \<noteq> None" if "q \<in> G" for q
    using v that assms(7) by (auto simp: P_def G_def graph_linked_def graph_closed_def find_row_None ids[symmetric])
  have family: "set (PR_PARENTS r) \<union> set (PR_CHILDREN r) \<subseteq> G"
  proof -
    have "parents_of s pid = PR_PARENTS r" "children_of s pid = PR_CHILDREN r"
      using assms(3) by (simp_all add: parents_of_def children_of_def)
    moreover have "set (parents_of s pid) \<subseteq> G" using assms(7,10) by (simp add: G_def graph_linked_def)
    moreover have "set (children_of s pid) \<subseteq> G" using assms(10) by (auto simp: G_def intro: reachable.child)
    ultimately show ?thesis by simp
  qed
  obtain sigs where notified: "notifyChildren (process_view s r) v = (Inr (), v\<lparr>ctl_signals := ctl_signals v @ sigs\<rparr>)"
    using notifyChildren_run[of v "process_view s r"] v rowv family by (auto simp: P_def subset_iff)
  let ?v = "v\<lparr>ctl_signals := ctl_signals v @ sigs\<rparr>"
  have "executors_ok ?v" "find (\<lambda>x. EX_EXECUTOR_ID x = eid) (EXECUTORS ?v) \<noteq> None" "find_row pid ?v \<noteq> None"
    using assms(1,2) v rowv[OF assms(10)] by (auto simp: P_def executors_ok_def healthy_def find_row_def)
  from finish_successful_run[OF this] obtain s' where
    fin: "finish_successful pid eid ((process_view s r)\<lparr>proc_State := SUCCESS\<rparr>) (Seconds w) (Seconds p) ?v = (Inr (), s')"
    "PROCESSES s' = PROCESSES v" "PROCESSGRAPHS s' = PROCESSGRAPHS v" by fastforce
  have run: "ctl_closeSuccessful pid eid out s = (Inr (), s')"
    using assms(5) closeSuccessful_output[OF h assms(3), of eid out] mark res notified fin(1)
    by (simp add: bindM_def thenM_def)
  have row': "find_row q s' = map_option (\<lambda>r. r\<lparr>PR_WAIT_FOR_PARENTS :=
         PR_WAIT_FOR_PARENTS r \<and> \<not> (q \<in> G \<and> parents_done u q)\<rparr>) (find_row q u)" for q
    using v fin(2) by (simp add: P_def find_row_def)
  have "state_of s' q = state_of u q" for q
    unfolding state_of_def row' by (simp split: option.splits)
  moreover have "\<exists>r'. find_row q s' = Some r' \<and>
       (PR_WAIT_FOR_PARENTS r' \<longleftrightarrow> PR_WAIT_FOR_PARENTS (row_of s q) \<and> \<not> (\<forall>p \<in> set (parents_of s q). finished p))" if "q \<in> G" for q
  proof -
    have "find_row q s \<noteq> None" using that assms(7) by (auto simp: G_def graph_linked_def graph_closed_def find_row_None)
    then obtain z where "find_row q s = Some z" by blast
    then show ?thesis using that assms(3) unfolding row' rows pdone[symmetric] by (cases "q = pid") (auto simp: row_of_def)
  qed
  moreover have "\<exists>g'. find_graph (PR_PROCESSGRAPH_ID r) s' = Some g' \<and>
       PG_STATE g' = (if \<exists>q \<in> G. state_of s q = FAILED then FAILED
                      else if \<forall>q \<in> G. finished q then SUCCESS else RUNNING)"
  proof -
    have old: "state_of s pid \<noteq> FAILED" using assms(3,4) by (simp add: state_of_def state_defs)
    have "graph_state_spec (state_of u ` G) = (if \<exists>q \<in> G. state_of s q = FAILED then FAILED
         else if \<forall>q \<in> G. finished q then SUCCESS else RUNNING)"
      unfolding finished_def by (rule graph_state_closed[OF assms(10) st old])
    then show ?thesis using v fin(3) by (auto simp: P_def find_graph_def)
  qed
  moreover have "\<exists>r'. find_row pid s' = Some r' \<and> PR_STATE r' = SUCCESS \<and> (out \<noteq> [] \<longrightarrow> PR_OUTPUT r' = json_Marshal out)"
    unfolding row' rows by (simp add: output_row_def)
  ultimately show ?thesis using run st by auto
qed



definition demo_close :: "int \<Rightarrow> int \<Rightarrow> ctl_state" where
  "demo_close a b = (demo_ctl a b)\<lparr>EXECUTORS := [executor_row_of 0 demo_executor]\<rparr>"

lemma demo_close_simps [simp]:
  "healthy (demo_close x y)" "process_ids (demo_close x y) = [''a'', ''b'']"
  "find_row ''a'' (demo_close x y) = Some (demo_row ''a'' x [] [''b''])"
  "find_row ''b'' (demo_close x y) = Some (demo_row ''b'' y [''a''] [])"
  "find_graph ''g'' (demo_close x y) = Some demo_graph_row" "executors_ok (demo_close x y)"
  "EXECUTORS (demo_close x y) = [executor_row_of 0 demo_executor]"
proof -
  show h: "healthy (demo_close x y)" by (simp add: demo_close_def)
  show "process_ids (demo_close x y) = [''a'', ''b'']"
    "find_row ''a'' (demo_close x y) = Some (demo_row ''a'' x [] [''b''])"
    "find_row ''b'' (demo_close x y) = Some (demo_row ''b'' y [''a''] [])"
    "find_graph ''g'' (demo_close x y) = Some demo_graph_row"
    using demo_ctl_simps[of x y] by (simp_all add: demo_close_def process_ids_def find_row_def find_graph_def)
  show "executors_ok (demo_close x y)" "EXECUTORS (demo_close x y) = [executor_row_of 0 demo_executor]"
    using h by (simp_all add: executors_ok_def demo_close_def demo_executor_row)
qed

lemma demo_close_graph:
  "reachable (children_of (demo_close x y)) [''a''] = {''a'', ''b''}" "graph_linked (demo_close x y) [''a'']"
  "parents_of (demo_close x y) ''b'' = [''a'']" "parents_of (demo_close x y) ''a'' = []"
  "state_of (demo_close x y) ''a'' = x" "state_of (demo_close x y) ''b'' = y" "row_of (demo_close x y) ''b'' = demo_row ''b'' y [''a''] []"
proof -
  have c: "children_of (demo_close x y) ''a'' = [''b'']" "children_of (demo_close x y) ''b'' = []"
    by (simp_all add: children_of_def)
  show r: "reachable (children_of (demo_close x y)) [''a''] = {''a'', ''b''}"
  proof
    show "reachable (children_of (demo_close x y)) [''a''] \<subseteq> {''a'', ''b''}" by (rule reachable_least) (auto simp: c)
    have "''a'' \<in> reachable (children_of (demo_close x y)) [''a'']" by (rule reachable.root) simp
    then show "{''a'', ''b''} \<subseteq> reachable (children_of (demo_close x y)) [''a'']"
      using reachable.child[of "''a''" "children_of (demo_close x y)" "[''a'']" "''b''"] by (simp add: c)
  qed
  show "parents_of (demo_close x y) ''b'' = [''a'']" "parents_of (demo_close x y) ''a'' = []"
    "state_of (demo_close x y) ''a'' = x" "state_of (demo_close x y) ''b'' = y" "row_of (demo_close x y) ''b'' = demo_row ''b'' y [''a''] []"
    by (simp_all add: parents_of_def state_of_def row_of_def)
  then show "graph_linked (demo_close x y) [''a'']" by (simp add: graph_linked_def graph_closed_def r)
qed

lemma demo_row_graph [simp]: "PR_PROCESSGRAPH_ID (demo_row p st ps cs) = ''g''"
  by (simp add: demo_row_def)

theorem close_releases_children_witness:
  "\<exists>s' r'. ctl_closeSuccessful ''a'' ''e'' [IStr ''out''] (demo_close RUNNING WAITING) = (Inr (), s') \<and>
     state_of s' ''b'' = WAITING \<and> find_row ''b'' s' = Some r' \<and> \<not> PR_WAIT_FOR_PARENTS r'"
proof -
  let ?s = "demo_close RUNNING WAITING"
  have "find (\<lambda>x. EX_EXECUTOR_ID x = ''e'') (EXECUTORS ?s) \<noteq> None" by (simp add: demo_executor_row)
  from close_releases_children[OF _ this, of "''a''" "demo_row ''a'' RUNNING [] [''b'']" demo_graph_row "[IStr ''out'']"]
  show ?thesis by (auto simp: demo_close_graph parent_failed_def state_defs)
qed

text \<open>
  \<open>closeSuccessful\<close> refuses a process that is WAITING or FAILED, and leaves state, end time and
  graph as they are. The output, however, is stored before the process is looked at: a refused request
  still overwrites the output of the process.
\<close>

theorem closeSuccessful_refused:
  fixes s :: ctl_state
  assumes "healthy s" "find_row pid s = Some r" "PR_STATE r = WAITING \<or> PR_STATE r = FAILED"
  shows "\<exists>msg s'. ctl_closeSuccessful pid eid out s = (Inl (Err msg), s') \<and>
    (\<forall>q. find_row q s' = (if q = pid then Some (if out = [] then r else r\<lparr>PR_OUTPUT := json_Marshal out\<rparr>) else find_row q s)) \<and>
    PROCESSGRAPHS s' = PROCESSGRAPHS s \<and> ATTRIBUTES s' = ATTRIBUTES s \<and> ctl_signals s' = ctl_signals s"
proof -
  let ?s = "with_output pid out s"
  have row: "find_row pid ?s = Some (output_row out r)" using assms(2) by (simp add: find_with_output)
  have "\<exists>msg. MarkSuccessful pid ?s = (Inl (Err msg), ?s)"
    using MarkSuccessful_run[OF _ row] assms(1,3) by auto
  then obtain msg where "ctl_closeSuccessful pid eid out s = (Inl (Err msg), ?s)"
    using closeSuccessful_output[OF assms(1,2), of eid out] by (auto simp: bindM_def)
  moreover have "PROCESSGRAPHS ?s = PROCESSGRAPHS s" "ATTRIBUTES ?s = ATTRIBUTES s" "ctl_signals ?s = ctl_signals s"
    by (simp_all add: with_output_def upd_row_def)
  ultimately show ?thesis using assms(2) by (simp add: find_with_output output_row_def)
qed

theorem closeSuccessful_refused_witness:
  "\<exists>msg s'. ctl_closeSuccessful ''b'' ''e'' [IStr ''x''] (demo_close FAILED FAILED) = (Inl (Err msg), s') \<and>
     map_option PR_OUTPUT (find_row ''b'' s') = Some (json_Marshal [IStr ''x''])"
  using closeSuccessful_refused[of "demo_close FAILED FAILED" "''b''" "demo_row ''b'' FAILED [''a''] []" "''e''" "[IStr ''x'']"]
  by (auto simp: state_defs)


section \<open>Closing as failed\<close>

text \<open>The tables once the process is marked as failed.\<close>

lemma MarkFailed_marks:
  assumes "healthy s" "find_row pid s = Some r" "PR_STATE r \<noteq> SUCCESS" "PR_STATE r \<noteq> FAILED"
  obtains u t where "MarkFailed pid errs s = (Inr (), u)" "healthy u" "EXECUTORS u = EXECUTORS s"
    "\<And>gid. find_graph gid u = find_graph gid s" "PROCESSGRAPHS u = PROCESSGRAPHS s" "process_ids u = process_ids s"
    "\<And>q. find_row q u = (if q = pid then Some (r\<lparr>PR_END_TIME := t, PR_STATE := FAILED, PR_ERRORS := errs\<rparr>) else find_row q s)"
proof -
  let ?t = "env_clock s (env_ticks s)"
  let ?u = "upd_row pid (\<lambda>r. r\<lparr>PR_ERRORS := errs\<rparr>) (upd_attr_state pid FAILED
         (upd_row pid (\<lambda>r. r\<lparr>PR_END_TIME := ?t, PR_STATE := FAILED\<rparr>) (tick 1 s)))"
  have "find_row q ?u = (if q = pid then Some (r\<lparr>PR_END_TIME := ?t, PR_STATE := FAILED, PR_ERRORS := errs\<rparr>) else find_row q s)" for q
    using assms(2) by (auto simp: find_row_upd)
  moreover have "find_graph gid ?u = find_graph gid s" for gid by (simp add: find_graph_def)
  ultimately show thesis
    using assms(1) MarkFailed_run[OF assms(1,2), of errs] assms(3,4) by (intro that[of ?u ?t]) simp_all
qed

lemma closeFailed_marked:
  assumes "MarkFailed pid errs s = (Inr (), u)" "healthy u" "find_row pid u = Some r"
  shows "ctl_closeFailed pid errs s =
    thenM (whenM (PR_PROCESSGRAPH_ID r \<noteq> '''') (resolve_graph_of (process_view u r)))
      (signal ((process_view u r)\<lparr>proc_State := FAILED\<rparr>)) u"
  using assms by (simp add: ctl_closeFailed_def thenM_Inr[of "MarkFailed pid errs"] bindM_Inr[of "GetProcessByID pid"]
      GetProcessByID_run monad_ret)

text \<open>
  Closing as failed in a graph: the whole graph fails if the process has children in it, or if a process of the
  graph had a FAILED parent before; otherwise only the process does. The graph is FAILED in both cases.
\<close>

definition fails_with :: "'z pq_state_scheme \<Rightarrow> string set \<Rightarrow> string \<Rightarrow> string set" where
  "fails_with s G pid = (if \<exists>q \<in> G. pid \<in> set (parents_of s q) \<or> parent_failed s q then G else {pid})"

lemma Resolve_after_failure:
  assumes "healthy u" "graph_linked u (PG_ROOTS g)" "find_graph gid u = Some g"
    and "pid \<in> reachable (children_of u) (PG_ROOTS g)" "state_of u pid = FAILED"
  defines "G \<equiv> reachable (children_of u) (PG_ROOTS g)"
  shows "\<exists>g' v. Resolve (graph_view g) u = (Inr g', v) \<and>
    (\<forall>q. state_of v q = (if q \<in> G \<and> (\<exists>p \<in> G. parent_failed u p) then FAILED else state_of u q)) \<and>
    (\<forall>q. q \<notin> G \<longrightarrow> find_row q v = find_row q u) \<and>
    (\<forall>q. map_option PR_ERRORS (find_row q v) = map_option PR_ERRORS (find_row q u)) \<and>
    (\<exists>g'. find_graph gid v = Some g' \<and> PG_STATE g' = FAILED)"
proof -
  have gid: "PG_PROCESSGRAPH_ID g = gid" using assms(3) by (auto simp: find_graph_def find_Some_iff)
  show ?thesis
  proof (cases "\<exists>p \<in> G. parent_failed u p")
    case True
    then obtain p where p: "p \<in> G" "parent_failed u p" by blast
    obtain g' v where v: "Resolve (graph_view g) u = (Inr g', v)" "\<forall>q \<in> G. state_of v q = FAILED"
      "\<forall>q. q \<notin> G \<longrightarrow> find_row q v = find_row q u"
      "\<forall>q. map_option PR_ERRORS (find_row q v) = map_option PR_ERRORS (find_row q u)"
      "\<exists>g'. find_graph gid v = Some g' \<and> PG_STATE g' = FAILED"
      using Resolve_failed[of u "graph_view g" g p] assms(1-3) p gid by (auto simp: G_def)
    moreover from v(2,3) p have "state_of v q = (if q \<in> G \<and> (\<exists>p \<in> G. parent_failed u p) then FAILED else state_of u q)" for q
      by (auto simp: state_of_def)
    ultimately show ?thesis by blast
  next
    case False
    have "FAILED \<in> state_of u ` G" using assms(4,5) by (force simp: G_def)
    then have "graph_state_spec (state_of u ` G) = FAILED" by (simp add: graph_state_spec_def)
    then obtain g' v where v: "Resolve (graph_view g) u = (Inr g', v)"
      "\<And>q. find_row q v = map_option (\<lambda>r. r\<lparr>PR_WAIT_FOR_PARENTS :=
         PR_WAIT_FOR_PARENTS r \<and> \<not> (q \<in> G \<and> parents_done u q)\<rparr>) (find_row q u)"
      "\<exists>g'. find_graph gid v = Some g' \<and> PG_STATE g' = FAILED"
      using Resolve_ready[of u "graph_view g" g] False assms(1-3) gid by (auto simp: G_def)
    moreover have "state_of v q = state_of u q" "map_option PR_ERRORS (find_row q v) = map_option PR_ERRORS (find_row q u)"
      "q \<notin> G \<Longrightarrow> find_row q v = find_row q u" for q
      by (cases "find_row q u"; simp add: state_of_def v(2))+
    ultimately show ?thesis using False by auto
  qed
qed

lemma closeFailed_in_graph:
  fixes s :: ctl_state
  assumes "healthy s" "find_row pid s = Some r" "PR_STATE r = WAITING \<or> PR_STATE r = RUNNING" "PR_PROCESSGRAPH_ID r \<noteq> ''''"
    and "find_graph (PR_PROCESSGRAPH_ID r) s = Some g" "graph_linked s (PG_ROOTS g)"
  defines "G \<equiv> reachable (children_of s) (PG_ROOTS g)"
  assumes "pid \<in> G"
  shows "\<exists>s'. ctl_closeFailed pid errs s = (Inr (), s') \<and>
    (\<forall>q. state_of s' q = (if q \<in> fails_with s G pid then FAILED else state_of s q)) \<and>
    (\<forall>q. q \<notin> G \<longrightarrow> find_row q s' = find_row q s) \<and> map_option PR_ERRORS (find_row pid s') = Some errs \<and>
    (\<exists>g'. find_graph (PR_PROCESSGRAPH_ID r) s' = Some g' \<and> PG_STATE g' = FAILED)"
proof -
  obtain u t where mark: "MarkFailed pid errs s = (Inr (), u)" "healthy u" "EXECUTORS u = EXECUTORS s"
    "\<And>gid. find_graph gid u = find_graph gid s" "PROCESSGRAPHS u = PROCESSGRAPHS s" "process_ids u = process_ids s"
    and rows: "\<And>q. find_row q u = (if q = pid then Some (r\<lparr>PR_END_TIME := t, PR_STATE := FAILED, PR_ERRORS := errs\<rparr>) else find_row q s)"
    by (rule MarkFailed_marks[OF assms(1,2), of errs]) (use assms(3) in \<open>auto simp: state_defs\<close>)
  let ?r = "r\<lparr>PR_END_TIME := t, PR_STATE := FAILED, PR_ERRORS := errs\<rparr>"
  note views = table_views[OF rows assms(2)]
  have ch: "children_of u = children_of s" and pa: "parents_of u = parents_of s" by (simp_all add: views)
  have st: "state_of u q = (if q = pid then FAILED else state_of s q)" for q by (simp add: views)
  have pf: "parent_failed u p \<longleftrightarrow> pid \<in> set (parents_of s p) \<or> parent_failed s p" for p
    by (auto simp: parent_failed_def pa st)
  have linked: "graph_linked (tick n u) (PG_ROOTS g)" for n
    using assms(6) by (simp add: graph_linked_def graph_closed_def ch pa mark(6))
  define P where "P v \<longleftrightarrow> (\<forall>q. state_of v q = (if q \<in> fails_with s G pid then FAILED else state_of s q)) \<and>
      (\<forall>q. q \<notin> G \<longrightarrow> find_row q v = find_row q u) \<and> map_option PR_ERRORS (find_row pid v) = Some errs \<and>
      (\<exists>g'. find_graph (PR_PROCESSGRAPH_ID r) v = Some g' \<and> PG_STATE g' = FAILED)" for v :: ctl_state
  have "\<exists>g' v. Resolve (graph_view g) (tick n u) = (Inr g', v) \<and> P v" for n
  proof -
    have f: "fails_with s G pid = (if \<exists>p \<in> G. parent_failed (tick n u) p then G else {pid})"
      unfolding fails_with_def pf[symmetric] by (simp add: parent_failed_def)
    have "healthy (tick n u)" "find_graph (PR_PROCESSGRAPH_ID r) u = Some g" "state_of u pid = FAILED"
      using mark(2,4) assms(5) st by simp_all
    from Resolve_after_failure[of "tick n u" g "PR_PROCESSGRAPH_ID r" pid, unfolded views_tick ch, folded G_def,
        OF this(1) linked this(2) assms(8) this(3)]
    obtain g' v where v: "Resolve (graph_view g) (tick n u) = (Inr g', v)"
      "\<forall>q. state_of v q = (if q \<in> G \<and> (\<exists>p \<in> G. parent_failed (tick n u) p) then FAILED else state_of u q)"
      "\<forall>q. q \<notin> G \<longrightarrow> find_row q v = find_row q (tick n u)"
      "\<forall>q. map_option PR_ERRORS (find_row q v) = map_option PR_ERRORS (find_row q (tick n u))"
      "\<exists>g'. find_graph (PR_PROCESSGRAPH_ID r) v = Some g' \<and> PG_STATE g' = FAILED" by blast
    have "map_option PR_ERRORS (find_row pid v) = Some errs" using v(4) rows by simp
    moreover have "state_of v q = (if q \<in> fails_with s G pid then FAILED else state_of s q)" for q
      using v(2) assms(8) st unfolding f by auto
    ultimately show ?thesis using v(1,3,5) unfolding P_def by simp
  qed
  then obtain v where res: "resolve_graph_of (process_view u ?r) u = (Inr (), v)" and v: "P v"
    using resolve_graph_of_run[OF mark(2), of "process_view u ?r" g P] mark(4) assms(5) by auto
  obtain sig where "ctl_closeFailed pid errs s = (Inr (), v\<lparr>ctl_signals := ctl_signals v @ [sig]\<rparr>)"
    using closeFailed_marked[OF mark(1,2), of ?r] rows assms(4) res by (auto simp: thenM_def bindM_def signal_def)
  then show ?thesis
    using v assms(8) rows by (intro exI[of _ "v\<lparr>ctl_signals := ctl_signals v @ [sig]\<rparr>"])
      (auto simp: P_def state_of_def find_row_def find_graph_def)
qed

text \<open>
  C9: closing as failed a process that waits or runs, and that some process of its graph has as a
  parent, makes every process of the graph FAILED and the graph too, and leaves processes outside the
  graph alone.
\<close>

theorem closeFailed_fails_graph:
  fixes s :: ctl_state
  assumes "healthy s" "find_row pid s = Some r" "PR_STATE r = WAITING \<or> PR_STATE r = RUNNING" "PR_PROCESSGRAPH_ID r \<noteq> ''''"
    and "find_graph (PR_PROCESSGRAPH_ID r) s = Some g" "graph_linked s (PG_ROOTS g)"
  defines "G \<equiv> reachable (children_of s) (PG_ROOTS g)"
  assumes "child \<in> G" "pid \<in> set (parents_of s child)"
  shows "\<exists>s'. ctl_closeFailed pid errs s = (Inr (), s') \<and> (\<forall>q \<in> G. state_of s' q = FAILED) \<and>
    (\<forall>q. q \<notin> G \<longrightarrow> find_row q s' = find_row q s) \<and>
    (\<exists>g'. find_graph (PR_PROCESSGRAPH_ID r) s' = Some g' \<and> PG_STATE g' = FAILED)"
proof -
  have "pid \<in> G" using assms(6,8,9) by (auto simp: graph_linked_def G_def)
  moreover have "fails_with s G pid = G" using assms(8,9) by (auto simp: fails_with_def)
  ultimately show ?thesis
    using closeFailed_in_graph[OF assms(1-6), folded G_def, of errs] by auto
qed

theorem closeFailed_fails_graph_witness:
  "\<exists>s'. ctl_closeFailed ''a'' [''boom''] (demo_close RUNNING WAITING) = (Inr (), s') \<and> state_of s' ''b'' = FAILED"
  using closeFailed_fails_graph[of "demo_close RUNNING WAITING" "''a''" "demo_row ''a'' RUNNING [] [''b'']" demo_graph_row "''b''" "[''boom'']"]
  by (auto simp: demo_close_graph)


text \<open>
  When the graph cannot be resolved, here because its first root is gone, \<open>closeFailed\<close> means to
  mark the process and the graph as failed, but the process has been marked already: the second mark
  is refused, its error replaces the first one, and the graph keeps its state.
\<close>

theorem closeFailed_defunct_graph:
  fixes s :: ctl_state
  assumes "healthy s" "find_row pid s = Some r" "PR_STATE r = WAITING \<or> PR_STATE r = RUNNING" "PR_PROCESSGRAPH_ID r \<noteq> ''''"
    and "find_graph (PR_PROCESSGRAPH_ID r) s = Some g" "PG_ROOTS g = rid # rs" "find_row rid s = None"
  shows "\<exists>s'. ctl_closeFailed pid errs s = (Inl (Err ''Tried to set failed process as failed''), s') \<and>
    state_of s' pid = FAILED \<and> PROCESSGRAPHS s' = PROCESSGRAPHS s"
proof -
  obtain u t where mark: "MarkFailed pid errs s = (Inr (), u)" "healthy u" "EXECUTORS u = EXECUTORS s"
    "\<And>gid. find_graph gid u = find_graph gid s" "PROCESSGRAPHS u = PROCESSGRAPHS s" "process_ids u = process_ids s"
    and rows: "\<And>q. find_row q u = (if q = pid then Some (r\<lparr>PR_END_TIME := t, PR_STATE := FAILED, PR_ERRORS := errs\<rparr>) else find_row q s)"
    by (rule MarkFailed_marks[OF assms(1,2), of errs]) (use assms(3) in \<open>auto simp: state_defs\<close>)
  let ?r = "r\<lparr>PR_END_TIME := t, PR_STATE := FAILED, PR_ERRORS := errs\<rparr>"
  obtain n where get: "GetProcessGraphByID (PR_PROCESSGRAPH_ID r) u = (Inr (Some (graph_view g)), tick n u)"
    using mark(2,4) assms(5) by (simp add: GetProcessGraphByID_run)
  have none: "find_row rid u = None" using assms(2,7) by (auto simp: rows)
  have "\<exists>msg. Resolve (graph_view g) (tick n u) = (Inl (Err msg), tick n u)"
    using assms(6) mark(2) none by (simp add: Resolve_def Iterate_def bindM_def GetProcessByID_run graph_view_def)
  then obtain msg where res: "tryM (Resolve (graph_view g)) (tick n u) = (Inr (Inl (Err msg)), tick n u)"
    by (auto simp: tryM_def)
  have id: "PR_PROCESS_ID r = pid" using find_row_id[OF assms(2)] .
  have "MarkFailed pid [msg] (tick n u) = (Inl (Err ''Tried to set failed process as failed''), tick 1 (tick n u))"
    using MarkFailed_run[of "tick n u" pid ?r "[msg]"] mark(2) rows by (simp add: state_defs)
  then have "resolve_graph_of (process_view u ?r) u = (Inl (Err ''Tried to set failed process as failed''), tick 1 (tick n u))"
    using get res id by (simp add: resolve_graph_of_def bindM_def thenM_def handleDefunctProcessgraph_def)
  then have "ctl_closeFailed pid errs s = (Inl (Err ''Tried to set failed process as failed''), tick 1 (tick n u))"
    using closeFailed_marked[OF mark(1,2), of ?r] rows assms(4) by (simp add: thenM_def bindM_def)
  then show ?thesis using mark(5) rows by (simp add: state_of_def)
qed

definition demo_broken :: ctl_state where
  "demo_broken = (demo_close SUCCESS RUNNING)\<lparr>PROCESSES := [demo_row ''b'' RUNNING [''a''] []]\<rparr>"

theorem closeFailed_defunct_graph_witness:
  "\<exists>s'. ctl_closeFailed ''b'' [''boom''] demo_broken = (Inl (Err ''Tried to set failed process as failed''), s') \<and>
     map PG_STATE (PROCESSGRAPHS s') = [WAITING]"
proof -
  have "healthy demo_broken" "find_row ''b'' demo_broken = Some (demo_row ''b'' RUNNING [''a''] [])"
    "find_row ''a'' demo_broken = None" "find_graph ''g'' demo_broken = Some demo_graph_row"
    using demo_close_simps(5)[of SUCCESS RUNNING] by (simp_all add: demo_broken_def find_row_def find_graph_def)
  moreover have "PROCESSGRAPHS demo_broken = [demo_graph_row]"
    by (simp add: demo_broken_def demo_close_def demo_ctl_def demo_db_def pq_state.defs)
  ultimately show ?thesis
    using closeFailed_defunct_graph[of demo_broken "''b''" "demo_row ''b'' RUNNING [''a''] []" demo_graph_row "''a''" "[]" "[''boom'']"]
    by auto
qed


end
