(* ===== verification/Timeout_Facts.thy ===== *)
theory Timeout_Facts
  imports Closing_Facts
begin

text \<open>
  Unassigning processes, the deadlines that one round of the timeout loop enforces, and pausing and
  resuming the assignments of a colony.
\<close>

section \<open>Unassigning\<close>

text \<open>The column changes that \<open>Unassign\<close> makes, with the clock readings of its statements.\<close>

definition unassigned_row :: "time \<Rightarrow> time \<Rightarrow> process_row \<Rightarrow> process_row" where
  "unassigned_row endTime now r =
     (let r1 = r\<lparr>PR_IS_ASSIGNED := False, PR_END_TIME := endTime, PR_STATE := WAITING,
                 PR_RETRIES := PR_RETRIES r + 1, PR_ASSIGNED_EXECUTOR_ID := ''''\<rparr>
      in if PR_MAX_WAIT_TIME r > 0 then r1\<lparr>PR_WAIT_DEADLINE := now + seconds (PR_MAX_WAIT_TIME r)\<rparr> else r1)"

lemma unassigned_row_fields [simp]:
  "PR_PROCESS_ID (unassigned_row t u r) = PR_PROCESS_ID r" "PR_STATE (unassigned_row t u r) = WAITING"
  "PR_RETRIES (unassigned_row t u r) = PR_RETRIES r + 1" "\<not> PR_IS_ASSIGNED (unassigned_row t u r)"
  by (simp_all add: unassigned_row_def Let_def)

lemma find_row_upd_to:
  assumes "find_row pid s = Some r" "PR_PROCESS_ID (f r) = pid" "\<And>x. PR_PROCESS_ID (f x) = PR_PROCESS_ID x"
  shows "find_row q (upd_row pid f s) = (if q = pid then Some (f r) else find_row q s)"
  using assms by (simp add: find_row_upd)

lemma UnassignProcess_run:
  assumes "healthy s" "find_row pid s = Some r"
  obtains p s' t u where "UnassignProcess (process_view s r) s = (Inr p, s')" "healthy s'"
    "\<And>q. find_row q s' = (if q = pid then Some (unassigned_row t u r) else find_row q s)"
    "PROCESSGRAPHS s' = PROCESSGRAPHS s"
proof -
  let ?t = "env_clock s (env_ticks s)" and ?u = "env_clock s (Suc (env_ticks s))"
  have id: "PR_PROCESS_ID r = pid" using find_row_id[OF assms(2)] .
  show thesis
  proof (cases "PR_MAX_WAIT_TIME r > 0")
    case True
    let ?f = "\<lambda>x. x\<lparr>PR_IS_ASSIGNED := False, PR_END_TIME := ?t, PR_STATE := WAITING, PR_RETRIES := PR_RETRIES r + 1,
      PR_ASSIGNED_EXECUTOR_ID := '''', PR_WAIT_DEADLINE := ?u + seconds (PR_MAX_WAIT_TIME r)\<rparr>"
    let ?s = "upd_attr_state pid PENDING (upd_row pid ?f (tick 2 s))"
    have "find_row q ?s = (if q = pid then Some (unassigned_row ?t ?u r) else find_row q s)" for q
      using assms(2) True by (simp add: find_row_upd unassigned_row_def)
    moreover have "UnassignProcess (process_view s r) s =
        (Inr (SetState WAITING (Process_Unassign (SetEndTime ?t (process_view s r)))), ?s)"
      using assms(1) id True
      by (simp add: UnassignProcess_def Let_def bindM_def thenM_def time_Now_tick update_process_run SetAttributeState_upd numeral_2_eq_2)
    ultimately show thesis using assms(1) id by (intro that[of _ ?s ?t ?u]) simp_all
  next
    case False
    let ?f = "\<lambda>x. x\<lparr>PR_IS_ASSIGNED := False, PR_END_TIME := ?t, PR_STATE := WAITING, PR_RETRIES := PR_RETRIES r + 1,
      PR_ASSIGNED_EXECUTOR_ID := ''''\<rparr>"
    let ?s = "upd_attr_state pid PENDING (upd_row pid ?f (tick 1 s))"
    have "find_row q ?s = (if q = pid then Some (unassigned_row ?t ?u r) else find_row q s)" for q
      using assms(2) False by (simp add: find_row_upd unassigned_row_def)
    moreover have "UnassignProcess (process_view s r) s =
        (Inr (SetState WAITING (Process_Unassign (SetEndTime ?t (process_view s r)))), ?s)"
      using assms(1) id False
      by (simp add: UnassignProcess_def Let_def bindM_def thenM_def time_Now_tick update_process_run SetAttributeState_upd)
    ultimately show thesis using assms(1) id by (intro that[of _ ?s ?t ?u]) simp_all
  qed
qed

lemma unassignExecutor_run:
  assumes "healthy s" "find_row pid s = Some r"
  shows "\<exists>s' t u. ctl_unassignExecutor pid s = (Inr (), s') \<and> healthy s' \<and> PROCESSGRAPHS s' = PROCESSGRAPHS s \<and>
    (\<forall>q. find_row q s' = (if q = pid then Some (unassigned_row t u r) else find_row q s))"
proof -
  obtain p s' t u where run: "UnassignProcess (process_view s r) s = (Inr p, s')" "healthy s'"
    "\<And>q. find_row q s' = (if q = pid then Some (unassigned_row t u r) else find_row q s)" "PROCESSGRAPHS s' = PROCESSGRAPHS s"
    by (rule UnassignProcess_run[OF assms]) (rule that)
  have "ctl_unassignExecutor pid s = (Inr (), s'\<lparr>ctl_signals := ctl_signals s' @ [p]\<rparr>)"
    using assms run(1) by (simp add: ctl_unassignExecutor_def bindM_def GetProcessByID_run tryM_def signal_def)
  then show ?thesis
    using run(2-4) by (intro exI[of _ "s'\<lparr>ctl_signals := ctl_signals s' @ [p]\<rparr>"] exI[of _ t] exI[of _ u])
      (simp add: find_row_def healthy_def)
qed

text \<open>Closing as failed outside graphs.\<close>

lemma closeFailed_alone:
  fixes s :: ctl_state
  assumes "healthy s" "find_row pid s = Some r" "PR_STATE r = WAITING \<or> PR_STATE r = RUNNING" "PR_PROCESSGRAPH_ID r = ''''"
  shows "\<exists>s'. ctl_closeFailed pid errs s = (Inr (), s') \<and> map_option PR_ERRORS (find_row pid s') = Some errs \<and>
    (\<forall>q. state_of s' q = (if q = pid then FAILED else state_of s q))"
proof -
  obtain u t where mark: "MarkFailed pid errs s = (Inr (), u)" "healthy u"
    and rows: "\<And>q. find_row q u = (if q = pid then Some (r\<lparr>PR_END_TIME := t, PR_STATE := FAILED, PR_ERRORS := errs\<rparr>) else find_row q s)"
    by (rule MarkFailed_marks[OF assms(1,2)]) (use assms(3) that in \<open>auto simp: state_defs\<close>)
  obtain p where "ctl_closeFailed pid errs s = (Inr (), u\<lparr>ctl_signals := ctl_signals u @ [p]\<rparr>)"
    using closeFailed_marked[OF mark] rows assms(4) by (simp add: monad_ret signal_def)
  moreover have "find_row q (u\<lparr>ctl_signals := ctl_signals u @ [p]\<rparr>) = find_row q u" for q by (simp add: find_row_def)
  ultimately show ?thesis
    by (intro exI[of _ "u\<lparr>ctl_signals := ctl_signals u @ [p]\<rparr>"]) (simp add: state_of_def rows)
qed

lemma graph_linked_tick: "graph_linked (tick n s) roots = graph_linked s roots"
  by (simp add: graph_linked_def graph_closed_def)

section \<open>Properties\<close>

text \<open>
  \<open>unassignExecutor\<close> puts a process back to the queue, unassigned, WAITING and with one more retry,
  and changes no other process. It does so whatever state the process is in: also a process that has
  ended, with SUCCESS or FAILED, goes back to the queue and will run again.
\<close>

theorem unassign_ignores_state:
  assumes "healthy s" "find_row pid s = Some r"
  shows "\<exists>s' r'. ctl_unassignExecutor pid s = (Inr (), s') \<and> find_row pid s' = Some r' \<and> PR_STATE r' = WAITING \<and>
    \<not> PR_IS_ASSIGNED r' \<and> PR_RETRIES r' = PR_RETRIES r + 1 \<and> (\<forall>q. q \<noteq> pid \<longrightarrow> find_row q s' = find_row q s)"
  using unassignExecutor_run[OF assms] by auto

theorem unassign_ignores_state_witness:
  "\<exists>s' r'. ctl_unassignExecutor ''a'' (demo_close SUCCESS WAITING) = (Inr (), s') \<and> find_row ''a'' s' = Some r' \<and> PR_STATE r' = WAITING"
  using unassign_ignores_state[of "demo_close SUCCESS WAITING" "''a''" "demo_row ''a'' SUCCESS [] [''b'']"] by auto

text \<open>
  C26: the check of the execution time on a running process. With \<open>MaxExecTime\<close> \<open>-1\<close>, or before the second of its
  deadline has passed, nothing changes. After it, a process that has retries left, or whose number of retries is
  unlimited, is back in the queue with one retry more and no other process changes. A process that used up its
  retries is FAILED with the error of the time limit; if it belongs to a graph (stored, with its processes), and
  has children there or the graph had a process with a FAILED parent, all processes of the graph are FAILED with it;
  no other process changes its state.
\<close>

theorem exec_timeout:
  fixes s :: ctl_state and g :: processgraph_row
  assumes "healthy s" "find_row pid s = Some r" "PR_STATE r = RUNNING"
  defines "late \<equiv> PR_MAX_EXEC_TIME r \<noteq> - 1 \<and> time_Unix (env_clock s (env_ticks s)) > time_Unix (PR_EXEC_DEADLINE r)"
    and "spent \<equiv> - 1 < PR_MAX_RETRIES r \<and> PR_MAX_RETRIES r \<le> PR_RETRIES r"
    and "down \<equiv> if PR_PROCESSGRAPH_ID r = '''' then {pid} else fails_with s (reachable (children_of s) (PG_ROOTS g)) pid"
  assumes "late \<Longrightarrow> spent \<Longrightarrow> PR_PROCESSGRAPH_ID r \<noteq> '''' \<Longrightarrow> find_graph (PR_PROCESSGRAPH_ID r) s = Some g \<and>
      graph_linked s (PG_ROOTS g) \<and> pid \<in> reachable (children_of s) (PG_ROOTS g)"
  shows "\<exists>s' r'. check_exec_time (process_view s r) s = (Inr (), s') \<and> find_row pid s' = Some r' \<and>
    (if late \<and> spent then PR_ERRORS r' = [''Maximum execution time limit exceeded''] \<and>
       (\<forall>q. state_of s' q = (if q \<in> down then FAILED else state_of s q))
     else if late then PR_STATE r' = WAITING \<and> \<not> PR_IS_ASSIGNED r' \<and> PR_RETRIES r' = PR_RETRIES r + 1 \<and>
       (\<forall>q. q \<noteq> pid \<longrightarrow> find_row q s' = find_row q s)
     else \<forall>q. find_row q s' = find_row q s)"
proof -
  let ?s = "tick 1 s" and ?errs = "[''Maximum execution time limit exceeded'']"
  have id: "PR_PROCESS_ID r = pid" using find_row_id[OF assms(2)] .
  have h: "healthy ?s" and row: "find_row pid ?s = Some r" using assms(1,2) by simp_all
  consider (spent) "late" "spent" | (retry) "late" "\<not> spent" | (early) "\<not> late" by blast
  then show ?thesis
  proof cases
    case spent
    have "\<exists>s'. ctl_closeFailed pid ?errs ?s = (Inr (), s') \<and> map_option PR_ERRORS (find_row pid s') = Some ?errs \<and>
        (\<forall>q. state_of s' q = (if q \<in> down then FAILED else state_of s q))"
    proof (cases "PR_PROCESSGRAPH_ID r = ''''")
      case True
      from closeFailed_alone[OF h row _ True, of ?errs] show ?thesis
        using assms(3) True by (auto simp: down_def)
    next
      case False
      have "fails_with ?s G pid = fails_with s G pid" for G by (simp add: fails_with_def parent_failed_def)
      with closeFailed_in_graph[OF h row _ False, of g ?errs] show ?thesis
        using assms(3) assms(7)[OF spent False] False by (auto simp: down_def graph_linked_tick)
    qed
    then obtain s' where "ctl_closeFailed pid ?errs ?s = (Inr (), s')" "map_option PR_ERRORS (find_row pid s') = Some ?errs"
      "\<forall>q. state_of s' q = (if q \<in> down then FAILED else state_of s q)" by blast
    moreover from this have "check_exec_time (process_view s r) s = (Inr (), s')"
      using spent id by (simp add: late_def spent_def check_exec_time_def bindM_def time_Now_tick ignoreM_Inr)
    ultimately show ?thesis using spent by auto
  next
    case retry
    obtain s' t u where "ctl_unassignExecutor pid ?s = (Inr (), s')"
      "\<forall>q. find_row q s' = (if q = pid then Some (unassigned_row t u r) else find_row q ?s)"
      using unassignExecutor_run[OF h row] by blast
    moreover from this have "check_exec_time (process_view s r) s = (Inr (), s')"
      using retry id by (auto simp: late_def spent_def check_exec_time_def bindM_def time_Now_tick ignoreM_Inr)
    ultimately show ?thesis using retry by auto
  next
    case early
    then have "check_exec_time (process_view s r) s = (Inr (), if PR_MAX_EXEC_TIME r \<noteq> - 1 then ?s else s)"
      by (auto simp: late_def check_exec_time_def bindM_def time_Now_tick)
    then show ?thesis using early assms(2) by auto
  qed
qed

definition demo_late :: ctl_state where
  "demo_late = (demo_close WAITING WAITING)\<lparr>PROCESSES := [(demo_row ''x'' RUNNING [] [])\<lparr>PR_PROCESSGRAPH_ID := ''''\<rparr>]\<rparr>"

theorem exec_timeout_witness:
  "\<exists>s' r'. check_exec_time (process_view demo_late ((demo_row ''x'' RUNNING [] [])\<lparr>PR_PROCESSGRAPH_ID := ''''\<rparr>)) demo_late = (Inr (), s') \<and>
     find_row ''x'' s' = Some r' \<and> PR_STATE r' = WAITING \<and> PR_RETRIES r' = 1"
proof -
  let ?r = "(demo_row ''x'' RUNNING [] [])\<lparr>PR_PROCESSGRAPH_ID := ''''\<rparr>"
  have "healthy demo_late" "find_row ''x'' demo_late = Some ?r"
    by (simp_all add: demo_late_def find_row_def)
  moreover have "PR_MAX_EXEC_TIME ?r = 5" "PR_MAX_RETRIES ?r = 3" "PR_RETRIES ?r = 0" "PR_EXEC_DEADLINE ?r = time_zero"
    by (simp_all add: demo_row_def)
  moreover have "time_Unix time_zero < time_Unix (env_clock demo_late (env_ticks demo_late))"
    by (simp add: demo_late_def demo_close_def demo_ctl_def demo_db_def new_pq_def pq_state.defs time_Unix_def time_zero_def)
  ultimately show ?thesis using exec_timeout[of demo_late "''x''" ?r] by auto
qed

section \<open>Pausing and resuming\<close>

text \<open>
  Every channel that waits has been made, so the channel that the next waiting executor gets is new, and waits for
  one colony only.
\<close>

definition channels_made :: "ctl_state \<Rightarrow> bool" where
  "channels_made s \<longleftrightarrow>
     (\<forall>c. \<forall>ch \<in> set (channels_of c (ctl_pauseChannels s)). ch < ctl_nextChannel s \<and>
        (\<forall>d. ch \<in> set (channels_of d (ctl_pauseChannels s)) \<longrightarrow> d = c))"

lemma channels_of_update:
  "channels_of c (AList.update d cs m) = (if c = d then cs else channels_of c m)"
  by (simp add: channels_of_def update_conv')

lemma channels_of_delete:
  "channels_of c (AList.delete d m) = (if c = d then [] else channels_of c m)"
  by (simp add: channels_of_def delete_conv')

lemma channels_made_new: "channels_made s \<Longrightarrow> ctl_nextChannel s \<notin> set (channels_of d (ctl_pauseChannels s))"
  by (auto simp: channels_made_def)

lemma channels_made_create:
  assumes "channels_made s" "createResumeChannel c s = (Inr ch, s')"
  shows "channels_made s'"
  using assms channels_made_new[OF assms(1)]
  by (auto simp: channels_made_def createResumeChannel_def Let_def channels_of_update less_Suc_eq split: if_splits)

lemma channels_made_wakeup: "channels_made s \<Longrightarrow> channels_made (snd (wakeupPausedAssignments c s))"
  by (auto simp: channels_made_def wakeupPausedAssignments_def channels_of_delete split: if_splits)

text \<open>
  C27: while the assignments of a colony are paused, \<open>assign\<close> gives a known executor no process and a
  channel of its own, new and empty, on which it waits; no process changes. When the colony is resumed
  later, every channel registered for it holds a value, so every waiting executor wakes up, the
  colony has no waiting channel left, and the channels of other colonies stay registered and hold what they held.
\<close>

theorem pause_then_resume_wakes:
  fixes s :: ctl_state
  assumes "executors_ok s" "find (\<lambda>x. EX_EXECUTOR_ID x = eid) (EXECUTORS s) \<noteq> None" "ctl_etcd_client s" "channels_made s"
    and "0 < k" "\<forall>n. ctl_etcd_get s n (pause_key c) = Inr k" "\<forall>n. ctl_etcd_write s n (pause_key c) = Inr ()"
  shows "\<exists>ch s1 s2. ctl_assign srt others eid c cpu mem s = (Inr \<lparr>ar_Process = None, ar_IsPaused = True, ar_ResumeChannel = Some ch\<rparr>, s1) \<and>
    PROCESSES s1 = PROCESSES s \<and> \<not> ctl_channelFull s1 ch \<and> (\<forall>d. ch \<notin> set (channels_of d (ctl_pauseChannels s))) \<and>
    ctl_resumeColonyAssignments c s1 = (Inr (), s2) \<and> ctl_channelFull s2 ch \<and>
    (\<forall>ch' \<in> set (channels_of c (ctl_pauseChannels s)). ctl_channelFull s2 ch') \<and>
    channels_of c (ctl_pauseChannels s2) = [] \<and>
    (\<forall>d. d \<noteq> c \<longrightarrow> channels_of d (ctl_pauseChannels s2) = channels_of d (ctl_pauseChannels s) \<and>
       (\<forall>ch' \<in> set (channels_of d (ctl_pauseChannels s)). ctl_channelFull s2 ch' = ctl_channelFull s ch'))"
proof -
  have h: "healthy s" using assms(1) by (simp add: executors_ok_def)
  obtain e where e: "GetExecutorByID eid s = (Inr (Some e), s)"
    using assms(1,2) GetExecutorByID_run[of s eid] by (auto simp: executors_ok_def)
  obtain t where run: "ctl_assign srt others eid c cpu mem s =
      bindM (createResumeChannel c) (\<lambda>ch. retM \<lparr>ar_Process = None, ar_IsPaused = True, ar_ResumeChannel = Some ch\<rparr>) t"
    and t: "PROCESSES t = PROCESSES s" "ctl_pauseChannels t = ctl_pauseChannels s" "ctl_nextChannel t = ctl_nextChannel s"
      "ctl_etcd_client t" "ctl_etcd_write t = ctl_etcd_write s" "ctl_channelFull t = ctl_channelFull s"
    by (rule assign_prefix[OF h e assms(3), of c k srt others cpu mem]) (use assms(5,6) in auto)
  let ?ch = "ctl_nextChannel s"
  obtain s1 where s1: "createResumeChannel c t = (Inr ?ch, s1)" using t(3) by (simp add: createResumeChannel_def Let_def)
  have f1: "PROCESSES s1 = PROCESSES s" "\<not> ctl_channelFull s1 ?ch" "ctl_etcd_client s1" "ctl_etcd_write s1 = ctl_etcd_write s"
    "ctl_channelFull s1 = (ctl_channelFull s)(?ch := False)"
    "channels_of d (ctl_pauseChannels s1) = (if d = c then channels_of c (ctl_pauseChannels s) @ [?ch] else channels_of d (ctl_pauseChannels s))" for d
    using s1 t by (auto simp: createResumeChannel_def Let_def channels_of_update)
  obtain s2 where s2: "ctl_resumeColonyAssignments c s1 = (Inr (), s2)"
    "ctl_channelFull s2 = (\<lambda>ch. ctl_channelFull s1 ch \<or> ch \<in> set (channels_of c (ctl_pauseChannels s1)))"
    "ctl_pauseChannels s2 = AList.delete c (ctl_pauseChannels s1)"
    using f1(3,4) assms(7)
    by (simp add: ctl_resumeColonyAssignments_def thenM_def bindM_def etcd_ask_def wakeupPausedAssignments_def)
  have new: "\<forall>d. ?ch \<notin> set (channels_of d (ctl_pauseChannels s))" using channels_made_new[OF assms(4)] by blast
  have "ctl_channelFull s2 ch' = ctl_channelFull s ch'" if "ch' \<in> set (channels_of d (ctl_pauseChannels s))" "d \<noteq> c" for d ch'
    using that new assms(4) by (auto simp: s2(2) f1 channels_made_def)
  moreover have "ctl_assign srt others eid c cpu mem s = (Inr \<lparr>ar_Process = None, ar_IsPaused = True, ar_ResumeChannel = Some ?ch\<rparr>, s1)"
    using run s1 by (simp add: bindM_def)
  ultimately show ?thesis
    using new s2 f1 by (intro exI[of _ ?ch] exI[of _ s1] exI[of _ s2]) (simp add: channels_of_delete)
qed


definition demo_paused :: ctl_state where
  "demo_paused = (demo_close WAITING WAITING)\<lparr>ctl_etcd_get := \<lambda>_ _. Inr 1, ctl_pauseChannels := [(''c'', [0])], ctl_nextChannel := 1\<rparr>"

theorem pause_then_resume_wakes_witness:
  "\<exists>ch s1 s2. ctl_assign byLowestPriorityTime id ''e'' ''c'' 1 1 demo_paused =
      (Inr \<lparr>ar_Process = None, ar_IsPaused = True, ar_ResumeChannel = Some ch\<rparr>, s1) \<and>
     ctl_resumeColonyAssignments ''c'' s1 = (Inr (), s2) \<and> ctl_channelFull s2 0 \<and> ctl_channelFull s2 ch"
proof -
  have "executors_ok demo_paused" "find (\<lambda>x. EX_EXECUTOR_ID x = ''e'') (EXECUTORS demo_paused) \<noteq> None"
    using demo_close_simps(6,7)[of WAITING WAITING]
    by (simp_all add: demo_paused_def executors_ok_def healthy_def demo_executor_row)
  moreover have "ctl_etcd_client demo_paused" "channels_made demo_paused" "ctl_etcd_get demo_paused n key = Inr 1"
    "ctl_etcd_write demo_paused n key = Inr ()" "channels_of ''c'' (ctl_pauseChannels demo_paused) = [0]" for n key
    by (simp_all add: demo_paused_def demo_close_def demo_ctl_def channels_made_def channels_of_def pq_state.defs ctl_state.defs
        split: option.splits if_splits)
  ultimately show ?thesis
    using pause_then_resume_wakes[of demo_paused "''e''" 1 "''c''" byLowestPriorityTime id 1 1] by force
qed


end
