(* ===== verification/Server_Checks.thy ===== *)
theory Server_Checks
  imports Controller
begin

text \<open>
  What the server checks before it lets a request reach the controller: the bounds of a function spec
  and the dependencies of a workflow spec (\<open>pkg/server/verification.go\<close>), who sent the request
  (\<open>pkg/server/utils.go\<close>), and whether the sender owns the server, owns the colony or is a member of
  it (\<open>pkg/security/validator\<close>). The last section holds what the priority bounds are for.
\<close>

section \<open>Specifications\<close>

definition MIN_PRIORITY :: int where "MIN_PRIORITY = - 50000"

definition MAX_PRIORITY :: int where "MAX_PRIORITY = 50000"

definition VerifyFunctionSpec :: "FunctionSpec \<Rightarrow> failure + unit" where
  "VerifyFunctionSpec funcSpec =
     (if spec_Priority funcSpec < MIN_PRIORITY \<or> spec_Priority funcSpec > MAX_PRIORITY
      then Inl (Err (''Failed to submit function spec, priority outside range [-50000, 50000]''))
      else Inr ())"

text \<open>
  \<open>processMap[nodename] = process\<close>: a later node of the same name replaces an earlier one. The ids of
  the processes made here are never used; the result of the range over the map, an error or none,
  does not depend on its order.
\<close>

definition VerifyWorkflowSpec :: "WorkflowSpec \<Rightarrow> failure + unit" where
  "VerifyWorkflowSpec workflowSpec =
     (let processMap = fold (\<lambda>spec m. AList.update (spec_NodeName spec) spec m) (wf_FunctionSpecs workflowSpec) []
      in if list_all (\<lambda>(_, spec). list_all (\<lambda>dependsOn. map_of processMap dependsOn \<noteq> None)
                         (elems (cond_Dependencies (spec_Conditions spec)))) processMap
         then Inr ()
         else Inl dep_error)"

section \<open>Initiators\<close>

datatype InitiatorType = InitiatorExecutor | InitiatorUser

record Initiator =
  initiator_Name :: string
  initiator_Type :: InitiatorType

definition deriveInitiator :: "string \<Rightarrow> string \<Rightarrow> ('z pq_state_scheme, Initiator) op" where
  "deriveInitiator colonyName recoveredID =
     bindM (GetExecutorByID recoveredID) (\<lambda>executor.
     (case executor of
        Some e \<Rightarrow> retM \<lparr>initiator_Name = exec_Name e, initiator_Type = InitiatorExecutor\<rparr>
      | None \<Rightarrow>
          bindM (GetUserByID colonyName recoveredID) (\<lambda>user.
          (case user of
             Some u \<Rightarrow> retM \<lparr>initiator_Name = user_Name u, initiator_Type = InitiatorUser\<rparr>
           | None \<Rightarrow> throwM (Err ''could not derive initiator'')))))"

definition GenerateRandomID :: "('z pq_state_scheme, string) op" where
  "GenerateRandomID = bindM uuid_New GenerateHash"

section \<open>Ownership\<close>

definition resolveColony :: "string \<Rightarrow> ('z pq_state_scheme, string) op" where
  "resolveColony colonyName =
     (if colonyName = '''' then throwM (Err ''Empty Colony name'')
      else
        bindM (GetColonyByName colonyName) (\<lambda>colony.
        (case colony of
           None \<Rightarrow> throwM (Err (''Colony with name <'' @ colonyName @ ''> does not exists''))
         | Some c \<Rightarrow>
             if colony_ID c = '''' then throwM (Err ''No Colony Id found'') else retM (colony_ID c))))"

definition not_member :: "string \<Rightarrow> failure" where
  "not_member colonyName = Err (''Access denied, not a member of Colony with name <'' @ colonyName @ ''>'')"

definition checkIfExecutorIsValid :: "string \<Rightarrow> string \<Rightarrow> bool \<Rightarrow> ('z pq_state_scheme, unit) op" where
  "checkIfExecutorIsValid executorID colonyName approved =
     bindM (GetColonyByName colonyName) (\<lambda>colony.
     (case colony of
        None \<Rightarrow> throwM (Err (''Colony <'' @ colonyName @ ''> does not exists''))
      | Some c \<Rightarrow>
          bindM (GetExecutorByID executorID) (\<lambda>executor.
          (case executor of
             None \<Rightarrow> throwM (not_member colonyName)
           | Some e \<Rightarrow>
               if exec_ColonyName e \<noteq> colony_Name c then throwM (not_member colonyName)
               else if approved \<and> exec_State e \<noteq> APPROVED
               then throwM (Err (''Access denied, Executor with Id <'' @ executorID @ ''> is not approved''))
               else retM ()))))"

definition checkIfUserIsValid :: "string \<Rightarrow> string \<Rightarrow> ('z pq_state_scheme, unit) op" where
  "checkIfUserIsValid userID colonyName =
     bindM (GetColonyByName colonyName) (\<lambda>colony.
     (case colony of
        None \<Rightarrow> throwM (Err (''Colony with name <'' @ colonyName @ ''> does not exists''))
      | Some c \<Rightarrow>
          bindM (GetUserByID (colony_Name c) userID) (\<lambda>user.
          (case user of
             None \<Rightarrow> throwM (not_member (colony_Name c))
           | Some u \<Rightarrow>
               if user_ColonyName u \<noteq> colony_Name c then throwM (not_member (colony_Name c)) else retM ()))))"

section \<open>The validator\<close>

definition RequireServerOwner :: "string \<Rightarrow> string \<Rightarrow> ('s, unit) op" where
  "RequireServerOwner recoveredID serverID =
     guardM (recoveredID = serverID) (Err ''Access denied, not server owner'')"

definition RequireColonyOwner :: "string \<Rightarrow> string \<Rightarrow> ('z pq_state_scheme, unit) op" where
  "RequireColonyOwner recoveredID colonyName =
     bindM (resolveColony colonyName) (\<lambda>colonyID.
     guardM (recoveredID = colonyID) (Err ''Access denied, not colony owner''))"

definition RequireMembership :: "string \<Rightarrow> string \<Rightarrow> bool \<Rightarrow> ('z pq_state_scheme, unit) op" where
  "RequireMembership recoveredID colonyName approved =
     bindM (tryM (checkIfExecutorIsValid recoveredID colonyName approved)) (\<lambda>res.
     (case res of Inl _ \<Rightarrow> checkIfUserIsValid recoveredID colonyName | Inr _ \<Rightarrow> retM ()))"

end
