(* ===== verification/Files.thy ===== *)
theory Files
  imports Server_Checks
begin

text \<open>
  File metadata and snapshots: \<open>pkg/core/file.go\<close>, \<open>filedata.go\<close>, \<open>label.go\<close>, \<open>snapshot.go\<close> and
  \<open>pkg/database/postgresql/files.go\<close>, \<open>snapshots.go\<close>. A file is never overwritten: adding it again under
  its label and name stores one more row, with a larger number of the sequence \<open>FILE_SEQ\<close>. A snapshot
  stores the ids of the newest files below a label. Where the code ranges over a Go map, the order
  comes from \<open>range_keys\<close>.
\<close>

section \<open>Data\<close>

record S3Object =
  s3_Server :: string
  s3_Port :: int
  s3_TLS :: bool
  s3_AccessKey :: string
  s3_SecretKey :: string
  s3_Region :: string
  s3_EncryptionKey :: string
  s3_EncryptionAlg :: string
  s3_Object :: string
  s3_Bucket :: string

record Reference =
  ref_Protocol :: string
  ref_S3Object :: S3Object

record File =
  file_ID :: string
  file_ColonyName :: string
  file_Label :: string
  file_Name :: string
  file_Size :: int
  file_SequenceNumber :: int
  file_Checksum :: string
  file_ChecksumAlg :: string
  file_Reference :: Reference
  file_Added :: time

record FileData =
  fd_Name :: string
  fd_Checksum :: string
  fd_Size :: int
  fd_S3Filename :: string

record Label =
  label_Name :: string
  label_Files :: int

record Snapshot =
  snap_ID :: string
  snap_ColonyName :: string
  snap_Label :: string
  snap_Name :: string
  snap_FileIDs :: "string list"
  snap_Added :: time

definition File_Equals :: "File \<Rightarrow> File \<Rightarrow> bool" where
  "File_Equals f g \<longleftrightarrow>
     file_Reference f = file_Reference g \<and> file_ID f = file_ID g \<and> file_ColonyName f = file_ColonyName g \<and>
     file_Label f = file_Label g \<and> file_Name f = file_Name g \<and> file_Size f = file_Size g \<and>
     file_SequenceNumber f = file_SequenceNumber g \<and> file_Checksum f = file_Checksum g \<and>
     file_ChecksumAlg f = file_ChecksumAlg g \<and> time_Unix (file_Added f) = time_Unix (file_Added g)"

definition Snapshot_Equals :: "Snapshot \<Rightarrow> Snapshot \<Rightarrow> bool" where
  "Snapshot_Equals s t \<longleftrightarrow>
     snap_ID s = snap_ID t \<and> snap_ColonyName s = snap_ColonyName t \<and> snap_Label s = snap_Label t \<and>
     snap_Name s = snap_Name t \<and> time_Unix (snap_Added s) = time_Unix (snap_Added t) \<and>
     length (snap_FileIDs s) = length (snap_FileIDs t) \<and>
     list_all2 (=) (snap_FileIDs s) (snap_FileIDs t)"

text \<open>The comparisons of arrays go index by index; nil is equal to nothing.\<close>

definition arrays_equal :: "('a \<Rightarrow> 'a \<Rightarrow> bool) \<Rightarrow> 'a list option \<Rightarrow> 'a list option \<Rightarrow> bool" where
  "arrays_equal eq xs ys \<longleftrightarrow>
     (case (xs, ys) of
        (Some as, Some bs) \<Rightarrow> length as = length bs \<and> length (filter (\<lambda>(a, b). eq a b) (zip as bs)) = length as
      | _ \<Rightarrow> False)"

definition IsFileArraysEqual :: "File list option \<Rightarrow> File list option \<Rightarrow> bool" where
  "IsFileArraysEqual = arrays_equal File_Equals"

definition IsSnapshotArraysEqual :: "Snapshot list option \<Rightarrow> Snapshot list option \<Rightarrow> bool" where
  "IsSnapshotArraysEqual = arrays_equal Snapshot_Equals"

definition IsLabelArraysEqual :: "Label list option \<Rightarrow> Label list option \<Rightarrow> bool" where
  "IsLabelArraysEqual = arrays_equal (\<lambda>a b. label_Name a = label_Name b \<and> label_Files a = label_Files b)"

section \<open>Pattern matching\<close>

text \<open>
  \<open>LIKE\<close>: \<open>%\<close> stands for any text, \<open>_\<close> for any character, a backslash takes the next character as it
  is. The patterns here all end with \<open>%\<close>, so that no
  backslash comes last, which would be an error.
\<close>

fun sql_like :: "string \<Rightarrow> string \<Rightarrow> bool" where
  "sql_like [] s = (s = [])"
| "sql_like (c # p) s =
     (if c = CHR ''%'' then sql_like p s \<or> (case s of [] \<Rightarrow> False | _ # s' \<Rightarrow> sql_like (c # p) s')
      else if c = CHR 0x5C then
        (case p of [] \<Rightarrow> False | d # p' \<Rightarrow> (case s of [] \<Rightarrow> False | e # s' \<Rightarrow> d = e \<and> sql_like p' s'))
      else (case s of [] \<Rightarrow> False | e # s' \<Rightarrow> (c = CHR ''_'' \<or> c = e) \<and> sql_like p s'))"

section \<open>Files\<close>

definition file_row_of :: "int \<Rightarrow> time \<Rightarrow> File \<Rightarrow> file_row" where
  "file_row_of seqnr now f =
     (let obj = ref_S3Object (file_Reference f) in
      \<lparr>FI_FILE_ID = file_ID f, FI_COLONY_NAME = file_ColonyName f, FI_LABEL = file_Label f, FI_NAME = file_Name f,
       FI_SIZE = file_Size f, FI_SEQNR = seqnr, FI_CHECKSUM = file_Checksum f, FI_CHECKSUM_ALG = file_ChecksumAlg f,
       FI_ADDED = now, FI_PROTOCOL = ref_Protocol (file_Reference f), FI_S3_SERVER = s3_Server obj,
       FI_S3_PORT = s3_Port obj, FI_S3_TLS = s3_TLS obj, FI_S3_ACCESSKEY = s3_AccessKey obj,
       FI_S3_SECRETKEY = s3_SecretKey obj, FI_S3_REGION = s3_Region obj, FI_S3_ENCKEY = s3_EncryptionKey obj,
       FI_S3_ENCALG = s3_EncryptionAlg obj, FI_S3_OBJ = s3_Object obj, FI_S3_BUCKET = s3_Bucket obj\<rparr>)"

text \<open>\<open>nextval\<close> is not undone when the row is refused.\<close>

definition nextval :: "int ctl" where
  "nextval = bindM (getM (\<lambda>db. FILE_SEQ db + 1)) (\<lambda>n. thenM (modifyM (\<lambda>db. db\<lparr>FILE_SEQ := n\<rparr>)) (retM n))"

definition AddFile :: "File \<Rightarrow> unit ctl" where
  "AddFile file =
     bindM time_Now (\<lambda>now.
     thenM sql_connection
     (bindM nextval (\<lambda>seqnr.
      thenM (guardM (int4 (s3_Port (ref_S3Object (file_Reference file)))) (SqlErr ''pq: integer out of range''))
      (bindM (getM (\<lambda>db. insert_row FI_FILE_ID (file_row_of seqnr now file) (FILES db))) (\<lambda>res.
       bindM (liftE res) (\<lambda>rows. modifyM (\<lambda>db. db\<lparr>FILES := rows\<rparr>)))))))"

text \<open>The protocol of a stored file is not read back: \<open>parseFiles\<close> always says s3.\<close>

definition parse_file :: "file_row \<Rightarrow> File" where
  "parse_file r =
     \<lparr>file_ID = FI_FILE_ID r, file_ColonyName = FI_COLONY_NAME r, file_Label = FI_LABEL r, file_Name = FI_NAME r,
      file_Size = FI_SIZE r, file_SequenceNumber = FI_SEQNR r, file_Checksum = FI_CHECKSUM r,
      file_ChecksumAlg = FI_CHECKSUM_ALG r,
      file_Reference = \<lparr>ref_Protocol = ''s3'', ref_S3Object =
        \<lparr>s3_Server = FI_S3_SERVER r, s3_Port = FI_S3_PORT r, s3_TLS = FI_S3_TLS r, s3_AccessKey = FI_S3_ACCESSKEY r,
         s3_SecretKey = FI_S3_SECRETKEY r, s3_Region = FI_S3_REGION r, s3_EncryptionKey = FI_S3_ENCKEY r,
         s3_EncryptionAlg = FI_S3_ENCALG r, s3_Object = FI_S3_OBJ r, s3_Bucket = FI_S3_BUCKET r\<rparr>\<rparr>,
      file_Added = FI_ADDED r\<rparr>"

definition select_files :: "(file_row list \<Rightarrow> file_row list) \<Rightarrow> File list ctl" where
  "select_files q = bindM (sql_query (\<lambda>db. Inr (q (FILES db)))) (\<lambda>rows. retM (map parse_file rows))"

definition GetFileByID :: "string \<Rightarrow> string \<Rightarrow> File option ctl" where
  "GetFileByID colonyName fileID =
     bindM (select_files (filter (\<lambda>r. FI_COLONY_NAME r = colonyName \<and> FI_FILE_ID r = fileID))) (\<lambda>files.
     retM (case files of [f] \<Rightarrow> Some f | _ \<Rightarrow> None))"

definition named_file :: "string \<Rightarrow> string \<Rightarrow> string \<Rightarrow> file_row \<Rightarrow> bool" where
  "named_file colonyName label name r \<longleftrightarrow> FI_COLONY_NAME r = colonyName \<and> FI_LABEL r = label \<and> FI_NAME r = name"

definition GetFileByName :: "string \<Rightarrow> string \<Rightarrow> string \<Rightarrow> File list ctl" where
  "GetFileByName colonyName label name =
     select_files (\<lambda>rows. order_desc FI_SEQNR (filter (named_file colonyName label name) rows))"

definition GetLatestFileByName :: "string \<Rightarrow> string \<Rightarrow> string \<Rightarrow> File list ctl" where
  "GetLatestFileByName colonyName label name =
     select_files (\<lambda>rows. take 1 (order_desc FI_SEQNR (filter (named_file colonyName label name) rows)))"

definition GetFilenamesByLabel :: "string \<Rightarrow> string \<Rightarrow> string list ctl" where
  "GetFilenamesByLabel colonyName label =
     bindM (select_files (filter (\<lambda>r. FI_COLONY_NAME r = colonyName \<and> FI_LABEL r = label))) (\<lambda>files.
     range_keys (remdups (map file_Name files)))"

text \<open>\<open>filemap\<close> keeps for every name the file with the largest sequence number.\<close>

definition keep_latest :: "(string \<times> File) list \<Rightarrow> File \<Rightarrow> (string \<times> File) list" where
  "keep_latest filemap file =
     (case map_of filemap (file_Name file) of
        None \<Rightarrow> AList.update (file_Name file) file filemap
      | Some f \<Rightarrow> if file_SequenceNumber f < file_SequenceNumber file
                  then AList.update (file_Name file) file filemap else filemap)"

definition GetFileDataByLabel :: "string \<Rightarrow> string \<Rightarrow> FileData list ctl" where
  "GetFileDataByLabel colonyName label =
     bindM (select_files (filter (\<lambda>r. FI_COLONY_NAME r = colonyName \<and> FI_LABEL r = label))) (\<lambda>files.
     (let filemap = foldl keep_latest [] files in
      bindM (range_keys (map fst filemap)) (\<lambda>names.
      mapM (\<lambda>name. bindM (derefM (map_of filemap name)) (\<lambda>file.
        retM \<lparr>fd_Name = file_Name file, fd_Checksum = file_Checksum file, fd_Size = file_Size file,
              fd_S3Filename = s3_Object (ref_S3Object (file_Reference file))\<rparr>)) names)))"

definition delete_files :: "(file_row \<Rightarrow> bool) \<Rightarrow> unit ctl" where
  "delete_files P = sql_exec (\<lambda>db. Inr (db\<lparr>FILES := delete_where P (FILES db)\<rparr>))"

definition RemoveFileByID :: "string \<Rightarrow> string \<Rightarrow> unit ctl" where
  "RemoveFileByID colonyName fileID = delete_files (\<lambda>r. FI_COLONY_NAME r = colonyName \<and> FI_FILE_ID r = fileID)"

definition RemoveFileByName :: "string \<Rightarrow> string \<Rightarrow> string \<Rightarrow> unit ctl" where
  "RemoveFileByName colonyName label name = delete_files (named_file colonyName label name)"

definition CountFiles :: "string \<Rightarrow> int ctl" where
  "CountFiles colonyName =
     sql_query (\<lambda>db. Inr (int (length (filter (\<lambda>r. FI_COLONY_NAME r = colonyName) (FILES db)))))"

definition CountFilesWithLabel :: "string \<Rightarrow> string \<Rightarrow> int ctl" where
  "CountFilesWithLabel colonyName label =
     sql_query (\<lambda>db. Inr (int (length (filter (\<lambda>r. FI_COLONY_NAME r = colonyName \<and> FI_LABEL r = label) (FILES db)))))"

section \<open>Searching logs\<close>

definition SearchLogs :: "string \<Rightarrow> string \<Rightarrow> int \<Rightarrow> int \<Rightarrow> Log list ctl" where
  "SearchLogs colonyName pattern days cnt =
     bindM time_Now (\<lambda>now.
     bindM (sql_query (\<lambda>db. sql_limit cnt (filter (\<lambda>r. sql_like (''%'' @ pattern @ ''%'') (LG_MSG r) \<and>
        LG_COLONY_NAME r = colonyName \<and> LG_ADDED r > now - days * (24 * 60 * 60 * 10 ^ 9)) (LOGS db)))) (\<lambda>rows.
     retM (map parse_log rows)))"

section \<open>Labels\<close>

definition select_labels :: "(file_row \<Rightarrow> bool) \<Rightarrow> string list ctl" where
  "select_labels P = sql_query (\<lambda>db. Inr (remdups (map FI_LABEL (filter P (FILES db)))))"

definition count_labels :: "string \<Rightarrow> string list \<Rightarrow> Label list ctl" where
  "count_labels colonyName labelsStr = mapM (\<lambda>labelStr.
     bindM (CountFilesWithLabel colonyName labelStr) (\<lambda>fileCount.
     retM \<lparr>label_Name = labelStr, label_Files = fileCount\<rparr>)) labelsStr"

definition GetFileLabels :: "string \<Rightarrow> Label list ctl" where
  "GetFileLabels colonyName =
     bindM (select_labels (\<lambda>r. FI_COLONY_NAME r = colonyName)) (count_labels colonyName)"

definition GetFileLabelByName :: "string \<Rightarrow> string \<Rightarrow> Label option ctl" where
  "GetFileLabelByName colonyName name =
     bindM (select_labels (\<lambda>r. FI_COLONY_NAME r = colonyName \<and> FI_LABEL r = name)) (\<lambda>labelsStr.
     (case labelsStr of
        [labelStr] \<Rightarrow>
          bindM (CountFilesWithLabel colonyName labelStr) (\<lambda>fileCount.
          retM (Some \<lparr>label_Name = labelStr, label_Files = fileCount\<rparr>))
      | _ \<Rightarrow> retM None))"

definition GetFileLabelsByName :: "string \<Rightarrow> string \<Rightarrow> bool \<Rightarrow> Label list ctl" where
  "GetFileLabelsByName colonyName name exact =
     (let pattern = (if exact then name @ ''/%'' else name @ ''%'') in
      bindM (select_labels (\<lambda>r. FI_COLONY_NAME r = colonyName \<and> sql_like pattern (FI_LABEL r))) (\<lambda>labelsStr.
       bindM (count_labels colonyName labelsStr) (\<lambda>labels.
       if exact then
         bindM (GetFileLabelByName colonyName name) (\<lambda>found.
         (case found of
            None \<Rightarrow> retM []
          | Some label \<Rightarrow>
              (let labelMap = fold (\<lambda>l m. AList.update (label_Name l) l m) (labels @ [label]) [] in
               bindM (range_keys (map fst labelMap)) (\<lambda>names.
               mapM (\<lambda>n. derefM (map_of labelMap n)) names))))
       else retM labels)))"

section \<open>Snapshots\<close>

definition parse_snapshot :: "snapshot_row \<Rightarrow> failure + Snapshot" where
  "parse_snapshot r =
     (case Split_colon (SN_NAME r) of
        [_, name] \<Rightarrow>
          Inr \<lparr>snap_ID = SN_SNAPSHOT_ID r, snap_ColonyName = SN_COLONY_NAME r, snap_Label = SN_LABEL r,
               snap_Name = name, snap_FileIDs = SN_FILE_IDS r, snap_Added = SN_ADDED r\<rparr>
      | _ \<Rightarrow> Inl (Err ''invalid split name''))"

definition select_snapshots :: "(snapshot_row list \<Rightarrow> snapshot_row list) \<Rightarrow> Snapshot list ctl" where
  "select_snapshots q =
     bindM (sql_query (\<lambda>db. Inr (q (SNAPSHOTS db)))) (\<lambda>rows. mapM (\<lambda>r. liftE (parse_snapshot r)) rows)"

definition GetSnapshotByID :: "string \<Rightarrow> string \<Rightarrow> Snapshot ctl" where
  "GetSnapshotByID colonyName snapshotID =
     bindM (select_snapshots (filter (\<lambda>r. SN_COLONY_NAME r = colonyName \<and> SN_SNAPSHOT_ID r = snapshotID))) (\<lambda>snapshots.
     (case snapshots of
        [s] \<Rightarrow> retM s
      | _ \<Rightarrow> throwM (Err (''Snapshot not found with Id <'' @ snapshotID @ ''> in Colony <'' @ colonyName @ ''> does not exists''))))"

definition GetSnapshotByName :: "string \<Rightarrow> string \<Rightarrow> Snapshot ctl" where
  "GetSnapshotByName colonyName name =
     bindM (select_snapshots (filter (\<lambda>r. SN_COLONY_NAME r = colonyName \<and> SN_NAME r = colony_key colonyName name))) (\<lambda>snapshots.
     (case snapshots of
        [s] \<Rightarrow> retM s
      | _ \<Rightarrow> throwM (Err (''Snapshot not found with name <'' @ name @ ''> in Colony <'' @ colonyName @ ''> does not exists''))))"

definition GetSnapshotsByColonyName :: "string \<Rightarrow> Snapshot list ctl" where
  "GetSnapshotsByColonyName colonyName =
     select_snapshots (\<lambda>rows. order_desc SN_ADDED (filter (\<lambda>r. SN_COLONY_NAME r = colonyName) rows))"

text \<open>\<open>strings.TrimSuffix(label, "/")\<close>\<close>

definition trim_slash :: "string \<Rightarrow> string" where
  "trim_slash label = (if label \<noteq> [] \<and> last label = CHR ''/'' then butlast label else label)"

definition latest_file_id :: "string \<Rightarrow> string \<Rightarrow> string \<Rightarrow> string ctl" where
  "latest_file_id colonyName label filename =
     bindM (GetLatestFileByName colonyName label filename) (\<lambda>files.
     (case files of
        [f] \<Rightarrow> retM (file_ID f)
      | _ \<Rightarrow> throwM (Err ''failed to get file info, len>1'')))"

definition insert_snapshot :: "snapshot_row \<Rightarrow> unit ctl" where
  "insert_snapshot r = sql_exec (\<lambda>db.
     if SN_NAME r \<in> set (map SN_NAME (SNAPSHOTS db)) then Inl (SqlErr ''pq: duplicate key value violates unique constraint'')
     else map_sum id (\<lambda>rows. db\<lparr>SNAPSHOTS := rows\<rparr>) (insert_row SN_SNAPSHOT_ID r (SNAPSHOTS db)))"

definition CreateSnapshot :: "string \<Rightarrow> string \<Rightarrow> string \<Rightarrow> Snapshot ctl" where
  "CreateSnapshot colonyName label0 name =
     bindM (tryM (GetSnapshotByName colonyName name)) (\<lambda>existing.
     (case existing of
        Inr _ \<Rightarrow> throwM (Err (''Snapshot with name <'' @ name @ ''> in Colony <'' @ colonyName @ ''> already exists''))
      | Inl _ \<Rightarrow>
          (let label = trim_slash label0 in
           bindM (GetFileLabelsByName colonyName label True) (\<lambda>allLabels.
           bindM GenerateRandomID (\<lambda>snapshotID.
           bindM time_Now (\<lambda>now.
           bindM (mapM (\<lambda>l. bindM (GetFilenamesByLabel colonyName (label_Name l)) (\<lambda>filenames.
                    mapM (latest_file_id colonyName (label_Name l)) filenames)) allLabels) (\<lambda>ids.
           (let fileIDs = concat ids in
            thenM (insert_snapshot \<lparr>SN_SNAPSHOT_ID = snapshotID, SN_COLONY_NAME = colonyName, SN_LABEL = label,
                     SN_NAME = colony_key colonyName name, SN_FILE_IDS = fileIDs, SN_ADDED = now\<rparr>)
                  (retM \<lparr>snap_ID = snapshotID, snap_ColonyName = colonyName, snap_Label = label, snap_Name = name,
                         snap_FileIDs = fileIDs, snap_Added = now\<rparr>)))))))))"

definition delete_snapshots :: "(snapshot_row \<Rightarrow> bool) \<Rightarrow> unit ctl" where
  "delete_snapshots P = sql_exec (\<lambda>db. Inr (db\<lparr>SNAPSHOTS := delete_where P (SNAPSHOTS db)\<rparr>))"

definition RemoveSnapshotByID :: "string \<Rightarrow> string \<Rightarrow> unit ctl" where
  "RemoveSnapshotByID colonyName snapshotID =
     delete_snapshots (\<lambda>r. SN_COLONY_NAME r = colonyName \<and> SN_SNAPSHOT_ID r = snapshotID)"

definition RemoveSnapshotByName :: "string \<Rightarrow> string \<Rightarrow> unit ctl" where
  "RemoveSnapshotByName colonyName name =
     delete_snapshots (\<lambda>r. SN_COLONY_NAME r = colonyName \<and> SN_NAME r = colony_key colonyName name)"

end
