(* ===== verification/Rpc.thy ===== *)
theory Rpc
  imports Files
begin

text \<open>
  The messages of \<open>pkg/rpc\<close>, one record per struct, and how a handler of the server answers
  (\<open>handleHTTPError\<close>, \<open>sendHTTPReply\<close> in \<open>colonies_server.go\<close>). A handler gets the outcome of decoding its
  message from JSON, which \<open>encoding/json\<close> does: an error, or the message. What it writes to the HTTP
  connection is a list of replies: most paths write one, a few write none or two. Encoding a reply
  never fails, as the values hold nothing \<open>encoding/json\<close> refuses.
\<close>

section \<open>Messages\<close>

text \<open>Every message repeats its type inside the signed payload.\<close>

record rpc_msg =
  MsgType :: string

record AddAttributeMsg = rpc_msg +
  AddAttribute_Attribute :: Attribute

record AddChildMsg = rpc_msg +
  AddChild_ProcessGraphID :: string
  AddChild_ParentProcessID :: string
  AddChild_ChildProcessID :: string
  AddChild_FunctionSpec :: "FunctionSpec option"
  AddChild_Insert :: bool

record AddColonyMsg = rpc_msg +
  AddColony_Colony :: "Colony option"

record AddCronMsg = rpc_msg +
  AddCron_Cron :: "Cron option"

record AddExecutorMsg = rpc_msg +
  AddExecutor_Executor :: "Executor option"

record AddFileMsg = rpc_msg +
  AddFile_File :: "File option"

record AddFunctionMsg = rpc_msg +
  AddFunction_Function :: "Function option"

record AddGeneratorMsg = rpc_msg +
  AddGenerator_Generator :: "Generator option"

record AddLogMsg = rpc_msg +
  AddLog_ProcessID :: string
  AddLog_Message :: string

record AddUserMsg = rpc_msg +
  AddUser_User :: "User option"

record ApproveExecutorMsg = rpc_msg +
  ApproveExecutor_ColonyName :: string
  ApproveExecutor_ExecutorName :: string

record AssignProcessMsg = rpc_msg +
  AssignProcess_ColonyName :: string
  AssignProcess_Timeout :: int
  AssignProcess_AvailableCPU :: string
  AssignProcess_AvailableMemory :: string

record ChangeColonyIDMsg = rpc_msg +
  ChangeColonyID_ColonyName :: string
  ChangeColonyID_ColonyID :: string

record ChangeExecutorIDMsg = rpc_msg +
  ChangeExecutorID_ColonyName :: string
  ChangeExecutorID_ExecutorID :: string

record ChangeServerIDMsg = rpc_msg +
  ChangeServerID_ServerID :: string

record ChangeUserIDMsg = rpc_msg +
  ChangeUserID_ColonyName :: string
  ChangeUserID_UserID :: string

record CloseFailedMsg = rpc_msg +
  CloseFailed_ProcessID :: string
  CloseFailed_Errors :: "string list"

record CloseSuccessfulMsg = rpc_msg +
  CloseSuccessful_ProcessID :: string
  CloseSuccessful_Output :: "iface list"

record CreateSnapshotMsg = rpc_msg +
  CreateSnapshot_ColonyName :: string
  CreateSnapshot_Label :: string
  CreateSnapshot_Name :: string

record GetAttributeMsg = rpc_msg +
  GetAttribute_AttributeID :: string

type_synonym GetClusterMsg = rpc_msg

type_synonym GetColoniesMsg = rpc_msg

record GetColonyMsg = rpc_msg +
  GetColony_ColonyName :: string

record GetColonyStatisticsMsg = rpc_msg +
  GetColonyStatistics_ColonyName :: string

record GetCronMsg = rpc_msg +
  GetCron_CronID :: string

record GetCronsMsg = rpc_msg +
  GetCrons_ColonyName :: string
  GetCrons_Count :: int

record GetExecutorMsg = rpc_msg +
  GetExecutor_ColonyName :: string
  GetExecutor_ExecutorName :: string

record GetExecutorsMsg = rpc_msg +
  GetExecutors_ColonyName :: string

record GetFileMsg = rpc_msg +
  GetFile_ColonyName :: string
  GetFile_FileID :: string
  GetFile_Label :: string
  GetFile_Name :: string
  GetFile_Latest :: bool

record GetFileLabelsMsg = rpc_msg +
  GetFileLabels_ColonyName :: string
  GetFileLabels_Name :: string
  GetFileLabels_Exact :: bool

record GetFilesMsg = rpc_msg +
  GetFiles_Label :: string
  GetFiles_ColonyName :: string

record GetFunctionsMsg = rpc_msg +
  GetFunctions_ExecutorName :: string
  GetFunctions_ColonyName :: string

record GetGeneratorMsg = rpc_msg +
  GetGenerator_GeneratorID :: string

record GetGeneratorsMsg = rpc_msg +
  GetGenerators_ColonyName :: string
  GetGenerators_Count :: int

record GetLogsMsg = rpc_msg +
  GetLogs_ColonyName :: string
  GetLogs_ProcessID :: string
  GetLogs_ExecutorName :: string
  GetLogs_Count :: int
  GetLogs_Since :: int

record GetPauseStatusMsg = rpc_msg +
  GetPauseStatus_ColonyName :: string

record GetProcessHistMsg = rpc_msg +
  GetProcessHist_ColonyName :: string
  GetProcessHist_ExecutorID :: string
  GetProcessHist_Seconds :: int
  GetProcessHist_State :: int

record GetProcessMsg = rpc_msg +
  GetProcess_ProcessID :: string

record GetProcessesMsg = rpc_msg +
  GetProcesses_ColonyName :: string
  GetProcesses_Count :: int
  GetProcesses_State :: int
  GetProcesses_ExecutorType :: string
  GetProcesses_Label :: string
  GetProcesses_Initiator :: string

record GetProcessGraphMsg = rpc_msg +
  GetProcessGraph_ProcessGraphID :: string

record GetProcessGraphsMsg = rpc_msg +
  GetProcessGraphs_ColonyName :: string
  GetProcessGraphs_Count :: int
  GetProcessGraphs_State :: int

record GetSnapshotMsg = rpc_msg +
  GetSnapshot_ColonyName :: string
  GetSnapshot_SnapshotID :: string
  GetSnapshot_Name :: string

record GetSnapshotsMsg = rpc_msg +
  GetSnapshots_ColonyName :: string

type_synonym GetStatisticsMsg = rpc_msg

record GetUserMsg = rpc_msg +
  GetUser_ColonyName :: string
  GetUser_Name :: string

record GetUsersMsg = rpc_msg +
  GetUsers_ColonyName :: string

record PackGeneratorMsg = rpc_msg +
  PackGenerator_GeneratorID :: string
  PackGenerator_Arg :: string

record PauseAssignmentsMsg = rpc_msg +
  PauseAssignments_ColonyName :: string

record RejectExecutorMsg = rpc_msg +
  RejectExecutor_ColonyName :: string
  RejectExecutor_ExecutorName :: string

record RemoveAllProcessesMsg = rpc_msg +
  RemoveAllProcesses_ColonyName :: string
  RemoveAllProcesses_State :: int

record RemoveAllProcessGraphsMsg = rpc_msg +
  RemoveAllProcessGraphs_ColonyName :: string
  RemoveAllProcessGraphs_State :: int

record RemoveAllSnapshotsMsg = rpc_msg +
  RemoveAllSnapshots_ColonyName :: string

record RemoveColonyMsg = rpc_msg +
  RemoveColony_ColonyName :: string

record RemoveCronMsg = rpc_msg +
  RemoveCron_CronID :: string
  RemoveCron_All :: bool

record RemoveExecutorMsg = rpc_msg +
  RemoveExecutor_ColonyName :: string
  RemoveExecutor_ExecutorName :: string

record RemoveFileMsg = rpc_msg +
  RemoveFile_ColonyName :: string
  RemoveFile_FileID :: string
  RemoveFile_Label :: string
  RemoveFile_Name :: string

record RemoveFunctionMsg = rpc_msg +
  RemoveFunction_FunctionID :: string

record RemoveGeneratorMsg = rpc_msg +
  RemoveGenerator_GeneratorID :: string
  RemoveGenerator_All :: bool

record RemoveProcessMsg = rpc_msg +
  RemoveProcess_ProcessID :: string
  RemoveProcess_All :: bool

record RemoveProcessGraphMsg = rpc_msg +
  RemoveProcessGraph_ProcessGraphID :: string
  RemoveProcessGraph_All :: bool

record RemoveSnapshotMsg = rpc_msg +
  RemoveSnapshot_ColonyName :: string
  RemoveSnapshot_SnapshotID :: string
  RemoveSnapshot_Name :: string

record RemoveUserMsg = rpc_msg +
  RemoveUser_ColonyName :: string
  RemoveUser_Name :: string

record ReportAllocationsMsg = rpc_msg +
  ReportAllocations_ColonyName :: string
  ReportAllocations_ExecutorName :: string
  ReportAllocations_Allocations :: Allocations

record ResolveGeneratorMsg = rpc_msg +
  ResolveGenerator_ColonyName :: string
  ResolveGenerator_GeneratorName :: string

record ResumeAssignmentsMsg = rpc_msg +
  ResumeAssignments_ColonyName :: string

record RunCronMsg = rpc_msg +
  RunCron_CronID :: string

record SearchLogsMsg = rpc_msg +
  SearchLogs_ColonyName :: string
  SearchLogs_Text :: string
  SearchLogs_Days :: int
  SearchLogs_Count :: int

record SetOutputMsg = rpc_msg +
  SetOutput_ProcessID :: string
  SetOutput_Output :: "iface list"

record SubmitFunctionSpecMsg = rpc_msg +
  SubmitFunctionSpec_FunctionSpec :: "FunctionSpec option"

record SubmitWorkflowSpecMsg = rpc_msg +
  SubmitWorkflowSpec_WorkflowSpec :: "WorkflowSpec option"

section \<open>Replies\<close>

datatype content =
    Empty_json
  | Process_json Process
  | Processes_json "Process list"
  | ProcessGraph_json ProcessGraph
  | ProcessGraphs_json "ProcessGraph list"
  | Attribute_json Attribute
  | Executor_json Executor
  | Executors_json "Executor list"
  | Function_json Function
  | Functions_json "Function list"
  | Colony_json Colony
  | Colonies_json "Colony list"
  | User_json "User option"
  | Users_json "User list"
  | Statistics_json Statistics
  | PauseStatus_json string bool
  | Logs_json "Log list"
  | Generator_json Generator
  | Generators_json "Generator list"
  | Cron_json Cron
  | Crons_json "Cron list"
  | Files_json "File list"
  | File_json "File option"
  | FileData_json "FileData list"
  | Labels_json "Label list"
  | Snapshot_json Snapshot
  | Snapshots_json "Snapshot list"
  | Echo_json string
  | Version_json string string
  | Cluster_json string

datatype reply =
    ErrorReply string nat
  | Reply string content
  | Redirected string

type_synonym handler = "reply list ctl"

definition StatusBadRequest :: nat where "StatusBadRequest = 400"
definition StatusForbidden :: nat where "StatusForbidden = 403"
definition StatusNotFound :: nat where "StatusNotFound = 404"
definition StatusRequestTimeout :: nat where "StatusRequestTimeout = 408"
definition StatusInternalServerError :: nat where "StatusInternalServerError = 500"
definition StatusServiceUnavailable :: nat where "StatusServiceUnavailable = 503"

definition handleHTTPError :: "failure \<Rightarrow> nat \<Rightarrow> reply list" where
  "handleHTTPError err errorCode = [ErrorReply (err_text err) errorCode]"

definition sendError :: "string \<Rightarrow> nat \<Rightarrow> handler" where
  "sendError msg errorCode = retM (handleHTTPError (Err msg) errorCode)"

definition sendHTTPReply :: "string \<Rightarrow> content \<Rightarrow> handler" where
  "sendHTTPReply payloadType c = retM [Reply payloadType c]"

definition sendEmptyHTTPReply :: "string \<Rightarrow> handler" where
  "sendEmptyHTTPReply payloadType = sendHTTPReply payloadType Empty_json"

text \<open>\<open>x, err := m(); if server.handleHTTPError(c, err, errorCode) { return }; k(x)\<close>\<close>

definition orReply :: "'a ctl \<Rightarrow> nat \<Rightarrow> ('a \<Rightarrow> handler) \<Rightarrow> handler" where
  "orReply m errorCode k =
     bindM (tryM m) (\<lambda>res. (case res of Inl err \<Rightarrow> retM (handleHTTPError err errorCode) | Inr x \<Rightarrow> k x))"

text \<open>The same where a second \<open>handleHTTPError\<close> follows the first, so that two errors are written.\<close>

definition orReplyTwice :: "'a ctl \<Rightarrow> nat \<Rightarrow> nat \<Rightarrow> ('a \<Rightarrow> handler) \<Rightarrow> handler" where
  "orReplyTwice m code1 code2 k =
     bindM (tryM m) (\<lambda>res.
     (case res of Inl err \<Rightarrow> retM (handleHTTPError err code1 @ handleHTTPError err code2) | Inr x \<Rightarrow> k x))"

text \<open>The opening of every handler: the JSON has to be valid and of the type of the request.\<close>

definition withMsg ::
  "string \<Rightarrow> string \<Rightarrow> string \<Rightarrow> failure + 'm rpc_msg_scheme \<Rightarrow> ('m rpc_msg_scheme \<Rightarrow> handler) \<Rightarrow> handler" where
  "withMsg invalid mismatch payloadType parsed k =
     (case parsed of
        Inl _ \<Rightarrow> sendError invalid StatusBadRequest
      | Inr msg \<Rightarrow> if MsgType msg \<noteq> payloadType then sendError mismatch StatusBadRequest else k msg)"

definition orNil :: "'a option \<Rightarrow> string \<Rightarrow> nat \<Rightarrow> ('a \<Rightarrow> handler) \<Rightarrow> handler" where
  "orNil p msg errorCode k = (case p of None \<Rightarrow> sendError msg errorCode | Some x \<Rightarrow> k x)"

end
