(* ===== verification/Calendar.thy ===== *)
theory Calendar
  imports Core_Types
begin

text \<open>
  The calendar of the package \<open>time\<close> as far as \<open>src/pkg/cron\<close> uses it: the date and clock of an
  instant in a location, \<open>time.Date\<close>, \<open>AddDate\<close> and \<open>Truncate\<close>. A location is its \<open>lookup\<close> function: for
  seconds since 1970 the offset of the zone then in use, with the start and the end of its use.
\<close>

section \<open>Days and dates\<close>

definition leap :: "int \<Rightarrow> bool" where
  "leap y \<longleftrightarrow> y mod 4 = 0 \<and> (y mod 100 \<noteq> 0 \<or> y mod 400 = 0)"

text \<open>Days from 1 January of year 1 to 1 January of year \<open>y\<close>, in the Gregorian calendar.\<close>

definition days_before_year :: "int \<Rightarrow> int" where
  "days_before_year y = 365 * (y - 1) + (y - 1) div 4 - (y - 1) div 100 + (y - 1) div 400"

definition daysBefore :: "int list" where
  "daysBefore = [0, 31, 59, 90, 120, 151, 181, 212, 243, 273, 304, 334]"

text \<open>Days of the year before the month.\<close>

definition days_before_month :: "bool \<Rightarrow> int \<Rightarrow> int" where
  "days_before_month lp m = daysBefore ! nat (m - 1) + (if lp \<and> m > 2 then 1 else 0)"

text \<open>Days since 1 January 1970; the month may be out of range and is then carried into the year.\<close>

definition days_of_date :: "int \<Rightarrow> int \<Rightarrow> int \<Rightarrow> int" where
  "days_of_date y m d =
     (let y' = y + (m - 1) div 12; m' = (m - 1) mod 12 + 1 in
      days_before_year y' + days_before_month (leap y') m' + (d - 1) - 719162)"

text \<open>The year of a day, counted from 1 January of year 1: an estimate that is off by one at most.\<close>

definition year_of_day :: "int \<Rightarrow> int" where
  "year_of_day n =
     (let e = (400 * n) div 146097 + 1 in
      if n < days_before_year e then e - 1 else if days_before_year (e + 1) \<le> n then e + 1 else e)"

definition month_of_day :: "bool \<Rightarrow> int \<Rightarrow> int" where
  "month_of_day lp n = int (length (filter (\<lambda>m. days_before_month lp m \<le> n) [1, 2, 3, 4, 5, 6, 7, 8, 9, 10, 11, 12]))"

definition date_of_days :: "int \<Rightarrow> int \<times> int \<times> int" where
  "date_of_days n =
     (let y = year_of_day (n + 719162);
          k = n + 719162 - days_before_year y;
          m = month_of_day (leap y) k
      in (y, m, k - days_before_month (leap y) m + 1))"

section \<open>Instants in a location\<close>

type_synonym zone = "int \<Rightarrow> int \<times> int \<times> int"

definition local_seconds :: "zone \<Rightarrow> time \<Rightarrow> int" where
  "local_seconds loc t = time_Unix t + fst (loc (time_Unix t))"

definition time_Year :: "zone \<Rightarrow> time \<Rightarrow> int" where
  "time_Year loc t = fst (date_of_days (local_seconds loc t div 86400))"

definition time_Month :: "zone \<Rightarrow> time \<Rightarrow> int" where
  "time_Month loc t = fst (snd (date_of_days (local_seconds loc t div 86400)))"

definition time_Day :: "zone \<Rightarrow> time \<Rightarrow> int" where
  "time_Day loc t = snd (snd (date_of_days (local_seconds loc t div 86400)))"

definition time_Weekday :: "zone \<Rightarrow> time \<Rightarrow> int" where
  "time_Weekday loc t = (local_seconds loc t div 86400 + 4) mod 7"

definition time_Hour :: "zone \<Rightarrow> time \<Rightarrow> int" where
  "time_Hour loc t = local_seconds loc t mod 86400 div 3600"

definition time_Minute :: "zone \<Rightarrow> time \<Rightarrow> int" where
  "time_Minute loc t = local_seconds loc t mod 3600 div 60"

definition time_Second :: "zone \<Rightarrow> time \<Rightarrow> int" where
  "time_Second loc t = local_seconds loc t mod 60"

definition time_Nanosecond :: "time \<Rightarrow> int" where
  "time_Nanosecond t = t mod 10 ^ 9"

text \<open>
  \<open>time.Date\<close> looks the offset up at the local seconds taken as if they were UTC, and a second time
  if the zone found is not in use at the instant it gives.
\<close>

definition time_Date :: "zone \<Rightarrow> int \<Rightarrow> int \<Rightarrow> int \<Rightarrow> int \<Rightarrow> int \<Rightarrow> int \<Rightarrow> int \<Rightarrow> time" where
  "time_Date loc y m d hour mn sec nsec =
     (let unix = days_of_date y m d * 86400 + hour * 3600 + mn * 60 + sec in
      case loc unix of (offset, start, stop) \<Rightarrow>
        (let utc = unix - offset;
             offset' = (if offset \<noteq> 0 \<and> \<not> (start \<le> utc \<and> utc < stop) then fst (loc utc) else offset)
         in (unix - offset') * 10 ^ 9 + nsec))"

definition AddDate :: "zone \<Rightarrow> int \<Rightarrow> int \<Rightarrow> int \<Rightarrow> time \<Rightarrow> time" where
  "AddDate loc years months days t =
     time_Date loc (time_Year loc t + years) (time_Month loc t + months) (time_Day loc t + days)
       (time_Hour loc t) (time_Minute loc t) (time_Second loc t) (time_Nanosecond t)"

text \<open>\<open>Truncate\<close> rounds down to a multiple of the duration since the zero time.\<close>

definition time_Truncate :: "int \<Rightarrow> time \<Rightarrow> time" where
  "time_Truncate d t = t - (t - time_zero) mod d"

section \<open>The calendar is consistent\<close>

lemma div_pred:
  fixes y d :: int
  assumes "0 < d"
  shows "y div d = (y - 1) div d + (if y mod d = 0 then 1 else 0)"
proof -
  have "(y - 1) div d = y div d + (y mod d - 1) div d"
    using assms by (metis add_diff_eq div_mult_mod_eq div_mult_self3 mult.commute less_irrefl)
  moreover have "(y mod d - 1) div d = (if y mod d = 0 then - 1 else 0)"
  proof (cases "y mod d = 0")
    case False
    moreover have "0 \<le> y mod d" "y mod d < d" using assms by simp_all
    ultimately show ?thesis by (simp add: div_pos_pos_trivial)
  qed (use assms in \<open>simp add: div_eq_minus1\<close>)
  ultimately show ?thesis by simp
qed

lemma leap_dvd: "y mod 400 = 0 \<Longrightarrow> y mod 100 = 0" "y mod 100 = 0 \<Longrightarrow> y mod 4 = 0" for y :: int
  unfolding mod_eq_0_iff_dvd by (erule dvd_trans[rotated], simp)+

lemma days_before_year_Suc: "days_before_year (y + 1) = days_before_year y + (if leap y then 366 else 365)"
proof -
  define q4 q100 q400 where "q4 = (y - 1) div 4" and "q100 = (y - 1) div 100" and "q400 = (y - 1) div 400"
  define b4 b100 b400 where "b4 \<longleftrightarrow> y mod 4 = 0" and "b100 \<longleftrightarrow> y mod 100 = 0" and "b400 \<longleftrightarrow> y mod 400 = 0"
  have q: "y div 4 = q4 + (if b4 then 1 else 0)" "y div 100 = q100 + (if b100 then 1 else 0)"
    "y div 400 = q400 + (if b400 then 1 else 0)"
    unfolding q4_def q100_def q400_def b4_def b100_def b400_def by (rule div_pred, simp)+
  have "days_before_year (y + 1) = 365 * y + y div 4 - y div 100 + y div 400"
    by (simp only: days_before_year_def) simp
  moreover have "days_before_year y = 365 * (y - 1) + q4 - q100 + q400"
    by (simp only: days_before_year_def q4_def q100_def q400_def)
  moreover have "leap y \<longleftrightarrow> b4 \<and> (\<not> b100 \<or> b400)" by (simp only: leap_def b4_def b100_def b400_def)
  moreover have "b400 \<Longrightarrow> b100" "b100 \<Longrightarrow> b4" unfolding b4_def b100_def b400_def by (rule leap_dvd, assumption)+
  ultimately show ?thesis unfolding q by (cases b4; cases b100; cases b400) simp_all
qed

lemma days_before_year_less: "y < z \<Longrightarrow> days_before_year y + 365 \<le> days_before_year z"
proof (induction z rule: int_gr_induct[where k = y])
  case base
  then show ?case by (simp add: days_before_year_Suc)
next
  case (step z)
  then show ?case by (simp add: days_before_year_Suc)
qed

lemma year_of_day_bounds: "days_before_year (year_of_day n) \<le> n \<and> n < days_before_year (year_of_day n + 1)"
proof -
  define k where "k = (400 * n) div 146097"
  have k: "146097 * k \<le> 400 * n" "400 * n < 146097 * k + 146097"
    using div_mult_mod_eq[of "400 * n" 146097] pos_mod_sign[of 146097 "400 * n"] pos_mod_bound[of 146097 "400 * n"]
    by (simp_all add: k_def)
  have b: "400 * days_before_year (y + 1) \<le> 146097 * y + 396" "146097 * y - 699 \<le> 400 * days_before_year (y + 1)" for y
    using div_mult_mod_eq[of y 4] pos_mod_sign[of 4 y] pos_mod_bound[of 4 y] div_mult_mod_eq[of y 100] pos_mod_sign[of 100 y]
      pos_mod_bound[of 100 y] div_mult_mod_eq[of y 400] pos_mod_sign[of 400 y] pos_mod_bound[of 400 y]
    by (simp_all add: days_before_year_def)
  have "days_before_year k \<le> n" using b(1)[of "k - 1"] k by simp
  moreover have "n < days_before_year (k + 3)" using b(2)[of "k + 2"] k by (simp add: add.assoc)
  ultimately show ?thesis
    unfolding year_of_day_def Let_def k_def[symmetric] by (auto simp: add.assoc add.commute)
qed

lemma year_of_day_eq: "days_before_year y \<le> n \<Longrightarrow> n < days_before_year (y + 1) \<Longrightarrow> year_of_day n = y"
  using year_of_day_bounds[of n] days_before_year_less[of y "year_of_day n"] days_before_year_less[of "year_of_day n" y]
    days_before_year_less[of "year_of_day n + 1" y] days_before_year_less[of "y + 1" "year_of_day n"]
  by (smt (verit))


lemma days_before_month_table:
  "days_before_month lp 1 = 0" "days_before_month lp 2 = 31" "days_before_month lp 3 = (if lp then 60 else 59)"
  "days_before_month lp 4 = (if lp then 91 else 90)" "days_before_month lp 5 = (if lp then 121 else 120)"
  "days_before_month lp 6 = (if lp then 152 else 151)" "days_before_month lp 7 = (if lp then 182 else 181)"
  "days_before_month lp 8 = (if lp then 213 else 212)" "days_before_month lp 9 = (if lp then 244 else 243)"
  "days_before_month lp 10 = (if lp then 274 else 273)" "days_before_month lp 11 = (if lp then 305 else 304)"
  "days_before_month lp 12 = (if lp then 335 else 334)"
  by (simp_all add: days_before_month_def daysBefore_def)

lemma month_cases:
  fixes m :: int
  assumes "1 \<le> m" "m \<le> 12"
  shows "m = 1 \<or> m = 2 \<or> m = 3 \<or> m = 4 \<or> m = 5 \<or> m = 6 \<or> m = 7 \<or> m = 8 \<or> m = 9 \<or> m = 10 \<or> m = 11 \<or> m = 12"
  using assms by presburger

text \<open>The first day of the next month, counted from 1 January.\<close>

definition month_stop :: "bool \<Rightarrow> int \<Rightarrow> int" where
  "month_stop lp m = (if m = 12 then (if lp then 366 else 365) else days_before_month lp (m + 1))"

lemma month_of_day_eq:
  assumes "1 \<le> m" "m \<le> 12" "days_before_month lp m \<le> k" "k < month_stop lp m"
  shows "month_of_day lp k = m"
  using month_cases[OF assms(1,2)] assms(3,4)
  by (elim disjE; cases lp) (simp_all add: month_of_day_def month_stop_def days_before_month_table)

lemma month_exists:
  assumes "0 \<le> k" "k < (if lp then 366 else 365)"
  obtains m where "1 \<le> m" "m \<le> 12" "days_before_month lp m \<le> k" "k < month_stop lp m"
proof -
  have "\<exists>m \<in> {1, 2, 3, 4, 5, 6, 7, 8, 9, 10, 11, 12 :: int}. days_before_month lp m \<le> k \<and> k < month_stop lp m"
    using assms by (cases lp; simp add: month_stop_def days_before_month_table; linarith)
  then obtain m where "m \<in> {1, 2, 3, 4, 5, 6, 7, 8, 9, 10, 11, 12 :: int}" "days_before_month lp m \<le> k" "k < month_stop lp m"
    by blast
  then show thesis by (intro that[of m]) auto
qed

lemma month_within_year:
  assumes "1 \<le> m" "m \<le> 12"
  shows "0 \<le> days_before_month lp m" "days_before_month lp m < month_stop lp m" "month_stop lp m \<le> (if lp then 366 else 365)"
  using month_cases[OF assms] by (elim disjE; cases lp; simp add: month_stop_def days_before_month_table)+

text \<open>The first day of a month, and of the month after it.\<close>

definition month_first :: "int \<Rightarrow> int \<Rightarrow> int" where
  "month_first y m = days_of_date y m 1"

lemma days_of_date_first: "days_of_date y m d = month_first y m + (d - 1)"
  by (simp add: month_first_def days_of_date_def Let_def)

lemma month_first_eq:
  assumes "1 \<le> m" "m \<le> 12"
  shows "month_first y m = days_before_year y + days_before_month (leap y) m - 719162"
    "month_first y (m + 1) = days_before_year y + month_stop (leap y) m - 719162"
proof -
  have "(m - 1) div 12 = 0" "(m - 1) mod 12 = m - 1" using assms by (simp_all add: div_pos_pos_trivial mod_pos_pos_trivial)
  then show "month_first y m = days_before_year y + days_before_month (leap y) m - 719162"
    by (simp add: month_first_def days_of_date_def)
  show "month_first y (m + 1) = days_before_year y + month_stop (leap y) m - 719162"
  proof (cases "m = 12")
    case True
    then show ?thesis
      by (simp add: month_first_def days_of_date_def month_stop_def days_before_year_Suc days_before_month_table)
  next
    case False
    then have "m div 12 = 0" "m mod 12 = m" using assms by (simp_all add: div_pos_pos_trivial mod_pos_pos_trivial)
    then show ?thesis using False by (simp add: month_first_def days_of_date_def month_stop_def add.commute)
  qed
qed

lemma date_in_month:
  assumes "1 \<le> m" "m \<le> 12" "month_first y m \<le> n" "n < month_first y (m + 1)"
  shows "date_of_days n = (y, m, n - month_first y m + 1)"
proof -
  define k where "k = n + 719162 - days_before_year y"
  have k: "days_before_month (leap y) m \<le> k" "k < month_stop (leap y) m"
    using assms by (simp_all add: month_first_eq k_def)
  then have "year_of_day (n + 719162) = y"
    using month_within_year[OF assms(1,2), of "leap y"] by (intro year_of_day_eq) (auto simp: k_def days_before_year_Suc split: if_splits)
  with month_of_day_eq[OF assms(1,2) k] show ?thesis
    using assms(1,2) by (simp add: date_of_days_def k_def month_first_eq)
qed

lemma date_of_days_cases:
  obtains y m where "1 \<le> m" "m \<le> 12" "month_first y m \<le> n" "n < month_first y (m + 1)"
    "date_of_days n = (y, m, n - month_first y m + 1)"
proof -
  define y where "y = year_of_day (n + 719162)"
  define k where "k = n + 719162 - days_before_year y"
  have "0 \<le> k" "k < (if leap y then 366 else 365)"
    using year_of_day_bounds[of "n + 719162"] by (auto simp: k_def y_def days_before_year_Suc)
  then obtain m where m: "1 \<le> m" "m \<le> 12" "days_before_month (leap y) m \<le> k" "k < month_stop (leap y) m"
    by (rule month_exists)
  then have "month_first y m \<le> n" "n < month_first y (m + 1)" by (simp_all add: month_first_eq k_def)
  with m date_in_month that show thesis by blast
qed

end
