(* ===== verification/Go_Strings.thy ===== *)
theory Go_Strings
  imports Parsers
begin

text \<open>
  The functions of the package \<open>strings\<close> that cron expressions and the keys of the hash table are
  taken apart with. Strings are ASCII.
\<close>

fun Split :: "char \<Rightarrow> string \<Rightarrow> string list" where
  "Split c [] = [[]]"
| "Split c (x # xs) = (if x = c then [] # Split c xs else (case Split c xs of [] \<Rightarrow> [[x]] | p # ps \<Rightarrow> (x # p) # ps))"

definition is_space :: "char \<Rightarrow> bool" where
  "is_space c \<longleftrightarrow> (let n = of_char c :: nat in 9 \<le> n \<and> n \<le> 13 \<or> n = 32)"

text \<open>\<open>strings.FieldsFunc\<close> for one separator, and \<open>strings.Fields\<close>.\<close>

definition FieldsFunc :: "char \<Rightarrow> string \<Rightarrow> string list" where
  "FieldsFunc c s = filter (\<lambda>f. f \<noteq> []) (Split c s)"

definition Fields :: "string \<Rightarrow> string list" where
  "Fields s = FieldsFunc CHR '' '' (map (\<lambda>c. if is_space c then CHR '' '' else c) s)"

definition TrimSpace :: "string \<Rightarrow> string" where
  "TrimSpace s = rev (dropWhile is_space (rev (dropWhile is_space s)))"

definition HasPrefix :: "string \<Rightarrow> string \<Rightarrow> bool" where
  "HasPrefix s p \<longleftrightarrow> take (length p) s = p"

definition IndexByte :: "string \<Rightarrow> char \<Rightarrow> nat option" where
  "IndexByte s c = (if c \<in> set s then Some (length (takeWhile (\<lambda>x. x \<noteq> c) s)) else None)"

definition ToLower :: "string \<Rightarrow> string" where
  "ToLower s = map (\<lambda>c. let n = of_char c :: nat in if 65 \<le> n \<and> n \<le> 90 then char_of (n + 32) else c) s"

lemma Split_free: "c \<notin> set s \<Longrightarrow> Split c s = [s]"
  by (induction s) auto

lemma Split_append: "c \<notin> set p \<Longrightarrow> Split c (p @ c # rest) = p # Split c rest"
  by (induction p) auto

end
