(* ===== verification/Cron_Spec.thy ===== *)
theory Cron_Spec
  imports Calendar Go_Strings "HOL-Library.Word" "HOL-Library.While_Combinator"
begin

text \<open>
  The package \<open>src/pkg/cron\<close>: the parser of cron expressions (\<open>parser.go\<close>), the schedules it gives
  (\<open>spec.go\<close>, \<open>constantdelay.go\<close>) and the entry point \<open>Next\<close> (\<open>cron.go\<close>).

  Bit sets are \<open>uint64\<close>, and so is \<open>uint\<close>. \<open>time.LoadLocation\<close>, which reads the time zone
  files, and \<open>time.ParseDuration\<close> are fields of \<open>cron_env\<close>, with the zone of the machine. The texts of
  errors leave out what the library's own errors add.
\<close>

unbundle bit_operations_syntax

section \<open>Schedules\<close>

record SpecSchedule =
  sched_Second :: "64 word"
  sched_Minute :: "64 word"
  sched_Hour :: "64 word"
  sched_Dom :: "64 word"
  sched_Month :: "64 word"
  sched_Dow :: "64 word"
  sched_Location :: "zone option"

record ConstantDelaySchedule =
  Delay :: int

datatype Schedule = Spec SpecSchedule | Constant ConstantDelaySchedule

definition Every :: "int \<Rightarrow> ConstantDelaySchedule" where
  "Every duration =
     (let d = (if duration < 10 ^ 9 then 10 ^ 9 else duration) in \<lparr>Delay = d - d mod 10 ^ 9\<rparr>)"

definition ConstantDelaySchedule_Next :: "ConstantDelaySchedule \<Rightarrow> time \<Rightarrow> time" where
  "ConstantDelaySchedule_Next schedule t = t + (Delay schedule - time_Nanosecond t)"

record bounds =
  bounds_min :: "64 word"
  bounds_max :: "64 word"
  bounds_names :: "(string \<times> 64 word) list option"

definition bounds_seconds :: bounds where
  "bounds_seconds = \<lparr>bounds_min = 0, bounds_max = 59, bounds_names = None\<rparr>"

definition bounds_minutes :: bounds where
  "bounds_minutes = \<lparr>bounds_min = 0, bounds_max = 59, bounds_names = None\<rparr>"

definition bounds_hours :: bounds where
  "bounds_hours = \<lparr>bounds_min = 0, bounds_max = 23, bounds_names = None\<rparr>"

definition bounds_dom :: bounds where
  "bounds_dom = \<lparr>bounds_min = 1, bounds_max = 31, bounds_names = None\<rparr>"

definition bounds_months :: bounds where
  "bounds_months = \<lparr>bounds_min = 1, bounds_max = 12, bounds_names = Some
     [(''jan'', 1), (''feb'', 2), (''mar'', 3), (''apr'', 4), (''may'', 5), (''jun'', 6),
      (''jul'', 7), (''aug'', 8), (''sep'', 9), (''oct'', 10), (''nov'', 11), (''dec'', 12)]\<rparr>"

definition bounds_dow :: bounds where
  "bounds_dow = \<lparr>bounds_min = 0, bounds_max = 6, bounds_names = Some
     [(''sun'', 0), (''mon'', 1), (''tue'', 2), (''wed'', 3), (''thu'', 4), (''fri'', 5), (''sat'', 6)]\<rparr>"

definition starBit :: "64 word" where
  "starBit = push_bit 63 1"

section \<open>The next activation\<close>

definition has_bit :: "64 word \<Rightarrow> int \<Rightarrow> bool" where
  "has_bit bits n \<longleftrightarrow> push_bit (nat n) 1 AND bits \<noteq> 0"

definition dayMatches :: "SpecSchedule \<Rightarrow> zone \<Rightarrow> time \<Rightarrow> bool" where
  "dayMatches s loc t =
     (let domMatch = has_bit (sched_Dom s) (time_Day loc t);
          dowMatch = has_bit (sched_Dow s) (time_Weekday loc t)
      in if sched_Dom s AND starBit > 0 \<or> sched_Dow s AND starBit > 0 then domMatch \<and> dowMatch else domMatch \<or> dowMatch)"

text \<open>
  The five loops of \<open>Next\<close> and the jumps to its label as steps of a machine: where the code is, the time
  \<open>t\<close> and the flag \<open>added\<close>. A step is one round of a loop, or its end.
\<close>

datatype next_pc = WRAP | Months | Days | Hours | Minutes | Secs | Found | GaveUp

record next_state =
  next_at :: next_pc
  next_t :: time
  next_added :: bool

text \<open>One round of a loop: the time is set back once to the start of the unit, then moved to the next one.\<close>

definition next_round :: "next_pc \<Rightarrow> bool \<Rightarrow> next_pc \<Rightarrow> (time \<Rightarrow> time) \<Rightarrow> (time \<Rightarrow> time) \<Rightarrow> (time \<Rightarrow> bool) \<Rightarrow> next_state \<Rightarrow> next_state" where
  "next_round pc matches following reset advance wrapped st =
     (if matches then st\<lparr>next_at := following\<rparr>
      else
        (let t = advance (if next_added st then next_t st else reset (next_t st)) in
         \<lparr>next_at = (if wrapped t then WRAP else pc), next_t = t, next_added = True\<rparr>))"

text \<open>Where midnight does not exist the day loop moves to the hour 0 that is closest.\<close>

definition to_midnight :: "zone \<Rightarrow> time \<Rightarrow> time" where
  "to_midnight loc t =
     (let h = time_Hour loc t in
      if h \<noteq> 0 then (if h > 12 then t + (24 - h) * 3600 * 10 ^ 9 else t + (- h) * 3600 * 10 ^ 9) else t)"

definition next_step :: "SpecSchedule \<Rightarrow> zone \<Rightarrow> int \<Rightarrow> next_state \<Rightarrow> next_state" where
  "next_step s loc yearLimit st =
     (let t = next_t st in
      case next_at st of
        WRAP \<Rightarrow> st\<lparr>next_at := (if time_Year loc t > yearLimit then GaveUp else Months)\<rparr>
      | Months \<Rightarrow> next_round Months (has_bit (sched_Month s) (time_Month loc t)) Days
          (\<lambda>t. time_Date loc (time_Year loc t) (time_Month loc t) 1 0 0 0 0)
          (AddDate loc 0 1 0) (\<lambda>t. time_Month loc t = 1) st
      | Days \<Rightarrow> next_round Days (dayMatches s loc t) Hours
          (\<lambda>t. time_Date loc (time_Year loc t) (time_Month loc t) (time_Day loc t) 0 0 0 0)
          (\<lambda>t. to_midnight loc (AddDate loc 0 0 1 t)) (\<lambda>t. time_Day loc t = 1) st
      | Hours \<Rightarrow> next_round Hours (has_bit (sched_Hour s) (time_Hour loc t)) Minutes
          (\<lambda>t. time_Date loc (time_Year loc t) (time_Month loc t) (time_Day loc t) (time_Hour loc t) 0 0 0)
          (\<lambda>t. t + 3600 * 10 ^ 9) (\<lambda>t. time_Hour loc t = 0) st
      | Minutes \<Rightarrow> next_round Minutes (has_bit (sched_Minute s) (time_Minute loc t)) Secs
          (time_Truncate (60 * 10 ^ 9)) (\<lambda>t. t + 60 * 10 ^ 9) (\<lambda>t. time_Minute loc t = 0) st
      | Secs \<Rightarrow> next_round Secs (has_bit (sched_Second s) (time_Second loc t)) Found
          (time_Truncate (10 ^ 9)) (\<lambda>t. t + 10 ^ 9) (\<lambda>t. time_Second loc t = 0) st
      | _ \<Rightarrow> st)"

definition next_running :: "next_state \<Rightarrow> bool" where
  "next_running st \<longleftrightarrow> next_at st \<noteq> Found \<and> next_at st \<noteq> GaveUp"

text \<open>\<open>None\<close> stands for a call that does not return.\<close>

definition SpecSchedule_Next :: "zone \<Rightarrow> SpecSchedule \<Rightarrow> time \<Rightarrow> time option" where
  "SpecSchedule_Next locl s t =
     (let loc = (case sched_Location s of None \<Rightarrow> locl | Some z \<Rightarrow> z);
          t0 = t + (10 ^ 9 - time_Nanosecond t)
      in map_option (\<lambda>st. if next_at st = Found then next_t st else time_zero)
           (while_option next_running (next_step s loc (time_Year loc t0 + 5))
             \<lparr>next_at = WRAP, next_t = t0, next_added = False\<rparr>))"

section \<open>The parser\<close>

definition opt_Second :: int where "opt_Second = 1"
definition opt_SecondOptional :: int where "opt_SecondOptional = 2"
definition opt_Minute :: int where "opt_Minute = 4"
definition opt_Hour :: int where "opt_Hour = 8"
definition opt_Dom :: int where "opt_Dom = 16"
definition opt_Month :: int where "opt_Month = 32"
definition opt_Dow :: int where "opt_Dow = 64"
definition opt_DowOptional :: int where "opt_DowOptional = 128"
definition opt_Descriptor :: int where "opt_Descriptor = 256"

definition places :: "int list" where
  "places = [opt_Second, opt_Minute, opt_Hour, opt_Dom, opt_Month, opt_Dow]"

definition defaults :: "string list" where
  "defaults = [''0'', ''0'', ''0'', ''*'', ''*'', ''*'']"

record Parser =
  parser_options :: int

definition NewParser :: "int \<Rightarrow> failure + Parser" where
  "NewParser options =
     (if options AND opt_DowOptional > 0 \<and> options AND opt_SecondOptional > 0 then Inl Panic
      else Inr \<lparr>parser_options = options\<rparr>)"

definition mustParseInt :: "string \<Rightarrow> failure + 64 word" where
  "mustParseInt expr =
     (case ParseInt expr of
        None \<Rightarrow> Inl (Err (''failed to parse int from '' @ expr))
      | Some num \<Rightarrow>
          if num < 0 then Inl (Err (''negative number ('' @ Itoa num @ '') not allowed: '' @ expr))
          else Inr (word_of_int num))"

definition parseIntOrName :: "string \<Rightarrow> (string \<times> 64 word) list option \<Rightarrow> failure + 64 word" where
  "parseIntOrName expr names =
     (case (case names of None \<Rightarrow> None | Some ns \<Rightarrow> map_of ns (ToLower expr)) of
        Some namedInt \<Rightarrow> Inr namedInt
      | None \<Rightarrow> mustParseInt expr)"

text \<open>
  The loop of \<open>getBits\<close>; its counter wraps at 64 bits. \<open>getRange\<close> lets it run from a value of the
  bounds to another one, so 64 rounds are enough.
\<close>

fun bits_loop :: "nat \<Rightarrow> 64 word \<Rightarrow> 64 word \<Rightarrow> 64 word \<Rightarrow> 64 word \<Rightarrow> failure + 64 word" where
  "bits_loop 0 i mx step bits = Inl NoFuel"
| "bits_loop (Suc n) i mx step bits =
     (if i \<le> mx then bits_loop n (i + step) mx step (bits OR push_bit (unat i) 1) else Inr bits)"

definition getBits :: "64 word \<Rightarrow> 64 word \<Rightarrow> 64 word \<Rightarrow> failure + 64 word" where
  "getBits mn mx step =
     (if step = 1 then Inr (NOT (push_bit (unat (mx + 1)) (- 1)) AND push_bit (unat mn) (- 1))
      else bits_loop 64 mn mx step 0)"

definition all_bits :: "bounds \<Rightarrow> 64 word" where
  "all_bits r = NOT (push_bit (unat (bounds_max r + 1)) (- 1)) AND push_bit (unat (bounds_min r)) (- 1) OR starBit"

text \<open>The start and the end of a range, and the star bit.\<close>

definition range_ends :: "string \<Rightarrow> string list \<Rightarrow> bounds \<Rightarrow> failure + 64 word \<times> 64 word \<times> 64 word" where
  "range_ends expr lowAndHigh r =
     (if hd lowAndHigh = ''*'' \<or> hd lowAndHigh = ''?'' then Inr (bounds_min r, bounds_max r, starBit)
      else
        sum_bind (parseIntOrName (hd lowAndHigh) (bounds_names r)) (\<lambda>start.
        (case lowAndHigh of
           [_] \<Rightarrow> Inr (start, start, 0)
         | [_, high] \<Rightarrow> sum_bind (parseIntOrName high (bounds_names r)) (\<lambda>end. Inr (start, end, 0))
         | _ \<Rightarrow> Inl (Err (''too many hyphens: '' @ expr)))))"

text \<open>The step, with the end and the star bit it changes: a single value with a step runs to the maximum.\<close>

definition range_step ::
  "string \<Rightarrow> string list \<Rightarrow> bool \<Rightarrow> bounds \<Rightarrow> 64 word \<Rightarrow> 64 word \<Rightarrow> failure + 64 word \<times> 64 word \<times> 64 word" where
  "range_step expr rangeAndStep singleDigit r end0 extra0 =
     (case rangeAndStep of
        [_] \<Rightarrow> Inr (1, end0, extra0)
      | [_, st] \<Rightarrow> sum_bind (mustParseInt st) (\<lambda>step.
          Inr (step, (if singleDigit then bounds_max r else end0), (if step > 1 then 0 else extra0)))
      | _ \<Rightarrow> Inl (Err (''too many slashes: '' @ expr)))"

definition getRange :: "string \<Rightarrow> bounds \<Rightarrow> failure + 64 word" where
  "getRange expr r =
     (let rangeAndStep = Split CHR ''/'' expr;
          lowAndHigh = Split CHR ''-'' (hd rangeAndStep)
      in
      sum_bind (range_ends expr lowAndHigh r) (\<lambda>(start, end0, extra0).
      sum_bind (range_step expr rangeAndStep (length lowAndHigh = 1) r end0 extra0) (\<lambda>(step, end, extra).
      if start < bounds_min r
      then Inl (Err (''beginning of range ('' @ Itoa (uint start) @ '') below minimum ('' @ Itoa (uint (bounds_min r)) @ ''): '' @ expr))
      else if end > bounds_max r
      then Inl (Err (''end of range ('' @ Itoa (uint end) @ '') above maximum ('' @ Itoa (uint (bounds_max r)) @ ''): '' @ expr))
      else if start > end
      then Inl (Err (''beginning of range ('' @ Itoa (uint start) @ '') beyond end of range ('' @ Itoa (uint end) @ ''): '' @ expr))
      else if step = 0 then Inl (Err (''step of range should be a positive number: '' @ expr))
      else sum_bind (getBits start end step) (\<lambda>bits. Inr (bits OR extra)))))"

primrec field_bits :: "bounds \<Rightarrow> 64 word \<Rightarrow> string list \<Rightarrow> failure + 64 word" where
  "field_bits r bits [] = Inr bits"
| "field_bits r bits (expr # exprs) = sum_bind (getRange expr r) (\<lambda>bit. field_bits r (bits OR bit) exprs)"

definition getField :: "string \<Rightarrow> bounds \<Rightarrow> failure + 64 word" where
  "getField field r = field_bits r 0 (FieldsFunc CHR '','' field)"

definition sprint_fields :: "string list \<Rightarrow> string" where
  "sprint_fields fs = ''['' @ (case fs of [] \<Rightarrow> [] | f # rest \<Rightarrow> f @ concat (map (\<lambda>g. '' '' @ g) rest)) @ '']''"

text \<open>The fields the options name are taken from the expression in order, the others are defaults.\<close>

fun expand_fields :: "int \<Rightarrow> int list \<Rightarrow> string list \<Rightarrow> string list \<Rightarrow> string list" where
  "expand_fields options (place # ps) (d # ds) (f # fs) =
     (if options AND place > 0 then f # expand_fields options ps ds fs else d # expand_fields options ps ds (f # fs))"
| "expand_fields options (place # ps) (d # ds) [] = d # expand_fields options ps ds []"
| "expand_fields options _ _ _ = []"

definition normalizeFields :: "string list \<Rightarrow> int \<Rightarrow> failure + string list" where
  "normalizeFields flds options0 =
     (let secondOpt = options0 AND opt_SecondOptional > 0;
          options1 = (if secondOpt then options0 OR opt_Second else options0);
          dowOpt = options1 AND opt_DowOptional > 0;
          options = (if dowOpt then options1 OR opt_Dow else options1);
          optionals = (if secondOpt then 1 else 0) + (if dowOpt then 1 else (0::nat))
      in
      if optionals > 1 then Inl (Err ''multiple optionals may not be configured'')
      else
        (let mx = length (filter (\<lambda>place. options AND place > 0) places);
             mn = mx - optionals;
             cnt = length flds
         in
         if cnt < mn \<or> cnt > mx
         then (if mn = mx
               then Inl (Err (''expected exactly '' @ digits10 mn @ '' fields, found '' @ digits10 cnt @ '': '' @ sprint_fields flds))
               else Inl (Err (''expected '' @ digits10 mn @ '' to '' @ digits10 mx @ '' fields, found '' @ digits10 cnt @ '': '' @ sprint_fields flds)))
         else
           (let filled =
              (if mn < mx \<and> cnt = mn
               then (if options AND opt_DowOptional > 0 then flds @ [defaults ! 5]
                     else (defaults ! 0) # flds)
               else flds)
            in Inr (expand_fields options places defaults filled))))"

record cron_env =
  env_LoadLocation :: "string \<Rightarrow> failure + zone"
  env_ParseDuration :: "string \<Rightarrow> failure + int"
  env_Local :: zone

definition parseDescriptor :: "cron_env \<Rightarrow> string \<Rightarrow> zone option \<Rightarrow> failure + Schedule" where
  "parseDescriptor env descriptor loc =
     (if descriptor = ''@yearly'' \<or> descriptor = ''@annually'' then
        Inr (Spec \<lparr>sched_Second = 1, sched_Minute = 1, sched_Hour = 1, sched_Dom = push_bit 1 1, sched_Month = push_bit 1 1,
          sched_Dow = all_bits bounds_dow, sched_Location = loc\<rparr>)
      else if descriptor = ''@monthly'' then
        Inr (Spec \<lparr>sched_Second = 1, sched_Minute = 1, sched_Hour = 1, sched_Dom = push_bit 1 1,
          sched_Month = all_bits bounds_months, sched_Dow = all_bits bounds_dow, sched_Location = loc\<rparr>)
      else if descriptor = ''@weekly'' then
        Inr (Spec \<lparr>sched_Second = 1, sched_Minute = 1, sched_Hour = 1, sched_Dom = all_bits bounds_dom,
          sched_Month = all_bits bounds_months, sched_Dow = 1, sched_Location = loc\<rparr>)
      else if descriptor = ''@daily'' \<or> descriptor = ''@midnight'' then
        Inr (Spec \<lparr>sched_Second = 1, sched_Minute = 1, sched_Hour = 1, sched_Dom = all_bits bounds_dom,
          sched_Month = all_bits bounds_months, sched_Dow = all_bits bounds_dow, sched_Location = loc\<rparr>)
      else if descriptor = ''@hourly'' then
        Inr (Spec \<lparr>sched_Second = 1, sched_Minute = 1, sched_Hour = all_bits bounds_hours, sched_Dom = all_bits bounds_dom,
          sched_Month = all_bits bounds_months, sched_Dow = all_bits bounds_dow, sched_Location = loc\<rparr>)
      else if HasPrefix descriptor ''@every '' then
        (case env_ParseDuration env (drop 7 descriptor) of
           Inl _ \<Rightarrow> Inl (Err (''failed to parse duration '' @ descriptor))
         | Inr duration \<Rightarrow> Inr (Constant (Every duration)))
      else Inl (Err (''unrecognized descriptor: '' @ descriptor)))"

definition parse_fields :: "string list \<Rightarrow> zone option \<Rightarrow> failure + Schedule" where
  "parse_fields flds loc =
     sum_bind (getField (flds ! 0) bounds_seconds) (\<lambda>second.
     sum_bind (getField (flds ! 1) bounds_minutes) (\<lambda>minute.
     sum_bind (getField (flds ! 2) bounds_hours) (\<lambda>hour.
     sum_bind (getField (flds ! 3) bounds_dom) (\<lambda>dayofmonth.
     sum_bind (getField (flds ! 4) bounds_months) (\<lambda>month.
     sum_bind (getField (flds ! 5) bounds_dow) (\<lambda>dayofweek.
     Inr (Spec \<lparr>sched_Second = second, sched_Minute = minute, sched_Hour = hour, sched_Dom = dayofmonth,
       sched_Month = month, sched_Dow = dayofweek, sched_Location = loc\<rparr>)))))))"

text \<open>
  The time zone of an expression ends at its first space. Without one the index is -1, and the slice
  panics.
\<close>

definition parse_location :: "cron_env \<Rightarrow> string \<Rightarrow> failure + zone option \<times> string" where
  "parse_location env spec =
     (if HasPrefix spec ''TZ='' \<or> HasPrefix spec ''CRON_TZ='' then
        (case IndexByte spec CHR '' '' of
           None \<Rightarrow> Inl Panic
         | Some i \<Rightarrow>
             (case IndexByte spec CHR ''='' of
                None \<Rightarrow> Inl Panic
              | Some eq \<Rightarrow>
                  (case env_LoadLocation env (drop (eq + 1) (take i spec)) of
                     Inl _ \<Rightarrow> Inl (Err (''provided bad location '' @ drop (eq + 1) (take i spec)))
                   | Inr z \<Rightarrow> Inr (Some z, TrimSpace (drop i spec)))))
      else Inr (None, spec))"

definition Parse :: "cron_env \<Rightarrow> Parser \<Rightarrow> string \<Rightarrow> failure + Schedule" where
  "Parse env p spec0 =
     (if spec0 = [] then Inl (Err ''empty cron expression string'')
      else
        sum_bind (parse_location env spec0) (\<lambda>(loc, spec).
        if HasPrefix spec ''@'' then
          (if parser_options p AND opt_Descriptor = 0
           then Inl (Err (''parser does not accept descriptors: '' @ spec))
           else parseDescriptor env spec loc)
        else sum_bind (normalizeFields (Fields spec) (parser_options p)) (\<lambda>flds. parse_fields flds loc)))"

definition ParseStandard :: "cron_env \<Rightarrow> string \<Rightarrow> failure + Schedule" where
  "ParseStandard env standardSpec =
     sum_bind (NewParser (opt_Minute OR opt_Hour OR opt_Dom OR opt_Month OR opt_Dow OR opt_Descriptor)) (\<lambda>p.
     Parse env p standardSpec)"

section \<open>Entry points\<close>

definition Schedule_Next :: "cron_env \<Rightarrow> Schedule \<Rightarrow> time \<Rightarrow> failure + time" where
  "Schedule_Next env schedule t =
     (case schedule of
        Constant c \<Rightarrow> Inr (ConstantDelaySchedule_Next c t)
      | Spec s \<Rightarrow> (case SpecSchedule_Next (env_Local env) s t of None \<Rightarrow> Inl NoFuel | Some r \<Rightarrow> Inr r))"

definition cron_Next :: "cron_env \<Rightarrow> string \<Rightarrow> time \<Rightarrow> failure + time" where
  "cron_Next env cronExpr now =
     sum_bind (NewParser (opt_Second OR opt_Minute OR opt_Hour OR opt_Dom OR opt_Month OR opt_Dow OR opt_Descriptor)) (\<lambda>parser.
     sum_bind (Parse env parser cronExpr) (\<lambda>p. Schedule_Next env p now))"

text \<open>\<open>Random\<close>, with the number \<open>rand.Intn\<close> gives as an argument; \<open>rand.Intn\<close> panics unless its bound is positive.\<close>

definition Random_Next :: "(int \<Rightarrow> int) \<Rightarrow> int \<Rightarrow> time \<Rightarrow> failure + time" where
  "Random_Next intn interval now =
     (if interval \<le> 0 then Inl Panic else Inr (now + wrap64 (intn interval * 10 ^ 9)))"

end
