(* ===== verification/Cron_Generators.thy ===== *)
theory Cron_Generators
  imports Server_Checks Cron_Spec
begin

text \<open>
  \<open>pkg/server/generator_controller.go\<close> and \<open>cron_controller.go\<close>: generators, which collect arguments and
  submit a workflow when enough have come or a time has passed, and crons, which submit a workflow at
  given times. Both keep the workflow as JSON text; \<open>core.ConvertJSONToWorkflowSpec\<close>, the library
  decoder, is the argument \<open>parse\<close>. The argument \<open>next\<close> is the environment of the cron expressions, with
  the time zones. The trigger loops sleep, ask etcd for the leader and call the definitions below.
\<close>

type_synonym workflow_decoder = "string \<Rightarrow> failure + WorkflowSpec"

section \<open>Generators\<close>

definition ctl_addGenerator :: "Generator \<Rightarrow> Generator option ctl" where
  "ctl_addGenerator generator = thenM (AddGenerator generator) (GetGeneratorByID (gen_ID generator))"

definition ctl_getGenerator :: "string \<Rightarrow> Generator option ctl" where
  "ctl_getGenerator generatorID = GetGeneratorByID generatorID"

definition ctl_resolveGenerator :: "string \<Rightarrow> string \<Rightarrow> Generator option ctl" where
  "ctl_resolveGenerator colonyName generatorName = GetGeneratorByName colonyName generatorName"

definition ctl_getGenerators :: "string \<Rightarrow> int \<Rightarrow> Generator list ctl" where
  "ctl_getGenerators colonyName cnt = FindGeneratorsByColonyName colonyName cnt"

definition ctl_removeGenerator :: "string \<Rightarrow> unit ctl" where
  "ctl_removeGenerator generatorID = RemoveGeneratorByID generatorID"

definition CreateGeneratorArg :: "string \<Rightarrow> string \<Rightarrow> string \<Rightarrow> ('z pq_state_scheme, GeneratorArg) op" where
  "CreateGeneratorArg generatorID colonyName arg =
     bindM uuid_New (\<lambda>uuid. bindM (GenerateHash uuid) (\<lambda>hid.
     retM \<lparr>ga_ID = hid, ga_GeneratorID = generatorID, ga_ColonyName = colonyName, ga_Arg = arg\<rparr>))"

text \<open>
  The errors of \<open>packGenerator\<close> are sent without a return: the caller gets the first one, and the
  handler goes on, so that a generator it could not read is dereferenced.
\<close>

definition ctl_packGenerator :: "string \<Rightarrow> string \<Rightarrow> string \<Rightarrow> unit ctl" where
  "ctl_packGenerator generatorID colonyName arg =
     bindM (CreateGeneratorArg generatorID colonyName arg) (\<lambda>generatorArg.
     bindM (tryM (AddGeneratorArg generatorArg)) (\<lambda>added.
     thenM (ignoreM (CountGeneratorArgs generatorID))
     (bindM (tryM (GetGeneratorByID generatorID)) (\<lambda>found.
      bindM (case found of Inl _ \<Rightarrow> throwM Panic | Inr g \<Rightarrow> derefM g) (\<lambda>generator.
      bindM (if time_Unix (gen_FirstPack generator) < 0 then tryM (SetGeneratorFirstPack generatorID) else retM (Inr ()))
        (\<lambda>packed.
      thenM (liftE added) (liftE packed)))))))"

definition submitWorkflow :: "workflow_decoder \<Rightarrow> Generator \<Rightarrow> int \<Rightarrow> string \<Rightarrow> unit ctl" where
  "submitWorkflow parse generator counter recoveredID =
     (case parse (gen_WorkflowSpec generator) of
        Inl _ \<Rightarrow> retM ()
      | Inr workflowSpec \<Rightarrow>
          bindM (tryM (GetGeneratorArgs (gen_ID generator) counter)) (\<lambda>found.
          (let generatorArgs = (case found of Inl _ \<Rightarrow> [] | Inr as \<Rightarrow> as) in
           bindM (tryM (createProcessGraph workflowSpec (map (\<lambda>a. IStr (ga_Arg a)) generatorArgs) [] [] recoveredID)) (\<lambda>created.
           (case created of
              Inl _ \<Rightarrow> retM ()
            | Inr _ \<Rightarrow>
                bindM (tryM (forM generatorArgs (\<lambda>a.
                  thenM (ignoreM (CountGeneratorArgs (gen_ID generator))) (RemoveGeneratorArgByID (ga_ID a))))) (\<lambda>removed.
                (case removed of
                   Inl _ \<Rightarrow> retM ()
                 | Inr _ \<Rightarrow> ignoreM (SetGeneratorLastRun (gen_ID generator)))))))))"

text \<open>Whether the time of a generator has passed, from its last run or else from its first argument.\<close>

definition generator_timeout :: "time \<Rightarrow> Generator \<Rightarrow> bool" where
  "generator_timeout now generator =
     (if time_Unix (gen_LastRun generator) \<le> 0
      then (if time_Unix (gen_FirstPack generator) \<le> 0 then False
            else time_Unix now > time_Unix (gen_FirstPack generator + seconds (gen_Timeout generator)))
      else time_Unix now > time_Unix (gen_LastRun generator + seconds (gen_Timeout generator)))"

definition triggerGenerator :: "workflow_decoder \<Rightarrow> Generator \<Rightarrow> unit ctl" where
  "triggerGenerator parse generator =
     bindM (tryM (CountGeneratorArgs (gen_ID generator))) (\<lambda>counted.
     (case counted of
        Inl _ \<Rightarrow> retM ()
      | Inr counter \<Rightarrow>
          bindM time_Now (\<lambda>now.
          if counter \<ge> gen_Trigger generator then
            thenM (guardM (gen_Trigger generator \<noteq> 0) Panic)
              (forM [0 ..< nat (go_div counter (gen_Trigger generator))]
                (\<lambda>_. submitWorkflow parse generator (gen_Trigger generator) (gen_InitiatorID generator)))
          else whenM (counter \<ge> 1 \<and> gen_Timeout generator > 0 \<and> generator_timeout now generator)
            (submitWorkflow parse generator counter (gen_InitiatorID generator)))))"

definition triggerGenerators :: "workflow_decoder \<Rightarrow> unit ctl" where
  "triggerGenerators parse =
     bindM (tryM FindAllGenerators) (\<lambda>found.
     (case found of Inl _ \<Rightarrow> retM () | Inr generators \<Rightarrow> forM generators (triggerGenerator parse)))"

section \<open>Crons\<close>

definition ctl_addCron :: "Cron \<Rightarrow> Cron option ctl" where
  "ctl_addCron cron = thenM (AddCron cron) (GetCronByID (cron_ID cron))"

definition ctl_getCron :: "string \<Rightarrow> Cron option ctl" where
  "ctl_getCron cronID = GetCronByID cronID"

definition ctl_getCrons :: "string \<Rightarrow> int \<Rightarrow> Cron list ctl" where
  "ctl_getCrons colonyName cnt = FindCronsByColonyName colonyName cnt"

definition ctl_removeCron :: "string \<Rightarrow> unit ctl" where
  "ctl_removeCron cronID = RemoveCronByID cronID"

definition NextInterval :: "int \<Rightarrow> ('z pq_state_scheme, time) op" where
  "NextInterval interval = bindM time_Now (\<lambda>now. retM (now + wrap64 (interval * 10 ^ 9)))"

text \<open>
  The second branch of \<open>calcNextRun\<close>, for random intervals, is never reached: its condition implies
  that of the first.
\<close>

definition calcNextRun :: "cron_env \<Rightarrow> Cron \<Rightarrow> ('z pq_state_scheme, time) op" where
  "calcNextRun next cron =
     (if cron_Interval cron > 0 then NextInterval (cron_Interval cron)
      else
        bindM time_Now (\<lambda>now.
        bindM (tryM (liftE (cron_Next next (cron_CronExpression cron) now))) (\<lambda>res.
        (case res of Inl _ \<Rightarrow> retM time_zero | Inr t \<Rightarrow> retM t))))"

text \<open>The outputs of the leaves of the previous graph; whatever cannot be read is left out.\<close>

definition leaf_output :: "string \<Rightarrow> iface list ctl" where
  "leaf_output leafID =
     bindM (tryM (GetProcessByID leafID)) (\<lambda>found.
     (case found of
        Inl _ \<Rightarrow> retM []
      | Inr leaf \<Rightarrow> bindM (derefM leaf) (\<lambda>p. retM (proc_Output p))))"

definition previous_output :: "string \<Rightarrow> iface list ctl" where
  "previous_output prevProcessGraphID =
     (if prevProcessGraphID = '''' then retM []
      else
        bindM (tryM (GetProcessGraphByID prevProcessGraphID)) (\<lambda>found.
        (case found of
           Inr (Some processGraph) \<Rightarrow>
             bindM (tryM (Leaves processGraph)) (\<lambda>leaves.
             (case leaves of
                Inl _ \<Rightarrow> retM []
              | Inr leafIDs \<Rightarrow> foldM (\<lambda>acc leafID. bindM (leaf_output leafID) (\<lambda>out. retM (acc @ out))) [] leafIDs))
         | _ \<Rightarrow> retM [])))"

definition startCron :: "workflow_decoder \<Rightarrow> cron_env \<Rightarrow> Cron \<Rightarrow> unit ctl" where
  "startCron parse next cron =
     (case parse (cron_WorkflowSpec cron) of
        Inl _ \<Rightarrow> retM ()
      | Inr workflowSpec \<Rightarrow>
          bindM (previous_output (cron_PrevProcessGraphID cron)) (\<lambda>rootInput.
          bindM (tryM (createProcessGraph workflowSpec [] [] rootInput (cron_InitiatorID cron))) (\<lambda>created.
          (case created of
             Inl _ \<Rightarrow> retM ()
           | Inr processGraph \<Rightarrow>
               bindM (calcNextRun next cron) (\<lambda>nextRun.
               bindM time_Now (\<lambda>now.
               ignoreM (UpdateCron (cron_ID cron) nextRun now (graph_ID processGraph))))))))"

text \<open>\<open>startCron\<close> reads the fields of the cron it is given, so a missing cron panics.\<close>

definition ctl_runCron :: "workflow_decoder \<Rightarrow> cron_env \<Rightarrow> string \<Rightarrow> Cron option ctl" where
  "ctl_runCron parse next cronID =
     bindM (GetCronByID cronID) (\<lambda>found.
     bindM (derefM found) (\<lambda>cron.
     thenM (startCron parse next cron) (retM (Some cron))))"

definition triggerCron :: "workflow_decoder \<Rightarrow> cron_env \<Rightarrow> Cron \<Rightarrow> unit ctl" where
  "triggerCron parse next cron =
     (if time_Unix time_zero = time_Unix (cron_NextRun cron)
      then bindM (calcNextRun next cron) (\<lambda>nextRun. ignoreM (UpdateCron (cron_ID cron) nextRun time_zero ''''))
      else
        bindM time_Now (\<lambda>now.
        whenM (HasExpired now cron)
          (bindM (tryM (GetProcessGraphByID (cron_PrevProcessGraphID cron))) (\<lambda>found.
           (case found of
              Inl _ \<Rightarrow> retM ()
            | Inr None \<Rightarrow> startCron parse next cron
            | Inr (Some processgraph) \<Rightarrow>
                whenM (cron_WaitForPrevProcessGraph cron \<longrightarrow>
                       graph_State processgraph = SUCCESS \<or> graph_State processgraph = FAILED)
                  (startCron parse next cron))))))"

definition triggerCrons :: "workflow_decoder \<Rightarrow> cron_env \<Rightarrow> unit ctl" where
  "triggerCrons parse next =
     bindM (tryM FindAllCrons) (\<lambda>found.
     (case found of Inl _ \<Rightarrow> retM () | Inr crons \<Rightarrow> forM crons (triggerCron parse next)))"

end
