(* ===== verification/Process_Handlers.thy ===== *)
theory Process_Handlers
  imports Rpc Cron_Generators
begin

text \<open>
  The HTTP handlers on processes, process graphs, attributes, functions and logs:
  \<open>process_handlers.go\<close>, \<open>processgraph_handlers.go\<close>, \<open>attribute_handlers.go\<close>, \<open>function_handler.go\<close> and
  \<open>logs_handlers.go\<close> of \<open>pkg/server\<close>. \<open>recoveredID\<close> is the identity that the signature of the request
  proves; \<open>parsed\<close> is the outcome of decoding the message.
\<close>

record server_config =
  srv_exclusiveAssign :: bool
  srv_allowExecutorReregister :: bool
  srv_unprivilegedExecutors :: bool
  srv_generatorPeriod :: int
  srv_cronPeriod :: int

section \<open>Submitting and assigning\<close>

definition parseSubmitFunctionSpecMsg ::
  "string \<Rightarrow> failure + SubmitFunctionSpecMsg \<Rightarrow> failure + FunctionSpec" where
  "parseSubmitFunctionSpecMsg payloadType parsed =
     (case parsed of
        Inl _ \<Rightarrow> Inl (Err ''failed to submit process, invalid JSON'')
      | Inr msg \<Rightarrow>
          if MsgType msg \<noteq> payloadType
          then Inl (Err ''failed to submit process spec, msg.MsgType does not match payloadType'')
          else
            (case SubmitFunctionSpec_FunctionSpec msg of
               None \<Rightarrow> Inl (Err ''failed to submit process spec, msg.FunctionSpec is nil'')
             | Some spec \<Rightarrow> map_sum id (\<lambda>_. spec) (VerifyFunctionSpec spec)))"

definition handleSubmitHTTPRequest ::
  "server_config \<Rightarrow> string \<Rightarrow> string \<Rightarrow> failure + SubmitFunctionSpecMsg \<Rightarrow> handler" where
  "handleSubmitHTTPRequest cfg recoveredID payloadType parsed =
     orReply (liftE (parseSubmitFunctionSpecMsg payloadType parsed)) StatusBadRequest (\<lambda>spec.
     orReply (RequireMembership recoveredID (cond_ColonyName (spec_Conditions spec)) True) StatusForbidden (\<lambda>_.
     bindM (NewProcess spec) (\<lambda>process.
     orReply (deriveInitiator (cond_ColonyName (spec_Conditions spec)) recoveredID) StatusInternalServerError (\<lambda>initiator.
     if srv_unprivilegedExecutors cfg \<and> initiator_Type initiator = InitiatorExecutor
     then sendError ''unprivileged executors cannot initiate processes'' StatusForbidden
     else
       orReply (ctl_addProcess (Some (process\<lparr>proc_InitiatorID := recoveredID, proc_InitiatorName := initiator_Name initiator\<rparr>)))
         StatusBadRequest (\<lambda>addedProcess.
       sendHTTPReply payloadType (Process_json addedProcess))))))"

text \<open>
  The loop of \<open>handleAssignProcessHTTPRequest\<close>. While it waits, for a colony to be resumed or for a new
  process, other requests are served: every element of \<open>waits\<close> is one wait, with what happened
  meanwhile and whether the request was woken or its time limit came. At the end of the list the
  limit has come.
\<close>

fun assign_loop ::
  "(Process list \<Rightarrow> Process list) \<Rightarrow> (ctl_state \<Rightarrow> ctl_state) \<Rightarrow> string \<Rightarrow> string \<Rightarrow> string \<Rightarrow> int \<Rightarrow> int \<Rightarrow> int \<Rightarrow>
   (bool \<times> (ctl_state \<Rightarrow> ctl_state)) list \<Rightarrow> handler" where
  "assign_loop srt others payloadType recoveredID colonyName timeout cpu memory waits =
     orReply (ctl_assign srt others recoveredID colonyName cpu memory) StatusInternalServerError (\<lambda>result.
     if ar_IsPaused result then
       (if timeout > 0 then
          (case waits of
             [] \<Rightarrow> sendError ''Assignment timeout: colony assignments are paused'' StatusRequestTimeout
           | (woken, meanwhile) # waits' \<Rightarrow>
               thenM (modifyM meanwhile)
               (if woken then assign_loop srt others payloadType recoveredID colonyName timeout cpu memory waits'
                else sendError ''Assignment timeout: colony assignments are paused'' StatusRequestTimeout))
        else sendError ''No processes available: colony assignments are paused'' StatusServiceUnavailable)
     else
       (case ar_Process result of
          Some process \<Rightarrow> sendHTTPReply payloadType (Process_json process)
        | None \<Rightarrow>
            if timeout > 0 then
              (case waits of
                 [] \<Rightarrow> sendError ''No process available for assignment'' StatusNotFound
               | (woken, meanwhile) # waits' \<Rightarrow>
                   thenM (modifyM meanwhile)
                   (if woken then assign_loop srt others payloadType recoveredID colonyName timeout cpu memory waits'
                    else sendError ''No process available for assignment'' StatusNotFound))
            else sendError ''No process available for assignment'' StatusNotFound))"

declare assign_loop.simps [simp del]

definition MaxInt64 :: int where "MaxInt64 = 2 ^ 63 - 1"

text \<open>\<open>leader\<close>: the reply of the leader when this node has to ask it, \<open>None\<close> when it serves itself.\<close>

definition handleAssignProcessHTTPRequest ::
  "(failure + string) option \<Rightarrow> (Process list \<Rightarrow> Process list) \<Rightarrow> (ctl_state \<Rightarrow> ctl_state) \<Rightarrow>
   (bool \<times> (ctl_state \<Rightarrow> ctl_state)) list \<Rightarrow> server_config \<Rightarrow> string \<Rightarrow> string \<Rightarrow> failure + AssignProcessMsg \<Rightarrow> handler" where
  "handleAssignProcessHTTPRequest leader srt others waits cfg recoveredID payloadType parsed =
     (case (if srv_exclusiveAssign cfg then leader else None) of
        Some answer \<Rightarrow> orReply (liftE answer) StatusInternalServerError (\<lambda>s. retM [Redirected s])
      | None \<Rightarrow>
          withMsg ''Failed to assign process, invalid JSON''
            ''Failed to assign process, msg.msgType does not match payloadType'' payloadType parsed (\<lambda>msg.
          orReply (RequireMembership recoveredID (AssignProcess_ColonyName msg) True) StatusForbidden (\<lambda>_.
          if AssignProcess_Timeout msg = 0
          then sendError ''Invalid timeout value, timeout cannot be zero'' StatusBadRequest
          else
            orReply (ctl_getExecutor recoveredID) StatusBadRequest (\<lambda>executor.
            orNil executor ''Failed to assign process, executor not found'' StatusInternalServerError (\<lambda>_.
            orReply (if AssignProcess_AvailableCPU msg = '''' then retM MaxInt64
                     else liftE (ConvertCPUToInt (AssignProcess_AvailableCPU msg))) StatusBadRequest (\<lambda>cpu.
            orReply (if AssignProcess_AvailableMemory msg = '''' then retM MaxInt64
                     else ConvertMemoryToBytesM (AssignProcess_AvailableMemory msg)) StatusBadRequest (\<lambda>memory.
            assign_loop srt others payloadType recoveredID (AssignProcess_ColonyName msg)
              (AssignProcess_Timeout msg) cpu memory waits)))))))"

section \<open>Reading processes\<close>

text \<open>The membership error of \<open>handleGetProcessHist\<close> returns without any reply.\<close>

definition handleGetProcessHistHTTPRequest :: "string \<Rightarrow> string \<Rightarrow> failure + GetProcessHistMsg \<Rightarrow> handler" where
  "handleGetProcessHistHTTPRequest recoveredID payloadType parsed =
     withMsg ''Failed to get process hist, invalid JSON''
       ''Failed to get process history, msg.MsgType does not match payloadType'' payloadType parsed (\<lambda>msg.
     bindM (tryM (RequireMembership recoveredID (GetProcessHist_ColonyName msg) True)) (\<lambda>res.
     (case res of
        Inl _ \<Rightarrow> retM []
      | Inr _ \<Rightarrow>
          orReply (ctl_findProcessHistory (GetProcessHist_ColonyName msg) (GetProcessHist_ExecutorID msg)
                     (GetProcessHist_Seconds msg) (GetProcessHist_State msg)) StatusBadRequest (\<lambda>processes.
          sendHTTPReply payloadType (Processes_json processes)))))"

definition find_processes :: "GetProcessesMsg \<Rightarrow> (string \<Rightarrow> string \<Rightarrow> string \<Rightarrow> string \<Rightarrow> int \<Rightarrow> Process list ctl) \<Rightarrow> Process list ctl" where
  "find_processes msg find_them =
     find_them (GetProcesses_ColonyName msg) (GetProcesses_ExecutorType msg) (GetProcesses_Label msg)
       (GetProcesses_Initiator msg) (GetProcesses_Count msg)"

definition handleGetProcessesHTTPRequest :: "string \<Rightarrow> string \<Rightarrow> failure + GetProcessesMsg \<Rightarrow> handler" where
  "handleGetProcessesHTTPRequest recoveredID payloadType parsed =
     withMsg ''Failed to get processes, invalid JSON''
       ''Failed to get processes, msg.MsgType does not match payloadType'' payloadType parsed (\<lambda>msg.
     orReply (RequireMembership recoveredID (GetProcesses_ColonyName msg) True) StatusForbidden (\<lambda>_.
     if GetProcesses_Count msg > MAX_COUNT then sendError ''Count is larger than MaxCount limit <100>'' StatusBadRequest
     else
       orReply (if GetProcesses_Initiator msg = '''' then retM []
                else GetUsersByColonyName (GetProcesses_ColonyName msg)) StatusInternalServerError (\<lambda>users.
       if GetProcesses_Initiator msg \<noteq> '''' \<and> GetProcesses_Initiator msg \<notin> set (map user_Name users)
       then sendError (''User <'' @ GetProcesses_Initiator msg @ ''> does not exist'') StatusBadRequest
       else if GetProcesses_State msg = WAITING then
         orReply (find_processes msg FindWaitingProcesses) StatusBadRequest (\<lambda>ps. sendHTTPReply payloadType (Processes_json ps))
       else if GetProcesses_State msg = RUNNING then
         orReply (find_processes msg FindRunningProcesses) StatusBadRequest (\<lambda>ps. sendHTTPReply payloadType (Processes_json ps))
       else if GetProcesses_State msg = SUCCESS then
         orReply (find_processes msg FindSuccessfulProcesses) StatusBadRequest (\<lambda>ps. sendHTTPReply payloadType (Processes_json ps))
       else if GetProcesses_State msg = FAILED then
         orReply (find_processes msg FindFailedProcesses) StatusBadRequest (\<lambda>ps. sendHTTPReply payloadType (Processes_json ps))
       else sendError ''Failed to get processes, invalid msg.State'' StatusBadRequest)))"

text \<open>
  Four handlers and the handlers on attributes and logs first look up the process they are about and
  require membership of its colony.
\<close>

definition memberOfProcess :: "string \<Rightarrow> string \<Rightarrow> string \<Rightarrow> (Process \<Rightarrow> handler) \<Rightarrow> handler" where
  "memberOfProcess recoveredID processID nilmsg k =
     orReply (ctl_getProcess processID) StatusBadRequest (\<lambda>found.
     orNil found nilmsg StatusInternalServerError (\<lambda>process.
     orReply (RequireMembership recoveredID (cond_ColonyName (spec_Conditions (proc_FunctionSpec process))) True)
       StatusForbidden (\<lambda>_. k process)))"

definition handleGetProcessHTTPRequest :: "string \<Rightarrow> string \<Rightarrow> failure + GetProcessMsg \<Rightarrow> handler" where
  "handleGetProcessHTTPRequest recoveredID payloadType parsed =
     withMsg ''Failed to get process, invalid JSON''
       ''Failed to get process, msg.MsgType does not match payloadType'' payloadType parsed (\<lambda>msg.
     memberOfProcess recoveredID (GetProcess_ProcessID msg) ''Failed to get process, process is nil'' (\<lambda>process.
     sendHTTPReply payloadType (Process_json process)))"

definition handleRemoveProcessHTTPRequest :: "string \<Rightarrow> string \<Rightarrow> failure + RemoveProcessMsg \<Rightarrow> handler" where
  "handleRemoveProcessHTTPRequest recoveredID payloadType parsed =
     withMsg ''Failed to remove process, invalid JSON''
       ''Failed to remove process, msg.MsgType does not match payloadType'' payloadType parsed (\<lambda>msg.
     memberOfProcess recoveredID (RemoveProcess_ProcessID msg) ''Failed to remove process, process is nil'' (\<lambda>process.
     if proc_ProcessGraphID process \<noteq> ''''
     then sendError (''Failed to remove, cannot remove a process part of a workflow, delete the entire workflow instead'')
            StatusBadRequest
     else orReply (ctl_removeProcess (RemoveProcess_ProcessID msg)) StatusBadRequest (\<lambda>_. sendEmptyHTTPReply payloadType)))"

definition handleRemoveAllProcessesHTTPRequest :: "string \<Rightarrow> string \<Rightarrow> failure + RemoveAllProcessesMsg \<Rightarrow> handler" where
  "handleRemoveAllProcessesHTTPRequest recoveredID payloadType parsed =
     withMsg ''Failed to remove all processes, invalid JSON''
       ''Failed to remove all processes, msg.MsgType does not match payloadType'' payloadType parsed (\<lambda>msg.
     orReply (RequireColonyOwner recoveredID (RemoveAllProcesses_ColonyName msg)) StatusForbidden (\<lambda>_.
     orReply (ctl_removeAllProcesses (RemoveAllProcesses_ColonyName msg) (RemoveAllProcesses_State msg)) StatusBadRequest (\<lambda>_.
     sendEmptyHTTPReply payloadType)))"

section \<open>Closing processes\<close>

definition handleSetOutputHTTPRequest :: "string \<Rightarrow> string \<Rightarrow> failure + SetOutputMsg \<Rightarrow> handler" where
  "handleSetOutputHTTPRequest recoveredID payloadType parsed =
     withMsg ''Failed to set output, invalid JSON''
       ''Failed to set output, msg.MsgType does not match payloadType'' payloadType parsed (\<lambda>msg.
     memberOfProcess recoveredID (SetOutput_ProcessID msg) ''Failed to set output, process is nil'' (\<lambda>process.
     if proc_AssignedExecutorID process \<noteq> recoveredID
     then sendError (''Failed to close process as successful, not allowed to close process as successful'') StatusForbidden
     else if proc_State process \<noteq> RUNNING then sendError ''Failed to set output, process is not running'' StatusForbidden
     else
       orReplyTwice (ctl_setOutput (proc_ID process) (SetOutput_Output msg)) StatusBadRequest StatusInternalServerError (\<lambda>_.
       sendEmptyHTTPReply payloadType)))"

definition handleCloseSuccessfulHTTPRequest :: "string \<Rightarrow> string \<Rightarrow> failure + CloseSuccessfulMsg \<Rightarrow> handler" where
  "handleCloseSuccessfulHTTPRequest recoveredID payloadType parsed =
     withMsg ''Failed to close successful, invalid JSON''
       ''Failed to close process as successful, msg.MsgType does not match payloadType'' payloadType parsed (\<lambda>msg.
     memberOfProcess recoveredID (CloseSuccessful_ProcessID msg) ''Failed to close process as successful, process is nil'' (\<lambda>process.
     if proc_AssignedExecutorID process = ''''
     then sendError ''Failed to close process as successful, process is not assigned'' StatusForbidden
     else if proc_AssignedExecutorID process \<noteq> recoveredID
     then sendError (''Failed to close process as successful, not allowed to close process as successful'') StatusForbidden
     else
       orReplyTwice (ctl_closeSuccessful (proc_ID process) recoveredID (CloseSuccessful_Output msg))
         StatusBadRequest StatusInternalServerError (\<lambda>_. sendEmptyHTTPReply payloadType)))"

definition handleCloseFailedHTTPRequest :: "string \<Rightarrow> string \<Rightarrow> failure + CloseFailedMsg \<Rightarrow> handler" where
  "handleCloseFailedHTTPRequest recoveredID payloadType parsed =
     withMsg ''Failed to close failed, invalid JSON''
       ''Failed to close process as failed, msg.MsgType does not match payloadType'' payloadType parsed (\<lambda>msg.
     memberOfProcess recoveredID (CloseFailed_ProcessID msg) ''Failed to close process as failed, process is nil'' (\<lambda>process.
     if proc_AssignedExecutorID process = ''''
     then sendError ''Failed to close process as failed, process is not assigned'' StatusForbidden
     else if proc_AssignedExecutorID process \<noteq> recoveredID
     then sendError ''Failed to close process as failed, not allowed to close process as failed'' StatusForbidden
     else
       orReplyTwice (ctl_closeFailed (proc_ID process) (CloseFailed_Errors msg)) StatusBadRequest StatusInternalServerError (\<lambda>_.
       sendEmptyHTTPReply payloadType)))"

section \<open>Pausing\<close>

definition handlePauseAssignmentsHTTPRequest :: "string \<Rightarrow> string \<Rightarrow> failure + PauseAssignmentsMsg \<Rightarrow> handler" where
  "handlePauseAssignmentsHTTPRequest recoveredID payloadType parsed =
     withMsg ''Failed to pause assignments, invalid JSON''
       ''Failed to pause assignments, msg.MsgType does not match payloadType'' payloadType parsed (\<lambda>msg.
     orReply (RequireColonyOwner recoveredID (PauseAssignments_ColonyName msg)) StatusForbidden (\<lambda>_.
     orReply (ctl_pauseColonyAssignments (PauseAssignments_ColonyName msg)) StatusInternalServerError (\<lambda>_.
     sendEmptyHTTPReply payloadType)))"

definition handleResumeAssignmentsHTTPRequest :: "string \<Rightarrow> string \<Rightarrow> failure + ResumeAssignmentsMsg \<Rightarrow> handler" where
  "handleResumeAssignmentsHTTPRequest recoveredID payloadType parsed =
     withMsg ''Failed to resume assignments, invalid JSON''
       ''Failed to resume assignments, msg.MsgType does not match payloadType'' payloadType parsed (\<lambda>msg.
     orReply (RequireColonyOwner recoveredID (ResumeAssignments_ColonyName msg)) StatusForbidden (\<lambda>_.
     orReply (ctl_resumeColonyAssignments (ResumeAssignments_ColonyName msg)) StatusInternalServerError (\<lambda>_.
     sendEmptyHTTPReply payloadType)))"

definition handleGetPauseStatusHTTPRequest :: "string \<Rightarrow> string \<Rightarrow> failure + GetPauseStatusMsg \<Rightarrow> handler" where
  "handleGetPauseStatusHTTPRequest recoveredID payloadType parsed =
     withMsg ''Failed to get pause status, invalid JSON''
       ''Failed to get pause status, msg.MsgType does not match payloadType'' payloadType parsed (\<lambda>msg.
     orReply (RequireMembership recoveredID (GetPauseStatus_ColonyName msg) False) StatusForbidden (\<lambda>_.
     orReply (AreColonyAssignmentsPaused (GetPauseStatus_ColonyName msg)) StatusInternalServerError (\<lambda>isPaused.
     sendHTTPReply ''pausestatusreplymsg'' (PauseStatus_json (GetPauseStatus_ColonyName msg) isPaused))))"

section \<open>Process graphs\<close>

definition handleSubmitWorkflowHTTPRequest :: "string \<Rightarrow> string \<Rightarrow> failure + SubmitWorkflowSpecMsg \<Rightarrow> handler" where
  "handleSubmitWorkflowHTTPRequest recoveredID payloadType parsed =
     withMsg ''Failed to submit workkflow, invalid JSON''
       ''Failed to submit workflow, msg.MsgType does not match payloadType'' payloadType parsed (\<lambda>msg.
     orNil (SubmitWorkflowSpec_WorkflowSpec msg) ''Failed to submit workflow, msg.WorkflowSpec is nil'' StatusBadRequest (\<lambda>spec.
     orReply (RequireMembership recoveredID (wf_ColonyName spec) True) StatusForbidden (\<lambda>_.
     orReply (ctl_submitWorkflowSpec spec recoveredID) StatusInternalServerError (\<lambda>processGraph.
     sendHTTPReply payloadType (ProcessGraph_json processGraph)))))"

definition memberOfGraph :: "string \<Rightarrow> string \<Rightarrow> string \<Rightarrow> (ProcessGraph \<Rightarrow> handler) \<Rightarrow> handler" where
  "memberOfGraph recoveredID processGraphID nilmsg k =
     orReply (ctl_getProcessGraphByID processGraphID) StatusBadRequest (\<lambda>found.
     orNil found nilmsg StatusInternalServerError (\<lambda>graph.
     orReply (RequireMembership recoveredID (graph_ColonyName graph) True) StatusForbidden (\<lambda>_. k graph)))"

definition handleGetProcessGraphHTTPRequest :: "string \<Rightarrow> string \<Rightarrow> failure + GetProcessGraphMsg \<Rightarrow> handler" where
  "handleGetProcessGraphHTTPRequest recoveredID payloadType parsed =
     withMsg ''Failed to get processgraph, invalid JSON''
       ''Failed to get processgraph, msg.MsgType does not match payloadType'' payloadType parsed (\<lambda>msg.
     memberOfGraph recoveredID (GetProcessGraph_ProcessGraphID msg) ''Failed to get processgraph, graph is nil'' (\<lambda>graph.
     sendHTTPReply payloadType (ProcessGraph_json graph)))"

definition handleGetProcessGraphsHTTPRequest :: "string \<Rightarrow> string \<Rightarrow> failure + GetProcessGraphsMsg \<Rightarrow> handler" where
  "handleGetProcessGraphsHTTPRequest recoveredID payloadType parsed =
     withMsg ''Failed to get processgraphs, invalid JSON''
       ''Failed to get processgraphs, msg.MsgType does not match payloadType'' payloadType parsed (\<lambda>msg.
     (let colonyName = GetProcessGraphs_ColonyName msg; cnt = GetProcessGraphs_Count msg;
          send = (\<lambda>graphs. sendHTTPReply payloadType (ProcessGraphs_json graphs)) in
      orReply (RequireMembership recoveredID colonyName True) StatusForbidden (\<lambda>_.
      if GetProcessGraphs_State msg = WAITING then orReply (ctl_findWaitingProcessGraphs colonyName cnt) StatusBadRequest send
      else if GetProcessGraphs_State msg = RUNNING then orReply (ctl_findRunningProcessGraphs colonyName cnt) StatusBadRequest send
      else if GetProcessGraphs_State msg = SUCCESS then orReply (ctl_findSuccessfulProcessGraphs colonyName cnt) StatusBadRequest send
      else if GetProcessGraphs_State msg = FAILED then orReply (ctl_findFailedProcessGraphs colonyName cnt) StatusBadRequest send
      else sendError ''invalid msg.State'' StatusBadRequest)))"

definition handleRemoveProcessGraphHTTPRequest :: "string \<Rightarrow> string \<Rightarrow> failure + RemoveProcessGraphMsg \<Rightarrow> handler" where
  "handleRemoveProcessGraphHTTPRequest recoveredID payloadType parsed =
     withMsg ''Failed to remove processgraph, invalid JSON''
       ''Failed to remove processgraph, msg.MsgType does not match payloadType'' payloadType parsed (\<lambda>msg.
     memberOfGraph recoveredID (RemoveProcessGraph_ProcessGraphID msg) ''Failed to remove processgraph, graph is nil'' (\<lambda>graph.
     orReply (ctl_removeProcessGraph (RemoveProcessGraph_ProcessGraphID msg)) StatusBadRequest (\<lambda>_.
     sendEmptyHTTPReply payloadType)))"

definition handleRemoveAllProcessGraphsHTTPRequest :: "string \<Rightarrow> string \<Rightarrow> failure + RemoveAllProcessGraphsMsg \<Rightarrow> handler" where
  "handleRemoveAllProcessGraphsHTTPRequest recoveredID payloadType parsed =
     withMsg ''Failed to remove all processgraphs, invalid JSON''
       ''Failed to remove all processgraphs, msg.MsgType does not match payloadType'' payloadType parsed (\<lambda>msg.
     orReply (RequireColonyOwner recoveredID (RemoveAllProcessGraphs_ColonyName msg)) StatusForbidden (\<lambda>_.
     orReply (ctl_removeAllProcessGraphs (RemoveAllProcessGraphs_ColonyName msg) (RemoveAllProcessGraphs_State msg))
       StatusBadRequest (\<lambda>_. sendEmptyHTTPReply payloadType)))"

definition handleAddChildHTTPRequest :: "string \<Rightarrow> string \<Rightarrow> failure + AddChildMsg \<Rightarrow> handler" where
  "handleAddChildHTTPRequest recoveredID payloadType parsed =
     withMsg ''Failed to add child to processgraph, invalid JSON''
       ''Failed to add child to processgraph, msg.MsgType does not match payloadType'' payloadType parsed (\<lambda>msg.
     orNil (AddChild_FunctionSpec msg) ''Failed to add child to processgraph, msg.FunctionSpec is nil'' StatusBadRequest (\<lambda>spec.
     orReply (RequireMembership recoveredID (cond_ColonyName (spec_Conditions spec)) True) StatusForbidden (\<lambda>_.
     bindM (NewProcess spec) (\<lambda>process.
     orReply (ctl_addChild (AddChild_ProcessGraphID msg) (AddChild_ParentProcessID msg) (AddChild_ChildProcessID msg)
                process recoveredID (AddChild_Insert msg)) StatusBadRequest (\<lambda>added.
     orNil added ''Failed to submit process spec, addedProcess is nil'' StatusInternalServerError (\<lambda>addedProcess.
     sendHTTPReply payloadType (Process_json addedProcess)))))))"

section \<open>Attributes\<close>

definition handleAddAttributeHTTPRequest :: "string \<Rightarrow> string \<Rightarrow> failure + AddAttributeMsg \<Rightarrow> handler" where
  "handleAddAttributeHTTPRequest recoveredID payloadType parsed =
     withMsg ''Failed to add attribute, invalid JSON''
       ''Failed to add attribute, msg.MsgType does not match payloadType'' payloadType parsed (\<lambda>msg.
     (let attribute = AddAttribute_Attribute msg in
      memberOfProcess recoveredID (attr_TargetID attribute) ''Failed to add attribute, process is nil'' (\<lambda>process.
      if proc_State process \<noteq> RUNNING then sendError ''Failed to add attribute, process is not running'' StatusForbidden
      else if proc_AssignedExecutorID process \<noteq> recoveredID
      then sendError (''Failed to add attribute, only executor with id <'' @ proc_AssignedExecutorID process @
             ''> is allowed to set attributes'') StatusForbidden
      else
        bindM (getM env_hash) (\<lambda>hash.
        orReply (ctl_addAttribute ((GenerateID hash attribute)\<lparr>attr_TargetProcessGraphID := proc_ProcessGraphID process\<rparr>))
          StatusBadRequest (\<lambda>addedAttribute.
        sendHTTPReply payloadType (Attribute_json addedAttribute))))))"

definition handleGetAttributeHTTPRequest :: "string \<Rightarrow> string \<Rightarrow> failure + GetAttributeMsg \<Rightarrow> handler" where
  "handleGetAttributeHTTPRequest recoveredID payloadType parsed =
     withMsg ''Failed to get attribute, invalid JSON''
       ''Failed to get attribute, msg.MsgType does not match payloadType'' payloadType parsed (\<lambda>msg.
     orReply (ctl_getAttribute (GetAttribute_AttributeID msg)) StatusBadRequest (\<lambda>attribute.
     memberOfProcess recoveredID (attr_TargetID attribute) ''Failed to get attribute, process is nil'' (\<lambda>_.
     sendHTTPReply payloadType (Attribute_json attribute))))"

section \<open>Functions\<close>

text \<open>The error of reading the functions of the executor is not looked at.\<close>

definition handleAddFunctionHTTPRequest :: "string \<Rightarrow> string \<Rightarrow> failure + AddFunctionMsg \<Rightarrow> handler" where
  "handleAddFunctionHTTPRequest recoveredID payloadType parsed =
     withMsg ''Failed to add function, invalid JSON''
       ''Failed to add function, msg.MsgType does not match payloadType'' payloadType parsed (\<lambda>msg.
     orNil (AddFunction_Function msg) ''Failed to add function, msg.Function is nil'' StatusBadRequest (\<lambda>function.
     orReply (RequireMembership recoveredID (fn_ColonyName function) True) StatusForbidden (\<lambda>_.
     orReply (GetExecutorByName (fn_ColonyName function) (fn_ExecutorName function)) StatusInternalServerError (\<lambda>found.
     orNil found (''Failed to add function, Executor with name <'' @ fn_ExecutorName function @ ''> does not exist'')
       StatusBadRequest (\<lambda>executor.
     if exec_ID executor \<noteq> recoveredID then sendError ''Not allowed to add a function to another executor'' StatusForbidden
     else
       bindM (tryM (ctl_getFunctionsByExecutorName (fn_ColonyName function) (fn_ExecutorName function))) (\<lambda>res.
       if fn_FuncName function \<in> set (map fn_FuncName (case res of Inl _ \<Rightarrow> [] | Inr functions \<Rightarrow> functions))
       then sendError ''Function already exists'' StatusForbidden
       else
         bindM GenerateRandomID (\<lambda>functionID.
         orReply (ctl_addFunction (function\<lparr>fn_ExecutorType := exec_Type executor, fn_FunctionID := functionID\<rparr>))
           StatusForbidden (\<lambda>addedFunction.
         sendHTTPReply payloadType (Function_json addedFunction)))))))))"

definition handleGetFunctionsHTTPRequest :: "string \<Rightarrow> string \<Rightarrow> failure + GetFunctionsMsg \<Rightarrow> handler" where
  "handleGetFunctionsHTTPRequest recoveredID payloadType parsed =
     withMsg ''Failed to get function, invalid JSON''
       ''Failed to get function, msg.MsgType does not match payloadType'' payloadType parsed (\<lambda>msg.
     (let colonyName = GetFunctions_ColonyName msg; executorName = GetFunctions_ExecutorName msg;
          send = (\<lambda>functions. sendHTTPReply payloadType (Functions_json functions)) in
      if executorName = '''' then
        orReply (RequireMembership recoveredID colonyName True) StatusForbidden (\<lambda>_.
        orReply (ctl_getFunctionsByColonyName colonyName) StatusForbidden send)
      else
        orReply (GetExecutorByName colonyName executorName) StatusForbidden (\<lambda>found.
        orNil found ''Executor not found'' StatusForbidden (\<lambda>targetExecutor.
        orReply (RequireMembership recoveredID (exec_ColonyName targetExecutor) True) StatusForbidden (\<lambda>_.
        orReply (ctl_getFunctionsByExecutorName colonyName executorName) StatusForbidden send)))))"

definition handleRemoveFunctionHTTPRequest :: "string \<Rightarrow> string \<Rightarrow> failure + RemoveFunctionMsg \<Rightarrow> handler" where
  "handleRemoveFunctionHTTPRequest recoveredID payloadType parsed =
     withMsg ''Failed to remove function, invalid JSON''
       ''Failed to remove function, msg.MsgType does not match payloadType'' payloadType parsed (\<lambda>msg.
     if RemoveFunction_FunctionID msg = '''' then sendError ''Failed to remove function, msg.FunctionID is empty'' StatusBadRequest
     else
       orReply (ctl_getFunctionByID (RemoveFunction_FunctionID msg)) StatusForbidden (\<lambda>function.
       orReply (GetExecutorByName (fn_ColonyName function) (fn_ExecutorName function)) StatusForbidden (\<lambda>found.
       orNil found ''Failed to remove function, Executor does not exist'' StatusBadRequest (\<lambda>executor.
       orReply (RequireMembership recoveredID (exec_ColonyName executor) True) StatusForbidden (\<lambda>_.
       if exec_ID executor \<noteq> recoveredID then sendError ''Not allowed to add a function to another executor'' StatusForbidden
       else orReply (ctl_removeFunction (RemoveFunction_FunctionID msg)) StatusForbidden (\<lambda>_. sendEmptyHTTPReply payloadType))))))"

section \<open>Logs\<close>

definition MAX_LOG_COUNT :: int where "MAX_LOG_COUNT = 500"

definition MAX_DAYS :: int where "MAX_DAYS = 30"

definition handleAddLogHTTPRequest :: "string \<Rightarrow> string \<Rightarrow> failure + AddLogMsg \<Rightarrow> handler" where
  "handleAddLogHTTPRequest recoveredID payloadType parsed =
     withMsg ''Failed to add log, invalid JSON''
       ''Failed to add log, msg.MsgType does not match payloadType'' payloadType parsed (\<lambda>msg.
     memberOfProcess recoveredID (AddLog_ProcessID msg) ''Failed to add log, process is nil'' (\<lambda>process.
     orReply (GetExecutorByID recoveredID) StatusForbidden (\<lambda>found.
     if proc_State process \<noteq> RUNNING then sendError ''Failed to set output, process is not running'' StatusForbidden
     else if proc_AssignedExecutorID process \<noteq> recoveredID
     then sendError (''Failed to add log, not allowed to add log, only the assigned Executor may att logs'') StatusForbidden
     else
       bindM (derefM found) (\<lambda>executor.
       bindM time_Now (\<lambda>now.
       orReplyTwice (AddLog (proc_ID process) (cond_ColonyName (spec_Conditions (proc_FunctionSpec process)))
                       (exec_Name executor) (wrap64 now) (AddLog_Message msg)) StatusBadRequest StatusInternalServerError (\<lambda>_.
       sendEmptyHTTPReply payloadType))))))"

text \<open>The logs of an executor are looked up by its name alone, in whatever colony they were written.\<close>

definition handleGetLogsHTTPRequest :: "string \<Rightarrow> string \<Rightarrow> failure + GetLogsMsg \<Rightarrow> handler" where
  "handleGetLogsHTTPRequest recoveredID payloadType parsed =
     withMsg ''Failed to get logs, invalid JSON''
       ''Failed to get logs, msg.MsgType does not match payloadType'' payloadType parsed (\<lambda>msg.
     (let executorName = GetLogs_ExecutorName msg; cnt = GetLogs_Count msg; since = GetLogs_Since msg;
          send = (\<lambda>logs. sendHTTPReply payloadType (Logs_json logs));
          tooMany = sendError ''Count exceeds max log count (500)'' StatusForbidden in
      if executorName \<noteq> '''' then
        orReply (GetExecutorByName (GetLogs_ColonyName msg) executorName) StatusBadRequest (\<lambda>found.
        orNil found ''Failed to get logs, executor does not exist'' StatusInternalServerError (\<lambda>executor.
        orReply (RequireMembership recoveredID (exec_ColonyName executor) True) StatusForbidden (\<lambda>_.
        if cnt > MAX_LOG_COUNT then tooMany
        else orReplyTwice (if since > 0 then GetLogsByExecutorSince executorName cnt since
                           else GetLogsByExecutor executorName cnt) StatusBadRequest StatusInternalServerError send)))
      else
        memberOfProcess recoveredID (GetLogs_ProcessID msg) ''Failed to get logs, process does not exist'' (\<lambda>_.
        if cnt > MAX_LOG_COUNT then tooMany
        else orReplyTwice (if since > 0 then GetLogsByProcessIDSince (GetLogs_ProcessID msg) cnt since
                           else GetLogsByProcessID (GetLogs_ProcessID msg) cnt) StatusBadRequest StatusInternalServerError send)))"

definition handleSearchLogsHTTPRequest :: "string \<Rightarrow> string \<Rightarrow> failure + SearchLogsMsg \<Rightarrow> handler" where
  "handleSearchLogsHTTPRequest recoveredID payloadType parsed =
     withMsg ''Failed to search logs, invalid JSON''
       ''Failed to get logs, msg.MsgType does not match payloadType'' payloadType parsed (\<lambda>msg.
     orReply (RequireMembership recoveredID (SearchLogs_ColonyName msg) True) StatusForbidden (\<lambda>_.
     if SearchLogs_Count msg > MAX_COUNT then sendError ''Count exceeds max log count (100)'' StatusBadRequest
     else if SearchLogs_Days msg > MAX_DAYS then sendError ''Count exceeds max day count (30)'' StatusBadRequest
     else
       orReply (SearchLogs (SearchLogs_ColonyName msg) (SearchLogs_Text msg) (SearchLogs_Days msg) (SearchLogs_Count msg))
         StatusBadRequest (\<lambda>logs. sendHTTPReply payloadType (Logs_json logs))))"

end
