(* ===== verification/Member_Handlers.thy ===== *)
theory Member_Handlers
  imports Process_Handlers
begin

text \<open>
  The HTTP handlers on executors, colonies, users, identities and the server: \<open>executor_handlers.go\<close>,
  \<open>colony_handlers.go\<close>, \<open>users_handlers.go\<close>, \<open>security_handlers.go\<close> and \<open>server_handlers.go\<close> of \<open>pkg/server\<close>.
\<close>

section \<open>Executors\<close>

definition handleAddExecutorHTTPRequest :: "server_config \<Rightarrow> string \<Rightarrow> string \<Rightarrow> failure + AddExecutorMsg \<Rightarrow> handler" where
  "handleAddExecutorHTTPRequest cfg recoveredID payloadType parsed =
     withMsg ''Failed to add executor, invalid JSON''
       ''Failed to add executor, msg.MsgType does not match payloadType'' payloadType parsed (\<lambda>msg.
     orNil (AddExecutor_Executor msg) ''Failed to add executor, executor is nil'' StatusBadRequest (\<lambda>executor.
     orReply (RequireColonyOwner recoveredID (exec_ColonyName executor)) StatusForbidden (\<lambda>_.
     orReply (ctl_addExecutor (Some executor) (srv_allowExecutorReregister cfg)) StatusBadRequest (\<lambda>added.
     orNil added ''Failed to add executor, addedExecutor is nil'' StatusInternalServerError (\<lambda>addedExecutor.
     sendHTTPReply payloadType (Executor_json addedExecutor))))))"

definition handleGetExecutorsHTTPRequest :: "string \<Rightarrow> string \<Rightarrow> failure + GetExecutorsMsg \<Rightarrow> handler" where
  "handleGetExecutorsHTTPRequest recoveredID payloadType parsed =
     withMsg ''Failed to get executors, invalid JSON''
       ''Failed to get executors, msg.MsgType does not match payloadType'' payloadType parsed (\<lambda>msg.
     orReply (RequireMembership recoveredID (GetExecutors_ColonyName msg) False) StatusForbidden (\<lambda>_.
     orReply (ctl_getExecutorByColonyName (GetExecutors_ColonyName msg)) StatusBadRequest (\<lambda>executors.
     sendHTTPReply payloadType (Executors_json executors))))"

definition handleGetExecutorHTTPRequest :: "string \<Rightarrow> string \<Rightarrow> failure + GetExecutorMsg \<Rightarrow> handler" where
  "handleGetExecutorHTTPRequest recoveredID payloadType parsed =
     withMsg ''Failed to get executor, invalid JSON''
       ''Failed to get executor, msg.MsgType does not match payloadType'' payloadType parsed (\<lambda>msg.
     orReply (GetExecutorByName (GetExecutor_ColonyName msg) (GetExecutor_ExecutorName msg)) StatusBadRequest (\<lambda>found.
     orNil found ''Failed to get executor, executor is nil'' StatusInternalServerError (\<lambda>executor.
     orReply (RequireMembership recoveredID (exec_ColonyName executor) True) StatusForbidden (\<lambda>_.
     sendHTTPReply payloadType (Executor_json executor)))))"

text \<open>Approving, rejecting and removing look the executor up and require the owner of its colony.\<close>

definition ownerOfExecutor :: "string \<Rightarrow> string \<Rightarrow> string \<Rightarrow> string \<Rightarrow> (Executor \<Rightarrow> handler) \<Rightarrow> handler" where
  "ownerOfExecutor recoveredID colonyName executorName nilmsg k =
     orReply (GetExecutorByName colonyName executorName) StatusBadRequest (\<lambda>found.
     orNil found nilmsg StatusInternalServerError (\<lambda>executor.
     orReply (RequireColonyOwner recoveredID (exec_ColonyName executor)) StatusForbidden (\<lambda>_. k executor)))"

definition handleApproveExecutorHTTPRequest :: "string \<Rightarrow> string \<Rightarrow> failure + ApproveExecutorMsg \<Rightarrow> handler" where
  "handleApproveExecutorHTTPRequest recoveredID payloadType parsed =
     withMsg ''Failed to approve executor, invalid JSON''
       ''Failed to approve executor, msg.MsgType does not match payloadType'' payloadType parsed (\<lambda>msg.
     ownerOfExecutor recoveredID (ApproveExecutor_ColonyName msg) (ApproveExecutor_ExecutorName msg)
       ''Failed to approve executor, executor is nil'' (\<lambda>executor.
     orReply (ApproveExecutor executor) StatusBadRequest (\<lambda>_. sendEmptyHTTPReply payloadType)))"

definition handleRejectExecutorHTTPRequest :: "string \<Rightarrow> string \<Rightarrow> failure + RejectExecutorMsg \<Rightarrow> handler" where
  "handleRejectExecutorHTTPRequest recoveredID payloadType parsed =
     withMsg ''Failed to reject executor, invalid JSON''
       ''Failed to reject executor, msg.MsgType does not match payloadType'' payloadType parsed (\<lambda>msg.
     ownerOfExecutor recoveredID (RejectExecutor_ColonyName msg) (RejectExecutor_ExecutorName msg)
       ''Failed to reject executor, executor is nil'' (\<lambda>executor.
     orReply (RejectExecutor executor) StatusBadRequest (\<lambda>_. sendEmptyHTTPReply payloadType)))"

definition handleRemoveExecutorHTTPRequest :: "string \<Rightarrow> string \<Rightarrow> failure + RemoveExecutorMsg \<Rightarrow> handler" where
  "handleRemoveExecutorHTTPRequest recoveredID payloadType parsed =
     withMsg ''Failed to remove executor, invalid JSON''
       ''Failed to remove executor, msg.MsgType does not match payloadType'' payloadType parsed (\<lambda>msg.
     ownerOfExecutor recoveredID (RemoveExecutor_ColonyName msg) (RemoveExecutor_ExecutorName msg)
       ''Failed to remove executor, executor is nil'' (\<lambda>_.
     orReply (RemoveExecutorByName (RemoveExecutor_ColonyName msg) (RemoveExecutor_ExecutorName msg)) StatusBadRequest (\<lambda>_.
     sendEmptyHTTPReply payloadType)))"

definition handleReportAllocationsHTTPRequest :: "string \<Rightarrow> string \<Rightarrow> failure + ReportAllocationsMsg \<Rightarrow> handler" where
  "handleReportAllocationsHTTPRequest recoveredID payloadType parsed =
     withMsg ''Failed to report allocation, invalid JSON''
       ''Failed to report allocation, msg.MsgType does not match payloadType'' payloadType parsed (\<lambda>msg.
     orReply (RequireMembership recoveredID (ReportAllocations_ColonyName msg) False) StatusForbidden (\<lambda>_.
     orReply (GetExecutorByName (ReportAllocations_ColonyName msg) (ReportAllocations_ExecutorName msg))
       StatusInternalServerError (\<lambda>found.
     orNil found (''Executor with name <'' @ ReportAllocations_ExecutorName msg @ ''> does not exist'') StatusBadRequest (\<lambda>executor.
     if exec_ID executor \<noteq> recoveredID then sendError ''Only an executor can report allocations to itself'' StatusBadRequest
     else
       orReply (SetAllocations (ReportAllocations_ColonyName msg) (exec_Name executor) (ReportAllocations_Allocations msg))
         StatusBadRequest (\<lambda>_. sendEmptyHTTPReply payloadType)))))"

section \<open>Colonies\<close>

definition serverOwner :: "string \<Rightarrow> handler \<Rightarrow> handler" where
  "serverOwner recoveredID k =
     orReply GetServerID StatusInternalServerError (\<lambda>serverID.
     orReply (RequireServerOwner recoveredID serverID) StatusForbidden (\<lambda>_. k))"

definition handleAddColonyHTTPRequest :: "string \<Rightarrow> string \<Rightarrow> failure + AddColonyMsg \<Rightarrow> handler" where
  "handleAddColonyHTTPRequest recoveredID payloadType parsed =
     withMsg ''Failed to add colony, invalid JSON''
       ''Failed to add colony, msg.MsgType does not match payloadType'' payloadType parsed (\<lambda>msg.
     serverOwner recoveredID
     (orNil (AddColony_Colony msg) ''Failed to add colony, colony is <nil>'' StatusBadRequest (\<lambda>colony.
      if length (colony_ID colony) \<noteq> 64 then sendError ''Failed to add colony, invalid colony Id length'' StatusBadRequest
      else
        orReply (GetColonyByName (colony_Name colony)) StatusBadRequest (\<lambda>colonyExist.
        if colonyExist \<noteq> None
        then sendError (''A Colony with name <'' @ colony_Name colony @ ''> already exists'') StatusBadRequest
        else
          orReply (ctl_addColony (Some colony)) StatusBadRequest (\<lambda>added.
          orNil added ''Failed to add colony, addedColony is <nil>'' StatusInternalServerError (\<lambda>addedColony.
          sendHTTPReply payloadType (Colony_json addedColony)))))))"

definition handleRemoveColonyHTTPRequest :: "string \<Rightarrow> string \<Rightarrow> failure + RemoveColonyMsg \<Rightarrow> handler" where
  "handleRemoveColonyHTTPRequest recoveredID payloadType parsed =
     withMsg ''Failed to remove colony, invalid JSON''
       ''Failed to remove colony, msg.MsgType does not match payloadType'' payloadType parsed (\<lambda>msg.
     serverOwner recoveredID
     (orReply (GetColonyByName (RemoveColony_ColonyName msg)) StatusBadRequest (\<lambda>found.
      orNil found (''Colony with name <'' @ RemoveColony_ColonyName msg @ ''> not found'') StatusBadRequest (\<lambda>colony.
      orReply (ctl_removeColony (colony_Name colony)) StatusBadRequest (\<lambda>_. sendEmptyHTTPReply payloadType)))))"

definition handleGetColoniesHTTPRequest :: "string \<Rightarrow> string \<Rightarrow> failure + GetColoniesMsg \<Rightarrow> handler" where
  "handleGetColoniesHTTPRequest recoveredID payloadType parsed =
     withMsg ''Failed to get colonies, invalid JSON''
       ''Failed to get colonies, msg.MsgType does not match payloadType'' payloadType parsed (\<lambda>msg.
     serverOwner recoveredID
     (orReply ctl_getColonies StatusBadRequest (\<lambda>colonies. sendHTTPReply payloadType (Colonies_json colonies))))"

definition handleGetColonyHTTPRequest :: "string \<Rightarrow> string \<Rightarrow> failure + GetColonyMsg \<Rightarrow> handler" where
  "handleGetColonyHTTPRequest recoveredID payloadType parsed =
     withMsg ''Failed to get colony, invalid JSON''
       ''Failed to get colony, msg.MsgType does not match payloadType'' payloadType parsed (\<lambda>msg.
     orReply (RequireMembership recoveredID (GetColony_ColonyName msg) True) StatusForbidden (\<lambda>_.
     orReply (ctl_getColony (GetColony_ColonyName msg)) StatusBadRequest (\<lambda>found.
     orNil found ''Failed to get colony, colony is nil'' StatusInternalServerError (\<lambda>colony.
     sendHTTPReply payloadType (Colony_json colony)))))"

text \<open>As in \<open>handleGetProcessHist\<close>, the membership error returns without any reply.\<close>

definition handleColonyStatisticsHTTPRequest :: "string \<Rightarrow> string \<Rightarrow> failure + GetColonyStatisticsMsg \<Rightarrow> handler" where
  "handleColonyStatisticsHTTPRequest recoveredID payloadType parsed =
     withMsg ''Failed to get colony statistics, invalid JSON''
       ''Failed to get colony statistics, msg.MsgType does not match payloadType'' payloadType parsed (\<lambda>msg.
     orReply (GetColonyByName (GetColonyStatistics_ColonyName msg)) StatusBadRequest (\<lambda>found.
     orNil found (''Colony with name <'' @ GetColonyStatistics_ColonyName msg @ ''> not found'') StatusBadRequest (\<lambda>colony.
     bindM (tryM (RequireMembership recoveredID (colony_Name colony) True)) (\<lambda>res.
     (case res of
        Inl _ \<Rightarrow> retM []
      | Inr _ \<Rightarrow>
          orReply (ctl_getColonyStatistics (colony_Name colony)) StatusInternalServerError (\<lambda>stat.
          sendHTTPReply payloadType (Statistics_json stat)))))))"

section \<open>Users\<close>

text \<open>An error of the lookup of the colony is replaced by a text of its own.\<close>

definition withColony :: "string \<Rightarrow> (Colony \<Rightarrow> handler) \<Rightarrow> handler" where
  "withColony colonyName k =
     bindM (tryM (GetColonyByName colonyName)) (\<lambda>res.
     (case res of
        Inl _ \<Rightarrow> sendError ''Failed to resolve colony name'' StatusBadRequest
      | Inr found \<Rightarrow> orNil found (''Colony with name <'' @ colonyName @ ''> does not exists'') StatusBadRequest k))"

text \<open>
  The check that the id of the user is free asks for the user \<open>msg.User.Name\<close> of the colony
  \<open>msg.User.ID\<close>: the arguments of \<open>GetUserByID\<close> are the wrong ones.
\<close>

definition handleAddUserHTTPRequest :: "string \<Rightarrow> string \<Rightarrow> failure + AddUserMsg \<Rightarrow> handler" where
  "handleAddUserHTTPRequest recoveredID payloadType parsed =
     withMsg ''Failed to add user, invalid JSON''
       ''Failed to add user, msg.MsgType does not match payloadType'' payloadType parsed (\<lambda>msg.
     orNil (AddUser_User msg) ''Failed to add user, executor is nil'' StatusBadRequest (\<lambda>user.
     withColony (user_ColonyName user) (\<lambda>colony.
     orReply (RequireColonyOwner recoveredID (colony_Name colony)) StatusForbidden (\<lambda>_.
     orReply (GetUserByName (user_ColonyName user) (user_Name user)) StatusBadRequest (\<lambda>userExist.
     if userExist \<noteq> None
     then sendError (''A user with name <'' @ user_Name user @ ''> already exists in Colony with name <'' @
            user_ColonyName user @ ''>'') StatusBadRequest
     else
       orReply (GetUserByID (user_ID user) (user_Name user)) StatusBadRequest (\<lambda>userExist.
       if userExist \<noteq> None
       then sendError (''A user with Id <'' @ user_ID user @ ''> already exists in Colony with name <'' @
              user_ColonyName user @ ''>'') StatusBadRequest
       else
         orReply (AddUser (Some user)) StatusBadRequest (\<lambda>_.
         bindM (tryM (GetUserByName (colony_Name colony) (user_Name user))) (\<lambda>res.
         orNil (case res of Inl _ \<Rightarrow> None | Inr u \<Rightarrow> u) ''Failed to add user, addedUser is nil''
           StatusInternalServerError (\<lambda>addedUser.
         sendHTTPReply payloadType (User_json (Some addedUser)))))))))))"

definition handleGetUsersHTTPRequest :: "string \<Rightarrow> string \<Rightarrow> failure + GetUsersMsg \<Rightarrow> handler" where
  "handleGetUsersHTTPRequest recoveredID payloadType parsed =
     withMsg ''Failed to get users, invalid JSON''
       ''Failed to get users, msg.MsgType does not match payloadType'' payloadType parsed (\<lambda>msg.
     withColony (GetUsers_ColonyName msg) (\<lambda>colony.
     orReply (RequireMembership recoveredID (GetUsers_ColonyName msg) False) StatusForbidden (\<lambda>_.
     orReply (GetUsersByColonyName (colony_Name colony)) StatusBadRequest (\<lambda>users.
     sendHTTPReply payloadType (Users_json users)))))"

text \<open>A user that is not found is encoded as null.\<close>

definition handleGetUserHTTPRequest :: "string \<Rightarrow> string \<Rightarrow> failure + GetUserMsg \<Rightarrow> handler" where
  "handleGetUserHTTPRequest recoveredID payloadType parsed =
     withMsg ''Failed to get user, invalid JSON''
       ''Failed to get user, msg.MsgType does not match payloadType'' payloadType parsed (\<lambda>msg.
     withColony (GetUser_ColonyName msg) (\<lambda>colony.
     orReply (RequireMembership recoveredID (colony_Name colony) False) StatusForbidden (\<lambda>_.
     orReply (GetUserByName (GetUser_ColonyName msg) (GetUser_Name msg)) StatusBadRequest (\<lambda>user.
     sendHTTPReply payloadType (User_json user)))))"

definition handleRemoveUserHTTPRequest :: "string \<Rightarrow> string \<Rightarrow> failure + RemoveUserMsg \<Rightarrow> handler" where
  "handleRemoveUserHTTPRequest recoveredID payloadType parsed =
     withMsg ''Failed to remove user, invalid JSON''
       ''Failed to remove user, msg.MsgType does not match payloadType'' payloadType parsed (\<lambda>msg.
     withColony (RemoveUser_ColonyName msg) (\<lambda>colony.
     orReply (RequireColonyOwner recoveredID (colony_Name colony)) StatusForbidden (\<lambda>_.
     orReply (RemoveUserByName (colony_Name colony) (RemoveUser_Name msg)) StatusBadRequest (\<lambda>_.
     sendEmptyHTTPReply payloadType))))"

section \<open>Identities\<close>

text \<open>These four handlers answer with the text of the request, \<open>jsonString\<close>.\<close>

definition handleChangeUserIDHTTPRequest :: "string \<Rightarrow> string \<Rightarrow> string \<Rightarrow> failure + ChangeUserIDMsg \<Rightarrow> handler" where
  "handleChangeUserIDHTTPRequest recoveredID payloadType jsonString parsed =
     withMsg ''Failed to change user Id, invalid JSON''
       ''Failed to change user Id, msg.MsgType does not match payloadType'' payloadType parsed (\<lambda>msg.
     if ChangeUserID_UserID msg = '''' then sendError ''Failed to change user Id, user Id is empty'' StatusBadRequest
     else
       orReply (RequireMembership recoveredID (ChangeUserID_ColonyName msg) False) StatusForbidden (\<lambda>_.
       orReply (GetUserByID (ChangeUserID_ColonyName msg) recoveredID) StatusBadRequest (\<lambda>found.
       orNil found ''Failed to change user Id, user not found'' StatusBadRequest (\<lambda>user.
       if length (ChangeUserID_UserID msg) \<noteq> 64
       then sendError ''Failed to change user Id, new user Id is not 64 characters'' StatusBadRequest
       else
         orReply (ChangeUserID (ChangeUserID_ColonyName msg) (user_ID user) (ChangeUserID_UserID msg)) StatusForbidden (\<lambda>_.
         sendHTTPReply payloadType (Echo_json jsonString))))))"

definition handleChangeExecutorIDHTTPRequest :: "string \<Rightarrow> string \<Rightarrow> string \<Rightarrow> failure + ChangeExecutorIDMsg \<Rightarrow> handler" where
  "handleChangeExecutorIDHTTPRequest recoveredID payloadType jsonString parsed =
     withMsg ''Failed to change executor Id, invalid JSON''
       ''Failed to change executor Id, msg.MsgType does not match payloadType'' payloadType parsed (\<lambda>msg.
     if ChangeExecutorID_ExecutorID msg = '''' then sendError ''Failed to change executor Id, executor Id is empty'' StatusBadRequest
     else
       orReply (RequireMembership recoveredID (ChangeExecutorID_ColonyName msg) False) StatusForbidden (\<lambda>_.
       orReply (GetExecutorByID recoveredID) StatusBadRequest (\<lambda>found.
       orNil found ''Failed to change executor Id, executor not found'' StatusBadRequest (\<lambda>executor.
       if length (ChangeExecutorID_ExecutorID msg) \<noteq> 64
       then sendError ''Failed to change executor Id, new executor Id is not 64 characters'' StatusBadRequest
       else
         orReply (ChangeExecutorID (ChangeExecutorID_ColonyName msg) (exec_ID executor) (ChangeExecutorID_ExecutorID msg))
           StatusForbidden (\<lambda>_. sendHTTPReply payloadType (Echo_json jsonString))))))"

definition handleChangeColonyIDHTTPRequest :: "string \<Rightarrow> string \<Rightarrow> string \<Rightarrow> failure + ChangeColonyIDMsg \<Rightarrow> handler" where
  "handleChangeColonyIDHTTPRequest recoveredID payloadType jsonString parsed =
     withMsg ''Failed to change colony Id, invalid JSON''
       ''Failed to change colony Id, msg.MsgType does not match payloadType'' payloadType parsed (\<lambda>msg.
     if ChangeColonyID_ColonyID msg = '''' then sendError ''Failed to change colony Id, colony Id is empty'' StatusBadRequest
     else
       orReply (RequireColonyOwner recoveredID (ChangeColonyID_ColonyName msg)) StatusForbidden (\<lambda>_.
       orReply (GetColonyByName (ChangeColonyID_ColonyName msg)) StatusBadRequest (\<lambda>found.
       if length (ChangeColonyID_ColonyID msg) \<noteq> 64
       then sendError ''Failed to change colony Id, new colony Id is not 64 characters'' StatusBadRequest
       else
         bindM (derefM found) (\<lambda>colony.
         orReply (ChangeColonyID (ChangeColonyID_ColonyName msg) (colony_ID colony) (ChangeColonyID_ColonyID msg))
           StatusForbidden (\<lambda>_. sendHTTPReply payloadType (Echo_json jsonString))))))"

definition handleChangeServerIDHTTPRequest :: "string \<Rightarrow> string \<Rightarrow> string \<Rightarrow> failure + ChangeServerIDMsg \<Rightarrow> handler" where
  "handleChangeServerIDHTTPRequest recoveredID payloadType jsonString parsed =
     withMsg ''Failed to change colony Id, invalid JSON''
       ''Failed to change colony Id, msg.MsgType does not match payloadType'' payloadType parsed (\<lambda>msg.
     if ChangeServerID_ServerID msg = '''' then sendError ''Failed to change colony Id, colony Id is empty'' StatusBadRequest
     else
       orReply GetServerID StatusInternalServerError (\<lambda>serverID.
       orReply (RequireServerOwner recoveredID serverID) StatusForbidden (\<lambda>_.
       orReply (SetServerID serverID (ChangeServerID_ServerID msg)) StatusForbidden (\<lambda>_.
       sendHTTPReply payloadType (Echo_json jsonString)))))"

section \<open>The server\<close>

definition handleVersionHTTPRequest :: "string \<Rightarrow> string \<Rightarrow> string \<Rightarrow> failure + rpc_msg \<Rightarrow> handler" where
  "handleVersionHTTPRequest buildVersion buildTime payloadType parsed =
     withMsg ''Failed to get server version, invalid JSON''
       ''Failed to get server version, msg.MsgType does not match payloadType'' payloadType parsed (\<lambda>_.
     sendHTTPReply payloadType (Version_json buildVersion buildTime))"

definition handleStatisticsHTTPRequest :: "string \<Rightarrow> string \<Rightarrow> failure + GetStatisticsMsg \<Rightarrow> handler" where
  "handleStatisticsHTTPRequest recoveredID payloadType parsed =
     withMsg ''Failed to get statistics, invalid JSON''
       ''Failed to get server version, msg.MsgType does not match payloadType'' payloadType parsed (\<lambda>_.
     serverOwner recoveredID
     (orReply ctl_getStatistics StatusInternalServerError (\<lambda>stat. sendHTTPReply payloadType (Statistics_json stat))))"

text \<open>The configuration of the etcd cluster is the argument \<open>cluster\<close>.\<close>

definition handleGetClusterHTTPRequest :: "string \<Rightarrow> string \<Rightarrow> string \<Rightarrow> failure + GetClusterMsg \<Rightarrow> handler" where
  "handleGetClusterHTTPRequest cluster recoveredID payloadType parsed =
     withMsg ''Failed to get cluster info, invalid JSON''
       ''Failed to get cluster info, msg.MsgType does not match payloadType'' payloadType parsed (\<lambda>_.
     serverOwner recoveredID (sendHTTPReply payloadType (Cluster_json cluster)))"

end
