(* ===== verification/Data_Handlers.thy ===== *)
theory Data_Handlers
  imports Process_Handlers
begin

text \<open>
  The HTTP handlers on generators, crons, files and snapshots: \<open>generator_handlers.go\<close>,
  \<open>cron_handler.go\<close>, \<open>files_handlers.go\<close> and \<open>snapshot_handler.go\<close> of \<open>pkg/server\<close>.
\<close>

section \<open>Generators\<close>

definition handleAddGeneratorHTTPRequest :: "workflow_decoder \<Rightarrow> string \<Rightarrow> string \<Rightarrow> failure + AddGeneratorMsg \<Rightarrow> handler" where
  "handleAddGeneratorHTTPRequest parse recoveredID payloadType parsed =
     withMsg ''Failed to add generator, invalid JSON''
       ''Failed to add generator, msg.MsgType does not match payloadType'' payloadType parsed (\<lambda>msg.
     orNil (AddGenerator_Generator msg) ''Failed to add generator, msg.Generator is nil'' StatusBadRequest (\<lambda>generator.
     orReply (RequireMembership recoveredID (gen_ColonyName generator) True) StatusForbidden (\<lambda>_.
     orReply (liftE (parse (gen_WorkflowSpec generator))) StatusBadRequest (\<lambda>workflowSpec.
     orReply (liftE (VerifyWorkflowSpec workflowSpec)) StatusBadRequest (\<lambda>_.
     bindM GenerateRandomID (\<lambda>generatorID.
     orReply (resolveInitiator (gen_ColonyName generator) recoveredID) StatusInternalServerError (\<lambda>initiatorName.
     orReply (ctl_addGenerator (generator\<lparr>gen_ID := generatorID, gen_InitiatorID := recoveredID, gen_InitiatorName := initiatorName\<rparr>))
       StatusBadRequest (\<lambda>added.
     orNil added ''Failed to add generator, addedGenerator is nil'' StatusInternalServerError (\<lambda>addedGenerator.
     sendHTTPReply payloadType (Generator_json addedGenerator))))))))))"

text \<open>
  The other handlers look the generator up, and require membership of its colony.
\<close>

definition memberOfGenerator :: "string \<Rightarrow> Generator option ctl \<Rightarrow> string \<Rightarrow> (Generator \<Rightarrow> handler) \<Rightarrow> handler" where
  "memberOfGenerator recoveredID lookup nilmsg k =
     orReply lookup StatusBadRequest (\<lambda>found.
     orNil found nilmsg StatusInternalServerError (\<lambda>generator.
     orReply (RequireMembership recoveredID (gen_ColonyName generator) True) StatusForbidden (\<lambda>_. k generator)))"

definition handleGetGeneratorHTTPRequest :: "server_config \<Rightarrow> string \<Rightarrow> string \<Rightarrow> failure + GetGeneratorMsg \<Rightarrow> handler" where
  "handleGetGeneratorHTTPRequest cfg recoveredID payloadType parsed =
     withMsg ''Failed to get generator, invalid JSON''
       ''Failed to get generator, msg.MsgType does not match payloadType'' payloadType parsed (\<lambda>msg.
     memberOfGenerator recoveredID (ctl_getGenerator (GetGenerator_GeneratorID msg))
       ''Failed to get generator, generator is nil'' (\<lambda>generator.
     orReply (CountGeneratorArgs (gen_ID generator)) StatusInternalServerError (\<lambda>queueSize.
     sendHTTPReply payloadType
       (Generator_json (generator\<lparr>gen_CheckerPeriod := srv_generatorPeriod cfg, gen_QueueSize := queueSize\<rparr>)))))"

definition handleResolveGeneratorHTTPRequest :: "string \<Rightarrow> string \<Rightarrow> failure + ResolveGeneratorMsg \<Rightarrow> handler" where
  "handleResolveGeneratorHTTPRequest recoveredID payloadType parsed =
     withMsg ''Failed to resolve generator, invalid JSON''
       ''Failed to resolve generator, msg.MsgType does not match payloadType'' payloadType parsed (\<lambda>msg.
     memberOfGenerator recoveredID (ctl_resolveGenerator (ResolveGenerator_ColonyName msg) (ResolveGenerator_GeneratorName msg))
       ''Failed to resolve generator, generator is nil'' (\<lambda>generator.
     sendHTTPReply payloadType (Generator_json generator)))"

definition handleGetGeneratorsHTTPRequest :: "string \<Rightarrow> string \<Rightarrow> failure + GetGeneratorsMsg \<Rightarrow> handler" where
  "handleGetGeneratorsHTTPRequest recoveredID payloadType parsed =
     withMsg ''Failed to get generators, invalid JSON''
       ''Failed to get generators, msg.MsgType does not match payloadType'' payloadType parsed (\<lambda>msg.
     orReply (RequireMembership recoveredID (GetGenerators_ColonyName msg) True) StatusForbidden (\<lambda>_.
     orReply (ctl_getGenerators (GetGenerators_ColonyName msg) (GetGenerators_Count msg)) StatusBadRequest (\<lambda>generators.
     sendHTTPReply payloadType (Generators_json generators))))"

definition handlePackGeneratorHTTPRequest :: "string \<Rightarrow> string \<Rightarrow> failure + PackGeneratorMsg \<Rightarrow> handler" where
  "handlePackGeneratorHTTPRequest recoveredID payloadType parsed =
     withMsg ''Failed to inc generator, invalid JSON''
       ''Failed to increment generator, msg.MsgType does not match payloadType'' payloadType parsed (\<lambda>msg.
     memberOfGenerator recoveredID (ctl_getGenerator (PackGenerator_GeneratorID msg))
       ''Failed to increment generator, generator is nil'' (\<lambda>generator.
     orReply (ctl_packGenerator (gen_ID generator) (gen_ColonyName generator) (PackGenerator_Arg msg)) StatusInternalServerError (\<lambda>_.
     sendEmptyHTTPReply payloadType)))"

definition handleRemoveGeneratorHTTPRequest :: "string \<Rightarrow> string \<Rightarrow> failure + RemoveGeneratorMsg \<Rightarrow> handler" where
  "handleRemoveGeneratorHTTPRequest recoveredID payloadType parsed =
     withMsg ''Failed to remove generator, invalid JSON''
       ''Failed to remove generator, msg.MsgType does not match payloadType'' payloadType parsed (\<lambda>msg.
     memberOfGenerator recoveredID (ctl_getGenerator (RemoveGenerator_GeneratorID msg))
       ''Failed to remove generator, generator is nil'' (\<lambda>generator.
     orReply (ctl_removeGenerator (gen_ID generator)) StatusInternalServerError (\<lambda>_. sendEmptyHTTPReply payloadType)))"

section \<open>Crons\<close>

definition handleAddCronHTTPRequest ::
  "workflow_decoder \<Rightarrow> cron_env \<Rightarrow> string \<Rightarrow> string \<Rightarrow> failure + AddCronMsg \<Rightarrow> handler" where
  "handleAddCronHTTPRequest parse next recoveredID payloadType parsed =
     withMsg ''Failed to add cron, invalid JSON''
       ''Failed to add cron, msg.MsgType does not match payloadType'' payloadType parsed (\<lambda>msg.
     orNil (AddCron_Cron msg) ''Failed to add cron, msg.Cron is nil'' StatusBadRequest (\<lambda>cron.
     orReply (RequireMembership recoveredID (cron_ColonyName cron) True) StatusForbidden (\<lambda>_.
     orReply (liftE (parse (cron_WorkflowSpec cron))) StatusBadRequest (\<lambda>workflowSpec.
     orReply (liftE (VerifyWorkflowSpec workflowSpec)) StatusBadRequest (\<lambda>_.
     if cron_Interval cron = 0
     then sendError ''Cron interval must be -1 (disabled) or larger than 0'' StatusBadRequest
     else
       orReply (if cron_Interval cron = - 1
                then bindM time_Now (\<lambda>now. thenM (liftE (cron_Next next (cron_CronExpression cron) now)) (retM ()))
                else retM ()) StatusBadRequest (\<lambda>_.
       if cron_Interval cron = - 1 \<and> cron_Random cron
       then sendError ''Random cron is only supported when specifying intervals'' StatusBadRequest
       else
         bindM GenerateRandomID (\<lambda>cronID.
         orReply (resolveInitiator (wf_ColonyName workflowSpec) recoveredID) StatusInternalServerError (\<lambda>initiatorName.
         orReply (ctl_addCron (cron\<lparr>cron_ID := cronID, cron_InitiatorID := recoveredID, cron_InitiatorName := initiatorName\<rparr>))
           StatusBadRequest (\<lambda>added.
         orNil added ''Failed to add cron, addedCron is nil'' StatusInternalServerError (\<lambda>addedCron.
         sendHTTPReply payloadType (Cron_json addedCron)))))))))))"

definition memberOfCron :: "string \<Rightarrow> Cron option ctl \<Rightarrow> string \<Rightarrow> (Cron \<Rightarrow> handler) \<Rightarrow> handler" where
  "memberOfCron recoveredID lookup nilmsg k =
     orReply lookup StatusBadRequest (\<lambda>found.
     orNil found nilmsg StatusInternalServerError (\<lambda>cron.
     orReply (RequireMembership recoveredID (cron_ColonyName cron) True) StatusForbidden (\<lambda>_. k cron)))"

definition handleGetCronHTTPRequest :: "server_config \<Rightarrow> string \<Rightarrow> string \<Rightarrow> failure + GetCronMsg \<Rightarrow> handler" where
  "handleGetCronHTTPRequest cfg recoveredID payloadType parsed =
     withMsg ''Failed to get cron, invalid JSON''
       ''Failed to get cron, msg.MsgType does not match payloadType'' payloadType parsed (\<lambda>msg.
     memberOfCron recoveredID (ctl_getCron (GetCron_CronID msg)) ''Failed to get cron, cron is nil'' (\<lambda>cron.
     sendHTTPReply payloadType (Cron_json (cron\<lparr>cron_CheckerPeriod := srv_cronPeriod cfg\<rparr>))))"

text \<open>\<open>FindCronsByColonyName\<close> starts from a nil slice: without any cron the list is nil.\<close>

definition handleGetCronsHTTPRequest :: "string \<Rightarrow> string \<Rightarrow> failure + GetCronsMsg \<Rightarrow> handler" where
  "handleGetCronsHTTPRequest recoveredID payloadType parsed =
     withMsg ''Failed to get crons, invalid JSON''
       ''Failed to get crons, msg.MsgType does not match payloadType'' payloadType parsed (\<lambda>msg.
     orReply (RequireMembership recoveredID (GetCrons_ColonyName msg) True) StatusForbidden (\<lambda>_.
     orReply (ctl_getCrons (GetCrons_ColonyName msg) (GetCrons_Count msg)) StatusBadRequest (\<lambda>crons.
     if crons = [] then sendError ''Failed to get crons, crons is nil'' StatusInternalServerError
     else sendHTTPReply payloadType (Crons_json crons))))"

text \<open>The cron is run first; membership is required afterwards, for the reply.\<close>

definition handleRunCronHTTPRequest ::
  "workflow_decoder \<Rightarrow> cron_env \<Rightarrow> string \<Rightarrow> string \<Rightarrow> failure + RunCronMsg \<Rightarrow> handler" where
  "handleRunCronHTTPRequest parse next recoveredID payloadType parsed =
     withMsg ''Failed to run cron, invalid JSON''
       ''Failed to run cron, msg.MsgType does not match payloadType'' payloadType parsed (\<lambda>msg.
     memberOfCron recoveredID (ctl_runCron parse next (RunCron_CronID msg)) ''Failed to run cron, cron is nil'' (\<lambda>cron.
     sendHTTPReply payloadType (Cron_json cron)))"

definition handleRemoveCronHTTPRequest :: "string \<Rightarrow> string \<Rightarrow> failure + RemoveCronMsg \<Rightarrow> handler" where
  "handleRemoveCronHTTPRequest recoveredID payloadType parsed =
     withMsg ''Failed to remove cron, invalid JSON''
       ''Failed to remove cron, msg.MsgType does not match payloadType'' payloadType parsed (\<lambda>msg.
     memberOfCron recoveredID (ctl_getCron (RemoveCron_CronID msg)) ''Failed to remove cron, cron is nil'' (\<lambda>cron.
     orReply (ctl_removeCron (cron_ID cron)) StatusInternalServerError (\<lambda>_. sendEmptyHTTPReply payloadType)))"

section \<open>Files\<close>

text \<open>The error of \<open>AddFile\<close> is dropped; the file that is not found then is encoded as null.\<close>

definition handleAddFileHTTPRequest :: "string \<Rightarrow> string \<Rightarrow> failure + AddFileMsg \<Rightarrow> handler" where
  "handleAddFileHTTPRequest recoveredID payloadType parsed =
     withMsg ''Failed to add log, invalid JSON''
       ''Failed to add file, msg.MsgType does not match payloadType'' payloadType parsed (\<lambda>msg.
     orNil (AddFile_File msg) ''Failed to add file, msg.File is nil'' StatusBadRequest (\<lambda>file.
     orReply (RequireMembership recoveredID (file_ColonyName file) True) StatusForbidden (\<lambda>_.
     bindM GenerateRandomID (\<lambda>fileID.
     thenM (ignoreM (AddFile (file\<lparr>file_ID := fileID\<rparr>)))
     (orReply (GetFileByID (file_ColonyName file) fileID) StatusInternalServerError (\<lambda>addedFile.
      sendHTTPReply payloadType (File_json addedFile)))))))"

text \<open>
  When a file is not there by its id, \<open>err\<close> is nil at the second \<open>handleHTTPError\<close>, which then writes
  nothing.
\<close>

definition handleGetFileHTTPRequest :: "string \<Rightarrow> string \<Rightarrow> failure + GetFileMsg \<Rightarrow> handler" where
  "handleGetFileHTTPRequest recoveredID payloadType parsed =
     withMsg ''Failed to add log, invalid JSON''
       ''Failed to get file, msg.MsgType does not match payloadType'' payloadType parsed (\<lambda>msg.
     (let colonyName = GetFile_ColonyName msg;
          send = (\<lambda>files. if files = [] then sendError ''Failed to get file'' StatusNotFound
                   else if \<exists>file \<in> set files. colonyName \<noteq> file_ColonyName file
                   then sendError ''msg.ColonyName missmatches file.ColonyName'' StatusForbidden
                   else sendHTTPReply payloadType (Files_json files)) in
      orReply (RequireMembership recoveredID colonyName True) StatusForbidden (\<lambda>_.
      if GetFile_FileID msg \<noteq> '''' then
        orReplyTwice (GetFileByID colonyName (GetFile_FileID msg)) StatusBadRequest StatusInternalServerError (\<lambda>found.
        orNil found ''Failed to get file'' StatusBadRequest (\<lambda>file. send [file]))
      else if GetFile_Label msg \<noteq> '''' \<and> GetFile_Name msg \<noteq> '''' then
        (if GetFile_Latest msg
         then orReplyTwice (GetLatestFileByName colonyName (GetFile_Label msg) (GetFile_Name msg))
                StatusBadRequest StatusInternalServerError send
         else orReplyTwice (GetFileByName colonyName (GetFile_Label msg) (GetFile_Name msg))
                StatusBadRequest StatusInternalServerError send)
      else sendError ''malformatted get file msg'' StatusInternalServerError)))"

definition handleGetFilesHTTPRequest :: "string \<Rightarrow> string \<Rightarrow> failure + GetFilesMsg \<Rightarrow> handler" where
  "handleGetFilesHTTPRequest recoveredID payloadType parsed =
     withMsg ''Failed to get files, invalid JSON''
       ''Failed to get files, msg.MsgType does not match payloadType'' payloadType parsed (\<lambda>msg.
     orReply (RequireMembership recoveredID (GetFiles_ColonyName msg) True) StatusForbidden (\<lambda>_.
     orReply (GetFileDataByLabel (GetFiles_ColonyName msg) (GetFiles_Label msg)) StatusBadRequest (\<lambda>fileDataArr.
     sendHTTPReply payloadType (FileData_json fileDataArr))))"

definition handleGetFileLabelsHTTPRequest :: "string \<Rightarrow> string \<Rightarrow> failure + GetFileLabelsMsg \<Rightarrow> handler" where
  "handleGetFileLabelsHTTPRequest recoveredID payloadType parsed =
     withMsg ''Failed to get files, invalid JSON''
       ''Failed to get files, msg.MsgType does not match payloadType'' payloadType parsed (\<lambda>msg.
     orReply (RequireMembership recoveredID (GetFileLabels_ColonyName msg) True) StatusForbidden (\<lambda>_.
     orReply (if GetFileLabels_Name msg = '''' then GetFileLabels (GetFileLabels_ColonyName msg)
              else GetFileLabelsByName (GetFileLabels_ColonyName msg) (GetFileLabels_Name msg) (GetFileLabels_Exact msg))
       StatusBadRequest (\<lambda>labels. sendHTTPReply payloadType (Labels_json labels))))"

definition handleRemoveFileHTTPRequest :: "string \<Rightarrow> string \<Rightarrow> failure + RemoveFileMsg \<Rightarrow> handler" where
  "handleRemoveFileHTTPRequest recoveredID payloadType parsed =
     withMsg ''Failed to remove file, invalid JSON''
       ''Failed to remove file, msg.MsgType does not match payloadType'' payloadType parsed (\<lambda>msg.
     orReply (RequireMembership recoveredID (RemoveFile_ColonyName msg) True) StatusForbidden (\<lambda>_.
     if RemoveFile_FileID msg \<noteq> '''' then
       orReply (RemoveFileByID (RemoveFile_ColonyName msg) (RemoveFile_FileID msg)) StatusBadRequest (\<lambda>_.
       sendEmptyHTTPReply payloadType)
     else if RemoveFile_Label msg \<noteq> '''' \<and> RemoveFile_Name msg \<noteq> '''' then
       orReply (RemoveFileByName (RemoveFile_ColonyName msg) (RemoveFile_Label msg) (RemoveFile_Name msg)) StatusBadRequest (\<lambda>_.
       sendEmptyHTTPReply payloadType)
     else sendError ''malformated remove file msg'' StatusBadRequest))"

section \<open>Snapshots\<close>

definition handleCreateSnapshotHTTPRequest :: "string \<Rightarrow> string \<Rightarrow> failure + CreateSnapshotMsg \<Rightarrow> handler" where
  "handleCreateSnapshotHTTPRequest recoveredID payloadType parsed =
     withMsg ''Failed to create snapshot, invalid JSON''
       ''Failed to create snapshot, msg.MsgType does not match payloadType'' payloadType parsed (\<lambda>msg.
     orReply (RequireMembership recoveredID (CreateSnapshot_ColonyName msg) True) StatusForbidden (\<lambda>_.
     orReply (CreateSnapshot (CreateSnapshot_ColonyName msg) (CreateSnapshot_Label msg) (CreateSnapshot_Name msg))
       StatusInternalServerError (\<lambda>snapshot. sendHTTPReply payloadType (Snapshot_json snapshot))))"

definition handleGetSnapshotHTTPRequest :: "string \<Rightarrow> string \<Rightarrow> failure + GetSnapshotMsg \<Rightarrow> handler" where
  "handleGetSnapshotHTTPRequest recoveredID payloadType parsed =
     withMsg ''Failed to get snapshot, invalid JSON''
       ''Failed to get snapshot, msg.MsgType does not match payloadType'' payloadType parsed (\<lambda>msg.
     orReply (RequireMembership recoveredID (GetSnapshot_ColonyName msg) True) StatusForbidden (\<lambda>_.
     if GetSnapshot_SnapshotID msg \<noteq> '''' then
       orReply (GetSnapshotByID (GetSnapshot_ColonyName msg) (GetSnapshot_SnapshotID msg)) StatusInternalServerError (\<lambda>snapshot.
       sendHTTPReply payloadType (Snapshot_json snapshot))
     else if GetSnapshot_Name msg \<noteq> '''' then
       orReply (GetSnapshotByName (GetSnapshot_ColonyName msg) (GetSnapshot_Name msg)) StatusInternalServerError (\<lambda>snapshot.
       sendHTTPReply payloadType (Snapshot_json snapshot))
     else sendError ''Failed to get snapshot, malformatted msg'' StatusInternalServerError))"

definition handleGetSnapshotsHTTPRequest :: "string \<Rightarrow> string \<Rightarrow> failure + GetSnapshotsMsg \<Rightarrow> handler" where
  "handleGetSnapshotsHTTPRequest recoveredID payloadType parsed =
     withMsg ''Failed to get snapshots, invalid JSON''
       ''Failed to get snapshots, msg.MsgType does not match payloadType'' payloadType parsed (\<lambda>msg.
     orReply (RequireMembership recoveredID (GetSnapshots_ColonyName msg) True) StatusForbidden (\<lambda>_.
     orReply (GetSnapshotsByColonyName (GetSnapshots_ColonyName msg)) StatusInternalServerError (\<lambda>snapshots.
     sendHTTPReply payloadType (Snapshots_json snapshots))))"

definition handleRemoveSnapshotHTTPRequest :: "string \<Rightarrow> string \<Rightarrow> failure + RemoveSnapshotMsg \<Rightarrow> handler" where
  "handleRemoveSnapshotHTTPRequest recoveredID payloadType parsed =
     withMsg ''Failed to remove snapshot, invalid JSON''
       ''Failed to remove snapshot, msg.MsgType does not match payloadType'' payloadType parsed (\<lambda>msg.
     orReply (RequireMembership recoveredID (RemoveSnapshot_ColonyName msg) True) StatusForbidden (\<lambda>_.
     if RemoveSnapshot_SnapshotID msg \<noteq> '''' then
       orReply (RemoveSnapshotByID (RemoveSnapshot_ColonyName msg) (RemoveSnapshot_SnapshotID msg)) StatusInternalServerError (\<lambda>_.
       sendEmptyHTTPReply payloadType)
     else if RemoveSnapshot_Name msg \<noteq> '''' then
       orReply (RemoveSnapshotByName (RemoveSnapshot_ColonyName msg) (RemoveSnapshot_Name msg)) StatusInternalServerError (\<lambda>_.
       sendEmptyHTTPReply payloadType)
     else sendError ''Failed to remove snapsnot, malformatted msg'' StatusInternalServerError))"

definition handleRemoveAllSnapshotsHTTPRequest :: "string \<Rightarrow> string \<Rightarrow> failure + RemoveAllSnapshotsMsg \<Rightarrow> handler" where
  "handleRemoveAllSnapshotsHTTPRequest recoveredID payloadType parsed =
     withMsg ''Failed to remove snapshot, invalid JSON''
       ''Failed to remove snapshot, msg.MsgType does not match payloadType'' payloadType parsed (\<lambda>msg.
     orReply (RequireMembership recoveredID (RemoveAllSnapshots_ColonyName msg) True) StatusForbidden (\<lambda>_.
     orReply (RemoveSnapshotsByColonyName (RemoveAllSnapshots_ColonyName msg)) StatusInternalServerError (\<lambda>_.
     sendEmptyHTTPReply payloadType)))"

end
