(* ===== verification/Api.thy ===== *)
theory Api
  imports Member_Handlers Data_Handlers
begin

text \<open>
  \<open>handleAPIRequest\<close> of \<open>pkg/server/colonies_server.go\<close>: a request is an outer message with a signed
  payload; the type of the payload selects the handler. The definitions follow the groups of its
  switch. \<open>crypto.RecoverID\<close>, base64 and the JSON decoders of the messages are parameters, as is what
  the handlers need to know of the cluster, the build and other requests.
\<close>

section \<open>Parameters\<close>

text \<open>What \<open>rpc.Create...MsgFromJSON\<close> makes of a text, by group of handlers.\<close>

record user_codec =
  dec_AddUserMsg :: "string \<Rightarrow> failure + AddUserMsg"
  dec_GetUsersMsg :: "string \<Rightarrow> failure + GetUsersMsg"
  dec_GetUserMsg :: "string \<Rightarrow> failure + GetUserMsg"
  dec_RemoveUserMsg :: "string \<Rightarrow> failure + RemoveUserMsg"

record colony_codec =
  dec_AddColonyMsg :: "string \<Rightarrow> failure + AddColonyMsg"
  dec_RemoveColonyMsg :: "string \<Rightarrow> failure + RemoveColonyMsg"
  dec_GetColoniesMsg :: "string \<Rightarrow> failure + GetColoniesMsg"
  dec_GetColonyMsg :: "string \<Rightarrow> failure + GetColonyMsg"

record executor_codec =
  dec_AddExecutorMsg :: "string \<Rightarrow> failure + AddExecutorMsg"
  dec_GetExecutorsMsg :: "string \<Rightarrow> failure + GetExecutorsMsg"
  dec_GetExecutorMsg :: "string \<Rightarrow> failure + GetExecutorMsg"
  dec_ApproveExecutorMsg :: "string \<Rightarrow> failure + ApproveExecutorMsg"
  dec_RejectExecutorMsg :: "string \<Rightarrow> failure + RejectExecutorMsg"
  dec_RemoveExecutorMsg :: "string \<Rightarrow> failure + RemoveExecutorMsg"
  dec_ReportAllocationsMsg :: "string \<Rightarrow> failure + ReportAllocationsMsg"

record function_codec =
  dec_AddFunctionMsg :: "string \<Rightarrow> failure + AddFunctionMsg"
  dec_GetFunctionsMsg :: "string \<Rightarrow> failure + GetFunctionsMsg"
  dec_RemoveFunctionMsg :: "string \<Rightarrow> failure + RemoveFunctionMsg"

record process_codec =
  dec_SubmitFunctionSpecMsg :: "string \<Rightarrow> failure + SubmitFunctionSpecMsg"
  dec_AssignProcessMsg :: "string \<Rightarrow> failure + AssignProcessMsg"
  dec_PauseAssignmentsMsg :: "string \<Rightarrow> failure + PauseAssignmentsMsg"
  dec_ResumeAssignmentsMsg :: "string \<Rightarrow> failure + ResumeAssignmentsMsg"
  dec_GetPauseStatusMsg :: "string \<Rightarrow> failure + GetPauseStatusMsg"
  dec_GetProcessHistMsg :: "string \<Rightarrow> failure + GetProcessHistMsg"
  dec_GetProcessesMsg :: "string \<Rightarrow> failure + GetProcessesMsg"
  dec_GetProcessMsg :: "string \<Rightarrow> failure + GetProcessMsg"
  dec_RemoveProcessMsg :: "string \<Rightarrow> failure + RemoveProcessMsg"
  dec_RemoveAllProcessesMsg :: "string \<Rightarrow> failure + RemoveAllProcessesMsg"
  dec_CloseSuccessfulMsg :: "string \<Rightarrow> failure + CloseSuccessfulMsg"
  dec_CloseFailedMsg :: "string \<Rightarrow> failure + CloseFailedMsg"
  dec_SetOutputMsg :: "string \<Rightarrow> failure + SetOutputMsg"
  dec_GetColonyStatisticsMsg :: "string \<Rightarrow> failure + GetColonyStatisticsMsg"

record attribute_codec =
  dec_AddAttributeMsg :: "string \<Rightarrow> failure + AddAttributeMsg"
  dec_GetAttributeMsg :: "string \<Rightarrow> failure + GetAttributeMsg"

record graph_codec =
  dec_SubmitWorkflowSpecMsg :: "string \<Rightarrow> failure + SubmitWorkflowSpecMsg"
  dec_GetProcessGraphMsg :: "string \<Rightarrow> failure + GetProcessGraphMsg"
  dec_GetProcessGraphsMsg :: "string \<Rightarrow> failure + GetProcessGraphsMsg"
  dec_RemoveProcessGraphMsg :: "string \<Rightarrow> failure + RemoveProcessGraphMsg"
  dec_RemoveAllProcessGraphsMsg :: "string \<Rightarrow> failure + RemoveAllProcessGraphsMsg"
  dec_AddChildMsg :: "string \<Rightarrow> failure + AddChildMsg"

record generator_codec =
  dec_AddGeneratorMsg :: "string \<Rightarrow> failure + AddGeneratorMsg"
  dec_GetGeneratorMsg :: "string \<Rightarrow> failure + GetGeneratorMsg"
  dec_ResolveGeneratorMsg :: "string \<Rightarrow> failure + ResolveGeneratorMsg"
  dec_GetGeneratorsMsg :: "string \<Rightarrow> failure + GetGeneratorsMsg"
  dec_PackGeneratorMsg :: "string \<Rightarrow> failure + PackGeneratorMsg"
  dec_RemoveGeneratorMsg :: "string \<Rightarrow> failure + RemoveGeneratorMsg"

record cron_codec =
  dec_AddCronMsg :: "string \<Rightarrow> failure + AddCronMsg"
  dec_GetCronMsg :: "string \<Rightarrow> failure + GetCronMsg"
  dec_GetCronsMsg :: "string \<Rightarrow> failure + GetCronsMsg"
  dec_RunCronMsg :: "string \<Rightarrow> failure + RunCronMsg"
  dec_RemoveCronMsg :: "string \<Rightarrow> failure + RemoveCronMsg"

record server_codec =
  dec_GetStatisticsMsg :: "string \<Rightarrow> failure + GetStatisticsMsg"
  dec_GetClusterMsg :: "string \<Rightarrow> failure + GetClusterMsg"

record log_codec =
  dec_AddLogMsg :: "string \<Rightarrow> failure + AddLogMsg"
  dec_GetLogsMsg :: "string \<Rightarrow> failure + GetLogsMsg"
  dec_SearchLogsMsg :: "string \<Rightarrow> failure + SearchLogsMsg"

record file_codec =
  dec_AddFileMsg :: "string \<Rightarrow> failure + AddFileMsg"
  dec_GetFileMsg :: "string \<Rightarrow> failure + GetFileMsg"
  dec_GetFilesMsg :: "string \<Rightarrow> failure + GetFilesMsg"
  dec_GetFileLabelsMsg :: "string \<Rightarrow> failure + GetFileLabelsMsg"
  dec_RemoveFileMsg :: "string \<Rightarrow> failure + RemoveFileMsg"

record snapshot_codec =
  dec_CreateSnapshotMsg :: "string \<Rightarrow> failure + CreateSnapshotMsg"
  dec_GetSnapshotMsg :: "string \<Rightarrow> failure + GetSnapshotMsg"
  dec_GetSnapshotsMsg :: "string \<Rightarrow> failure + GetSnapshotsMsg"
  dec_RemoveSnapshotMsg :: "string \<Rightarrow> failure + RemoveSnapshotMsg"
  dec_RemoveAllSnapshotsMsg :: "string \<Rightarrow> failure + RemoveAllSnapshotsMsg"

record security_codec =
  dec_ChangeUserIDMsg :: "string \<Rightarrow> failure + ChangeUserIDMsg"
  dec_ChangeExecutorIDMsg :: "string \<Rightarrow> failure + ChangeExecutorIDMsg"
  dec_ChangeColonyIDMsg :: "string \<Rightarrow> failure + ChangeColonyIDMsg"
  dec_ChangeServerIDMsg :: "string \<Rightarrow> failure + ChangeServerIDMsg"

record api_env =
  api_cfg :: server_config
  api_leader :: "(failure + string) option"
  api_sort :: "Process list \<Rightarrow> Process list"
  api_others :: "ctl_state \<Rightarrow> ctl_state"
  api_waits :: "(bool \<times> (ctl_state \<Rightarrow> ctl_state)) list"
  api_parse :: workflow_decoder
  api_next :: cron_env
  api_cluster :: string
  api_buildVersion :: string
  api_buildTime :: string
  api_decodePayload :: "string \<Rightarrow> string"
  api_recoverID :: "string \<Rightarrow> string \<Rightarrow> failure + string"
  api_version_codec :: "string \<Rightarrow> failure + rpc_msg"
  api_user_codec :: user_codec
  api_colony_codec :: colony_codec
  api_executor_codec :: executor_codec
  api_function_codec :: function_codec
  api_process_codec :: process_codec
  api_attribute_codec :: attribute_codec
  api_graph_codec :: graph_codec
  api_generator_codec :: generator_codec
  api_cron_codec :: cron_codec
  api_server_codec :: server_codec
  api_log_codec :: log_codec
  api_file_codec :: file_codec
  api_snapshot_codec :: snapshot_codec
  api_security_codec :: security_codec

section \<open>Dispatch\<close>

definition dispatch_user :: "user_codec \<Rightarrow> string \<Rightarrow> string \<Rightarrow> string \<Rightarrow> handler option" where
  "dispatch_user codec recoveredID payloadType jsonString =
     (if payloadType = ''addusermsg''
      then Some (handleAddUserHTTPRequest recoveredID payloadType (dec_AddUserMsg codec jsonString))
      else if payloadType = ''getusersmsg''
      then Some (handleGetUsersHTTPRequest recoveredID payloadType (dec_GetUsersMsg codec jsonString))
      else if payloadType = ''getusermsg''
      then Some (handleGetUserHTTPRequest recoveredID payloadType (dec_GetUserMsg codec jsonString))
      else if payloadType = ''removeusermsg''
      then Some (handleRemoveUserHTTPRequest recoveredID payloadType (dec_RemoveUserMsg codec jsonString))
      else None)"

definition dispatch_colony :: "colony_codec \<Rightarrow> string \<Rightarrow> string \<Rightarrow> string \<Rightarrow> handler option" where
  "dispatch_colony codec recoveredID payloadType jsonString =
     (if payloadType = ''addcolonymsg''
      then Some (handleAddColonyHTTPRequest recoveredID payloadType (dec_AddColonyMsg codec jsonString))
      else if payloadType = ''removecolonymsg''
      then Some (handleRemoveColonyHTTPRequest recoveredID payloadType (dec_RemoveColonyMsg codec jsonString))
      else if payloadType = ''getcoloniesmsg''
      then Some (handleGetColoniesHTTPRequest recoveredID payloadType (dec_GetColoniesMsg codec jsonString))
      else if payloadType = ''getcolonymsg''
      then Some (handleGetColonyHTTPRequest recoveredID payloadType (dec_GetColonyMsg codec jsonString))
      else None)"

definition dispatch_executor :: "api_env \<Rightarrow> executor_codec \<Rightarrow> string \<Rightarrow> string \<Rightarrow> string \<Rightarrow> handler option" where
  "dispatch_executor env codec recoveredID payloadType jsonString =
     (if payloadType = ''addexecutormsg''
      then Some (handleAddExecutorHTTPRequest (api_cfg env) recoveredID payloadType (dec_AddExecutorMsg codec jsonString))
      else if payloadType = ''getexecutorsmsg''
      then Some (handleGetExecutorsHTTPRequest recoveredID payloadType (dec_GetExecutorsMsg codec jsonString))
      else if payloadType = ''getexecutormsg''
      then Some (handleGetExecutorHTTPRequest recoveredID payloadType (dec_GetExecutorMsg codec jsonString))
      else if payloadType = ''approveexecutormsg''
      then Some (handleApproveExecutorHTTPRequest recoveredID payloadType (dec_ApproveExecutorMsg codec jsonString))
      else if payloadType = ''rejectexecutormsg''
      then Some (handleRejectExecutorHTTPRequest recoveredID payloadType (dec_RejectExecutorMsg codec jsonString))
      else if payloadType = ''removeexecutormsg''
      then Some (handleRemoveExecutorHTTPRequest recoveredID payloadType (dec_RemoveExecutorMsg codec jsonString))
      else if payloadType = ''reportallocationmsg''
      then Some (handleReportAllocationsHTTPRequest recoveredID payloadType (dec_ReportAllocationsMsg codec jsonString))
      else None)"

definition dispatch_function :: "function_codec \<Rightarrow> string \<Rightarrow> string \<Rightarrow> string \<Rightarrow> handler option" where
  "dispatch_function codec recoveredID payloadType jsonString =
     (if payloadType = ''addfunctionmsg''
      then Some (handleAddFunctionHTTPRequest recoveredID payloadType (dec_AddFunctionMsg codec jsonString))
      else if payloadType = ''getfunctionsmsg''
      then Some (handleGetFunctionsHTTPRequest recoveredID payloadType (dec_GetFunctionsMsg codec jsonString))
      else if payloadType = ''removefunctionmsg''
      then Some (handleRemoveFunctionHTTPRequest recoveredID payloadType (dec_RemoveFunctionMsg codec jsonString))
      else None)"

definition dispatch_process :: "api_env \<Rightarrow> process_codec \<Rightarrow> string \<Rightarrow> string \<Rightarrow> string \<Rightarrow> handler option" where
  "dispatch_process env codec recoveredID payloadType jsonString =
     (if payloadType = ''submitfuncspecmsg''
      then Some (handleSubmitHTTPRequest (api_cfg env) recoveredID payloadType (dec_SubmitFunctionSpecMsg codec jsonString))
      else if payloadType = ''assignprocessmsg''
      then Some (handleAssignProcessHTTPRequest (api_leader env) (api_sort env) (api_others env) (api_waits env) (api_cfg env) recoveredID payloadType (dec_AssignProcessMsg codec jsonString))
      else if payloadType = ''pauseassignmentsmsg''
      then Some (handlePauseAssignmentsHTTPRequest recoveredID payloadType (dec_PauseAssignmentsMsg codec jsonString))
      else if payloadType = ''resumeassignmentsmsg''
      then Some (handleResumeAssignmentsHTTPRequest recoveredID payloadType (dec_ResumeAssignmentsMsg codec jsonString))
      else if payloadType = ''getpausestatusmsg''
      then Some (handleGetPauseStatusHTTPRequest recoveredID payloadType (dec_GetPauseStatusMsg codec jsonString))
      else if payloadType = ''getprocesshistmsg''
      then Some (handleGetProcessHistHTTPRequest recoveredID payloadType (dec_GetProcessHistMsg codec jsonString))
      else if payloadType = ''getprocessesmsg''
      then Some (handleGetProcessesHTTPRequest recoveredID payloadType (dec_GetProcessesMsg codec jsonString))
      else if payloadType = ''getprocessmsg''
      then Some (handleGetProcessHTTPRequest recoveredID payloadType (dec_GetProcessMsg codec jsonString))
      else if payloadType = ''removeprocessmsg''
      then Some (handleRemoveProcessHTTPRequest recoveredID payloadType (dec_RemoveProcessMsg codec jsonString))
      else if payloadType = ''removeallprocessesmsg''
      then Some (handleRemoveAllProcessesHTTPRequest recoveredID payloadType (dec_RemoveAllProcessesMsg codec jsonString))
      else if payloadType = ''closesuccessfulmsg''
      then Some (handleCloseSuccessfulHTTPRequest recoveredID payloadType (dec_CloseSuccessfulMsg codec jsonString))
      else if payloadType = ''closefailedmsg''
      then Some (handleCloseFailedHTTPRequest recoveredID payloadType (dec_CloseFailedMsg codec jsonString))
      else if payloadType = ''setoutputmsg''
      then Some (handleSetOutputHTTPRequest recoveredID payloadType (dec_SetOutputMsg codec jsonString))
      else if payloadType = ''getcolonystatsmsg''
      then Some (handleColonyStatisticsHTTPRequest recoveredID payloadType (dec_GetColonyStatisticsMsg codec jsonString))
      else None)"

definition dispatch_attribute :: "attribute_codec \<Rightarrow> string \<Rightarrow> string \<Rightarrow> string \<Rightarrow> handler option" where
  "dispatch_attribute codec recoveredID payloadType jsonString =
     (if payloadType = ''addattributemsg''
      then Some (handleAddAttributeHTTPRequest recoveredID payloadType (dec_AddAttributeMsg codec jsonString))
      else if payloadType = ''getattributemsg''
      then Some (handleGetAttributeHTTPRequest recoveredID payloadType (dec_GetAttributeMsg codec jsonString))
      else None)"

definition dispatch_graph :: "graph_codec \<Rightarrow> string \<Rightarrow> string \<Rightarrow> string \<Rightarrow> handler option" where
  "dispatch_graph codec recoveredID payloadType jsonString =
     (if payloadType = ''submitworkflowspecmsg''
      then Some (handleSubmitWorkflowHTTPRequest recoveredID payloadType (dec_SubmitWorkflowSpecMsg codec jsonString))
      else if payloadType = ''getprocessgraphmsg''
      then Some (handleGetProcessGraphHTTPRequest recoveredID payloadType (dec_GetProcessGraphMsg codec jsonString))
      else if payloadType = ''getprocessgraphsmsg''
      then Some (handleGetProcessGraphsHTTPRequest recoveredID payloadType (dec_GetProcessGraphsMsg codec jsonString))
      else if payloadType = ''removeprocessgraphmsg''
      then Some (handleRemoveProcessGraphHTTPRequest recoveredID payloadType (dec_RemoveProcessGraphMsg codec jsonString))
      else if payloadType = ''removeallprocessgraphsmsg''
      then Some (handleRemoveAllProcessGraphsHTTPRequest recoveredID payloadType (dec_RemoveAllProcessGraphsMsg codec jsonString))
      else if payloadType = ''addchildmsg''
      then Some (handleAddChildHTTPRequest recoveredID payloadType (dec_AddChildMsg codec jsonString))
      else None)"

definition dispatch_generator :: "api_env \<Rightarrow> generator_codec \<Rightarrow> string \<Rightarrow> string \<Rightarrow> string \<Rightarrow> handler option" where
  "dispatch_generator env codec recoveredID payloadType jsonString =
     (if payloadType = ''addgeneratormsg''
      then Some (handleAddGeneratorHTTPRequest (api_parse env) recoveredID payloadType (dec_AddGeneratorMsg codec jsonString))
      else if payloadType = ''getgeneratormsg''
      then Some (handleGetGeneratorHTTPRequest (api_cfg env) recoveredID payloadType (dec_GetGeneratorMsg codec jsonString))
      else if payloadType = ''resolvegeneratormsg''
      then Some (handleResolveGeneratorHTTPRequest recoveredID payloadType (dec_ResolveGeneratorMsg codec jsonString))
      else if payloadType = ''getgeneratorsmsg''
      then Some (handleGetGeneratorsHTTPRequest recoveredID payloadType (dec_GetGeneratorsMsg codec jsonString))
      else if payloadType = ''packgeneratormsg''
      then Some (handlePackGeneratorHTTPRequest recoveredID payloadType (dec_PackGeneratorMsg codec jsonString))
      else if payloadType = ''removegeneratormsg''
      then Some (handleRemoveGeneratorHTTPRequest recoveredID payloadType (dec_RemoveGeneratorMsg codec jsonString))
      else None)"

definition dispatch_cron :: "api_env \<Rightarrow> cron_codec \<Rightarrow> string \<Rightarrow> string \<Rightarrow> string \<Rightarrow> handler option" where
  "dispatch_cron env codec recoveredID payloadType jsonString =
     (if payloadType = ''addcronmsg''
      then Some (handleAddCronHTTPRequest (api_parse env) (api_next env) recoveredID payloadType (dec_AddCronMsg codec jsonString))
      else if payloadType = ''getcronmsg''
      then Some (handleGetCronHTTPRequest (api_cfg env) recoveredID payloadType (dec_GetCronMsg codec jsonString))
      else if payloadType = ''getcronsmsg''
      then Some (handleGetCronsHTTPRequest recoveredID payloadType (dec_GetCronsMsg codec jsonString))
      else if payloadType = ''runcronmsg''
      then Some (handleRunCronHTTPRequest (api_parse env) (api_next env) recoveredID payloadType (dec_RunCronMsg codec jsonString))
      else if payloadType = ''removecronmsg''
      then Some (handleRemoveCronHTTPRequest recoveredID payloadType (dec_RemoveCronMsg codec jsonString))
      else None)"

definition dispatch_server :: "api_env \<Rightarrow> server_codec \<Rightarrow> string \<Rightarrow> string \<Rightarrow> string \<Rightarrow> handler option" where
  "dispatch_server env codec recoveredID payloadType jsonString =
     (if payloadType = ''getstatisticsmsg''
      then Some (handleStatisticsHTTPRequest recoveredID payloadType (dec_GetStatisticsMsg codec jsonString))
      else if payloadType = ''getclustermsg''
      then Some (handleGetClusterHTTPRequest (api_cluster env) recoveredID payloadType (dec_GetClusterMsg codec jsonString))
      else None)"

definition dispatch_log :: "log_codec \<Rightarrow> string \<Rightarrow> string \<Rightarrow> string \<Rightarrow> handler option" where
  "dispatch_log codec recoveredID payloadType jsonString =
     (if payloadType = ''addlogmsg''
      then Some (handleAddLogHTTPRequest recoveredID payloadType (dec_AddLogMsg codec jsonString))
      else if payloadType = ''getlogsmsg''
      then Some (handleGetLogsHTTPRequest recoveredID payloadType (dec_GetLogsMsg codec jsonString))
      else if payloadType = ''searchlogsmsg''
      then Some (handleSearchLogsHTTPRequest recoveredID payloadType (dec_SearchLogsMsg codec jsonString))
      else None)"

definition dispatch_file :: "file_codec \<Rightarrow> string \<Rightarrow> string \<Rightarrow> string \<Rightarrow> handler option" where
  "dispatch_file codec recoveredID payloadType jsonString =
     (if payloadType = ''addfilemsg''
      then Some (handleAddFileHTTPRequest recoveredID payloadType (dec_AddFileMsg codec jsonString))
      else if payloadType = ''getfilemsg''
      then Some (handleGetFileHTTPRequest recoveredID payloadType (dec_GetFileMsg codec jsonString))
      else if payloadType = ''getfilesmsg''
      then Some (handleGetFilesHTTPRequest recoveredID payloadType (dec_GetFilesMsg codec jsonString))
      else if payloadType = ''getfilelabelsmsg''
      then Some (handleGetFileLabelsHTTPRequest recoveredID payloadType (dec_GetFileLabelsMsg codec jsonString))
      else if payloadType = ''removefilemsg''
      then Some (handleRemoveFileHTTPRequest recoveredID payloadType (dec_RemoveFileMsg codec jsonString))
      else None)"

definition dispatch_snapshot :: "snapshot_codec \<Rightarrow> string \<Rightarrow> string \<Rightarrow> string \<Rightarrow> handler option" where
  "dispatch_snapshot codec recoveredID payloadType jsonString =
     (if payloadType = ''createsnapshotmsg''
      then Some (handleCreateSnapshotHTTPRequest recoveredID payloadType (dec_CreateSnapshotMsg codec jsonString))
      else if payloadType = ''getsnapshotmsg''
      then Some (handleGetSnapshotHTTPRequest recoveredID payloadType (dec_GetSnapshotMsg codec jsonString))
      else if payloadType = ''getsnapshotsmsg''
      then Some (handleGetSnapshotsHTTPRequest recoveredID payloadType (dec_GetSnapshotsMsg codec jsonString))
      else if payloadType = ''removesnapshotmsg''
      then Some (handleRemoveSnapshotHTTPRequest recoveredID payloadType (dec_RemoveSnapshotMsg codec jsonString))
      else if payloadType = ''removeallsnapshotmsg''
      then Some (handleRemoveAllSnapshotsHTTPRequest recoveredID payloadType (dec_RemoveAllSnapshotsMsg codec jsonString))
      else None)"

definition dispatch_security :: "security_codec \<Rightarrow> string \<Rightarrow> string \<Rightarrow> string \<Rightarrow> handler option" where
  "dispatch_security codec recoveredID payloadType jsonString =
     (if payloadType = ''changeuseridmsg''
      then Some (handleChangeUserIDHTTPRequest recoveredID payloadType jsonString (dec_ChangeUserIDMsg codec jsonString))
      else if payloadType = ''changeexecutoridmsg''
      then Some (handleChangeExecutorIDHTTPRequest recoveredID payloadType jsonString (dec_ChangeExecutorIDMsg codec jsonString))
      else if payloadType = ''changecolonyidmsg''
      then Some (handleChangeColonyIDHTTPRequest recoveredID payloadType jsonString (dec_ChangeColonyIDMsg codec jsonString))
      else if payloadType = ''changeserveridmsg''
      then Some (handleChangeServerIDHTTPRequest recoveredID payloadType jsonString (dec_ChangeServerIDMsg codec jsonString))
      else None)"

text \<open>The first group with a case for the type of the payload.\<close>

primrec first_some :: "'a option list \<Rightarrow> 'a option" where
  "first_some [] = None"
| "first_some (x # xs) = (case x of None \<Rightarrow> first_some xs | Some y \<Rightarrow> Some y)"

definition dispatch :: "api_env \<Rightarrow> string \<Rightarrow> string \<Rightarrow> string \<Rightarrow> handler option" where
  "dispatch env recoveredID payloadType jsonString = first_some
     [dispatch_user (api_user_codec env) recoveredID payloadType jsonString,
      dispatch_colony (api_colony_codec env) recoveredID payloadType jsonString,
      dispatch_executor env (api_executor_codec env) recoveredID payloadType jsonString,
      dispatch_function (api_function_codec env) recoveredID payloadType jsonString,
      dispatch_process env (api_process_codec env) recoveredID payloadType jsonString,
      dispatch_attribute (api_attribute_codec env) recoveredID payloadType jsonString,
      dispatch_graph (api_graph_codec env) recoveredID payloadType jsonString,
      dispatch_generator env (api_generator_codec env) recoveredID payloadType jsonString,
      dispatch_cron env (api_cron_codec env) recoveredID payloadType jsonString,
      dispatch_server env (api_server_codec env) recoveredID payloadType jsonString,
      dispatch_log (api_log_codec env) recoveredID payloadType jsonString,
      dispatch_file (api_file_codec env) recoveredID payloadType jsonString,
      dispatch_snapshot (api_snapshot_codec env) recoveredID payloadType jsonString,
      dispatch_security (api_security_codec env) recoveredID payloadType jsonString]"

record RPCMsg =
  rpc_Signature :: string
  rpc_PayloadType :: string
  rpc_Payload :: string

text \<open>\<open>request\<close> is the error of reading or decoding the outer message, or the message.\<close>

definition handleAPIRequest :: "api_env \<Rightarrow> failure + RPCMsg \<Rightarrow> handler" where
  "handleAPIRequest env request =
     orReply (liftE request) StatusBadRequest (\<lambda>rpcMsg.
     (let payloadType = rpc_PayloadType rpcMsg; jsonString = api_decodePayload env (rpc_Payload rpcMsg) in
      if payloadType = ''versionmsg''
      then handleVersionHTTPRequest (api_buildVersion env) (api_buildTime env) payloadType (api_version_codec env jsonString)
      else
        orReply (liftE (api_recoverID env (rpc_Payload rpcMsg) (rpc_Signature rpcMsg))) StatusForbidden (\<lambda>recoveredID.
        (case dispatch env recoveredID payloadType jsonString of
           Some handle \<Rightarrow> handle
         | None \<Rightarrow> sendError (''invalid rpcMsg.PayloadType, '' @ payloadType) StatusForbidden))))"

end
