(* ===== verification/Access_Facts.thy ===== *)
theory Access_Facts
  imports Api Lifecycle
begin

text \<open>
  Who may change what. \<open>store_relation\<close> is the interface of a relation that does not look at the clock
  and the connection: every reader keeps it. \<open>stranger\<close> is an identity no table knows. The section on
  the API shows that a request of a stranger leaves every table as it is, for every type of request but
  one.
\<close>

section \<open>Relations on the whole store\<close>

definition same_store :: "ctl_state \<Rightarrow> ctl_state \<Rightarrow> bool" where
  "same_store s t \<longleftrightarrow> (\<exists>n fs. t = s\<lparr>env_ticks := n, env_faults := fs\<rparr>)"

lemma same_store_refl [simp]: "same_store s s"
  unfolding same_store_def by (intro exI[of _ "env_ticks s"] exI[of _ "env_faults s"]) simp

lemma same_store_ticks [simp]: "same_store s (s\<lparr>env_ticks := n\<rparr>)"
  unfolding same_store_def by (intro exI[of _ n] exI[of _ "env_faults s"]) simp

lemma same_store_faults [simp]: "same_store s (s\<lparr>env_faults := fs\<rparr>)"
  unfolding same_store_def by (intro exI[of _ "env_ticks s"] exI[of _ fs]) simp

lemma same_store_trans: "same_store s t \<Longrightarrow> same_store t u \<Longrightarrow> same_store s u"
  unfolding same_store_def by clarsimp (intro exI, rule refl)

locale store_relation = op_relation R
  for R :: "ctl_state \<Rightarrow> ctl_state \<Rightarrow> bool" +
  assumes rel_env: "same_store s t \<Longrightarrow> R s t"
begin

lemma keeps_case_list:
  "(xs = [] \<Longrightarrow> keeps R m) \<Longrightarrow> (\<And>y ys. xs = y # ys \<Longrightarrow> keeps R (f y ys)) \<Longrightarrow>
   keeps R (case xs of [] \<Rightarrow> m | y # ys \<Rightarrow> f y ys)"
  by (cases xs) simp_all

lemma quiet_basic:
  "keeps R time_Now" "keeps R uuid_New" "keeps R (GenerateHash x)" "keeps R range_unitMap" "keeps R (range_keys ks)"
  "keeps R sql_connection"
  by (auto simp: keeps_def time_Now_def uuid_New_def GenerateHash_def range_unitMap_def range_keys_def
      sql_connection_def intro!: rel_env rel_refl split: list.splits)

lemma keeps_sql_exec:
  assumes "\<And>s s'. stmt s = Inr s' \<Longrightarrow> R s s'"
  shows "keeps R (sql_exec stmt)"
proof -
  have "keeps R (\<lambda>db. case stmt db of Inl e \<Rightarrow> (Inl e, db) | Inr db' \<Rightarrow> (Inr (), db'))"
    using assms by (intro keepsI) (auto split: sum.splits intro: rel_refl)
  then show ?thesis unfolding sql_exec_def by (intro keeps_thenM quiet_basic)
qed

lemma quiet_sql_query: "keeps R (sql_query q)"
  unfolding sql_query_def by (intro keeps_rules quiet_basic)

lemma quiet_attributes: "keeps R (select_attributes P)" "keeps R (GetAttributeByID a)"
proof -
  show s: "keeps R (select_attributes P)" for P
    unfolding select_attributes_def parseAttributes_def by (intro keeps_rules quiet_sql_query)
  show "keeps R (GetAttributeByID a)"
    unfolding GetAttributeByID_def unique_attribute_def by (intro keeps_rules keeps_case_list s)
qed

lemma quiet_select_processes: "keeps R (select_processes q)"
  unfolding select_processes_def parseProcesses_def parse_process_def GetAttributes_def GetAttributesByType_def
  by (intro keeps_rules quiet_sql_query quiet_attributes)

lemma quiet_GetProcessByID: "keeps R (GetProcessByID pid)"
  unfolding GetProcessByID_def by (intro keeps_rules quiet_select_processes)

lemma quiet_members:
  "keeps R (select_executors P)" "keeps R (select_users Q)" "keeps R (select_colonies C)" "keeps R (select_functions F)"
  unfolding select_executors_def parseExecutors_def select_users_def parseUsers_def select_colonies_def
    select_functions_def parseFunctions_def
  by (intro keeps_rules quiet_sql_query)+

lemma quiet_lookups:
  "keeps R (GetExecutorByID eid)" "keeps R (GetExecutorByName c n)" "keeps R (GetUserByID c uid)" "keeps R (GetUserByName c n)"
  "keeps R (GetColonyByName c)" "keeps R (GetServerID)" "keeps R (GetFunctionByID fid)"
  unfolding GetExecutorByID_def GetExecutorByName_def GetUserByID_def GetUserByName_def GetColonyByName_def GetServerID_def
    GetFunctionByID_def
  by (intro keeps_rules keeps_case_list quiet_members quiet_sql_query)+

lemma quiet_schedules:
  "keeps R (GetGeneratorByID gid)" "keeps R (GetGeneratorByName c n)" "keeps R (GetCronByID cid)" "keeps R (CountGeneratorArgs gid)"
  unfolding GetGeneratorByID_def GetGeneratorByName_def GetCronByID_def select_generators_def select_crons_def CountGeneratorArgs_def
  by (intro keeps_rules keeps_case_list quiet_sql_query)+

lemma quiet_Iterate: "(\<And>p acc. keeps R (visit p acc)) \<Longrightarrow> keeps R (Iterate roots visit acc)"
  by (intro keeps_Iterate op_relation_axioms quiet_GetProcessByID)

lemma quiet_controller:
  "keeps R (ctl_getProcess pid)" "keeps R (ctl_getProcessGraphByID gid)" "keeps R (ctl_getAttribute aid)"
  "keeps R (ctl_getFunctionByID fid)" "keeps R (ctl_getGenerator g)" "keeps R (ctl_resolveGenerator c n)" "keeps R (ctl_getCron cid)"
  unfolding ctl_getProcess_def ctl_getProcessGraphByID_def ctl_getAttribute_def ctl_getFunctionByID_def ctl_getGenerator_def
    ctl_resolveGenerator_def ctl_getCron_def updateProcessGraph_def UpdateProcessIDs_def GetProcessGraphByID_def parseProcessGraphs_def parse_graph_def CreateProcessGraph_def
  by (intro keeps_rules keeps_case_list quiet_Iterate quiet_GetProcessByID quiet_attributes quiet_lookups quiet_schedules quiet_sql_query quiet_basic)+

lemmas quiet_readers = quiet_basic quiet_sql_query quiet_attributes quiet_GetProcessByID quiet_members quiet_lookups
  quiet_schedules quiet_controller

lemma quiet_checks:
  "keeps R (resolveColony c)" "keeps R (checkIfExecutorIsValid eid c a)" "keeps R (checkIfUserIsValid uid c)"
  "keeps R (RequireServerOwner rid sid)" "keeps R (RequireColonyOwner rid c)" "keeps R (RequireMembership rid c a)"
proof -
  show c: "keeps R (resolveColony c)"
    unfolding resolveColony_def by (intro keeps_rules quiet_lookups)
  show e: "keeps R (checkIfExecutorIsValid eid c a)" for eid
    unfolding checkIfExecutorIsValid_def by (intro keeps_rules quiet_lookups)
  show u: "keeps R (checkIfUserIsValid uid c)" for uid
    unfolding checkIfUserIsValid_def by (intro keeps_rules quiet_lookups)
  show "keeps R (RequireServerOwner rid sid)" "keeps R (RequireColonyOwner rid c)" "keeps R (RequireMembership rid c a)"
    unfolding RequireServerOwner_def RequireColonyOwner_def RequireMembership_def by (intro keeps_rules c e u)+
qed

text \<open>The combinators of the handlers.\<close>

lemma quiet_replies: "keeps R (sendError msg code)" "keeps R (sendHTTPReply pt c)" "keeps R (sendEmptyHTTPReply pt)"
  unfolding sendError_def sendHTTPReply_def sendEmptyHTTPReply_def by (rule keeps_retM)+

lemma keeps_withMsg: "(\<And>msg. parsed = Inr msg \<Longrightarrow> MsgType msg = pt \<Longrightarrow> keeps R (k msg)) \<Longrightarrow> keeps R (withMsg e1 e2 pt parsed k)"
  unfolding withMsg_def by (auto split: sum.split intro: quiet_replies)

lemma keeps_orNil: "(\<And>x. p = Some x \<Longrightarrow> keeps R (k x)) \<Longrightarrow> keeps R (orNil p msg code k)"
  unfolding orNil_def by (auto split: option.split intro: quiet_replies)

lemma keeps_orReply: "keeps R m \<Longrightarrow> (\<And>x. keeps R (k x)) \<Longrightarrow> keeps R (orReply m code k)"
  unfolding orReply_def by (intro keeps_rules)

lemma keeps_orReplyTwice: "keeps R m \<Longrightarrow> (\<And>x. keeps R (k x)) \<Longrightarrow> keeps R (orReplyTwice m c1 c2 k)"
  unfolding orReplyTwice_def by (intro keeps_rules)

end

section \<open>Strangers\<close>

text \<open>Nobody's id: no executor, user or colony has it, and it is not the id of the server.\<close>

definition stranger :: "string \<Rightarrow> ctl_state \<Rightarrow> bool" where
  "stranger rid s \<longleftrightarrow>
     rid \<notin> set (map EX_EXECUTOR_ID (EXECUTORS s)) \<and> rid \<notin> set (map US_USER_ID (USERS s)) \<and>
     rid \<notin> set (map CO_COLONY_ID (COLONIES s)) \<and> rid \<notin> set (SERVER s)"

definition stranger_rel :: "string \<Rightarrow> ctl_state \<Rightarrow> ctl_state \<Rightarrow> bool" where
  "stranger_rel rid s t \<longleftrightarrow> (stranger rid s \<longrightarrow> same_store s t)"

lemma stranger_same_store: "same_store s t \<Longrightarrow> stranger rid t = stranger rid s"
  by (auto simp: same_store_def stranger_def)

interpretation str: store_relation "stranger_rel rid" for rid
proof unfold_locales
  fix s t u
  show "stranger_rel rid s s" by (simp add: stranger_rel_def)
  show "same_store s t \<Longrightarrow> stranger_rel rid s t" by (simp add: stranger_rel_def)
  show "stranger_rel rid s t \<Longrightarrow> stranger_rel rid t u \<Longrightarrow> stranger_rel rid s u"
    unfolding stranger_rel_def using same_store_trans stranger_same_store by blast
qed

text \<open>What a lookup that finds something says about the tables, whatever statements failed before.\<close>

lemma sql_query_Inr:
  assumes "sql_query q s = (Inr x, s')"
  obtains fs where "q (s\<lparr>env_faults := fs\<rparr>) = Inr x" "s' = s\<lparr>env_faults := fs\<rparr>"
proof -
  from assms obtain s1 where "sql_connection s = (Inr (), s1)" "q s1 = Inr x" "s1 = s'"
    by (auto simp: sql_query_def elim!: thenM_eq_Inr bindM_eq_Inr)
  moreover from this(1) have "s1 = s\<lparr>env_faults := tl (env_faults s)\<rparr>"
    by (auto simp: sql_connection_def split: list.splits if_splits)
  ultimately show thesis using that by auto
qed

lemma table_query:
  assumes "sql_query (\<lambda>db. Inr (g db)) s = (Inr x, s')" "\<And>fs. g (s\<lparr>env_faults := fs\<rparr>) = g s"
  shows "x = g s"
  by (rule sql_query_Inr[OF assms(1)]) (simp add: assms(2))

interpretation sto: store_relation same_store
  by unfold_locales (auto intro: same_store_trans)

lemma after_quiet: "keeps same_store m \<Longrightarrow> m s = (x, s') \<Longrightarrow> same_store s s'"
  by (metis keepsD snd_conv)

lemma mapM_liftE_all2:
  "mapM (\<lambda>r. liftE (f r)) rows s = (Inr xs, s') \<Longrightarrow> list_all2 (\<lambda>r x. f r = Inr x) rows xs"
proof (induction rows arbitrary: xs s)
  case (Cons r rows)
  from Cons.prems have "bindM (liftE (f r)) (\<lambda>y. bindM (mapM (\<lambda>r. liftE (f r)) rows) (\<lambda>ys. retM (y # ys))) s = (Inr xs, s')"
    by (simp only: mapM.simps)
  then obtain y s1 where y: "liftE (f r) s = (Inr y, s1)"
    and "bindM (mapM (\<lambda>r. liftE (f r)) rows) (\<lambda>ys. retM (y # ys)) s1 = (Inr xs, s')" by (rule bindM_eq_Inr)
  from this(2) obtain ys s2 where m: "mapM (\<lambda>r. liftE (f r)) rows s1 = (Inr ys, s2)" and "retM (y # ys) s2 = (Inr xs, s')"
    by (rule bindM_eq_Inr)
  from this(2) have e: "xs = y # ys" "s2 = s'" by simp_all
  have "list_all2 (\<lambda>r x. f r = Inr x) rows ys" by (rule Cons.IH[OF m[unfolded e(2)]])
  with y e show ?case by simp
qed simp

lemma first_of_all2:
  assumes "list_all2 P (filter Q rows) xs" "(case xs of [] \<Rightarrow> None | y # _ \<Rightarrow> Some y) = Some x"
  obtains r where "r \<in> set rows" "Q r" "P r x"
proof -
  from assms(2) obtain ys where "xs = x # ys" by (auto split: list.splits)
  with assms(1) obtain r rs where "filter Q rows = r # rs" "P r x" by (auto simp: list_all2_Cons2)
  then show thesis using that by (metis Cons_eq_filterD in_set_conv_decomp)
qed

lemma GetExecutorByID_Some:
  assumes "GetExecutorByID eid s = (Inr (Some e), s')"
  obtains r where "r \<in> set (EXECUTORS s)" "EX_EXECUTOR_ID r = eid" "parse_executor r = Inr e"
proof -
  from assms obtain rows es s1 where q: "sql_query (\<lambda>db. Inr (filter (\<lambda>r. EX_EXECUTOR_ID r = eid) (EXECUTORS db))) s = (Inr rows, s1)"
    and p: "mapM (\<lambda>r. liftE (parse_executor r)) rows s1 = (Inr es, s')" "(case es of [] \<Rightarrow> None | y # _ \<Rightarrow> Some y) = Some e"
    unfolding GetExecutorByID_def select_executors_def parseExecutors_def by (auto elim!: bindM_eq_Inr)
  have "rows = filter (\<lambda>r. EX_EXECUTOR_ID r = eid) (EXECUTORS s)" by (rule table_query[OF q]) simp
  with mapM_liftE_all2[OF p(1)] have "list_all2 (\<lambda>r x. parse_executor r = Inr x) (filter (\<lambda>r. EX_EXECUTOR_ID r = eid) (EXECUTORS s)) es"
    by simp
  then show thesis by (rule first_of_all2[OF _ p(2)]) (rule that)
qed

lemma GetUserByID_Some:
  assumes "GetUserByID c uid s = (Inr (Some u), s')"
  obtains r where "r \<in> set (USERS s)" "US_COLONY_NAME r = c" "US_USER_ID r = uid" "parse_user r = Inr u"
proof -
  let ?P = "\<lambda>r. US_COLONY_NAME r = c \<and> US_USER_ID r = uid"
  from assms obtain rows us s1 where q: "sql_query (\<lambda>db. Inr (filter ?P (USERS db))) s = (Inr rows, s1)"
    and p: "mapM (\<lambda>r. liftE (parse_user r)) rows s1 = (Inr us, s')" "(case us of [] \<Rightarrow> None | y # _ \<Rightarrow> Some y) = Some u"
    unfolding GetUserByID_def select_users_def parseUsers_def by (auto elim!: bindM_eq_Inr)
  have "rows = filter ?P (USERS s)" by (rule table_query[OF q]) simp
  with mapM_liftE_all2[OF p(1)] have "list_all2 (\<lambda>r x. parse_user r = Inr x) (filter ?P (USERS s)) us" by simp
  then show thesis by (rule first_of_all2[OF _ p(2)]) (use that in blast)
qed

lemma GetColonyByName_Some:
  assumes "GetColonyByName name s = (Inr (Some c), s')"
  obtains r where "r \<in> set (COLONIES s)" "CO_NAME r = name" "c = parse_colony r"
proof -
  from assms obtain rows s1 where q: "sql_query (\<lambda>db. Inr (filter (\<lambda>r. CO_NAME r = name) (COLONIES db))) s = (Inr rows, s1)"
    and p: "(case map parse_colony rows of [] \<Rightarrow> None | y # _ \<Rightarrow> Some y) = Some c"
    unfolding GetColonyByName_def select_colonies_def by (auto elim!: bindM_eq_Inr)
  have "rows = filter (\<lambda>r. CO_NAME r = name) (COLONIES s)" by (rule table_query[OF q]) simp
  with p obtain r rs where f: "filter (\<lambda>r. CO_NAME r = name) (COLONIES s) = r # rs" and c: "c = parse_colony r"
    by (auto split: list.splits)
  have "r \<in> set (filter (\<lambda>r. CO_NAME r = name) (COLONIES s))" unfolding f by simp
  with c show thesis using that by auto
qed

lemma GetServerID_Inr: "GetServerID s = (Inr sid, s') \<Longrightarrow> sid \<in> set (SERVER s)"
  unfolding GetServerID_def by (auto elim!: sql_query_Inr split: list.splits)

text \<open>A stranger passes none of the three checks.\<close>

lemma colony_parse [simp]: "colony_Name (parse_colony r) = CO_NAME r" "colony_ID (parse_colony r) = CO_COLONY_ID r"
  by (simp_all add: parse_colony_def CreateColony_def)

lemma checkIfExecutorIsValid_Inr:
  fixes s :: ctl_state
  assumes "checkIfExecutorIsValid rid c a s = (Inr x, s')"
  obtains r e where "r \<in> set (EXECUTORS s)" "EX_EXECUTOR_ID r = rid" "parse_executor r = Inr e"
    "exec_ColonyName e = c" "a \<longrightarrow> exec_State e = APPROVED" "c \<in> set (map CO_NAME (COLONIES s))"
proof -
  from assms obtain col e s1 where c: "GetColonyByName c s = (Inr (Some col), s1)"
    and e: "GetExecutorByID rid s1 = (Inr (Some e), s')" "exec_ColonyName e = colony_Name col" "a \<longrightarrow> exec_State e = APPROVED"
    unfolding checkIfExecutorIsValid_def by (auto elim!: bindM_eq_Inr split: option.splits if_splits)
  have "same_store s s1" by (rule after_quiet[OF sto.quiet_lookups(5) c])
  then have "EXECUTORS s1 = EXECUTORS s" by (auto simp: same_store_def)
  moreover obtain cr where "cr \<in> set (COLONIES s)" "CO_NAME cr = c" "col = parse_colony cr"
    by (rule GetColonyByName_Some[OF c])
  ultimately show thesis using GetExecutorByID_Some[OF e(1)] that e(2,3)
    by (metis (no_types, lifting) colony_parse(1) image_eqI list.set_map)
qed

lemma checkIfUserIsValid_Inr:
  fixes s :: ctl_state
  assumes "checkIfUserIsValid uid c s = (Inr x, s')"
  obtains r u where "r \<in> set (USERS s)" "US_USER_ID r = uid" "US_COLONY_NAME r = c" "parse_user r = Inr u"
    "c \<in> set (map CO_NAME (COLONIES s))"
proof -
  from assms obtain col u s1 where c: "GetColonyByName c s = (Inr (Some col), s1)"
    and u: "GetUserByID (colony_Name col) uid s1 = (Inr (Some u), s')"
    unfolding checkIfUserIsValid_def by (auto elim!: bindM_eq_Inr split: option.splits if_splits)
  have "same_store s s1" by (rule after_quiet[OF sto.quiet_lookups(5) c])
  then have "USERS s1 = USERS s" by (auto simp: same_store_def)
  moreover obtain cr where "cr \<in> set (COLONIES s)" "CO_NAME cr = c" "col = parse_colony cr"
    by (rule GetColonyByName_Some[OF c])
  ultimately show thesis using GetUserByID_Some[OF u] that
    by (metis (no_types, lifting) colony_parse(1) image_eqI list.set_map)
qed

lemma RequireMembership_Inr:
  fixes s :: ctl_state
  assumes "RequireMembership rid c a s = (Inr x, s')"
  shows "c \<in> set (map CO_NAME (COLONIES s)) \<and>
    ((\<exists>r e. r \<in> set (EXECUTORS s) \<and> EX_EXECUTOR_ID r = rid \<and> parse_executor r = Inr e \<and> exec_ColonyName e = c \<and>
       (a \<longrightarrow> exec_State e = APPROVED)) \<or>
     (\<exists>r. r \<in> set (USERS s) \<and> US_USER_ID r = rid \<and> US_COLONY_NAME r = c))"
proof -
  from assms obtain res s1 where res: "tryM (checkIfExecutorIsValid rid c a) s = (Inr res, s1)"
    and rest: "(case res of Inl _ \<Rightarrow> checkIfUserIsValid rid c | Inr _ \<Rightarrow> retM ()) s1 = (Inr x, s')"
    unfolding RequireMembership_def by (rule bindM_eq_Inr)
  have "same_store s s1" by (rule after_quiet[OF sto.keeps_tryM[OF sto.quiet_checks(2)] res])
  then have same: "USERS s1 = USERS s" "COLONIES s1 = COLONIES s" by (auto simp: same_store_def)
  show ?thesis
  proof (cases res)
    case (Inr y)
    with res have "checkIfExecutorIsValid rid c a s = (Inr y, s1)"
      by (auto simp: tryM_def split: prod.splits sum.splits if_splits)
    then show ?thesis by (rule checkIfExecutorIsValid_Inr) blast
  next
    case (Inl y)
    with rest have "checkIfUserIsValid rid c s1 = (Inr x, s')" by simp
    then show ?thesis by (rule checkIfUserIsValid_Inr) (use same in auto)
  qed
qed

lemma RequireColonyOwner_Inr:
  fixes s :: ctl_state
  assumes "RequireColonyOwner rid c s = (Inr x, s')"
  shows "\<exists>r \<in> set (COLONIES s). CO_NAME r = c \<and> CO_COLONY_ID r = rid"
proof -
  from assms obtain cid s1 where c: "resolveColony c s = (Inr cid, s1)" and "guardM (rid = cid) (Err ''Access denied, not colony owner'') s1 = (Inr x, s')"
    unfolding RequireColonyOwner_def by (rule bindM_eq_Inr)
  then have "rid = cid" by (auto simp: guardM_def split: if_splits)
  moreover from c obtain col s2 where "GetColonyByName c s = (Inr (Some col), s2)" "colony_ID col = cid"
    unfolding resolveColony_def by (auto elim!: bindM_eq_Inr split: option.splits if_splits)
  ultimately show ?thesis by (auto elim!: GetColonyByName_Some)
qed

lemma stranger_refused:
  fixes s :: ctl_state
  assumes "stranger rid s"
  shows "RequireMembership rid c a s \<noteq> (Inr x, s')" "RequireColonyOwner rid c s \<noteq> (Inr x, s')"
    "GetServerID s = (Inr sid, s') \<Longrightarrow> rid \<noteq> sid"
  using assms RequireMembership_Inr[of rid c a s] RequireColonyOwner_Inr[of rid c s] GetServerID_Inr[of s]
  by (fastforce simp: stranger_def)+

lemma denied:
  assumes "keeps (stranger_rel rid) m" "\<And>s x s'. stranger rid s \<Longrightarrow> m s \<noteq> (Inr x, s')"
    and "\<And>e. keeps (stranger_rel rid) (f e)"
  shows "keeps (stranger_rel rid) (bindM (tryM m) (\<lambda>res. (case res of Inl e \<Rightarrow> f e | Inr x \<Rightarrow> k x)))"
proof (rule keepsI)
  fix s
  show "stranger_rel rid s (snd (bindM (tryM m) (\<lambda>res. (case res of Inl e \<Rightarrow> f e | Inr x \<Rightarrow> k x)) s))"
  proof (cases "stranger rid s")
    case True
    then obtain e s1 where "m s = (Inl e, s1)" using assms(2)[OF True] by (metis sum.exhaust surj_pair)
    moreover with assms(1) have "stranger_rel rid s s1" by (metis keepsD snd_conv)
    moreover have "stranger_rel rid s1 (snd (f e s1))" by (rule keepsD[OF assms(3)])
    ultimately show ?thesis using str.rel_trans by (auto simp: bindM_def tryM_def)
  qed (simp add: stranger_rel_def)
qed

lemma denied_checks:
  "keeps (stranger_rel rid) (orReply (RequireMembership rid c a) code k)"
  "keeps (stranger_rel rid) (orReply (RequireColonyOwner rid c) code k)"
  "keeps (stranger_rel rid) (bindM (tryM (RequireMembership rid c a)) (\<lambda>res. (case res of Inl e \<Rightarrow> retM [] | Inr x \<Rightarrow> k x)))"
  unfolding orReply_def by (intro denied str.quiet_checks stranger_refused str.keeps_retM; assumption)+

lemma denied_server:
  "keeps (stranger_rel rid) (orReply GetServerID c1 (\<lambda>sid. orReply (RequireServerOwner rid sid) c2 (k sid)))"
proof (rule keepsI)
  fix s
  show "stranger_rel rid s (snd (orReply GetServerID c1 (\<lambda>sid. orReply (RequireServerOwner rid sid) c2 (k sid)) s))"
  proof (cases "stranger rid s")
    case True
    obtain r s1 where g: "GetServerID s = (r, s1)" by fastforce
    then have "same_store s s1" by (rule after_quiet[OF sto.quiet_lookups(6)])
    with g stranger_refused(3)[OF True, of _ s1] show ?thesis
      by (cases r) (auto simp: stranger_rel_def orReply_def bindM_def tryM_def RequireServerOwner_def guardM_def)
  qed (simp add: stranger_rel_def)
qed

lemmas denied_rules = denied_checks denied_server
lemmas quiet_rules = str.keeps_rules str.quiet_readers str.quiet_checks str.quiet_replies str.keeps_withMsg str.keeps_orNil
  str.keeps_orReply str.keeps_orReplyTwice

lemma liftE_orReply:
  "orReply (liftE (Inr x)) code k = k x" "is_error e \<Longrightarrow> orReply (liftE (Inl e)) code k = retM (handleHTTPError e code)"
  by (simp_all add: fun_eq_iff orReply_def bindM_def tryM_def)

section \<open>Requests of strangers\<close>

lemma stranger_process_handlers:
  "keeps (stranger_rel rid) (handleSubmitHTTPRequest cfg rid pt m1)"
  "keeps (stranger_rel rid) (handleAssignProcessHTTPRequest leader srt others waits cfg rid pt m2)"
  "keeps (stranger_rel rid) (handleGetProcessHistHTTPRequest rid pt m3)"
  "keeps (stranger_rel rid) (handleGetProcessesHTTPRequest rid pt m4)"
  "keeps (stranger_rel rid) (handleGetProcessHTTPRequest rid pt m5)"
  "keeps (stranger_rel rid) (handleRemoveProcessHTTPRequest rid pt m6)"
  "keeps (stranger_rel rid) (handleRemoveAllProcessesHTTPRequest rid pt m7)"
  "keeps (stranger_rel rid) (handleSetOutputHTTPRequest rid pt m8)"
  "keeps (stranger_rel rid) (handleCloseSuccessfulHTTPRequest rid pt m9)"
  "keeps (stranger_rel rid) (handleCloseFailedHTTPRequest rid pt m10)"
  "keeps (stranger_rel rid) (handlePauseAssignmentsHTTPRequest rid pt m11)"
  "keeps (stranger_rel rid) (handleResumeAssignmentsHTTPRequest rid pt m12)"
  "keeps (stranger_rel rid) (handleGetPauseStatusHTTPRequest rid pt m13)"
  unfolding handleSubmitHTTPRequest_def handleAssignProcessHTTPRequest_def handleGetProcessHistHTTPRequest_def
    handleGetProcessesHTTPRequest_def handleGetProcessHTTPRequest_def handleRemoveProcessHTTPRequest_def
    handleRemoveAllProcessesHTTPRequest_def handleSetOutputHTTPRequest_def handleCloseSuccessfulHTTPRequest_def
    handleCloseFailedHTTPRequest_def handlePauseAssignmentsHTTPRequest_def handleResumeAssignmentsHTTPRequest_def
    handleGetPauseStatusHTTPRequest_def memberOfProcess_def
  by (rule denied_rules | rule quiet_rules)+

lemma stranger_graph_handlers:
  "keeps (stranger_rel rid) (handleSubmitWorkflowHTTPRequest rid pt m1)"
  "keeps (stranger_rel rid) (handleGetProcessGraphHTTPRequest rid pt m2)"
  "keeps (stranger_rel rid) (handleGetProcessGraphsHTTPRequest rid pt m3)"
  "keeps (stranger_rel rid) (handleRemoveProcessGraphHTTPRequest rid pt m4)"
  "keeps (stranger_rel rid) (handleRemoveAllProcessGraphsHTTPRequest rid pt m5)"
  "keeps (stranger_rel rid) (handleAddChildHTTPRequest rid pt m6)"
  "keeps (stranger_rel rid) (handleAddAttributeHTTPRequest rid pt m7)"
  "keeps (stranger_rel rid) (handleGetAttributeHTTPRequest rid pt m8)"
  "keeps (stranger_rel rid) (handleAddFunctionHTTPRequest rid pt m9)"
  "keeps (stranger_rel rid) (handleGetFunctionsHTTPRequest rid pt m10)"
  "keeps (stranger_rel rid) (handleRemoveFunctionHTTPRequest rid pt m11)"
  "keeps (stranger_rel rid) (handleAddLogHTTPRequest rid pt m12)"
  "keeps (stranger_rel rid) (handleGetLogsHTTPRequest rid pt m13)"
  "keeps (stranger_rel rid) (handleSearchLogsHTTPRequest rid pt m14)"
  unfolding handleSubmitWorkflowHTTPRequest_def handleGetProcessGraphHTTPRequest_def handleGetProcessGraphsHTTPRequest_def
    handleRemoveProcessGraphHTTPRequest_def handleRemoveAllProcessGraphsHTTPRequest_def handleAddChildHTTPRequest_def
    handleAddAttributeHTTPRequest_def handleGetAttributeHTTPRequest_def handleAddFunctionHTTPRequest_def
    handleGetFunctionsHTTPRequest_def handleRemoveFunctionHTTPRequest_def handleAddLogHTTPRequest_def
    handleGetLogsHTTPRequest_def handleSearchLogsHTTPRequest_def memberOfProcess_def memberOfGraph_def Let_def
  by (rule denied_rules | rule quiet_rules)+

lemma stranger_member_handlers:
  "keeps (stranger_rel rid) (handleAddExecutorHTTPRequest cfg rid pt m1)"
  "keeps (stranger_rel rid) (handleGetExecutorsHTTPRequest rid pt m2)"
  "keeps (stranger_rel rid) (handleGetExecutorHTTPRequest rid pt m3)"
  "keeps (stranger_rel rid) (handleApproveExecutorHTTPRequest rid pt m4)"
  "keeps (stranger_rel rid) (handleRejectExecutorHTTPRequest rid pt m5)"
  "keeps (stranger_rel rid) (handleRemoveExecutorHTTPRequest rid pt m6)"
  "keeps (stranger_rel rid) (handleReportAllocationsHTTPRequest rid pt m7)"
  "keeps (stranger_rel rid) (handleAddColonyHTTPRequest rid pt m8)"
  "keeps (stranger_rel rid) (handleRemoveColonyHTTPRequest rid pt m9)"
  "keeps (stranger_rel rid) (handleGetColoniesHTTPRequest rid pt m10)"
  "keeps (stranger_rel rid) (handleGetColonyHTTPRequest rid pt m11)"
  "keeps (stranger_rel rid) (handleColonyStatisticsHTTPRequest rid pt m12)"
  "keeps (stranger_rel rid) (handleAddUserHTTPRequest rid pt m13)"
  "keeps (stranger_rel rid) (handleGetUsersHTTPRequest rid pt m14)"
  "keeps (stranger_rel rid) (handleGetUserHTTPRequest rid pt m15)"
  "keeps (stranger_rel rid) (handleRemoveUserHTTPRequest rid pt m16)"
  unfolding handleAddExecutorHTTPRequest_def handleGetExecutorsHTTPRequest_def handleGetExecutorHTTPRequest_def
    handleApproveExecutorHTTPRequest_def handleRejectExecutorHTTPRequest_def handleRemoveExecutorHTTPRequest_def
    handleReportAllocationsHTTPRequest_def handleAddColonyHTTPRequest_def handleRemoveColonyHTTPRequest_def
    handleGetColoniesHTTPRequest_def handleGetColonyHTTPRequest_def handleColonyStatisticsHTTPRequest_def
    handleAddUserHTTPRequest_def handleGetUsersHTTPRequest_def handleGetUserHTTPRequest_def handleRemoveUserHTTPRequest_def
    ownerOfExecutor_def serverOwner_def withColony_def
  by (rule denied_rules | rule quiet_rules)+

lemma stranger_identity_handlers:
  "keeps (stranger_rel rid) (handleChangeUserIDHTTPRequest rid pt js m1)"
  "keeps (stranger_rel rid) (handleChangeExecutorIDHTTPRequest rid pt js m2)"
  "keeps (stranger_rel rid) (handleChangeColonyIDHTTPRequest rid pt js m3)"
  "keeps (stranger_rel rid) (handleChangeServerIDHTTPRequest rid pt js m4)"
  "keeps (stranger_rel rid) (handleStatisticsHTTPRequest rid pt m5)"
  "keeps (stranger_rel rid) (handleGetClusterHTTPRequest cluster rid pt m6)"
  unfolding handleChangeUserIDHTTPRequest_def handleChangeExecutorIDHTTPRequest_def handleChangeColonyIDHTTPRequest_def
    handleChangeServerIDHTTPRequest_def handleStatisticsHTTPRequest_def handleGetClusterHTTPRequest_def serverOwner_def
  by (rule denied_rules | rule quiet_rules)+

lemma stranger_data_handlers:
  "keeps (stranger_rel rid) (handleAddGeneratorHTTPRequest parse rid pt m1)"
  "keeps (stranger_rel rid) (handleGetGeneratorHTTPRequest cfg rid pt m2)"
  "keeps (stranger_rel rid) (handleResolveGeneratorHTTPRequest rid pt m3)"
  "keeps (stranger_rel rid) (handleGetGeneratorsHTTPRequest rid pt m4)"
  "keeps (stranger_rel rid) (handlePackGeneratorHTTPRequest rid pt m5)"
  "keeps (stranger_rel rid) (handleRemoveGeneratorHTTPRequest rid pt m6)"
  "keeps (stranger_rel rid) (handleAddCronHTTPRequest parse next rid pt m7)"
  "keeps (stranger_rel rid) (handleGetCronHTTPRequest cfg rid pt m8)"
  "keeps (stranger_rel rid) (handleGetCronsHTTPRequest rid pt m9)"
  "keeps (stranger_rel rid) (handleRemoveCronHTTPRequest rid pt m10)"
  unfolding handleAddGeneratorHTTPRequest_def handleGetGeneratorHTTPRequest_def handleResolveGeneratorHTTPRequest_def
    handleGetGeneratorsHTTPRequest_def handlePackGeneratorHTTPRequest_def handleRemoveGeneratorHTTPRequest_def
    handleAddCronHTTPRequest_def handleGetCronHTTPRequest_def handleGetCronsHTTPRequest_def handleRemoveCronHTTPRequest_def
    memberOfGenerator_def memberOfCron_def
  by (rule denied_rules | rule quiet_rules)+

lemma stranger_file_handlers:
  "keeps (stranger_rel rid) (handleAddFileHTTPRequest rid pt m1)"
  "keeps (stranger_rel rid) (handleGetFileHTTPRequest rid pt m2)"
  "keeps (stranger_rel rid) (handleGetFilesHTTPRequest rid pt m3)"
  "keeps (stranger_rel rid) (handleGetFileLabelsHTTPRequest rid pt m4)"
  "keeps (stranger_rel rid) (handleRemoveFileHTTPRequest rid pt m5)"
  "keeps (stranger_rel rid) (handleCreateSnapshotHTTPRequest rid pt m6)"
  "keeps (stranger_rel rid) (handleGetSnapshotHTTPRequest rid pt m7)"
  "keeps (stranger_rel rid) (handleGetSnapshotsHTTPRequest rid pt m8)"
  "keeps (stranger_rel rid) (handleRemoveSnapshotHTTPRequest rid pt m9)"
  "keeps (stranger_rel rid) (handleRemoveAllSnapshotsHTTPRequest rid pt m10)"
  unfolding handleAddFileHTTPRequest_def handleGetFileHTTPRequest_def handleGetFilesHTTPRequest_def
    handleGetFileLabelsHTTPRequest_def handleRemoveFileHTTPRequest_def handleCreateSnapshotHTTPRequest_def
    handleGetSnapshotHTTPRequest_def handleGetSnapshotsHTTPRequest_def handleRemoveSnapshotHTTPRequest_def
    handleRemoveAllSnapshotsHTTPRequest_def Let_def
  by (rule denied_rules | rule quiet_rules)+

lemmas stranger_handlers = stranger_process_handlers stranger_graph_handlers stranger_member_handlers
  stranger_identity_handlers stranger_data_handlers stranger_file_handlers

text \<open>The groups of the switch, all but the case of \<open>runcronmsg\<close>.\<close>

definition option_keeps :: "(ctl_state \<Rightarrow> ctl_state \<Rightarrow> bool) \<Rightarrow> handler option \<Rightarrow> bool" where
  "option_keeps R h \<longleftrightarrow> (case h of None \<Rightarrow> True | Some m \<Rightarrow> keeps R m)"

lemma option_keeps_simps [simp]: "option_keeps R None" "option_keeps R (Some m) = keeps R m"
  by (simp_all add: option_keeps_def)

lemma option_keeps_if:
  "(c \<Longrightarrow> option_keeps R a) \<Longrightarrow> (\<not> c \<Longrightarrow> option_keeps R b) \<Longrightarrow> option_keeps R (if c then a else b)"
  by simp

lemma option_keeps_Some: "keeps R m \<Longrightarrow> option_keeps R (Some m)"
  by simp

lemma option_keeps_first: "\<forall>h \<in> set hs. option_keeps R h \<Longrightarrow> option_keeps R (first_some hs)"
  by (induction hs) (auto split: option.split)

lemma stranger_groups:
  "option_keeps (stranger_rel rid) (dispatch_user uc rid pt js)"
  "option_keeps (stranger_rel rid) (dispatch_colony cc rid pt js)"
  "option_keeps (stranger_rel rid) (dispatch_executor env ec rid pt js)"
  "option_keeps (stranger_rel rid) (dispatch_function fc rid pt js)"
  "option_keeps (stranger_rel rid) (dispatch_process env pc rid pt js)"
  "option_keeps (stranger_rel rid) (dispatch_attribute ac rid pt js)"
  "option_keeps (stranger_rel rid) (dispatch_graph gc rid pt js)"
  "option_keeps (stranger_rel rid) (dispatch_generator env nc rid pt js)"
  "option_keeps (stranger_rel rid) (dispatch_server env sc rid pt js)"
  "option_keeps (stranger_rel rid) (dispatch_log lc rid pt js)"
  "option_keeps (stranger_rel rid) (dispatch_file ic rid pt js)"
  "option_keeps (stranger_rel rid) (dispatch_snapshot tc rid pt js)"
  "option_keeps (stranger_rel rid) (dispatch_security yc rid pt js)"
  "pt \<noteq> ''runcronmsg'' \<Longrightarrow> option_keeps (stranger_rel rid) (dispatch_cron env xc rid pt js)"
  unfolding dispatch_user_def dispatch_colony_def dispatch_executor_def dispatch_function_def dispatch_process_def
    dispatch_attribute_def dispatch_graph_def dispatch_generator_def dispatch_server_def dispatch_log_def dispatch_file_def
    dispatch_snapshot_def dispatch_security_def dispatch_cron_def
  by (rule option_keeps_if option_keeps_Some option_keeps_simps(1) stranger_handlers | erule (1) notE)+

section \<open>A concrete server\<close>

text \<open>
  A server that takes the signature itself as the identity, and whose decoders refuse every text but
  those of requests to remove the colony \<open>c\<close> and to run a cron.
\<close>

definition refused :: "string \<Rightarrow> failure + 'm rpc_msg_scheme" where
  "refused js = Inl (Err ''unexpected end of JSON input'')"

definition demo_env :: api_env where
  "demo_env = \<lparr>
     api_cfg = \<lparr>srv_exclusiveAssign = False, srv_allowExecutorReregister = False, srv_unprivilegedExecutors = False,
       srv_generatorPeriod = 1000, srv_cronPeriod = 1000\<rparr>,
     api_leader = None, api_sort = byLowestPriorityTime, api_others = id, api_waits = [],
     api_parse = (\<lambda>_. Inr \<lparr>wf_ColonyName = ''c'', wf_FunctionSpecs = []\<rparr>), api_next = \<lparr>env_LoadLocation = (\<lambda>_. Inl (Err [])), env_ParseDuration = (\<lambda>_. Inl (Err [])), env_Local = (\<lambda>_. (0, 0, 0))\<rparr>,
     api_cluster = [], api_buildVersion = [], api_buildTime = [], api_decodePayload = id,
     api_recoverID = (\<lambda>_ signature. Inr signature), api_version_codec = refused,
     api_user_codec = \<lparr>dec_AddUserMsg = refused, dec_GetUsersMsg = refused, dec_GetUserMsg = refused,
       dec_RemoveUserMsg = refused\<rparr>,
     api_colony_codec = \<lparr>dec_AddColonyMsg = refused,
       dec_RemoveColonyMsg = (\<lambda>_. Inr \<lparr>MsgType = ''removecolonymsg'', RemoveColony_ColonyName = ''c''\<rparr>),
       dec_GetColoniesMsg = refused, dec_GetColonyMsg = refused\<rparr>,
     api_executor_codec = \<lparr>dec_AddExecutorMsg = refused, dec_GetExecutorsMsg = refused, dec_GetExecutorMsg = refused,
       dec_ApproveExecutorMsg = refused, dec_RejectExecutorMsg = refused, dec_RemoveExecutorMsg = refused,
       dec_ReportAllocationsMsg = refused\<rparr>,
     api_function_codec = \<lparr>dec_AddFunctionMsg = refused, dec_GetFunctionsMsg = refused,
       dec_RemoveFunctionMsg = refused\<rparr>,
     api_process_codec = \<lparr>dec_SubmitFunctionSpecMsg = refused, dec_AssignProcessMsg = refused,
       dec_PauseAssignmentsMsg = refused, dec_ResumeAssignmentsMsg = refused, dec_GetPauseStatusMsg = refused,
       dec_GetProcessHistMsg = refused, dec_GetProcessesMsg = refused, dec_GetProcessMsg = refused,
       dec_RemoveProcessMsg = refused, dec_RemoveAllProcessesMsg = refused, dec_CloseSuccessfulMsg = refused,
       dec_CloseFailedMsg = refused, dec_SetOutputMsg = refused, dec_GetColonyStatisticsMsg = refused\<rparr>,
     api_attribute_codec = \<lparr>dec_AddAttributeMsg = refused, dec_GetAttributeMsg = refused\<rparr>,
     api_graph_codec = \<lparr>dec_SubmitWorkflowSpecMsg = refused, dec_GetProcessGraphMsg = refused,
       dec_GetProcessGraphsMsg = refused, dec_RemoveProcessGraphMsg = refused, dec_RemoveAllProcessGraphsMsg = refused,
       dec_AddChildMsg = refused\<rparr>,
     api_generator_codec = \<lparr>dec_AddGeneratorMsg = refused, dec_GetGeneratorMsg = refused,
       dec_ResolveGeneratorMsg = refused, dec_GetGeneratorsMsg = refused, dec_PackGeneratorMsg = refused,
       dec_RemoveGeneratorMsg = refused\<rparr>,
     api_cron_codec = \<lparr>dec_AddCronMsg = refused, dec_GetCronMsg = refused, dec_GetCronsMsg = refused,
       dec_RunCronMsg = (\<lambda>cronID. Inr \<lparr>MsgType = ''runcronmsg'', RunCron_CronID = cronID\<rparr>),
       dec_RemoveCronMsg = refused\<rparr>,
     api_server_codec = \<lparr>dec_GetStatisticsMsg = refused, dec_GetClusterMsg = refused\<rparr>,
     api_log_codec = \<lparr>dec_AddLogMsg = refused, dec_GetLogsMsg = refused, dec_SearchLogsMsg = refused\<rparr>,
     api_file_codec = \<lparr>dec_AddFileMsg = refused, dec_GetFileMsg = refused, dec_GetFilesMsg = refused,
       dec_GetFileLabelsMsg = refused, dec_RemoveFileMsg = refused\<rparr>,
     api_snapshot_codec = \<lparr>dec_CreateSnapshotMsg = refused, dec_GetSnapshotMsg = refused, dec_GetSnapshotsMsg = refused,
       dec_RemoveSnapshotMsg = refused, dec_RemoveAllSnapshotsMsg = refused\<rparr>,
     api_security_codec = \<lparr>dec_ChangeUserIDMsg = refused, dec_ChangeExecutorIDMsg = refused,
       dec_ChangeColonyIDMsg = refused, dec_ChangeServerIDMsg = refused\<rparr>\<rparr>"

definition demo_cron :: cron_row where
  "demo_cron = \<lparr>CR_CRON_ID = ''k'', CR_COLONY_NAME = ''c'', CR_NAME = ''n'', CR_CRON_EXPR = '''', CR_INTERVAL = 10,
     CR_RANDOM = False, CR_NEXT_RUN = 0, CR_LAST_RUN = 0, CR_WORKFLOW_SPEC = '''', CR_PREV_PROCESSGRAPH_ID = '''',
     CR_WAIT_FOR_PREV_PROCESSGRAPH = False, CR_INITIATOR_ID = ''e'', CR_INITIATOR_NAME = ''exec''\<rparr>"

definition demo_server :: ctl_state where
  "demo_server = (demo_ctl RUNNING WAITING)\<lparr>COLONIES := [\<lparr>CO_NAME = ''c'', CO_COLONY_ID = ''i''\<rparr>],
     EXECUTORS := [executor_row_of 0 demo_executor], SERVER := [''root''], CRONS := [demo_cron]\<rparr>"

text \<open>
  C2: a request signed by an identity that is no executor, no user, no colony and not the server, is
  answered without changing any table, channel or signal, whatever the request is and whichever
  statements fail; only a request to run a cron is excepted.
\<close>

theorem stranger_changes_nothing:
  assumes "stranger rid s" "api_recoverID env (rpc_Payload msg) (rpc_Signature msg) = Inr rid" "rpc_PayloadType msg \<noteq> ''runcronmsg''"
  shows "same_store s (snd (handleAPIRequest env (Inr msg) s))"
proof -
  let ?js = "api_decodePayload env (rpc_Payload msg)" and ?pt = "rpc_PayloadType msg"
  have "option_keeps (stranger_rel rid) (dispatch env rid ?pt ?js)"
    unfolding dispatch_def using assms(3) by (intro option_keeps_first) (simp add: stranger_groups)
  then have handled: "keeps (stranger_rel rid) handle" if "dispatch env rid ?pt ?js = Some handle" for handle
    using that by simp
  have "keeps (stranger_rel rid) (handleAPIRequest env (Inr msg))"
    unfolding handleAPIRequest_def Let_def handleVersionHTTPRequest_def
    by (simp only: liftE_orReply assms(2) sum.case) (intro quiet_rules handled)
  then show ?thesis using assms(1) keepsD[of "stranger_rel rid"] by (auto simp: stranger_rel_def)
qed

lemma demo_server_stranger: "stranger ''nobody'' demo_server"
  by (simp add: stranger_def demo_server_def demo_ctl_def demo_db_def new_pq_def pq_state.defs ctl_state.defs
      executor_row_of_def demo_executor_def CreateExecutor_def Let_def)

theorem stranger_changes_nothing_witness:
  "same_store demo_server (snd (handleAPIRequest demo_env
     (Inr \<lparr>rpc_Signature = ''nobody'', rpc_PayloadType = ''removecolonymsg'', rpc_Payload = ''x''\<rparr>) demo_server))"
  by (rule stranger_changes_nothing[OF demo_server_stranger]) (simp_all add: demo_env_def)

end
