(* ===== verification/Request_Facts.thy ===== *)
theory Request_Facts
  imports Access_Facts Pq_Member_Facts
begin

text \<open>
  More on requests: what the checks of the validator grant, who may act on a running process, and the
  one handler that acts before it checks.
\<close>

section \<open>What the checks grant\<close>

text \<open>Rows are read by splitting the stored name at its colons: the name can be read if there is exactly one.\<close>

definition readable_name :: "string \<Rightarrow> bool" where
  "readable_name n \<longleftrightarrow> count_list n CHR '':'' = 1"

lemma strip_key_readable:
  "strip_key what n = (if readable_name n then Inr (Split_colon n ! 1) else Inl (Err (''Failed to parse '' @ what @ '' name'')))"
proof -
  have "readable_name n \<longleftrightarrow> length (Split_colon n) = 2" by (simp add: readable_name_def length_Split_colon)
  then show ?thesis by (auto simp: strip_key_def numeral_2_eq_2 length_Suc_conv split: list.splits)
qed

lemma parse_executor_readable:
  "parse_executor r = (if readable_name (EX_NAME r) then Inr (executor_of r) else Inl (Err ''Failed to parse Executor name''))"
  by (simp add: parse_executor_def strip_key_readable executor_of_def)

lemma parse_user_readable:
  "parse_user r = (if readable_name (US_NAME r) then Inr (user_of r) else Inl (Err ''Failed to parse User name''))"
  by (simp add: parse_user_def strip_key_readable user_of_def)

lemma mapM_liftE_cases:
  assumes "\<And>x. f x = (if ok x then Inr (g x) else Inl e)"
  shows "mapM (\<lambda>x. liftE (f x)) xs s = (if \<forall>x \<in> set xs. ok x then Inr (map g xs) else Inl e, s)"
proof (cases "\<forall>x \<in> set xs. ok x")
  case True
  then show ?thesis using mapM_liftE_Inr[of xs f g s] assms by simp
next
  case False
  then obtain x where "x \<in> set xs" "\<not> ok x" by blast
  then have "mapM (\<lambda>x. liftE (f x)) xs s = (Inl e, s)" by (intro mapM_liftE_Inl[of x]) (auto simp: assms)
  with False show ?thesis by simp
qed

lemma GetExecutorByID_reads:
  "healthy s \<Longrightarrow> GetExecutorByID eid s =
     (if \<forall>r \<in> set (EXECUTORS s). EX_EXECUTOR_ID r = eid \<longrightarrow> readable_name (EX_NAME r)
      then Inr (map_option executor_of (find (\<lambda>r. EX_EXECUTOR_ID r = eid) (EXECUTORS s)))
      else Inl (Err ''Failed to parse Executor name''), s)"
  by (auto simp: GetExecutorByID_def select_executors_def parseExecutors_def bindM_def sql_query_healthy
      mapM_liftE_cases[OF parse_executor_readable] first_of_filter)

lemma GetUserByID_reads:
  "healthy s \<Longrightarrow> GetUserByID c uid s =
     (if \<forall>r \<in> set (USERS s). US_COLONY_NAME r = c \<and> US_USER_ID r = uid \<longrightarrow> readable_name (US_NAME r)
      then Inr (map_option user_of (find (\<lambda>r. US_COLONY_NAME r = c \<and> US_USER_ID r = uid) (USERS s)))
      else Inl (Err ''Failed to parse User name''), s)"
  by (auto simp: GetUserByID_def select_users_def parseUsers_def bindM_def sql_query_healthy
      mapM_liftE_cases[OF parse_user_readable] first_of_filter)

lemma executor_of_fields:
  assumes "readable_name (EX_NAME r)"
  shows "exec_ColonyName (executor_of r) = EX_COLONY_NAME r" "exec_State (executor_of r) = EX_STATE r"
    "exec_ID (executor_of r) = EX_EXECUTOR_ID r"
  using assms by (auto simp: executor_of_def parse_executor_def strip_key_readable CreateExecutorFromDB_def CreateExecutor_def)

lemma user_of_fields:
  assumes "readable_name (US_NAME r)"
  shows "user_ColonyName (user_of r) = US_COLONY_NAME r" "user_ID (user_of r) = US_USER_ID r"
  using assms by (auto simp: user_of_def parse_user_def strip_key_readable CreateUser_def)

lemma rows_readable:
  "executor_row_ok r \<Longrightarrow> readable_name (EX_NAME r)" "user_row_ok u \<Longrightarrow> readable_name (US_NAME u)"
  by (auto simp: executor_row_ok_def user_row_ok_def readable_name_def colony_key_def no_colon_def count_list_0_iff)

lemma colony_found:
  fixes s :: ctl_state
  assumes "healthy s"
  obtains col where "c \<in> set (map CO_NAME (COLONIES s))" "GetColonyByName c s = (Inr (Some col), s)" "colony_Name col = c"
  | "c \<notin> set (map CO_NAME (COLONIES s))" "GetColonyByName c s = (Inr None, s)"
proof (cases "find (\<lambda>r. CO_NAME r = c) (COLONIES s)")
  case None
  then show thesis using that(2) assms by (auto simp: GetColonyByName_run find_None_iff)
next
  case (Some r)
  then have "r \<in> set (COLONIES s)" "CO_NAME r = c" by (auto simp: find_Some_iff)
  then show thesis using that(1)[of "parse_colony r"] Some assms by (auto simp: GetColonyByName_run)
qed

definition valid_executor_of :: "ctl_state \<Rightarrow> string \<Rightarrow> string \<Rightarrow> bool \<Rightarrow> bool" where
  "valid_executor_of s rid c a \<longleftrightarrow>
     (case find (\<lambda>r. EX_EXECUTOR_ID r = rid) (EXECUTORS s) of
        None \<Rightarrow> False | Some r \<Rightarrow> EX_COLONY_NAME r = c \<and> (a \<longrightarrow> EX_STATE r = APPROVED))"

definition executor_readable :: "ctl_state \<Rightarrow> string \<Rightarrow> bool" where
  "executor_readable s rid \<longleftrightarrow> (\<forall>r \<in> set (EXECUTORS s). EX_EXECUTOR_ID r = rid \<longrightarrow> readable_name (EX_NAME r))"

lemma checkIfExecutorIsValid_exact:
  fixes s :: ctl_state
  assumes "healthy s"
  obtains "c \<in> set (map CO_NAME (COLONIES s))" "executor_readable s rid" "valid_executor_of s rid c a"
    "checkIfExecutorIsValid rid c a s = (Inr (), s)"
  | e where "\<not> (c \<in> set (map CO_NAME (COLONIES s)) \<and> executor_readable s rid \<and> valid_executor_of s rid c a)"
    "checkIfExecutorIsValid rid c a s = (Inl (Err e), s)"
proof (rule colony_found[OF assms(1), of c])
  fix col assume c: "c \<in> set (map CO_NAME (COLONIES s))" "GetColonyByName c s = (Inr (Some col), s)" "colony_Name col = c"
  note get = GetExecutorByID_reads[OF assms, of rid, folded executor_readable_def]
  show thesis
  proof (cases "executor_readable s rid \<and> find (\<lambda>r. EX_EXECUTOR_ID r = rid) (EXECUTORS s) \<noteq> None")
    case False
    then have "\<exists>e. checkIfExecutorIsValid rid c a s = (Inl (Err e), s)"
      using c get by (auto simp: checkIfExecutorIsValid_def bindM_def not_member_def)
    with False show thesis using that(2) by (auto simp: valid_executor_of_def)
  next
    case True
    then obtain r where r: "find (\<lambda>r. EX_EXECUTOR_ID r = rid) (EXECUTORS s) = Some r" by blast
    then have "readable_name (EX_NAME r)" using True by (auto simp: executor_readable_def find_Some_iff)
    note fields = executor_of_fields[OF this]
    have run: "checkIfExecutorIsValid rid c a s =
        (if EX_COLONY_NAME r \<noteq> c then throwM (not_member c)
         else if a \<and> EX_STATE r \<noteq> APPROVED then throwM (Err (''Access denied, Executor with Id <'' @ rid @ ''> is not approved''))
         else retM ()) s"
      using True r c get fields by (simp add: checkIfExecutorIsValid_def bindM_def)
    have ok: "valid_executor_of s rid c a \<longleftrightarrow> EX_COLONY_NAME r = c \<and> (a \<longrightarrow> EX_STATE r = APPROVED)"
      using r by (simp add: valid_executor_of_def)
    show thesis
    proof (cases "valid_executor_of s rid c a")
      case valid: True
      then show thesis using that(1) c(1) run ok True by simp
    next
      case False
      then have "\<exists>e. checkIfExecutorIsValid rid c a s = (Inl (Err e), s)"
        using run ok by (simp add: not_member_def)
      then show thesis using that(2) False by blast
    qed
  qed
qed (use that(2) in \<open>auto simp: checkIfExecutorIsValid_def bindM_def\<close>)

lemma checkIfExecutorIsValid_run:
  fixes s :: ctl_state
  assumes "healthy s" "\<forall>r \<in> set (EXECUTORS s). executor_row_ok r"
  obtains "c \<in> set (map CO_NAME (COLONIES s))" "valid_executor_of s rid c a" "checkIfExecutorIsValid rid c a s = (Inr (), s)"
  | e where "\<not> (c \<in> set (map CO_NAME (COLONIES s)) \<and> valid_executor_of s rid c a)" "checkIfExecutorIsValid rid c a s = (Inl (Err e), s)"
proof -
  have "executor_readable s rid" using assms(2) rows_readable(1) by (auto simp: executor_readable_def)
  then show thesis using checkIfExecutorIsValid_exact[OF assms(1), of c rid a] that by blast
qed

definition known_user :: "ctl_state \<Rightarrow> string \<Rightarrow> string \<Rightarrow> bool" where
  "known_user s uid c \<longleftrightarrow> (\<exists>r \<in> set (USERS s). US_COLONY_NAME r = c \<and> US_USER_ID r = uid)"

definition user_readable :: "ctl_state \<Rightarrow> string \<Rightarrow> string \<Rightarrow> bool" where
  "user_readable s uid c \<longleftrightarrow> (\<forall>r \<in> set (USERS s). US_COLONY_NAME r = c \<and> US_USER_ID r = uid \<longrightarrow> readable_name (US_NAME r))"

lemma checkIfUserIsValid_exact:
  fixes s :: ctl_state
  assumes "healthy s"
  obtains "c \<in> set (map CO_NAME (COLONIES s))" "user_readable s uid c" "known_user s uid c" "checkIfUserIsValid uid c s = (Inr (), s)"
  | e where "\<not> (c \<in> set (map CO_NAME (COLONIES s)) \<and> user_readable s uid c \<and> known_user s uid c)"
    "checkIfUserIsValid uid c s = (Inl (Err e), s)"
proof (rule colony_found[OF assms(1), of c])
  fix col assume c: "c \<in> set (map CO_NAME (COLONIES s))" "GetColonyByName c s = (Inr (Some col), s)" "colony_Name col = c"
  note get = GetUserByID_reads[OF assms, of c uid, folded user_readable_def]
  have known: "known_user s uid c \<longleftrightarrow> find (\<lambda>r. US_COLONY_NAME r = c \<and> US_USER_ID r = uid) (USERS s) \<noteq> None"
    by (auto simp: known_user_def find_None_iff)
  show thesis
  proof (cases "user_readable s uid c \<and> known_user s uid c")
    case False
    then have "\<exists>e. checkIfUserIsValid uid c s = (Inl (Err e), s)"
      using c get known by (auto simp: checkIfUserIsValid_def bindM_def not_member_def)
    with False show thesis using that(2) by blast
  next
    case True
    then obtain r where r: "find (\<lambda>r. US_COLONY_NAME r = c \<and> US_USER_ID r = uid) (USERS s) = Some r" using known by blast
    then have "US_COLONY_NAME r = c" "readable_name (US_NAME r)" using True by (auto simp: user_readable_def find_Some_iff)
    then have "user_ColonyName (user_of r) = c" using user_of_fields by simp
    then have "checkIfUserIsValid uid c s = (Inr (), s)"
      using True r c get by (simp add: checkIfUserIsValid_def bindM_def)
    with True show thesis using that(1) c(1) by blast
  qed
qed (use that(2) in \<open>auto simp: checkIfUserIsValid_def bindM_def\<close>)

lemma checkIfUserIsValid_run:
  fixes s :: ctl_state
  assumes "healthy s" "\<forall>r \<in> set (USERS s). user_row_ok r"
  obtains "c \<in> set (map CO_NAME (COLONIES s))" "known_user s uid c" "checkIfUserIsValid uid c s = (Inr (), s)"
  | e where "\<not> (c \<in> set (map CO_NAME (COLONIES s)) \<and> known_user s uid c)" "checkIfUserIsValid uid c s = (Inl (Err e), s)"
proof -
  have "user_readable s uid c" using assms(2) rows_readable(2) by (auto simp: user_readable_def)
  then show thesis using checkIfUserIsValid_exact[OF assms(1), of c uid] that by blast
qed

text \<open>
  C22: with a working database, membership of a colony is granted exactly if the colony exists and the sender's id is
  that of an executor of the colony, approved if approval is asked for, or that of a user of the colony; the check
  changes nothing. An executor or user counts only if the names stored for that id can be read back, that is if
  they hold one colon, the one that separates them from the colony: a member whose name or colony has a colon is
  denied.
\<close>

theorem membership_granted:
  fixes s :: ctl_state
  assumes "healthy s"
  shows "\<exists>res. RequireMembership rid c a s = (res, s) \<and>
    ((res = Inr ()) \<longleftrightarrow> c \<in> set (map CO_NAME (COLONIES s)) \<and>
      ((\<exists>r. find (\<lambda>r. EX_EXECUTOR_ID r = rid) (EXECUTORS s) = Some r \<and> EX_COLONY_NAME r = c \<and>
          (a \<longrightarrow> EX_STATE r = APPROVED)) \<and>
        (\<forall>r \<in> set (EXECUTORS s). EX_EXECUTOR_ID r = rid \<longrightarrow> readable_name (EX_NAME r)) \<or>
       (\<exists>r \<in> set (USERS s). US_COLONY_NAME r = c \<and> US_USER_ID r = rid) \<and>
        (\<forall>r \<in> set (USERS s). US_COLONY_NAME r = c \<and> US_USER_ID r = rid \<longrightarrow> readable_name (US_NAME r))))"
proof -
  note e = checkIfExecutorIsValid_exact[OF assms, of c rid a] and u = checkIfUserIsValid_exact[OF assms, of c rid]
  have ex: "valid_executor_of s rid c a \<longleftrightarrow> (\<exists>r. find (\<lambda>r. EX_EXECUTOR_ID r = rid) (EXECUTORS s) = Some r \<and> EX_COLONY_NAME r = c \<and>
      (a \<longrightarrow> EX_STATE r = APPROVED))" by (auto simp: valid_executor_of_def split: option.splits)
  show ?thesis unfolding ex[symmetric] known_user_def[symmetric] user_readable_def[symmetric] executor_readable_def[symmetric]
    by (rule e; rule u) (auto simp: RequireMembership_def bindM_def tryM_def)
qed

lemma demo_server_tables:
  "healthy demo_server" "EXECUTORS demo_server = [executor_row_of 0 demo_executor]" "USERS demo_server = []"
  "COLONIES demo_server = [\<lparr>CO_NAME = ''c'', CO_COLONY_ID = ''i''\<rparr>]" "CRONS demo_server = [demo_cron]"
  "find_row ''a'' demo_server = Some (demo_row ''a'' RUNNING [] [''b''])"
proof -
  show "healthy demo_server" by (simp add: demo_server_def)
  have "find_row ''a'' demo_server = find_row ''a'' (demo_ctl RUNNING WAITING)" by (simp add: demo_server_def find_row_def)
  then show "find_row ''a'' demo_server = Some (demo_row ''a'' RUNNING [] [''b''])" by simp
qed (simp_all add: demo_server_def demo_ctl_def demo_db_def new_pq_def pq_state.defs ctl_state.defs)

theorem membership_granted_witness:
  "RequireMembership ''e'' ''c'' False demo_server = (Inr (), demo_server) \<and>
   (\<exists>res. RequireMembership ''e'' ''c'' True demo_server = (res, demo_server) \<and> res \<noteq> Inr ())"
  using membership_granted[of demo_server "''e''" "''c''"] demo_executor_row(1)[of 0] rows_readable(1)[OF demo_executor_row(1)[of 0]]
  by (force simp: demo_server_tables executor_row_of_def demo_executor_def CreateExecutor_def Let_def PENDING_def APPROVED_def)

section \<open>Acting on a running process\<close>

lemma memberOfProcess_denied:
  assumes "find_row pid s = Some r" "\<And>p as es. p = process_of_row r as es \<Longrightarrow> keeps same_store (k p)"
  shows "same_store s (snd (memberOfProcess rid pid msg k s))"
proof -
  obtain res s1 where get: "ctl_getProcess pid s = (res, s1)" by fastforce
  have same: "same_store s s1" by (rule after_quiet[OF sto.quiet_controller(1) get])
  show ?thesis
  proof (cases res)
    case (Inr found)
    have "keeps same_store (orNil found msg StatusInternalServerError (\<lambda>process.
        orReply (RequireMembership rid (cond_ColonyName (spec_Conditions (proc_FunctionSpec process))) True)
          StatusForbidden (\<lambda>_. k process)))"
    proof (intro sto.keeps_orNil sto.keeps_orReply sto.quiet_checks)
      fix p assume "found = Some p"
      with get Inr obtain r' as es where "find_row pid s = Some r'" "p = process_of_row r' as es"
        unfolding ctl_getProcess_def by (metis GetProcessByID_Some)
      with assms show "keeps same_store (k p)" by auto
    qed
    from keepsD[OF this, of s1] show ?thesis
      using same same_store_trans get Inr by (auto simp: memberOfProcess_def orReply_def bindM_def tryM_def)
  qed (use same get in \<open>auto simp: memberOfProcess_def orReply_def bindM_def tryM_def\<close>)
qed

text \<open>
  C21: only the executor a process is assigned to may set its output, close it, add attributes to it
  or log for it. For anybody else, whichever colony he is a member of and even if he owns it, these
  requests change no table.
\<close>

theorem only_assignee_acts:
  assumes "find_row pid s = Some r" "PR_ASSIGNED_EXECUTOR_ID r \<noteq> rid"
  shows "same_store s (snd (handleSetOutputHTTPRequest rid pt (Inr \<lparr>MsgType = mt, SetOutput_ProcessID = pid, SetOutput_Output = out\<rparr>) s)) \<and>
    same_store s (snd (handleCloseSuccessfulHTTPRequest rid pt
      (Inr \<lparr>MsgType = mt, CloseSuccessful_ProcessID = pid, CloseSuccessful_Output = out\<rparr>) s)) \<and>
    same_store s (snd (handleCloseFailedHTTPRequest rid pt (Inr \<lparr>MsgType = mt, CloseFailed_ProcessID = pid, CloseFailed_Errors = errs\<rparr>) s)) \<and>
    same_store s (snd (handleAddAttributeHTTPRequest rid pt
      (Inr \<lparr>MsgType = mt, AddAttribute_Attribute = attr\<lparr>attr_TargetID := pid\<rparr>\<rparr>) s)) \<and>
    same_store s (snd (handleAddLogHTTPRequest rid pt (Inr \<lparr>MsgType = mt, AddLog_ProcessID = pid, AddLog_Message = text\<rparr>) s))"
proof (cases "mt = pt")
  case True
  have p: "proc_AssignedExecutorID (process_of_row r as es) \<noteq> rid" for as es
    using assms(2) by (simp add: process_of_row_def CreateProcessFromDB_def)
  note denied = memberOfProcess_denied[OF assms(1)]
  show ?thesis
    unfolding handleSetOutputHTTPRequest_def handleCloseSuccessfulHTTPRequest_def handleCloseFailedHTTPRequest_def
      handleAddAttributeHTTPRequest_def handleAddLogHTTPRequest_def withMsg_def
    using True p
    by (intro conjI impI) (auto simp: Let_def sto.quiet_replies intro!: denied sto.keeps_orReply sto.quiet_lookups)
next
  case False
  then show ?thesis
    unfolding handleSetOutputHTTPRequest_def handleCloseSuccessfulHTTPRequest_def handleCloseFailedHTTPRequest_def
      handleAddAttributeHTTPRequest_def handleAddLogHTTPRequest_def withMsg_def
    by (auto simp: sendError_def)
qed

theorem only_assignee_acts_witness:
  "PR_ASSIGNED_EXECUTOR_ID (demo_row ''a'' RUNNING [] [''b'']) \<noteq> ''i'' \<and>
   same_store demo_server (snd (handleCloseFailedHTTPRequest ''i'' ''closefailedmsg''
     (Inr \<lparr>MsgType = ''closefailedmsg'', CloseFailed_ProcessID = ''a'', CloseFailed_Errors = []\<rparr>) demo_server))"
  using only_assignee_acts[OF demo_server_tables(6), of "''i''" "''closefailedmsg''" "''closefailedmsg''" _ "[]"]
  by (simp add: demo_row_def)

section \<open>Running a cron\<close>

text \<open>Running a cron changes no member: executors, users, colonies and the server id stay.\<close>

definition same_members :: "ctl_state \<Rightarrow> ctl_state \<Rightarrow> bool" where
  "same_members s t \<longleftrightarrow>
     EXECUTORS t = EXECUTORS s \<and> USERS t = USERS s \<and> COLONIES t = COLONIES s \<and> SERVER t = SERVER s"

interpretation mem: store_relation same_members
  by unfold_locales (auto simp: same_members_def same_store_def)

lemma members_writers:
  "keeps same_members (AddAttributes as)" "keeps same_members (insert_process r)" "keeps same_members (AddProcessGraph g)"
  "keeps same_members (signal p)" "keeps same_members (UpdateCron cid t1 t2 gid)"
proof -
  have "keeps same_members (AddAttribute a)" for a
    unfolding AddAttribute_def
    by (intro mem.keeps_rules mem.quiet_basic mem.keeps_sql_exec) (auto simp: insert_row_def same_members_def split: if_splits)
  then show "keeps same_members (AddAttributes as)" unfolding AddAttributes_def by (intro mem.keeps_rules)
  show "keeps same_members (insert_process r)" "keeps same_members (AddProcessGraph g)" "keeps same_members (UpdateCron cid t1 t2 gid)"
    unfolding insert_process_def AddProcessGraph_def UpdateCron_def
    by (intro mem.keeps_rules mem.quiet_basic mem.keeps_sql_exec; auto simp: insert_row_def same_members_def split: if_splits)+
  show "keeps same_members (signal p)" by (auto simp: keeps_def signal_def same_members_def)
qed

lemmas members_basic = mem.keeps_rules mem.quiet_readers members_writers

lemma members_createProcessGraph: "keeps same_members (createProcessGraph spec args kwargs input rid)"
proof -
  have add: "keeps same_members (AddProcess p)" for p
    unfolding AddProcess_def Let_def ConvertMemoryToBytesM_def by (intro members_basic)
  have node: "keeps same_members (add_node c args kwargs input rid name st spec)" for c name st spec
    unfolding add_node_def NewProcess_def Let_def by (cases st) (simp, intro conjI impI members_basic)
  have "keeps same_members (start_process p)" for p
    unfolding start_process_def addProcessToDB_def by (intro members_basic add)
  then show ?thesis
    unfolding createProcessGraph_def CreateProcessGraph_def resolveInitiator_def link_node_def Let_def
    by (intro members_basic node | simp add: split_beta)+
qed

lemma members_runCron: "keeps same_members (ctl_runCron parse next cid)"
proof -
  have "keeps same_members (previous_output gid)" for gid
    unfolding previous_output_def leaf_output_def Leaves_def GetProcessGraphByID_def parseProcessGraphs_def parse_graph_def
      CreateProcessGraph_def
    by (intro members_basic mem.quiet_Iterate)
  then have "keeps same_members (startCron parse next cron)" for cron
    unfolding startCron_def calcNextRun_def NextInterval_def by (intro members_basic members_createProcessGraph)
  then show ?thesis unfolding ctl_runCron_def by (intro members_basic)
qed

text \<open>The checks end with an error value, never with a panic.\<close>

definition no_panic :: "'a ctl \<Rightarrow> bool" where
  "no_panic m \<longleftrightarrow> (\<forall>s e s'. m s = (Inl e, s') \<longrightarrow> is_error e)"

lemma no_panic_bind: "no_panic m \<Longrightarrow> (\<And>x. no_panic (f x)) \<Longrightarrow> no_panic (bindM m f)"
  unfolding no_panic_def bindM_def by (auto split: prod.splits sum.splits)

lemma no_panic_mapM: "(\<And>x. no_panic (h x)) \<Longrightarrow> no_panic (mapM h xs)"
proof (induction xs)
  case (Cons x xs)
  then show ?case by (auto intro!: no_panic_bind) (simp add: no_panic_def)
qed (simp add: no_panic_def)

lemma no_panic_basic:
  "no_panic (retM x)" "is_error e \<Longrightarrow> no_panic (throwM e)"
  "no_panic m \<Longrightarrow> no_panic (tryM m)" "(\<And>e. r = Inl e \<Longrightarrow> is_error e) \<Longrightarrow> no_panic (liftE r)"
  "no_panic (sql_query (\<lambda>db. Inr (g db)))"
  "no_panic a \<Longrightarrow> no_panic b \<Longrightarrow> no_panic (if c then a else b)"
  "no_panic a \<Longrightarrow> (\<And>x. no_panic (k x)) \<Longrightarrow> no_panic (case p of None \<Rightarrow> a | Some x \<Rightarrow> k x)"
  "(\<And>x. no_panic (g1 x)) \<Longrightarrow> (\<And>x. no_panic (g2 x)) \<Longrightarrow> no_panic (case q of Inl x \<Rightarrow> g1 x | Inr x \<Rightarrow> g2 x)"
  by (auto simp: no_panic_def tryM_def sql_query_def sql_connection_def thenM_def bindM_def
    split: prod.splits sum.splits if_splits list.splits option.splits)

lemmas no_panic_rules = no_panic_basic no_panic_bind no_panic_mapM

lemma no_panic_membership: "no_panic (RequireMembership rid c a)"
proof -
  have key: "strip_key w n = Inl e \<Longrightarrow> is_error e" for w n e by (auto simp: strip_key_def split: list.splits)
  have "parse_executor r = Inl e \<Longrightarrow> is_error e" for r e
    using key by (cases "strip_key ''Executor'' (EX_NAME r)") (auto simp: parse_executor_def)
  moreover have "parse_user r = Inl e \<Longrightarrow> is_error e" for r e
    using key by (cases "strip_key ''User'' (US_NAME r)") (auto simp: parse_user_def)
  ultimately show ?thesis
    unfolding RequireMembership_def checkIfExecutorIsValid_def checkIfUserIsValid_def GetColonyByName_def GetExecutorByID_def
      GetUserByID_def select_executors_def select_users_def select_colonies_def parseExecutors_def parseUsers_def not_member_def
    by (intro no_panic_rules) simp_all
qed

text \<open>
  C40: a request to run a cron is carried out for everybody. When the cron is there, the state after
  the request of a stranger is the one \<open>runCron\<close> leaves, new graph, new processes and next run
  included; only then membership is looked at, and the answer is an error.
\<close>

theorem runCron_before_check:
  assumes "stranger rid s" "ctl_runCron parse next cid s = (Inr (Some cron), s1)"
  shows "\<exists>err s2. handleRunCronHTTPRequest parse next rid pt (Inr \<lparr>MsgType = pt, RunCron_CronID = cid\<rparr>) s =
      (Inr [ErrorReply err StatusForbidden], s2) \<and> same_store s1 s2"
proof -
  have "same_members s s1" using keepsD[OF members_runCron, of s] assms(2) by (metis snd_conv)
  with assms(1) have s1: "stranger rid s1" by (simp add: stranger_def same_members_def)
  obtain e s2 where denied: "RequireMembership rid (cron_ColonyName cron) True s1 = (Inl e, s2)"
    using stranger_refused(1)[OF s1] by (metis sum.exhaust surj_pair)
  then have "is_error e" using no_panic_membership[of rid "cron_ColonyName cron" True] unfolding no_panic_def by blast
  moreover have "same_store s1 s2" by (rule after_quiet[OF sto.quiet_checks(6) denied])
  ultimately show ?thesis using assms(2) denied
    by (simp add: handleRunCronHTTPRequest_def withMsg_def memberOfCron_def orReply_def orNil_def bindM_def tryM_def handleHTTPError_def)
qed

lemma demo_server_runCron:
  "fst (ctl_runCron (api_parse demo_env) (api_next demo_env) ''k'' demo_server) = Inr (Some (parse_cron demo_cron))"
  "length (PROCESSGRAPHS (snd (ctl_runCron (api_parse demo_env) (api_next demo_env) ''k'' demo_server))) = 2"
  by code_simp+

theorem runCron_before_check_witness:
  "\<exists>err s2. handleRunCronHTTPRequest (api_parse demo_env) (api_next demo_env) ''nobody'' ''runcronmsg''
     (Inr \<lparr>MsgType = ''runcronmsg'', RunCron_CronID = ''k''\<rparr>) demo_server = (Inr [ErrorReply err StatusForbidden], s2) \<and>
     length (PROCESSGRAPHS s2) = 2"
proof -
  obtain s1 where run: "ctl_runCron (api_parse demo_env) (api_next demo_env) ''k'' demo_server = (Inr (Some (parse_cron demo_cron)), s1)"
    "length (PROCESSGRAPHS s1) = 2"
    using demo_server_runCron by (metis prod.collapse)
  from runCron_before_check[OF demo_server_stranger run(1), of "''runcronmsg''"] run(2)
  show ?thesis by (auto simp: same_store_def)
qed

text \<open>
  A request to run a cron that is not there panics, whoever sends it, and so ends the server.
\<close>

theorem runCron_unknown_panics:
  assumes "healthy s" "cid \<notin> set (map CR_CRON_ID (CRONS s))"
  shows "fst (handleRunCronHTTPRequest parse next rid pt (Inr \<lparr>MsgType = pt, RunCron_CronID = cid\<rparr>) s) = Inl Panic"
proof -
  have "filter (\<lambda>r. CR_CRON_ID r = cid) (CRONS s) = []" using assms(2) by (auto simp: filter_empty_conv)
  then have "GetCronByID cid s = (Inr None, s)"
    using assms(1) by (simp add: GetCronByID_def select_crons_def bindM_def sql_query_healthy)
  then show ?thesis
    by (simp add: handleRunCronHTTPRequest_def withMsg_def memberOfCron_def orReply_def bindM_def tryM_def ctl_runCron_def)
qed

theorem runCron_unknown_panics_witness:
  "fst (handleRunCronHTTPRequest (api_parse demo_env) (api_next demo_env) ''nobody'' ''runcronmsg''
     (Inr \<lparr>MsgType = ''runcronmsg'', RunCron_CronID = ''none''\<rparr>) demo_server) = Inl Panic"
  by (rule runCron_unknown_panics) (simp_all add: demo_server_tables demo_cron_def)

end
