(* ===== verification/Cron_Facts.thy ===== *)
theory Cron_Facts
  imports Cron_Spec
begin

text \<open>
  What cron expressions and schedules mean: \<open>SpecSchedule.Next\<close> gives the first second after the given
  time that fits the schedule, the bit sets of a field are the values it names, and which expressions
  the parser cannot cope with.
\<close>

section \<open>Time units\<close>

text \<open>
  A unit cuts time into blocks, and whether the schedule admits a second depends only on its block.
\<close>

locale time_unit =
  fixes ustart ustop :: "int \<Rightarrow> int" and admits :: "int \<Rightarrow> bool"
  assumes start_le: "ustart l \<le> l" and less_stop: "l < ustop l"
    and same_start: "ustart l \<le> m \<Longrightarrow> m < ustop l \<Longrightarrow> ustart m = ustart l"
    and same_stop: "ustart l \<le> m \<Longrightarrow> m < ustop l \<Longrightarrow> ustop m = ustop l"
    and same_admits: "ustart l \<le> m \<Longrightarrow> m < ustop l \<Longrightarrow> admits m = admits l"
begin

lemma stop_aligned: "ustart (ustop l) = ustop l"
proof (rule ccontr)
  assume a: "ustart (ustop l) \<noteq> ustop l"
  then have "ustart (ustop l) < ustop l" using start_le[of "ustop l"] by simp
  define m where "m = max l (ustart (ustop l))"
  have "ustop m = ustop (ustop l)"
    using same_stop[of "ustop l" m] less_stop[of l] less_stop[of "ustop l"] a start_le[of "ustop l"] by (auto simp: m_def)
  moreover have "ustop m = ustop l"
    using same_stop[of l m] start_le[of l] less_stop[of l] \<open>ustart (ustop l) < ustop l\<close> by (auto simp: m_def)
  ultimately show False using less_stop[of "ustop l"] by simp
qed

lemma skip: "\<not> admits l \<Longrightarrow> l \<le> m \<Longrightarrow> m < ustop l \<Longrightarrow> \<not> admits m"
  using same_admits[of l m] start_le[of l] by auto

lemma block: "l \<le> m \<Longrightarrow> m < ustop l \<Longrightarrow> ustop m = ustop l \<and> admits m = admits l"
  using same_stop[of l m] same_admits[of l m] start_le[of l] by auto

lemma stop_mono: "l \<le> m \<Longrightarrow> ustop l \<le> ustop m"
  using block[of l m] less_stop[of m] by fastforce

end

definition of_size :: "int \<Rightarrow> int \<Rightarrow> int" where
  "of_size n l = l - l mod n"

lemma of_size_unit:
  assumes "0 < n" "\<And>l m. l div n = m div n \<Longrightarrow> P l = P m"
  shows "time_unit (of_size n) (\<lambda>l. of_size n l + n) P"
proof -
  have bl: "l div n = m div n" if "of_size n l \<le> m" "m < of_size n l + n" for l m
  proof -
    have "n * (l div n) \<le> m" "m < n * (l div n) + n"
      using that by (simp_all add: of_size_def minus_mod_eq_mult_div)
    then have "m div n = l div n" by (intro int_div_pos_eq[of m n "l div n" "m - n * (l div n)"]) auto
    then show ?thesis by simp
  qed
  have eq: "of_size n m = of_size n l" if "l div n = m div n" for l m
    using that by (simp add: of_size_def minus_mod_eq_mult_div)
  show ?thesis
  proof
    fix l m
    have "0 \<le> l mod n" "l mod n < n" using assms(1) by simp_all
    then show "of_size n l \<le> l" "l < of_size n l + n" by (simp_all add: of_size_def)
    assume "of_size n l \<le> m" "m < of_size n l + n"
    note b = bl[OF this]
    show "of_size n m = of_size n l" "of_size n m + n = of_size n l + n" by (simp_all add: eq[OF b])
    show "P m = P l" using assms(2)[OF b] by simp
  qed
qed

text \<open>Fields of a second in local time.\<close>

definition l_date :: "int \<Rightarrow> int \<times> int \<times> int" where
  "l_date l = date_of_days (l div 86400)"

definition l_month_start :: "int \<Rightarrow> int" where
  "l_month_start l = (case l_date l of (y, m, _) \<Rightarrow> 86400 * month_first y m)"

definition l_month_stop :: "int \<Rightarrow> int" where
  "l_month_stop l = (case l_date l of (y, m, _) \<Rightarrow> 86400 * month_first y (m + 1))"

lemma l_date_cases:
  obtains y m where "1 \<le> m" "m \<le> 12" "86400 * month_first y m \<le> l" "l < 86400 * month_first y (m + 1)"
    "l_date l = (y, m, l div 86400 - month_first y m + 1)"
proof (rule date_of_days_cases[of "l div 86400"])
  fix y m assume "1 \<le> m" "m \<le> 12" "month_first y m \<le> l div 86400" "l div 86400 < month_first y (m + 1)"
    "date_of_days (l div 86400) = (y, m, l div 86400 - month_first y m + 1)"
  then show thesis by (intro that[of m y]) (auto simp: l_date_def)
qed

lemma l_date_in_month:
  assumes "1 \<le> m" "m \<le> 12" "86400 * month_first y m \<le> l" "l < 86400 * month_first y (m + 1)"
  shows "l_date l = (y, m, l div 86400 - month_first y m + 1)"
  unfolding l_date_def using assms by (intro date_in_month) auto

lemma month_unit:
  assumes "\<And>y m d d'. P (y, m, d) = P (y, m, d')"
  shows "time_unit l_month_start l_month_stop (\<lambda>l. P (l_date l))"
proof
  fix l k
  obtain y m where ym: "1 \<le> m" "m \<le> 12" "86400 * month_first y m \<le> l" "l < 86400 * month_first y (m + 1)"
    "l_date l = (y, m, l div 86400 - month_first y m + 1)" by (rule l_date_cases)
  then have b: "l_month_start l = 86400 * month_first y m" "l_month_stop l = 86400 * month_first y (m + 1)"
    by (simp_all add: l_month_start_def l_month_stop_def)
  show "l_month_start l \<le> l" "l < l_month_stop l" using ym b by simp_all
  assume "l_month_start l \<le> k" "k < l_month_stop l"
  then have "l_date k = (y, m, k div 86400 - month_first y m + 1)" using ym b by (intro l_date_in_month) simp_all
  then show "l_month_start k = l_month_start l" "l_month_stop k = l_month_stop l" "P (l_date k) = P (l_date l)"
    using b ym(5) assms[of y m] by (simp_all add: l_month_start_def l_month_stop_def)
qed


text \<open>A location whose offset never changes, and the instant of a second of its local time.\<close>

definition fixed_zone :: "int \<Rightarrow> zone" where
  "fixed_zone off = (\<lambda>_. (off, - (2 ^ 63), 2 ^ 63 - 1))"

definition at_second :: "int \<Rightarrow> int \<Rightarrow> time" where
  "at_second off l = (l - off) * 10 ^ 9"

lemma at_second_fields:
  "local_seconds (fixed_zone off) (at_second off l) = l" "time_Nanosecond (at_second off l) = 0"
  "time_Year (fixed_zone off) (at_second off l) = fst (l_date l)"
  "time_Month (fixed_zone off) (at_second off l) = fst (snd (l_date l))"
  "time_Day (fixed_zone off) (at_second off l) = snd (snd (l_date l))"
  "time_Weekday (fixed_zone off) (at_second off l) = (l div 86400 + 4) mod 7"
  "time_Hour (fixed_zone off) (at_second off l) = l mod 86400 div 3600"
  "time_Minute (fixed_zone off) (at_second off l) = l mod 3600 div 60"
  "time_Second (fixed_zone off) (at_second off l) = l mod 60"
proof -
  show "local_seconds (fixed_zone off) (at_second off l) = l"
    by (simp add: local_seconds_def at_second_def time_Unix_def fixed_zone_def)
  then show "time_Year (fixed_zone off) (at_second off l) = fst (l_date l)"
    "time_Month (fixed_zone off) (at_second off l) = fst (snd (l_date l))"
    "time_Day (fixed_zone off) (at_second off l) = snd (snd (l_date l))"
    "time_Weekday (fixed_zone off) (at_second off l) = (l div 86400 + 4) mod 7"
    "time_Hour (fixed_zone off) (at_second off l) = l mod 86400 div 3600"
    "time_Minute (fixed_zone off) (at_second off l) = l mod 3600 div 60"
    "time_Second (fixed_zone off) (at_second off l) = l mod 60"
    by (simp_all add: time_Year_def time_Month_def time_Day_def time_Weekday_def time_Hour_def time_Minute_def time_Second_def l_date_def)
qed (simp add: time_Nanosecond_def at_second_def)

lemma time_Date_fixed:
  "time_Date (fixed_zone off) y m d h mi sc 0 = at_second off (days_of_date y m d * 86400 + h * 3600 + mi * 60 + sc)"
  by (simp add: time_Date_def fixed_zone_def at_second_def Let_def)

lemma clock_parts: "l mod 86400 div 3600 * 3600 + l mod 3600 div 60 * 60 + l mod 60 = l mod 86400" for l :: int
proof -
  have "l mod 3600 = l mod 86400 mod 3600" "l mod 60 = l mod 3600 mod 60" by (simp_all add: mod_mod_cancel)
  then show ?thesis using div_mult_mod_eq[of "l mod 86400" 3600] div_mult_mod_eq[of "l mod 3600" 60] by linarith
qed

lemma AddDate_fixed:
  "AddDate (fixed_zone off) 0 months days (at_second off l) = (case l_date l of (y, m, d) \<Rightarrow>
     at_second off (days_of_date y (m + months) (d + days) * 86400 + l mod 86400))"
  using clock_parts[of l] by (cases "l_date l") (simp add: AddDate_def at_second_fields time_Date_fixed add.assoc)

lemma at_second_add: "at_second off l + n * 10 ^ 9 = at_second off (l + n)"
  by (simp add: at_second_def algebra_simps)

lemma Truncate_fixed:
  assumes "off mod n = 0" "0 < n" "62135596800 mod n = 0"
  shows "time_Truncate (n * 10 ^ 9) (at_second off l) = at_second off (of_size n l)"
proof -
  have "(l - off + 62135596800) mod n = l mod n"
    using assms by (metis add.right_neutral diff_zero mod_add_eq mod_diff_eq mod_mod_trivial)
  moreover have "at_second off l - time_zero = (l - off + 62135596800) * 10 ^ 9"
    by (simp add: at_second_def time_zero_def algebra_simps)
  moreover have "(x * 10 ^ 9) mod (n * 10 ^ 9) = (x mod n) * 10 ^ 9" for x :: int
    by (simp only: mult_mod_left)
  ultimately have "(at_second off l - time_zero) mod (n * 10 ^ 9) = (l mod n) * 10 ^ 9" by metis
  then show ?thesis by (simp add: time_Truncate_def at_second_def of_size_def algebra_simps)
qed

section \<open>The five loops\<close>

definition loops :: "next_pc set" where
  "loops = {Months, Days, Hours, Minutes, Secs}"

fun level :: "next_pc \<Rightarrow> nat" where
  "level Months = 1" | "level Days = 2" | "level Hours = 3" | "level Minutes = 4" | "level Secs = 5" | "level Found = 6"
| "level WRAP = 0" | "level GaveUp = 0"

fun following :: "next_pc \<Rightarrow> next_pc" where
  "following Months = Days" | "following Days = Hours" | "following Hours = Minutes" | "following Minutes = Secs"
| "following Secs = Found" | "following pc = pc"

fun u_size :: "next_pc \<Rightarrow> int" where
  "u_size Days = 86400" | "u_size Hours = 3600" | "u_size Minutes = 60" | "u_size _ = 1"

definition u_start :: "next_pc \<Rightarrow> int \<Rightarrow> int" where
  "u_start pc l = (if pc = Months then l_month_start l else of_size (u_size pc) l)"

definition u_stop :: "next_pc \<Rightarrow> int \<Rightarrow> int" where
  "u_stop pc l = (if pc = Months then l_month_stop l else of_size (u_size pc) l + u_size pc)"

fun u_admits :: "SpecSchedule \<Rightarrow> next_pc \<Rightarrow> int \<Rightarrow> bool" where
  "u_admits s Months l = has_bit (sched_Month s) (fst (snd (l_date l)))"
| "u_admits s Days l = dayMatches s (fixed_zone 0) (at_second 0 l)"
| "u_admits s Hours l = has_bit (sched_Hour s) (l mod 86400 div 3600)"
| "u_admits s Minutes l = has_bit (sched_Minute s) (l mod 3600 div 60)"
| "u_admits s Secs l = has_bit (sched_Second s) (l mod 60)"
| "u_admits s _ l = True"

fun u_wraps :: "next_pc \<Rightarrow> int \<Rightarrow> bool" where
  "u_wraps Months l = (fst (snd (l_date l)) = 1)"
| "u_wraps Days l = (snd (snd (l_date l)) = 1)"
| "u_wraps Hours l = (l mod 86400 div 3600 = 0)"
| "u_wraps Minutes l = (l mod 3600 div 60 = 0)"
| "u_wraps Secs l = (l mod 60 = 0)"
| "u_wraps _ l = False"

lemma dayMatches_fixed:
  "dayMatches s (fixed_zone off) (at_second off l) = dayMatches s (fixed_zone 0) (at_second 0 l)"
  by (simp add: dayMatches_def at_second_fields)

lemma mod_div_digit:
  fixes l a b :: int
  assumes "0 < a" "0 \<le> b"
  shows "l mod (a * b) div a = l div a mod b"
  using assms by (simp add: zmod_zmult2_eq)

lemma clock_digits:
  fixes l :: int
  shows "l mod 86400 div 3600 = l div 3600 mod 24" "l mod 3600 div 60 = l div 60 mod 60"
  using mod_div_digit[of 3600 24 l] mod_div_digit[of 60 60 l] by (simp_all only: mult_numeral_1 semiring_norm numeral_times_numeral zero_less_numeral zero_le_numeral simp_thms)

lemma u_admits_div:
  assumes "pc \<in> {Days, Hours, Minutes, Secs}" "l div u_size pc = m div u_size pc"
  shows "u_admits s pc l = u_admits s pc m"
  using assms by (elim insertE emptyE)
    (simp_all only: u_admits.simps u_size.simps clock_digits dayMatches_def at_second_fields l_date_def div_by_1)

lemma unit_pc:
  assumes "pc \<in> loops"
  shows "time_unit (u_start pc) (u_stop pc) (u_admits s pc)"
proof (cases "pc = Months")
  case True
  have "time_unit l_month_start l_month_stop (\<lambda>l. (\<lambda>(y, m, d). has_bit (sched_Month s) m) (l_date l))"
    by (rule month_unit) simp
  moreover have "u_start Months = l_month_start" "u_stop Months = l_month_stop"
    "u_admits s Months = (\<lambda>l. (\<lambda>(y, m, d). has_bit (sched_Month s) m) (l_date l))"
    by (auto simp: u_start_def u_stop_def split_beta)
  ultimately show ?thesis using True by simp
next
  case False
  then have pc: "pc \<in> {Days, Hours, Minutes, Secs}" using assms by (auto simp: loops_def)
  have "time_unit (of_size (u_size pc)) (\<lambda>l. of_size (u_size pc) l + u_size pc) (u_admits s pc)"
  proof (rule of_size_unit)
    show "0 < u_size pc" using pc by auto
    show "u_admits s pc l = u_admits s pc m" if "l div u_size pc = m div u_size pc" for l m by (rule u_admits_div[OF pc that])
  qed
  moreover have "u_start pc = of_size (u_size pc)" "u_stop pc = (\<lambda>l. of_size (u_size pc) l + u_size pc)"
    using False by (auto simp: u_start_def u_stop_def)
  ultimately show ?thesis by simp
qed

interpretation months: time_unit "u_start Months" "u_stop Months" "u_admits s Months" for s
  by (rule unit_pc) (simp add: loops_def)
interpretation days: time_unit "u_start Days" "u_stop Days" "u_admits s Days" for s
  by (rule unit_pc) (simp add: loops_def)
interpretation hours: time_unit "u_start Hours" "u_stop Hours" "u_admits s Hours" for s
  by (rule unit_pc) (simp add: loops_def)
interpretation minutes: time_unit "u_start Minutes" "u_stop Minutes" "u_admits s Minutes" for s
  by (rule unit_pc) (simp add: loops_def)
interpretation secs: time_unit "u_start Secs" "u_stop Secs" "u_admits s Secs" for s
  by (rule unit_pc) (simp add: loops_def)

text \<open>Units are nested: the end of a smaller unit comes no later than the end of a larger one.\<close>

lemma of_size_nest:
  fixes l n N :: int
  assumes "0 < n" "n dvd N" "0 < N"
  shows "of_size n l + n \<le> of_size N l + N" "of_size N l = l \<Longrightarrow> of_size n l = l"
proof -
  have d: "n dvd of_size N l + N - of_size n l" using assms(2)
    by (simp add: of_size_def minus_mod_eq_mult_div)
  moreover have "0 < of_size N l + N - of_size n l"
    using assms(1,3) pos_mod_bound[of N l] pos_mod_sign[of n l] unfolding of_size_def by linarith
  ultimately show "of_size n l + n \<le> of_size N l + N" using zdvd_imp_le by fastforce
  show "of_size n l = l" if "of_size N l = l"
  proof -
    from that have "N dvd l" by (simp add: of_size_def dvd_eq_mod_eq_0)
    with assms(2) have "n dvd l" by (rule dvd_trans)
    then show ?thesis by (simp add: of_size_def)
  qed
qed

lemma u_size_dvd: "level v \<le> level u \<Longrightarrow> u \<in> loops \<Longrightarrow> v \<in> loops \<Longrightarrow> v \<noteq> Months \<Longrightarrow> u_size u dvd u_size v"
  by (auto simp: loops_def)

lemma u_size_day: "u_size u dvd 86400" "0 < u_size u"
  by (cases u; simp)+

lemma l_month_stop_day: "86400 dvd l_month_stop l" "86400 dvd l_month_start l"
  by (auto simp: l_month_stop_def l_month_start_def split: prod.splits)

lemma u_stop_nest:
  assumes "u \<in> loops" "v \<in> loops" "level v \<le> level u"
  shows "u_stop u l \<le> u_stop v l" "u_start v l = l \<Longrightarrow> u_start u l = l"
proof -
  show "u_stop u l \<le> u_stop v l"
  proof (cases "v = Months")
    case True
    have "of_size (u_size u) l + u_size u \<le> of_size 86400 l + 86400"
      by (rule of_size_nest) (simp_all add: u_size_day)
    also have "\<dots> \<le> l_month_stop l"
    proof -
      have "86400 dvd l_month_stop l - of_size 86400 l"
        using l_month_stop_day[of l] by (simp add: of_size_def minus_mod_eq_mult_div)
      moreover have "0 < l_month_stop l - of_size 86400 l"
        using months.less_stop[of l] pos_mod_sign[of 86400 l] by (simp add: of_size_def u_stop_def)
      ultimately show ?thesis using zdvd_imp_le by fastforce
    qed
    finally show ?thesis using True by (simp add: u_stop_def)
  next
    case False
    then have "u \<noteq> Months" using assms by (auto simp: loops_def)
    then show ?thesis using False of_size_nest(1)[OF u_size_day(2) u_size_dvd[OF assms(3,1,2) False] u_size_day(2)]
      by (simp add: u_stop_def)
  qed
  show "u_start u l = l" if "u_start v l = l"
  proof (cases "u = Months \<or> v \<noteq> Months")
    case True
    then show ?thesis using that assms of_size_nest(2)[OF u_size_day(2) u_size_dvd[OF assms(3,1,2)] u_size_day(2)]
      by (cases "v = Months") (auto simp: u_start_def loops_def)
  next
    case False
    then have "l_month_start l = l" using that by (simp add: u_start_def)
    then have "86400 dvd l" using l_month_stop_day(2)[of l] by simp
    then have "u_size u dvd l" using u_size_day(1) dvd_trans by blast
    then show ?thesis using False by (simp add: u_start_def of_size_def)
  qed
qed


text \<open>One step of the machine in a fixed zone, the same for all five loops.\<close>

lemma next_round_eq:
  assumes "next_added st \<longrightarrow> ok \<or> reset (next_t st) = next_t st"
  shows "next_round pc ok fol reset advance wrapped st =
    (if ok then st\<lparr>next_at := fol\<rparr>
     else (let t = advance (reset (next_t st)) in \<lparr>next_at = (if wrapped t then WRAP else pc), next_t = t, next_added = True\<rparr>))"
  using assms by (auto simp: next_round_def)

abbreviation mstate :: "int \<Rightarrow> next_pc \<Rightarrow> int \<Rightarrow> bool \<Rightarrow> next_state" where
  "mstate off pc l a \<equiv> \<lparr>next_at = pc, next_t = at_second off l, next_added = a\<rparr>"

lemma at_second_inject [simp]: "at_second off l = at_second off m \<longleftrightarrow> l = m"
  by (simp add: at_second_def)

lemma months_fixed:
  "time_Date (fixed_zone off) (fst (l_date l)) (fst (snd (l_date l))) 1 0 0 0 0 = at_second off (u_start Months l)"
  "AddDate (fixed_zone off) 0 1 0 (at_second off (u_start Months l)) = at_second off (u_stop Months l)"
proof -
  obtain y m where ym: "1 \<le> m" "m \<le> 12" "86400 * month_first y m \<le> l" "l < 86400 * month_first y (m + 1)"
    "l_date l = (y, m, l div 86400 - month_first y m + 1)" by (rule l_date_cases)
  have b: "u_start Months l = 86400 * month_first y m" "u_stop Months l = 86400 * month_first y (m + 1)"
    using ym(5) by (simp_all add: u_start_def u_stop_def l_month_start_def l_month_stop_def)
  have "l_date (86400 * month_first y m) = (y, m, 1)"
    using l_date_in_month[OF ym(1,2), of y "86400 * month_first y m"] ym(3,4) by simp
  then show "AddDate (fixed_zone off) 0 1 0 (at_second off (u_start Months l)) = at_second off (u_stop Months l)"
    by (simp add: AddDate_fixed b days_of_date_first)
  show "time_Date (fixed_zone off) (fst (l_date l)) (fst (snd (l_date l))) 1 0 0 0 0 = at_second off (u_start Months l)"
    by (simp add: ym(5) b time_Date_fixed days_of_date_first)
qed

lemma date_start:
  "time_Date (fixed_zone off) (fst (l_date l)) (fst (snd (l_date l))) (snd (snd (l_date l))) h mi sc 0 =
     at_second off (of_size 86400 l + h * 3600 + mi * 60 + sc)"
proof -
  obtain y m where "l_date l = (y, m, l div 86400 - month_first y m + 1)" by (rule l_date_cases)
  then show ?thesis by (simp add: time_Date_fixed days_of_date_first of_size_def minus_mod_eq_div_mult)
qed

lemma days_fixed:
  "to_midnight (fixed_zone off) (AddDate (fixed_zone off) 0 0 1 (at_second off (of_size 86400 l))) =
     at_second off (of_size 86400 l + 86400)"
proof -
  define k where "k = of_size 86400 l"
  have k: "k mod 86400 = 0" by (simp add: k_def of_size_def minus_mod_eq_mult_div)
  obtain y m where ym: "l_date k = (y, m, k div 86400 - month_first y m + 1)" by (rule l_date_cases)
  have "k div 86400 * 86400 = k" using div_mult_mod_eq[of k 86400] by (simp only: k add_0_right)
  then have add: "AddDate (fixed_zone off) 0 0 1 (at_second off k) = at_second off (k + 86400)"
    unfolding AddDate_fixed ym prod.case days_of_date_first k by (simp add: distrib_right)
  have "time_Hour (fixed_zone off) (at_second off (k + 86400)) = 0"
    using k by (simp add: at_second_fields)
  then show ?thesis by (simp add: to_midnight_def add flip: k_def)
qed

lemma hour_start: "of_size 86400 l + l mod 86400 div 3600 * 3600 = of_size 3600 l"
proof -
  have "l mod 86400 mod 3600 = l mod 3600" by (simp add: mod_mod_cancel)
  then show ?thesis using div_mult_mod_eq[of "l mod 86400" 3600] unfolding of_size_def by linarith
qed

lemma next_step_loop:
  assumes "off mod 60 = 0" "pc \<in> loops" "a \<longrightarrow> u_admits s pc l \<or> u_start pc l = l"
  shows "next_step s (fixed_zone off) yl (mstate off pc l a) =
    (if u_admits s pc l then mstate off (following pc) l a
     else mstate off (if u_wraps pc (u_stop pc l) then WRAP else pc) (u_stop pc l) True)"
proof -
  have c: "a \<longrightarrow> u_admits s pc l \<or> at_second off (u_start pc l) = at_second off l" using assms(3) by simp
  from assms(2) consider "pc = Months" | "pc = Days" | "pc = Hours" | "pc = Minutes" | "pc = Secs" by (auto simp: loops_def)
  then show ?thesis
  proof cases
    case 1
    then show ?thesis using c
      by (simp add: next_step_def next_round_eq at_second_fields months_fixed Let_def)
  next
    case 2
    then show ?thesis using c dayMatches_fixed[of s off l]
      by (simp add: next_step_def next_round_eq at_second_fields date_start days_fixed Let_def u_start_def u_stop_def)
  next
    case 3
    then show ?thesis using c
      by (simp add: next_step_def next_round_eq at_second_fields date_start hour_start at_second_add[of _ _ 3600, simplified] Let_def u_start_def u_stop_def)
  next
    case 4
    then show ?thesis using c assms(1) Truncate_fixed[of off 60]
      by (simp add: next_step_def next_round_eq at_second_fields at_second_add[of _ _ 60, simplified] Let_def u_start_def u_stop_def)
  next
    case 5
    then show ?thesis using c Truncate_fixed[of off 1]
      by (simp add: next_step_def next_round_eq at_second_fields at_second_add[of _ _ 1, simplified] Let_def u_start_def u_stop_def)
  qed
qed


section \<open>Correctness of Next\<close>

text \<open>The first second of a year.\<close>

definition year_start :: "int \<Rightarrow> int" where
  "year_start y = 86400 * (days_before_year y - 719162)"

lemma year_span: "year_start (fst (l_date l)) \<le> l" "l < year_start (fst (l_date l) + 1)"
proof -
  obtain y m where ym: "1 \<le> m" "m \<le> 12" "86400 * month_first y m \<le> l" "l < 86400 * month_first y (m + 1)"
    "l_date l = (y, m, l div 86400 - month_first y m + 1)" by (rule l_date_cases)
  then show "year_start (fst (l_date l)) \<le> l" "l < year_start (fst (l_date l) + 1)"
    using month_within_year[OF ym(1,2), of "leap y"] month_first_eq[OF ym(1,2), of y]
    by (auto simp: year_start_def days_before_year_Suc split: if_splits)
qed

lemma year_start_less: "y < z \<Longrightarrow> year_start y < year_start z"
  using days_before_year_less[of y z] by (simp add: year_start_def)

lemma year_mono: "l \<le> m \<Longrightarrow> fst (l_date l) \<le> fst (l_date m)"
  using year_span(2)[of m] year_span(1)[of l] year_start_less[of "fst (l_date m) + 1" "fst (l_date l)"]
  by (smt (verit))

lemma same_year: "l \<le> m \<Longrightarrow> m < u_stop Months l \<Longrightarrow> fst (l_date m) = fst (l_date l)"
  using time_unit.block[OF month_unit[of "\<lambda>(y, _). y = fst (l_date l)"], of l m]
  by (simp add: u_stop_def split_beta)

text \<open>A loop that does not jump to the label stays in the block of every larger unit, and in the year.\<close>

lemma stays_inside:
  assumes "pc \<in> loops" "\<not> u_wraps pc (u_stop pc l)"
  shows "fst (l_date (u_stop pc l)) = fst (l_date l)"
    "v \<in> loops \<Longrightarrow> level v < level pc \<Longrightarrow> u_stop pc l < u_stop v l"
proof -
  have "u_stop pc l \<noteq> u_stop v l" if "level v + 1 = level pc" "v \<in> loops" for v
  proof
    assume "u_stop pc l = u_stop v l"
    then have nw: "\<not> u_wraps pc (u_stop v l)" using assms(2) by simp
    from that assms(1) consider "v = Months" "pc = Days" | "v = Days" "pc = Hours" | "v = Hours" "pc = Minutes" | "v = Minutes" "pc = Secs"
      by (auto simp: loops_def)
    then show False
    proof cases
      case 1
      obtain y m where ym: "1 \<le> m" "m \<le> 12" "l_date (u_stop Months l) = (y, m, u_stop Months l div 86400 - month_first y m + 1)"
        "86400 * month_first y m \<le> u_stop Months l" by (metis l_date_cases)
      have "l_month_start (u_stop Months l) = u_stop Months l" using months.stop_aligned[of l] by (simp add: u_start_def)
      then have "u_stop Months l = 86400 * month_first y m" by (simp add: l_month_start_def ym(3))
      then show False using ym(3) nw 1 by simp
    qed (use nw in \<open>simp_all add: u_stop_def of_size_def minus_mod_eq_mult_div\<close>)
  qed
  then have outer: "u_stop pc l < u_stop v l" if "level v + 1 = level pc" "v \<in> loops" for v
    using u_stop_nest(1)[OF assms(1) that(2), of l] that by fastforce
  show "u_stop pc l < u_stop v l" if v: "v \<in> loops" "level v < level pc" for v
  proof -
    obtain w where w: "w \<in> loops" "level w + 1 = level pc" "level v \<le> level w"
    proof -
      have "\<exists>w \<in> loops. level w + 1 = level pc" using v assms(1) by (auto simp: loops_def)
      then show thesis using that v(2) by fastforce
    qed
    show ?thesis using outer[OF w(2,1)] u_stop_nest(1)[OF w(1) v(1) w(3), of l] by simp
  qed
  note inside = this[of Months]
  show "fst (l_date (u_stop pc l)) = fst (l_date l)"
  proof (cases "pc = Months")
    case True
    obtain y m where ym: "1 \<le> m" "m \<le> 12" "86400 * month_first y m \<le> l" "l < 86400 * month_first y (m + 1)"
      "l_date l = (y, m, l div 86400 - month_first y m + 1)" by (rule l_date_cases)
    have stop: "u_stop Months l = 86400 * month_first y (m + 1)" using ym(5) by (simp add: u_stop_def l_month_stop_def)
    have "m \<noteq> 12"
    proof
      assume "m = 12"
      moreover have "month_first y 13 = month_first (y + 1) 1" by (simp add: month_first_def days_of_date_def)
      moreover have "month_first (y + 1) 1 < month_first (y + 1) (1 + 1)"
        using month_first_eq[of 1 "y + 1"] month_within_year(2)[of 1 "leap (y + 1)"] by simp
      ultimately show False using l_date_in_month[of 1 "y + 1" "u_stop Months l"] stop assms(2) True by simp
    qed
    then have "l_date (u_stop Months l) = (y, m + 1, u_stop Months l div 86400 - month_first y (m + 1) + 1)"
      using ym(1,2) stop month_first_eq[of "m + 1" y] month_within_year(2)[of "m + 1" "leap y"] by (intro l_date_in_month) simp_all
    then show ?thesis using True ym(5) by simp
  next
    case False
    then show ?thesis using inside same_year[of l "u_stop pc l"] time_unit.less_stop[OF unit_pc[OF assms(1)], of l] assms(1)
      by (fastforce simp: loops_def)
  qed
qed


text \<open>A second fits the schedule if all five units admit it.\<close>

definition fires :: "SpecSchedule \<Rightarrow> int \<Rightarrow> bool" where
  "fires s l \<longleftrightarrow> (\<forall>pc \<in> loops. u_admits s pc l)"

definition next_inv :: "SpecSchedule \<Rightarrow> int \<Rightarrow> int \<Rightarrow> next_pc \<Rightarrow> int \<Rightarrow> bool \<Rightarrow> bool" where
  "next_inv s l0 yl pc l a \<longleftrightarrow>
     l0 \<le> l \<and> (\<forall>m. l0 \<le> m \<and> m < l \<longrightarrow> \<not> fires s m) \<and>
     (a \<longrightarrow> (\<forall>u \<in> loops. u_admits s u l \<or> u_start u l = l)) \<and>
     (\<forall>v \<in> loops. level v < level pc \<longrightarrow> u_admits s v l) \<and>
     (pc \<noteq> WRAP \<and> pc \<noteq> GaveUp \<longrightarrow> fst (l_date l) \<le> yl) \<and> (pc = GaveUp \<longrightarrow> yl < fst (l_date l))"

lemma next_inv_skip:
  assumes inv: "next_inv s l0 yl pc l a" and pc: "pc \<in> loops" and no: "\<not> u_admits s pc l"
  shows "next_inv s l0 yl (if u_wraps pc (u_stop pc l) then WRAP else pc) (u_stop pc l) True"
proof -
  note unit = unit_pc
  define l' where "l' = u_stop pc l"
  have less: "l < l'" unfolding l'_def by (rule time_unit.less_stop[OF unit[OF pc]])
  have aligned: "u_start u (u_stop u l) = u_stop u l" if "u \<in> loops" for u by (rule time_unit.stop_aligned[OF unit[OF that]])
  have outer: "u_admits s u l" if "u \<in> loops" "level u < level pc" for u using inv that by (simp add: next_inv_def)
  have same: "u_admits s u l'" if "u \<in> loops" "level u < level pc" "l' < u_stop u l" for u
    using time_unit.block[OF unit[OF that(1)], of l l' s] outer[OF that(1,2)] less that(3) by simp
  have ready: "u_admits s u l' \<or> u_start u l' = l'" if u: "u \<in> loops" for u
  proof (cases "level pc \<le> level u")
    case True
    then show ?thesis using u_stop_nest(2)[OF u pc True] aligned[OF pc] by (simp add: l'_def)
  next
    case False
    then have "l' \<le> u_stop u l" using u_stop_nest(1)[OF pc u, of l] by (simp add: l'_def)
    then show ?thesis using same[OF u] aligned[OF u] False by fastforce
  qed
  have none: "\<not> fires s m" if "l0 \<le> m" "m < l'" for m
  proof (cases "m < l")
    case False
    then show ?thesis using time_unit.skip[OF unit[OF pc] no, of m] that pc by (auto simp: fires_def l'_def)
  qed (use inv that in \<open>simp add: next_inv_def\<close>)
  have "fst (l_date l') \<le> yl" "\<forall>v \<in> loops. level v < level pc \<longrightarrow> u_admits s v l'" if "\<not> u_wraps pc l'"
    using stays_inside[OF pc] that same inv pc by (auto simp: l'_def next_inv_def loops_def)
  then show ?thesis
    using less none ready inv pc unfolding l'_def[symmetric] by (auto simp: next_inv_def loops_def)
qed


fun rank :: "next_pc \<Rightarrow> nat" where
  "rank WRAP = 6" | "rank Found = 0" | "rank GaveUp = 0" | "rank pc = 6 - level pc"

definition next_measure :: "int \<Rightarrow> int \<Rightarrow> next_state \<Rightarrow> nat" where
  "next_measure off yl st = 7 * nat (year_start (yl + 1) - (next_t st div 10 ^ 9 + off)) + rank (next_at st)"

lemma next_measure_mstate: "next_measure off yl (mstate off pc l a) = 7 * nat (year_start (yl + 1) - l) + rank pc"
  by (simp add: next_measure_def at_second_def)

lemma level_following: "pc \<in> loops \<Longrightarrow> v \<in> loops \<Longrightarrow> level v < level (following pc) \<longleftrightarrow> v = pc \<or> level v < level pc"
  by (auto simp: loops_def)

lemma next_inv_step:
  assumes off: "off mod 60 = 0" and inv: "next_inv s l0 yl pc l a" and pc: "pc \<noteq> Found" "pc \<noteq> GaveUp"
  obtains pc' l' a' where "next_step s (fixed_zone off) yl (mstate off pc l a) = mstate off pc' l' a'"
    "next_inv s l0 yl pc' l' a'" "next_measure off yl (mstate off pc' l' a') < next_measure off yl (mstate off pc l a)"
proof (cases "pc = WRAP")
  case True
  then show thesis using inv that[of "if fst (l_date l) > yl then GaveUp else Months" l a]
    by (auto simp: next_step_def at_second_fields next_inv_def next_measure_mstate loops_def)
next
  case False
  then have loop: "pc \<in> loops" using pc by (cases pc) (auto simp: loops_def)
  have yl: "fst (l_date l) \<le> yl" using False pc inv by (simp add: next_inv_def)
  have "a \<longrightarrow> u_admits s pc l \<or> u_start pc l = l" using inv loop by (simp add: next_inv_def)
  note step = next_step_loop[OF off loop this, of yl]
  show thesis
  proof (cases "u_admits s pc l")
    case True
    have "next_inv s l0 yl (following pc) l a"
    proof -
      have "following pc \<noteq> WRAP" "following pc \<noteq> GaveUp" "pc \<noteq> WRAP" "pc \<noteq> GaveUp" using loop by (auto simp: loops_def)
      then show ?thesis using inv True by (simp add: next_inv_def level_following[OF loop])
    qed
    moreover have "rank (following pc) < rank pc" using loop by (auto simp: loops_def)
    ultimately show thesis using that[of "following pc" l a] step True by (simp add: next_measure_mstate)
  next
    case False
    define l' where "l' = u_stop pc l"
    have "l < l'" unfolding l'_def by (rule time_unit.less_stop[OF unit_pc[OF loop]])
    moreover have "l < year_start (yl + 1)"
      using year_span(2)[of l] year_start_less[of "fst (l_date l) + 1" "yl + 1"] yl
      by (cases "fst (l_date l) = yl") simp_all
    ultimately have less: "nat (year_start (yl + 1) - l') + 1 \<le> nat (year_start (yl + 1) - l)" by simp
    have "next_measure off yl (mstate off p l' True) < next_measure off yl (mstate off pc l a)" for p
    proof -
      have "rank p \<le> 6" by (cases p) simp_all
      with less show ?thesis unfolding next_measure_mstate by linarith
    qed
    with step False next_inv_skip[OF inv loop False] show thesis
      by (intro that[of "if u_wraps pc (u_stop pc l) then WRAP else pc" "u_stop pc l" True]) (simp_all add: l'_def)
  qed
qed

lemma next_run:
  assumes "off mod 60 = 0" "yl = fst (l_date l0) + k" "0 \<le> k"
  obtains pc l a where
    "while_option next_running (next_step s (fixed_zone off) yl) (mstate off WRAP l0 False) = Some (mstate off pc l a)"
    "next_inv s l0 yl pc l a" "pc = Found \<or> pc = GaveUp"
proof -
  let ?P = "\<lambda>st. \<exists>pc l a. st = mstate off pc l a \<and> next_inv s l0 yl pc l a"
  have step: "?P (next_step s (fixed_zone off) yl st) \<and> next_measure off yl (next_step s (fixed_zone off) yl st) < next_measure off yl st"
    if "?P st" "next_running st" for st
  proof -
    from that obtain pc l a where st: "st = mstate off pc l a" "next_inv s l0 yl pc l a" "pc \<noteq> Found" "pc \<noteq> GaveUp"
      by (auto simp: next_running_def)
    show ?thesis by (rule next_inv_step[OF assms(1) st(2-4)]) (auto simp: st(1))
  qed
  have "next_inv s l0 yl WRAP l0 False" by (auto simp: next_inv_def)
  then have init: "?P (mstate off WRAP l0 False)" by blast
  obtain st where st: "while_option next_running (next_step s (fixed_zone off) yl) (mstate off WRAP l0 False) = Some st"
    using measure_while_option_Some[of ?P next_running "next_step s (fixed_zone off) yl" "next_measure off yl", OF step init] by blast
  have "?P st" by (rule while_option_rule[where P = ?P, OF _ st init]) (use step in blast)
  moreover have "\<not> next_running st" by (rule while_option_stop[OF st])
  ultimately show thesis using that st by (auto simp: next_running_def)
qed


text \<open>What a schedule asks of an instant, and the instants \<open>Next\<close> looks at: whole seconds, later than \<open>t\<close>, up to five years ahead.\<close>

definition schedule_matches :: "SpecSchedule \<Rightarrow> zone \<Rightarrow> time \<Rightarrow> bool" where
  "schedule_matches s loc u \<longleftrightarrow>
     has_bit (sched_Month s) (time_Month loc u) \<and> dayMatches s loc u \<and> has_bit (sched_Hour s) (time_Hour loc u) \<and>
     has_bit (sched_Minute s) (time_Minute loc u) \<and> has_bit (sched_Second s) (time_Second loc u)"

definition activation :: "SpecSchedule \<Rightarrow> zone \<Rightarrow> time \<Rightarrow> time \<Rightarrow> bool" where
  "activation s loc t u \<longleftrightarrow>
     t < u \<and> u mod 10 ^ 9 = 0 \<and> schedule_matches s loc u \<and>
     time_Year loc u \<le> time_Year loc (t + (10 ^ 9 - t mod 10 ^ 9)) + 5"

lemma schedule_matches_fires: "schedule_matches s (fixed_zone off) (at_second off l) \<longleftrightarrow> fires s l"
  using dayMatches_fixed[of s off l] by (auto simp: schedule_matches_def fires_def loops_def at_second_fields)

lemma next_second: "t + (10 ^ 9 - t mod 10 ^ 9) = at_second off (t div 10 ^ 9 + 1 + off)" for t :: int
  using div_mult_mod_eq[of t "10 ^ 9"] by (simp add: at_second_def algebra_simps)

lemma activation_seconds:
  "activation s (fixed_zone off) t u \<longleftrightarrow>
     (\<exists>l. u = at_second off l \<and> t div 10 ^ 9 + 1 + off \<le> l \<and> fires s l \<and>
       fst (l_date l) \<le> fst (l_date (t div 10 ^ 9 + 1 + off)) + 5)"
proof (cases "u mod 10 ^ 9 = 0")
  case True
  define l where "l = u div 10 ^ 9 + off"
  have u: "u = at_second off l" using True div_mult_mod_eq[of u "10 ^ 9"] by (simp add: l_def at_second_def)
  have "t < u \<longleftrightarrow> t div 10 ^ 9 + 1 + off \<le> l"
  proof -
    have "t < (u div 10 ^ 9) * 10 ^ 9 \<longleftrightarrow> t div 10 ^ 9 < u div 10 ^ 9"
      using div_mult_mod_eq[of t "10 ^ 9"] pos_mod_bound[of "10 ^ 9" t] pos_mod_sign[of "10 ^ 9" t] by (simp, linarith)
    moreover have "(u div 10 ^ 9) * 10 ^ 9 = u" using True div_mult_mod_eq[of u "10 ^ 9"] by simp
    ultimately show ?thesis by (auto simp: l_def)
  qed
  moreover have "time_Year (fixed_zone off) (t + (10 ^ 9 - t mod 10 ^ 9)) = fst (l_date (t div 10 ^ 9 + 1 + off))"
    unfolding next_second[of t off] by (rule at_second_fields)
  ultimately show ?thesis
    unfolding activation_def using True by (simp only: u schedule_matches_fires at_second_fields at_second_inject) blast
next
  case False
  then show ?thesis by (auto simp: activation_def at_second_def)
qed

lemma Next_result:
  assumes "(case sched_Location s of None \<Rightarrow> locl | Some z \<Rightarrow> z) = fixed_zone off" "off mod 60 = 0"
  obtains (found) l where "SpecSchedule_Next locl s t = Some (at_second off l)" "t < at_second off l"
      "next_inv s (t div 10 ^ 9 + 1 + off) (fst (l_date (t div 10 ^ 9 + 1 + off)) + 5) Found l True \<or>
       next_inv s (t div 10 ^ 9 + 1 + off) (fst (l_date (t div 10 ^ 9 + 1 + off)) + 5) Found l False"
  | (none) l a where "SpecSchedule_Next locl s t = Some time_zero"
      "next_inv s (t div 10 ^ 9 + 1 + off) (fst (l_date (t div 10 ^ 9 + 1 + off)) + 5) GaveUp l a"
proof -
  define l0 where "l0 = t div 10 ^ 9 + 1 + off"
  define yl where "yl = fst (l_date l0) + 5"
  obtain pc l a where run: "while_option next_running (next_step s (fixed_zone off) yl) (mstate off WRAP l0 False) = Some (mstate off pc l a)"
    and inv: "next_inv s l0 yl pc l a" and pc: "pc = Found \<or> pc = GaveUp"
    by (rule next_run[OF assms(2), of yl l0 5 s]) (simp_all add: yl_def)
  have res: "SpecSchedule_Next locl s t = Some (if pc = Found then at_second off l else time_zero)"
    using run unfolding SpecSchedule_Next_def assms(1) time_Nanosecond_def next_second[of t off] l0_def[symmetric]
    by (simp add: Let_def at_second_fields yl_def)
  have "t < t + (10 ^ 9 - t mod 10 ^ 9)" by simp
  also have "\<dots> = at_second off l0" unfolding l0_def by (rule next_second)
  also have "\<dots> \<le> at_second off l" using inv by (simp add: next_inv_def at_second_def)
  finally have "t < at_second off l" .
  then show thesis using that res inv pc by (cases a) (auto simp: l0_def yl_def)
qed

text \<open>
  C20: in a location with a fixed offset of whole minutes, \<open>Next\<close> of a schedule always returns. It gives the
  first second after the given time whose month, day, hour, minute and second the schedule admits,
  if there is one up to the end of the fifth year from there, and otherwise the zero time.
\<close>

theorem Next_first_activation:
  assumes "(case sched_Location s of None \<Rightarrow> locl | Some z \<Rightarrow> z) = fixed_zone off" "off mod 60 = 0"
  shows "\<exists>r. SpecSchedule_Next locl s t = Some r \<and>
    (if \<exists>u. activation s (fixed_zone off) t u
     then activation s (fixed_zone off) t r \<and> (\<forall>u. activation s (fixed_zone off) t u \<longrightarrow> r \<le> u)
     else r = time_zero)"
proof -
  define l0 where "l0 = t div 10 ^ 9 + 1 + off"
  define yl where "yl = fst (l_date l0) + 5"
  have act: "activation s (fixed_zone off) t u \<longleftrightarrow> (\<exists>m. u = at_second off m \<and> l0 \<le> m \<and> fires s m \<and> fst (l_date m) \<le> yl)" for u
    by (simp add: activation_seconds l0_def yl_def)
  have first: "l \<le> m" if "next_inv s l0 yl pc l a" "l0 \<le> m" "fires s m" for pc l a m
    using that by (auto simp: next_inv_def not_le[symmetric])
  show ?thesis
  proof (rule Next_result[OF assms, of t])
    fix l assume res: "SpecSchedule_Next locl s t = Some (at_second off l)"
      and inv: "next_inv s (t div 10 ^ 9 + 1 + off) (fst (l_date (t div 10 ^ 9 + 1 + off)) + 5) Found l True \<or>
        next_inv s (t div 10 ^ 9 + 1 + off) (fst (l_date (t div 10 ^ 9 + 1 + off)) + 5) Found l False"
    then obtain a where inv: "next_inv s l0 yl Found l a" by (auto simp: l0_def yl_def)
    then have "l0 \<le> l" "fires s l" "fst (l_date l) \<le> yl" by (auto simp: next_inv_def fires_def loops_def)
    then show ?thesis using res act first[OF inv] by (auto simp: at_second_def)
  next
    fix l a assume res: "SpecSchedule_Next locl s t = Some time_zero"
      and "next_inv s (t div 10 ^ 9 + 1 + off) (fst (l_date (t div 10 ^ 9 + 1 + off)) + 5) GaveUp l a"
    then have inv: "next_inv s l0 yl GaveUp l a" by (simp add: l0_def yl_def)
    then have "yl < fst (l_date l)" by (simp add: next_inv_def)
    then have "\<not> activation s (fixed_zone off) t u" for u
      using act[of u] first[OF inv] year_mono by fastforce
    then show ?thesis using res by simp
  qed
qed

definition demo_schedule :: SpecSchedule where
  "demo_schedule = \<lparr>sched_Second = 1, sched_Minute = 2, sched_Hour = all_bits bounds_hours, sched_Dom = all_bits bounds_dom,
     sched_Month = all_bits bounds_months, sched_Dow = all_bits bounds_dow, sched_Location = None\<rparr>"

lemma demo_schedule_activation: "activation demo_schedule (fixed_zone 0) 5 (60 * 10 ^ 9)"
  by code_simp

theorem Next_first_activation_witness:
  "\<exists>r. SpecSchedule_Next (fixed_zone 0) demo_schedule 5 = Some r \<and> activation demo_schedule (fixed_zone 0) 5 r \<and> r \<le> 60 * 10 ^ 9"
proof -
  have "(case sched_Location demo_schedule of None \<Rightarrow> fixed_zone 0 | Some z \<Rightarrow> z) = fixed_zone 0" by (simp add: demo_schedule_def)
  from Next_first_activation[OF this, of 5] demo_schedule_activation show ?thesis by (auto split: if_splits)
qed

section \<open>Bit sets\<close>

lemma mod_step:
  fixes d :: nat
  assumes "0 < st"
  shows "d mod st = 0 \<longleftrightarrow> d = 0 \<or> st \<le> d \<and> (d - st) mod st = 0"
  using assms le_mod_geq[of st d] mod_less[of d st] by (cases "d < st") auto

lemma bits_loop_exact:
  assumes "unat mx + unat step < 2 ^ 64" "0 < step" "unat mx < unat i + m"
  shows "\<exists>b. bits_loop (Suc m) i mx step bits = Inr b \<and>
    (\<forall>k. bit b k \<longleftrightarrow> bit bits k \<or> k < 64 \<and> unat i \<le> k \<and> k \<le> unat mx \<and> (k - unat i) mod unat step = 0)"
  using assms(3)
proof (induction m arbitrary: i bits)
  case 0
  then show ?case by (auto simp: word_le_nat_alt)
next
  case (Suc m)
  show ?case
  proof (cases "i \<le> mx")
    case True
    have step: "0 < unat step" using assms(2) by (simp add: unat_gt_0 word_gt_0)
    have i: "unat (i + step) = unat i + unat step"
      using True assms(1) by (intro unat_add_lem[THEN iffD1]) (simp add: word_le_nat_alt)
    have "unat mx < unat (i + step) + m" using Suc.prems step i by simp
    from Suc.IH[OF this, of "bits OR push_bit (unat i) 1"] obtain b where
      b: "bits_loop (Suc m) (i + step) mx step (bits OR push_bit (unat i) 1) = Inr b"
      "\<forall>k. bit b k \<longleftrightarrow> bit (bits OR push_bit (unat i) 1) k \<or>
        k < 64 \<and> unat i + unat step \<le> k \<and> k \<le> unat mx \<and> (k - (unat i + unat step)) mod unat step = 0"
      unfolding i by blast
    have k: "(k = unat i \<or> unat i + unat step \<le> k \<and> k \<le> unat mx \<and> (k - (unat i + unat step)) mod unat step = 0) \<longleftrightarrow>
      unat i \<le> k \<and> k \<le> unat mx \<and> (k - unat i) mod unat step = 0" for k
      using mod_step[OF step, of "k - unat i"] True by (auto simp: word_le_nat_alt diff_diff_left)
    have one: "bit (push_bit (unat i) 1 :: 64 word) k \<longleftrightarrow> k = unat i \<and> k < 64" for k
      by (auto simp: bit_exp_iff)
    have "bit b j \<longleftrightarrow> bit bits j \<or> j < 64 \<and> unat i \<le> j \<and> j \<le> unat mx \<and> (j - unat i) mod unat step = 0" for j
      unfolding b(2)[rule_format] bit_or_iff one k[symmetric] by blast
    moreover have "bits_loop (Suc (Suc m)) i mx step bits = Inr b" using True by (subst bits_loop.simps(2)) (simp only: if_True b(1))
    ultimately show ?thesis by blast
  next
    case False
    then show ?thesis by (auto simp: word_le_nat_alt)
  qed
qed


lemma getBits_shift:
  assumes "unat mx < 63"
  shows "\<exists>b. getBits mn mx 1 = Inr b \<and> (\<forall>k. bit b k \<longleftrightarrow> unat mn \<le> k \<and> k \<le> unat mx)"
proof -
  have "unat (mx + 1) = unat mx + 1" using assms by (intro trans[OF unat_add_lem[THEN iffD1]]) simp_all
  then have "bit (NOT (push_bit (unat (mx + 1)) (- 1 :: 64 word)) AND push_bit (unat mn) (- 1)) k \<longleftrightarrow> unat mn \<le> k \<and> k \<le> unat mx" for k
    using assms by (auto simp: bit_and_iff bit_not_iff bit_push_bit_iff bit_mask_iff)
  then show ?thesis by (simp add: getBits_def)
qed

text \<open>
  The bit set of a range holds exactly the values from its start to its end in steps from the
  start, computed by two shifts when the step is 1 and by a loop otherwise; the loop ends.
\<close>

theorem getBits_exact:
  assumes "unat mx < 63" "0 < step" "unat mx + unat step < 2 ^ 64"
  shows "\<exists>b. getBits mn mx step = Inr b \<and>
    (\<forall>k. bit b k \<longleftrightarrow> unat mn \<le> k \<and> k \<le> unat mx \<and> (k - unat mn) mod unat step = 0)"
proof (cases "step = 1")
  case True
  then show ?thesis using getBits_shift[OF assms(1), of mn] by simp
next
  case False
  have "unat mx < unat mn + 63" using assms(1) by simp
  note loop = bits_loop_exact[OF assms(3,2) this, of 0]
  have "Suc 63 = (64 :: nat)" by simp
  from loop[unfolded this] obtain b where b: "bits_loop 64 mn mx step 0 = Inr b" "\<forall>k. bit b k \<longleftrightarrow> bit (0 :: 64 word) k \<or> k < 64 \<and> unat mn \<le> k \<and> k \<le> unat mx \<and> (k - unat mn) mod unat step = 0"
    by blast
  have "getBits mn mx step = Inr b" using False b(1) by (simp only: getBits_def if_False)
  moreover have "bit b k \<longleftrightarrow> unat mn \<le> k \<and> k \<le> unat mx \<and> (k - unat mn) mod unat step = 0" for k
  proof -
    have "\<not> bit (0 :: 64 word) k" "k \<le> unat mx \<Longrightarrow> k < 64" using assms(1) by simp_all
    then show ?thesis unfolding b(2)[rule_format] by blast
  qed
  ultimately show ?thesis by blast
qed

theorem getBits_exact_witness:
  "\<exists>b. getBits 5 50 15 = Inr b \<and> (\<forall>k. bit b k \<longleftrightarrow> 5 \<le> k \<and> k \<le> 50 \<and> (k - 5) mod 15 = 0)"
  using getBits_exact[of 50 15 5] by simp

section \<open>Lists of values\<close>

definition comma_list :: "string list \<Rightarrow> string" where
  "comma_list ps = (case ps of [] \<Rightarrow> [] | p # rest \<Rightarrow> p @ concat (map (\<lambda>q. CHR '','' # q) rest))"

lemma FieldsFunc_comma_list:
  assumes "\<forall>p \<in> set ps. p \<noteq> [] \<and> CHR '','' \<notin> set p"
  shows "FieldsFunc CHR '','' (comma_list ps) = ps"
proof (cases ps)
  case (Cons p rest)
  have "CHR '','' \<notin> set p \<Longrightarrow> \<forall>q \<in> set qs. CHR '','' \<notin> set q \<Longrightarrow> Split CHR '','' (p @ concat (map (\<lambda>q. CHR '','' # q) qs)) = p # qs" for p qs
    by (induction qs arbitrary: p) (auto simp: Split_free Split_append)
  from this[of p rest] have "Split CHR '','' (comma_list ps) = ps" using Cons assms by (simp add: comma_list_def)
  then show ?thesis using assms by (simp add: FieldsFunc_def)
qed (simp add: FieldsFunc_def comma_list_def)

lemma digits_free:
  assumes "\<not> is_digit c"
  shows "c \<notin> set (digits10 n)"
  using digits10_digits[of n] assms by (auto simp: list_all_iff)

text \<open>The bounds of the six fields: small, and no name in them is a number.\<close>

definition bounds_ok :: "bounds \<Rightarrow> bool" where
  "bounds_ok r \<longleftrightarrow> unat (bounds_max r) < 63 \<and>
     (case bounds_names r of None \<Rightarrow> True | Some ns \<Rightarrow> \<forall>(name, _) \<in> set ns. \<not> list_all is_digit name)"

lemma bounds_ok_fields:
  "bounds_ok bounds_seconds" "bounds_ok bounds_minutes" "bounds_ok bounds_hours" "bounds_ok bounds_dom"
  "bounds_ok bounds_months" "bounds_ok bounds_dow"
  by (simp_all add: bounds_ok_def bounds_seconds_def bounds_minutes_def bounds_hours_def bounds_dom_def bounds_months_def
      bounds_dow_def is_digit_def)

lemma ToLower_digits: "list_all is_digit s \<Longrightarrow> ToLower s = s"
  by (induction s) (auto simp: ToLower_def is_digit_def Let_def)

lemma getRange_number:
  assumes "bounds_ok r" "bounds_min r \<le> of_nat n" "of_nat n \<le> bounds_max r" "n < 63"
  shows "\<exists>b. getRange (digits10 n) r = Inr b \<and> (\<forall>k. bit b k \<longleftrightarrow> k = n)"
proof -
  have split: "Split CHR ''/'' (digits10 n) = [digits10 n]" "Split CHR ''-'' (digits10 n) = [digits10 n]"
    by (rule Split_free, rule digits_free, simp add: is_digit_def)+
  have star: "digits10 n \<noteq> ''*''" "digits10 n \<noteq> ''?''"
    using digits_free[of "CHR ''*''" n] digits_free[of "CHR ''?''" n] by (auto simp: is_digit_def)
  have num: "mustParseInt (digits10 n) = Inr (of_nat n)"
    using ParseInt_digits10[of n] assms(4) by (simp add: mustParseInt_def in64_def)
  have "parseIntOrName (digits10 n) (bounds_names r) = Inr (of_nat n)"
  proof (cases "bounds_names r")
    case (Some ns)
    then have "map_of ns (digits10 n) = None"
      using assms(1) digits10_digits[of n] by (auto simp: bounds_ok_def map_of_eq_None_iff)
    then show ?thesis using num Some by (simp add: parseIntOrName_def ToLower_digits digits10_digits)
  qed (simp add: parseIntOrName_def num)
  moreover obtain b where b: "getBits (of_nat n) (of_nat n) 1 = Inr b" "\<forall>k. bit b k \<longleftrightarrow> k = n"
  proof -
    have "unat (of_nat n :: 64 word) = n" using assms(4) by (simp add: unsigned_of_nat take_bit_nat_eq_self_iff)
    then show thesis using getBits_shift[of "of_nat n" "of_nat n"] that assms(4) by (auto simp: antisym)
  qed
  ultimately show ?thesis using assms(2,3) star
    by (simp add: getRange_def split range_ends_def range_step_def sum_bind_def not_less)
qed


lemma field_bits_numbers:
  assumes "bounds_ok r" "\<forall>n \<in> set ns. unat (bounds_min r) \<le> n \<and> n \<le> unat (bounds_max r)"
  shows "\<exists>b. field_bits r bits (map digits10 ns) = Inr b \<and> (\<forall>k. bit b k \<longleftrightarrow> bit bits k \<or> k \<in> set ns)"
  using assms(2)
proof (induction ns arbitrary: bits)
  case (Cons n ns)
  have n: "n < 63" "unat (of_nat n :: 64 word) = n"
    using Cons.prems assms(1) by (auto simp: bounds_ok_def unsigned_of_nat take_bit_nat_eq_self_iff)
  obtain b where b: "getRange (digits10 n) r = Inr b" "\<forall>k. bit b k \<longleftrightarrow> k = n"
    using getRange_number[OF assms(1), of n] Cons.prems n by (auto simp: word_le_nat_alt)
  then show ?case using Cons.IH[of "bits OR b"] Cons.prems by (auto simp: sum_bind_def bit_or_iff)
qed simp

text \<open>
  A field that lists values of its bounds in decimal, separated by commas, is parsed into the bit set
  with exactly these values.
\<close>

theorem getField_lists_values:
  assumes "bounds_ok r" "\<forall>n \<in> set ns. unat (bounds_min r) \<le> n \<and> n \<le> unat (bounds_max r)"
  shows "\<exists>b. getField (comma_list (map digits10 ns)) r = Inr b \<and> (\<forall>k. bit b k \<longleftrightarrow> k \<in> set ns)"
proof -
  have "FieldsFunc CHR '','' (comma_list (map digits10 ns)) = map digits10 ns"
    by (rule FieldsFunc_comma_list) (auto simp: digits10_nonempty is_digit_def intro!: digits_free)
  with field_bits_numbers[OF assms, of 0] show ?thesis by (simp add: getField_def)
qed

theorem getField_lists_values_witness:
  "\<exists>b. getField ''7,30,59'' bounds_minutes = Inr b \<and> (\<forall>k. bit b k \<longleftrightarrow> k \<in> {7, 30, 59})"
proof -
  have "comma_list (map digits10 [7, 30, 59]) = ''7,30,59''" by code_simp
  with getField_lists_values[OF bounds_ok_fields(2), of "[7, 30, 59]"] show ?thesis by (simp add: bounds_minutes_def)
qed

section \<open>Every expression is decided\<close>

definition plain :: "failure + 'a \<Rightarrow> bool" where
  "plain r \<longleftrightarrow> (\<forall>e. r = Inl e \<longrightarrow> (\<exists>m. e = Err m))"

lemma plain_rules:
  "plain (Inr x)" "plain (Inl (Err txt))" "plain m \<Longrightarrow> (\<And>x. m = Inr x \<Longrightarrow> plain (f x)) \<Longrightarrow> plain (sum_bind m f)"
  "(c \<Longrightarrow> plain a) \<Longrightarrow> (\<not> c \<Longrightarrow> plain b) \<Longrightarrow> plain (if c then a else b)"
  by (auto simp: plain_def sum_bind_def split: sum.splits)

lemma mustParseInt_bound: "plain (mustParseInt s)" "mustParseInt s = Inr w \<Longrightarrow> unat w < 2 ^ 63"
proof -
  show "plain (mustParseInt s)" by (auto simp: mustParseInt_def plain_def split: option.splits)
  assume "mustParseInt s = Inr w"
  then obtain n where n: "ParseInt s = Some n" "0 \<le> n" "w = word_of_int n" by (auto simp: mustParseInt_def split: option.splits if_splits)
  then have "in64 n" by (auto simp: ParseInt_def Let_def split: option.splits if_splits)
  then have "n < 2 ^ 63" by (simp add: in64_def)
  then have "uint w = n" using n(2,3) by (simp add: uint_word_of_int)
  then show "unat w < 2 ^ 63" using \<open>n < 2 ^ 63\<close> n(2) by (simp add: unat_eq_nat_uint nat_less_iff)
qed

lemma parseIntOrName_plain: "plain (parseIntOrName s names)"
  by (auto simp: parseIntOrName_def mustParseInt_bound plain_rules split: option.splits)

lemma getBits_plain:
  assumes "unat mx < 63" "step \<noteq> 0" "unat step < 2 ^ 63"
  shows "plain (getBits mn mx step)"
proof (cases "step = 1")
  case False
  have "unat mx < unat mn + 63" "unat mx + unat step < 2 ^ 64" "0 < step" using assms by (simp_all add: word_gt_0)
  note loop = bits_loop_exact[OF this(2,3,1), of 0]
  have "Suc 63 = (64 :: nat)" by simp
  from loop[unfolded this] obtain b where "bits_loop 64 mn mx step 0 = Inr b" by blast
  then show ?thesis using False by (simp only: getBits_def if_False plain_rules)
qed (simp add: getBits_def plain_rules)

lemma getRange_plain:
  assumes "unat (bounds_max r) < 63"
  shows "plain (getRange expr r)"
proof -
  have ends: "plain (range_ends expr lh r)" for lh
    unfolding range_ends_def by (intro plain_rules parseIntOrName_plain) (auto split: list.splits intro!: plain_rules parseIntOrName_plain)
  have step: "plain (range_step expr rs sd r e0 x0)" for rs sd e0 x0
    unfolding range_step_def by (auto split: list.splits intro!: plain_rules mustParseInt_bound)
  have small: "unat st < 2 ^ 63" if "range_step expr rs sd r e0 x0 = Inr (st, e, x)" for rs sd e0 x0 st e x
    using that mustParseInt_bound(2) by (auto simp: range_step_def sum_bind_def split: list.splits sum.splits)
  have bits: "plain (getBits start e st)" if "range_step expr rs sd r e0 x0 = Inr (st, e, x)" "\<not> bounds_max r < e" "st \<noteq> 0"
    for start e st rs sd e0 x0 x
    using that assms small[OF that(1)] by (intro getBits_plain) (auto simp: word_le_nat_alt not_less)
  show ?thesis
    unfolding getRange_def Let_def split_beta by (intro plain_rules ends step) (auto simp: plain_rules intro: bits)
qed

lemma getField_plain: "bounds_ok r \<Longrightarrow> plain (getField field r)"
proof -
  assume "bounds_ok r"
  then have "plain (field_bits r bits es)" for bits es
    by (induction es arbitrary: bits) (auto simp: bounds_ok_def intro!: plain_rules getRange_plain)
  then show ?thesis by (simp add: getField_def)
qed

definition tz_open :: "string \<Rightarrow> bool" where
  "tz_open spec \<longleftrightarrow> (HasPrefix spec ''TZ='' \<or> HasPrefix spec ''CRON_TZ='') \<and> CHR '' '' \<notin> set spec"

lemma prefix_eq_sign: "HasPrefix spec ''TZ='' \<or> HasPrefix spec ''CRON_TZ='' \<Longrightarrow> CHR ''='' \<in> set spec"
  by (auto simp: HasPrefix_def dest!: arg_cong[where f = set] intro: in_set_takeD)

lemma parse_location_plain: "parse_location env spec = Inl Panic \<and> tz_open spec \<or> \<not> tz_open spec \<and> plain (parse_location env spec)"
  using prefix_eq_sign[of spec]
  by (auto simp: parse_location_def tz_open_def IndexByte_def plain_def split: option.splits sum.splits if_splits)

lemma Parse_plain: "Parse env p spec = Inl Panic \<and> tz_open spec \<or> \<not> tz_open spec \<and> plain (Parse env p spec)"
proof -
  have "plain (normalizeFields flds options)" for flds options
    unfolding normalizeFields_def Let_def by (intro plain_rules)
  moreover have "plain (parse_fields flds loc)" for flds loc
    unfolding parse_fields_def by (intro plain_rules getField_plain bounds_ok_fields)
  moreover have "plain (parseDescriptor env s loc)" for s loc
    unfolding parseDescriptor_def by (auto split: sum.splits intro!: plain_rules)
  ultimately have "plain (Parse env p spec)" if "plain (parse_location env spec)"
    using that unfolding Parse_def split_beta by (intro plain_rules) simp_all
  moreover have "spec \<noteq> []" if "tz_open spec" using that by (auto simp: tz_open_def HasPrefix_def)
  ultimately show ?thesis using parse_location_plain[of env spec] by (auto simp: Parse_def sum_bind_def)
qed

text \<open>
  The location of an expression, the one it names or the local one, has a fixed offset of whole minutes. Nothing is
  said about the other locations of the environment.
\<close>

definition fixed_zone_used :: "cron_env \<Rightarrow> string \<Rightarrow> bool" where
  "fixed_zone_used env spec \<longleftrightarrow> (\<forall>loc rest. parse_location env spec = Inr (loc, rest) \<longrightarrow>
     (\<exists>off. (case loc of None \<Rightarrow> env_Local env | Some z \<Rightarrow> z) = fixed_zone off \<and> off mod 60 = 0))"

lemma sum_bind_eq_Inr: "sum_bind m f = Inr y \<longleftrightarrow> (\<exists>x. m = Inr x \<and> f x = Inr y)"
  by (cases m) (auto simp: sum_bind_def)

text \<open>The schedules of an expression keep its location, and constant ones are delays of whole seconds.\<close>

definition located :: "zone option \<Rightarrow> failure + Schedule \<Rightarrow> bool" where
  "located loc r \<longleftrightarrow> (\<forall>s. r = Inr (Spec s) \<longrightarrow> sched_Location s = loc) \<and> (\<forall>c. r = Inr (Constant c) \<longrightarrow> (\<exists>d. c = Every d))"

lemma located_rules:
  "located loc (Inl e)" "sched_Location s = loc \<Longrightarrow> located loc (Inr (Spec s))" "located loc (Inr (Constant (Every d)))"
  "located loc a \<Longrightarrow> located loc b \<Longrightarrow> located loc (if c then a else b)" "(\<And>x. located loc (f x)) \<Longrightarrow> located loc (sum_bind m f)"
  "(\<And>x. located loc (g x)) \<Longrightarrow> (\<And>x. located loc (h x)) \<Longrightarrow> located loc (case r of Inl x \<Rightarrow> g x | Inr x \<Rightarrow> h x)"
  by (auto simp: located_def sum_bind_def split: sum.splits)

lemma Parse_located:
  assumes "Parse env p spec = Inr r"
  obtains loc rest where "parse_location env spec = Inr (loc, rest)" "located loc (Inr r)"
proof -
  have "located loc (parse_fields flds loc)" for flds loc unfolding parse_fields_def by (intro located_rules) simp
  moreover have "located loc (parseDescriptor env d loc)" for d loc unfolding parseDescriptor_def by (intro located_rules) simp_all
  ultimately have kept: "located loc (if HasPrefix rest ''@'' then (if parser_options p AND opt_Descriptor = 0 then Inl (Err (''parser does not accept descriptors: '' @ rest))
        else parseDescriptor env rest loc)
      else sum_bind (normalizeFields (Fields rest) (parser_options p)) (\<lambda>flds. parse_fields flds loc))" for loc rest
    by (intro located_rules)
  obtain loc rest where l: "parse_location env spec = Inr (loc, rest)"
    and r: "(if HasPrefix rest ''@'' then (if parser_options p AND opt_Descriptor = 0 then Inl (Err (''parser does not accept descriptors: '' @ rest))
        else parseDescriptor env rest loc)
      else sum_bind (normalizeFields (Fields rest) (parser_options p)) (\<lambda>flds. parse_fields flds loc)) = Inr r"
    using assms unfolding Parse_def by (cases "spec = []") (auto simp: sum_bind_eq_Inr)
  show thesis by (rule that[OF l kept[of loc rest, unfolded r]])
qed

lemma parsed_zone:
  assumes "fixed_zone_used env spec" "Parse env p spec = Inr (Spec s)"
  obtains off where "(case sched_Location s of None \<Rightarrow> env_Local env | Some z \<Rightarrow> z) = fixed_zone off" "off mod 60 = 0"
proof -
  obtain loc rest where l: "parse_location env spec = Inr (loc, rest)" and "located loc (Inr (Spec s))"
    using Parse_located[OF assms(2)] .
  then have loc: "sched_Location s = loc" by (simp add: located_def)
  from assms(1)[unfolded fixed_zone_used_def, rule_format, OF l]
  obtain off where "(case loc of None \<Rightarrow> env_Local env | Some z \<Rightarrow> z) = fixed_zone off" "off mod 60 = 0" by (elim exE conjE)
  then show thesis by (intro that[of off]) (simp_all only: loc)
qed

lemma Every_delay: "0 < Delay (Every d)" "10 ^ 9 \<le> Delay (Every d)"
proof -
  define k where "k = (if d < 10 ^ 9 then 10 ^ 9 else d)"
  have "10 ^ 9 \<le> k" by (simp add: k_def)
  then have "1 \<le> k div 10 ^ 9" by (simp add: int_one_le_iff_zero_less pos_imp_zdiv_pos_iff)
  then have "10 ^ 9 \<le> k - k mod 10 ^ 9" by (simp add: minus_mod_eq_mult_div)
  then show "10 ^ 9 \<le> Delay (Every d)" by (simp add: Every_def k_def Let_def)
  then show "0 < Delay (Every d)" by simp
qed

lemma parsed_constant: "Parse env p spec = Inr (Constant c) \<Longrightarrow> \<exists>d. c = Every d"
  by (auto elim!: Parse_located simp: located_def)

text \<open>
  C28: computing the next run of a cron expression whose location (the one it names, or else the local one) has a fixed
  offset of whole minutes ends: with a panic exactly if the expression opens with a time zone that no space
  follows, and otherwise with an error, or with a time that is later than the given one or the zero time.
\<close>

theorem cron_Next_decides:
  assumes "fixed_zone_used env expr"
  shows "if tz_open expr then cron_Next env expr now = Inl Panic
    else (\<exists>msg. cron_Next env expr now = Inl (Err msg)) \<or> (\<exists>r. cron_Next env expr now = Inr r \<and> (r = time_zero \<or> now < r))"
proof -
  obtain p where p: "cron_Next env expr now = sum_bind (Parse env p expr) (\<lambda>s. Schedule_Next env s now)"
    by (simp add: cron_Next_def NewParser_def sum_bind_def)
      (simp add: opt_DowOptional_def opt_Second_def opt_Minute_def opt_Hour_def opt_Dom_def opt_Month_def opt_Dow_def opt_Descriptor_def)
  have "\<exists>r. Schedule_Next env s now = Inr r \<and> (r = time_zero \<or> now < r)" if s: "Parse env p expr = Inr s" for s
  proof (cases s)
    case (Spec sp)
    then obtain off where "(case sched_Location sp of None \<Rightarrow> env_Local env | Some z \<Rightarrow> z) = fixed_zone off" "off mod 60 = 0"
      using parsed_zone[OF assms] s by metis
    then show ?thesis by (rule Next_result[where t = now]) (auto simp: Schedule_Next_def Spec)
  next
    case (Constant c)
    then obtain d where "c = Every d" using parsed_constant s by blast
    moreover have "now mod 10 ^ 9 < 10 ^ 9" by simp
    ultimately show ?thesis using Constant Every_delay(2)[of d]
      by (auto simp: Schedule_Next_def ConstantDelaySchedule_Next_def time_Nanosecond_def)
  qed
  then show ?thesis using Parse_plain[of env p expr] unfolding p
    by (cases "Parse env p expr") (auto simp: sum_bind_def plain_def)
qed

definition demo_cron_env :: cron_env where
  "demo_cron_env = \<lparr>env_LoadLocation = (\<lambda>_. Inr (fixed_zone 3600)), env_ParseDuration = (\<lambda>_. Inl (Err [])), env_Local = fixed_zone 0\<rparr>"

lemma demo_cron_env_zones: "fixed_zone_used demo_cron_env spec"
proof -
  have "\<exists>off. fixed_zone k = fixed_zone off \<and> off mod 60 = 0" if "k mod 60 = 0" for k using that by (intro exI[of _ k] conjI refl)
  from this[of 0] this[of 3600] show ?thesis
    by (auto simp: fixed_zone_used_def demo_cron_env_def parse_location_def split: option.splits sum.splits if_splits)
qed

theorem cron_Next_decides_witness:
  "cron_Next demo_cron_env ''TZ=UTC'' 0 = Inl Panic \<and> cron_Next demo_cron_env ''TZ=UTC '' 0 \<noteq> Inl Panic"
proof -
  have "tz_open ''TZ=UTC''" "\<not> tz_open ''TZ=UTC ''" by code_simp+
  then have "cron_Next demo_cron_env ''TZ=UTC'' 0 = Inl Panic"
    "(\<exists>msg. cron_Next demo_cron_env ''TZ=UTC '' 0 = Inl (Err msg)) \<or> (\<exists>r. cron_Next demo_cron_env ''TZ=UTC '' 0 = Inr r)"
    using cron_Next_decides[OF demo_cron_env_zones, of "''TZ=UTC''" 0] cron_Next_decides[OF demo_cron_env_zones, of "''TZ=UTC ''" 0]
    by (simp_all only: if_True if_False simp_thms) blast
  then show ?thesis by (metis failure.distinct(3) sum.inject(1) sum.distinct(1))
qed

end
