(* ===== verification/Kv_Store.thy ===== *)
theory Kv_Store
  imports Go_Strings "HOL-Library.AList"
begin

text \<open>
  The key-value store of a node of the hash table (\<open>src/pkg/p2p/dht/kvstore.go\<close>): a tree with a level per
  part of a key. It refines a map from paths, the parts of keys, to values.
\<close>

section \<open>The store\<close>

record KV =
  kv_ID :: string
  kv_Key :: string
  kv_Value :: string
  kv_Sig :: string

definition zero_KV :: KV where
  "zero_KV = \<lparr>kv_ID = [], kv_Key = [], kv_Value = [], kv_Sig = []\<rparr>"

definition KV_String :: "KV \<Rightarrow> string" where
  "KV_String kv = kv_Key kv @ '':'' @ kv_Value kv"

text \<open>A Go map of children is an association list with distinct keys, in one of its iteration orders.\<close>

datatype node = Node (children: "(string \<times> node) list") (kv: KV) (isValue: bool)

definition newNode :: node where
  "newNode = Node [] zero_KV False"

record kvStore =
  store_root :: node

definition createKVStore :: kvStore where
  "createKVStore = \<lparr>store_root = newNode\<rparr>"

definition child_or_new :: "string \<Rightarrow> (string \<times> node) list \<Rightarrow> node" where
  "child_or_new part cs = (case map_of cs part of None \<Rightarrow> newNode | Some n \<Rightarrow> n)"

fun put_node :: "KV \<Rightarrow> string list \<Rightarrow> node \<Rightarrow> node" where
  "put_node v [] (Node cs k b) = Node cs v True"
| "put_node v (part # parts) (Node cs k b) =
     Node (AList.update part (put_node v parts (child_or_new part cs)) cs) k b"

definition key_parts :: "string \<Rightarrow> string list" where
  "key_parts key = tl (Split CHR ''/'' key)"

definition kv_put :: "string \<Rightarrow> string \<Rightarrow> string \<Rightarrow> string \<Rightarrow> kvStore \<Rightarrow> failure + kvStore" where
  "kv_put ident key value sig s =
     (if key = [] \<or> hd key \<noteq> CHR ''/'' then Inl (Err ''Invalid key, must start with /'')
      else if value = [] then Inl (Err ''Invalid value, cannot be empty'')
      else Inr \<lparr>store_root =
        put_node \<lparr>kv_ID = ident, kv_Key = key, kv_Value = value, kv_Sig = sig\<rparr> (key_parts key) (store_root s)\<rparr>)"

fun find_node :: "string list \<Rightarrow> node \<Rightarrow> node option" where
  "find_node [] n = Some n"
| "find_node (part # parts) (Node cs k b) =
     (case map_of cs part of None \<Rightarrow> None | Some n \<Rightarrow> find_node parts n)"

definition kv_get :: "string \<Rightarrow> kvStore \<Rightarrow> failure + KV" where
  "kv_get key s =
     (case find_node (key_parts key) (store_root s) of
        None \<Rightarrow> Inl (Err ''Key not found'')
      | Some n \<Rightarrow> if isValue n then Inr (kv n) else Inl (Err ''Key not found''))"

fun collectValues :: "node \<Rightarrow> KV list" where
  "collectValues (Node cs k b) = (if b then [k] else []) @ concat (map (\<lambda>c. collectValues (snd c)) cs)"

definition getAllValuesWithPrefix :: "string \<Rightarrow> kvStore \<Rightarrow> failure + KV list" where
  "getAllValuesWithPrefix pre s =
     (case find_node (key_parts pre) (store_root s) of
        None \<Rightarrow> Inl (Err ''Prefix not found'')
      | Some n \<Rightarrow> Inr (collectValues n))"

text \<open>\<open>removeKey\<close> walks down the parts; the last one is cleared if it has children, and removed otherwise.\<close>

fun remove_node :: "string list \<Rightarrow> node \<Rightarrow> node option" where
  "remove_node [] n = Some n"
| "remove_node [part] (Node cs k b) =
     (case map_of cs part of
        None \<Rightarrow> None
      | Some n \<Rightarrow>
          Some (if children n \<noteq> [] then Node (AList.update part (Node (children n) zero_KV False) cs) k b
                else Node (AList.delete part cs) k b))"
| "remove_node (part # p2 # parts) (Node cs k b) =
     (case map_of cs part of
        None \<Rightarrow> None
      | Some n \<Rightarrow>
          (case remove_node (p2 # parts) n of
             None \<Rightarrow> None
           | Some n' \<Rightarrow> Some (Node (AList.update part n' cs) k b)))"

definition removeKey :: "string \<Rightarrow> kvStore \<Rightarrow> failure + kvStore" where
  "removeKey key s =
     (if key = [] \<or> hd key \<noteq> CHR ''/'' then Inl (Err ''Invalid key, must start with /'')
      else if key_parts key = [] then Inl (Err ''Invalid key, cannot be the root'')
      else
        (case remove_node (key_parts key) (store_root s) of
           None \<Rightarrow> Inl (Err ''Key not found'')
         | Some r \<Rightarrow> Inr \<lparr>store_root = r\<rparr>))"

section \<open>The map it stands for\<close>

text \<open>The specification: what a store of values by path promises its clients.\<close>

locale path_store =
  fixes vals :: "'s \<Rightarrow> string list \<rightharpoonup> KV" and ok :: "'s \<Rightarrow> bool"
    and put :: "KV \<Rightarrow> string list \<Rightarrow> 's \<Rightarrow> 's" and under :: "string list \<Rightarrow> 's \<Rightarrow> KV set"
    and remove :: "string list \<Rightarrow> 's \<Rightarrow> 's option"
  assumes put_ok: "ok s \<Longrightarrow> ok (put v ps s)"
    and put_values: "vals (put v ps s) = (vals s)(ps \<mapsto> v)"
    and under_values: "ok s \<Longrightarrow> under ps s = {v. \<exists>qs. vals s (ps @ qs) = Some v}"
    and remove_ok: "ok s \<Longrightarrow> remove ps s = Some s' \<Longrightarrow> ok s'"
    and remove_values: "ps \<noteq> [] \<Longrightarrow> remove ps s = Some s' \<Longrightarrow> vals s' = (vals s)(ps := None)"
begin

lemma put_under: "ok s \<Longrightarrow> v \<in> under ps (put v (ps @ qs) s)"
  by (auto simp: under_values put_ok put_values)

lemma put_other: "ok s \<Longrightarrow> \<not> (\<exists>ss. qs = ps @ ss) \<Longrightarrow> under ps (put v qs s) = under ps s"
  by (auto simp: under_values put_ok put_values)

lemma put_put: "vals (put v ps (put w ps s)) = vals (put v ps s)"
  by (simp add: put_values)

lemma remove_put: "ps \<noteq> [] \<Longrightarrow> vals s ps = None \<Longrightarrow> remove ps (put v ps s) = Some s' \<Longrightarrow> vals s' = vals s"
  by (auto simp: remove_values put_values)

end

definition lookup_path :: "node \<Rightarrow> string list \<rightharpoonup> KV" where
  "lookup_path n ps = (case find_node ps n of None \<Rightarrow> None | Some m \<Rightarrow> if isValue m then Some (kv m) else None)"

fun node_ok :: "node \<Rightarrow> bool" where
  "node_ok (Node cs k b) \<longleftrightarrow> distinct (map fst cs) \<and> (\<forall>c \<in> set cs. node_ok (snd c))"

lemma lookup_path_simps [simp]:
  "lookup_path (Node cs k b) [] = (if b then Some k else None)"
  "lookup_path (Node cs k b) (p # ps) = (case map_of cs p of None \<Rightarrow> None | Some n \<Rightarrow> lookup_path n ps)"
  by (simp_all add: lookup_path_def split: option.splits)

lemma lookup_newNode [simp]: "lookup_path newNode ps = None"
  by (cases ps) (simp_all add: newNode_def)

lemma put_node_lookup: "lookup_path (put_node v ps n) qs = (if qs = ps then Some v else lookup_path n qs)"
proof (induction v ps n arbitrary: qs rule: put_node.induct)
  case (1 v cs k b)
  then show ?case by (cases qs) auto
next
  case (2 v part parts cs k b)
  show ?case
  proof (cases qs)
    case (Cons q rest)
    then show ?thesis using 2[of rest]
      by (auto simp: update_conv' child_or_new_def split: option.splits)
  qed simp
qed

lemma put_node_ok: "node_ok n \<Longrightarrow> node_ok (put_node v ps n)"
proof (induction v ps n rule: put_node.induct)
  case (2 v part parts cs k b)
  have "node_ok (child_or_new part cs)"
    using 2(2) by (auto simp: child_or_new_def newNode_def split: option.splits dest: map_of_SomeD)
  moreover have "set (AList.update part x cs) \<subseteq> insert (part, x) (set cs)" for x
    by (induction cs) auto
  ultimately show ?case using 2 by (fastforce simp: distinct_update)
qed auto

lemma remove_node_lookup:
  "ps \<noteq> [] \<Longrightarrow> remove_node ps n = Some n' \<Longrightarrow> lookup_path n' qs = (if qs = ps then None else lookup_path n qs)"
proof (induction ps n arbitrary: n' qs rule: remove_node.induct)
  case (2 part cs k b)
  then obtain m where m: "map_of cs part = Some m" by (auto split: option.splits)
  obtain ms mk mb where mm: "m = Node ms mk mb" by (cases m)
  show ?case using 2 m mm
    by (cases qs; cases "tl qs") (auto simp: update_conv' delete_conv' split: if_splits option.splits)
next
  case (3 part p2 parts cs k b)
  then obtain m m' where m: "map_of cs part = Some m" "remove_node (p2 # parts) m = Some m'"
    "n' = Node (AList.update part m' cs) k b"
    by (auto split: option.splits)
  then show ?case using "3.IH"[OF m(1) _ m(2)] by (cases qs) (simp_all add: update_conv')
qed simp

lemma remove_node_None: "remove_node ps n = None \<Longrightarrow> lookup_path n ps = None"
  by (induction ps n rule: remove_node.induct) (auto split: option.splits)

lemma set_update: "set (AList.update p x cs) \<subseteq> insert (p, x) (set cs)"
  by (induction cs) auto

lemma node_ok_update: "node_ok (Node cs k b) \<Longrightarrow> node_ok m \<Longrightarrow> node_ok (Node (AList.update p m cs) k b)"
  using set_update[of p m cs] by (fastforce simp: distinct_update)

lemma node_ok_child: "node_ok (Node cs k b) \<Longrightarrow> map_of cs p = Some m \<Longrightarrow> node_ok m"
  by (auto dest!: map_of_SomeD)

lemma remove_node_ok: "node_ok n \<Longrightarrow> remove_node ps n = Some n' \<Longrightarrow> node_ok n'"
proof (induction ps n arbitrary: n' rule: remove_node.induct)
  case (2 part cs k b)
  then obtain m where m: "map_of cs part = Some m" by (auto split: option.splits)
  have "node_ok m" by (rule node_ok_child[OF 2(1) m])
  then have "node_ok (Node (children m) zero_KV False)" by (cases m) simp
  from node_ok_update[OF 2(1) this, of part] show ?case
    using 2 m by (auto simp: AList.delete_eq distinct_map_filter split: if_splits)
next
  case (3 part p2 parts cs k b)
  then obtain m m' where m: "map_of cs part = Some m" "remove_node (p2 # parts) m = Some m'"
    "n' = Node (AList.update part m' cs) k b"
    by (auto split: option.splits)
  show ?case unfolding m(3)
    by (rule node_ok_update[OF "3.prems"(1)]) (rule "3.IH"[OF m(1) node_ok_child[OF "3.prems"(1) m(1)] m(2)])
qed simp

lemma collectValues_lookup: "node_ok n \<Longrightarrow> set (collectValues n) = {v. \<exists>qs. lookup_path n qs = Some v}"
proof (induction n rule: collectValues.induct)
  case (1 cs k b)
  have "set (collectValues (snd c)) = {v. \<exists>qs. lookup_path (snd c) qs = Some v}" if "c \<in> set cs" for c
    using 1 that by simp
  then have "set (collectValues (Node cs k b)) = (if b then {k} else {}) \<union> {v. \<exists>c \<in> set cs. \<exists>qs. lookup_path (snd c) qs = Some v}"
    by auto
  also have "\<dots> = {v. \<exists>qs. lookup_path (Node cs k b) qs = Some v}"
  proof -
    have "(\<exists>c \<in> set cs. \<exists>qs. lookup_path (snd c) qs = Some v) \<longleftrightarrow> (\<exists>p n. map_of cs p = Some n \<and> (\<exists>qs. lookup_path n qs = Some v))" for v
      using 1(2) by (force dest: map_of_SomeD)
    moreover have "(\<exists>qs. lookup_path (Node cs k b) qs = Some v) \<longleftrightarrow>
        b \<and> v = k \<or> (\<exists>p n. map_of cs p = Some n \<and> (\<exists>qs. lookup_path n qs = Some v))" for v
    proof -
      have ex: "(\<exists>qs. P qs) \<longleftrightarrow> P [] \<or> (\<exists>q qs. P (q # qs))" for P :: "string list \<Rightarrow> bool" by (metis neq_Nil_conv)
      have "lookup_path (Node cs k b) (q # qs) = Some v \<longleftrightarrow> (\<exists>n. map_of cs q = Some n \<and> lookup_path n qs = Some v)" for q qs
        by (simp split: option.splits)
      moreover have "lookup_path (Node cs k b) [] = Some v \<longleftrightarrow> b \<and> v = k" by auto
      ultimately show ?thesis by (subst ex) blast
    qed
    ultimately show ?thesis by auto
  qed
  finally show ?case .
qed

lemma find_node_lookup: "find_node ps n = Some m \<Longrightarrow> lookup_path n (ps @ qs) = lookup_path m qs"
  by (induction ps n rule: find_node.induct) (auto split: option.splits)

lemma find_node_None: "find_node ps n = None \<Longrightarrow> lookup_path n (ps @ qs) = None"
  by (induction ps n rule: find_node.induct) (auto split: option.splits)

lemma find_node_ok: "node_ok n \<Longrightarrow> find_node ps n = Some m \<Longrightarrow> node_ok m"
  by (induction ps n rule: find_node.induct) (auto split: option.splits dest!: map_of_SomeD)

definition values_under :: "string list \<Rightarrow> node \<Rightarrow> KV set" where
  "values_under ps n = (case find_node ps n of None \<Rightarrow> {} | Some m \<Rightarrow> set (collectValues m))"

interpretation kvs: path_store lookup_path node_ok put_node values_under remove_node
proof
  show "values_under ps s = {v. \<exists>qs. lookup_path s (ps @ qs) = Some v}" if "node_ok s" for ps s
    using that by (cases "find_node ps s")
      (auto simp: values_under_def find_node_None find_node_lookup collectValues_lookup find_node_ok)
qed (auto simp: put_node_ok put_node_lookup remove_node_ok remove_node_lookup)

definition store_values :: "kvStore \<Rightarrow> string list \<rightharpoonup> KV" where
  "store_values s = lookup_path (store_root s)"

definition store_ok :: "kvStore \<Rightarrow> bool" where
  "store_ok s \<longleftrightarrow> node_ok (store_root s)"

lemma createKVStore_ok: "store_ok createKVStore" "store_values createKVStore = Map.empty"
  by (auto simp: store_ok_def store_values_def createKVStore_def newNode_def[symmetric]) (simp add: newNode_def)

lemma key_parts_nonempty: "key \<noteq> [] \<Longrightarrow> hd key = CHR ''/'' \<Longrightarrow> key_parts key \<noteq> []"
proof -
  have "Split c xs \<noteq> []" for c xs by (induction xs) (auto split: list.splits)
  then show "key \<noteq> [] \<Longrightarrow> hd key = CHR ''/'' \<Longrightarrow> key_parts key \<noteq> []" by (cases key) (auto simp: key_parts_def)
qed

text \<open>
  C17: the store of a node is a map from the parts of keys to values. \<open>put\<close> of a key that opens with a
  slash and of a value that is not empty updates the map at the key, and every other \<open>put\<close> is refused;
  \<open>get\<close> reads the map; \<open>getAllValuesWithPrefix\<close> gives the values of all keys that extend the prefix; and
  \<open>removeKey\<close> takes exactly the value of the key away, or fails, which it never does where there is a value.
\<close>

theorem kvstore_refines_map:
  assumes "store_ok s"
  shows "(case kv_put ident key val sig s of
      Inl _ \<Rightarrow> key = [] \<or> hd key \<noteq> CHR ''/'' \<or> val = []
    | Inr s' \<Rightarrow> store_ok s' \<and>
        store_values s' = (store_values s)(key_parts key \<mapsto> \<lparr>kv_ID = ident, kv_Key = key, kv_Value = val, kv_Sig = sig\<rparr>)) \<and>
    (case kv_get key s of Inl _ \<Rightarrow> store_values s (key_parts key) = None | Inr v \<Rightarrow> store_values s (key_parts key) = Some v) \<and>
    (case getAllValuesWithPrefix key s of
       Inl _ \<Rightarrow> \<forall>qs. store_values s (key_parts key @ qs) = None
     | Inr vs \<Rightarrow> set vs = {v. \<exists>qs. store_values s (key_parts key @ qs) = Some v}) \<and>
    (case removeKey key s of
       Inl _ \<Rightarrow> store_values s (key_parts key) = None \<or> key = [] \<or> hd key \<noteq> CHR ''/''
     | Inr s' \<Rightarrow> store_ok s' \<and> store_values s' = (store_values s)(key_parts key := None))"
proof (intro conjI)
  have ok: "node_ok (store_root s)" using assms by (simp add: store_ok_def)
  show "case kv_get key s of Inl _ \<Rightarrow> store_values s (key_parts key) = None | Inr v \<Rightarrow> store_values s (key_parts key) = Some v"
    by (simp add: kv_get_def store_values_def lookup_path_def split: option.splits)
  show "case getAllValuesWithPrefix key s of Inl _ \<Rightarrow> \<forall>qs. store_values s (key_parts key @ qs) = None
     | Inr vs \<Rightarrow> set vs = {v. \<exists>qs. store_values s (key_parts key @ qs) = Some v}"
    using kvs.under_values[OF ok, of "key_parts key"]
    by (simp add: getAllValuesWithPrefix_def store_values_def values_under_def find_node_None split: option.splits)
  show "case removeKey key s of Inl _ \<Rightarrow> store_values s (key_parts key) = None \<or> key = [] \<or> hd key \<noteq> CHR ''/''
     | Inr s' \<Rightarrow> store_ok s' \<and> store_values s' = (store_values s)(key_parts key := None)"
    using kvs.remove_ok[OF ok] kvs.remove_values remove_node_None[of "key_parts key" "store_root s"] key_parts_nonempty[of key]
    by (auto simp: removeKey_def store_ok_def store_values_def split: option.splits)
qed (use assms in \<open>auto simp: kv_put_def store_ok_def store_values_def kvs.put_ok kvs.put_values\<close>)

definition demo_store :: kvStore where
  "demo_store = (case kv_put ''me'' ''/me/a'' ''1'' ''s'' createKVStore of Inl _ \<Rightarrow> createKVStore | Inr s \<Rightarrow> s)"

theorem kvstore_refines_map_witness:
  "store_ok demo_store \<and> store_values demo_store = [[''me'', ''a''] \<mapsto> \<lparr>kv_ID = ''me'', kv_Key = ''/me/a'', kv_Value = ''1'', kv_Sig = ''s''\<rparr>]"
proof -
  have "kv_put ''me'' ''/me/a'' ''1'' ''s'' createKVStore = Inr demo_store" "key_parts ''/me/a'' = [''me'', ''a'']"
    by (simp_all add: demo_store_def kv_put_def key_parts_def)
  then show ?thesis
    using kvstore_refines_map[OF createKVStore_ok(1), where ident = "''me''" and key = "''/me/a''" and val = "''1''" and sig = "''s''"] by (simp add: createKVStore_ok(2))
qed

end
