(* ===== verification/Routing_Table.thy ===== *)
theory Routing_Table
  imports Go_Strings "HOL-Library.Word" "HOL-Library.Multiset"
begin

text \<open>
  The routing table of the Kademlia hash table: identifiers with their XOR distance
  (\<open>src/pkg/p2p/dht/kademliaid.go\<close>), contacts (\<open>contact.go\<close>), buckets (\<open>bucket.go\<close>) and the table
  (\<open>routingtable.go\<close>).
\<close>

unbundle bit_operations_syntax

section \<open>Identifiers\<close>

text \<open>An array of 32 bytes; the length is an invariant.\<close>

type_synonym KademliaID = "8 word list"

definition IDLength :: nat where "IDLength = 32"

definition hex_digit :: "char \<Rightarrow> nat option" where
  "hex_digit c =
     (let n = of_char c :: nat in
      if 48 \<le> n \<and> n \<le> 57 then Some (n - 48) else if 97 \<le> n \<and> n \<le> 102 then Some (n - 87)
      else if 65 \<le> n \<and> n \<le> 70 then Some (n - 55) else None)"

text \<open>The bytes \<open>hex.DecodeString\<close> gives, which on an error are those it has decoded before.\<close>

fun hex_decode :: "string \<Rightarrow> 8 word list" where
  "hex_decode (a # b # cs) =
     (case (hex_digit a, hex_digit b) of
        (Some x, Some y) \<Rightarrow> of_nat (16 * x + y) # hex_decode cs
      | _ \<Rightarrow> [])"
| "hex_decode _ = []"

definition hex_char :: "nat \<Rightarrow> char" where
  "hex_char d = char_of (if d < 10 then 48 + d else 87 + d)"

fun hex_encode :: "8 word list \<Rightarrow> string" where
  "hex_encode [] = []"
| "hex_encode (w # ws) = hex_char (unat w div 16) # hex_char (unat w mod 16) # hex_encode ws"

text \<open>The error of the decoder is dropped, so too few bytes are an index out of range.\<close>

definition CreateKademliaID :: "string \<Rightarrow> failure + KademliaID" where
  "CreateKademliaID dat =
     (let decoded = hex_decode dat in
      if length decoded < IDLength then Inl Panic else Inr (take IDLength decoded))"

definition KademliaID_String :: "KademliaID \<Rightarrow> string" where
  "KademliaID_String i = hex_encode i"

fun KademliaID_Less :: "KademliaID \<Rightarrow> KademliaID \<Rightarrow> bool" where
  "KademliaID_Less (x # xs) (y # ys) = (if x \<noteq> y then x < y else KademliaID_Less xs ys)"
| "KademliaID_Less _ _ = False"

definition KademliaID_Equals :: "KademliaID \<Rightarrow> KademliaID \<Rightarrow> bool" where
  "KademliaID_Equals a b \<longleftrightarrow> list_all2 (=) a b"

definition KademliaID_CalcDistance :: "KademliaID \<Rightarrow> KademliaID \<Rightarrow> KademliaID" where
  "KademliaID_CalcDistance a target = map2 (XOR) a target"

section \<open>Contacts and buckets\<close>

record p2p_Node =
  node_Name :: string
  node_Addr :: string

record Contact =
  ct_ID :: KademliaID
  ct_Node :: p2p_Node
  ct_prvKey :: string
  ct_distance :: KademliaID

definition zero_ID :: KademliaID where "zero_ID = replicate IDLength 0"

definition zero_Contact :: Contact where
  "zero_Contact = \<lparr>ct_ID = zero_ID, ct_Node = \<lparr>node_Name = [], node_Addr = []\<rparr>, ct_prvKey = [], ct_distance = zero_ID\<rparr>"

definition Contact_CalcDistance :: "KademliaID \<Rightarrow> Contact \<Rightarrow> Contact" where
  "Contact_CalcDistance target c = c\<lparr>ct_distance := KademliaID_CalcDistance (ct_ID c) target\<rparr>"

definition Contact_Less :: "Contact \<Rightarrow> Contact \<Rightarrow> bool" where
  "Contact_Less c d = KademliaID_Less (ct_distance c) (ct_distance d)"

type_synonym bucket = "Contact list"

definition bucketSize :: nat where "bucketSize = 20"

definition createBucket :: bucket where "createBucket = []"

text \<open>The last element with the id, if there is one, goes to the front as it is; the new contact is dropped then.\<close>

definition bucket_addContact :: "Contact \<Rightarrow> bucket \<Rightarrow> bucket" where
  "bucket_addContact c b =
     (let other = (\<lambda>e. \<not> KademliaID_Equals (ct_ID c) (ct_ID e)) in
      case dropWhile other (rev b) of
        [] \<Rightarrow> if length b < bucketSize then c # b else b
      | e # before \<Rightarrow> e # rev before @ rev (takeWhile other (rev b)))"

text \<open>Removing an element of the list ends the loop over it.\<close>

definition bucket_removeContact :: "Contact \<Rightarrow> bucket \<Rightarrow> bucket" where
  "bucket_removeContact c b =
     (let other = (\<lambda>e. \<not> KademliaID_Equals (ct_ID c) (ct_ID e)) in
      takeWhile other b @ tl (dropWhile other b))"

definition bucket_getContact :: "KademliaID \<Rightarrow> bucket \<Rightarrow> Contact" where
  "bucket_getContact target b =
     (case find (\<lambda>c. KademliaID_Equals (ct_ID c) target) b of None \<Rightarrow> zero_Contact | Some c \<Rightarrow> c)"

definition getContactAndCalcDistance :: "KademliaID \<Rightarrow> bucket \<Rightarrow> Contact list" where
  "getContactAndCalcDistance target b = map (Contact_CalcDistance target) b"

section \<open>The table\<close>

record routingTable =
  rt_me :: Contact
  rt_buckets :: "bucket list"

definition createRoutingTable :: "Contact \<Rightarrow> routingTable" where
  "createRoutingTable me = \<lparr>rt_me = me, rt_buckets = replicate (IDLength * 8) createBucket\<rparr>"

definition getBucketIndex :: "routingTable \<Rightarrow> KademliaID \<Rightarrow> nat" where
  "getBucketIndex rt i =
     (let distance = KademliaID_CalcDistance i (ct_ID (rt_me rt)) in
      case find (\<lambda>(i, j). drop_bit (7 - j) (distance ! i) AND 1 \<noteq> 0) [(i, j). i \<leftarrow> [0..<IDLength], j \<leftarrow> [0..<8]] of
        Some (i, j) \<Rightarrow> i * 8 + j
      | None \<Rightarrow> IDLength * 8 - 1)"

definition on_bucket :: "KademliaID \<Rightarrow> (bucket \<Rightarrow> bucket) \<Rightarrow> routingTable \<Rightarrow> routingTable" where
  "on_bucket i f rt =
     (let bucketIndex = getBucketIndex rt i in
      rt\<lparr>rt_buckets := (rt_buckets rt)[bucketIndex := f (rt_buckets rt ! bucketIndex)]\<rparr>)"

definition rt_addContact :: "Contact \<Rightarrow> routingTable \<Rightarrow> routingTable" where
  "rt_addContact c rt = on_bucket (ct_ID c) (bucket_addContact c) rt"

definition rt_removeContact :: "Contact \<Rightarrow> routingTable \<Rightarrow> routingTable" where
  "rt_removeContact c rt = on_bucket (ct_ID c) (bucket_removeContact c) rt"

definition rt_getContact :: "KademliaID \<Rightarrow> routingTable \<Rightarrow> Contact" where
  "rt_getContact i rt = bucket_getContact i (rt_buckets rt ! getBucketIndex rt i)"

text \<open>The loop of \<open>findClosestContacts\<close>: buckets further and further away on both sides, while contacts are missing.\<close>

function widen :: "routingTable \<Rightarrow> KademliaID \<Rightarrow> nat \<Rightarrow> int \<Rightarrow> nat \<Rightarrow> Contact list \<Rightarrow> Contact list" where
  "widen rt target idx cnt i candidates =
     (if (i \<le> idx \<or> idx + i < IDLength * 8) \<and> int (length candidates) < cnt
      then widen rt target idx cnt (Suc i)
        (candidates @
         (if i \<le> idx then getContactAndCalcDistance target (rt_buckets rt ! (idx - i)) else []) @
         (if idx + i < IDLength * 8 then getContactAndCalcDistance target (rt_buckets rt ! (idx + i)) else []))
      else candidates)"
  by pat_completeness auto
termination
  by (relation "measure (\<lambda>(rt, target, idx, cnt, i, cs). max (Suc idx) (IDLength * 8) - i)") auto

declare widen.simps [simp del]

text \<open>\<open>sort.Sort\<close> is not stable: \<open>srt\<close> is any sort of contacts by distance. A negative count is a slice out of range.\<close>

definition findClosestContacts ::
  "(Contact list \<Rightarrow> Contact list) \<Rightarrow> KademliaID \<Rightarrow> int \<Rightarrow> routingTable \<Rightarrow> failure + Contact list" where
  "findClosestContacts srt target cnt rt =
     (let bucketIndex = getBucketIndex rt target;
          candidates = srt (widen rt target bucketIndex cnt 1 (getContactAndCalcDistance target (rt_buckets rt ! bucketIndex)));
          cnt' = (if cnt > int (length candidates) then int (length candidates) else cnt)
      in if cnt' < 0 then Inl Panic else Inr (take (nat cnt') candidates))"

end
