(* ===== verification/Dht_Node.thy ===== *)
theory Dht_Node
  imports Kv_Store Routing_Table
begin

text \<open>
  A node of the hash table: the checks of keys and signatures (\<open>src/pkg/p2p/dht/validation.go\<close>,
  \<open>parsers.go\<close>), the worker that owns the routing table and the store (\<open>states.go\<close>), the handlers of
  requests (\<open>handlers.go\<close>) and the dispatcher of messages (\<open>dispatcher.go\<close>).

  The worker serves the jobs of a queue one by one, so the tables are a state that jobs change in turn.
  A handler waits for its job with a \<open>select\<close>; which ready case Go picks, or that a second has passed
  first, is an argument of the handler.
\<close>

section \<open>Messages\<close>

record RPCHeader = hdr_Sender :: Contact

record PingReq = pingq_Header :: RPCHeader

record PingResp =
  pingr_Header :: RPCHeader
  pingr_Status :: int
  pingr_Error :: string

record FindContactsReq =
  findq_Header :: RPCHeader
  findq_KademliaID :: string
  findq_Count :: int

record FindContactsResp =
  findr_Header :: RPCHeader
  findr_Contacts :: "Contact list"
  findr_Status :: int
  findr_Error :: string

record PutReq =
  putq_Header :: RPCHeader
  putq_KV :: KV

record PutResp =
  putr_Header :: RPCHeader
  putr_Status :: int
  putr_Error :: string

record GetReq =
  getq_Header :: RPCHeader
  getq_Key :: string

record GetResp =
  getr_Header :: RPCHeader
  getr_KVS :: "KV list"
  getr_Status :: int
  getr_Error :: string

datatype msg_type = MSG_PING_REQ | MSG_PING_RESP | MSG_FIND_CONTACTS_REQ | MSG_FIND_CONTACTS_RESP
  | MSG_PUT_REQ | MSG_PUT_RESP | MSG_GET_REQ | MSG_GET_RESP | MSG_OTHER int

record Message =
  msg_ID :: string
  msg_From :: p2p_Node
  msg_To :: p2p_Node
  msg_Type :: msg_type
  msg_Payload :: string

text \<open>
  What a node calls: the hash and the signature scheme, the JSON package, the messenger and the sort.
  A decoder gives an error or a pointer, which is nil for the document \<open>null\<close>.
\<close>

record dht_env =
  GenerateHash :: "string \<Rightarrow> string"
  RecoverID :: "string \<Rightarrow> string \<Rightarrow> failure + string"
  ConvertJSONToPingReq :: "string \<Rightarrow> failure + PingReq option"
  ConvertJSONToFindContactsReq :: "string \<Rightarrow> failure + FindContactsReq option"
  ConvertJSONToPutReq :: "string \<Rightarrow> failure + PutReq option"
  ConvertJSONToGetReq :: "string \<Rightarrow> failure + GetReq option"
  PingResp_ToJSON :: "PingResp \<Rightarrow> failure + string"
  FindContactsResp_ToJSON :: "FindContactsResp \<Rightarrow> failure + string"
  PutResp_ToJSON :: "PutResp \<Rightarrow> failure + string"
  GetResp_ToJSON :: "GetResp \<Rightarrow> failure + string"
  messenger_Send :: "Message \<Rightarrow> failure option"
  contact_sort :: "Contact list \<Rightarrow> Contact list"

text \<open>The text of an error, with that of a driver error as it is.\<close>

fun Error_text :: "failure \<Rightarrow> string" where
  "Error_text (Err e) = e"
| "Error_text (SqlErr e) = e"
| "Error_text _ = []"

definition STATUS_SUCCESS :: int where "STATUS_SUCCESS = 0"
definition STATUS_ERROR :: int where "STATUS_ERROR = 1"

section \<open>Keys and signatures\<close>

definition alnum :: "char \<Rightarrow> bool" where
  "alnum c \<longleftrightarrow> (let n = of_char c :: nat in 48 \<le> n \<and> n \<le> 57 \<or> 65 \<le> n \<and> n \<le> 90 \<or> 97 \<le> n \<and> n \<le> 122)"

text \<open>The regular expression: a slash, then one to five parts of letters and digits with slashes between them.\<close>

definition validateKey :: "string \<Rightarrow> bool" where
  "validateKey key \<longleftrightarrow>
     (case key of
        [] \<Rightarrow> False
      | c # rest \<Rightarrow> c = CHR ''/'' \<and>
          (let parts = Split CHR ''/'' rest in length parts \<le> 5 \<and> (\<forall>p \<in> set parts. p \<noteq> [] \<and> (\<forall>x \<in> set p. alnum x))))"

definition getRootKey :: "string \<Rightarrow> failure + string" where
  "getRootKey key =
     (if \<not> validateKey key then Inl (Err
        ''Invalid key format. Expected format: '/key1/key2/.../keyN' with 1 to 5 alphanumeric sublevels and no trailing slash.'')
      else case FieldsFunc CHR ''/'' key of
        [] \<Rightarrow> Inl (Err ''No prefix found'')
      | p # _ \<Rightarrow> Inr p)"

definition validateRootKey :: "string \<Rightarrow> string \<Rightarrow> failure option" where
  "validateRootKey key ident =
     (case getRootKey key of
        Inl e \<Rightarrow> Some e
      | Inr rootKey \<Rightarrow>
          if length rootKey \<noteq> 64 then Some (Err ''Invalid root key length'')
          else if ident \<noteq> rootKey then Some (Err ''Invalid root key'')
          else None)"

definition validateValue :: "dht_env \<Rightarrow> KV \<Rightarrow> failure option" where
  "validateValue env pair =
     (case RecoverID env (GenerateHash env (kv_Value pair)) (kv_Sig pair) of
        Inl e \<Rightarrow> Some (Err (''Invalid signature: '' @ Error_text e))
      | Inr recoveredID \<Rightarrow> if recoveredID \<noteq> kv_ID pair then Some (Err ''Invalid signature'') else None)"

definition ValidateKV :: "dht_env \<Rightarrow> KV \<Rightarrow> failure option" where
  "ValidateKV env pair =
     (case validateValue env pair of
        Some e \<Rightarrow> Some e
      | None \<Rightarrow> validateRootKey (kv_Key pair) (kv_ID pair))"

section \<open>The worker of the tables\<close>

record states =
  st_rt :: routingTable
  st_kvs :: kvStore
  st_stopped :: bool

datatype job =
    ADD_CONTACT Contact
  | FIND_CONTACTS string int
  | PUT string string string string
  | GET string
  | STOP

text \<open>What a job leaves in its channels, which it closes; an error channel may hold a nil.\<close>

record job_chans =
  errChan :: "failure option list"
  contactsChan :: "Contact list list"
  kvChan :: "KV list list"

definition no_chans :: job_chans where
  "no_chans = \<lparr>errChan = [], contactsChan = [], kvChan = []\<rparr>"

definition createStates :: "Contact \<Rightarrow> states" where
  "createStates c = \<lparr>st_rt = createRoutingTable c, st_kvs = createKVStore, st_stopped = False\<rparr>"

text \<open>One turn of \<open>serveForever\<close>; a stopped worker takes no job.\<close>

fun serve_job :: "dht_env \<Rightarrow> job \<Rightarrow> (states, job_chans) op" where
  "serve_job env (ADD_CONTACT c) s =
     (Inr (no_chans\<lparr>errChan := [None]\<rparr>), s\<lparr>st_rt := rt_addContact c (st_rt s)\<rparr>)"
| "serve_job env (FIND_CONTACTS kademliaID cnt) s =
     (case CreateKademliaID kademliaID of
        Inl e \<Rightarrow> (Inl e, s)
      | Inr target \<Rightarrow>
          (case findClosestContacts (contact_sort env) target cnt (st_rt s) of
             Inl e \<Rightarrow> (Inl e, s)
           | Inr cs \<Rightarrow> (Inr (no_chans\<lparr>contactsChan := [cs]\<rparr>), s)))"
| "serve_job env (PUT ident key val sig) s =
     (case kv_put ident key val sig (st_kvs s) of
        Inl e \<Rightarrow> (Inr (no_chans\<lparr>errChan := [Some e]\<rparr>), s)
      | Inr kvs \<Rightarrow> (Inr (no_chans\<lparr>errChan := [None]\<rparr>), s\<lparr>st_kvs := kvs\<rparr>))"
| "serve_job env (GET val) s =
     (case getAllValuesWithPrefix val (st_kvs s) of
        Inl e \<Rightarrow> (Inr (no_chans\<lparr>errChan := [Some e]\<rparr>), s)
      | Inr kvs \<Rightarrow> (Inr (no_chans\<lparr>kvChan := [kvs]\<rparr>), s))"
| "serve_job env STOP s = (Inr no_chans, s\<lparr>st_stopped := True\<rparr>)"

section \<open>A node\<close>

text \<open>
  The reply channels of requests under way, each with whether its requester still waits; the messages
  sent and the replies handed over; and whether the dispatcher hangs in a send.
\<close>

record Kademlia =
  k_Contact :: Contact
  k_states :: states
  replyHandler :: "string \<rightharpoonup> bool"
  k_sent :: "Message list"
  k_replies :: "Message list"
  k_blocked :: bool

definition CreateKademlia :: "Contact \<Rightarrow> Kademlia" where
  "CreateKademlia c =
     \<lparr>k_Contact = c, k_states = createStates c, replyHandler = Map.empty, k_sent = [], k_replies = [], k_blocked = False\<rparr>"

text \<open>The case a \<open>select\<close> takes. A read of a closed channel gives what is left in it, and then a zero value.\<close>

datatype sel = Timeout | ErrCase | ResultCase

definition recv_closed :: "'a \<Rightarrow> 'a list \<Rightarrow> 'a" where
  "recv_closed zero buf = (case buf of [] \<Rightarrow> zero | x # _ \<Rightarrow> x)"

text \<open>A job of a stopped worker is never served, and whoever waits for it runs into the timeout.\<close>

definition queue_job :: "dht_env \<Rightarrow> job \<Rightarrow> sel \<Rightarrow> (Kademlia, job_chans \<times> sel) op" where
  "queue_job env j w k =
     (if st_stopped (k_states k) then (Inr (no_chans, Timeout), k)
      else case serve_job env j (k_states k) of
        (Inl e, s) \<Rightarrow> (Inl e, k\<lparr>k_states := s\<rparr>)
      | (Inr cs, s) \<Rightarrow> (Inr (cs, w), k\<lparr>k_states := s\<rparr>))"

definition kad_addContact :: "dht_env \<Rightarrow> sel \<Rightarrow> Contact \<Rightarrow> (Kademlia, failure option) op" where
  "kad_addContact env w c =
     bindM (queue_job env (ADD_CONTACT c) w) (\<lambda>(cs, w).
     retM (case w of Timeout \<Rightarrow> Some (Err ''Failed to add contact'') | _ \<Rightarrow> recv_closed None (errChan cs)))"

section \<open>Handlers\<close>

definition dht_MAX_COUNT :: int where "dht_MAX_COUNT = 100"

definition kad_send :: "dht_env \<Rightarrow> Message \<Rightarrow> (Kademlia, unit) op" where
  "kad_send env m = thenM (modifyM (\<lambda>k. k\<lparr>k_sent := k_sent k @ [m]\<rparr>))
     (case messenger_Send env m of None \<Rightarrow> retM () | Some e \<Rightarrow> throwM e)"

definition sendReply :: "dht_env \<Rightarrow> Message \<Rightarrow> Message \<Rightarrow> (Kademlia, unit) op" where
  "sendReply env msg replyMsg = kad_send env (replyMsg\<lparr>msg_ID := msg_ID msg\<rparr>)"

definition peer_reply :: "dht_env \<Rightarrow> Message \<Rightarrow> msg_type \<Rightarrow> string \<Rightarrow> (Kademlia, unit) op" where
  "peer_reply env msg t json =
     bindM (getM k_Contact) (\<lambda>me.
     sendReply env msg \<lparr>msg_ID = [], msg_From = ct_Node me, msg_To = msg_From msg, msg_Type = t, msg_Payload = json\<rparr>)"

definition status_of :: "failure option \<Rightarrow> int" where
  "status_of err = (case err of None \<Rightarrow> STATUS_SUCCESS | Some _ \<Rightarrow> STATUS_ERROR)"

definition errMsg_of :: "failure option \<Rightarrow> string" where
  "errMsg_of err = (case err of None \<Rightarrow> [] | Some e \<Rightarrow> Error_text e)"

definition handlePingReq :: "dht_env \<Rightarrow> sel \<Rightarrow> Message \<Rightarrow> (Kademlia, unit) op" where
  "handlePingReq env w msg =
     bindM (liftE (ConvertJSONToPingReq env (msg_Payload msg))) (\<lambda>p.
     bindM (derefM p) (\<lambda>req.
     bindM (kad_addContact env w (hdr_Sender (pingq_Header req))) (\<lambda>err.
     bindM (getM k_Contact) (\<lambda>me.
     bindM (liftE (PingResp_ToJSON env
       \<lparr>pingr_Header = \<lparr>hdr_Sender = me\<rparr>, pingr_Status = status_of err, pingr_Error = errMsg_of err\<rparr>)) (\<lambda>json.
     peer_reply env msg MSG_PING_RESP json)))))"

text \<open>The second choice is the one of the \<open>select\<close> on the result; a read of the closed error channel is a success without contacts.\<close>

definition handleFindContactsReq :: "dht_env \<Rightarrow> sel \<Rightarrow> sel \<Rightarrow> Message \<Rightarrow> (Kademlia, unit) op" where
  "handleFindContactsReq env w v msg =
     bindM (liftE (ConvertJSONToFindContactsReq env (msg_Payload msg))) (\<lambda>p.
     bindM (derefM p) (\<lambda>req.
     bindM (kad_addContact env w (hdr_Sender (findq_Header req))) (\<lambda>err.
     bindM
       (if err \<noteq> None then retM (err, [])
        else
          bindM (queue_job env (FIND_CONTACTS (findq_KademliaID req)
            (if findq_Count req > dht_MAX_COUNT then dht_MAX_COUNT else findq_Count req)) v) (\<lambda>(cs, v).
          case v of
            Timeout \<Rightarrow> throwM (Err ''Failed to find closest contacts'')
          | ErrCase \<Rightarrow> retM (recv_closed None (errChan cs), [])
          | ResultCase \<Rightarrow> retM (None, recv_closed [] (contactsChan cs)))) (\<lambda>(err, contacts).
     bindM (getM k_Contact) (\<lambda>me.
     bindM (liftE (FindContactsResp_ToJSON env
       \<lparr>findr_Header = \<lparr>hdr_Sender = me\<rparr>, findr_Contacts = contacts,
        findr_Status = status_of err, findr_Error = errMsg_of err\<rparr>)) (\<lambda>json.
     peer_reply env msg MSG_FIND_CONTACTS_RESP json))))))"

definition handlePutReq :: "dht_env \<Rightarrow> sel \<Rightarrow> sel \<Rightarrow> Message \<Rightarrow> (Kademlia, unit) op" where
  "handlePutReq env w v msg =
     bindM (liftE (ConvertJSONToPutReq env (msg_Payload msg))) (\<lambda>p.
     bindM (derefM p) (\<lambda>req.
     let kv = putq_KV req in
     thenM (case ValidateKV env kv of None \<Rightarrow> retM () | Some e \<Rightarrow> throwM e) (
     bindM (kad_addContact env w (hdr_Sender (putq_Header req))) (\<lambda>err.
     bindM
       (if err \<noteq> None then retM err
        else
          bindM (queue_job env (PUT (kv_ID kv) (kv_Key kv) (kv_Value kv) (kv_Sig kv)) v) (\<lambda>(cs, v).
          case v of
            Timeout \<Rightarrow> throwM (Err ''Failed to put key-value pair'')
          | _ \<Rightarrow> retM (recv_closed None (errChan cs)))) (\<lambda>err.
     bindM (getM k_Contact) (\<lambda>me.
     bindM (liftE (PutResp_ToJSON env
       \<lparr>putr_Header = \<lparr>hdr_Sender = me\<rparr>, putr_Status = status_of err, putr_Error = errMsg_of err\<rparr>)) (\<lambda>json.
     peer_reply env msg MSG_PUT_RESP json)))))))"

definition handleGetReq :: "dht_env \<Rightarrow> sel \<Rightarrow> sel \<Rightarrow> Message \<Rightarrow> (Kademlia, unit) op" where
  "handleGetReq env w v msg =
     bindM (liftE (ConvertJSONToGetReq env (msg_Payload msg))) (\<lambda>p.
     bindM (derefM p) (\<lambda>req.
     bindM (kad_addContact env w (hdr_Sender (getq_Header req))) (\<lambda>err.
     bindM
       (if err \<noteq> None then retM (err, [])
        else
          bindM (queue_job env (GET (getq_Key req)) v) (\<lambda>(cs, v).
          case v of
            Timeout \<Rightarrow> throwM (Err ''Failed to get key-value pair'')
          | ErrCase \<Rightarrow> retM (recv_closed None (errChan cs), [])
          | ResultCase \<Rightarrow> retM (None, recv_closed [] (kvChan cs)))) (\<lambda>(err, kvs).
     bindM (getM k_Contact) (\<lambda>me.
     bindM (liftE (GetResp_ToJSON env
       \<lparr>getr_Header = \<lparr>hdr_Sender = me\<rparr>, getr_KVS = kvs, getr_Status = status_of err, getr_Error = errMsg_of err\<rparr>)) (\<lambda>json.
     peer_reply env msg MSG_GET_RESP json))))))"

section \<open>The dispatcher\<close>

text \<open>
  A reply goes to whoever waits for it over an unbuffered channel: the send never ends when nobody
  waits any more. The entry of a reply that was handed over is deleted.
\<close>

definition handleResponse :: "Message \<Rightarrow> (Kademlia, unit) op" where
  "handleResponse msg k =
     (case replyHandler k (msg_ID msg) of
        None \<Rightarrow> (Inr (), k)
      | Some waits \<Rightarrow>
          if waits
          then (Inr (), k\<lparr>k_replies := k_replies k @ [msg], replyHandler := (replyHandler k)(msg_ID msg := None)\<rparr>)
          else (Inr (), k\<lparr>k_blocked := True\<rparr>))"

text \<open>One turn of \<open>serveForever\<close>. Errors of handlers are logged; a panic ends the process.\<close>

definition serve_message :: "dht_env \<Rightarrow> sel \<Rightarrow> sel \<Rightarrow> Message \<Rightarrow> (Kademlia, unit) op" where
  "serve_message env w v msg k =
     (if k_blocked k then (Inr (), k)
      else case msg_Type msg of
        MSG_PING_REQ \<Rightarrow> ignoreM (handlePingReq env w msg) k
      | MSG_PING_RESP \<Rightarrow> handleResponse msg k
      | MSG_FIND_CONTACTS_REQ \<Rightarrow> ignoreM (handleFindContactsReq env w v msg) k
      | MSG_FIND_CONTACTS_RESP \<Rightarrow> handleResponse msg k
      | MSG_PUT_REQ \<Rightarrow> ignoreM (handlePutReq env w v msg) k
      | MSG_PUT_RESP \<Rightarrow> handleResponse msg k
      | MSG_GET_REQ \<Rightarrow> ignoreM (handleGetReq env w v msg) k
      | MSG_GET_RESP \<Rightarrow> handleResponse msg k
      | MSG_OTHER _ \<Rightarrow> (Inr (), k))"

text \<open>A request gets a fresh id and a reply channel; one that is given up leaves the channel behind.\<close>

definition dispatcher_send :: "dht_env \<Rightarrow> string \<Rightarrow> Message \<Rightarrow> (Kademlia, unit) op" where
  "dispatcher_send env rnd msg =
     (let msg = msg\<lparr>msg_ID := rnd\<rparr> in
      thenM (modifyM (\<lambda>k. k\<lparr>replyHandler := (replyHandler k)(rnd \<mapsto> True)\<rparr>)) (kad_send env msg))"

definition give_up :: "string \<Rightarrow> Kademlia \<Rightarrow> Kademlia" where
  "give_up i k = (case replyHandler k i of None \<Rightarrow> k | Some _ \<Rightarrow> k\<lparr>replyHandler := (replyHandler k)(i \<mapsto> False)\<rparr>)"

definition kad_Shutdown :: "Kademlia \<Rightarrow> Kademlia" where
  "kad_Shutdown k = k\<lparr>k_states := (k_states k)\<lparr>st_stopped := True\<rparr>\<rparr>"

end
