(* ===== verification/Routing_Facts.thy ===== *)
theory Routing_Facts
  imports Routing_Table
begin

text \<open>
  The routing table keeps its invariant, finds what was added, and gives the closest contacts as long as
  the bucket of the target has enough of them; otherwise it may leave closer contacts out.
\<close>

section \<open>Distances, bit by bit\<close>

text \<open>Bit \<open>p\<close> of an identifier, counted from the most significant one.\<close>

definition id_bit :: "KademliaID \<Rightarrow> nat \<Rightarrow> bool" where
  "id_bit a p = bit (a ! (p div 8)) (7 - p mod 8)"

definition id_ok :: "KademliaID \<Rightarrow> bool" where
  "id_ok a \<longleftrightarrow> length a = IDLength"

text \<open>Two identifiers agree on the first \<open>n\<close> bits.\<close>

definition agree :: "nat \<Rightarrow> KademliaID \<Rightarrow> KademliaID \<Rightarrow> bool" where
  "agree n a b \<longleftrightarrow> (\<forall>p < n. id_bit a p = id_bit b p)"

lemma CalcDistance_nth:
  "id_ok a \<Longrightarrow> id_ok b \<Longrightarrow> i < IDLength \<Longrightarrow> KademliaID_CalcDistance a b ! i = a ! i XOR b ! i"
  by (simp add: KademliaID_CalcDistance_def id_ok_def)

lemma CalcDistance_ok [simp]: "id_ok a \<Longrightarrow> id_ok b \<Longrightarrow> id_ok (KademliaID_CalcDistance a b)"
  by (simp add: id_ok_def KademliaID_CalcDistance_def)

lemma distance_bit:
  assumes "id_ok a" "id_ok b" "p < 256"
  shows "id_bit (KademliaID_CalcDistance a b) p \<longleftrightarrow> id_bit a p \<noteq> id_bit b p"
proof -
  have "p div 8 < IDLength" using assms(3) by (simp add: IDLength_def)
  then show ?thesis using assms by (simp add: id_bit_def CalcDistance_nth bit_xor_iff)
qed

lemma id_bits_equal:
  assumes "id_ok a" "id_ok b" "agree 256 a b"
  shows "a = b"
proof (rule nth_equalityI)
  show "length a = length b" using assms by (simp add: id_ok_def)
  fix i assume "i < length a"
  then have i: "i < 32" using assms(1) by (simp add: id_ok_def IDLength_def)
  show "a ! i = b ! i"
  proof (rule bit_word_eqI)
    fix n assume "n < LENGTH(8)"
    then have n: "n < 8" by simp
    define q where "q = 7 - n"
    have q: "q < 8" "7 - q = n" using n by (simp_all add: q_def)
    have "8 * i + q < 256" "(8 * i + q) div 8 = i" "(8 * i + q) mod 8 = q" using i q by simp_all
    then show "bit (a ! i) n = bit (b ! i) n"
      using assms(3) q(2) unfolding agree_def id_bit_def by metis
  qed
qed

lemma index_pairs: "[(i, j). i \<leftarrow> [0..<IDLength], j \<leftarrow> [0..<8]] = map (\<lambda>p. (p div 8, p mod 8)) [0..<256 :: nat]"
  by (simp add: IDLength_def upt_conv_Cons)

lemma find_upt:
  "find P [0..<n] = Some p \<longleftrightarrow> p < n \<and> P p \<and> (\<forall>q < p. \<not> P q)" "find P [0..<n] = None \<longleftrightarrow> (\<forall>q < n. \<not> P q)"
  by (auto simp: find_Some_iff find_None_iff)

text \<open>The bucket of an identifier is the number of leading bits it shares with the own one, and 255 for the own one.\<close>

lemma find_map: "find P (map f xs) = map_option f (find (P \<circ> f) xs)"
  by (induction xs) auto

lemma getBucketIndex_find:
  assumes "id_ok a" "id_ok (ct_ID (rt_me rt))"
  shows "getBucketIndex rt a = (case find (\<lambda>p. id_bit a p \<noteq> id_bit (ct_ID (rt_me rt)) p) [0..<256] of Some p \<Rightarrow> p | None \<Rightarrow> 255)"
proof -
  let ?d = "KademliaID_CalcDistance a (ct_ID (rt_me rt))"
  have "find (\<lambda>(i, j). drop_bit (7 - j) (?d ! i) AND 1 \<noteq> 0) [(i, j). i \<leftarrow> [0..<IDLength], j \<leftarrow> [0..<8]] =
    map_option (\<lambda>p. (p div 8, p mod 8)) (find (\<lambda>p. id_bit a p \<noteq> id_bit (ct_ID (rt_me rt)) p) [0..<256])"
  proof -
    have "(\<lambda>(i, j). drop_bit (7 - j) (?d ! i) AND 1 \<noteq> 0) \<circ> (\<lambda>p. (p div 8, p mod 8)) = id_bit ?d"
      by (rule ext) (simp add: id_bit_def bit_iff_and_drop_bit_eq_1 and_one_eq)
    moreover have "find (id_bit ?d) [0..<256] = find (\<lambda>p. id_bit a p \<noteq> id_bit (ct_ID (rt_me rt)) p) [0..<256]"
      by (rule find_cong) (simp_all add: distance_bit assms)
    ultimately show ?thesis unfolding index_pairs find_map by simp
  qed
  then show ?thesis unfolding getBucketIndex_def Let_def by (auto simp: IDLength_def split: option.splits)
qed

lemma bucket_index:
  assumes "id_ok a" "id_ok (ct_ID (rt_me rt))"
  shows "getBucketIndex rt a < 256" "agree (getBucketIndex rt a) a (ct_ID (rt_me rt))"
    "getBucketIndex rt a < 255 \<Longrightarrow> id_bit a (getBucketIndex rt a) \<noteq> id_bit (ct_ID (rt_me rt)) (getBucketIndex rt a)"
proof -
  let ?P = "\<lambda>p. id_bit a p \<noteq> id_bit (ct_ID (rt_me rt)) p"
  have "getBucketIndex rt a < 256 \<and> agree (getBucketIndex rt a) a (ct_ID (rt_me rt)) \<and>
    (getBucketIndex rt a < 255 \<longrightarrow> ?P (getBucketIndex rt a))"
  proof (cases "find ?P [0..<256]")
    case None
    then have "getBucketIndex rt a = 255" "\<forall>q < 256. \<not> ?P q" using getBucketIndex_find[OF assms] find_upt(2)[of ?P 256] by simp_all
    then show ?thesis by (simp add: agree_def)
  next
    case (Some p)
    then have "getBucketIndex rt a = p" "p < 256 \<and> ?P p \<and> (\<forall>q < p. \<not> ?P q)" using getBucketIndex_find[OF assms] find_upt(1)[of ?P 256 p] by simp_all
    then show ?thesis by (simp add: agree_def)
  qed
  then show "getBucketIndex rt a < 256" "agree (getBucketIndex rt a) a (ct_ID (rt_me rt))"
    "getBucketIndex rt a < 255 \<Longrightarrow> id_bit a (getBucketIndex rt a) \<noteq> id_bit (ct_ID (rt_me rt)) (getBucketIndex rt a)"
    by blast+
qed

text \<open>An identifier that agrees with the target on more leading bits is closer to it.\<close>

lemma Less_first_byte:
  assumes "length a = length b" "i < length a" "\<forall>k < i. a ! k = b ! k" "a ! i < b ! i"
  shows "KademliaID_Less a b"
  using assms
proof (induction a b arbitrary: i rule: KademliaID_Less.induct)
  case (1 x xs y ys)
  show ?case
  proof (cases i)
    case 0
    then show ?thesis using 1 by auto
  next
    case (Suc j)
    moreover have "x = y" using 1(4) Suc by (metis nth_Cons_0 zero_less_Suc)
    moreover have "\<forall>k < j. xs ! k = ys ! k" using 1(4) Suc by (metis Suc_less_eq nth_Cons_Suc)
    ultimately show ?thesis using 1 by auto
  qed
qed auto

lemma byte_less:
  fixes v w :: "8 word"
  assumes "n < 8" "bit w n" "\<forall>m \<ge> n. \<not> bit v m"
  shows "v < w"
proof -
  have "take_bit n v = v" by (rule bit_word_eqI) (metis assms(3) bit_take_bit_iff not_less)
  then have "unat v < 2 ^ n" by (metis take_bit_nat_less_exp unsigned_take_bit_eq)
  moreover have "2 ^ n \<le> unat w"
  proof (rule ccontr)
    assume "\<not> 2 ^ n \<le> unat w"
    then have "unat w div 2 ^ n = 0" by simp
    moreover have "bit (unat w) n" using assms(1,2) by (simp add: bit_unsigned_iff)
    ultimately show False by (simp add: bit_iff_odd)
  qed
  ultimately show ?thesis by (simp add: word_less_nat_alt)
qed

text \<open>The first bit on which two identifiers differ, for one that agrees with the target up to it and one that does not.\<close>

lemma closer:
  assumes ok: "id_ok c" "id_ok d" "id_ok t" and p: "p < 256" "agree (Suc p) c t" "agree p d t" "id_bit d p \<noteq> id_bit t p"
  shows "KademliaID_Less (KademliaID_CalcDistance c t) (KademliaID_CalcDistance d t)"
proof (rule Less_first_byte[of _ _ "p div 8"])
  let ?c = "KademliaID_CalcDistance c t" and ?d = "KademliaID_CalcDistance d t"
  have len: "length ?c = 32" "length ?d = 32" using CalcDistance_ok[OF ok(1,3)] CalcDistance_ok[OF ok(2,3)] by (simp_all add: id_ok_def IDLength_def)
  show "length ?c = length ?d" using len by simp
  show "p div 8 < length ?c" using p(1) len by simp
  have dist: "id_bit ?c q \<longleftrightarrow> id_bit c q \<noteq> id_bit t q" "id_bit ?d q \<longleftrightarrow> id_bit d q \<noteq> id_bit t q" if "q < 256" for q
    by (rule distance_bit[OF ok(1,3) that], rule distance_bit[OF ok(2,3) that])
  have zero: "\<not> id_bit ?c q" if "q \<le> p" for q using dist(1)[of q] p(1,2) that by (auto simp: agree_def)
  have same: "\<not> id_bit ?d q" if "q < p" for q using dist(2)[of q] p(1,3) that by (auto simp: agree_def)
  have byte: "bit (x ! k) n = id_bit x (8 * k + (7 - n))" if "n < 8" for x k n
  proof -
    define q where "q = 7 - n"
    have "q < 8" "7 - q = n" using that by (simp_all add: q_def)
    then show ?thesis by (simp add: id_bit_def flip: q_def)
  qed
  show "\<forall>k < p div 8. ?c ! k = ?d ! k"
  proof (intro allI impI bit_word_eqI)
    fix k n assume k: "k < p div 8" and "n < LENGTH(8)"
    then have n: "n < 8" by simp
    have "8 * k + (7 - n) < p" using k n by linarith
    then show "bit (?c ! k) n = bit (?d ! k) n" using zero[of "8 * k + (7 - n)"] same[of "8 * k + (7 - n)"] by (simp add: byte[OF n])
  qed
  show "?c ! (p div 8) < ?d ! (p div 8)"
  proof (rule byte_less)
    have "8 * (p div 8) + p mod 8 = p" by simp
    show "7 - p mod 8 < 8" by simp
    show "bit (?d ! (p div 8)) (7 - p mod 8)" using dist(2)[OF p(1)] p(4) by (simp add: id_bit_def)
    show "\<forall>m \<ge> 7 - p mod 8. \<not> bit (?c ! (p div 8)) m"
    proof (intro allI impI notI)
      fix m assume m: "7 - p mod 8 \<le> m" "bit (?c ! (p div 8)) m"
      then have "m < 8" using bit_imp_le_length by fastforce
      then have "8 * (p div 8) + (7 - m) \<le> p" using m(1) \<open>8 * (p div 8) + p mod 8 = p\<close> by linarith
      then show False using zero m(2) byte[OF \<open>m < 8\<close>] by blast
    qed
  qed
qed


section \<open>Buckets\<close>

definition bucket_ok :: "bucket \<Rightarrow> bool" where
  "bucket_ok b \<longleftrightarrow> length b \<le> bucketSize \<and> distinct (map ct_ID b) \<and> (\<forall>c \<in> set b. id_ok (ct_ID c))"

lemma KademliaID_Equals_eq [simp]: "KademliaID_Equals a b \<longleftrightarrow> a = b"
  by (simp add: KademliaID_Equals_def list.rel_eq)

lemma bucket_add_known:
  assumes "e \<in> set b" "ct_ID e = ct_ID c"
  shows "mset (bucket_addContact c b) = mset b"
proof -
  let ?o = "\<lambda>e. \<not> KademliaID_Equals (ct_ID c) (ct_ID e)"
  obtain x before where d: "dropWhile ?o (rev b) = x # before"
    using assms by (cases "dropWhile ?o (rev b)") (auto simp: dropWhile_eq_Nil_conv)
  have "mset b = mset (takeWhile ?o (rev b) @ dropWhile ?o (rev b))" unfolding takeWhile_dropWhile_id by simp
  also have "\<dots> = mset (bucket_addContact c b)" unfolding bucket_addContact_def Let_def d by simp
  finally show ?thesis by simp
qed

lemma bucket_add_new:
  assumes "\<forall>e \<in> set b. ct_ID e \<noteq> ct_ID c"
  shows "bucket_addContact c b = (if length b < bucketSize then c # b else b)"
proof -
  have "dropWhile (\<lambda>e. \<not> KademliaID_Equals (ct_ID c) (ct_ID e)) (rev b) = []" using assms by (auto simp: dropWhile_eq_Nil_conv)
  then show ?thesis unfolding bucket_addContact_def Let_def by (simp only: list.case)
qed

lemma bucket_add_set:
  "set (bucket_addContact c b) =
     (if (\<forall>e \<in> set b. ct_ID e \<noteq> ct_ID c) \<and> length b < bucketSize then insert c (set b) else set b)"
proof (cases "\<forall>e \<in> set b. ct_ID e \<noteq> ct_ID c")
  case False
  then obtain e where "e \<in> set b" "ct_ID e = ct_ID c" by blast
  then show ?thesis using bucket_add_known[of e b c] False by (metis set_mset_mset)
qed (auto simp: bucket_add_new)

lemma bucket_add_ok:
  assumes "bucket_ok b" "id_ok (ct_ID c)"
  shows "bucket_ok (bucket_addContact c b)"
proof (cases "\<forall>e \<in> set b. ct_ID e \<noteq> ct_ID c")
  case True
  then show ?thesis using assms by (auto simp: bucket_add_new bucket_ok_def image_iff)
next
  case False
  then obtain e where e: "e \<in> set b" "ct_ID e = ct_ID c" by blast
  note m = bucket_add_known[OF e]
  have "length (bucket_addContact c b) = length b" by (metis m size_mset)
  moreover have "distinct (map ct_ID (bucket_addContact c b)) = distinct (map ct_ID b)"
    by (metis m mset_map mset_eq_imp_distinct_iff)
  moreover have "set (bucket_addContact c b) = set b" by (metis m set_mset_mset)
  ultimately show ?thesis using assms(1) by (simp add: bucket_ok_def)
qed

lemma bucket_remove_set:
  assumes "distinct (map ct_ID b)"
  shows "set (bucket_removeContact c b) = {e \<in> set b. ct_ID e \<noteq> ct_ID c}"
  using assms by (induction b) (auto simp: bucket_removeContact_def Let_def image_iff)

lemma bucket_remove_ok:
  assumes "bucket_ok b"
  shows "bucket_ok (bucket_removeContact c b)"
proof -
  let ?o = "\<lambda>e. \<not> KademliaID_Equals (ct_ID c) (ct_ID e)"
  have b: "b = takeWhile ?o b @ dropWhile ?o b" by simp
  have "bucket_ok (xs @ tl ys)" if "bucket_ok (xs @ ys)" for xs ys
    using that by (cases ys) (auto simp: bucket_ok_def)
  from this[of "takeWhile ?o b" "dropWhile ?o b"] assms show ?thesis by (simp add: bucket_removeContact_def Let_def)
qed

section \<open>The table\<close>

definition rt_ok :: "routingTable \<Rightarrow> bool" where
  "rt_ok rt \<longleftrightarrow> length (rt_buckets rt) = 256 \<and> id_ok (ct_ID (rt_me rt)) \<and>
     (\<forall>i < 256. bucket_ok (rt_buckets rt ! i) \<and> (\<forall>c \<in> set (rt_buckets rt ! i). getBucketIndex rt (ct_ID c) = i))"

lemma getBucketIndex_me: "rt_me rt = rt_me rt' \<Longrightarrow> getBucketIndex rt i = getBucketIndex rt' i"
  by (simp add: getBucketIndex_def)

lemma on_bucket_simps [simp]: "rt_me (on_bucket i f rt) = rt_me rt" "getBucketIndex (on_bucket i f rt) k = getBucketIndex rt k"
  "rt_buckets (on_bucket i f rt) = (rt_buckets rt)[getBucketIndex rt i := f (rt_buckets rt ! getBucketIndex rt i)]"
proof -
  show "rt_me (on_bucket i f rt) = rt_me rt" by (simp add: on_bucket_def Let_def)
  then show "getBucketIndex (on_bucket i f rt) k = getBucketIndex rt k" by (rule getBucketIndex_me)
qed (simp add: on_bucket_def Let_def)

lemma on_bucket_ok:
  assumes "rt_ok rt" "id_ok i" "\<And>b. bucket_ok b \<Longrightarrow> bucket_ok (f b)"
    "\<And>b c. bucket_ok b \<Longrightarrow> c \<in> set (f b) \<Longrightarrow> c \<in> set b \<or> ct_ID c = i"
  shows "rt_ok (on_bucket i f rt)"
  using assms bucket_index(1)[OF assms(2)] unfolding rt_ok_def by (auto simp: nth_list_update) blast

lemma rt_add_ok: "rt_ok rt \<Longrightarrow> id_ok (ct_ID c) \<Longrightarrow> rt_ok (rt_addContact c rt)"
  unfolding rt_addContact_def by (rule on_bucket_ok) (auto simp: bucket_add_ok bucket_add_set split: if_splits)

lemma rt_remove_ok: "rt_ok rt \<Longrightarrow> id_ok (ct_ID c) \<Longrightarrow> rt_ok (rt_removeContact c rt)"
  unfolding rt_removeContact_def
  by (rule on_bucket_ok) (assumption, assumption, rule bucket_remove_ok, assumption, simp add: bucket_remove_set bucket_ok_def)

text \<open>The tables of a node: its own contact, and contacts added and removed in any order.\<close>

inductive rt_reachable :: "Contact \<Rightarrow> routingTable \<Rightarrow> bool" for me where
  created: "rt_reachable me (createRoutingTable me)"
| added: "rt_reachable me rt \<Longrightarrow> id_ok (ct_ID c) \<Longrightarrow> rt_reachable me (rt_addContact c rt)"
| removed: "rt_reachable me rt \<Longrightarrow> id_ok (ct_ID c) \<Longrightarrow> rt_reachable me (rt_removeContact c rt)"

lemma rt_created_ok: "id_ok (ct_ID me) \<Longrightarrow> rt_ok (createRoutingTable me)"
  by (simp add: rt_ok_def createRoutingTable_def createBucket_def IDLength_def bucket_ok_def)

lemma rt_reachable_ok:
  assumes "rt_reachable me rt" "id_ok (ct_ID me)"
  shows "rt_ok rt"
  using assms by (induction rule: rt_reachable.induct) (simp_all add: rt_created_ok rt_add_ok rt_remove_ok)

text \<open>
  C18: whatever contacts a node adds to its routing table and removes from it, there are 256 buckets, each
  with at most 20 contacts of distinct identifiers, and every contact is in the bucket given by the
  number of leading bits it shares with the node.
\<close>

theorem routing_table_invariant:
  assumes "rt_reachable me rt" "id_ok (ct_ID me)"
  shows "length (rt_buckets rt) = 256 \<and>
    (\<forall>i < 256. length (rt_buckets rt ! i) \<le> bucketSize \<and> distinct (map ct_ID (rt_buckets rt ! i)) \<and>
      (\<forall>c \<in> set (rt_buckets rt ! i). agree i (ct_ID c) (ct_ID me) \<and>
        (i < 255 \<longrightarrow> id_bit (ct_ID c) i \<noteq> id_bit (ct_ID me) i)))"
proof -
  have me: "rt_me rt = me" using assms(1)
    by (induction rule: rt_reachable.induct) (simp_all add: createRoutingTable_def rt_addContact_def rt_removeContact_def)
  note ok = rt_reachable_ok[OF assms]
  have "agree i (ct_ID c) (ct_ID me) \<and> (i < 255 \<longrightarrow> id_bit (ct_ID c) i \<noteq> id_bit (ct_ID me) i)"
    if "i < 256" "c \<in> set (rt_buckets rt ! i)" for i c
  proof -
    have "id_ok (ct_ID c)" "getBucketIndex rt (ct_ID c) = i" using ok that by (auto simp: rt_ok_def bucket_ok_def)
    then show ?thesis using bucket_index(2,3)[of "ct_ID c" rt] assms(2) me by auto
  qed
  then show ?thesis using ok by (simp add: rt_ok_def bucket_ok_def)
qed

definition demo_id :: "nat \<Rightarrow> KademliaID" where
  "demo_id n = replicate 31 0 @ [of_nat n]"

definition demo_contact :: "nat \<Rightarrow> Contact" where
  "demo_contact n = zero_Contact\<lparr>ct_ID := demo_id n\<rparr>"

lemma demo_contact_ok [simp]: "id_ok (ct_ID (demo_contact n))" "ct_ID (demo_contact n) = demo_id n" "id_ok (demo_id n)"
  by (simp_all add: demo_contact_def demo_id_def id_ok_def IDLength_def)

theorem routing_table_invariant_witness:
  "length (rt_buckets (rt_addContact (demo_contact 5) (createRoutingTable (demo_contact 0)))) = 256"
  using routing_table_invariant[OF rt_reachable.added[OF rt_reachable.created]] by simp

section \<open>Looking contacts up\<close>

lemma bucket_get:
  assumes "distinct (map ct_ID b)"
  shows "c \<in> set b \<Longrightarrow> bucket_getContact (ct_ID c) b = c" "\<forall>e \<in> set b. ct_ID e \<noteq> i \<Longrightarrow> bucket_getContact i b = zero_Contact"
proof -
  show "bucket_getContact i b = zero_Contact" if "\<forall>e \<in> set b. ct_ID e \<noteq> i"
  proof -
    have "find (\<lambda>c. KademliaID_Equals (ct_ID c) i) b = None" using that by (auto simp: find_None_iff)
    then show ?thesis by (simp add: bucket_getContact_def)
  qed
  show "bucket_getContact (ct_ID c) b = c" if "c \<in> set b"
    using assms that by (induction b) (auto simp: bucket_getContact_def image_iff)
qed

text \<open>
  after a contact is added, looking its identifier up gives the contact that was there before under that
  identifier, with its old address; if there was none, the new contact, unless the bucket was full,
  in which case it is not found. Every other identifier gives what it gave before.
\<close>

theorem add_then_get:
  assumes "rt_ok rt" "id_ok (ct_ID c)"
  shows "(\<forall>e \<in> set (rt_buckets rt ! getBucketIndex rt (ct_ID c)). ct_ID e = ct_ID c \<longrightarrow>
      rt_getContact (ct_ID c) (rt_addContact c rt) = e) \<and>
    ((\<forall>e \<in> set (rt_buckets rt ! getBucketIndex rt (ct_ID c)). ct_ID e \<noteq> ct_ID c) \<longrightarrow>
      rt_getContact (ct_ID c) (rt_addContact c rt) =
        (if length (rt_buckets rt ! getBucketIndex rt (ct_ID c)) < bucketSize then c else zero_Contact)) \<and>
    (\<forall>i. id_ok i \<longrightarrow> i \<noteq> ct_ID c \<longrightarrow> rt_getContact i (rt_addContact c rt) = rt_getContact i rt)"
proof -
  define k where "k = getBucketIndex rt (ct_ID c)"
  define b where "b = rt_buckets rt ! k"
  have k: "k < 256" "k < length (rt_buckets rt)" using bucket_index(1)[OF assms(2)] assms(1) by (auto simp: k_def rt_ok_def)
  have b: "bucket_ok b" "bucket_ok (bucket_addContact c b)" using assms k by (auto simp: rt_ok_def b_def bucket_add_ok)
  have get: "rt_getContact i (rt_addContact c rt) =
      (if getBucketIndex rt i = k then bucket_getContact i (bucket_addContact c b) else rt_getContact i rt)" for i
    using k by (cases "getBucketIndex rt i = k") (simp_all add: rt_getContact_def rt_addContact_def b_def flip: k_def)
  have old: "rt_getContact i rt = bucket_getContact i b" if "getBucketIndex rt i = k" for i
    using that by (simp add: rt_getContact_def b_def)
  have keep: "bucket_getContact i (bucket_addContact c b) = bucket_getContact i b" if "i \<noteq> ct_ID c" for i
  proof (cases "\<exists>e \<in> set b. ct_ID e = i")
    case True
    then obtain e where "e \<in> set b" "ct_ID e = i" by blast
    moreover from this have "e \<in> set (bucket_addContact c b)" by (simp add: bucket_add_set)
    ultimately show ?thesis using b bucket_get(1) unfolding bucket_ok_def by metis
  next
    case False
    then have "\<forall>e \<in> set (bucket_addContact c b). ct_ID e \<noteq> i" using that by (auto simp: bucket_add_set)
    then show ?thesis using False b bucket_get(2) unfolding bucket_ok_def by metis
  qed
  show ?thesis unfolding k_def[symmetric] b_def[symmetric]
  proof (intro conjI ballI impI allI)
    fix e assume "e \<in> set b" "ct_ID e = ct_ID c"
    moreover from this have "e \<in> set (bucket_addContact c b)" by (auto simp: bucket_add_set)
    ultimately show "rt_getContact (ct_ID c) (rt_addContact c rt) = e"
      using get[of "ct_ID c"] b(2) bucket_get(1) k_def unfolding bucket_ok_def by metis
  next
    assume "\<forall>e \<in> set b. ct_ID e \<noteq> ct_ID c"
    then show "rt_getContact (ct_ID c) (rt_addContact c rt) = (if length b < bucketSize then c else zero_Contact)"
      using get[of "ct_ID c"] b(1) bucket_get(2)[of b "ct_ID c"]
      by (simp add: bucket_add_new bucket_ok_def bucket_getContact_def flip: k_def)
  next
    fix i assume "i \<noteq> ct_ID c"
    then show "rt_getContact i (rt_addContact c rt) = rt_getContact i rt" using get[of i] keep old by simp
  qed
qed

theorem add_then_get_witness:
  "rt_getContact (demo_id 5) (rt_addContact (demo_contact 5) (createRoutingTable (demo_contact 0))) = demo_contact 5"
proof -
  have "rt_buckets (createRoutingTable (demo_contact 0)) ! getBucketIndex (createRoutingTable (demo_contact 0)) (demo_id 5) = []"
    using bucket_index(1)[of "demo_id 5" "createRoutingTable (demo_contact 0)"]
    by (simp add: createRoutingTable_def createBucket_def IDLength_def)
  then show ?thesis
    using add_then_get[OF rt_created_ok, of "demo_contact 0" "demo_contact 5"] by (simp add: bucketSize_def)
qed

section \<open>The closest contacts\<close>

text \<open>\<open>sort.Sort\<close> over \<open>ContactCandidates\<close>: some permutation in which no contact is closer than an earlier one.\<close>

definition sorts_contacts :: "(Contact list \<Rightarrow> Contact list) \<Rightarrow> bool" where
  "sorts_contacts srt \<longleftrightarrow> (\<forall>cs. mset (srt cs) = mset cs \<and>
     ((\<forall>c \<in> set cs. id_ok (ct_distance c)) \<longrightarrow> sorted_wrt (\<lambda>c d. \<not> Contact_Less d c) (srt cs)))"

definition nearer :: "KademliaID \<Rightarrow> Contact \<Rightarrow> Contact \<Rightarrow> bool" where
  "nearer t c d \<longleftrightarrow> KademliaID_Less (KademliaID_CalcDistance (ct_ID c) t) (KademliaID_CalcDistance (ct_ID d) t)"

text \<open>The contacts of the bucket of the target are nearer than all others, and those of later buckets nearer than those of earlier ones.\<close>

lemma bucket_member:
  assumes "rt_ok rt" "i < 256" "c \<in> set (rt_buckets rt ! i)"
  shows "id_ok (ct_ID c)" "getBucketIndex rt (ct_ID c) = i"
  using assms by (auto simp: rt_ok_def bucket_ok_def)

lemma own_bucket_nearer:
  assumes rt: "rt_ok rt" and t: "id_ok t" and i: "c \<in> set (rt_buckets rt ! getBucketIndex rt t)"
    and j: "j < 256" "d \<in> set (rt_buckets rt ! j)" "j \<noteq> getBucketIndex rt t"
  shows "nearer t c d"
proof -
  let ?me = "ct_ID (rt_me rt)" and ?b = "getBucketIndex rt t"
  have me: "id_ok ?me" using rt by (simp add: rt_ok_def)
  have b: "?b < 256" by (rule bucket_index(1)[OF t me])
  have c: "id_ok (ct_ID c)" "getBucketIndex rt (ct_ID c) = ?b" and d: "id_ok (ct_ID d)" "getBucketIndex rt (ct_ID d) = j"
    using rt i j b by (auto simp: rt_ok_def bucket_ok_def)
  note ct = bucket_index(2,3)[OF c(1) me, unfolded c(2)] and dt = bucket_index(2,3)[OF d(1) me, unfolded d(2)] and tt = bucket_index(2,3)[OF t me]
  define p where "p = min ?b j"
  have p: "p < 255" "p \<le> ?b" "p \<le> j" using b j by (auto simp: p_def)
  have "agree (Suc p) (ct_ID c) t"
    unfolding agree_def
  proof (intro allI impI)
    fix q assume "q < Suc p"
    then consider "q < ?b" | "q = ?b" "?b < 255" using p by linarith
    then show "id_bit (ct_ID c) q = id_bit t q" using ct tt by cases (auto simp: agree_def)
  qed
  moreover have "agree p (ct_ID d) t" using dt(1) tt(1) p by (auto simp: agree_def)
  moreover have "id_bit (ct_ID d) p \<noteq> id_bit t p"
  proof (cases "j < ?b")
    case True
    then show ?thesis using dt(2) tt(1) p by (auto simp: agree_def p_def)
  next
    case False
    then have "p = ?b" "?b < j" using j(3) by (auto simp: p_def)
    then show ?thesis using dt(1) tt(2) p(1) by (auto simp: agree_def)
  qed
  ultimately show ?thesis unfolding nearer_def using p(1) by (intro closer[OF c(1) d(1) t, of p]) simp_all
qed

lemma later_bucket_nearer:
  assumes rt: "rt_ok rt" and t: "id_ok t" and i: "getBucketIndex rt t < i" "i < 256" "c \<in> set (rt_buckets rt ! i)"
    and j: "j < getBucketIndex rt t" "d \<in> set (rt_buckets rt ! j)"
  shows "nearer t c d"
proof -
  let ?me = "ct_ID (rt_me rt)" and ?b = "getBucketIndex rt t"
  have me: "id_ok ?me" using rt by (simp add: rt_ok_def)
  have b: "?b < 256" by (rule bucket_index(1)[OF t me])
  have c: "id_ok (ct_ID c)" "getBucketIndex rt (ct_ID c) = i" by (rule bucket_member[OF rt i(2,3)])+
  have d: "id_ok (ct_ID d)" "getBucketIndex rt (ct_ID d) = j" using bucket_member[OF rt _ j(2)] j(1) b by simp_all
  note ct = bucket_index(2)[OF c(1) me, unfolded c(2)] and dt = bucket_index(2,3)[OF d(1) me, unfolded d(2)] and tt = bucket_index(2)[OF t me]
  have "agree (Suc j) (ct_ID c) t" "agree j (ct_ID d) t" using ct dt(1) tt i j by (auto simp: agree_def)
  moreover have "id_bit (ct_ID d) j \<noteq> id_bit t j" using dt(2) tt j b by (auto simp: agree_def)
  ultimately show ?thesis unfolding nearer_def using j b by (intro closer[OF c(1) d(1) t, of j]) simp_all
qed

lemma Contact_Less_nearer:
  "Contact_Less (Contact_CalcDistance t c) (Contact_CalcDistance t d) \<longleftrightarrow> nearer t c d"
  by (simp add: Contact_Less_def Contact_CalcDistance_def nearer_def)

lemma Less_asym: "KademliaID_Less a b \<Longrightarrow> \<not> KademliaID_Less b a"
  by (induction a b rule: KademliaID_Less.induct) (auto split: if_splits)

lemma sorts_length: "sorts_contacts srt \<Longrightarrow> length (srt cs) = length cs"
  by (metis size_mset sorts_contacts_def)

lemma mset_map_list: "mset ys = image_mset f M \<Longrightarrow> \<exists>xs. mset xs = M \<and> map f xs = ys"
proof (induction ys arbitrary: M)
  case (Cons y ys)
  then obtain M1 a where "M = add_mset a M1" "f a = y" "image_mset f M1 = mset ys"
    using msed_map_invR[of f M y "mset ys"] by auto
  then show ?case using Cons.IH[of M1] by (metis list.simps(9) mset.simps(2))
qed simp

text \<open>The first contacts of a list sorted by distance: no other contact of the list is nearer.\<close>

lemma take_sorted:
  assumes srt: "sorts_contacts srt" and t: "id_ok t" and cs: "\<forall>c \<in> set cs. id_ok (ct_ID c)"
  obtains rs where "take n (srt (map (Contact_CalcDistance t) cs)) = map (Contact_CalcDistance t) rs" "length rs = min n (length cs)"
    "set rs \<subseteq> set cs" "sorted_wrt (\<lambda>c d. \<not> nearer t d c) rs" "\<forall>d \<in> set cs. d \<notin> set rs \<longrightarrow> (\<forall>c \<in> set rs. \<not> nearer t d c)"
proof -
  let ?f = "Contact_CalcDistance t"
  obtain rs where rs: "mset rs = mset cs" "map ?f rs = srt (map ?f cs)"
    using mset_map_list[of "srt (map ?f cs)" ?f "mset cs"] srt by (auto simp: sorts_contacts_def)
  have "\<forall>c \<in> set (map ?f cs). id_ok (ct_distance c)" using cs t by (auto simp: Contact_CalcDistance_def)
  then have "sorted_wrt (\<lambda>c d. \<not> Contact_Less d c) (map ?f rs)" using srt rs(2) by (simp add: sorts_contacts_def)
  then have sorted: "sorted_wrt (\<lambda>c d. \<not> nearer t d c) rs" by (simp add: sorted_wrt_map Contact_Less_nearer)
  have set_rs: "set rs = set cs" using rs(1) by (metis set_mset_mset)
  have "\<not> nearer t d c" if "d \<in> set cs" "d \<notin> set (take n rs)" "c \<in> set (take n rs)" for c d
  proof -
    have "d \<in> set (drop n rs)" using that(1,2) set_rs by (metis Un_iff append_take_drop_id set_append)
    moreover have "sorted_wrt (\<lambda>c d. \<not> nearer t d c) (take n rs @ drop n rs)" using sorted by simp
    ultimately show ?thesis using that(3) unfolding sorted_wrt_append by blast
  qed
  moreover have "length rs = length cs" using rs(1) by (metis size_mset)
  ultimately show thesis
    using set_take_subset[of n rs] set_rs sorted by (intro that[of "take n rs"]) (auto simp: take_map sorted_wrt_take simp flip: rs(2))
qed

text \<open>
  C19: if the bucket of the target has at least as many contacts as asked for, that many contacts are given,
  in order of their distance to the target, and no contact of the whole table that is left out is
  nearer to the target than one that is given.
\<close>

theorem findClosestContacts_exact:
  assumes rt: "rt_ok rt" and t: "id_ok t" and srt: "sorts_contacts srt"
    and cnt: "0 \<le> cnt" "cnt \<le> int (length (rt_buckets rt ! getBucketIndex rt t))"
  shows "\<exists>cs. findClosestContacts srt t cnt rt = Inr (map (Contact_CalcDistance t) cs) \<and> int (length cs) = cnt \<and>
    sorted_wrt (\<lambda>c d. \<not> nearer t d c) cs \<and> set cs \<subseteq> (\<Union>b \<in> set (rt_buckets rt). set b) \<and>
    (\<forall>b \<in> set (rt_buckets rt). \<forall>d \<in> set b. d \<notin> set cs \<longrightarrow> (\<forall>c \<in> set cs. \<not> nearer t d c))"
proof -
  let ?i = "getBucketIndex rt t" and ?f = "Contact_CalcDistance t"
  define own where "own = rt_buckets rt ! ?i"
  have idx: "?i < 256" using bucket_index(1)[OF t] rt by (simp add: rt_ok_def)
  have "widen rt t ?i cnt 1 (map ?f own) = map ?f own" using cnt(2) by (subst widen.simps) (simp add: own_def)
  then have find: "findClosestContacts srt t cnt rt = Inr (take (nat cnt) (srt (map ?f own)))"
    using cnt srt by (simp add: findClosestContacts_def Let_def getContactAndCalcDistance_def own_def[symmetric] sorts_length)
  have own_ok: "\<forall>c \<in> set own. id_ok (ct_ID c)" using bucket_member(1)[OF rt idx] by (auto simp: own_def)
  obtain cs where cs: "take (nat cnt) (srt (map ?f own)) = map ?f cs" "length cs = min (nat cnt) (length own)" "set cs \<subseteq> set own"
    "sorted_wrt (\<lambda>c d. \<not> nearer t d c) cs" "\<forall>d \<in> set own. d \<notin> set cs \<longrightarrow> (\<forall>c \<in> set cs. \<not> nearer t d c)"
    by (rule take_sorted[OF srt t own_ok])
  have "\<not> nearer t d c" if b: "b \<in> set (rt_buckets rt)" and d: "d \<in> set b" "d \<notin> set cs" and c: "c \<in> set cs" for b d c
  proof -
    obtain j where j: "j < 256" "b = rt_buckets rt ! j" using b rt by (metis in_set_conv_nth rt_ok_def)
    show ?thesis
    proof (cases "j = ?i")
      case True
      then show ?thesis using cs(5) c d j(2) by (simp add: own_def)
    next
      case False
      then have "nearer t c d" using own_bucket_nearer[OF rt t _ j(1)] d(1) j(2) cs(3) c by (auto simp: own_def)
      then show ?thesis using Less_asym by (auto simp: nearer_def)
    qed
  qed
  moreover have "own \<in> set (rt_buckets rt)" using idx rt by (simp add: own_def rt_ok_def)
  moreover have "int (length cs) = cnt" using cs(2) cnt by (simp add: own_def)
  ultimately show ?thesis using find cs(1,3,4) by (intro exI[of _ cs]) auto
qed


text \<open>The table of the node 0 that knows the nodes 64 and 8, and insertion as a sort by distance.\<close>

definition demo_table :: routingTable where
  "demo_table = rt_addContact (demo_contact 8) (rt_addContact (demo_contact 64) (createRoutingTable (demo_contact 0)))"

fun insert_by_distance :: "Contact \<Rightarrow> Contact list \<Rightarrow> Contact list" where
  "insert_by_distance c [] = [c]"
| "insert_by_distance c (d # ds) = (if Contact_Less d c then d # insert_by_distance c ds else c # d # ds)"

definition distance_sort :: "Contact list \<Rightarrow> Contact list" where
  "distance_sort cs = foldr insert_by_distance cs []"

lemma mset_distance_sort [simp]: "mset (distance_sort cs) = mset cs"
proof -
  have "mset (insert_by_distance c ds) = add_mset c (mset ds)" for c ds by (induction ds) auto
  then show ?thesis by (induction cs) (simp_all add: distance_sort_def)
qed

text \<open>Distances of one length are linearly ordered.\<close>

lemma Less_trans_neg:
  assumes "length a = length b" "length b = length c" "\<not> KademliaID_Less b a" "\<not> KademliaID_Less c b"
  shows "\<not> KademliaID_Less c a"
  using assms
proof (induction a b arbitrary: c rule: KademliaID_Less.induct)
  case (1 x xs y ys)
  then show ?case by (cases c) (auto split: if_splits)
qed auto

lemma insert_by_distance_sorted:
  assumes "\<forall>d \<in> set (c # ds). id_ok (ct_distance d)" "sorted_wrt (\<lambda>c d. \<not> Contact_Less d c) ds"
  shows "sorted_wrt (\<lambda>c d. \<not> Contact_Less d c) (insert_by_distance c ds)"
  using assms
proof (induction ds)
  case (Cons d ds)
  have mem: "set (insert_by_distance c ds) = insert c (set ds)" by (induction ds) auto
  have "\<not> Contact_Less e c" if "\<not> Contact_Less d c" "e \<in> set ds" for e
    using that Cons.prems Less_trans_neg[of "ct_distance c" "ct_distance d" "ct_distance e"] by (auto simp: Contact_Less_def id_ok_def)
  moreover have "\<not> Contact_Less c d" if "Contact_Less d c" using that Less_asym by (auto simp: Contact_Less_def)
  ultimately show ?case using Cons mem by auto
qed simp

lemma distance_sort_sorts: "sorts_contacts distance_sort"
proof -
  have "sorted_wrt (\<lambda>c d. \<not> Contact_Less d c) (distance_sort cs)" if "\<forall>c \<in> set cs. id_ok (ct_distance c)" for cs
    using that
  proof (induction cs)
    case (Cons c cs)
    have "set (distance_sort cs) = set cs" by (metis mset_distance_sort set_mset_mset)
    then show ?case using Cons insert_by_distance_sorted[of c "distance_sort cs"] by (simp add: distance_sort_def)
  qed (simp add: distance_sort_def)
  then show ?thesis by (simp add: sorts_contacts_def)
qed

lemma demo_table_index:
  "getBucketIndex demo_table (demo_id 32) = 250" "rt_buckets demo_table ! 250 = []" "rt_buckets demo_table ! 251 = []"
  "rt_buckets demo_table ! 249 = [demo_contact 64]" "rt_buckets demo_table ! 252 = [demo_contact 8]"
  "getBucketIndex demo_table (demo_id 65) = 249"
  by code_simp+

lemma demo_table_ok: "rt_ok demo_table"
  unfolding demo_table_def by (intro rt_add_ok rt_created_ok) simp_all

theorem findClosestContacts_exact_witness:
  "\<exists>cs. findClosestContacts distance_sort (demo_id 65) 1 demo_table = Inr (map (Contact_CalcDistance (demo_id 65)) cs) \<and> length cs = 1 \<and>
    (demo_contact 8 \<in> set cs \<or> (\<forall>c \<in> set cs. \<not> nearer (demo_id 65) (demo_contact 8) c))"
proof -
  have "[demo_contact 8] \<in> set (rt_buckets demo_table)"
    using demo_table_ok demo_table_index(5) nth_mem[of 252 "rt_buckets demo_table"] by (simp add: rt_ok_def)
  then show ?thesis
    using findClosestContacts_exact[OF demo_table_ok demo_contact_ok(3)[of 65] distance_sort_sorts, of 1] demo_table_index(4,6) by auto
qed

text \<open>
  When the bucket of the target and the next one are empty, the contacts of the bucket before it are
  given as the closest ones, and every contact of the second bucket after it, nearer to the target than
  all of them, is left out.
\<close>

theorem findClosestContacts_misses:
  assumes rt: "rt_ok rt" and t: "id_ok t" and srt: "sorts_contacts srt"
    and i: "getBucketIndex rt t = i" "0 < i" "i + 2 < 256"
    and empty: "rt_buckets rt ! i = []" "rt_buckets rt ! (i + 1) = []"
    and cnt: "0 < cnt" "cnt \<le> int (length (rt_buckets rt ! (i - 1)))" and y: "y \<in> set (rt_buckets rt ! (i + 2))"
  shows "\<exists>cs. findClosestContacts srt t cnt rt = Inr (map (Contact_CalcDistance t) cs) \<and> int (length cs) = cnt \<and>
    y \<notin> set cs \<and> (\<forall>c \<in> set cs. nearer t y c)"
proof -
  define before where "before = rt_buckets rt ! (i - 1)"
  let ?f = "Contact_CalcDistance t"
  have "widen rt t i cnt 2 (map ?f before) = map ?f before" using cnt(2) by (subst widen.simps) (simp add: before_def)
  then have "widen rt t i cnt 1 [] = map ?f before"
    using cnt(1) i empty by (subst widen.simps) (simp add: getContactAndCalcDistance_def before_def IDLength_def numeral_2_eq_2)
  then have find: "findClosestContacts srt t cnt rt = Inr (take (nat cnt) (srt (map ?f before)))"
    using cnt srt i(1) empty(1) by (simp add: findClosestContacts_def Let_def getContactAndCalcDistance_def before_def sorts_length)
  have "\<forall>c \<in> set before. id_ok (ct_ID c)" using bucket_member(1)[OF rt, of "i - 1"] i by (auto simp: before_def)
  then obtain cs where cs: "take (nat cnt) (srt (map ?f before)) = map ?f cs" "length cs = min (nat cnt) (length before)" "set cs \<subseteq> set before"
    by (rule take_sorted[OF srt t])
  have "nearer t y c" if "c \<in> set cs" for c
    using later_bucket_nearer[OF rt t _ i(3) y, of "i - 1" c] i that cs(3) by (auto simp: before_def)
  moreover have "\<not> nearer t y y" unfolding nearer_def using Less_asym by blast
  moreover have "int (length cs) = cnt" using cnt cs(2) by (simp add: before_def)
  ultimately show ?thesis using find cs(1) by (intro exI[of _ cs]) auto
qed

theorem findClosestContacts_misses_witness:
  "\<exists>cs. findClosestContacts distance_sort (demo_id 32) 1 demo_table = Inr (map (Contact_CalcDistance (demo_id 32)) cs) \<and>
    length cs = 1 \<and> demo_contact 8 \<notin> set cs \<and> (\<forall>c \<in> set cs. nearer (demo_id 32) (demo_contact 8) c)"
  using findClosestContacts_misses[OF demo_table_ok demo_contact_ok(3)[of 32] distance_sort_sorts demo_table_index(1), of 1 "demo_contact 8"]
    demo_table_index by auto

end
