(* ===== verification/Dht_Lookup.thy ===== *)
theory Dht_Lookup
  imports Dht_Node Routing_Facts
begin

text \<open>
  The search for the contacts near an identifier (\<open>FindContacts\<close> in \<open>src/pkg/p2p/dht/operations.go\<close>): a loop that
  takes contacts from a channel of ten slots and starts a goroutine for each node it has not asked yet, which asks
  the node and puts the contacts of the answer into the channel. It is a machine whose steps are the moves of the
  loop and of the goroutines, in any order.
\<close>

section \<open>The machine\<close>

definition Node_String :: "p2p_Node \<Rightarrow> string" where
  "Node_String n = ''Node{'' @ node_Name n @ '':'' @ node_Addr n @ ''}''"

definition MaxPendingRequests :: nat where "MaxPendingRequests = 10000"

definition pendingSlots :: nat where "pendingSlots = 10"

text \<open>A goroutine waits for the answer of a node, or has some contacts of the answer left to put into the channel.\<close>

datatype asking = Asked Contact | Answering "Contact list"

datatype phase = Filling "Contact list" | Looping | Done "Contact list" | Panicked

text \<open>
  The map of contacts by the text of their node, the channel, and the goroutines under way. The contacts that
  were given by the own table or in an answer, and those whose nodes answered, are kept too: they are no state of the
  code, and only the lemmas use them.
\<close>

record lookup =
  foundContacts :: "(string \<times> Contact) list"
  pendingContactChan :: "Contact list"
  outgoingReq :: "asking list"
  lk_phase :: phase
  lk_told :: "Contact list"
  lk_answered :: "Contact list"

text \<open>
  The moves. The loop puts the local contacts into the channel before it reads from it; takes a contact, whose
  node it asks if it is not known yet; or ends when nothing is pending, with the contacts of the map in some
  order sorted by distance. A goroutine gets its answer or gives up, puts a contact into the channel if there is a
  free slot, and ends. A loop that finds the channel empty while goroutines are under way turns without effect.
\<close>

datatype move = Fill | Take | Finish "Contact list" | Answer nat "failure + Contact list" | Push nat | Release nat

definition remove_at :: "nat \<Rightarrow> 'a list \<Rightarrow> 'a list" where
  "remove_at i xs = take i xs @ drop (Suc i) xs"

definition take_contact :: "KademliaID \<Rightarrow> int \<Rightarrow> Contact \<Rightarrow> lookup \<Rightarrow> lookup option" where
  "take_contact target cnt c s =
     (if ct_ID c = target \<and> cnt = 1 then Some (s\<lparr>lk_phase := Done [c]\<rparr>)
      else if map_of (foundContacts s) (Node_String (ct_Node c)) \<noteq> None then Some s
      else if length (outgoingReq s) < MaxPendingRequests
      then Some (s\<lparr>foundContacts := (Node_String (ct_Node c), c) # foundContacts s, outgoingReq := outgoingReq s @ [Asked c]\<rparr>)
      else None)"

definition closest :: "(Contact list \<Rightarrow> Contact list) \<Rightarrow> KademliaID \<Rightarrow> int \<Rightarrow> Contact list \<Rightarrow> Contact list" where
  "closest srt target cnt cs =
     (let candidates = srt (map (Contact_CalcDistance target) cs);
          cnt' = (if cnt > int (length candidates) then int (length candidates) else cnt)
      in take (nat cnt') candidates)"

text \<open>\<open>GetContacts\<close> slices the candidates: a negative count panics.\<close>

definition finished :: "(Contact list \<Rightarrow> Contact list) \<Rightarrow> KademliaID \<Rightarrow> int \<Rightarrow> Contact list \<Rightarrow> phase" where
  "finished srt target cnt cs = (if cnt < 0 then Panicked else Done (closest srt target cnt cs))"

fun lookup_step :: "(Contact list \<Rightarrow> Contact list) \<Rightarrow> KademliaID \<Rightarrow> int \<Rightarrow> move \<Rightarrow> lookup \<Rightarrow> lookup option" where
  "lookup_step srt target cnt Fill s =
     (case lk_phase s of
        Filling (c # cs) \<Rightarrow>
          if length (pendingContactChan s) < pendingSlots
          then Some (s\<lparr>pendingContactChan := pendingContactChan s @ [c], lk_phase := Filling cs\<rparr>) else None
      | Filling [] \<Rightarrow> Some (s\<lparr>lk_phase := Looping\<rparr>)
      | _ \<Rightarrow> None)"
| "lookup_step srt target cnt Take s =
     (case (lk_phase s, pendingContactChan s) of
        (Looping, c # cs) \<Rightarrow> take_contact target cnt c (s\<lparr>pendingContactChan := cs\<rparr>)
      | _ \<Rightarrow> None)"
| "lookup_step srt target cnt (Finish cs) s =
     (if lk_phase s = Looping \<and> pendingContactChan s = [] \<and> outgoingReq s = [] \<and> mset cs = mset (map snd (foundContacts s))
      then Some (s\<lparr>lk_phase := finished srt target cnt cs\<rparr>) else None)"
| "lookup_step srt target cnt (Answer i r) s =
     (if i < length (outgoingReq s)
      then case outgoingReq s ! i of
          Asked c \<Rightarrow>
            (case r of
               Inl _ \<Rightarrow> Some (s\<lparr>outgoingReq := remove_at i (outgoingReq s)\<rparr>)
             | Inr cs \<Rightarrow> Some (s\<lparr>outgoingReq := (outgoingReq s)[i := Answering cs], lk_told := lk_told s @ cs,
                 lk_answered := lk_answered s @ [c]\<rparr>))
        | Answering _ \<Rightarrow> None
      else None)"
| "lookup_step srt target cnt (Push i) s =
     (if i < length (outgoingReq s) \<and> length (pendingContactChan s) < pendingSlots
      then case outgoingReq s ! i of
          Answering (c # cs) \<Rightarrow>
            Some (s\<lparr>outgoingReq := (outgoingReq s)[i := Answering cs], pendingContactChan := pendingContactChan s @ [c]\<rparr>)
        | _ \<Rightarrow> None
      else None)"
| "lookup_step srt target cnt (Release i) s =
     (if i < length (outgoingReq s) \<and> outgoingReq s ! i = Answering []
      then Some (s\<lparr>outgoingReq := remove_at i (outgoingReq s)\<rparr>) else None)"

text \<open>The start, with the contacts of the own table; without any the search ends at once.\<close>

definition lookup_start :: "Contact list \<Rightarrow> lookup" where
  "lookup_start local_contacts =
     \<lparr>foundContacts = [], pendingContactChan = [], outgoingReq = [],
      lk_phase = (if local_contacts = [] then Done [] else Filling local_contacts), lk_told = local_contacts, lk_answered = []\<rparr>"

text \<open>
  The states of a search after a number of moves, in a network where \<open>answers c\<close> is the set of the answers the node
  of the contact may give.
\<close>

fun allowed :: "(Contact \<Rightarrow> (failure + Contact list) set) \<Rightarrow> move \<Rightarrow> lookup \<Rightarrow> bool" where
  "allowed answers (Answer i r) s = (case outgoingReq s ! i of Asked c \<Rightarrow> r \<in> answers c | _ \<Rightarrow> True)"
| "allowed answers _ s = True"

inductive lookup_run ::
  "(Contact list \<Rightarrow> Contact list) \<Rightarrow> KademliaID \<Rightarrow> int \<Rightarrow> (Contact \<Rightarrow> (failure + Contact list) set) \<Rightarrow> Contact list \<Rightarrow> nat \<Rightarrow> lookup \<Rightarrow> bool"
  for srt target cnt answers cs where
  start: "lookup_run srt target cnt answers cs 0 (lookup_start cs)"
| step: "lookup_run srt target cnt answers cs n s \<Longrightarrow> allowed answers m s \<Longrightarrow> lookup_step srt target cnt m s = Some s' \<Longrightarrow>
    lookup_run srt target cnt answers cs (Suc n) s'"

section \<open>The invariant\<close>

fun asking_left :: "asking \<Rightarrow> Contact list" where
  "asking_left (Asked c) = []"
| "asking_left (Answering cs) = cs"

fun phase_left :: "phase \<Rightarrow> Contact list" where
  "phase_left (Filling cs) = cs"
| "phase_left _ = []"

text \<open>The contacts on their way into the map.\<close>

definition on_the_way :: "lookup \<Rightarrow> Contact set" where
  "on_the_way s = set (pendingContactChan s) \<union> set (concat (map asking_left (outgoingReq s))) \<union> set (phase_left (lk_phase s))"

definition known :: "lookup \<Rightarrow> string set" where
  "known s = fst ` set (foundContacts s)"

fun is_done :: "phase \<Rightarrow> bool" where
  "is_done (Done _) = True"
| "is_done Panicked = True"
| "is_done _ = False"

definition found_ok :: "lookup \<Rightarrow> bool" where
  "found_ok s \<longleftrightarrow> distinct (map fst (foundContacts s)) \<and>
     (\<forall>p \<in> set (foundContacts s). fst p = Node_String (ct_Node (snd p)) \<and> snd p \<in> set (lk_told s)) \<and>
     (\<forall>c. Asked c \<in> set (outgoingReq s) \<longrightarrow> (Node_String (ct_Node c), c) \<in> set (foundContacts s))"

definition told_ok :: "lookup \<Rightarrow> bool" where
  "told_ok s \<longleftrightarrow> on_the_way s \<subseteq> set (lk_told s) \<and>
     (\<not> is_done (lk_phase s) \<longrightarrow> (\<forall>c \<in> set (lk_told s). Node_String (ct_Node c) \<in> known s \<or> c \<in> on_the_way s))"

lemma split_at:
  assumes "i < length xs"
  obtains as bs where "xs = as @ (xs ! i) # bs" "length as = i" "\<forall>y. xs[i := y] = as @ y # bs" "remove_at i xs = as @ bs"
  using assms that[of "take i xs" "drop (Suc i) xs"] by (simp add: remove_at_def id_take_nth_drop upd_conv_take_nth_drop)

lemma finished_phase [simp]:
  "is_done (finished srt target cnt cs)" "phase_left (finished srt target cnt cs) = []"
  "finished srt target cnt cs \<noteq> Filling xs" "finished srt target cnt cs \<noteq> Looping"
  "finished srt target cnt cs = Done res \<longleftrightarrow> 0 \<le> cnt \<and> res = closest srt target cnt cs"
  by (auto simp: finished_def)

text \<open>What each move does, as the shape of the state before and after it.\<close>

lemma step_cases [consumes 1]:
  assumes "lookup_step srt target cnt m s = Some s'"
  obtains
    (fill) c cs where "lk_phase s = Filling (c # cs)" "length (pendingContactChan s) < pendingSlots"
      "s' = s\<lparr>pendingContactChan := pendingContactChan s @ [c], lk_phase := Filling cs\<rparr>"
  | (filled) "lk_phase s = Filling []" "s' = s\<lparr>lk_phase := Looping\<rparr>"
  | (exact) c cs where "lk_phase s = Looping" "pendingContactChan s = c # cs" "ct_ID c = target" "cnt = 1"
      "s' = s\<lparr>pendingContactChan := cs, lk_phase := Done [c]\<rparr>"
  | (old) c cs where "lk_phase s = Looping" "pendingContactChan s = c # cs" "Node_String (ct_Node c) \<in> known s"
      "s' = s\<lparr>pendingContactChan := cs\<rparr>"
  | (new) c cs where "lk_phase s = Looping" "pendingContactChan s = c # cs" "Node_String (ct_Node c) \<notin> known s"
      "s' = s\<lparr>pendingContactChan := cs, foundContacts := (Node_String (ct_Node c), c) # foundContacts s, outgoingReq := outgoingReq s @ [Asked c]\<rparr>"
  | (finish) cs where "lk_phase s = Looping" "pendingContactChan s = []" "outgoingReq s = []" "mset cs = mset (map snd (foundContacts s))"
      "s' = s\<lparr>lk_phase := finished srt target cnt cs\<rparr>"
  | (failed) as c bs i e where "m = Answer i (Inl e)" "length as = i" "outgoingReq s = as @ Asked c # bs" "s' = s\<lparr>outgoingReq := as @ bs\<rparr>"
  | (answered) as c bs i cs where "m = Answer i (Inr cs)" "length as = i" "outgoingReq s = as @ Asked c # bs"
      "s' = s\<lparr>outgoingReq := as @ Answering cs # bs, lk_told := lk_told s @ cs, lk_answered := lk_answered s @ [c]\<rparr>"
  | (push) as c cs bs where "outgoingReq s = as @ Answering (c # cs) # bs" "length (pendingContactChan s) < pendingSlots"
      "s' = s\<lparr>outgoingReq := as @ Answering cs # bs, pendingContactChan := pendingContactChan s @ [c]\<rparr>"
  | (release) as bs where "outgoingReq s = as @ Answering [] # bs" "s' = s\<lparr>outgoingReq := as @ bs\<rparr>"
proof (cases m)
  case Fill
  then show ?thesis using assms fill filled by (auto split: phase.splits list.splits if_splits)
next
  case Take
  then obtain c cs where c: "lk_phase s = Looping" "pendingContactChan s = c # cs"
    "take_contact target cnt c (s\<lparr>pendingContactChan := cs\<rparr>) = Some s'"
    using assms by (auto split: phase.splits list.splits)
  then show ?thesis using exact[OF c(1,2)] old[OF c(1,2)] new[OF c(1,2)]
    by (auto simp: take_contact_def known_def map_of_eq_None_iff split: if_splits)
next
  case (Finish cs)
  then show ?thesis using assms finish by (auto split: if_splits)
next
  case (Answer i r)
  then have i: "i < length (outgoingReq s)" using assms by (auto split: if_splits)
  obtain as bs where split: "outgoingReq s = as @ (outgoingReq s ! i) # bs" "length as = i"
    "\<forall>y. (outgoingReq s)[i := y] = as @ y # bs" "remove_at i (outgoingReq s) = as @ bs" using split_at[OF i] .
  with Answer i split show ?thesis using assms failed[of i _ as _ bs] answered[of i _ as _ bs] by (auto split: asking.splits sum.splits)
next
  case (Push i)
  then have i: "i < length (outgoingReq s)" using assms by (auto split: if_splits)
  obtain as bs where split: "outgoingReq s = as @ (outgoingReq s ! i) # bs" "length as = i"
    "\<forall>y. (outgoingReq s)[i := y] = as @ y # bs" "remove_at i (outgoingReq s) = as @ bs" using split_at[OF i] .
  with Push i show ?thesis using assms push[of as _ _ bs] by (auto split: asking.splits list.splits if_splits)
next
  case (Release i)
  then have i: "i < length (outgoingReq s)" using assms by (auto split: if_splits)
  obtain as bs where split: "outgoingReq s = as @ (outgoingReq s ! i) # bs" "length as = i"
    "\<forall>y. (outgoingReq s)[i := y] = as @ y # bs" "remove_at i (outgoingReq s) = as @ bs" using split_at[OF i] .
  with Release i show ?thesis using assms release[of as bs] by (auto split: if_splits)
qed


lemma step_told_ok:
  assumes "lookup_step srt target cnt m s = Some s'" "told_ok s"
  shows "told_ok s'"
  using assms
proof (cases rule: step_cases)
  case (new c cs)
  then have "on_the_way s = insert c (on_the_way s')" "known s' = insert (Node_String (ct_Node c)) (known s)"
    "lk_told s' = lk_told s" "lk_phase s' = lk_phase s"
    by (auto simp: on_the_way_def known_def)
  then show ?thesis using assms(2) unfolding told_ok_def by auto
next
  case (old c cs)
  then have "on_the_way s = insert c (on_the_way s')" "known s' = known s" "lk_told s' = lk_told s" "lk_phase s' = lk_phase s"
    by (auto simp: on_the_way_def known_def)
  then show ?thesis using assms(2) old(3) unfolding told_ok_def by auto
qed (auto simp: told_ok_def on_the_way_def known_def)

lemma step_found_ok:
  assumes "lookup_step srt target cnt m s = Some s'" "found_ok s" "told_ok s"
  shows "found_ok s'"
  using assms
proof (cases rule: step_cases)
  case (new c cs)
  have "c \<in> set (lk_told s)" using assms(3) new(2) by (auto simp: told_ok_def on_the_way_def)
  then show ?thesis using assms(2) new(3) unfolding new(4) by (auto simp: found_ok_def known_def image_iff)
qed (auto simp: found_ok_def)

lemma run_ok: "lookup_run srt target cnt answers cs n s \<Longrightarrow> told_ok s \<and> found_ok s"
proof (induction rule: lookup_run.induct)
  case start
  show ?case by (auto simp: told_ok_def found_ok_def lookup_start_def on_the_way_def)
qed (auto intro: step_told_ok step_found_ok)

section \<open>What the search finds\<close>


definition net_answers :: "(string \<Rightarrow> Contact list) \<Rightarrow> Contact \<Rightarrow> (failure + Contact list) set" where
  "net_answers net c = {Inr (net (Node_String (ct_Node c)))}"










section \<open>Whether the search ends\<close>

text \<open>While the local contacts are put into the channel nothing else moves.\<close>

lemma run_filling:
  assumes "lookup_run srt target cnt answers cs n s" "lk_phase s = Filling xs"
  shows "pendingContactChan s @ xs = cs \<and> outgoingReq s = [] \<and> length (pendingContactChan s) \<le> pendingSlots"
  using assms
proof (induction arbitrary: xs rule: lookup_run.induct)
  case start
  then show ?case by (simp add: lookup_start_def split: if_splits)
next
  case (step n s m s')
  from step(3) show ?case
    by (cases rule: step_cases) (use step(4,5) in \<open>auto simp: Suc_le_eq\<close>)
qed

text \<open>
  C32: a search that starts with more local contacts than the channel has slots never ends: it stays in the loop
  that fills the channel, which nobody reads from yet, and asks no node.
\<close>

theorem lookup_blocks:
  assumes "lookup_run srt target cnt answers cs n s" "pendingSlots < length cs"
  shows "\<exists>xs. lk_phase s = Filling xs \<and> xs \<noteq> [] \<and> outgoingReq s = [] \<and> n \<le> pendingSlots"
proof -
  have "\<exists>xs. lk_phase s = Filling xs \<and> length (pendingContactChan s) = n"
    using assms(1)
  proof (induction rule: lookup_run.induct)
    case start
    then show ?case using assms(2) by (auto simp: lookup_start_def)
  next
    case (step n s m s')
    then obtain xs where xs: "lk_phase s = Filling xs" "length (pendingContactChan s) = n" by blast
    have fill: "pendingContactChan s @ xs = cs" "outgoingReq s = []" "length (pendingContactChan s) \<le> pendingSlots"
      using run_filling[OF step(1) xs(1)] by auto
    then have "xs \<noteq> []" using assms(2) by auto
    from step(3) show ?case by (cases rule: step_cases) (use xs fill \<open>xs \<noteq> []\<close> in auto)
  qed
  then obtain xs where "lk_phase s = Filling xs" "length (pendingContactChan s) = n" by blast
  with run_filling[OF assms(1)] assms(2) show ?thesis by (metis append_Nil2 leD)
qed

text \<open>What is left to do: nodes that were not asked yet, contacts on their way, and goroutines.\<close>

fun asking_weight :: "nat \<Rightarrow> asking \<Rightarrow> nat" where
  "asking_weight L (Asked c) = 2 * L + 2"
| "asking_weight L (Answering cs) = 2 * length cs + 1"

fun phase_weight :: "phase \<Rightarrow> nat" where
  "phase_weight (Filling cs) = 2 * length cs + 2"
| "phase_weight Looping = 1"
| "phase_weight (Done _) = 0"
| "phase_weight Panicked = 0"

lemma finished_weight [simp]: "phase_weight (finished srt target cnt cs) = 0"
  by (simp add: finished_def)

definition work_left :: "string set \<Rightarrow> nat \<Rightarrow> lookup \<Rightarrow> nat" where
  "work_left N L s = (card N - length (foundContacts s)) * (2 * L + 2) + phase_weight (lk_phase s) +
     length (pendingContactChan s) + sum_list (map (asking_weight L) (outgoingReq s))"

text \<open>A network of the nodes \<open>N\<close>, with answers of at most \<open>L\<close> contacts.\<close>

definition network :: "string set \<Rightarrow> nat \<Rightarrow> (Contact \<Rightarrow> (failure + Contact list) set) \<Rightarrow> bool" where
  "network N L answers \<longleftrightarrow> finite N \<and> card N \<le> MaxPendingRequests \<and>
     (\<forall>c. answers c \<noteq> {} \<and> (\<forall>r. Inr r \<in> answers c \<longrightarrow> length r \<le> L \<and> (\<forall>d \<in> set r. Node_String (ct_Node d) \<in> N)))"

lemma run_in_network:
  assumes "lookup_run srt target cnt answers cs n s" "network N L answers" "\<forall>c \<in> set cs. Node_String (ct_Node c) \<in> N"
  shows "(\<forall>c \<in> set (lk_told s). Node_String (ct_Node c) \<in> N) \<and> length (outgoingReq s) \<le> length (foundContacts s)"
  using assms(1)
proof (induction rule: lookup_run.induct)
  case start
  then show ?case using assms(3) by (simp add: lookup_start_def)
next
  case (step n s m s')
  from step(3) show ?case
  proof (cases rule: step_cases)
    case (answered as c bs i rs)
    then have "Inr rs \<in> answers c" using step(2) by auto
    then show ?thesis using answered step(4) assms(2) by (auto simp: network_def)
  qed (use step(4) in auto)
qed

lemma found_in_network:
  assumes "lookup_run srt target cnt answers cs n s" "network N L answers" "\<forall>c \<in> set cs. Node_String (ct_Node c) \<in> N"
  shows "known s \<subseteq> N" "card (known s) = length (foundContacts s)"
proof -
  have found: "found_ok s" using run_ok[OF assms(1)] ..
  then show "known s \<subseteq> N" using run_in_network[OF assms] by (auto simp: known_def found_ok_def)
  show "card (known s) = length (foundContacts s)" using found by (metis distinct_card found_ok_def known_def length_map list.set_map)
qed

lemma step_works:
  assumes run: "lookup_run srt target cnt answers cs n s" and net: "network N L answers" "\<forall>c \<in> set cs. Node_String (ct_Node c) \<in> N"
    and step: "lookup_step srt target cnt m s = Some s'" "allowed answers m s"
  shows "work_left N L s' < work_left N L s"
  using step(1)
proof (cases rule: step_cases)
  case (new c ps)
  have "c \<in> set (lk_told s)" using run_ok[OF run] new(2) by (auto simp: told_ok_def on_the_way_def)
  then have "insert (Node_String (ct_Node c)) (known s) \<subseteq> N" using found_in_network(1)[OF run net] run_in_network[OF run net] by auto
  moreover have "finite N" using net(1) by (simp add: network_def)
  ultimately have "card (insert (Node_String (ct_Node c)) (known s)) \<le> card N" by (rule card_mono[rotated])
  then have "Suc (length (foundContacts s)) \<le> card N"
    using new(3) found_in_network(2)[OF run net] \<open>finite N\<close> found_in_network(1)[OF run net] by (simp add: finite_subset)
  then obtain k where "card N - length (foundContacts s) = Suc k" "card N - Suc (length (foundContacts s)) = k"
    by (metis Suc_diff_Suc Suc_le_eq)
  then show ?thesis using new by (simp add: work_left_def)
next
  case (answered as c bs i rs)
  then have "Inr rs \<in> answers c" using step(2) by auto
  then have "length rs \<le> L" using net(1) by (auto simp: network_def)
  then show ?thesis using answered by (simp add: work_left_def)
qed (auto simp: work_left_def)

lemma loop_moves:
  assumes run: "lookup_run srt target cnt answers cs n s" and net: "network N L answers" "\<forall>c \<in> set cs. Node_String (ct_Node c) \<in> N"
    and loop: "lk_phase s = Looping"
  shows "\<exists>m s'. allowed answers m s \<and> lookup_step srt target cnt m s = Some s'"
proof (cases "pendingContactChan s")
  case (Cons c ps)
  have "c \<in> set (lk_told s)" using run_ok[OF run] Cons by (auto simp: told_ok_def on_the_way_def)
  then have c: "Node_String (ct_Node c) \<in> N" using run_in_network[OF run net] by blast
  have "length (outgoingReq s) < MaxPendingRequests" if "Node_String (ct_Node c) \<notin> known s"
  proof -
    have "known s \<subset> N" using found_in_network(1)[OF run net] c that by blast
    then have "length (foundContacts s) < card N" using net(1) found_in_network(2)[OF run net] psubset_card_mono[of N "known s"] by (simp add: network_def)
    then show ?thesis using run_in_network[OF run net] net(1) by (simp add: network_def)
  qed
  then have "\<exists>s'. lookup_step srt target cnt Take s = Some s'"
    using Cons loop by (auto simp: take_contact_def known_def map_of_eq_None_iff)
  then show ?thesis by (metis allowed.simps(3))
next
  case Nil
  show ?thesis
  proof (cases "outgoingReq s")
    case Nil2: Nil
    then have "\<exists>s'. lookup_step srt target cnt (Finish (map snd (foundContacts s))) s = Some s'" using Nil loop by simp
    then show ?thesis by (metis allowed.simps(4))
  next
    case (Cons a as)
    show ?thesis
    proof (cases a)
      case (Asked c)
      have "answers c \<noteq> {}" using net(1) by (simp add: network_def)
      then obtain r where "r \<in> answers c" by blast
      then have "allowed answers (Answer 0 r) s" "\<exists>s'. lookup_step srt target cnt (Answer 0 r) s = Some s'"
        using Cons Asked by (simp_all split: sum.splits)
      then show ?thesis by blast
    next
      case (Answering rs)
      then have "lookup_step srt target cnt (if rs = [] then Release 0 else Push 0) s \<noteq> None"
        using Cons Nil by (cases rs) (simp_all add: pendingSlots_def)
      then show ?thesis by (metis allowed.simps(5,6) not_None_eq)
    qed
  qed
qed

text \<open>
  C11: in a network of at most 10000 nodes, a search that starts with at most ten local contacts ends: the number of
  its moves is bounded by the sizes of the network and of the answers, and as long as it is not done it can move.
\<close>

theorem lookup_ends:
  assumes run: "lookup_run srt target cnt answers cs n s" and net: "network N L answers" "\<forall>c \<in> set cs. Node_String (ct_Node c) \<in> N"
    and cs: "length cs \<le> pendingSlots"
  shows "n \<le> card N * (2 * L + 2) + 2 * length cs + 2 \<and>
    (is_done (lk_phase s) \<or> (\<exists>m s'. allowed answers m s \<and> lookup_step srt target cnt m s = Some s'))"
proof
  have "n + work_left N L s \<le> work_left N L (lookup_start cs)" using run
  proof (induction rule: lookup_run.induct)
    case (step n s m s')
    then show ?case using step_works[OF step(1) net step(3,2)] by simp
  qed simp
  moreover have "work_left N L (lookup_start cs) \<le> card N * (2 * L + 2) + 2 * length cs + 2"
    by (simp add: work_left_def lookup_start_def)
  ultimately show "n \<le> card N * (2 * L + 2) + 2 * length cs + 2" by linarith
  show "is_done (lk_phase s) \<or> (\<exists>m s'. allowed answers m s \<and> lookup_step srt target cnt m s = Some s')"
  proof (cases "lk_phase s")
    case (Filling xs)
    have "pendingContactChan s @ xs = cs" using run_filling[OF run Filling] ..
    then have "lookup_step srt target cnt Fill s \<noteq> None" using Filling cs by (cases xs) auto
    then show ?thesis by (metis allowed.simps(2) not_None_eq)
  next
    case Looping
    then show ?thesis using loop_moves[OF run net] by blast
  qed simp_all
qed

text \<open>A search at a node that knows the nodes 8 and 64, where 64 knows 65 too.\<close>

definition demo_peer :: "nat \<Rightarrow> string \<Rightarrow> Contact" where
  "demo_peer i name = (demo_contact i)\<lparr>ct_Node := \<lparr>node_Name = name, node_Addr = []\<rparr>\<rparr>"

definition demo_local :: "Contact list" where
  "demo_local = [demo_peer 8 ''a'', demo_peer 64 ''b'']"

definition demo_net :: "string \<Rightarrow> Contact list" where
  "demo_net n = (if n = ''Node{b:}'' then [demo_peer 8 ''a'', demo_peer 65 ''c''] else [])"

definition demo_moves :: "move list" where
  "demo_moves = [Fill, Fill, Fill, Take, Take, Answer 1 (Inr (demo_net ''Node{b:}'')), Push 1, Push 1, Take, Take,
     Answer 0 (Inr []), Release 0, Release 0, Answer 0 (Inr []), Release 0, Finish [demo_peer 65 ''c'', demo_peer 64 ''b'', demo_peer 8 ''a'']]"

fun moves_from :: "(Contact list \<Rightarrow> Contact list) \<Rightarrow> KademliaID \<Rightarrow> int \<Rightarrow> (string \<Rightarrow> Contact list) \<Rightarrow> move list \<Rightarrow> lookup \<Rightarrow> lookup option" where
  "moves_from srt t cnt net [] s = Some s"
| "moves_from srt t cnt net (m # ms) s =
     (if allowed (net_answers net) m s
      then case lookup_step srt t cnt m s of None \<Rightarrow> None | Some s' \<Rightarrow> moves_from srt t cnt net ms s' else None)"

lemma moves_run:
  "lookup_run srt t cnt (net_answers net) cs n s \<Longrightarrow> moves_from srt t cnt net ms s = Some s' \<Longrightarrow>
   lookup_run srt t cnt (net_answers net) cs (n + length ms) s'"
proof (induction ms arbitrary: n s)
  case (Cons m ms)
  then show ?case using lookup_run.step[of srt t cnt "net_answers net" cs n s m] by (fastforce split: if_splits option.splits)
qed simp

lemma demo_search: "map_option lk_phase (moves_from distance_sort (demo_id 32) 2 demo_net demo_moves (lookup_start demo_local)) =
  Some (Done (map (Contact_CalcDistance (demo_id 32)) [demo_peer 8 ''a'', demo_peer 64 ''b'']))"
  by code_simp


lemma demo_peers_ok: "id_ok (ct_ID (demo_peer i nm))" "Node_String (ct_Node (demo_peer i nm)) = ''Node{'' @ nm @ '':}''"
  by (simp_all add: demo_peer_def Node_String_def)

lemma demo_run:
  obtains s where "lookup_run distance_sort (demo_id 32) 2 (net_answers demo_net) demo_local 16 s"
    "lk_phase s = Done (map (Contact_CalcDistance (demo_id 32)) [demo_peer 8 ''a'', demo_peer 64 ''b''])"
proof -
  obtain s where "moves_from distance_sort (demo_id 32) 2 demo_net demo_moves (lookup_start demo_local) = Some s"
    "lk_phase s = Done (map (Contact_CalcDistance (demo_id 32)) [demo_peer 8 ''a'', demo_peer 64 ''b''])"
    using demo_search by auto
  moreover from this(1) have "lookup_run distance_sort (demo_id 32) 2 (net_answers demo_net) demo_local (0 + length demo_moves) s"
    by (rule moves_run[OF lookup_run.start])
  moreover have "0 + length demo_moves = 16" by (simp add: demo_moves_def)
  ultimately show ?thesis using that by metis
qed


theorem lookup_blocks_witness:
  "\<exists>xs. lk_phase (lookup_start (replicate 11 (demo_contact 5))) = Filling xs \<and> xs \<noteq> []"
  using lookup_blocks[OF lookup_run.start[of distance_sort "demo_id 32" 20 "net_answers demo_net" "replicate 11 (demo_contact 5)"]]
  by (auto simp: pendingSlots_def)

theorem lookup_ends_witness:
  "16 \<le> card {''Node{a:}'', ''Node{b:}'', ''Node{c:}''} * (2 * 2 + 2) + 2 * length demo_local + (2 :: nat)"
proof -
  obtain s where s: "lookup_run distance_sort (demo_id 32) 2 (net_answers demo_net) demo_local 16 s" by (rule demo_run)
  have "network {''Node{a:}'', ''Node{b:}'', ''Node{c:}''} 2 (net_answers demo_net)"
    by (auto simp: network_def net_answers_def demo_net_def demo_peers_ok MaxPendingRequests_def card_insert_if)
  from lookup_ends[OF s this] show ?thesis by (simp add: demo_local_def demo_peers_ok pendingSlots_def)
qed

end
