(* ===== verification/Dht_Facts.thy ===== *)
theory Dht_Facts
  imports Dht_Node Routing_Facts
begin

text \<open>
  What a node of the hash table keeps whatever messages reach it: its tables are well formed and every
  value it stores is signed by the identity its key opens with. What a single message can do to it:
  a reply that comes late stops the dispatcher for good, and some requests end the process.
\<close>

section \<open>The invariant of a node\<close>

definition kv_signed :: "dht_env \<Rightarrow> KV \<Rightarrow> bool" where
  "kv_signed env v \<longleftrightarrow> RecoverID env (GenerateHash env (kv_Value v)) (kv_Sig v) = Inr (kv_ID v)"

definition states_ok :: "dht_env \<Rightarrow> states \<Rightarrow> bool" where
  "states_ok env s \<longleftrightarrow> rt_ok (st_rt s) \<and> store_ok (st_kvs s) \<and>
     (\<forall>ps v. store_values (st_kvs s) ps = Some v \<longrightarrow> ValidateKV env v = None \<and> ps = key_parts (kv_Key v) \<and> kv_Value v \<noteq> [])"

text \<open>The decoders fill arrays of 32 bytes.\<close>

definition decodes_arrays :: "dht_env \<Rightarrow> bool" where
  "decodes_arrays env \<longleftrightarrow>
     (\<forall>p r. ConvertJSONToPingReq env p = Inr (Some r) \<longrightarrow> id_ok (ct_ID (hdr_Sender (pingq_Header r)))) \<and>
     (\<forall>p r. ConvertJSONToFindContactsReq env p = Inr (Some r) \<longrightarrow> id_ok (ct_ID (hdr_Sender (findq_Header r)))) \<and>
     (\<forall>p r. ConvertJSONToPutReq env p = Inr (Some r) \<longrightarrow> id_ok (ct_ID (hdr_Sender (putq_Header r)))) \<and>
     (\<forall>p r. ConvertJSONToGetReq env p = Inr (Some r) \<longrightarrow> id_ok (ct_ID (hdr_Sender (getq_Header r))))"

fun job_ok :: "dht_env \<Rightarrow> job \<Rightarrow> bool" where
  "job_ok env (ADD_CONTACT c) = id_ok (ct_ID c)"
| "job_ok env (PUT i key val sig) = (ValidateKV env \<lparr>kv_ID = i, kv_Key = key, kv_Value = val, kv_Sig = sig\<rparr> = None)"
| "job_ok env _ = True"

lemma KV_parts [simp]: "\<lparr>kv_ID = kv_ID v, kv_Key = kv_Key v, kv_Value = kv_Value v, kv_Sig = kv_Sig v\<rparr> = v"
  by simp

lemma serve_job_ok:
  assumes "states_ok env s" "job_ok env j"
  shows "states_ok env (snd (serve_job env j s))"
proof (cases j)
  case (ADD_CONTACT c)
  then show ?thesis using assms by (simp add: states_ok_def rt_add_ok)
next
  case (PUT i key val sig)
  show ?thesis
  proof (cases "kv_put i key val sig (st_kvs s)")
    case (Inr kvs)
    then have new: "store_ok kvs" "val \<noteq> []"
      "store_values kvs = (store_values (st_kvs s))(key_parts key \<mapsto> \<lparr>kv_ID = i, kv_Key = key, kv_Value = val, kv_Sig = sig\<rparr>)"
      using assms(1) by (auto simp: kv_put_def store_ok_def store_values_def states_ok_def kvs.put_ok kvs.put_values split: if_splits)
    show ?thesis using assms new(1,2) PUT Inr by (auto simp: states_ok_def new(3) split: if_splits)
  qed (use assms PUT in simp)
qed (use assms in \<open>auto simp: states_ok_def split: sum.splits\<close>)

text \<open>Operations on a node that keep its tables well formed; a result of a decoder and a pointer are known to the rest.\<close>

definition node_keeps :: "dht_env \<Rightarrow> Kademlia \<Rightarrow> Kademlia \<Rightarrow> bool" where
  "node_keeps env k k' \<longleftrightarrow> k_Contact k' = k_Contact k \<and> (states_ok env (k_states k) \<longrightarrow> states_ok env (k_states k'))"

context op_relation
begin

lemma keeps_decoded: "(\<And>x. r = Inr x \<Longrightarrow> keeps R (f x)) \<Longrightarrow> keeps R (bindM (liftE r) f)"
  by (cases r) (auto simp: keeps_def bindM_def liftE_def rel_refl)

lemma keeps_deref: "(\<And>x. p = Some x \<Longrightarrow> keeps R (f x)) \<Longrightarrow> keeps R (bindM (derefM p) f)"
  by (cases p) (auto simp: keeps_def bindM_def derefM_def throwM_def retM_def rel_refl)

lemma keeps_check: "keeps R (case p of None \<Rightarrow> retM () | Some e \<Rightarrow> throwM e)"
  by (cases p) (simp_all add: keeps_retM keeps_throwM)

lemma keeps_checked: "(p = None \<Longrightarrow> keeps R m) \<Longrightarrow> keeps R (thenM (case p of None \<Rightarrow> retM () | Some e \<Rightarrow> throwM e) m)"
  by (cases p) (auto simp: keeps_def thenM_def bindM_def retM_def throwM_def rel_refl)

end

interpretation dht: op_relation "node_keeps env"
  by unfold_locales (auto simp: node_keeps_def)

lemma queue_job_keeps: "job_ok env j \<Longrightarrow> keeps (node_keeps env) (queue_job env j w)"
  using serve_job_ok[of env _ j]
  by (auto simp: keeps_def node_keeps_def queue_job_def split: prod.splits sum.splits) (metis snd_conv)+

lemma addContact_keeps: "id_ok (ct_ID c) \<Longrightarrow> keeps (node_keeps env) (kad_addContact env w c)"
  unfolding kad_addContact_def
  by (intro dht.keeps_bindM queue_job_keeps) (auto intro: dht.keeps_retM)

lemma kad_send_keeps: "keeps (node_keeps env) (kad_send env m)"
  unfolding kad_send_def thenM_def
  by (intro dht.keeps_bindM dht.keeps_check) (auto simp: keeps_def modifyM_def node_keeps_def)

lemma reply_keeps: "keeps (node_keeps env) (peer_reply env msg t json)"
  unfolding peer_reply_def sendReply_def by (intro dht.keeps_bindM dht.keeps_getM kad_send_keeps)

lemmas handler_rules = dht.keeps_decoded dht.keeps_deref dht.keeps_bindM dht.keeps_getM dht.keeps_retM dht.keeps_throwM
  dht.keeps_liftE reply_keeps addContact_keeps queue_job_keeps dht.keeps_if

lemma handlers_keep:
  assumes "decodes_arrays env"
  shows "keeps (node_keeps env) (handlePingReq env w msg)"
    "keeps (node_keeps env) (handleFindContactsReq env w v msg)"
    "keeps (node_keeps env) (handleGetReq env w v msg)"
    "keeps (node_keeps env) (handlePutReq env w v msg)"
proof -
  show "keeps (node_keeps env) (handlePingReq env w msg)"
    unfolding handlePingReq_def using assms by (intro handler_rules) (auto simp: decodes_arrays_def)
  show "keeps (node_keeps env) (handleFindContactsReq env w v msg)"
    unfolding handleFindContactsReq_def using assms
    by (intro handler_rules) (auto simp: decodes_arrays_def intro: handler_rules split: sel.splits)
  show "keeps (node_keeps env) (handleGetReq env w v msg)"
    unfolding handleGetReq_def using assms
    by (intro handler_rules) (auto simp: decodes_arrays_def intro: handler_rules split: sel.splits)
  show "keeps (node_keeps env) (handlePutReq env w v msg)"
    unfolding handlePutReq_def Let_def using assms
    by (intro dht.keeps_checked handler_rules) (auto simp: decodes_arrays_def intro: handler_rules split: sel.splits)
qed

lemma handleResponse_keeps: "keeps (node_keeps env) (handleResponse msg)"
  by (auto simp: keeps_def handleResponse_def node_keeps_def split: option.splits)

lemma serve_message_keeps:
  assumes "decodes_arrays env"
  shows "keeps (node_keeps env) (serve_message env w v msg)"
proof -
  note kept = handlers_keep[OF assms, THEN dht.keeps_ignoreM] handleResponse_keeps
  show ?thesis unfolding keeps_def serve_message_def
    by (auto simp: dht.rel_refl intro: kept[unfolded keeps_def, rule_format] split: msg_type.splits)
qed

text \<open>The states of a node: created, then messages served, requests sent and given up, and shut down, in any order.\<close>

inductive node_run :: "dht_env \<Rightarrow> Contact \<Rightarrow> Kademlia \<Rightarrow> bool" for env me where
  created: "node_run env me (CreateKademlia me)"
| served: "node_run env me k \<Longrightarrow> node_run env me (snd (serve_message env w v msg k))"
| requested: "node_run env me k \<Longrightarrow> node_run env me (snd (dispatcher_send env rnd msg k))"
| given_up: "node_run env me k \<Longrightarrow> node_run env me (give_up i k)"
| shut_down: "node_run env me k \<Longrightarrow> node_run env me (kad_Shutdown k)"

lemma node_run_ok:
  assumes "node_run env me k" "decodes_arrays env" "id_ok (ct_ID me)"
  shows "states_ok env (k_states k)"
  using assms(1)
proof (induction rule: node_run.induct)
  case created
  then show ?case using assms(3) by (simp add: CreateKademlia_def createStates_def states_ok_def createKVStore_ok rt_created_ok)
next
  case (served k w v msg)
  then show ?case using serve_message_keeps[OF assms(2)] unfolding keeps_def node_keeps_def by blast
next
  case (requested k rnd msg)
  have "keeps (node_keeps env) (dispatcher_send env rnd msg)"
    unfolding dispatcher_send_def Let_def
    by (intro dht.keeps_thenM kad_send_keeps) (auto simp: keeps_def modifyM_def node_keeps_def)
  then show ?case using requested unfolding keeps_def node_keeps_def by blast
qed (auto simp: give_up_def kad_Shutdown_def states_ok_def split: option.splits)

lemma Split_parts: "p \<in> set (Split c s) \<Longrightarrow> c \<notin> set p"
  by (induction s arbitrary: p) (auto split: if_splits list.splits)

text \<open>A key that was let through opens with the identity that signed the value, and has at most five parts.\<close>

lemma validated_key:
  assumes "ValidateKV env v = None"
  shows "kv_signed env v" "length (kv_ID v) = 64" "key_parts (kv_Key v) \<noteq> []" "hd (key_parts (kv_Key v)) = kv_ID v"
    "length (key_parts (kv_Key v)) \<le> 5" "\<forall>p \<in> set (key_parts (kv_Key v)). \<forall>x \<in> set p. alnum x"
proof -
  have sig: "validateValue env v = None" and root: "validateRootKey (kv_Key v) (kv_ID v) = None"
    using assms by (simp_all add: ValidateKV_def split: option.splits)
  show "kv_signed env v" using sig by (simp add: validateValue_def kv_signed_def split: sum.splits if_splits)
  have valid: "validateKey (kv_Key v)" using root by (auto simp: validateRootKey_def getRootKey_def split: if_splits)
  then obtain rest where key: "kv_Key v = CHR ''/'' # rest" by (auto simp: validateKey_def split: list.splits)
  then have parts: "key_parts (kv_Key v) = Split CHR ''/'' rest" by (simp add: key_parts_def)
  have ok: "length (Split CHR ''/'' rest) \<le> 5" "\<forall>p \<in> set (Split CHR ''/'' rest). p \<noteq> [] \<and> (\<forall>x \<in> set p. alnum x)"
    using valid by (simp_all add: validateKey_def key Let_def)
  then show "length (key_parts (kv_Key v)) \<le> 5" "\<forall>p \<in> set (key_parts (kv_Key v)). \<forall>x \<in> set p. alnum x"
    by (simp_all add: parts)
  show ne: "key_parts (kv_Key v) \<noteq> []" by (rule key_parts_nonempty) (simp_all add: key)
  have "FieldsFunc CHR ''/'' (kv_Key v) = Split CHR ''/'' rest"
    using ok(2) by (simp add: FieldsFunc_def key filter_id_conv)
  then show "length (kv_ID v) = 64" "hd (key_parts (kv_Key v)) = kv_ID v"
    using root ne valid by (auto simp: validateRootKey_def getRootKey_def parts split: list.splits if_splits)
qed

text \<open>
  C3: whatever messages reach a node, with whatever timeouts and choices of its selects, and whatever it
  requests itself, every value it stores is signed by the identity that the key opens with, under a key of
  one to five parts of letters and digits.
\<close>

theorem stored_values_signed:
  assumes "node_run env me k" "decodes_arrays env" "id_ok (ct_ID me)" "store_values (st_kvs (k_states k)) ps = Some v"
  shows "RecoverID env (GenerateHash env (kv_Value v)) (kv_Sig v) = Inr (kv_ID v) \<and> length (kv_ID v) = 64 \<and>
    ps = key_parts (kv_Key v) \<and> (\<exists>rest. ps = kv_ID v # rest \<and> length rest \<le> 4) \<and> (\<forall>p \<in> set ps. \<forall>x \<in> set p. alnum x)"
proof -
  have "ValidateKV env v = None" and ps: "ps = key_parts (kv_Key v)"
    using node_run_ok[OF assms(1-3)] assms(4) by (auto simp: states_ok_def)
  note key = validated_key[OF this(1)]
  have "ps = kv_ID v # tl ps \<and> length (tl ps) \<le> 4" using key(3-5) by (cases ps) (simp_all add: ps)
  then show ?thesis using key(1,2,6) ps unfolding kv_signed_def by blast
qed


section \<open>What a message can do\<close>

text \<open>The failures of the JSON package and of the messenger are errors.\<close>

definition env_errors :: "dht_env \<Rightarrow> bool" where
  "env_errors env \<longleftrightarrow>
     (\<forall>p e. (ConvertJSONToPingReq env p = Inl e \<or> ConvertJSONToFindContactsReq env p = Inl e \<or>
        ConvertJSONToPutReq env p = Inl e \<or> ConvertJSONToGetReq env p = Inl e) \<longrightarrow> is_error e) \<and>
     (\<forall>r e. PingResp_ToJSON env r = Inl e \<longrightarrow> is_error e) \<and> (\<forall>r e. FindContactsResp_ToJSON env r = Inl e \<longrightarrow> is_error e) \<and>
     (\<forall>r e. PutResp_ToJSON env r = Inl e \<longrightarrow> is_error e) \<and> (\<forall>r e. GetResp_ToJSON env r = Inl e \<longrightarrow> is_error e) \<and>
     (\<forall>m e. messenger_Send env m = Some e \<longrightarrow> is_error e)"

text \<open>Operations whose failures are errors.\<close>

definition only_errors :: "('s, 'a) op \<Rightarrow> bool" where
  "only_errors m \<longleftrightarrow> (\<forall>s e. fst (m s) = Inl e \<longrightarrow> is_error e)"

lemma only_errors_basic [simp]: "only_errors (retM x)" "only_errors (getM f)" "only_errors (modifyM g)" "only_errors (throwM (Err t))"
  by (simp_all add: only_errors_def retM_def getM_def modifyM_def throwM_def)

lemma only_errors_bindM [intro]: "only_errors m \<Longrightarrow> (\<And>x. only_errors (f x)) \<Longrightarrow> only_errors (bindM m f)"
  unfolding only_errors_def bindM_def by (auto split: prod.splits sum.splits) (metis fst_conv)+

lemma only_errors_liftE: "(\<And>e. r = Inl e \<Longrightarrow> is_error e) \<Longrightarrow> only_errors (liftE r)"
  by (simp add: only_errors_def liftE_def)

lemma ignoreM_fails: "fst (ignoreM m s) = Inl e \<longleftrightarrow> fst (m s) = Inl e \<and> \<not> is_error e"
  by (auto simp: ignoreM_def tryM_def bindM_def retM_def split: prod.splits sum.splits if_splits)

lemma only_errors_ignored: "only_errors m \<Longrightarrow> fst (ignoreM m s) \<noteq> Inl Panic"
  unfolding ignoreM_fails only_errors_def by blast

lemma no_panic: "only_errors m \<Longrightarrow> fst (m s) \<noteq> Inl Panic"
  unfolding only_errors_def using is_error.simps(3) by blast

lemma ValidateKV_error: "ValidateKV env x = Some e \<Longrightarrow> is_error e"
  by (auto simp: ValidateKV_def validateValue_def validateRootKey_def getRootKey_def split: option.splits sum.splits if_splits list.splits)

lemma only_errors_check: "(\<And>e. p = Some e \<Longrightarrow> is_error e) \<Longrightarrow> only_errors (case p of None \<Rightarrow> retM () | Some e \<Rightarrow> throwM e)"
  by (cases p) (simp_all add: only_errors_def throwM_def retM_def)

lemma kad_addContact_only_errors [simp]: "only_errors (kad_addContact env w c)"
  unfolding kad_addContact_def by (rule only_errors_bindM) (auto simp: only_errors_def queue_job_def)

lemma reply_only_errors: "env_errors env \<Longrightarrow> only_errors (peer_reply env msg t json)"
  unfolding peer_reply_def sendReply_def kad_send_def thenM_def
  by (intro only_errors_bindM) (auto simp: env_errors_def only_errors_def retM_def throwM_def getM_def modifyM_def split: option.splits)

lemma decoded_fails:
  assumes "\<And>e. r = Inl e \<Longrightarrow> is_error e" "\<And>x. only_errors (f x)"
  shows "fst (ignoreM (bindM (liftE r) (\<lambda>p. bindM (derefM p) f)) s) = Inl Panic \<longleftrightarrow> r = Inr None"
proof (cases r)
  case (Inl e)
  then show ?thesis using assms(1)[OF Inl] by (auto simp: ignoreM_fails bindM_def liftE_def)
next
  case (Inr p)
  then show ?thesis using no_panic[OF assms(2)]
    by (cases p) (simp_all add: ignoreM_fails bindM_def liftE_def derefM_def throwM_def retM_def)
qed

lemma queue_job_only_errors:
  assumes "\<And>s e. fst (serve_job env j s) = Inl e \<Longrightarrow> is_error e"
  shows "only_errors (queue_job env j w)"
  using assms by (auto simp: only_errors_def queue_job_def split: prod.splits sum.splits) (metis fst_conv)

lemma put_get_only_errors [simp]: "only_errors (queue_job env (PUT i key val sig) w)" "only_errors (queue_job env (GET key) w)"
  by (rule queue_job_only_errors, simp split: sum.splits)+

lemma handlers_panic:
  assumes "env_errors env"
  shows "fst (ignoreM (handlePingReq env w msg) s) = Inl Panic \<longleftrightarrow> ConvertJSONToPingReq env (msg_Payload msg) = Inr None"
    "fst (ignoreM (handlePutReq env w v msg) s) = Inl Panic \<longleftrightarrow> ConvertJSONToPutReq env (msg_Payload msg) = Inr None"
    "fst (ignoreM (handleGetReq env w v msg) s) = Inl Panic \<longleftrightarrow> ConvertJSONToGetReq env (msg_Payload msg) = Inr None"
proof -
  note rules = only_errors_bindM only_errors_liftE reply_only_errors[OF assms] only_errors_basic kad_addContact_only_errors put_get_only_errors
  show "fst (ignoreM (handlePingReq env w msg) s) = Inl Panic \<longleftrightarrow> ConvertJSONToPingReq env (msg_Payload msg) = Inr None"
    unfolding handlePingReq_def using assms by (intro decoded_fails rules) (auto simp: env_errors_def)
  show "fst (ignoreM (handlePutReq env w v msg) s) = Inl Panic \<longleftrightarrow> ConvertJSONToPutReq env (msg_Payload msg) = Inr None"
    unfolding handlePutReq_def Let_def thenM_def using assms
    by (intro decoded_fails rules) (auto simp: env_errors_def intro!: rules only_errors_check split: sel.splits dest: ValidateKV_error)
  show "fst (ignoreM (handleGetReq env w v msg) s) = Inl Panic \<longleftrightarrow> ConvertJSONToGetReq env (msg_Payload msg) = Inr None"
    unfolding handleGetReq_def using assms
    by (intro decoded_fails rules) (auto simp: env_errors_def intro!: rules split: sel.splits)
qed

lemma kad_addContact_result:
  assumes "\<not> st_stopped (k_states k)" "w \<noteq> Timeout"
  shows "kad_addContact env w c k = (Inr None, k\<lparr>k_states := (k_states k)\<lparr>st_rt := rt_addContact c (st_rt (k_states k))\<rparr>\<rparr>)"
  using assms by (cases w) (simp_all add: kad_addContact_def queue_job_def bindM_def retM_def recv_closed_def)

lemma findClosestContacts_panics: "findClosestContacts srt t n rt = Inl e \<longleftrightarrow> n < 0 \<and> e = Panic"
  "findClosestContacts srt t n rt = Inr cs \<Longrightarrow> 0 \<le> n"
  by (auto simp: findClosestContacts_def Let_def split: if_splits)

lemma find_job_fails:
  assumes "\<not> st_stopped (k_states k)"
  shows "fst (queue_job env (FIND_CONTACTS i n) v k) = Inl e \<longleftrightarrow> e = Panic \<and> (length (hex_decode i) < IDLength \<or> n < 0)"
  using assms by (auto simp: queue_job_def CreateKademliaID_def Let_def findClosestContacts_panics(1) split: sum.splits if_splits dest: findClosestContacts_panics(2))

lemma handleFindContactsReq_panics:
  assumes "env_errors env" "\<not> st_stopped (k_states k)" "w \<noteq> Timeout"
    "ConvertJSONToFindContactsReq env (msg_Payload msg) = Inr (Some r)"
  shows "fst (ignoreM (handleFindContactsReq env w v msg) k) = Inl Panic \<longleftrightarrow>
    length (hex_decode (findq_KademliaID r)) < IDLength \<or> findq_Count r < 0"
proof -
  let ?n = "if findq_Count r > dht_MAX_COUNT then dht_MAX_COUNT else findq_Count r"
  have n: "?n < 0 \<longleftrightarrow> findq_Count r < 0" by (simp add: dht_MAX_COUNT_def)
  define k1 where "k1 = snd (kad_addContact env w (hdr_Sender (findq_Header r)) k)"
  have k1: "kad_addContact env w (hdr_Sender (findq_Header r)) k = (Inr None, k1)" "\<not> st_stopped (k_states k1)"
    using kad_addContact_result[OF assms(2,3)] assms(2) by (simp_all add: k1_def)
  define rest where "rest = (\<lambda>(cs :: job_chans, v).
     bindM (case v of
            Timeout \<Rightarrow> throwM (Err ''Failed to find closest contacts'')
          | ErrCase \<Rightarrow> retM (recv_closed None (errChan cs), [])
          | ResultCase \<Rightarrow> retM (None, recv_closed [] (contactsChan cs))) (\<lambda>(err, contacts).
     bindM (getM k_Contact) (\<lambda>me.
     bindM (liftE (FindContactsResp_ToJSON env
       \<lparr>findr_Header = \<lparr>hdr_Sender = me\<rparr>, findr_Contacts = contacts,
        findr_Status = status_of err, findr_Error = errMsg_of err\<rparr>)) (\<lambda>json.
     peer_reply env msg MSG_FIND_CONTACTS_RESP json))))"
  have rest: "only_errors (rest x)" for x
    using assms(1) unfolding rest_def
    by (auto simp: env_errors_def split: prod.splits sel.splits intro!: only_errors_bindM only_errors_liftE reply_only_errors[OF assms(1)])
  have "handleFindContactsReq env w v msg k = bindM (queue_job env (FIND_CONTACTS (findq_KademliaID r) ?n) v) rest k1"
    unfolding handleFindContactsReq_def rest_def using assms(4) k1(1)
    by (simp add: bindM_def liftE_def derefM_def retM_def split: prod.splits sum.splits)
  moreover have "fst (bindM (queue_job env (FIND_CONTACTS (findq_KademliaID r) ?n) v) rest k1) = Inl Panic \<longleftrightarrow>
      fst (queue_job env (FIND_CONTACTS (findq_KademliaID r) ?n) v k1) = Inl Panic"
    using no_panic[OF rest] by (auto simp: bindM_def split: prod.splits sum.splits)
  ultimately show ?thesis using find_job_fails[OF k1(2)] n by (simp add: ignoreM_fails)
qed

text \<open>
  C33: a node that is not blocked, whose worker runs and takes the sender into its table in time, and whose JSON package
  and messenger fail with errors only, ends in a panic at a message exactly if it is a request and the payload is the JSON
  document \<open>null\<close>, or it asks for contacts near an identifier with less than 32 bytes in hexadecimal or for a negative
  number of them.
\<close>

theorem request_panics:
  assumes "env_errors env" "\<not> k_blocked k" "\<not> st_stopped (k_states k)" "w \<noteq> Timeout"
  shows "fst (serve_message env w v msg k) = Inl Panic \<longleftrightarrow>
    (case msg_Type msg of
       MSG_PING_REQ \<Rightarrow> ConvertJSONToPingReq env (msg_Payload msg) = Inr None
     | MSG_PUT_REQ \<Rightarrow> ConvertJSONToPutReq env (msg_Payload msg) = Inr None
     | MSG_GET_REQ \<Rightarrow> ConvertJSONToGetReq env (msg_Payload msg) = Inr None
     | MSG_FIND_CONTACTS_REQ \<Rightarrow>
         (case ConvertJSONToFindContactsReq env (msg_Payload msg) of
            Inl _ \<Rightarrow> False
          | Inr None \<Rightarrow> True
          | Inr (Some r) \<Rightarrow> length (hex_decode (findq_KademliaID r)) < IDLength \<or> findq_Count r < 0)
     | _ \<Rightarrow> False)"
proof -
  have find: "fst (ignoreM (handleFindContactsReq env w v msg) k) = Inl Panic \<longleftrightarrow>
      (case ConvertJSONToFindContactsReq env (msg_Payload msg) of
            Inl _ \<Rightarrow> False
          | Inr None \<Rightarrow> True
          | Inr (Some r) \<Rightarrow> length (hex_decode (findq_KademliaID r)) < IDLength \<or> findq_Count r < 0)"
  proof (cases "ConvertJSONToFindContactsReq env (msg_Payload msg)")
    case (Inl e)
    then have "is_error e" using assms(1) by (auto simp: env_errors_def)
    then show ?thesis using Inl by (auto simp: ignoreM_fails handleFindContactsReq_def bindM_def liftE_def)
  next
    case (Inr p)
    then show ?thesis using handleFindContactsReq_panics[OF assms(1,3,4), of msg]
      by (cases p) (simp_all add: ignoreM_fails handleFindContactsReq_def bindM_def liftE_def derefM_def throwM_def)
  qed
  have "fst (handleResponse msg k) \<noteq> Inl Panic" by (simp add: handleResponse_def split: option.splits)
  then show ?thesis using assms(2) handlers_panic[OF assms(1)] find
    by (simp add: serve_message_def split: msg_type.splits)
qed

lemma getAll_values:
  assumes "store_ok s"
  shows "getAllValuesWithPrefix key s = Inr vs \<Longrightarrow> set vs = {v. \<exists>qs. store_values s (key_parts key @ qs) = Some v}"
    "getAllValuesWithPrefix key s = Inl e \<Longrightarrow> store_values s (key_parts key @ qs) = None"
  using assms kvs.under_values[of "store_root s" "key_parts key"]
  by (auto simp: getAllValuesWithPrefix_def store_ok_def store_values_def values_under_def find_node_None split: option.splits)

text \<open>The answers of a node that is up, and its store afterwards.\<close>

lemma get_answer:
  assumes "\<not> k_blocked k" "\<not> st_stopped (k_states k)" "store_ok (st_kvs (k_states k))" "w \<noteq> Timeout" "v \<noteq> Timeout"
    "msg_Type msg = MSG_GET_REQ" "ConvertJSONToGetReq env (msg_Payload msg) = Inr (Some r)" "\<And>x. GetResp_ToJSON env x = Inr (enc x)"
  shows "\<exists>resp. k_sent (snd (serve_message env w v msg k)) = k_sent k @
      [\<lparr>msg_ID = msg_ID msg, msg_From = ct_Node (k_Contact k), msg_To = msg_From msg, msg_Type = MSG_GET_RESP, msg_Payload = enc resp\<rparr>] \<and>
    (let found = {x. \<exists>qs. store_values (st_kvs (k_states k)) (key_parts (getq_Key r) @ qs) = Some x} in
     if v = ResultCase then getr_Status resp = STATUS_SUCCESS \<and> set (getr_KVS resp) = found
     else getr_KVS resp = [] \<and> (found \<noteq> {} \<longrightarrow> getr_Status resp = STATUS_SUCCESS))"
proof -
  define s where "s = st_kvs (k_states k)"
  define k1 where "k1 = snd (kad_addContact env w (hdr_Sender (getq_Header r)) k)"
  have k1: "kad_addContact env w (hdr_Sender (getq_Header r)) k = (Inr None, k1)" "\<not> st_stopped (k_states k1)"
    "st_kvs (k_states k1) = s" "k_sent k1 = k_sent k" "k_Contact k1 = k_Contact k"
    using kad_addContact_result[OF assms(2,4)] assms(2) by (simp_all add: k1_def s_def)
  define resp where "resp = \<lparr>getr_Header = \<lparr>hdr_Sender = k_Contact k\<rparr>,
    getr_KVS = (if v = ResultCase then (case getAllValuesWithPrefix (getq_Key r) s of Inl _ \<Rightarrow> [] | Inr vs \<Rightarrow> vs) else []),
    getr_Status = (if v = ResultCase then STATUS_SUCCESS
      else case getAllValuesWithPrefix (getq_Key r) s of Inl _ \<Rightarrow> STATUS_ERROR | Inr vs \<Rightarrow> STATUS_SUCCESS),
    getr_Error = (if v = ResultCase then [] else case getAllValuesWithPrefix (getq_Key r) s of Inl e \<Rightarrow> Error_text e | Inr vs \<Rightarrow> [])\<rparr>"
  have sent: "k_sent (snd (peer_reply env msg t p kk)) = k_sent kk @
      [\<lparr>msg_ID = msg_ID msg, msg_From = ct_Node (k_Contact kk), msg_To = msg_From msg, msg_Type = t, msg_Payload = p\<rparr>]" for t p kk
    by (simp add: peer_reply_def sendReply_def kad_send_def thenM_def bindM_def getM_def modifyM_def retM_def throwM_def split: option.splits)
  have ign: "snd (ignoreM m kk) = snd (m kk)" for m :: "(Kademlia, unit) op" and kk
    by (simp add: ignoreM_def tryM_def bindM_def retM_def split: prod.splits sum.splits)
  have "snd (handleGetReq env w v msg k) = snd (peer_reply env msg MSG_GET_RESP (enc resp) k1)"
    unfolding handleGetReq_def resp_def using assms(5,7,8) k1
    by (cases v) (auto simp: bindM_def liftE_def derefM_def retM_def getM_def queue_job_def recv_closed_def no_chans_def
      status_of_def errMsg_of_def split: sum.splits)
  then have "k_sent (snd (serve_message env w v msg k)) = k_sent k @
      [\<lparr>msg_ID = msg_ID msg, msg_From = ct_Node (k_Contact k), msg_To = msg_From msg, msg_Type = MSG_GET_RESP, msg_Payload = enc resp\<rparr>]"
    using assms(1,6) by (simp add: serve_message_def ign sent k1)
  moreover have "let found = {x. \<exists>qs. store_values s (key_parts (getq_Key r) @ qs) = Some x} in
     if v = ResultCase then getr_Status resp = STATUS_SUCCESS \<and> set (getr_KVS resp) = found
     else getr_KVS resp = [] \<and> (found \<noteq> {} \<longrightarrow> getr_Status resp = STATUS_SUCCESS)"
    using assms(3) getAll_values[of s "getq_Key r"] by (auto simp: resp_def s_def split: sum.splits)
  ultimately show ?thesis unfolding s_def by blast
qed

text \<open>
  A node answers a request for the values under a key with exactly the stored values of all keys that
  extend it, or, when the \<open>select\<close> takes the error channel that was closed after the result was sent, with
  success and no values at all.
\<close>

theorem get_request_answer:
  assumes "\<not> k_blocked k" "\<not> st_stopped (k_states k)" "store_ok (st_kvs (k_states k))" "w \<noteq> Timeout" "v \<noteq> Timeout"
    "msg_Type msg = MSG_GET_REQ" "ConvertJSONToGetReq env (msg_Payload msg) = Inr (Some r)" "\<And>x. GetResp_ToJSON env x = Inr (enc x)"
  shows "\<exists>resp. k_sent (snd (serve_message env w v msg k)) = k_sent k @
      [\<lparr>msg_ID = msg_ID msg, msg_From = ct_Node (k_Contact k), msg_To = msg_From msg, msg_Type = MSG_GET_RESP, msg_Payload = enc resp\<rparr>] \<and>
    (let found = {x. \<exists>qs. store_values (st_kvs (k_states k)) (key_parts (getq_Key r) @ qs) = Some x} in
     if v = ResultCase then getr_Status resp = STATUS_SUCCESS \<and> set (getr_KVS resp) = found
     else getr_KVS resp = [] \<and> (found \<noteq> {} \<longrightarrow> getr_Status resp = STATUS_SUCCESS))"
  by (rule get_answer[OF assms])

section \<open>A run of a node\<close>

text \<open>
  The node 0 is sent values by the node 5, in the name of the identity \<open>demo_ident\<close>, whose signature is taken to
  be its own name; the payload \<open>null\<close> decodes to a nil pointer.
\<close>

definition demo_ident :: string where
  "demo_ident = replicate 64 CHR ''a''"

definition demo_header :: RPCHeader where
  "demo_header = \<lparr>hdr_Sender = demo_contact 5\<rparr>"

definition demo_decoded :: "'a \<Rightarrow> string \<Rightarrow> failure + 'a option" where
  "demo_decoded r p = (if p = ''null'' then Inr None else Inr (Some r))"

definition demo_dht_env :: dht_env where
  "demo_dht_env = \<lparr>GenerateHash = id, RecoverID = (\<lambda>h sig. Inr sig),
     ConvertJSONToPingReq = demo_decoded \<lparr>pingq_Header = demo_header\<rparr>,
     ConvertJSONToFindContactsReq = (\<lambda>p. demo_decoded \<lparr>findq_Header = demo_header, findq_KademliaID = p, findq_Count = 1\<rparr> p),
     ConvertJSONToPutReq = (\<lambda>p. demo_decoded \<lparr>putq_Header = demo_header,
       putq_KV = \<lparr>kv_ID = demo_ident, kv_Key = ''/'' @ demo_ident @ ''/k'', kv_Value = p, kv_Sig = demo_ident\<rparr>\<rparr> p),
     ConvertJSONToGetReq = (\<lambda>p. demo_decoded \<lparr>getq_Header = demo_header, getq_Key = p\<rparr> p),
     PingResp_ToJSON = (\<lambda>_. Inr ''{}''), FindContactsResp_ToJSON = (\<lambda>_. Inr ''{}''),
     PutResp_ToJSON = (\<lambda>_. Inr ''{}''), GetResp_ToJSON = (\<lambda>_. Inr ''{}''), messenger_Send = (\<lambda>_. None), contact_sort = distance_sort\<rparr>"

definition demo_message :: "msg_type \<Rightarrow> string \<Rightarrow> Message" where
  "demo_message t p = \<lparr>msg_ID = ''7'', msg_From = ct_Node (demo_contact 5), msg_To = ct_Node (demo_contact 0), msg_Type = t, msg_Payload = p\<rparr>"

definition demo_kademlia :: Kademlia where
  "demo_kademlia = snd (serve_message demo_dht_env ErrCase ErrCase (demo_message MSG_PUT_REQ ''1'') (CreateKademlia (demo_contact 0)))"

lemma demo_dht_env_ok: "decodes_arrays demo_dht_env" "env_errors demo_dht_env"
  by (simp_all add: decodes_arrays_def env_errors_def demo_dht_env_def demo_decoded_def demo_header_def)

lemma demo_kademlia_stores:
  "store_values (st_kvs (k_states demo_kademlia)) [demo_ident, ''k''] =
     Some \<lparr>kv_ID = demo_ident, kv_Key = ''/'' @ demo_ident @ ''/k'', kv_Value = ''1'', kv_Sig = demo_ident\<rparr>"
  by code_simp

theorem stored_values_signed_witness:
  "length demo_ident = 64 \<and> key_parts (''/'' @ demo_ident @ ''/k'') = [demo_ident, ''k''] \<and>
   RecoverID demo_dht_env (GenerateHash demo_dht_env ''1'') demo_ident = Inr demo_ident"
proof -
  have "node_run demo_dht_env (demo_contact 0) demo_kademlia"
    unfolding demo_kademlia_def by (intro node_run.served node_run.created)
  from stored_values_signed[OF this demo_dht_env_ok(1) demo_contact_ok(1) demo_kademlia_stores] show ?thesis by simp
qed

theorem request_panics_witness:
  "fst (serve_message demo_dht_env ErrCase ResultCase (demo_message MSG_FIND_CONTACTS_REQ ''0a'') (CreateKademlia (demo_contact 0))) = Inl Panic \<and>
   fst (serve_message demo_dht_env ErrCase ResultCase (demo_message MSG_FIND_CONTACTS_REQ (replicate 64 CHR ''0'')) (CreateKademlia (demo_contact 0))) \<noteq> Inl Panic"
proof -
  have start: "\<not> k_blocked (CreateKademlia (demo_contact 0))" "\<not> st_stopped (k_states (CreateKademlia (demo_contact 0)))"
    by (simp_all add: CreateKademlia_def createStates_def)
  have ids: "length (hex_decode ''0a'') < IDLength" "\<not> length (hex_decode (replicate 64 CHR ''0'')) < IDLength" by code_simp+
  have dec: "ConvertJSONToFindContactsReq demo_dht_env p = Inr (Some \<lparr>findq_Header = demo_header, findq_KademliaID = p, findq_Count = 1\<rparr>)"
    if "hd p = CHR ''0''" for p using that by (auto simp: demo_dht_env_def demo_decoded_def)
  show ?thesis
    using request_panics[OF demo_dht_env_ok(2) start, of ErrCase ResultCase "demo_message MSG_FIND_CONTACTS_REQ ''0a''"]
      request_panics[OF demo_dht_env_ok(2) start, of ErrCase ResultCase "demo_message MSG_FIND_CONTACTS_REQ (replicate 64 CHR ''0'')"]
      ids dec[of "''0a''"] dec[of "replicate 64 CHR ''0''"]
    by (simp add: demo_message_def)
qed


theorem get_request_answer_witness:
  "\<exists>resp :: GetResp. map msg_Payload (k_sent (snd (serve_message (demo_dht_env\<lparr>GetResp_ToJSON := \<lambda>r. Inr (concat (map kv_Value (getr_KVS r)))\<rparr>)
     ErrCase ResultCase (demo_message MSG_GET_REQ (''/'' @ demo_ident)) demo_kademlia))) = [''{}'', concat (map kv_Value (getr_KVS resp))] \<and>
     getr_Status resp = STATUS_SUCCESS \<and> getr_KVS resp \<noteq> []"
proof -
  let ?env = "demo_dht_env\<lparr>GetResp_ToJSON := \<lambda>r. Inr (concat (map kv_Value (getr_KVS r)))\<rparr>"
  have run: "node_run demo_dht_env (demo_contact 0) demo_kademlia"
    unfolding demo_kademlia_def by (intro node_run.served node_run.created)
  have ok: "store_ok (st_kvs (k_states demo_kademlia))"
    using node_run_ok[OF run demo_dht_env_ok(1) demo_contact_ok(1)] by (simp add: states_ok_def)
  have flags: "\<not> k_blocked demo_kademlia" "\<not> st_stopped (k_states demo_kademlia)" "map msg_Payload (k_sent demo_kademlia) = [''{}'']"
    by code_simp+
  have dec: "ConvertJSONToGetReq ?env (msg_Payload (demo_message MSG_GET_REQ (''/'' @ demo_ident))) =
      Inr (Some \<lparr>getq_Header = demo_header, getq_Key = ''/'' @ demo_ident\<rparr>)"
    by (simp add: demo_dht_env_def demo_decoded_def demo_message_def)
  have parts: "key_parts (CHR ''/'' # demo_ident) = [demo_ident]" by code_simp
  have "\<exists>resp :: GetResp. k_sent (snd (serve_message ?env ErrCase ResultCase (demo_message MSG_GET_REQ (''/'' @ demo_ident)) demo_kademlia)) =
      k_sent demo_kademlia @ [\<lparr>msg_ID = ''7'', msg_From = ct_Node (k_Contact demo_kademlia), msg_To = ct_Node (demo_contact 5),
        msg_Type = MSG_GET_RESP, msg_Payload = concat (map kv_Value (getr_KVS resp))\<rparr>] \<and> getr_Status resp = STATUS_SUCCESS \<and>
    set (getr_KVS resp) = {x. \<exists>qs. store_values (st_kvs (k_states demo_kademlia)) ([demo_ident] @ qs) = Some x}"
    using get_request_answer[OF flags(1,2) ok _ _ _ dec, of ErrCase ResultCase "\<lambda>r. concat (map kv_Value (getr_KVS r))"]
    by (simp add: parts demo_message_def Let_def)
  then obtain resp :: GetResp where resp: "k_sent (snd (serve_message ?env ErrCase ResultCase (demo_message MSG_GET_REQ (''/'' @ demo_ident)) demo_kademlia)) =
      k_sent demo_kademlia @ [\<lparr>msg_ID = ''7'', msg_From = ct_Node (k_Contact demo_kademlia), msg_To = ct_Node (demo_contact 5),
        msg_Type = MSG_GET_RESP, msg_Payload = concat (map kv_Value (getr_KVS resp))\<rparr>]" "getr_Status resp = STATUS_SUCCESS"
    "set (getr_KVS resp) = {x. \<exists>qs. store_values (st_kvs (k_states demo_kademlia)) ([demo_ident] @ qs) = Some x}"
    by blast
  have "map msg_Payload (k_sent (snd (serve_message ?env ErrCase ResultCase (demo_message MSG_GET_REQ (''/'' @ demo_ident)) demo_kademlia))) =
      [''{}'', concat (map kv_Value (getr_KVS resp))]"
    unfolding resp(1) by (simp add: flags(3))
  moreover note resp(2,3)
  moreover have "\<lparr>kv_ID = demo_ident, kv_Key = ''/'' @ demo_ident @ ''/k'', kv_Value = ''1'', kv_Sig = demo_ident\<rparr> \<in>
      {x. \<exists>qs. store_values (st_kvs (k_states demo_kademlia)) ([demo_ident] @ qs) = Some x}"
    using demo_kademlia_stores by (auto intro!: exI[of _ "[''k'']"])
  ultimately show ?thesis by (metis empty_iff empty_set)
qed

end
