(* ===== verification/Text_Codec.thy ===== *)
theory Text_Codec
  imports Main
begin

text \<open>
  A text made of fields, each with its length in front, and back: a stand-in for JSON where a concrete codec is needed to
  show that what is assumed of JSON can hold.
\<close>

fun enc_texts :: "string list \<Rightarrow> string" where
  "enc_texts [] = []"
| "enc_texts (t # ts) = replicate (length t) CHR ''1'' @ CHR ''0'' # t @ enc_texts ts"

function dec_texts :: "string \<Rightarrow> string list" where
  "dec_texts p =
     (if p = [] then []
      else let n = length (takeWhile (\<lambda>c. c = CHR ''1'') p); rest = drop (Suc n) p in take n rest # dec_texts (drop n rest))"
  by pat_completeness auto
termination
  by (relation "measure length") (auto simp: Let_def)

declare dec_texts.simps [simp del]

lemma dec_enc_append: "dec_texts (enc_texts ts @ p) = ts @ dec_texts p"
proof (induction ts)
  case (Cons t ts)
  let ?p = "replicate (length t) CHR ''1'' @ CHR ''0'' # t @ enc_texts ts @ p"
  have "takeWhile (\<lambda>c. c = CHR ''1'') ?p = replicate (length t) CHR ''1''"
    by (subst takeWhile_append2) auto
  then show ?case using Cons by (subst dec_texts.simps) (simp add: Let_def)
qed simp

lemma dec_texts_Nil [simp]: "dec_texts [] = []"
  by (simp add: dec_texts.simps)

lemma dec_enc [simp]: "dec_texts (enc_texts ts) = ts"
  using dec_enc_append[of ts "[]"] by simp

lemma dec_enc_two [simp]: "dec_texts (enc_texts ts @ enc_texts us) = ts @ us"
  by (simp add: dec_enc_append)

lemma enc_texts_nonempty: "ts \<noteq> [] \<Longrightarrow> enc_texts ts \<noteq> []"
  by (cases ts) simp_all

declare enc_texts.simps [simp del]

definition int_text :: "int \<Rightarrow> string" where
  "int_text x = (if x < 0 then CHR ''-'' else CHR ''+'') # replicate (nat \<bar>x\<bar>) CHR ''1''"

definition text_int :: "string \<Rightarrow> int" where
  "text_int t = (if hd t = CHR ''-'' then - int (length (tl t)) else int (length (tl t)))"

lemma text_int_text [simp]: "text_int (int_text x) = x"
  by (simp add: text_int_def int_text_def)

definition bool_text :: "bool \<Rightarrow> string" where
  "bool_text b = (if b then ''true'' else ''false'')"

lemma bool_text_true [simp]: "bool_text b = ''true'' \<longleftrightarrow> b"
  by (simp add: bool_text_def)

end
