(* ===== verification/Dht_Client.thy ===== *)
theory Dht_Client
  imports Dht_Facts Text_Codec
begin

text \<open>
  The operations of a node on other nodes (\<open>src/pkg/p2p/dht/operations.go\<close>). A request goes out through \<open>call\<close>, which
  gives the reply, or nothing when the context is done first; the search for contacts is an argument too, with the
  machine of \<open>Dht_Lookup\<close> as what it does.
\<close>

section \<open>Requests\<close>

record client_env = dht_env +
  GenerateSignature :: "string \<Rightarrow> string \<Rightarrow> failure + string"
  PingReq_ToJSON :: "PingReq \<Rightarrow> failure + string"
  FindContactsReq_ToJSON :: "FindContactsReq \<Rightarrow> failure + string"
  PutReq_ToJSON :: "PutReq \<Rightarrow> failure + string"
  GetReq_ToJSON :: "GetReq \<Rightarrow> failure + string"
  ConvertJSONToPingResp :: "string \<Rightarrow> failure + PingResp option"
  ConvertJSONToFindContactsResp :: "string \<Rightarrow> failure + FindContactsResp option"
  ConvertJSONToPutResp :: "string \<Rightarrow> failure + PutResp option"
  ConvertJSONToGetResp :: "string \<Rightarrow> failure + GetResp option"
  Node_ToJSON :: "p2p_Node \<Rightarrow> failure + string"
  ConvertJSONToNode :: "string \<Rightarrow> failure + p2p_Node"

definition RegistrationReplicationFactor :: int where "RegistrationReplicationFactor = 10"

definition peer_request :: "Contact \<Rightarrow> msg_type \<Rightarrow> p2p_Node \<Rightarrow> string \<Rightarrow> Message" where
  "peer_request me t node json = \<lparr>msg_ID = [], msg_From = ct_Node me, msg_To = node, msg_Type = t, msg_Payload = json\<rparr>"

text \<open>A ping adds the contact of the answer to the own table; a timeout is no error.\<close>

definition ping ::
  "client_env \<Rightarrow> (Message \<Rightarrow> ('s, Message option) op) \<Rightarrow> (Contact \<Rightarrow> ('s, unit) op) \<Rightarrow> Contact \<Rightarrow> p2p_Node \<Rightarrow> ('s, unit) op" where
  "ping env call add me node =
     bindM (liftE (PingReq_ToJSON env \<lparr>pingq_Header = \<lparr>hdr_Sender = me\<rparr>\<rparr>)) (\<lambda>json.
     bindM (call (peer_request me MSG_PING_REQ node json)) (\<lambda>r.
     case r of
       None \<Rightarrow> retM ()
     | Some msg \<Rightarrow>
         bindM (liftE (ConvertJSONToPingResp env (msg_Payload msg))) (\<lambda>p.
         bindM (derefM p) (\<lambda>rpc. add (hdr_Sender (pingr_Header rpc))))))"

definition findRemoteContacts ::
  "client_env \<Rightarrow> (Message \<Rightarrow> ('s, Message option) op) \<Rightarrow> Contact \<Rightarrow> p2p_Node \<Rightarrow> string \<Rightarrow> int \<Rightarrow> ('s, Contact list) op" where
  "findRemoteContacts env call me node kademliaID cnt =
     bindM (liftE (FindContactsReq_ToJSON env \<lparr>findq_Header = \<lparr>hdr_Sender = me\<rparr>, findq_KademliaID = kademliaID, findq_Count = cnt\<rparr>)) (\<lambda>json.
     bindM (call (peer_request me MSG_FIND_CONTACTS_REQ node json)) (\<lambda>r.
     case r of
       None \<Rightarrow> throwM (Err ''Find remote contacts timeout'')
     | Some msg \<Rightarrow>
         bindM (liftE (ConvertJSONToFindContactsResp env (msg_Payload msg))) (\<lambda>p.
         bindM (derefM p) (\<lambda>resp. retM (findr_Contacts resp)))))"

text \<open>The same choice of the \<open>select\<close> as in the handlers: the closed error channel gives no contacts and no error.\<close>

definition findLocalContacts :: "dht_env \<Rightarrow> sel \<Rightarrow> string \<Rightarrow> int \<Rightarrow> (Kademlia, Contact list) op" where
  "findLocalContacts env v kademliaID cnt =
     bindM (queue_job env (FIND_CONTACTS kademliaID cnt) v) (\<lambda>(cs, v).
     case v of
       Timeout \<Rightarrow> throwM (Err ''Find local closest contacts timeout'')
     | ErrCase \<Rightarrow> (case recv_closed None (errChan cs) of None \<Rightarrow> retM [] | Some e \<Rightarrow> throwM e)
     | ResultCase \<Rightarrow> retM (recv_closed [] (contactsChan cs)))"

text \<open>The last contact with an identifier wins.\<close>

definition FindContact :: "(string \<Rightarrow> int \<Rightarrow> ('s, Contact list) op) \<Rightarrow> string \<Rightarrow> ('s, Contact) op" where
  "FindContact FindContacts kademliaID =
     bindM (FindContacts kademliaID 1) (\<lambda>contacts.
     case map_of (rev (map (\<lambda>c. (KademliaID_String (ct_ID c), c)) contacts)) kademliaID of
       None \<Rightarrow> throwM (Err ''No contacts found'')
     | Some c \<Rightarrow> retM c)"

definition RegisterNetwork ::
  "(p2p_Node \<Rightarrow> ('s, unit) op) \<Rightarrow> (string \<Rightarrow> int \<Rightarrow> ('s, Contact list) op) \<Rightarrow> p2p_Node \<Rightarrow> string \<Rightarrow> ('s, unit) op" where
  "RegisterNetwork png FindContacts bootstrapNode kademliaID =
     thenM (png bootstrapNode) (thenM (FindContacts kademliaID 20) (retM ()))"

definition RegisterNetworkWithAddr ::
  "(p2p_Node \<Rightarrow> ('s, unit) op) \<Rightarrow> (string \<Rightarrow> int \<Rightarrow> ('s, Contact list) op) \<Rightarrow> string \<Rightarrow> string \<Rightarrow> ('s, unit) op" where
  "RegisterNetworkWithAddr png FindContacts addr kademliaID =
     thenM (png \<lparr>node_Name = ''boostrapnode'', node_Addr = addr\<rparr>) (thenM (FindContacts kademliaID 20) (retM ()))"

section \<open>Values\<close>

definition putRemote ::
  "client_env \<Rightarrow> (Message \<Rightarrow> ('s, Message option) op) \<Rightarrow> Contact \<Rightarrow> p2p_Node \<Rightarrow> string \<Rightarrow> string \<Rightarrow> string \<Rightarrow> string \<Rightarrow> ('s, unit) op" where
  "putRemote env call me node ident prvKey key val =
     bindM (liftE (GenerateSignature env (GenerateHash env val) prvKey)) (\<lambda>sig.
     bindM (liftE (PutReq_ToJSON env \<lparr>putq_Header = \<lparr>hdr_Sender = me\<rparr>,
       putq_KV = \<lparr>kv_ID = ident, kv_Key = ''/'' @ ident @ key, kv_Value = val, kv_Sig = sig\<rparr>\<rparr>)) (\<lambda>json.
     bindM (call (peer_request me MSG_PUT_REQ node json)) (\<lambda>r.
     case r of
       None \<Rightarrow> throwM (Err ''Put request timeout'')
     | Some msg \<Rightarrow>
         bindM (liftE (ConvertJSONToPutResp env (msg_Payload msg))) (\<lambda>p.
         bindM (derefM p) (\<lambda>rpc.
         if putr_Status rpc \<noteq> STATUS_SUCCESS then throwM (Err (putr_Error rpc)) else retM ())))))"

definition getRemote ::
  "client_env \<Rightarrow> (Message \<Rightarrow> ('s, Message option) op) \<Rightarrow> Contact \<Rightarrow> p2p_Node \<Rightarrow> string \<Rightarrow> string \<Rightarrow> ('s, KV list) op" where
  "getRemote env call me node ident key =
     bindM (liftE (GetReq_ToJSON env \<lparr>getq_Header = \<lparr>hdr_Sender = me\<rparr>, getq_Key = ''/'' @ ident @ key\<rparr>)) (\<lambda>json.
     bindM (call (peer_request me MSG_GET_REQ node json)) (\<lambda>r.
     case r of
       None \<Rightarrow> throwM (Err ''Put request timeout'')
     | Some msg \<Rightarrow>
         bindM (liftE (ConvertJSONToGetResp env (msg_Payload msg))) (\<lambda>p.
         bindM (derefM p) (\<lambda>rpc.
         if getr_Status rpc \<noteq> STATUS_SUCCESS then throwM (Err (getr_Error rpc)) else retM (getr_KVS rpc)))))"

definition dht_Put ::
  "client_env \<Rightarrow> (Message \<Rightarrow> ('s, Message option) op) \<Rightarrow> (string \<Rightarrow> int \<Rightarrow> ('s, Contact list) op) \<Rightarrow> Contact \<Rightarrow>
   string \<Rightarrow> string \<Rightarrow> string \<Rightarrow> string \<Rightarrow> int \<Rightarrow> ('s, unit) op" where
  "dht_Put env call FindContacts me ident prvKey key val replicationFactor =
     bindM (FindContacts (GenerateHash env ident) replicationFactor) (\<lambda>contacts.
     if contacts = [] then throwM (Err ''No contacts found'')
     else forM contacts (\<lambda>c. putRemote env call me (ct_Node c) ident prvKey key val))"

text \<open>The values of all answers, one for each text of key and value; an answer that fails is skipped.\<close>

definition collect_answer :: "(string \<times> KV) list \<Rightarrow> failure + KV list \<Rightarrow> (string \<times> KV) list" where
  "collect_answer kvsMap r = (case r of Inl _ \<Rightarrow> kvsMap | Inr kvs \<Rightarrow> fold (\<lambda>v m. AList.update (KV_String v) v m) kvs kvsMap)"

definition get_from ::
  "client_env \<Rightarrow> (Message \<Rightarrow> ('s, Message option) op) \<Rightarrow> Contact \<Rightarrow> string \<Rightarrow> string \<Rightarrow> (string \<times> KV) list \<Rightarrow> Contact \<Rightarrow>
   ('s, (string \<times> KV) list) op" where
  "get_from env call me ident key kvsMap c =
     bindM (tryM (getRemote env call me (ct_Node c) ident key)) (\<lambda>r. retM (collect_answer kvsMap r))"

definition dht_Get ::
  "client_env \<Rightarrow> (Message \<Rightarrow> ('s, Message option) op) \<Rightarrow> (string \<Rightarrow> int \<Rightarrow> ('s, Contact list) op) \<Rightarrow> Contact \<Rightarrow>
   string \<Rightarrow> string \<Rightarrow> int \<Rightarrow> ('s, KV list) op" where
  "dht_Get env call FindContacts me ident key replicationFactor =
     bindM (FindContacts (GenerateHash env ident) replicationFactor) (\<lambda>contacts.
     if contacts = [] then throwM (Err ''No contacts found'')
     else bindM (foldM (get_from env call me ident key) [] contacts)
       (\<lambda>kvsMap. retM (map snd kvsMap)))"

definition RegisterNode ::
  "client_env \<Rightarrow> (Message \<Rightarrow> ('s, Message option) op) \<Rightarrow> (string \<Rightarrow> int \<Rightarrow> ('s, Contact list) op) \<Rightarrow> Contact \<Rightarrow>
   string \<Rightarrow> string \<Rightarrow> p2p_Node \<Rightarrow> ('s, unit) op" where
  "RegisterNode env call FindContacts me ident prvKey node =
     bindM (liftE (Node_ToJSON env node)) (\<lambda>nodeJSON.
     dht_Put env call FindContacts me ident prvKey (''/nodes/'' @ node_Name node) nodeJSON RegistrationReplicationFactor)"

definition LookupNode ::
  "client_env \<Rightarrow> (Message \<Rightarrow> ('s, Message option) op) \<Rightarrow> (string \<Rightarrow> int \<Rightarrow> ('s, Contact list) op) \<Rightarrow> Contact \<Rightarrow>
   string \<Rightarrow> string \<Rightarrow> ('s, p2p_Node) op" where
  "LookupNode env call FindContacts me ident name =
     bindM (dht_Get env call FindContacts me ident (''/nodes/'' @ name) RegistrationReplicationFactor) (\<lambda>kvs.
     case kvs of
       [] \<Rightarrow> throwM (Err ''No nodes found'')
     | [v] \<Rightarrow> liftE (ConvertJSONToNode env (kv_Value v))
     | _ \<Rightarrow> throwM (Err ''Multiple nodes found''))"

section \<open>A network of nodes\<close>

text \<open>
  The messenger between nodes that serve each request in turn: a request goes to the node it names, whose answer is
  the reply. A node that panics is gone. \<open>w\<close> and \<open>v\<close> say for each node which case its \<open>select\<close> on a job takes:
  the first when it adds the sender to its table, the second when it puts or gets.
\<close>

type_synonym dht_net = "p2p_Node \<rightharpoonup> Kademlia"

definition net_call :: "dht_env \<Rightarrow> (p2p_Node \<Rightarrow> sel) \<Rightarrow> (p2p_Node \<Rightarrow> sel) \<Rightarrow> Message \<Rightarrow> (dht_net, Message option) op" where
  "net_call env w v msg net =
     (case net (msg_To msg) of
        None \<Rightarrow> (Inl (Err ''Node is not reachable''), net)
      | Some k \<Rightarrow>
          (case serve_message env (w (msg_To msg)) (v (msg_To msg)) msg k of
             (Inl _, k') \<Rightarrow> (Inr None, net(msg_To msg := None))
           | (Inr _, k') \<Rightarrow>
               (Inr (if length (k_sent k) < length (k_sent k') then Some (k_sent k' ! length (k_sent k)) else None),
                net(msg_To msg \<mapsto> k'))))"

text \<open>
  What the JSON package and the messenger do: what was encoded is decoded again, but for the fields of a contact
  that are not exported, and messages are sent.
\<close>

definition exported :: "RPCHeader \<Rightarrow> RPCHeader" where
  "exported h = \<lparr>hdr_Sender = (hdr_Sender h)\<lparr>ct_prvKey := [], ct_distance := zero_ID\<rparr>\<rparr>"

definition json_ok :: "client_env \<Rightarrow> bool" where
  "json_ok env \<longleftrightarrow>
     (\<forall>x. \<exists>p. PutReq_ToJSON env x = Inr p \<and> ConvertJSONToPutReq env p = Inr (Some (x\<lparr>putq_Header := exported (putq_Header x)\<rparr>))) \<and>
     (\<forall>x. \<exists>p. GetReq_ToJSON env x = Inr p \<and> ConvertJSONToGetReq env p = Inr (Some (x\<lparr>getq_Header := exported (getq_Header x)\<rparr>))) \<and>
     (\<forall>x. \<exists>p. PutResp_ToJSON env x = Inr p \<and> ConvertJSONToPutResp env p = Inr (Some (x\<lparr>putr_Header := exported (putr_Header x)\<rparr>))) \<and>
     (\<forall>x. \<exists>p. GetResp_ToJSON env x = Inr p \<and> ConvertJSONToGetResp env p = Inr (Some (x\<lparr>getr_Header := exported (getr_Header x)\<rparr>))) \<and>
     (\<forall>m. messenger_Send env m = None)"

definition node_up :: "Kademlia \<Rightarrow> bool" where
  "node_up k \<longleftrightarrow> \<not> k_blocked k \<and> \<not> st_stopped (k_states k) \<and> store_ok (st_kvs (k_states k))"

text \<open>The nodes are up and answer in time. Which of the two channels a \<open>select\<close> reads is not said.\<close>

definition net_ok :: "client_env \<Rightarrow> (p2p_Node \<Rightarrow> sel) \<Rightarrow> (p2p_Node \<Rightarrow> sel) \<Rightarrow> p2p_Node set \<Rightarrow> dht_net \<Rightarrow> bool" where
  "net_ok env w v nodes net \<longleftrightarrow>
     json_ok env \<and> (\<forall>n \<in> nodes. w n \<noteq> Timeout \<and> v n \<noteq> Timeout \<and> (\<exists>k. net n = Some k \<and> node_up k))"

definition net_stored :: "dht_net \<Rightarrow> p2p_Node \<Rightarrow> string list \<rightharpoonup> KV" where
  "net_stored net n = (case net n of None \<Rightarrow> Map.empty | Some k \<Rightarrow> store_values (st_kvs (k_states k)))"

lemma truncate_env [simp]:
  "GenerateHash (dht_env.truncate env) = GenerateHash env" "RecoverID (dht_env.truncate env) = RecoverID env"
  "ConvertJSONToPutReq (dht_env.truncate env) = ConvertJSONToPutReq env" "ConvertJSONToGetReq (dht_env.truncate env) = ConvertJSONToGetReq env"
  "PutResp_ToJSON (dht_env.truncate env) = PutResp_ToJSON env" "GetResp_ToJSON (dht_env.truncate env) = GetResp_ToJSON env"
  "messenger_Send (dht_env.truncate env) = messenger_Send env"
  by (simp_all add: dht_env.truncate_def)

text \<open>The state of a node after it has taken the sender into its table and answered.\<close>

definition answered_by :: "Message \<Rightarrow> msg_type \<Rightarrow> string \<Rightarrow> Contact \<Rightarrow> kvStore \<Rightarrow> Kademlia \<Rightarrow> Kademlia" where
  "answered_by msg t p c kvs k =
     k\<lparr>k_states := (k_states k)\<lparr>st_rt := rt_addContact c (st_rt (k_states k)), st_kvs := kvs\<rparr>,
       k_sent := k_sent k @ [\<lparr>msg_ID = msg_ID msg, msg_From = ct_Node (k_Contact k), msg_To = msg_From msg, msg_Type = t, msg_Payload = p\<rparr>]\<rparr>"

lemma reply_answers:
  assumes "\<forall>m. messenger_Send env m = None"
  shows "peer_reply env msg t p (k\<lparr>k_states := (k_states k)\<lparr>st_rt := rt_addContact c (st_rt (k_states k)), st_kvs := kvs\<rparr>\<rparr>) =
    (Inr (), answered_by msg t p c kvs k)"
  using assms by (simp add: peer_reply_def sendReply_def kad_send_def thenM_def bindM_def getM_def modifyM_def retM_def answered_by_def)

lemma put_served:
  assumes "node_up k" "w \<noteq> Timeout" "v \<noteq> Timeout" "msg_Type msg = MSG_PUT_REQ"
    "ConvertJSONToPutReq env (msg_Payload msg) = Inr (Some r)" "ValidateKV env (putq_KV r) = None"
    "kv_put (kv_ID (putq_KV r)) (kv_Key (putq_KV r)) (kv_Value (putq_KV r)) (kv_Sig (putq_KV r)) (st_kvs (k_states k)) = Inr kvs"
    "PutResp_ToJSON env \<lparr>putr_Header = \<lparr>hdr_Sender = k_Contact k\<rparr>, putr_Status = STATUS_SUCCESS, putr_Error = []\<rparr> = Inr p"
    "\<forall>m. messenger_Send env m = None"
  shows "serve_message env w v msg k = (Inr (), answered_by msg MSG_PUT_RESP p (hdr_Sender (putq_Header r)) kvs k)"
proof -
  have up: "\<not> st_stopped (k_states k)" "\<not> k_blocked k" using assms(1) by (simp_all add: node_up_def)
  let ?k = "k\<lparr>k_states := (k_states k)\<lparr>st_rt := rt_addContact (hdr_Sender (putq_Header r)) (st_rt (k_states k)), st_kvs := kvs\<rparr>\<rparr>"
  have "handlePutReq env w v msg k = peer_reply env msg MSG_PUT_RESP p ?k"
    unfolding handlePutReq_def Let_def using assms(3,5-8) up(1) kad_addContact_result[OF up(1) assms(2)]
    by (cases v) (simp_all add: thenM_def bindM_def liftE_def derefM_def retM_def getM_def queue_job_def recv_closed_def no_chans_def
      status_of_def errMsg_of_def)
  then show ?thesis using up(2) assms(4) reply_answers[OF assms(9)]
    by (simp add: serve_message_def ignoreM_def tryM_def bindM_def retM_def)
qed

text \<open>
  What a node answers to a request for values: with the error channel read, which is closed after the values were
  sent, the error of the store if there is one, or else success without values.
\<close>

definition get_result :: "sel \<Rightarrow> failure + KV list \<Rightarrow> failure option \<times> KV list" where
  "get_result v found =
     (if v = ErrCase then (case found of Inl e \<Rightarrow> Some e | Inr _ \<Rightarrow> None, [])
      else (None, case found of Inl _ \<Rightarrow> [] | Inr vs \<Rightarrow> vs))"

lemma get_served:
  assumes "node_up k" "w \<noteq> Timeout" "v \<noteq> Timeout" "msg_Type msg = MSG_GET_REQ" "ConvertJSONToGetReq env (msg_Payload msg) = Inr (Some r)"
    "get_result v (getAllValuesWithPrefix (getq_Key r) (st_kvs (k_states k))) = (err, vs)"
    "GetResp_ToJSON env \<lparr>getr_Header = \<lparr>hdr_Sender = k_Contact k\<rparr>, getr_KVS = vs, getr_Status = status_of err, getr_Error = errMsg_of err\<rparr> = Inr p"
    "\<forall>m. messenger_Send env m = None"
  shows "serve_message env w v msg k =
    (Inr (), answered_by msg MSG_GET_RESP p (hdr_Sender (getq_Header r)) (st_kvs (k_states k)) k)"
proof -
  have up: "\<not> st_stopped (k_states k)" "\<not> k_blocked k" using assms(1) by (simp_all add: node_up_def)
  let ?k = "k\<lparr>k_states := (k_states k)\<lparr>st_rt := rt_addContact (hdr_Sender (getq_Header r)) (st_rt (k_states k)), st_kvs := st_kvs (k_states k)\<rparr>\<rparr>"
  have "handleGetReq env w v msg k = peer_reply env msg MSG_GET_RESP p ?k"
    unfolding handleGetReq_def using assms(3,5-7) up(1) kad_addContact_result[OF up(1) assms(2)]
    by (cases "getAllValuesWithPrefix (getq_Key r) (st_kvs (k_states k))"; cases v)
      (auto simp: bindM_def liftE_def derefM_def retM_def getM_def queue_job_def recv_closed_def no_chans_def get_result_def)
  then show ?thesis using up(2) assms(4) reply_answers[OF assms(8), where kvs = "st_kvs (k_states k)" and k = k]
    by (simp add: serve_message_def ignoreM_def tryM_def bindM_def retM_def)
qed

section \<open>What a client may rely on\<close>

text \<open>
  The interface between the operations of a client and the nodes that store its values: a value with a good
  signature is stored at the node it is sent to and nowhere else. A request gives the values under a key from the nodes
  that \<open>gives\<close> holds for, and none from the others; it may fail where there is no value.
\<close>

definition value_of :: "string \<Rightarrow> string \<Rightarrow> string \<Rightarrow> string \<Rightarrow> KV" where
  "value_of ident key val sig = \<lparr>kv_ID = ident, kv_Key = ''/'' @ ident @ key, kv_Value = val, kv_Sig = sig\<rparr>"

locale value_nodes =
  fixes env :: client_env and call :: "Message \<Rightarrow> ('s, Message option) op" and me :: Contact
    and ok :: "'s \<Rightarrow> bool" and stored :: "'s \<Rightarrow> p2p_Node \<Rightarrow> string list \<rightharpoonup> KV" and nodes :: "p2p_Node set" and gives :: "p2p_Node \<Rightarrow> bool"
  assumes put_law: "ok s \<Longrightarrow> n \<in> nodes \<Longrightarrow> GenerateSignature env (GenerateHash env val) prv = Inr sig \<Longrightarrow>
      ValidateKV (dht_env.truncate env) (value_of ident key val sig) = None \<Longrightarrow> val \<noteq> [] \<Longrightarrow>
      \<exists>s'. putRemote env call me n ident prv key val s = (Inr (), s') \<and> ok s' \<and>
        stored s' = (stored s)(n := (stored s n)(key_parts (''/'' @ ident @ key) \<mapsto> value_of ident key val sig))"
    and get_law: "ok s \<Longrightarrow> n \<in> nodes \<Longrightarrow>
      \<exists>r s'. getRemote env call me n ident key s = (r, s') \<and> ok s' \<and> stored s' = stored s \<and>
        ((\<exists>vs. r = Inr vs \<and> set vs = (if gives n then {x. \<exists>qs. stored s n (key_parts (''/'' @ ident @ key) @ qs) = Some x} else {})) \<or>
         (\<exists>e. r = Inl (Err e)) \<and> {x. \<exists>qs. stored s n (key_parts (''/'' @ ident @ key) @ qs) = Some x} = {})"
begin

lemma put_all:
  assumes "ok s" "\<forall>c \<in> set cs. ct_Node c \<in> nodes" "GenerateSignature env (GenerateHash env val) prv = Inr sig"
    "ValidateKV (dht_env.truncate env) (value_of ident key val sig) = None" "val \<noteq> []"
  shows "\<exists>s'. forM cs (\<lambda>c. putRemote env call me (ct_Node c) ident prv key val) s = (Inr (), s') \<and> ok s' \<and>
    stored s' = (\<lambda>n. if n \<in> ct_Node ` set cs then (stored s n)(key_parts (''/'' @ ident @ key) \<mapsto> value_of ident key val sig) else stored s n)"
  using assms(1,2)
proof (induction cs arbitrary: s)
  case Nil
  then show ?case by (simp add: retM_def)
next
  case (Cons c cs)
  obtain s1 where s1: "putRemote env call me (ct_Node c) ident prv key val s = (Inr (), s1)" "ok s1"
    "stored s1 = (stored s)(ct_Node c := (stored s (ct_Node c))(key_parts (''/'' @ ident @ key) \<mapsto> value_of ident key val sig))"
    using put_law[OF Cons.prems(1) _ assms(3-5), of "ct_Node c"] Cons.prems(2) by auto
  from Cons.IH[OF s1(2)] Cons.prems(2) obtain s2 where
    "forM cs (\<lambda>c. putRemote env call me (ct_Node c) ident prv key val) s1 = (Inr (), s2)" "ok s2"
    "stored s2 = (\<lambda>n. if n \<in> ct_Node ` set cs then (stored s1 n)(key_parts (''/'' @ ident @ key) \<mapsto> value_of ident key val sig) else stored s1 n)"
    by auto
  then show ?case using s1(1) by (auto simp: thenM_def bindM_def s1(3) fun_eq_iff)
qed

lemma collect_same:
  "set vs \<subseteq> {v} \<Longrightarrow> m \<in> {[], [(KV_String v, v)]} \<Longrightarrow>
   fold (\<lambda>v m. AList.update (KV_String v) v m) vs m = (if vs = [] then m else [(KV_String v, v)])"
proof (induction vs arbitrary: m)
  case (Cons x xs)
  then show ?case using Cons.IH[of "[(KV_String v, v)]"] by auto
qed simp

text \<open>Where every node has the same value under a key or none, a client gets it if a node that has it gives it.\<close>

lemma get_all:
  assumes "ok s" "\<forall>c \<in> set cs. ct_Node c \<in> nodes \<and> {x. \<exists>qs. stored s (ct_Node c) (key_parts (''/'' @ ident @ key) @ qs) = Some x} \<subseteq> {v}"
    "m \<in> {[], [(KV_String v, v)]}"
  shows "\<exists>s'. foldM (get_from env call me ident key) m cs s =
    (Inr (if \<exists>c \<in> set cs. gives (ct_Node c) \<and> (\<exists>qs. stored s (ct_Node c) (key_parts (''/'' @ ident @ key) @ qs) = Some v)
          then [(KV_String v, v)] else m), s')"
  using assms
proof (induction cs arbitrary: s m)
  case Nil
  then show ?case by (simp add: retM_def)
next
  case (Cons c cs)
  let ?F = "{x. \<exists>qs. stored s (ct_Node c) (key_parts (''/'' @ ident @ key) @ qs) = Some x}"
  let ?has = "\<lambda>c. gives (ct_Node c) \<and> (\<exists>qs. stored s (ct_Node c) (key_parts (''/'' @ ident @ key) @ qs) = Some v)"
  from Cons.prems(2) have c: "ct_Node c \<in> nodes" "?F \<subseteq> {v}" by auto
  from get_law[OF Cons.prems(1) c(1), of ident key] obtain r s1 where
    s1: "getRemote env call me (ct_Node c) ident key s = (r, s1)" "ok s1" "stored s1 = stored s"
    and r: "(\<exists>vs. r = Inr vs \<and> set vs = (if gives (ct_Node c) then ?F else {})) \<or> (\<exists>e. r = Inl (Err e)) \<and> ?F = {}" by blast
  define m' where "m' = (if ?has c then [(KV_String v, v)] else m)"
  have first: "get_from env call me ident key m c s = (Inr m', s1)"
  proof -
    from r consider vs where "r = Inr vs" "set vs = (if gives (ct_Node c) then ?F else {})" | e where "r = Inl (Err e)" "?F = {}" by blast
    then show ?thesis
    proof cases
      case 1
      then have "set vs \<subseteq> {v}" "vs \<noteq> [] \<longleftrightarrow> ?has c" using c(2) by (auto simp flip: set_empty)
      then have "collect_answer m (Inr vs) = m'" using collect_same[of vs v m] Cons.prems(3) by (auto simp: collect_answer_def m'_def)
      then show ?thesis using s1(1) 1(1) by (simp add: get_from_def bindM_def tryM_def retM_def)
    next
      case 2
      then have "collect_answer m (Inl (Err e)) = m'" by (auto simp: collect_answer_def m'_def)
      then show ?thesis using s1(1) 2(1) by (simp add: get_from_def bindM_def tryM_def retM_def)
    qed
  qed
  have rest: "\<exists>s'. foldM (get_from env call me ident key) m' cs s1 = (Inr (if \<exists>c \<in> set cs. ?has c then [(KV_String v, v)] else m'), s')"
    using Cons.IH[of s1 m'] s1(2,3) Cons.prems(2,3) by (simp add: m'_def)
  have step: "foldM (get_from env call me ident key) m (c # cs) s = foldM (get_from env call me ident key) m' cs s1"
    using first by (simp add: bindM_def)
  have eq: "(if \<exists>c \<in> set cs. ?has c then [(KV_String v, v)] else m') = (if \<exists>c \<in> set (c # cs). ?has c then [(KV_String v, v)] else m)"
    by (auto simp: m'_def)
  from rest show ?case unfolding step eq .
qed

end

interpretation dht_nodes: value_nodes env "net_call (dht_env.truncate env) w v" me "net_ok env w v nodes" net_stored nodes "\<lambda>n. v n = ResultCase"
proof
  fix s :: dht_net and n val prv sig ident key
  assume net: "net_ok env w v nodes s" and n: "n \<in> nodes" and sig: "GenerateSignature env (GenerateHash env val) prv = Inr sig"
    and valid: "ValidateKV (dht_env.truncate env) (value_of ident key val sig) = None" and val: "val \<noteq> []"
  obtain k where k: "s n = Some k" "node_up k" using net n by (auto simp: net_ok_def)
  have wv: "w n \<noteq> Timeout" "v n \<noteq> Timeout" "json_ok env" "\<forall>m. messenger_Send (dht_env.truncate env) m = None"
    using net n by (auto simp: net_ok_def json_ok_def)
  define req where "req = \<lparr>putq_Header = \<lparr>hdr_Sender = me\<rparr>, putq_KV = value_of ident key val sig\<rparr>"
  obtain p where p: "PutReq_ToJSON env req = Inr p" "ConvertJSONToPutReq env p = Inr (Some (req\<lparr>putq_Header := exported (putq_Header req)\<rparr>))" using wv(3) unfolding json_ok_def by blast
  define resp where "resp = \<lparr>putr_Header = \<lparr>hdr_Sender = k_Contact k\<rparr>, putr_Status = STATUS_SUCCESS, putr_Error = []\<rparr>"
  obtain q where q: "PutResp_ToJSON env resp = Inr q" "ConvertJSONToPutResp env q = Inr (Some (resp\<lparr>putr_Header := exported (putr_Header resp)\<rparr>))" using wv(3) unfolding json_ok_def by blast
  obtain kvs where kvs: "kv_put ident (''/'' @ ident @ key) val sig (st_kvs (k_states k)) = Inr kvs" "store_ok kvs"
    "store_values kvs = (store_values (st_kvs (k_states k)))(key_parts (''/'' @ ident @ key) \<mapsto> value_of ident key val sig)"
    using val k(2) by (auto simp: kv_put_def store_ok_def store_values_def kvs.put_ok kvs.put_values node_up_def value_of_def)
  define msg sender where "msg = peer_request me MSG_PUT_REQ n p" and "sender = hdr_Sender (exported \<lparr>hdr_Sender = me\<rparr>)"
  have served: "serve_message (dht_env.truncate env) (w n) (v n) msg k = (Inr (), answered_by msg MSG_PUT_RESP q sender kvs k)"
    using put_served[OF k(2) wv(1,2), of msg "dht_env.truncate env" "req\<lparr>putq_Header := exported (putq_Header req)\<rparr>" kvs q] p(2) valid kvs(1) q(1) wv(4)
    by (simp add: msg_def peer_request_def req_def value_of_def resp_def sender_def)
  have "net_call (dht_env.truncate env) w v msg s =
      (Inr (Some \<lparr>msg_ID = [], msg_From = ct_Node (k_Contact k), msg_To = ct_Node me, msg_Type = MSG_PUT_RESP, msg_Payload = q\<rparr>),
       s(n \<mapsto> answered_by msg MSG_PUT_RESP q sender kvs k))"
    using k(1) served by (simp add: net_call_def msg_def peer_request_def answered_by_def)
  then have "putRemote env (net_call (dht_env.truncate env) w v) me n ident prv key val s = (Inr (), s(n \<mapsto> answered_by msg MSG_PUT_RESP q sender kvs k))"
    using sig p(1) q(2) by (simp add: putRemote_def bindM_def liftE_def derefM_def retM_def req_def value_of_def resp_def flip: msg_def)
  moreover have "net_ok env w v nodes (s(n \<mapsto> answered_by msg MSG_PUT_RESP q sender kvs k))"
    using net k(2) kvs(2) by (auto simp: net_ok_def node_up_def answered_by_def)
  moreover have "net_stored (s(n \<mapsto> answered_by msg MSG_PUT_RESP q sender kvs k)) =
      (net_stored s)(n := (net_stored s n)(key_parts (''/'' @ ident @ key) \<mapsto> value_of ident key val sig))"
    using k(1) by (auto simp: net_stored_def answered_by_def kvs(3) fun_eq_iff)
  ultimately show "\<exists>s'. putRemote env (net_call (dht_env.truncate env) w v) me n ident prv key val s = (Inr (), s') \<and> net_ok env w v nodes s' \<and>
        net_stored s' = (net_stored s)(n := (net_stored s n)(key_parts (''/'' @ ident @ key) \<mapsto> value_of ident key val sig))" by blast
next
  fix s :: dht_net and n ident key
  assume net: "net_ok env w v nodes s" and n: "n \<in> nodes"
  obtain k where k: "s n = Some k" "node_up k" using net n by (auto simp: net_ok_def)
  have wv: "w n \<noteq> Timeout" "v n \<noteq> Timeout" "json_ok env" "\<forall>m. messenger_Send (dht_env.truncate env) m = None"
    using net n by (auto simp: net_ok_def json_ok_def)
  have st: "net_stored s n = store_values (st_kvs (k_states k))" "store_ok (st_kvs (k_states k))" using k by (simp_all add: net_stored_def node_up_def)
  define found where "found = getAllValuesWithPrefix (''/'' @ ident @ key) (st_kvs (k_states k))"
  define values_found where "values_found = {x. \<exists>qs. net_stored s n (key_parts (''/'' @ ident @ key) @ qs) = Some x}"
  obtain err vs where res: "get_result (v n) found = (err, vs)" by fastforce
  define req where "req = \<lparr>getq_Header = \<lparr>hdr_Sender = me\<rparr>, getq_Key = ''/'' @ ident @ key\<rparr>"
  obtain p where p: "GetReq_ToJSON env req = Inr p" "ConvertJSONToGetReq env p = Inr (Some (req\<lparr>getq_Header := exported (getq_Header req)\<rparr>))" using wv(3) unfolding json_ok_def by blast
  define resp where "resp = \<lparr>getr_Header = \<lparr>hdr_Sender = k_Contact k\<rparr>, getr_KVS = vs, getr_Status = status_of err, getr_Error = errMsg_of err\<rparr>"
  obtain q where q: "GetResp_ToJSON env resp = Inr q" "ConvertJSONToGetResp env q = Inr (Some (resp\<lparr>getr_Header := exported (getr_Header resp)\<rparr>))" using wv(3) unfolding json_ok_def by blast
  define msg sender where "msg = peer_request me MSG_GET_REQ n p" and "sender = hdr_Sender (exported \<lparr>hdr_Sender = me\<rparr>)"
  let ?k = "answered_by msg MSG_GET_RESP q sender (st_kvs (k_states k)) k"
  have served: "serve_message (dht_env.truncate env) (w n) (v n) msg k = (Inr (), ?k)"
    using get_served[OF k(2) wv(1,2), of msg "dht_env.truncate env" "req\<lparr>getq_Header := exported (getq_Header req)\<rparr>" err vs q] p(2) res q(1) wv(4)
    by (simp add: msg_def peer_request_def req_def resp_def sender_def found_def)
  have "net_call (dht_env.truncate env) w v msg s =
      (Inr (Some \<lparr>msg_ID = [], msg_From = ct_Node (k_Contact k), msg_To = ct_Node me, msg_Type = MSG_GET_RESP, msg_Payload = q\<rparr>), s(n \<mapsto> ?k))"
    using k(1) served by (simp add: net_call_def msg_def peer_request_def answered_by_def)
  then have "getRemote env (net_call (dht_env.truncate env) w v) me n ident key s =
      ((if status_of err \<noteq> STATUS_SUCCESS then Inl (Err (errMsg_of err)) else Inr vs), s(n \<mapsto> ?k))"
    using p(1) q(2) by (simp add: getRemote_def bindM_def liftE_def derefM_def retM_def req_def resp_def flip: msg_def)
  moreover have "net_ok env w v nodes (s(n \<mapsto> ?k))" using net k(2) by (auto simp: net_ok_def node_up_def answered_by_def)
  moreover have "net_stored (s(n \<mapsto> ?k)) = net_stored s" using k(1) by (auto simp: net_stored_def answered_by_def fun_eq_iff)
  moreover have "status_of err = STATUS_SUCCESS \<and> set vs = (if v n = ResultCase then values_found else {}) \<or>
      status_of err \<noteq> STATUS_SUCCESS \<and> values_found = {}"
  proof (cases found)
    case (Inl e)
    then have "values_found = {}" using getAll_values(2)[OF st(2)] by (simp add: found_def values_found_def st(1))
    then show ?thesis using res wv(2) Inl by (cases "v n") (auto simp: get_result_def)
  next
    case (Inr xs)
    then have "set xs = values_found" using getAll_values(1)[OF st(2)] by (simp add: found_def values_found_def st(1))
    then show ?thesis using res wv(2) Inr by (cases "v n") (auto simp: get_result_def status_of_def)
  qed
  ultimately show "\<exists>r s'. getRemote env (net_call (dht_env.truncate env) w v) me n ident key s = (r, s') \<and> net_ok env w v nodes s' \<and>
      net_stored s' = net_stored s \<and>
      ((\<exists>vs. r = Inr vs \<and> set vs = (if v n = ResultCase
          then {x. \<exists>qs. net_stored s n (key_parts (''/'' @ ident @ key) @ qs) = Some x} else {})) \<or>
       (\<exists>e. r = Inl (Err e)) \<and> {x. \<exists>qs. net_stored s n (key_parts (''/'' @ ident @ key) @ qs) = Some x} = {})"
    unfolding values_found_def by (auto split: if_splits)
qed

section \<open>Registered nodes are found\<close>

lemma alnum_no_slash: "\<forall>x \<in> set s. alnum x \<Longrightarrow> CHR ''/'' \<notin> set s"
  by (auto simp: alnum_def Let_def)

lemma node_path:
  assumes "\<forall>x \<in> set ident. alnum x" "\<forall>x \<in> set name. alnum x"
  shows "Split CHR ''/'' (ident @ ''/nodes/'' @ name) = [ident, ''nodes'', name]"
    "key_parts (''/'' @ ident @ ''/nodes/'' @ name) = [ident, ''nodes'', name]"
proof -
  have free: "CHR ''/'' \<notin> set ident" "CHR ''/'' \<notin> set ''nodes''" "CHR ''/'' \<notin> set name"
    using alnum_no_slash[OF assms(1)] alnum_no_slash[OF assms(2)] by simp_all
  have "Split CHR ''/'' (ident @ CHR ''/'' # (''nodes'' @ CHR ''/'' # name)) = [ident, ''nodes'', name]"
    unfolding Split_append[OF free(1)] Split_append[OF free(2)] Split_free[OF free(3)] ..
  then show "Split CHR ''/'' (ident @ ''/nodes/'' @ name) = [ident, ''nodes'', name]" by simp
  then show "key_parts (''/'' @ ident @ ''/nodes/'' @ name) = [ident, ''nodes'', name]" by (simp add: key_parts_def)
qed

lemma node_value_valid:
  assumes id: "\<forall>x \<in> set ident. alnum x" "length ident = 64" and name: "\<forall>x \<in> set name. alnum x" "name \<noteq> []"
    and sig: "RecoverID env (GenerateHash env val) sig = Inr ident"
  shows "ValidateKV env (value_of ident (''/nodes/'' @ name) val sig) = None"
proof -
  note path = node_path(1)[OF id(1) name(1)]
  have ne: "ident \<noteq> []" using id(2) by auto
  have "\<forall>x \<in> set ''nodes''. alnum x" by code_simp
  then have "validateKey (''/'' @ ident @ ''/nodes/'' @ name)" using id name ne path by (simp add: validateKey_def Let_def)
  moreover have "FieldsFunc CHR ''/'' (''/'' @ ident @ ''/nodes/'' @ name) = [ident, ''nodes'', name]"
    using path ne name(2) by (simp add: FieldsFunc_def)
  ultimately have "validateRootKey (''/'' @ ident @ ''/nodes/'' @ name) ident = None"
    using id(2) by (simp add: validateRootKey_def getRootKey_def)
  then show ?thesis using sig by (simp add: ValidateKV_def validateValue_def value_of_def)
qed

text \<open>
  C12: a node that is registered under an identity is found again. With the nodes that the search gives up and
  answering in time, \<open>RegisterNode\<close> stores it at each of them, past their checks of key and signature, also over an
  older registration of the name. \<open>LookupNode\<close>, at the same or another node, whose search may give other contacts (none
  of them with an older registration of the name), then gives exactly this node if one of its contacts is among those it was
  stored at and answers with its values; if each of those reads the error channel that is closed after the values
  were sent, it fails with no nodes found.
\<close>

theorem registered_node_found:
  assumes net: "net_ok env w v nodes net" and nodes: "\<forall>c \<in> set cs \<union> set ds. ct_Node c \<in> nodes" "cs \<noteq> []" "ds \<noteq> []"
    and register: "\<And>h i. \<exists>s'. search h i net = (Inr cs, s') \<and> net_ok env w v nodes s' \<and> net_stored s' = net_stored net"
    and lookup: "\<And>h i s. net_ok env w v nodes s \<Longrightarrow> \<exists>s'. search' h i s = (Inr ds, s') \<and> net_ok env w v nodes s' \<and> net_stored s' = net_stored s"
    and id: "\<forall>x \<in> set ident. alnum x" "length ident = 64" and name: "\<forall>x \<in> set (node_Name node). alnum x" "node_Name node \<noteq> []"
    and json: "Node_ToJSON env node = Inr json" "json \<noteq> []" "ConvertJSONToNode env json = Inr node"
    and sig: "GenerateSignature env (GenerateHash env json) prv = Inr sig" "RecoverID env (GenerateHash env json) sig = Inr ident"
    and below: "\<forall>d \<in> set ds. \<forall>q qs. net_stored net (ct_Node d) ([ident, ''nodes'', node_Name node] @ q # qs) = None"
    and others: "\<forall>d \<in> set ds. ct_Node d \<notin> ct_Node ` set cs \<longrightarrow> net_stored net (ct_Node d) [ident, ''nodes'', node_Name node] = None"
  shows "\<exists>net1 net2. RegisterNode env (net_call (dht_env.truncate env) w v) search me ident prv node net = (Inr (), net1) \<and>
    LookupNode env (net_call (dht_env.truncate env) w v) search' me' ident (node_Name node) net1 =
      (if \<exists>d \<in> set ds. ct_Node d \<in> ct_Node ` set cs \<and> v (ct_Node d) = ResultCase then Inr node else Inl (Err ''No nodes found''), net2)"
proof -
  let ?call = "net_call (dht_env.truncate env) w v" and ?key = "''/nodes/'' @ node_Name node"
  let ?path = "[ident, ''nodes'', node_Name node]"
  note path = node_path(2)[OF id(1) name(1)]
  define val where "val = value_of ident ?key json sig"
  have valid: "ValidateKV (dht_env.truncate env) (value_of ident ?key json sig) = None"
    by (rule node_value_valid[OF id name]) (simp add: sig(2))
  obtain s1 where s1: "search (GenerateHash env ident) RegistrationReplicationFactor net = (Inr cs, s1)" "net_ok env w v nodes s1"
    "net_stored s1 = net_stored net" using register by blast
  have cs: "\<forall>c \<in> set cs. ct_Node c \<in> nodes" using nodes(1) by blast
  obtain net1 where net1: "forM cs (\<lambda>c. putRemote env ?call me (ct_Node c) ident prv ?key json) s1 = (Inr (), net1)"
    "net_ok env w v nodes net1" "net_stored net1 = (\<lambda>n. if n \<in> ct_Node ` set cs then (net_stored s1 n)(?path \<mapsto> val) else net_stored s1 n)"
    using dht_nodes.put_all[OF s1(2) cs sig(1) valid json(2)] unfolding path val_def by blast
  have reg: "RegisterNode env ?call search me ident prv node net = (Inr (), net1)"
    using s1(1) net1(1) nodes(2) json(1) by (simp add: RegisterNode_def dht_Put_def bindM_def liftE_def)
  obtain s2 where s2: "search' (GenerateHash env ident) RegistrationReplicationFactor net1 = (Inr ds, s2)" "net_ok env w v nodes s2"
    "net_stored s2 = net_stored net1" using lookup[OF net1(2)] by blast
  have at: "net_stored s2 (ct_Node d) (?path @ qs) = (if qs = [] \<and> ct_Node d \<in> ct_Node ` set cs then Some val else None)" if "d \<in> set ds" for d qs
    using that below others by (cases qs) (auto simp: s2(3) net1(3) s1(3))
  then have "\<forall>d \<in> set ds. ct_Node d \<in> nodes \<and> {x. \<exists>qs. net_stored s2 (ct_Node d) (key_parts (''/'' @ ident @ ?key) @ qs) = Some x} \<subseteq> {val}"
    unfolding path using nodes(1) by (auto split: if_splits)
  from dht_nodes.get_all[OF s2(2) this, of "[]" me'] obtain net2 where
    "foldM (get_from env ?call me' ident ?key) [] ds s2 =
      (Inr (if \<exists>d \<in> set ds. v (ct_Node d) = ResultCase \<and> (\<exists>qs. net_stored s2 (ct_Node d) (?path @ qs) = Some val)
        then [(KV_String val, val)] else []), net2)" unfolding path by blast
  moreover have "(\<exists>d \<in> set ds. v (ct_Node d) = ResultCase \<and> (\<exists>qs. net_stored s2 (ct_Node d) (?path @ qs) = Some val)) \<longleftrightarrow>
      (\<exists>d \<in> set ds. ct_Node d \<in> ct_Node ` set cs \<and> v (ct_Node d) = ResultCase)"
    using at by (auto split: if_splits)
  ultimately have "LookupNode env ?call search' me' ident (node_Name node) net1 =
      (if \<exists>d \<in> set ds. ct_Node d \<in> ct_Node ` set cs \<and> v (ct_Node d) = ResultCase then Inr node else Inl (Err ''No nodes found''), net2)"
    using s2(1) nodes(3) json(3) by (simp add: LookupNode_def dht_Get_def bindM_def liftE_def retM_def val_def value_of_def)
  with reg show ?thesis by blast
qed


section \<open>A codec\<close>

text \<open>The messages as texts of fields: a codec that keeps the laws assumed of JSON.\<close>

fun header_texts :: "RPCHeader \<Rightarrow> string list" where
  "header_texts h = (let c = hdr_Sender h in
     [map (\<lambda>w. char_of (unat w)) (ct_ID c), node_Name (ct_Node c), node_Addr (ct_Node c)])"

definition texts_header :: "string list \<Rightarrow> RPCHeader" where
  "texts_header ts = \<lparr>hdr_Sender = \<lparr>ct_ID = map (\<lambda>c. of_nat (of_char c)) (ts ! 0),
     ct_Node = \<lparr>node_Name = ts ! 1, node_Addr = ts ! 2\<rparr>, ct_prvKey = [], ct_distance = zero_ID\<rparr>\<rparr>"

lemma texts_header_texts [simp]: "texts_header (header_texts h @ ts) = exported h"
proof -
  have byte: "word_of_nat (unat w mod 256) = w" for w :: "8 word"
    using unsigned_less[of w, where ?'a = nat] by simp
  obtain i n d p where c: "hdr_Sender h = \<lparr>ct_ID = i, ct_Node = n, ct_prvKey = p, ct_distance = d\<rparr>" by (cases "hdr_Sender h")
  show ?thesis by (simp add: texts_header_def header_texts.simps exported_def Let_def comp_def byte c)
qed

lemma header_texts_length [simp]: "length (header_texts h) = 3"
  by (simp add: Let_def)

fun kv_texts :: "KV list \<Rightarrow> string list" where
  "kv_texts [] = []"
| "kv_texts (v # vs) = [kv_ID v, kv_Key v, kv_Value v, kv_Sig v] @ kv_texts vs"

fun texts_kv :: "string list \<Rightarrow> KV list" where
  "texts_kv (a # b # c # d # ts) = \<lparr>kv_ID = a, kv_Key = b, kv_Value = c, kv_Sig = d\<rparr> # texts_kv ts"
| "texts_kv _ = []"

lemma texts_kv_texts [simp]: "texts_kv (kv_texts vs) = vs"
  by (induction vs) simp_all

declare header_texts.simps [simp del]

definition demo_client_env :: client_env where
  "demo_client_env = dht_env.extend
     (demo_dht_env\<lparr>
       ConvertJSONToPutReq := \<lambda>p. let ts = dec_texts p in Inr (Some \<lparr>putq_Header = texts_header ts, putq_KV = hd (texts_kv (drop 3 ts))\<rparr>),
       ConvertJSONToGetReq := \<lambda>p. let ts = dec_texts p in Inr (Some \<lparr>getq_Header = texts_header ts, getq_Key = ts ! 3\<rparr>),
       PutResp_ToJSON := \<lambda>r. Inr (enc_texts (header_texts (putr_Header r) @ [int_text (putr_Status r), putr_Error r])),
       GetResp_ToJSON := \<lambda>r. Inr (enc_texts (header_texts (getr_Header r) @ [int_text (getr_Status r), getr_Error r] @ kv_texts (getr_KVS r)))\<rparr>)
     \<lparr>GenerateSignature = \<lambda>h prv. Inr prv,
      PingReq_ToJSON = \<lambda>r. Inr (enc_texts (header_texts (pingq_Header r))),
      FindContactsReq_ToJSON = \<lambda>r. Inr (enc_texts (header_texts (findq_Header r) @ [findq_KademliaID r, int_text (findq_Count r)])),
      PutReq_ToJSON = \<lambda>r. Inr (enc_texts (header_texts (putq_Header r) @ kv_texts [putq_KV r])),
      GetReq_ToJSON = \<lambda>r. Inr (enc_texts (header_texts (getq_Header r) @ [getq_Key r])),
      ConvertJSONToPingResp = \<lambda>p. Inl (Err ''not used''), ConvertJSONToFindContactsResp = \<lambda>p. Inl (Err ''not used''),
      ConvertJSONToPutResp = \<lambda>p. let ts = dec_texts p in
        Inr (Some \<lparr>putr_Header = texts_header ts, putr_Status = text_int (ts ! 3), putr_Error = ts ! 4\<rparr>),
      ConvertJSONToGetResp = \<lambda>p. let ts = dec_texts p in
        Inr (Some \<lparr>getr_Header = texts_header ts, getr_KVS = texts_kv (drop 5 ts), getr_Status = text_int (ts ! 3), getr_Error = ts ! 4\<rparr>),
      Node_ToJSON = \<lambda>n. Inr (enc_texts [node_Name n, node_Addr n]),
      ConvertJSONToNode = \<lambda>p. let ts = dec_texts p in Inr \<lparr>node_Name = ts ! 0, node_Addr = ts ! 1\<rparr>\<rparr>"

lemma demo_client_json: "json_ok demo_client_env"
  by (simp add: json_ok_def demo_client_env_def dht_env.defs dec_enc Let_def demo_dht_env_def nth_append)

definition demo_node :: p2p_Node where
  "demo_node = \<lparr>node_Name = ''n1'', node_Addr = ''10.0.0.1:4001''\<rparr>"

definition demo_dht_net :: dht_net where
  "demo_dht_net = [ct_Node (demo_contact 0) \<mapsto> CreateKademlia (demo_contact 0)]"

theorem registered_node_found_witness:
  "\<exists>net1 net2. RegisterNode demo_client_env (net_call (dht_env.truncate demo_client_env) (\<lambda>_. ErrCase) (\<lambda>_. ResultCase))
      (\<lambda>_ _. retM [demo_contact 0]) (demo_contact 5) demo_ident demo_ident demo_node demo_dht_net = (Inr (), net1) \<and>
    LookupNode demo_client_env (net_call (dht_env.truncate demo_client_env) (\<lambda>_. ErrCase) (\<lambda>_. ResultCase))
      (\<lambda>_ _. retM [demo_contact 0]) (demo_contact 7) demo_ident (node_Name demo_node) net1 = (Inr demo_node, net2)"
proof -
  have net: "net_ok demo_client_env (\<lambda>_. ErrCase) (\<lambda>_. ResultCase) {ct_Node (demo_contact 0)} demo_dht_net"
    by (simp add: net_ok_def demo_client_json demo_dht_net_def node_up_def CreateKademlia_def createStates_def createKVStore_ok)
  have id: "\<forall>x \<in> set demo_ident. alnum x" "\<forall>x \<in> set (node_Name demo_node). alnum x" by code_simp+
  have json: "Node_ToJSON demo_client_env demo_node = Inr (enc_texts [node_Name demo_node, node_Addr demo_node])"
    "ConvertJSONToNode demo_client_env (enc_texts [node_Name demo_node, node_Addr demo_node]) = Inr demo_node"
    "GenerateSignature demo_client_env (GenerateHash demo_client_env (enc_texts [node_Name demo_node, node_Addr demo_node])) demo_ident = Inr demo_ident"
    "RecoverID demo_client_env (GenerateHash demo_client_env (enc_texts [node_Name demo_node, node_Addr demo_node])) demo_ident = Inr demo_ident"
    by (simp_all add: demo_client_env_def dht_env.defs demo_dht_env_def dec_enc Let_def)
  have stored: "net_stored demo_dht_net (ct_Node (demo_contact 0)) p = None" for p
    by (simp add: net_stored_def demo_dht_net_def CreateKademlia_def createStates_def createKVStore_ok)
  show ?thesis
    using registered_node_found[OF net, of "[demo_contact 0]" "[demo_contact 0]" "\<lambda>_ _. retM [demo_contact 0]"
        "\<lambda>_ _. retM [demo_contact 0]" demo_ident demo_node _ demo_ident demo_ident "demo_contact 5" "demo_contact 7",
        OF _ _ _ _ _ id(1) _ id(2) _ json(1) _ json(2,3,4)] net
    by (simp add: retM_def stored demo_ident_def demo_node_def enc_texts_nonempty)
qed


end
