(* ===== verification/Event_Handler.thy ===== *)
theory Event_Handler
  imports Rpc
begin

text \<open>
  How changes of processes reach those who wait for them: the event handler (\<open>src/pkg/server/event_handler.go\<close>) and the
  subscriptions over web sockets (\<open>ws_subscription.go\<close>, \<open>ws_handler.go\<close>).

  A master worker serves one message at a time: it registers and unregisters listeners and puts signalled processes
  into their channels, which hold 100 processes; at a full channel it waits. A call of \<open>waitForProcess\<close> or
  \<open>subscribe\<close> is a client with the phase its goroutine is in. The steps of worker and clients interleave in any way.
  The relay of signals to other servers is left out.
\<close>

section \<open>State\<close>

datatype client_phase =
    Entering
  | Listening string nat
  | Forwarding string nat Process
  | Leaving string nat "Process option"
  | Left "Process option"

text \<open>
  The arguments of the call; \<open>cl_forwards\<close> tells \<open>subscribe\<close>, which copies processes to a channel of its own
  until its context ends, from \<open>waitForProcess\<close>, which returns the first one.
\<close>

record client =
  cl_executorType :: string
  cl_state :: int
  cl_processID :: string
  cl_forwards :: bool
  cl_processChan :: "Process list"
  cl_phase :: client_phase

datatype master = Idle | Sending Process "nat list" | Stopped

record eventHandler =
  ev_listeners :: "(string \<times> (string \<times> nat) list) list"
  ev_processIDs :: "(string \<times> string) list"
  ev_idCounter :: nat
  ev_channels :: "Process list list"
  ev_worker :: master
  ev_clients :: "client list"

definition createEventHandler :: eventHandler where
  "createEventHandler = \<lparr>ev_listeners = [], ev_processIDs = [], ev_idCounter = 0, ev_channels = [], ev_worker = Idle, ev_clients = []\<rparr>"

definition chan_size :: nat where "chan_size = 100"

section \<open>What the worker does\<close>

definition target :: "string \<Rightarrow> int \<Rightarrow> string" where
  "target executorType state = executorType @ Itoa state"

definition listeners_at :: "string \<Rightarrow> eventHandler \<Rightarrow> (string \<times> nat) list" where
  "listeners_at t h = (case map_of (ev_listeners h) t of None \<Rightarrow> [] | Some ls \<Rightarrow> ls)"

definition register :: "string \<Rightarrow> int \<Rightarrow> string \<Rightarrow> eventHandler \<Rightarrow> (string \<times> nat) \<times> eventHandler" where
  "register executorType state processID h =
     (let t = target executorType state; c = length (ev_channels h); listenerID = Itoa (int (ev_idCounter h)) in
      ((listenerID, c),
       h\<lparr>ev_listeners := AList.update t (AList.update listenerID c (listeners_at t h)) (ev_listeners h),
         ev_channels := ev_channels h @ [[]],
         ev_processIDs := (if processID \<noteq> [] then AList.update listenerID processID (ev_processIDs h) else ev_processIDs h),
         ev_idCounter := Suc (ev_idCounter h)\<rparr>))"

definition unregister :: "string \<Rightarrow> int \<Rightarrow> string \<Rightarrow> eventHandler \<Rightarrow> eventHandler" where
  "unregister executorType state listenerID h =
     (let t = target executorType state;
          h1 = (case map_of (ev_listeners h) t of
                  None \<Rightarrow> h
                | Some ls \<Rightarrow> h\<lparr>ev_listeners := AList.update t (AList.delete listenerID ls) (ev_listeners h),
                               ev_processIDs := AList.delete listenerID (ev_processIDs h)\<rparr>)
      in if listeners_at t h1 = [] then h1\<lparr>ev_listeners := AList.delete t (ev_listeners h1)\<rparr> else h1)"

text \<open>The channels a signalled process goes to; \<open>order\<close> is the order of the range over the listeners.\<close>

definition interested :: "Process \<Rightarrow> (string \<times> string) list \<Rightarrow> string \<times> nat \<Rightarrow> bool" where
  "interested process processIDs l \<longleftrightarrow>
     (case map_of processIDs (fst l) of Some processID \<Rightarrow> proc_ID process = processID | None \<Rightarrow> True)"

definition signal_channels :: "((string \<times> nat) list \<Rightarrow> (string \<times> nat) list) \<Rightarrow> Process \<Rightarrow> eventHandler \<Rightarrow> nat list" where
  "signal_channels order process h =
     map snd (filter (interested process (ev_processIDs h))
       (order (listeners_at (target (cond_ExecutorType (spec_Conditions (proc_FunctionSpec process))) (proc_State process)) h)))"

definition send_to :: "Process \<Rightarrow> nat list \<Rightarrow> master" where
  "send_to process cs = (if cs = [] then Idle else Sending process cs)"

section \<open>Steps\<close>

text \<open>
  A client enters by its call. The worker serves a registration, a signal, the message that a client leaves, or the
  one to stop, and then one send after the other. A client receives from its channel, hands on what it received, or
  finds its context ended; the one who subscribed reads.
\<close>

datatype ev_move =
    Call client
  | ServeRegister nat
  | ServeSignal "(string \<times> nat) list \<Rightarrow> (string \<times> nat) list" Process
  | ServeUnregister nat
  | ServeStop
  | Send
  | Receive nat
  | Hand_on nat
  | Done nat
  | Read nat

definition set_client :: "nat \<Rightarrow> (client \<Rightarrow> client) \<Rightarrow> eventHandler \<Rightarrow> eventHandler" where
  "set_client i f h = h\<lparr>ev_clients := (ev_clients h)[i := f (ev_clients h ! i)]\<rparr>"

definition new_client :: "string \<Rightarrow> int \<Rightarrow> string \<Rightarrow> bool \<Rightarrow> client" where
  "new_client executorType state processID forwards =
     \<lparr>cl_executorType = executorType, cl_state = state, cl_processID = processID, cl_forwards = forwards,
      cl_processChan = [], cl_phase = Entering\<rparr>"

definition serve_register :: "nat \<Rightarrow> eventHandler \<Rightarrow> eventHandler option" where
  "serve_register i h =
     (if ev_worker h = Idle \<and> i < length (ev_clients h) \<and> cl_phase (ev_clients h ! i) = Entering then
        (let c = ev_clients h ! i;
             ((listenerID, ch), h1) = register (cl_executorType c) (cl_state c) (cl_processID c) h
         in Some (set_client i (\<lambda>c. c\<lparr>cl_phase := Listening listenerID ch\<rparr>) h1))
      else None)"

definition serve_unregister :: "nat \<Rightarrow> eventHandler \<Rightarrow> eventHandler option" where
  "serve_unregister i h =
     (if ev_worker h = Idle \<and> i < length (ev_clients h) then
        (let c = ev_clients h ! i in
         (case cl_phase c of
            Leaving listenerID ch r \<Rightarrow>
              Some (set_client i (\<lambda>c. c\<lparr>cl_phase := Left r\<rparr>) (unregister (cl_executorType c) (cl_state c) listenerID h))
          | _ \<Rightarrow> None))
      else None)"

definition worker_send :: "eventHandler \<Rightarrow> eventHandler option" where
  "worker_send h =
     (case ev_worker h of
        Sending process (c # cs) \<Rightarrow>
          if length (ev_channels h ! c) < chan_size
          then Some (h\<lparr>ev_channels := (ev_channels h)[c := ev_channels h ! c @ [process]], ev_worker := send_to process cs\<rparr>)
          else None
      | _ \<Rightarrow> None)"

definition client_receive :: "nat \<Rightarrow> eventHandler \<Rightarrow> eventHandler option" where
  "client_receive i h =
     (if i < length (ev_clients h) then
        (case cl_phase (ev_clients h ! i) of
           Listening listenerID ch \<Rightarrow>
             (case ev_channels h ! ch of
                [] \<Rightarrow> None
              | process # rest \<Rightarrow>
                  Some (set_client i (\<lambda>c. c\<lparr>cl_phase := (if cl_forwards c then Forwarding listenerID ch process
                      else Leaving listenerID ch (Some process))\<rparr>) (h\<lparr>ev_channels := (ev_channels h)[ch := rest]\<rparr>)))
         | _ \<Rightarrow> None)
      else None)"

definition client_hand_on :: "nat \<Rightarrow> eventHandler \<Rightarrow> eventHandler option" where
  "client_hand_on i h =
     (if i < length (ev_clients h) then
        (case cl_phase (ev_clients h ! i) of
           Forwarding listenerID ch process \<Rightarrow>
             if length (cl_processChan (ev_clients h ! i)) < chan_size
             then Some (set_client i (\<lambda>c. c\<lparr>cl_processChan := cl_processChan c @ [process], cl_phase := Listening listenerID ch\<rparr>) h)
             else None
         | _ \<Rightarrow> None)
      else None)"

definition client_done :: "nat \<Rightarrow> eventHandler \<Rightarrow> eventHandler option" where
  "client_done i h =
     (if i < length (ev_clients h) then
        (case cl_phase (ev_clients h ! i) of
           Listening listenerID ch \<Rightarrow> Some (set_client i (\<lambda>c. c\<lparr>cl_phase := Leaving listenerID ch None\<rparr>) h)
         | _ \<Rightarrow> None)
      else None)"

definition client_read :: "nat \<Rightarrow> eventHandler \<Rightarrow> eventHandler option" where
  "client_read i h =
     (if i < length (ev_clients h) \<and> cl_processChan (ev_clients h ! i) \<noteq> []
      then Some (set_client i (\<lambda>c. c\<lparr>cl_processChan := tl (cl_processChan c)\<rparr>) h)
      else None)"

fun ev_step :: "ev_move \<Rightarrow> eventHandler \<Rightarrow> eventHandler option" where
  "ev_step (Call c) h =
     Some (h\<lparr>ev_clients := ev_clients h @ [new_client (cl_executorType c) (cl_state c) (cl_processID c) (cl_forwards c)]\<rparr>)"
| "ev_step (ServeRegister i) h = serve_register i h"
| "ev_step (ServeSignal order process) h =
     (if ev_worker h = Idle then Some (h\<lparr>ev_worker := send_to process (signal_channels order process h)\<rparr>) else None)"
| "ev_step (ServeUnregister i) h = serve_unregister i h"
| "ev_step ServeStop h = (if ev_worker h = Idle then Some (h\<lparr>ev_worker := Stopped\<rparr>) else None)"
| "ev_step Send h = worker_send h"
| "ev_step (Receive i) h = client_receive i h"
| "ev_step (Hand_on i) h = client_hand_on i h"
| "ev_step (Done i) h = client_done i h"
| "ev_step (Read i) h = client_read i h"

fun ev_run :: "ev_move list \<Rightarrow> eventHandler \<Rightarrow> eventHandler option" where
  "ev_run [] h = Some h"
| "ev_run (m # ms) h = (case ev_step m h of None \<Rightarrow> None | Some h' \<Rightarrow> ev_run ms h')"

text \<open>For tests: the targets with listeners, the listeners of one target, and the listeners of single processes.\<close>

definition numberOfListeners :: "string \<Rightarrow> int \<Rightarrow> eventHandler \<Rightarrow> nat \<times> nat \<times> nat" where
  "numberOfListeners executorType state h =
     (length (ev_listeners h), length (listeners_at (target executorType state) h), length (ev_processIDs h))"

end
