(* ===== verification/Event_Facts.thy ===== *)
theory Event_Facts
  imports Event_Handler
begin

text \<open>
  The event handler keeps its tables in step with the clients that listen, hands a signalled process to exactly the
  listeners that asked for it, and is stopped for good by a subscriber that does not read.
\<close>

section \<open>The tables\<close>

text \<open>The listener and the channel a client has, and what it listens for.\<close>

definition reg_of :: "client \<Rightarrow> (string \<times> nat) option" where
  "reg_of c = (case cl_phase c of
     Listening l ch \<Rightarrow> Some (l, ch) | Forwarding l ch _ \<Rightarrow> Some (l, ch) | Leaving l ch _ \<Rightarrow> Some (l, ch) | _ \<Rightarrow> None)"

definition reg :: "eventHandler \<Rightarrow> nat \<Rightarrow> (string \<times> nat) option" where
  "reg h j = (if j < length (ev_clients h) then reg_of (ev_clients h ! j) else None)"

definition wants :: "eventHandler \<Rightarrow> nat \<Rightarrow> string \<times> string" where
  "wants h j = (let c = ev_clients h ! j in (target (cl_executorType c) (cl_state c), cl_processID c))"

abbreviation listens :: "eventHandler \<Rightarrow> string \<Rightarrow> string \<rightharpoonup> nat" where
  "listens h t \<equiv> map_of (listeners_at t h)"

definition ids_ok :: "eventHandler \<Rightarrow> bool" where
  "ids_ok h \<longleftrightarrow>
     (\<forall>j l c. reg h j = Some (l, c) \<longrightarrow> (\<exists>k < ev_idCounter h. l = Itoa (int k)) \<and> c < length (ev_channels h)) \<and>
     (\<forall>i j l c l' c'. reg h i = Some (l, c) \<and> reg h j = Some (l', c') \<and> (l = l' \<or> c = c') \<longrightarrow> i = j)"

definition tables_ok :: "eventHandler \<Rightarrow> bool" where
  "tables_ok h \<longleftrightarrow>
     (\<forall>t l c. listens h t l = Some c \<longleftrightarrow> (\<exists>j. reg h j = Some (l, c) \<and> fst (wants h j) = t)) \<and>
     (\<forall>l pid. map_of (ev_processIDs h) l = Some pid \<longleftrightarrow> (\<exists>j c. reg h j = Some (l, c) \<and> snd (wants h j) = pid \<and> pid \<noteq> []))"

definition shape_ok :: "eventHandler \<Rightarrow> bool" where
  "shape_ok h \<longleftrightarrow> distinct (map fst (ev_listeners h)) \<and> (\<forall>p \<in> set (ev_listeners h). snd p \<noteq> [] \<and> distinct (map fst (snd p)))"

definition ev_ok :: "eventHandler \<Rightarrow> bool" where
  "ev_ok h \<longleftrightarrow> ids_ok h \<and> tables_ok h \<and> shape_ok h"

text \<open>What registering and unregistering do to the tables.\<close>

lemma listens_update:
  "listeners_at t' (h\<lparr>ev_listeners := AList.update t ls (ev_listeners h)\<rparr>) = (if t' = t then ls else listeners_at t' h)"
  by (simp add: listeners_at_def update_conv')

lemma listens_delete:
  "listeners_at t' (h\<lparr>ev_listeners := AList.delete t (ev_listeners h)\<rparr>) = (if t' = t then [] else listeners_at t' h)"
  by (simp add: listeners_at_def delete_conv')

lemma listeners_at_cong [simp]:
  "listeners_at t (h\<lparr>ev_channels := a\<rparr>) = listeners_at t h" "listeners_at t (h\<lparr>ev_processIDs := b\<rparr>) = listeners_at t h"
  "listeners_at t (h\<lparr>ev_idCounter := k\<rparr>) = listeners_at t h" "listeners_at t (h\<lparr>ev_worker := w\<rparr>) = listeners_at t h"
  "listeners_at t (h\<lparr>ev_clients := cs\<rparr>) = listeners_at t h"
  by (simp_all add: listeners_at_def)

lemma shape_ok_at: "shape_ok h \<Longrightarrow> distinct (map fst (listeners_at t h))"
  unfolding shape_ok_def listeners_at_def by (auto split: option.splits dest!: map_of_SomeD)

lemma shape_ok_update:
  assumes "shape_ok h" "ls \<noteq> []" "distinct (map fst ls)"
  shows "shape_ok (h\<lparr>ev_listeners := AList.update t ls (ev_listeners h)\<rparr>)"
proof -
  have "set (AList.update t ls xs) \<subseteq> insert (t, ls) (set xs)" for xs :: "(string \<times> (string \<times> nat) list) list"
    by (induction xs) auto
  from this[of "ev_listeners h"] show ?thesis using assms by (auto simp: shape_ok_def distinct_update)
qed

lemma shape_ok_delete: "shape_ok h \<Longrightarrow> shape_ok (h\<lparr>ev_listeners := AList.delete t (ev_listeners h)\<rparr>)"
  using distinct_delete[of "ev_listeners h" t] by (auto simp: shape_ok_def AList.delete_eq)

lemma shape_ok_cong: "ev_listeners h' = ev_listeners h \<Longrightarrow> shape_ok h' = shape_ok h"
  by (simp add: shape_ok_def)

lemma register_tables:
  assumes "register ty st pid h = ((l, c), h')"
  shows "l = Itoa (int (ev_idCounter h))" "c = length (ev_channels h)" "ev_channels h' = ev_channels h @ [[]]"
    "ev_idCounter h' = Suc (ev_idCounter h)" "ev_clients h' = ev_clients h" "ev_worker h' = ev_worker h"
    "listens h' t = (if t = target ty st then (listens h t)(l \<mapsto> c) else listens h t)"
    "map_of (ev_processIDs h') = (if pid = [] then map_of (ev_processIDs h) else (map_of (ev_processIDs h))(l \<mapsto> pid))"
    "shape_ok h \<Longrightarrow> shape_ok h'"
proof -
  note def = assms[unfolded register_def Let_def, symmetric]
  show "l = Itoa (int (ev_idCounter h))" "c = length (ev_channels h)" "ev_channels h' = ev_channels h @ [[]]"
    "ev_idCounter h' = Suc (ev_idCounter h)" "ev_clients h' = ev_clients h" "ev_worker h' = ev_worker h"
    "map_of (ev_processIDs h') = (if pid = [] then map_of (ev_processIDs h) else (map_of (ev_processIDs h))(l \<mapsto> pid))"
    using def by (auto simp: update_conv')
  show "listens h' t = (if t = target ty st then (listens h t)(l \<mapsto> c) else listens h t)"
    using def by (simp add: listens_update update_conv')
  assume "shape_ok h"
  moreover have "AList.update l c (listeners_at (target ty st) h) \<noteq> []" by (simp add: update_nonempty)
  ultimately show "shape_ok h'"
    using def shape_ok_update[of h "AList.update l c (listeners_at (target ty st) h)" "target ty st"] shape_ok_at
    by (auto simp: distinct_update shape_ok_def)
qed

lemma unregister_tables:
  assumes h': "h' = unregister ty st l h" and l: "listens h (target ty st) l \<noteq> None"
  shows "ev_channels h' = ev_channels h" "ev_idCounter h' = ev_idCounter h" "ev_clients h' = ev_clients h" "ev_worker h' = ev_worker h"
    "listens h' t = (if t = target ty st then (listens h t)(l := None) else listens h t)"
    "map_of (ev_processIDs h') = (map_of (ev_processIDs h))(l := None)"
    "shape_ok h \<Longrightarrow> shape_ok h'"
proof -
  let ?t = "target ty st"
  obtain ls where ls: "map_of (ev_listeners h) ?t = Some ls" using l by (auto simp: listeners_at_def split: option.splits)
  then have at: "listeners_at ?t h = ls" by (simp add: listeners_at_def)
  define h1 where "h1 = h\<lparr>ev_listeners := AList.update ?t (AList.delete l ls) (ev_listeners h), ev_processIDs := AList.delete l (ev_processIDs h)\<rparr>"
  have h1: "listeners_at u h1 = (if u = ?t then AList.delete l ls else listeners_at u h)" for u
    by (simp add: h1_def listeners_at_def update_conv')
  have def: "h' = (if AList.delete l ls = [] then h1\<lparr>ev_listeners := AList.delete ?t (ev_listeners h1)\<rparr> else h1)"
    using h' h1[of ?t] ls by (simp add: unregister_def Let_def h1_def)
  show "ev_channels h' = ev_channels h" "ev_idCounter h' = ev_idCounter h" "ev_clients h' = ev_clients h" "ev_worker h' = ev_worker h"
    "map_of (ev_processIDs h') = (map_of (ev_processIDs h))(l := None)"
    unfolding def by (simp_all add: h1_def delete_conv')
  show "listens h' t = (if t = ?t then (listens h t)(l := None) else listens h t)"
  proof (cases "AList.delete l ls = []")
    case True
    then have "(map_of ls)(l := None) = Map.empty" by (metis delete_conv' map_of.simps(1))
    then show ?thesis using True unfolding def by (simp add: listens_delete h1 at)
  next
    case False
    then show ?thesis unfolding def by (simp add: h1 at delete_conv')
  qed
  assume ok: "shape_ok h"
  then have d: "distinct (map fst (AList.delete l ls))" using shape_ok_at[OF ok, of ?t] at distinct_delete by metis
  show "shape_ok h'"
  proof (cases "AList.delete l ls = []")
    case True
    have "AList.delete ?t (ev_listeners h1) = AList.delete ?t (ev_listeners h)" by (simp add: h1_def delete_update_same)
    then have "ev_listeners h' = ev_listeners (h\<lparr>ev_listeners := AList.delete ?t (ev_listeners h)\<rparr>)" unfolding def using True by simp
    then show ?thesis using shape_ok_delete[OF ok] shape_ok_cong by blast
  next
    case False
    then have "ev_listeners h' = ev_listeners (h\<lparr>ev_listeners := AList.update ?t (AList.delete l ls) (ev_listeners h)\<rparr>)"
      unfolding def by (simp add: h1_def)
    then show ?thesis using shape_ok_update[OF ok False d] shape_ok_cong by blast
  qed
qed

section \<open>Every step keeps the tables in order\<close>

lemma Itoa_nat_inj: "Itoa (int k) = Itoa (int k') \<longleftrightarrow> k = k'"
  by (simp add: Itoa_def) (metis digits_val_digits10)

lemma reg_set_client:
  "i < length (ev_clients h) \<Longrightarrow> reg (set_client i f h) j = (if j = i then reg_of (f (ev_clients h ! i)) else reg h j)"
  by (simp add: reg_def set_client_def)

text \<open>A step of a client keeps what it listens for.\<close>

definition same_call :: "(client \<Rightarrow> client) \<Rightarrow> bool" where
  "same_call f \<longleftrightarrow> (\<forall>c. cl_executorType (f c) = cl_executorType c \<and> cl_state (f c) = cl_state c \<and> cl_processID (f c) = cl_processID c)"

lemma wants_set_client: "same_call f \<Longrightarrow> wants (set_client i f h) j = wants h j"
  by (cases "i < length (ev_clients h)") (auto simp: wants_def set_client_def same_call_def Let_def nth_list_update list_update_beyond)

lemma set_client_fields [simp]:
  "ev_listeners (set_client i f h) = ev_listeners h" "ev_processIDs (set_client i f h) = ev_processIDs h"
  "ev_idCounter (set_client i f h) = ev_idCounter h" "ev_channels (set_client i f h) = ev_channels h"
  "ev_worker (set_client i f h) = ev_worker h" "length (ev_clients (set_client i f h)) = length (ev_clients h)"
  by (simp_all add: set_client_def)

lemma ev_ok_neutral:
  assumes "ev_ok h" "\<And>j. reg h' j = reg h j" "\<And>j. reg h j \<noteq> None \<Longrightarrow> wants h' j = wants h j"
    and "ev_listeners h' = ev_listeners h" "ev_processIDs h' = ev_processIDs h" "ev_idCounter h' = ev_idCounter h"
    and "length (ev_channels h') = length (ev_channels h)"
  shows "ev_ok h'"
proof -
  have at: "listeners_at t h' = listeners_at t h" for t using assms(4) by (simp add: listeners_at_def)
  have w: "wants h' j = wants h j" if "reg h j = Some x" for j x using assms(3)[of j] that by simp
  have "(\<exists>j. reg h j = Some (l, c) \<and> fst (wants h' j) = t) \<longleftrightarrow> (\<exists>j. reg h j = Some (l, c) \<and> fst (wants h j) = t)"
    "(\<exists>j c. reg h j = Some (l, c) \<and> snd (wants h' j) = pid \<and> pid \<noteq> []) \<longleftrightarrow> (\<exists>j c. reg h j = Some (l, c) \<and> snd (wants h j) = pid \<and> pid \<noteq> [])"
    for l c t pid using w by fastforce+
  then have "tables_ok h'" using assms(1) unfolding ev_ok_def tables_ok_def assms(2,5) at by presburger
  moreover have "ids_ok h'" using assms(1) unfolding ev_ok_def ids_ok_def assms(2,6,7) by simp
  moreover have "shape_ok h'" using assms(1,4) by (simp add: ev_ok_def shape_ok_def)
  ultimately show ?thesis by (simp add: ev_ok_def)
qed

lemma ev_ok_client:
  assumes "ev_ok h" "i < length (ev_clients h)" "same_call f" "reg_of (f (ev_clients h ! i)) = reg_of (ev_clients h ! i)"
  shows "ev_ok (set_client i f h)"
proof (rule ev_ok_neutral[OF assms(1)])
  show "reg (set_client i f h) j = reg h j" for j
    unfolding reg_set_client[OF assms(2)] using assms(2,4) by (simp add: reg_def)
qed (simp_all add: wants_set_client[OF assms(3)])

lemma ex_upd_Some: "f i = None \<Longrightarrow> (\<exists>j. (if j = i then Some y else f j) = Some x \<and> P j) \<longleftrightarrow> x = y \<and> P i \<or> (\<exists>j. f j = Some x \<and> P j)"
  by (auto split: if_splits) (metis option.distinct(1))+

lemma ex_upd_None: "(\<exists>j. (if j = i then None else f j) = Some x \<and> P j) \<longleftrightarrow> (\<exists>j. j \<noteq> i \<and> f j = Some x \<and> P j)"
  by (auto split: if_splits)

lemma ev_ok_register:
  assumes ok: "ev_ok h" and i: "i < length (ev_clients h)" "reg_of (ev_clients h ! i) = None"
    and reg: "register (cl_executorType (ev_clients h ! i)) (cl_state (ev_clients h ! i)) (cl_processID (ev_clients h ! i)) h = ((l, c), h1)"
    and f: "same_call f" "reg_of (f (ev_clients h ! i)) = Some (l, c)"
  shows "ev_ok (set_client i f h1)"
proof -
  note r = register_tables[OF reg]
  let ?h = "set_client i f h1"
  have len: "i < length (ev_clients h1)" using i r(5) by simp
  have reg1: "reg h1 = reg h" and wants1: "wants h1 = wants h" using r(5) by (simp_all add: reg_def wants_def fun_eq_iff)
  have reg': "reg ?h j = (if j = i then Some (l, c) else reg h j)" for j
    unfolding reg_set_client[OF len] reg1 using f(2) r(5) by simp
  have wants': "wants ?h j = wants h j" for j by (simp add: wants_set_client[OF f(1)] wants1)
  have none: "reg h i = None" using i by (simp add: reg_def)
  have wi: "wants h i = (target (cl_executorType (ev_clients h ! i)) (cl_state (ev_clients h ! i)), cl_processID (ev_clients h ! i))"
    by (simp add: wants_def Let_def)
  have fresh: "l' \<noteq> l \<and> c' \<noteq> c" if "reg h j = Some (l', c')" for j l' c'
    using ok that r(1,2) unfolding ev_ok_def ids_ok_def by (metis Itoa_nat_inj less_irrefl)
  have old: "(\<exists>k < ev_idCounter h. l' = Itoa (int k)) \<and> c' < length (ev_channels h)" if "reg h j = Some (l', c')" for j l' c'
    using ok that unfolding ev_ok_def ids_ok_def by blast
  have "ids_ok ?h" unfolding ids_ok_def reg'
  proof (intro conjI allI impI)
    fix j l' c' assume "(if j = i then Some (l, c) else reg h j) = Some (l', c')"
    then show "\<exists>k < ev_idCounter ?h. l' = Itoa (int k)" "c' < length (ev_channels ?h)"
      using old[of j l' c'] r(1-4) by (auto simp: Itoa_nat_inj split: if_splits)
  next
    fix i' j l1 c1 l2 c2
    assume "(if i' = i then Some (l, c) else reg h i') = Some (l1, c1) \<and> (if j = i then Some (l, c) else reg h j) = Some (l2, c2) \<and> (l1 = l2 \<or> c1 = c2)"
    then show "i' = j" using ok fresh unfolding ev_ok_def ids_ok_def by (auto split: if_splits)
  qed
  moreover have "tables_ok ?h"
  proof -
    have at: "listeners_at t ?h = listeners_at t h1" for t by (simp add: listeners_at_def)
    have A: "listens h t l' = Some c' \<longleftrightarrow> (\<exists>j. reg h j = Some (l', c') \<and> fst (wants h j) = t)"
      and B: "map_of (ev_processIDs h) l' = Some pid \<longleftrightarrow> (\<exists>j c. reg h j = Some (l', c) \<and> snd (wants h j) = pid \<and> pid \<noteq> [])" for t l' c' pid
      using ok by (simp_all add: ev_ok_def tables_ok_def)
    have fl: "listens h t l = None" for t
    proof (rule ccontr)
      assume "listens h t l \<noteq> None"
      then obtain a where "listens h t l = Some a" by auto
      then show False using A fresh by blast
    qed
    have fp: "map_of (ev_processIDs h) l = None" 
    proof (rule ccontr)
      assume "map_of (ev_processIDs h) l \<noteq> None"
      then obtain a where "map_of (ev_processIDs h) l = Some a" by auto
      then show False using B fresh by blast
    qed
    have "listens h1 t l' = Some c' \<longleftrightarrow> (\<exists>j. reg ?h j = Some (l', c') \<and> fst (wants ?h j) = t)" for t l' c'
      unfolding r(7) reg' wants' ex_upd_Some[of "reg h", OF none] A[symmetric] using wi fl by auto
    moreover have "map_of (ev_processIDs h1) l' = Some pid \<longleftrightarrow> (\<exists>j c. reg ?h j = Some (l', c) \<and> snd (wants ?h j) = pid \<and> pid \<noteq> [])" for l' pid
    proof -
      let ?Q = "\<lambda>j. snd (wants h j) = pid \<and> pid \<noteq> []"
      have "(\<exists>j c. reg ?h j = Some (l', c) \<and> ?Q j) \<longleftrightarrow> (\<exists>c'. \<exists>j. (if j = i then Some (l, c) else reg h j) = Some (l', c') \<and> ?Q j)"
        unfolding reg' by blast
      also have "\<dots> \<longleftrightarrow> (\<exists>c'. (l', c') = (l, c) \<and> ?Q i \<or> (\<exists>j. reg h j = Some (l', c') \<and> ?Q j))"
        unfolding ex_upd_Some[of "reg h", OF none] ..
      also have "\<dots> \<longleftrightarrow> l' = l \<and> ?Q i \<or> map_of (ev_processIDs h) l' = Some pid" unfolding B by auto
      finally have "(\<exists>j c. reg ?h j = Some (l', c) \<and> snd (wants ?h j) = pid \<and> pid \<noteq> []) \<longleftrightarrow>
          l' = l \<and> ?Q i \<or> map_of (ev_processIDs h) l' = Some pid" unfolding wants' .
      then show ?thesis unfolding r(8) using wi fp by auto
    qed
    ultimately show ?thesis unfolding tables_ok_def at set_client_fields by blast
  qed
  moreover have "shape_ok ?h" using ok r(9) by (simp add: ev_ok_def shape_ok_def)
  ultimately show ?thesis by (simp add: ev_ok_def)
qed

lemma ev_ok_unregister:
  assumes ok: "ev_ok h" and i: "i < length (ev_clients h)" "reg_of (ev_clients h ! i) = Some (l, c)"
    and f: "same_call f" "reg_of (f (ev_clients h ! i)) = None"
  shows "ev_ok (set_client i f (unregister (cl_executorType (ev_clients h ! i)) (cl_state (ev_clients h ! i)) l h))"
proof -
  let ?t = "target (cl_executorType (ev_clients h ! i)) (cl_state (ev_clients h ! i))"
  define h1 where "h1 = unregister (cl_executorType (ev_clients h ! i)) (cl_state (ev_clients h ! i)) l h"
  let ?h = "set_client i f h1"
  have wi: "wants h i = (?t, cl_processID (ev_clients h ! i))" by (simp add: wants_def Let_def)
  have ri: "reg h i = Some (l, c)" using i by (simp add: reg_def)
  have A: "listens h t l' = Some c' \<longleftrightarrow> (\<exists>j. reg h j = Some (l', c') \<and> fst (wants h j) = t)"
    and B: "map_of (ev_processIDs h) l' = Some pid \<longleftrightarrow> (\<exists>j c. reg h j = Some (l', c) \<and> snd (wants h j) = pid \<and> pid \<noteq> [])" for t l' c' pid
    using ok by (simp_all add: ev_ok_def tables_ok_def)
  have "listens h ?t l = Some c" using A ri wi by auto
  then have "listens h ?t l \<noteq> None" by simp
  note r = unregister_tables[OF h1_def this]
  have len: "i < length (ev_clients h1)" using i r(3) by simp
  have reg1: "reg h1 = reg h" and wants1: "wants h1 = wants h" using r(3) by (simp_all add: reg_def wants_def fun_eq_iff)
  have reg': "reg ?h j = (if j = i then None else reg h j)" for j
    unfolding reg_set_client[OF len] reg1 using f(2) r(3) by simp
  have wants': "wants ?h j = wants h j" for j by (simp add: wants_set_client[OF f(1)] wants1)
  have uniq: "j = i" if "reg h j = Some (l, c')" for j c' using ok ri that unfolding ev_ok_def ids_ok_def by metis
  have "reg ?h j = Some x \<Longrightarrow> reg h j = Some x" for j x by (simp add: reg' split: if_splits)
  moreover have "ids_ok h" using ok by (simp add: ev_ok_def)
  ultimately have "ids_ok ?h" unfolding ids_ok_def set_client_fields r(1,2) by blast
  moreover have "tables_ok ?h"
  proof -
    have at: "listeners_at t ?h = listeners_at t h1" for t by (simp add: listeners_at_def)
    have "listens h1 t l' = Some c' \<longleftrightarrow> (\<exists>j. reg ?h j = Some (l', c') \<and> fst (wants ?h j) = t)" for t l' c'
    proof (cases "l' = l")
      case True
      have "listens h t l \<noteq> Some c'" if "t \<noteq> ?t" using A[of t l c'] uniq wi that by auto
      then have "listens h1 t l' \<noteq> Some c'" unfolding r(5) using True by auto
      moreover have "\<not> (\<exists>j. reg ?h j = Some (l', c') \<and> fst (wants ?h j) = t)" unfolding reg' ex_upd_None using True uniq by blast
      ultimately show ?thesis by blast
    next
      case False
      then have "j \<noteq> i" if "reg h j = Some (l', c')" for j using ri that by auto
      then show ?thesis unfolding r(5) reg' wants' ex_upd_None using False A[of t l' c'] by auto
    qed
    moreover have "map_of (ev_processIDs h1) l' = Some pid \<longleftrightarrow> (\<exists>j c. reg ?h j = Some (l', c) \<and> snd (wants ?h j) = pid \<and> pid \<noteq> [])" for l' pid
    proof (cases "l' = l")
      case True
      then show ?thesis unfolding r(6) reg' using uniq by (auto split: if_splits)
    next
      case False
      then have "j \<noteq> i" if "reg h j = Some (l', c')" for j c' using ri that by auto
      then show ?thesis unfolding r(6) reg' wants' using False B[of l' pid] by auto
    qed
    ultimately show ?thesis unfolding tables_ok_def at set_client_fields by blast
  qed
  moreover have "shape_ok ?h" using ok r(7) by (simp add: ev_ok_def shape_ok_def)
  ultimately show ?thesis by (simp add: ev_ok_def h1_def)
qed

text \<open>Moves that leave the tables alone.\<close>

lemma same_call_updates [simp]:
  "same_call (\<lambda>c. c\<lparr>cl_phase := g c\<rparr>)" "same_call (\<lambda>c. c\<lparr>cl_processChan := f c\<rparr>)"
  "same_call (\<lambda>c. c\<lparr>cl_processChan := f c, cl_phase := g c\<rparr>)"
  by (simp_all add: same_call_def)

lemma reg_cong: "ev_clients h' = ev_clients h \<Longrightarrow> reg h' = reg h" "ev_clients h' = ev_clients h \<Longrightarrow> wants h' = wants h"
  by (simp_all add: fun_eq_iff reg_def wants_def)

lemma ev_ok_channels:
  assumes "ev_ok h" "length cs = length (ev_channels h)"
  shows "ev_ok (h\<lparr>ev_channels := cs\<rparr>)"
  by (rule ev_ok_neutral[OF assms(1)]) (use assms(2) in \<open>simp_all add: reg_def wants_def\<close>)

lemma ev_ok_worker: "ev_ok h \<Longrightarrow> ev_ok (h\<lparr>ev_worker := w\<rparr>)"
  by (rule ev_ok_neutral[of h]) (simp_all add: reg_def wants_def)

lemma ev_ok_call: "ev_ok h \<Longrightarrow> ev_ok (h\<lparr>ev_clients := ev_clients h @ [new_client ty st pid fw]\<rparr>)"
  by (rule ev_ok_neutral[of h]) (auto simp: reg_def wants_def nth_append reg_of_def new_client_def less_Suc_eq split: if_splits)

lemma ev_ok_step:
  assumes ok: "ev_ok h" and step: "ev_step m h = Some h'"
  shows "ev_ok h'"
proof (cases m)
  case (Call c)
  then show ?thesis using step ev_ok_call[OF ok] by auto
next
  case (ServeRegister i)
  let ?c = "ev_clients h ! i"
  obtain l ch h1 where r: "register (cl_executorType ?c) (cl_state ?c) (cl_processID ?c) h = ((l, ch), h1)"
    by (metis surj_pair)
  have i: "i < length (ev_clients h)" "reg_of ?c = None" and h': "h' = set_client i (\<lambda>c. c\<lparr>cl_phase := Listening l ch\<rparr>) h1"
    using step ServeRegister r by (auto simp: serve_register_def reg_of_def Let_def split: if_splits)
  show ?thesis unfolding h' by (rule ev_ok_register[OF ok i r]) (simp_all add: reg_of_def)
next
  case (ServeUnregister i)
  let ?c = "ev_clients h ! i"
  obtain l ch r where i: "i < length (ev_clients h)" and ph: "cl_phase ?c = Leaving l ch r"
    and h': "h' = set_client i (\<lambda>c. c\<lparr>cl_phase := Left r\<rparr>) (unregister (cl_executorType ?c) (cl_state ?c) l h)"
    using step ServeUnregister by (auto simp: serve_unregister_def Let_def split: if_splits client_phase.splits)
  show ?thesis unfolding h' by (rule ev_ok_unregister[OF ok i]) (simp_all add: reg_of_def ph)
next
  case (Receive i)
  obtain l ch p rest where i: "i < length (ev_clients h)" and ph: "cl_phase (ev_clients h ! i) = Listening l ch"
    and h': "h' = set_client i (\<lambda>c. c\<lparr>cl_phase := (if cl_forwards c then Forwarding l ch p else Leaving l ch (Some p))\<rparr>)
      (h\<lparr>ev_channels := (ev_channels h)[ch := rest]\<rparr>)"
    using step Receive by (auto simp: client_receive_def split: if_splits client_phase.splits list.splits)
  show ?thesis unfolding h' by (rule ev_ok_client[OF ev_ok_channels[OF ok]]) (simp_all add: i ph reg_of_def)
next
  case (Hand_on i)
  then show ?thesis using step ok
    by (auto simp: client_hand_on_def reg_of_def intro!: ev_ok_client split: if_splits client_phase.splits)
next
  case (Done i)
  then show ?thesis using step ok
    by (auto simp: client_done_def reg_of_def intro!: ev_ok_client split: if_splits client_phase.splits)
next
  case (Read i)
  then show ?thesis using step ok by (auto simp: client_read_def reg_of_def intro!: ev_ok_client split: if_splits)
next
  case Send
  then show ?thesis using step ok
    by (auto simp: worker_send_def intro!: ev_ok_worker ev_ok_channels split: if_splits master.splits list.splits)
qed (use step ok ev_ok_worker in \<open>auto split: if_splits\<close>)

lemma ev_ok_run: "ev_ok h \<Longrightarrow> ev_run ms h = Some h' \<Longrightarrow> ev_ok h'"
  by (induction ms arbitrary: h) (auto split: option.splits dest: ev_ok_step)

lemma ev_ok_created: "ev_ok createEventHandler"
  by (simp add: ev_ok_def ids_ok_def tables_ok_def shape_ok_def createEventHandler_def reg_def listeners_at_def)

text \<open>Without clients that are registered the tables are empty.\<close>

lemma ev_ok_empty:
  assumes "ev_ok h" "\<forall>j. reg h j = None"
  shows "ev_listeners h = []" "ev_processIDs h = []"
proof -
  have T: "listens h t l = Some c \<longleftrightarrow> False" "map_of (ev_processIDs h) l = Some pid \<longleftrightarrow> False" for t l c pid
    using assms by (simp_all add: ev_ok_def tables_ok_def)
  show "ev_processIDs h = []"
  proof (cases "ev_processIDs h")
    case (Cons x xs)
    then show ?thesis using T(2)[of "fst x" "snd x"] by (cases x) simp
  qed
  show "ev_listeners h = []"
  proof (cases "ev_listeners h")
    case (Cons x xs)
    then have "snd x \<noteq> []" using assms(1) by (simp add: ev_ok_def shape_ok_def)
    then have "listens h (fst x) (fst (hd (snd x))) = Some (snd (hd (snd x)))"
      using Cons by (cases x; cases "snd x") (auto simp: listeners_at_def)
    then show ?thesis using T(1) by blast
  qed
qed

section \<open>Signals\<close>

lemma target_inj:
  assumes "0 \<le> s" "s \<le> 9" "0 \<le> s'" "s' \<le> 9"
  shows "target ty s = target ty' s' \<longleftrightarrow> ty = ty' \<and> s = s'"
proof -
  have one: "\<exists>x. Itoa s = [x]" "\<exists>x. Itoa s' = [x]" using assms by (simp_all add: Itoa_def digits10.simps)
  have "Itoa s = Itoa s' \<longleftrightarrow> s = s'" using Itoa_nat_inj[of "nat s" "nat s'"] assms by (simp add: eq_nat_nat_iff)
  then show ?thesis using one by (auto simp: target_def)
qed

text \<open>With more digits, two subscriptions that ask for different things have the same target.\<close>

lemma target_collides: "target ''t'' 10 = target ''t1'' 0"
  by code_simp

text \<open>The listeners a process is for.\<close>

definition asked_for :: "eventHandler \<Rightarrow> Process \<Rightarrow> nat \<Rightarrow> bool" where
  "asked_for h process j \<longleftrightarrow>
     fst (wants h j) = target (cond_ExecutorType (spec_Conditions (proc_FunctionSpec process))) (proc_State process) \<and>
     (snd (wants h j) = [] \<or> snd (wants h j) = proc_ID process)"

lemma signal_channels_exact:
  assumes ok: "ev_ok h" and order: "\<And>ls. mset (order ls) = mset ls"
  shows "distinct (signal_channels order p h)"
    "c \<in> set (signal_channels order p h) \<longleftrightarrow> (\<exists>j l. reg h j = Some (l, c) \<and> asked_for h p j)"
proof -
  let ?t = "target (cond_ExecutorType (spec_Conditions (proc_FunctionSpec p))) (proc_State p)"
  let ?ls = "listeners_at ?t h"
  have A: "listens h t l = Some c \<longleftrightarrow> (\<exists>j. reg h j = Some (l, c) \<and> fst (wants h j) = t)"
    and B: "map_of (ev_processIDs h) l = Some pid \<longleftrightarrow> (\<exists>j c. reg h j = Some (l, c) \<and> snd (wants h j) = pid \<and> pid \<noteq> [])" for t l c pid
    using ok by (simp_all add: ev_ok_def tables_ok_def)
  have U: "i = j" if "reg h i = Some (l, c)" "reg h j = Some (l', c')" "l = l' \<or> c = c'" for i j l c l' c'
    using ok that unfolding ev_ok_def ids_ok_def by metis
  have d: "distinct (map fst ?ls)" using ok shape_ok_at by (simp add: ev_ok_def)
  have mem: "(l, c) \<in> set ?ls \<longleftrightarrow> (\<exists>j. reg h j = Some (l, c) \<and> fst (wants h j) = ?t)" for l c
    using A[of ?t l c] map_of_eq_Some_iff[OF d] by simp
  have int: "interested p (ev_processIDs h) (l, c) \<longleftrightarrow> snd (wants h j) = [] \<or> snd (wants h j) = proc_ID p" if j: "reg h j = Some (l, c)" for j l c
  proof (cases "snd (wants h j) = []")
    case True
    then have "map_of (ev_processIDs h) l \<noteq> Some pid" for pid using B[of l pid] U j by blast
    then have "map_of (ev_processIDs h) l = None" by (cases "map_of (ev_processIDs h) l") auto
    then show ?thesis using True by (simp add: interested_def)
  next
    case False
    then have "map_of (ev_processIDs h) l = Some (snd (wants h j))" using B j by blast
    then show ?thesis using False by (auto simp: interested_def)
  qed
  have set: "set (order ?ls) = set ?ls" using order by (metis set_mset_mset)
  show "c \<in> set (signal_channels order p h) \<longleftrightarrow> (\<exists>j l. reg h j = Some (l, c) \<and> asked_for h p j)"
  proof -
    have "c \<in> set (signal_channels order p h) \<longleftrightarrow> (\<exists>l. (l, c) \<in> set ?ls \<and> interested p (ev_processIDs h) (l, c))"
      unfolding signal_channels_def by (auto simp: set image_iff)
    also have "\<dots> \<longleftrightarrow> (\<exists>l j. reg h j = Some (l, c) \<and> fst (wants h j) = ?t \<and> interested p (ev_processIDs h) (l, c))"
      unfolding mem by blast
    also have "\<dots> \<longleftrightarrow> (\<exists>j l. reg h j = Some (l, c) \<and> asked_for h p j)" unfolding asked_for_def using int by blast
    finally show ?thesis .
  qed
  have "inj_on snd (set ?ls)"
  proof (rule inj_onI)
    fix x y assume xy: "x \<in> set ?ls" "y \<in> set ?ls" "snd x = snd y"
    obtain l l' c where x: "x = (l, c)" and y: "y = (l', c)" using xy(3) by (cases x; cases y) simp
    obtain i j where "reg h i = Some (l, c)" "reg h j = Some (l', c)" using xy(1,2) unfolding x y mem by blast
    then have "Some (l, c) = Some (l', c)" using U[of i l c j l' c] by simp
    then show "x = y" by (simp add: x y)
  qed
  then have "distinct (map snd ?ls)" using d by (simp add: distinct_map)
  moreover have "mset (map snd (order ?ls)) = mset (map snd ?ls)" using order by simp
  ultimately have "distinct (map snd (order ?ls))" using mset_eq_imp_distinct_iff by blast
  then show "distinct (signal_channels order p h)" unfolding signal_channels_def by (rule distinct_map_filter)
qed

text \<open>The worker puts the process into one channel after the other, as long as there is room.\<close>

lemma sends_run:
  assumes "distinct cs" "\<forall>c \<in> set cs. c < length (ev_channels h) \<and> length (ev_channels h ! c) < chan_size" "ev_worker h = send_to p cs"
  shows "\<exists>h'. ev_run (replicate (length cs) Send) h = Some h' \<and> ev_worker h' = Idle \<and> ev_clients h' = ev_clients h \<and>
    length (ev_channels h') = length (ev_channels h) \<and>
    (\<forall>c < length (ev_channels h). ev_channels h' ! c = ev_channels h ! c @ (if c \<in> set cs then [p] else []))"
  using assms
proof (induction cs arbitrary: h)
  case Nil
  then show ?case by (simp add: send_to_def)
next
  case (Cons c cs)
  let ?h = "h\<lparr>ev_channels := (ev_channels h)[c := ev_channels h ! c @ [p]], ev_worker := send_to p cs\<rparr>"
  have step: "ev_step Send h = Some ?h" using Cons.prems by (simp add: worker_send_def send_to_def)
  have "\<forall>c' \<in> set cs. c' < length (ev_channels ?h) \<and> length (ev_channels ?h ! c') < chan_size"
    using Cons.prems by (auto simp: nth_list_update)
  then obtain h' where h': "ev_run (replicate (length cs) Send) ?h = Some h'" "ev_worker h' = Idle" "ev_clients h' = ev_clients ?h"
    "length (ev_channels h') = length (ev_channels ?h)"
    "\<forall>c < length (ev_channels ?h). ev_channels h' ! c = ev_channels ?h ! c @ (if c \<in> set cs then [p] else [])"
    using Cons.IH[of ?h] Cons.prems(1) by auto
  then show ?case using step Cons.prems by (intro exI[of _ h']) (auto simp: nth_list_update)
qed

text \<open>
  C15: the tables of the event handler are those of the calls that listen, whatever calls, signals, time-outs and
  interleavings of them there were: every listener has an entry under its target with a channel of its own, a process
  id exactly if it asked for one, and once all have left the tables are empty.
\<close>

theorem listeners_tracked:
  assumes "ev_run ms createEventHandler = Some h"
  shows "tables_ok h \<and> ids_ok h \<and> ((\<forall>c \<in> set (ev_clients h). reg_of c = None) \<longrightarrow> numberOfListeners executorType state h = (0, 0, 0))"
proof -
  have ok: "ev_ok h" using ev_ok_run[OF ev_ok_created assms] .
  have "numberOfListeners executorType state h = (0, 0, 0)" if "\<forall>c \<in> set (ev_clients h). reg_of c = None"
  proof -
    have "\<forall>j. reg h j = None" using that by (simp add: reg_def)
    then show ?thesis using ev_ok_empty[OF ok] by (simp add: numberOfListeners_def listeners_at_def)
  qed
  then show ?thesis using ok by (simp add: ev_ok_def)
qed

text \<open>
  C16: when the worker has served the signal of a process, in a state that any calls and signals led to and in which the
  channels have room, every call that listens has one more process in its channel if its executor type followed by the
  digits of its state is the text made so from the process, and it asked for no other process, and nothing new otherwise.
  Where the states are those of processes (one digit), that is the same executor type and the same state; a subscription
  to state 10 of type t is also one to state 0 of type t1. The colony of the process does not matter.
\<close>

theorem signal_reaches_listeners:
  assumes run: "ev_run ms createEventHandler = Some h" and idle: "ev_worker h = Idle"
    and order: "\<And>ls. mset (order ls) = mset ls"
    and room: "\<forall>ch \<in> set (ev_channels h). length ch < chan_size"
  shows "\<exists>n h'. ev_run (ServeSignal order p # replicate n Send) h = Some h' \<and> ev_worker h' = Idle \<and> ev_clients h' = ev_clients h \<and>
    (\<forall>c \<in> set (ev_clients h). \<forall>l ch. reg_of c = Some (l, ch) \<longrightarrow> ev_channels h' ! ch = ev_channels h ! ch @
      (if target (cl_executorType c) (cl_state c) = target (cond_ExecutorType (spec_Conditions (proc_FunctionSpec p))) (proc_State p) \<and>
          (cl_processID c = [] \<or> cl_processID c = proc_ID p) then [p] else [])) \<and>
    (\<forall>ty st. 0 \<le> st \<and> st \<le> 9 \<and> 0 \<le> proc_State p \<and> proc_State p \<le> 9 \<longrightarrow>
      (target ty st = target (cond_ExecutorType (spec_Conditions (proc_FunctionSpec p))) (proc_State p) \<longleftrightarrow>
       ty = cond_ExecutorType (spec_Conditions (proc_FunctionSpec p)) \<and> st = proc_State p))"
proof -
  have ok: "ev_ok h" using ev_ok_run[OF ev_ok_created run] .
  let ?cs = "signal_channels order p h"
  let ?h = "h\<lparr>ev_worker := send_to p ?cs\<rparr>"
  note cs = signal_channels_exact[OF ok order, where p = p]
  have len: "ch < length (ev_channels h)" if "reg h j = Some (l, ch)" for j l ch using ok that by (auto simp: ev_ok_def ids_ok_def)
  have "\<forall>ch \<in> set ?cs. ch < length (ev_channels ?h) \<and> length (ev_channels ?h ! ch) < chan_size"
    using cs(2) len room by auto
  then obtain h' where h': "ev_run (replicate (length ?cs) Send) ?h = Some h'" "ev_worker h' = Idle" "ev_clients h' = ev_clients h"
    "\<forall>ch < length (ev_channels h). ev_channels h' ! ch = ev_channels h ! ch @ (if ch \<in> set ?cs then [p] else [])"
    using sends_run[OF cs(1), where h = ?h and p = p] by auto
  have "ev_channels h' ! ch = ev_channels h ! ch @
      (if target (cl_executorType c) (cl_state c) = target (cond_ExecutorType (spec_Conditions (proc_FunctionSpec p))) (proc_State p) \<and>
          (cl_processID c = [] \<or> cl_processID c = proc_ID p) then [p] else [])"
    if c: "c \<in> set (ev_clients h)" "reg_of c = Some (l, ch)" for c l ch
  proof -
    obtain j where j: "j < length (ev_clients h)" "ev_clients h ! j = c" using c(1) by (auto simp: in_set_conv_nth)
    then have r: "reg h j = Some (l, ch)" using c(2) by (simp add: reg_def)
    have "ch \<in> set ?cs \<longleftrightarrow> asked_for h p j"
      unfolding cs(2) using r ok unfolding ev_ok_def ids_ok_def by blast
    also have "\<dots> \<longleftrightarrow> target (cl_executorType c) (cl_state c) =
        target (cond_ExecutorType (spec_Conditions (proc_FunctionSpec p))) (proc_State p) \<and>
        (cl_processID c = [] \<or> cl_processID c = proc_ID p)"
      using j by (auto simp: asked_for_def wants_def Let_def)
    finally show ?thesis using h'(4) len[OF r] by simp
  qed
  moreover have "ev_run (ServeSignal order p # replicate (length ?cs) Send) h = Some h'" using h'(1) idle by simp
  ultimately show ?thesis
    using h'(2,3) target_inj by (intro exI[of _ "length ?cs"] exI[of _ h'] conjI allI impI) (blast, simp_all)
qed

section \<open>A subscriber that does not read\<close>

text \<open>The worker waits at a full channel, and the subscriber it belongs to waits at its own full channel.\<close>

definition stuck :: "nat \<Rightarrow> Process \<Rightarrow> nat \<Rightarrow> nat list \<Rightarrow> eventHandler \<Rightarrow> bool" where
  "stuck i p c cs h \<longleftrightarrow>
     ev_worker h = Sending p (c # cs) \<and> chan_size \<le> length (ev_channels h ! c) \<and> i < length (ev_clients h) \<and>
     (\<exists>l q. cl_phase (ev_clients h ! i) = Forwarding l c q) \<and> chan_size \<le> length (cl_processChan (ev_clients h ! i))"

lemma stuck_step:
  assumes ok: "ev_ok h" and stuck: "stuck i p c cs h" and step: "ev_step m h = Some h'" and m: "m \<noteq> Read i"
  shows "stuck i p c cs h'"
proof -
  have busy: "ev_worker h \<noteq> Idle" and i: "i < length (ev_clients h)" using stuck by (simp_all add: stuck_def)
  obtain l q where ph: "cl_phase (ev_clients h ! i) = Forwarding l c q" using stuck by (auto simp: stuck_def)
  then have ri: "reg h i = Some (l, c)" using i by (simp add: reg_def reg_of_def)
  show ?thesis
  proof (cases m)
    case (Call cl)
    then show ?thesis using step stuck by (auto simp: stuck_def nth_append)
  next
    case Send
    then show ?thesis using step stuck by (simp add: stuck_def worker_send_def)
  next
    case (Receive j)
    obtain l' ch x xs where j: "j < length (ev_clients h)" "cl_phase (ev_clients h ! j) = Listening l' ch"
      and h': "h' = set_client j (\<lambda>c. c\<lparr>cl_phase := (if cl_forwards c then Forwarding l' ch x else Leaving l' ch (Some x))\<rparr>)
        (h\<lparr>ev_channels := (ev_channels h)[ch := xs]\<rparr>)"
      using step Receive by (auto simp: client_receive_def split: if_splits client_phase.splits list.splits)
    have rj: "reg h j = Some (l', ch)" using j by (simp add: reg_def reg_of_def)
    have "j \<noteq> i" using j(2) ph by auto
    then have "ch \<noteq> c" using ok ri rj unfolding ev_ok_def ids_ok_def by blast
    then show ?thesis using stuck \<open>j \<noteq> i\<close> unfolding h' stuck_def by (simp add: set_client_def)
  next
    case (Hand_on j)
    then have "j \<noteq> i" using step stuck ph by (auto simp: client_hand_on_def stuck_def)
    then show ?thesis using step stuck Hand_on
      by (auto simp: client_hand_on_def stuck_def set_client_def split: if_splits client_phase.splits)
  next
    case (Done j)
    then have "j \<noteq> i" using step ph i by (auto simp: client_done_def split: if_splits)
    then show ?thesis using step stuck Done
      by (auto simp: client_done_def stuck_def set_client_def split: if_splits client_phase.splits)
  next
    case (Read j)
    then show ?thesis using step stuck m by (auto simp: client_read_def stuck_def set_client_def split: if_splits)
  qed (use step busy in \<open>auto simp: serve_register_def serve_unregister_def split: if_splits\<close>)
qed

lemma stuck_run:
  "ev_ok h \<Longrightarrow> stuck i p c cs h \<Longrightarrow> ev_run ms h = Some h' \<Longrightarrow> Read i \<notin> set ms \<Longrightarrow> stuck i p c cs h'"
proof (induction ms arbitrary: h)
  case (Cons m ms)
  obtain h1 where h1: "ev_step m h = Some h1" "ev_run ms h1 = Some h'" using Cons.prems(3) by (auto split: option.splits)
  have "stuck i p c cs h1" using stuck_step[OF Cons.prems(1,2) h1(1)] Cons.prems(4) by auto
  then show ?case using Cons.IH[OF ev_ok_step[OF Cons.prems(1) h1(1)] _ h1(2)] Cons.prems(4) by simp
qed simp

text \<open>How it comes to that: 202 signals of processes that a subscriber asked for.\<close>

definition subscriber_of :: "Process \<Rightarrow> client" where
  "subscriber_of p = new_client (cond_ExecutorType (spec_Conditions (proc_FunctionSpec p))) (proc_State p) [] True"

definition one_signal :: "Process \<Rightarrow> ev_move list" where
  "one_signal p = [ServeSignal (\<lambda>ls. ls) p, Send]"

definition flood :: "Process \<Rightarrow> ev_move list" where
  "flood p = [Call (subscriber_of p), ServeRegister 0] @ concat (replicate 100 (one_signal p @ [Receive 0, Hand_on 0])) @
     one_signal p @ [Receive 0] @ concat (replicate 100 (one_signal p)) @ [ServeSignal (\<lambda>ls. ls) p]"

definition flooded :: "Process \<Rightarrow> nat \<Rightarrow> nat \<Rightarrow> client_phase \<Rightarrow> master \<Rightarrow> eventHandler" where
  "flooded p n m ph w =
     \<lparr>ev_listeners = [(target (cond_ExecutorType (spec_Conditions (proc_FunctionSpec p))) (proc_State p), [(Itoa 0, 0)])],
      ev_processIDs = [], ev_idCounter = 1, ev_channels = [replicate m p], ev_worker = w,
      ev_clients = [(subscriber_of p)\<lparr>cl_processChan := replicate n p, cl_phase := ph\<rparr>]\<rparr>"

lemma ev_run_append: "ev_run (ms @ ms') h = (case ev_run ms h of None \<Rightarrow> None | Some h' \<Rightarrow> ev_run ms' h')"
  by (induction ms arbitrary: h) (auto split: option.splits)

lemma flooded_register: "ev_run [Call (subscriber_of p), ServeRegister 0] createEventHandler = Some (flooded p 0 0 (Listening (Itoa 0) 0) Idle)"
  by (simp add: createEventHandler_def subscriber_of_def new_client_def serve_register_def register_def Let_def flooded_def
      set_client_def listeners_at_def)

lemma flooded_serve: "ev_step (ServeSignal (\<lambda>ls. ls) p) (flooded p n m ph Idle) = Some (flooded p n m ph (Sending p [0]))"
  by (simp add: flooded_def signal_channels_def listeners_at_def interested_def send_to_def)

lemma flooded_signal: "m < 100 \<Longrightarrow> ev_run (one_signal p) (flooded p n m ph Idle) = Some (flooded p n (Suc m) ph Idle)"
  unfolding one_signal_def ev_run.simps flooded_serve
  by (simp add: flooded_def worker_send_def send_to_def chan_size_def replicate_append_same)

lemma flooded_receive:
  "ev_run [Receive 0] (flooded p n (Suc m) (Listening l 0) Idle) = Some (flooded p n m (Forwarding l 0 p) Idle)"
  by (simp add: flooded_def client_receive_def set_client_def subscriber_of_def new_client_def)

lemma flooded_round:
  "n < 100 \<Longrightarrow> ev_run (one_signal p @ [Receive 0, Hand_on 0]) (flooded p n 0 (Listening l 0) Idle) = Some (flooded p (Suc n) 0 (Listening l 0) Idle)"
  by (simp add: ev_run_append flooded_signal)
    (simp add: flooded_def client_receive_def client_hand_on_def set_client_def subscriber_of_def new_client_def chan_size_def replicate_append_same)

lemma flooded_rounds:
  "n + k \<le> 100 \<Longrightarrow> ev_run (concat (replicate k (one_signal p @ [Receive 0, Hand_on 0]))) (flooded p n 0 (Listening l 0) Idle) =
    Some (flooded p (n + k) 0 (Listening l 0) Idle)"
proof (induction k arbitrary: n)
  case (Suc k)
  let ?r = "one_signal p @ [Receive 0, Hand_on 0]"
  have "ev_run (concat (replicate (Suc k) ?r)) h =
      (case ev_run ?r h of None \<Rightarrow> None | Some h' \<Rightarrow> ev_run (concat (replicate k ?r)) h')" for h
    using ev_run_append[of ?r "concat (replicate k ?r)" h] by simp
  then show ?case using flooded_round[of n p l] Suc.IH[of "Suc n"] Suc.prems by simp
qed simp

lemma flooded_signals:
  "m + k \<le> 100 \<Longrightarrow> ev_run (concat (replicate k (one_signal p))) (flooded p n m ph Idle) = Some (flooded p n (m + k) ph Idle)"
  by (induction k arbitrary: m) (simp_all add: ev_run_append flooded_signal)

lemma flood_run: "ev_run (flood p) createEventHandler = Some (flooded p 100 100 (Forwarding (Itoa 0) 0 p) (Sending p [0]))"
proof -
  let ?l = "Itoa 0"
  have "ev_run (one_signal p @ [Receive 0] @ ms) (flooded p 100 0 (Listening ?l 0) Idle) =
      ev_run ms (flooded p 100 0 (Forwarding ?l 0 p) Idle)" for ms
    using flooded_signal[of 0 p 100] flooded_receive[of p 100 0 ?l] ev_run_append[of "[Receive 0]" ms] by (simp add: ev_run_append[of "one_signal p"])
  then show ?thesis using flooded_rounds[of 0 100 p ?l] flooded_signals[of 0 100 p 100 "Forwarding ?l 0 p"]
    unfolding flood_def ev_run_append[of "[Call (subscriber_of p), ServeRegister 0]"] flooded_register
    by (simp add: ev_run_append[of "concat (replicate 100 (one_signal p @ [Receive 0, Hand_on 0]))"]
        ev_run_append[of "concat (replicate 100 (one_signal p))"] flooded_serve del: ev_step.simps)
qed

text \<open>
  C30: a subscriber that stops reading stops the event handler. After 202 signals of processes it asked for, its two
  channels are full, the worker waits at one of them, and for as long as the subscriber does not read, whatever else
  happens, no call is registered or unregistered and no signal is served, also not after its time is over.
\<close>

theorem silent_subscriber_blocks:
  assumes "Read 0 \<notin> set ms" "ev_run (flood p @ ms) createEventHandler = Some h"
  shows "ev_worker h = Sending p [0] \<and> ev_step (ServeSignal order q) h = None \<and> ev_step (ServeRegister j) h = None \<and>
    ev_step (ServeUnregister j) h = None \<and> ev_step Send h = None"
proof -
  let ?f = "flooded p 100 100 (Forwarding (Itoa 0) 0 p) (Sending p [0])"
  have run: "ev_run ms ?f = Some h" using assms(2) by (simp add: ev_run_append flood_run)
  have "stuck 0 p 0 [] ?f" by (simp add: stuck_def flooded_def chan_size_def)
  then have "stuck 0 p 0 [] h" using stuck_run[OF ev_ok_run[OF ev_ok_created flood_run] _ run assms(1)] by blast
  then show ?thesis by (auto simp: stuck_def serve_register_def serve_unregister_def worker_send_def)
qed

section \<open>Examples\<close>

definition demo_process :: "string \<Rightarrow> string \<Rightarrow> Process" where
  "demo_process pid colonyName = CreateProcess pid (CreateEmptyFunctionSpec\<lparr>spec_Conditions :=
     zero_Conditions\<lparr>cond_ColonyName := colonyName, cond_ExecutorType := ''t''\<rparr>\<rparr>)"

lemma demo_process_fields [simp]:
  "proc_ID (demo_process pid c) = pid" "proc_State (demo_process pid c) = 0"
  "cond_ExecutorType (spec_Conditions (proc_FunctionSpec (demo_process pid c))) = ''t''"
  by (simp_all add: demo_process_def CreateProcess_def WAITING_def)

text \<open>A call of \<open>waitForProcess\<close> for any process, and one for the process \<open>q\<close>.\<close>

definition demo_waiters :: "ev_move list" where
  "demo_waiters = [Call (new_client ''t'' 0 [] False), Call (new_client ''t'' 0 ''q'' False), ServeRegister 0, ServeRegister 1]"

definition demo_waiting :: eventHandler where
  "demo_waiting =
     \<lparr>ev_listeners = [(''t0'', [(''0'', 0), (''1'', 1)])], ev_processIDs = [(''1'', ''q'')], ev_idCounter = 2, ev_channels = [[], []],
      ev_worker = Idle, ev_clients = [(new_client ''t'' 0 [] False)\<lparr>cl_phase := Listening ''0'' 0\<rparr>,
        (new_client ''t'' 0 ''q'' False)\<lparr>cl_phase := Listening ''1'' 1\<rparr>]\<rparr>"

lemma demo_Itoa: "Itoa 0 = ''0''" "Itoa 1 = ''1''"
  by code_simp+

lemma demo_waiters_run: "ev_run demo_waiters createEventHandler = Some demo_waiting"
  by (simp add: demo_waiters_def createEventHandler_def new_client_def serve_register_def register_def Let_def demo_waiting_def
      set_client_def listeners_at_def target_def demo_Itoa)

theorem listeners_tracked_witness:
  "\<exists>h. ev_run (demo_waiters @ [Done 0, ServeUnregister 0, Done 1, ServeUnregister 1]) createEventHandler = Some h \<and>
    numberOfListeners ''t'' 0 h = (0, 0, 0)"
proof -
  let ?h = "demo_waiting\<lparr>ev_listeners := [], ev_processIDs := [], ev_clients := [(new_client ''t'' 0 [] False)\<lparr>cl_phase := Left None\<rparr>,
    (new_client ''t'' 0 ''q'' False)\<lparr>cl_phase := Left None\<rparr>]\<rparr>"
  have t: "target ''t'' 0 = ''t0''" by (simp add: target_def demo_Itoa)
  have run: "ev_run (demo_waiters @ [Done 0, ServeUnregister 0, Done 1, ServeUnregister 1]) createEventHandler = Some ?h"
    unfolding ev_run_append demo_waiters_run
    by (simp add: demo_waiting_def new_client_def client_done_def set_client_def serve_unregister_def unregister_def Let_def t listeners_at_def)
  moreover have "\<forall>c \<in> set (ev_clients ?h). reg_of c = None" by (simp add: reg_of_def)
  ultimately show ?thesis using listeners_tracked[OF run, of "''t''" 0] by blast
qed

theorem signal_reaches_listeners_witness:
  "\<exists>n h. ev_run (ServeSignal rev (demo_process ''p'' ''c'') # replicate n Send) demo_waiting = Some h \<and>
    ev_channels h ! 0 = [demo_process ''p'' ''c''] \<and> ev_channels h ! 1 = []"
proof -
  have "ev_worker demo_waiting = Idle" "\<forall>ch \<in> set (ev_channels demo_waiting). length ch < chan_size"
    by (simp_all add: demo_waiting_def chan_size_def)
  from signal_reaches_listeners[OF demo_waiters_run this(1) _ this(2), of rev "demo_process ''p'' ''c''"]
  obtain n h where h: "ev_run (ServeSignal rev (demo_process ''p'' ''c'') # replicate n Send) demo_waiting = Some h"
    "\<forall>c \<in> set (ev_clients demo_waiting). \<forall>l ch. reg_of c = Some (l, ch) \<longrightarrow> ev_channels h ! ch = ev_channels demo_waiting ! ch @
      (if target (cl_executorType c) (cl_state c) = target ''t'' 0 \<and> (cl_processID c = [] \<or> cl_processID c = ''p'') then [demo_process ''p'' ''c''] else [])"
    by (auto simp del: ev_run.simps)
  from h(2) have "ev_channels h ! 0 = [demo_process ''p'' ''c'']" "ev_channels h ! 1 = []"
    by (simp_all add: demo_waiting_def new_client_def reg_of_def)
  then show ?thesis using h(1) by blast
qed

theorem silent_subscriber_blocks_witness:
  "\<exists>h. ev_run (flood (demo_process ''p'' ''c'') @ [Call (new_client ''t'' 0 [] False)]) createEventHandler = Some h \<and>
    ev_worker h = Sending (demo_process ''p'' ''c'') [0]"
proof -
  have "ev_run (flood (demo_process ''p'' ''c'') @ [Call (new_client ''t'' 0 [] False)]) createEventHandler \<noteq> None"
    by (simp add: ev_run_append flood_run)
  then obtain h where h: "ev_run (flood (demo_process ''p'' ''c'') @ [Call (new_client ''t'' 0 [] False)]) createEventHandler = Some h" by blast
  have "Read 0 \<notin> set [Call (new_client ''t'' 0 [] False)]" by simp
  from silent_subscriber_blocks[OF this h] show ?thesis using h by blast
qed

end
