(* ===== verification/Subscriptions.thy ===== *)
theory Subscriptions
  imports Request_Facts Event_Facts
begin

text \<open>
  Subscriptions over web sockets: the loop that reads requests from a socket (\<open>src/pkg/server/ws_handler.go\<close>), the
  commands of the controller (\<open>colonies_controller.go\<close>) and the calls of the event handler they lead to
  (\<open>ws_subscription.go\<close>). Decoding and signatures are parameters, writing to a socket does not fail.
\<close>

section \<open>Messages\<close>

record SubscribeProcessesMsg = rpc_msg +
  SubscribeProcesses_ColonyName :: string
  SubscribeProcesses_ExecutorType :: string
  SubscribeProcesses_State :: int
  SubscribeProcesses_Timeout :: int

record SubscribeProcessMsg = rpc_msg +
  SubscribeProcess_ColonyName :: string
  SubscribeProcess_ProcessID :: string
  SubscribeProcess_ExecutorType :: string
  SubscribeProcess_State :: int
  SubscribeProcess_Timeout :: int

text \<open>The connection of a subscription is the one the request came from.\<close>

record subscription =
  sub_timeout :: int
  sub_executorType :: string
  sub_state :: int
  sub_processID :: string

definition createProcessesSubscription :: "string \<Rightarrow> int \<Rightarrow> int \<Rightarrow> subscription" where
  "createProcessesSubscription executorType timeout state =
     \<lparr>sub_timeout = timeout, sub_executorType = executorType, sub_state = state, sub_processID = []\<rparr>"

definition createProcessSubscription :: "string \<Rightarrow> string \<Rightarrow> int \<Rightarrow> int \<Rightarrow> subscription" where
  "createProcessSubscription processID executorType timeout state =
     \<lparr>sub_timeout = timeout, sub_executorType = executorType, sub_state = state, sub_processID = processID\<rparr>"

text \<open>What is written to the socket, or by gin to the connection it has given up.\<close>

datatype ws_event = WsError string nat | WsProcess Process | HttpError string nat

section \<open>Subscribing\<close>

text \<open>
  The goroutine of a subscription calls the event handler, and writes what it is handed to the socket until the
  timeout. What is written at once is paired with the call.
\<close>

definition ws_subscribe :: "string \<Rightarrow> subscription \<Rightarrow> client" where
  "ws_subscribe processID subscription = new_client (sub_executorType subscription) (sub_state subscription) processID True"

definition addProcessesSubscriber :: "subscription \<Rightarrow> ws_event list \<times> client" where
  "addProcessesSubscriber subscription = ([], ws_subscribe [] subscription)"

definition addProcessSubscriber :: "Process \<Rightarrow> subscription \<Rightarrow> ws_event list \<times> client" where
  "addProcessSubscriber process subscription =
     (if proc_State process = sub_state subscription then [WsProcess process] else [], ws_subscribe (proc_ID process) subscription)"

definition subscribeProcesses :: "subscription \<Rightarrow> (ws_event list \<times> client) ctl" where
  "subscribeProcesses subscription = retM (addProcessesSubscriber subscription)"

definition subscribeProcess :: "subscription \<Rightarrow> (ws_event list \<times> client) ctl" where
  "subscribeProcess subscription =
     bindM (GetProcessByID (sub_processID subscription)) (\<lambda>found.
     case found of
       None \<Rightarrow> throwM (Err (''Invalid process with Id '' @ sub_processID subscription))
     | Some process \<Rightarrow> retM (addProcessSubscriber process subscription))"

section \<open>Requests\<close>

text \<open>What a request writes, the call it starts, and whether the loop goes on.\<close>

type_synonym ws_reply = "ws_event list \<times> client option \<times> bool"

definition sendWSErrorMsg :: "string \<Rightarrow> nat \<Rightarrow> ws_reply ctl" where
  "sendWSErrorMsg err errorCode = retM ([WsError err errorCode], None, False)"

definition orWSError :: "'a ctl \<Rightarrow> ('a \<Rightarrow> ws_reply ctl) \<Rightarrow> ws_reply ctl" where
  "orWSError m k = bindM (tryM m) (\<lambda>res.
     case res of Inl err \<Rightarrow> sendWSErrorMsg (err_text err) StatusForbidden | Inr x \<Rightarrow> k x)"

definition started :: "ws_event list \<times> client \<Rightarrow> ws_reply ctl" where
  "started = (\<lambda>(evs, call). retM (evs, Some call, True))"

definition handleSubscribeProcesses :: "string \<Rightarrow> string \<Rightarrow> failure + SubscribeProcessesMsg \<Rightarrow> ws_reply ctl" where
  "handleSubscribeProcesses recoveredID payloadType parsed =
     (case parsed of
        Inl err \<Rightarrow> retM ([HttpError (err_text err) StatusBadRequest, WsError (err_text err) StatusForbidden], None, False)
      | Inr msg \<Rightarrow>
          if MsgType msg \<noteq> payloadType
          then sendWSErrorMsg ''Failed to subscribe to processes, msg.msgType does not match rpcMsg.PayloadType'' StatusForbidden
          else orWSError (RequireMembership recoveredID (SubscribeProcesses_ColonyName msg) True) (\<lambda>_.
            orWSError (subscribeProcesses (createProcessesSubscription (SubscribeProcesses_ExecutorType msg)
              (SubscribeProcesses_Timeout msg) (SubscribeProcesses_State msg))) started))"

definition handleSubscribeProcess :: "string \<Rightarrow> string \<Rightarrow> failure + SubscribeProcessMsg \<Rightarrow> ws_reply ctl" where
  "handleSubscribeProcess recoveredID payloadType parsed =
     (case parsed of
        Inl err \<Rightarrow> retM ([HttpError (err_text err) StatusBadRequest], None, False)
      | Inr msg \<Rightarrow>
          if MsgType msg \<noteq> payloadType
          then sendWSErrorMsg ''Failed to subscribe to process, msg.msgType does not match rpcMsg.PayloadType'' StatusForbidden
          else orWSError (RequireMembership recoveredID (SubscribeProcess_ColonyName msg) True) (\<lambda>_.
            orWSError (GetProcessByID (SubscribeProcess_ProcessID msg)) (\<lambda>found.
            case found of
              None \<Rightarrow> sendWSErrorMsg ''Failed to subscribe to process, process not found'' StatusForbidden
            | Some process \<Rightarrow>
                if cond_ColonyName (spec_Conditions (proc_FunctionSpec process)) \<noteq> SubscribeProcess_ColonyName msg
                then sendWSErrorMsg ''Failed to subscribe to process, process does not belong to colony'' StatusForbidden
                else orWSError (subscribeProcess (createProcessSubscription (SubscribeProcess_ProcessID msg)
                  (SubscribeProcess_ExecutorType msg) (SubscribeProcess_Timeout msg) (SubscribeProcess_State msg))) started)))"

record ws_env =
  ws_RPCMsg :: "string \<Rightarrow> failure + RPCMsg"
  ws_recoverID :: "string \<Rightarrow> string \<Rightarrow> failure + string"
  ws_decodePayload :: "string \<Rightarrow> string"
  dec_SubscribeProcessesMsg :: "string \<Rightarrow> failure + SubscribeProcessesMsg"
  dec_SubscribeProcessMsg :: "string \<Rightarrow> failure + SubscribeProcessMsg"

text \<open>A request of another type is not answered.\<close>

definition handleWSMessage :: "ws_env \<Rightarrow> string \<Rightarrow> ws_reply ctl" where
  "handleWSMessage env data =
     (case ws_RPCMsg env data of
        Inl err \<Rightarrow> retM ([HttpError (err_text err) StatusBadRequest], None, False)
      | Inr rpcMsg \<Rightarrow>
          (case ws_recoverID env (rpc_Payload rpcMsg) (rpc_Signature rpcMsg) of
             Inl err \<Rightarrow> retM ([HttpError (err_text err) StatusForbidden], None, False)
           | Inr recoveredID \<Rightarrow>
               (let payloadType = rpc_PayloadType rpcMsg; jsonString = ws_decodePayload env (rpc_Payload rpcMsg) in
                if payloadType = ''subscribeprocessesmsg''
                then handleSubscribeProcesses recoveredID payloadType (dec_SubscribeProcessesMsg env jsonString)
                else if payloadType = ''subscribeprocessmsg''
                then handleSubscribeProcess recoveredID payloadType (dec_SubscribeProcessMsg env jsonString)
                else retM ([], None, True))))"

text \<open>The messages of a socket until one ends the loop or reading fails.\<close>

fun handleWSRequest :: "ws_env \<Rightarrow> string list \<Rightarrow> (ws_event list \<times> client list) ctl" where
  "handleWSRequest env [] = retM ([], [])"
| "handleWSRequest env (data # rest) =
     bindM (handleWSMessage env data) (\<lambda>(evs, call, more).
     if more then bindM (handleWSRequest env rest) (\<lambda>(evs', calls). retM (evs @ evs', (case call of None \<Rightarrow> [] | Some c \<Rightarrow> [c]) @ calls))
     else retM (evs, case call of None \<Rightarrow> [] | Some c \<Rightarrow> [c]))"

section \<open>Who is told what\<close>

text \<open>
  C31: a member of one colony that subscribes to processes of an executor type and state is handed every process of that
  type and state, of whatever colony: membership of the colony the request names is checked, but neither the
  subscription nor the signal of a process carries a colony.
\<close>

theorem subscription_crosses_colonies:
  assumes "RequireMembership recoveredID (SubscribeProcesses_ColonyName msg) True s = (Inr (), s')" "MsgType msg = payloadType"
    and "cond_ExecutorType (spec_Conditions (proc_FunctionSpec p)) = SubscribeProcesses_ExecutorType msg"
    and "proc_State p = SubscribeProcesses_State msg"
  shows "\<exists>call h. handleSubscribeProcesses recoveredID payloadType (Inr msg) s = (Inr ([], Some call, True), s') \<and>
    ev_run ([Call call, ServeRegister 0] @ [ServeSignal (\<lambda>ls. ls) p, Send, Receive 0, Hand_on 0]) createEventHandler = Some h \<and>
    cl_processChan (ev_clients h ! 0) = [p]"
proof -
  have "handleSubscribeProcesses recoveredID payloadType (Inr msg) s = (Inr ([], Some (subscriber_of p), True), s')"
    using assms by (simp add: handleSubscribeProcesses_def orWSError_def subscribeProcesses_def addProcessesSubscriber_def
        ws_subscribe_def createProcessesSubscription_def started_def subscriber_of_def op_simps)
  moreover have "ev_run ([Call (subscriber_of p), ServeRegister 0] @ one_signal p @ [Receive 0, Hand_on 0]) createEventHandler =
      Some (flooded p (Suc 0) 0 (Listening (Itoa 0) 0) Idle)"
    unfolding ev_run_append[of "[Call (subscriber_of p), ServeRegister 0]"] flooded_register using flooded_round[of 0 p] by simp
  moreover have "cl_processChan (ev_clients (flooded p (Suc 0) 0 (Listening (Itoa 0) 0) Idle) ! 0) = [p]" by (simp add: flooded_def)
  ultimately show ?thesis unfolding one_signal_def append_Cons append_Nil by blast
qed

text \<open>A user of the colony \<open>c\<close> and a process of the colony \<open>d\<close>.\<close>

definition demo_members :: ctl_state where
  "demo_members = demo_server\<lparr>EXECUTORS := [], USERS := [\<lparr>US_NAME = ''c:u'', US_USER_ID = ''u'', US_COLONY_NAME = ''c'', US_EMAIL = [], US_PHONE = []\<rparr>]\<rparr>"

lemma demo_membership: "RequireMembership ''u'' ''c'' True demo_members = (Inr (), demo_members)"
proof -
  have h: "healthy demo_members" "\<forall>r \<in> set (EXECUTORS demo_members). executor_row_ok r" "''c'' \<in> set (map CO_NAME (COLONIES demo_members))"
    "known_user demo_members ''u'' ''c''"
    using demo_server_tables by (simp_all add: demo_members_def healthy_def known_user_def)
  have u: "\<forall>r \<in> set (USERS demo_members). user_row_ok r"
    by (simp add: demo_members_def user_row_ok_def no_colon_def colony_key_def)
  note e = checkIfExecutorIsValid_run[OF h(1,2), of "''c''" "''u''" True] and u = checkIfUserIsValid_run[OF h(1) u, of "''c''" "''u''"]
  show ?thesis by (rule e; rule u) (use h(3,4) in \<open>auto simp: RequireMembership_def bindM_def tryM_def\<close>)
qed

theorem subscription_crosses_colonies_witness:
  "cond_ColonyName (spec_Conditions (proc_FunctionSpec (demo_process ''p'' ''d''))) = ''d'' \<and>
   (\<exists>call h. handleSubscribeProcesses ''u'' ''m'' (Inr \<lparr>MsgType = ''m'', SubscribeProcesses_ColonyName = ''c'',
        SubscribeProcesses_ExecutorType = ''t'', SubscribeProcesses_State = 0, SubscribeProcesses_Timeout = 10\<rparr>) demo_members =
      (Inr ([], Some call, True), demo_members) \<and>
    ev_run ([Call call, ServeRegister 0] @ [ServeSignal (\<lambda>ls. ls) (demo_process ''p'' ''d''), Send, Receive 0, Hand_on 0]) createEventHandler = Some h \<and>
    cl_processChan (ev_clients h ! 0) = [demo_process ''p'' ''d''])"
proof
  show "cond_ColonyName (spec_Conditions (proc_FunctionSpec (demo_process ''p'' ''d''))) = ''d''"
    by (simp add: demo_process_def CreateProcess_def)
  let ?m = "\<lparr>MsgType = ''m'', SubscribeProcesses_ColonyName = ''c'', SubscribeProcesses_ExecutorType = ''t'',
    SubscribeProcesses_State = 0, SubscribeProcesses_Timeout = 10\<rparr>"
  have "RequireMembership ''u'' (SubscribeProcesses_ColonyName ?m) True demo_members = (Inr (), demo_members)" by (simp add: demo_membership)
  from subscription_crosses_colonies[OF this, of "''m''" "demo_process ''p'' ''d''"]
  show "\<exists>call h. handleSubscribeProcesses ''u'' ''m'' (Inr ?m) demo_members = (Inr ([], Some call, True), demo_members) \<and>
    ev_run ([Call call, ServeRegister 0] @ [ServeSignal (\<lambda>ls. ls) (demo_process ''p'' ''d''), Send, Receive 0, Hand_on 0]) createEventHandler = Some h \<and>
    cl_processChan (ev_clients h ! 0) = [demo_process ''p'' ''d'']" by (simp del: ev_run.simps append_Cons append_Nil)
qed

end
