(* ===== verification/Rpc_Messages.thy ===== *)
theory Rpc_Messages
  imports Api
begin

text \<open>
  The constructors of the messages of \<open>src/pkg/rpc\<close>: what a client puts into a request. Fields a constructor does not
  set have the zero value of their type; a pointer argument may be nil.
\<close>

record RPCReplyMsg =
  reply_PayloadType :: string
  reply_Payload :: string
  reply_Error :: bool

record Failure =
  failure_Status :: int
  failure_Message :: string

text \<open>What both sides use of base64 and JSON. A decoder gives an error or a pointer, which is nil for the document \<open>null\<close>.\<close>

record wire_codec =
  base64 :: "string \<Rightarrow> string"
  unbase64 :: "string \<Rightarrow> string"
  RPCMsg_ToJSON :: "RPCMsg \<Rightarrow> failure + string"
  CreateRPCMsgFromJSON :: "string \<Rightarrow> failure + RPCMsg"
  RPCReplyMsg_ToJSON :: "RPCReplyMsg option \<Rightarrow> failure + string"
  CreateRPCReplyMsgFromJSON :: "string \<Rightarrow> failure + (RPCReplyMsg option)"
  Failure_ToJSON :: "Failure \<Rightarrow> failure + string"
  ConvertJSONToFailure :: "string \<Rightarrow> failure + (Failure option)"

definition CreateFailure :: "int \<Rightarrow> string \<Rightarrow> Failure" where
  "CreateFailure status message = \<lparr>failure_Status = status, failure_Message = message\<rparr>"

definition CreateRPCReplyMsg :: "wire_codec \<Rightarrow> string \<Rightarrow> string \<Rightarrow> RPCReplyMsg" where
  "CreateRPCReplyMsg codec payloadType payload =
     \<lparr>reply_PayloadType = payloadType, reply_Payload = base64 codec payload, reply_Error = False\<rparr>"

definition CreateRPCErrorReplyMsg :: "wire_codec \<Rightarrow> string \<Rightarrow> string \<Rightarrow> RPCReplyMsg" where
  "CreateRPCErrorReplyMsg codec payloadType payload =
     \<lparr>reply_PayloadType = payloadType, reply_Payload = base64 codec payload, reply_Error = True\<rparr>"

record VersionMsg = rpc_msg +
  Version_BuildVersion :: string
  Version_BuildTime :: string

record PauseStatusReplyMsg = rpc_msg +
  PauseStatus_ColonyName :: string
  PauseStatus_IsPaused :: bool

definition CreateAddAttributeMsg :: "Attribute \<Rightarrow> AddAttributeMsg" where
  "CreateAddAttributeMsg attribute = \<lparr>MsgType = ''addattributemsg'', AddAttribute_Attribute = attribute\<rparr>"

definition CreateAddChildMsg :: "string \<Rightarrow> string \<Rightarrow> string \<Rightarrow> FunctionSpec option \<Rightarrow> bool \<Rightarrow> AddChildMsg" where
  "CreateAddChildMsg processGraphID parentProcessID childProcessID funcSpec ins =
     \<lparr>MsgType = ''addchildmsg'', AddChild_ProcessGraphID = processGraphID, AddChild_ParentProcessID = parentProcessID,
       AddChild_ChildProcessID = childProcessID, AddChild_FunctionSpec = funcSpec, AddChild_Insert = ins\<rparr>"

definition CreateAddColonyMsg :: "Colony option \<Rightarrow> AddColonyMsg" where
  "CreateAddColonyMsg colony = \<lparr>MsgType = ''addcolonymsg'', AddColony_Colony = colony\<rparr>"

definition CreateAddCronMsg :: "Cron option \<Rightarrow> AddCronMsg" where
  "CreateAddCronMsg cron = \<lparr>MsgType = ''addcronmsg'', AddCron_Cron = cron\<rparr>"

definition CreateAddExecutorMsg :: "Executor option \<Rightarrow> AddExecutorMsg" where
  "CreateAddExecutorMsg executor = \<lparr>MsgType = ''addexecutormsg'', AddExecutor_Executor = executor\<rparr>"

definition CreateAddFileMsg :: "File option \<Rightarrow> AddFileMsg" where
  "CreateAddFileMsg f = \<lparr>MsgType = ''addfilemsg'', AddFile_File = f\<rparr>"

definition CreateAddFunctionMsg :: "Function option \<Rightarrow> AddFunctionMsg" where
  "CreateAddFunctionMsg func = \<lparr>MsgType = ''addfunctionmsg'', AddFunction_Function = func\<rparr>"

definition CreateAddGeneratorMsg :: "Generator option \<Rightarrow> AddGeneratorMsg" where
  "CreateAddGeneratorMsg generator = \<lparr>MsgType = ''addgeneratormsg'', AddGenerator_Generator = generator\<rparr>"

definition CreateAddLogMsg :: "string \<Rightarrow> string \<Rightarrow> AddLogMsg" where
  "CreateAddLogMsg processID logmsg = \<lparr>MsgType = ''addlogmsg'', AddLog_ProcessID = processID, AddLog_Message = logmsg\<rparr>"

definition CreateAddUserMsg :: "User option \<Rightarrow> AddUserMsg" where
  "CreateAddUserMsg user = \<lparr>MsgType = ''addusermsg'', AddUser_User = user\<rparr>"

definition CreateApproveExecutorMsg :: "string \<Rightarrow> string \<Rightarrow> ApproveExecutorMsg" where
  "CreateApproveExecutorMsg colonyName executorName =
     \<lparr>MsgType = ''approveexecutormsg'', ApproveExecutor_ColonyName = colonyName,
       ApproveExecutor_ExecutorName = executorName\<rparr>"

definition CreateAssignProcessMsg :: "string \<Rightarrow> string \<Rightarrow> string \<Rightarrow> AssignProcessMsg" where
  "CreateAssignProcessMsg colonyName availableCPU availableMemory =
     \<lparr>MsgType = ''assignprocessmsg'', AssignProcess_ColonyName = colonyName, AssignProcess_Timeout = - 1,
       AssignProcess_AvailableCPU = availableCPU, AssignProcess_AvailableMemory = availableMemory\<rparr>"

definition CreateChangeColonyIDMsg :: "string \<Rightarrow> string \<Rightarrow> ChangeColonyIDMsg" where
  "CreateChangeColonyIDMsg colonyName colonyID =
     \<lparr>MsgType = ''changecolonyidmsg'', ChangeColonyID_ColonyName = colonyName, ChangeColonyID_ColonyID = colonyID\<rparr>"

definition CreateChangeExecutorIDMsg :: "string \<Rightarrow> string \<Rightarrow> ChangeExecutorIDMsg" where
  "CreateChangeExecutorIDMsg colonyName executorID =
     \<lparr>MsgType = ''changeexecutoridmsg'', ChangeExecutorID_ColonyName = colonyName, ChangeExecutorID_ExecutorID = executorID\<rparr>"

definition CreateChangeServerIDMsg :: "string \<Rightarrow> ChangeServerIDMsg" where
  "CreateChangeServerIDMsg serverID = \<lparr>MsgType = ''changeserveridmsg'', ChangeServerID_ServerID = serverID\<rparr>"

definition CreateChangeUserIDMsg :: "string \<Rightarrow> string \<Rightarrow> ChangeUserIDMsg" where
  "CreateChangeUserIDMsg colonyName userID =
     \<lparr>MsgType = ''changeuseridmsg'', ChangeUserID_ColonyName = colonyName, ChangeUserID_UserID = userID\<rparr>"

definition CreateCloseFailedMsg :: "string \<Rightarrow> string list \<Rightarrow> CloseFailedMsg" where
  "CreateCloseFailedMsg processID errors =
     \<lparr>MsgType = ''closefailedmsg'', CloseFailed_ProcessID = processID, CloseFailed_Errors = errors\<rparr>"

definition CreateCloseSuccessfulMsg :: "string \<Rightarrow> CloseSuccessfulMsg" where
  "CreateCloseSuccessfulMsg processID =
     \<lparr>MsgType = ''closesuccessfulmsg'', CloseSuccessful_ProcessID = processID, CloseSuccessful_Output = []\<rparr>"

definition CreateCreateSnapshotMsg :: "string \<Rightarrow> string \<Rightarrow> string \<Rightarrow> CreateSnapshotMsg" where
  "CreateCreateSnapshotMsg colonyName label name =
     \<lparr>MsgType = ''createsnapshotmsg'', CreateSnapshot_ColonyName = colonyName, CreateSnapshot_Label = label,
       CreateSnapshot_Name = name\<rparr>"

definition CreateGetAttributeMsg :: "string \<Rightarrow> GetAttributeMsg" where
  "CreateGetAttributeMsg attributeID = \<lparr>MsgType = ''getattributemsg'', GetAttribute_AttributeID = attributeID\<rparr>"

definition CreateGetClusterMsg :: "GetClusterMsg" where
  "CreateGetClusterMsg = \<lparr>MsgType = ''getclustermsg''\<rparr>"

definition CreateGetColoniesMsg :: "GetColoniesMsg" where
  "CreateGetColoniesMsg = \<lparr>MsgType = ''getcoloniesmsg''\<rparr>"

definition CreateGetColonyMsg :: "string \<Rightarrow> GetColonyMsg" where
  "CreateGetColonyMsg colonyName = \<lparr>MsgType = ''getcolonymsg'', GetColony_ColonyName = colonyName\<rparr>"

definition CreateGetColonyStatisticsMsg :: "string \<Rightarrow> GetColonyStatisticsMsg" where
  "CreateGetColonyStatisticsMsg colonyName = \<lparr>MsgType = ''getcolonystatsmsg'', GetColonyStatistics_ColonyName = colonyName\<rparr>"

definition CreateGetCronMsg :: "string \<Rightarrow> GetCronMsg" where
  "CreateGetCronMsg cronName = \<lparr>MsgType = ''getcronmsg'', GetCron_CronID = cronName\<rparr>"

definition CreateGetCronsMsg :: "string \<Rightarrow> int \<Rightarrow> GetCronsMsg" where
  "CreateGetCronsMsg colonyName cnt = \<lparr>MsgType = ''getcronsmsg'', GetCrons_ColonyName = colonyName, GetCrons_Count = cnt\<rparr>"

definition CreateGetExecutorMsg :: "string \<Rightarrow> string \<Rightarrow> GetExecutorMsg" where
  "CreateGetExecutorMsg colonyName executorName =
     \<lparr>MsgType = ''getexecutormsg'', GetExecutor_ColonyName = colonyName, GetExecutor_ExecutorName = executorName\<rparr>"

definition CreateGetExecutorsMsg :: "string \<Rightarrow> GetExecutorsMsg" where
  "CreateGetExecutorsMsg colonyName = \<lparr>MsgType = ''getexecutorsmsg'', GetExecutors_ColonyName = colonyName\<rparr>"

definition CreateGetFileMsg :: "string \<Rightarrow> string \<Rightarrow> string \<Rightarrow> string \<Rightarrow> bool \<Rightarrow> GetFileMsg" where
  "CreateGetFileMsg colonyName fileID label name latest =
     \<lparr>MsgType = ''getfilemsg'', GetFile_ColonyName = colonyName, GetFile_FileID = fileID, GetFile_Label = label,
       GetFile_Name = name, GetFile_Latest = latest\<rparr>"

definition CreateGetFileLabelsMsg :: "string \<Rightarrow> string \<Rightarrow> bool \<Rightarrow> GetFileLabelsMsg" where
  "CreateGetFileLabelsMsg colonyName name exact =
     \<lparr>MsgType = ''getfilelabelsmsg'', GetFileLabels_ColonyName = colonyName, GetFileLabels_Name = name,
       GetFileLabels_Exact = exact\<rparr>"

definition CreateGetAllFileLabelsMsg :: "string \<Rightarrow> GetFileLabelsMsg" where
  "CreateGetAllFileLabelsMsg colonyName =
     \<lparr>MsgType = ''getfilelabelsmsg'', GetFileLabels_ColonyName = colonyName, GetFileLabels_Name = [],
       GetFileLabels_Exact = False\<rparr>"

definition CreateGetFilesMsg :: "string \<Rightarrow> string \<Rightarrow> GetFilesMsg" where
  "CreateGetFilesMsg colonyName label = \<lparr>MsgType = ''getfilesmsg'', GetFiles_Label = label,
    GetFiles_ColonyName = colonyName\<rparr>"

definition CreateGetFunctionsMsg :: "string \<Rightarrow> string \<Rightarrow> GetFunctionsMsg" where
  "CreateGetFunctionsMsg colonyName executorName =
     \<lparr>MsgType = ''getfunctionsmsg'', GetFunctions_ExecutorName = executorName, GetFunctions_ColonyName = colonyName\<rparr>"

definition CreateGetFunctionsByColonyNameMsg :: "string \<Rightarrow> GetFunctionsMsg" where
  "CreateGetFunctionsByColonyNameMsg colonyName =
     \<lparr>MsgType = ''getfunctionsmsg'', GetFunctions_ExecutorName = [], GetFunctions_ColonyName = colonyName\<rparr>"

definition CreateGetGeneratorMsg :: "string \<Rightarrow> GetGeneratorMsg" where
  "CreateGetGeneratorMsg generatorID = \<lparr>MsgType = ''getgeneratormsg'', GetGenerator_GeneratorID = generatorID\<rparr>"

definition CreateGetGeneratorsMsg :: "string \<Rightarrow> int \<Rightarrow> GetGeneratorsMsg" where
  "CreateGetGeneratorsMsg colonyName cnt =
     \<lparr>MsgType = ''getgeneratorsmsg'', GetGenerators_ColonyName = colonyName, GetGenerators_Count = cnt\<rparr>"

definition CreateGetLogsMsg :: "string \<Rightarrow> string \<Rightarrow> int \<Rightarrow> int \<Rightarrow> GetLogsMsg" where
  "CreateGetLogsMsg colonyName processID cnt since =
     \<lparr>MsgType = ''getlogsmsg'', GetLogs_ColonyName = colonyName, GetLogs_ProcessID = processID, GetLogs_ExecutorName = [],
       GetLogs_Count = cnt, GetLogs_Since = since\<rparr>"

definition CreateGetPauseStatusMsg :: "string \<Rightarrow> GetPauseStatusMsg" where
  "CreateGetPauseStatusMsg colonyName = \<lparr>MsgType = ''getpausestatusmsg'', GetPauseStatus_ColonyName = colonyName\<rparr>"

definition CreateGetProcessHistMsg :: "string \<Rightarrow> string \<Rightarrow> int \<Rightarrow> int \<Rightarrow> GetProcessHistMsg" where
  "CreateGetProcessHistMsg colonyName executorID secs state =
     \<lparr>MsgType = ''getprocesshistmsg'', GetProcessHist_ColonyName = colonyName, GetProcessHist_ExecutorID = executorID,
       GetProcessHist_Seconds = secs, GetProcessHist_State = state\<rparr>"

definition CreateGetProcessMsg :: "string \<Rightarrow> GetProcessMsg" where
  "CreateGetProcessMsg processID = \<lparr>MsgType = ''getprocessmsg'', GetProcess_ProcessID = processID\<rparr>"

definition CreateGetProcessesMsg :: "string \<Rightarrow> int \<Rightarrow> int \<Rightarrow> string \<Rightarrow> string \<Rightarrow> string \<Rightarrow> GetProcessesMsg" where
  "CreateGetProcessesMsg colonyName cnt state executorType label initiator =
     \<lparr>MsgType = ''getprocessesmsg'', GetProcesses_ColonyName = colonyName, GetProcesses_Count = cnt,
       GetProcesses_State = state, GetProcesses_ExecutorType = executorType, GetProcesses_Label = label,
       GetProcesses_Initiator = initiator\<rparr>"

definition CreateGetProcessGraphMsg :: "string \<Rightarrow> GetProcessGraphMsg" where
  "CreateGetProcessGraphMsg processGraphID =
     \<lparr>MsgType = ''getprocessgraphmsg'', GetProcessGraph_ProcessGraphID = processGraphID\<rparr>"

definition CreateGetProcessGraphsMsg :: "string \<Rightarrow> int \<Rightarrow> int \<Rightarrow> GetProcessGraphsMsg" where
  "CreateGetProcessGraphsMsg colonyName cnt state =
     \<lparr>MsgType = ''getprocessgraphsmsg'', GetProcessGraphs_ColonyName = colonyName, GetProcessGraphs_Count = cnt,
       GetProcessGraphs_State = state\<rparr>"

definition CreateGetSnapshotMsg :: "string \<Rightarrow> string \<Rightarrow> string \<Rightarrow> GetSnapshotMsg" where
  "CreateGetSnapshotMsg colonyName snapshotID name =
     \<lparr>MsgType = ''getsnapshotmsg'', GetSnapshot_ColonyName = colonyName, GetSnapshot_SnapshotID = snapshotID,
       GetSnapshot_Name = name\<rparr>"

definition CreateGetSnapshotsMsg :: "string \<Rightarrow> GetSnapshotsMsg" where
  "CreateGetSnapshotsMsg colonyName = \<lparr>MsgType = ''getsnapshotsmsg'', GetSnapshots_ColonyName = colonyName\<rparr>"

definition CreateGetStatisticsMsg :: "GetStatisticsMsg" where
  "CreateGetStatisticsMsg = \<lparr>MsgType = ''getstatisticsmsg''\<rparr>"

definition CreateGetUserMsg :: "string \<Rightarrow> string \<Rightarrow> GetUserMsg" where
  "CreateGetUserMsg colonyName name = \<lparr>MsgType = ''getusermsg'', GetUser_ColonyName = colonyName, GetUser_Name = name\<rparr>"

definition CreateGetUsersMsg :: "string \<Rightarrow> GetUsersMsg" where
  "CreateGetUsersMsg colonyName = \<lparr>MsgType = ''getusersmsg'', GetUsers_ColonyName = colonyName\<rparr>"

definition CreatePackGeneratorMsg :: "string \<Rightarrow> string \<Rightarrow> PackGeneratorMsg" where
  "CreatePackGeneratorMsg generatorID arg =
     \<lparr>MsgType = ''packgeneratormsg'', PackGenerator_GeneratorID = generatorID, PackGenerator_Arg = arg\<rparr>"

definition CreatePauseAssignmentsMsg :: "string \<Rightarrow> PauseAssignmentsMsg" where
  "CreatePauseAssignmentsMsg colonyName = \<lparr>MsgType = ''pauseassignmentsmsg'', PauseAssignments_ColonyName = colonyName\<rparr>"

definition CreateRejectExecutorMsg :: "string \<Rightarrow> string \<Rightarrow> RejectExecutorMsg" where
  "CreateRejectExecutorMsg colonyName executorName =
     \<lparr>MsgType = ''rejectexecutormsg'', RejectExecutor_ColonyName = colonyName, RejectExecutor_ExecutorName = executorName\<rparr>"

definition CreateRemoveAllProcessesMsg :: "string \<Rightarrow> RemoveAllProcessesMsg" where
  "CreateRemoveAllProcessesMsg colonyName =
     \<lparr>MsgType = ''removeallprocessesmsg'', RemoveAllProcesses_ColonyName = colonyName, RemoveAllProcesses_State = 0\<rparr>"

definition CreateRemoveAllProcessGraphsMsg :: "string \<Rightarrow> RemoveAllProcessGraphsMsg" where
  "CreateRemoveAllProcessGraphsMsg colonyName =
     \<lparr>MsgType = ''removeallprocessgraphsmsg'', RemoveAllProcessGraphs_ColonyName = colonyName,
       RemoveAllProcessGraphs_State = 0\<rparr>"

definition CreateRemoveAllSnapshotsMsg :: "string \<Rightarrow> RemoveAllSnapshotsMsg" where
  "CreateRemoveAllSnapshotsMsg colonyName = \<lparr>MsgType = ''removeallsnapshotmsg'', RemoveAllSnapshots_ColonyName = colonyName\<rparr>"

definition CreateRemoveColonyMsg :: "string \<Rightarrow> RemoveColonyMsg" where
  "CreateRemoveColonyMsg colonyName = \<lparr>MsgType = ''removecolonymsg'', RemoveColony_ColonyName = colonyName\<rparr>"

definition CreateRemoveCronMsg :: "string \<Rightarrow> RemoveCronMsg" where
  "CreateRemoveCronMsg cronID = \<lparr>MsgType = ''removecronmsg'', RemoveCron_CronID = cronID, RemoveCron_All = False\<rparr>"

definition CreateRemoveExecutorMsg :: "string \<Rightarrow> string \<Rightarrow> RemoveExecutorMsg" where
  "CreateRemoveExecutorMsg colonyName executorName =
     \<lparr>MsgType = ''removeexecutormsg'', RemoveExecutor_ColonyName = colonyName, RemoveExecutor_ExecutorName = executorName\<rparr>"

definition CreateRemoveFileMsg :: "string \<Rightarrow> string \<Rightarrow> string \<Rightarrow> string \<Rightarrow> RemoveFileMsg" where
  "CreateRemoveFileMsg colonyName fileID label name =
     \<lparr>MsgType = ''removefilemsg'', RemoveFile_ColonyName = colonyName, RemoveFile_FileID = fileID, RemoveFile_Label = label,
       RemoveFile_Name = name\<rparr>"

definition CreateRemoveFunctionMsg :: "string \<Rightarrow> RemoveFunctionMsg" where
  "CreateRemoveFunctionMsg functionID = \<lparr>MsgType = ''removefunctionmsg'', RemoveFunction_FunctionID = functionID\<rparr>"

definition CreateRemoveGeneratorMsg :: "string \<Rightarrow> RemoveGeneratorMsg" where
  "CreateRemoveGeneratorMsg generatorID =
     \<lparr>MsgType = ''removegeneratormsg'', RemoveGenerator_GeneratorID = generatorID, RemoveGenerator_All = False\<rparr>"

definition CreateRemoveProcessMsg :: "string \<Rightarrow> RemoveProcessMsg" where
  "CreateRemoveProcessMsg processID =
     \<lparr>MsgType = ''removeprocessmsg'', RemoveProcess_ProcessID = processID, RemoveProcess_All = False\<rparr>"

definition CreateRemoveProcessGraphMsg :: "string \<Rightarrow> RemoveProcessGraphMsg" where
  "CreateRemoveProcessGraphMsg processGraphID =
     \<lparr>MsgType = ''removeprocessgraphmsg'', RemoveProcessGraph_ProcessGraphID = processGraphID,
       RemoveProcessGraph_All = False\<rparr>"

definition CreateRemoveSnapshotMsg :: "string \<Rightarrow> string \<Rightarrow> string \<Rightarrow> RemoveSnapshotMsg" where
  "CreateRemoveSnapshotMsg colonyName snapshotID name =
     \<lparr>MsgType = ''removesnapshotmsg'', RemoveSnapshot_ColonyName = colonyName, RemoveSnapshot_SnapshotID = snapshotID,
       RemoveSnapshot_Name = name\<rparr>"

definition CreateRemoveUserMsg :: "string \<Rightarrow> string \<Rightarrow> RemoveUserMsg" where
  "CreateRemoveUserMsg colonyName name =
     \<lparr>MsgType = ''removeusermsg'', RemoveUser_ColonyName = colonyName, RemoveUser_Name = name\<rparr>"

definition CreateReportAllocationsMsg :: "string \<Rightarrow> string \<Rightarrow> Allocations \<Rightarrow> ReportAllocationsMsg" where
  "CreateReportAllocationsMsg colonyName executorName allocations =
     \<lparr>MsgType = ''reportallocationmsg'', ReportAllocations_ColonyName = colonyName,
       ReportAllocations_ExecutorName = executorName, ReportAllocations_Allocations = allocations\<rparr>"

definition CreateResolveGeneratorMsg :: "string \<Rightarrow> string \<Rightarrow> ResolveGeneratorMsg" where
  "CreateResolveGeneratorMsg colonyName generatorName =
     \<lparr>MsgType = ''resolvegeneratormsg'', ResolveGenerator_ColonyName = colonyName,
       ResolveGenerator_GeneratorName = generatorName\<rparr>"

definition CreateResumeAssignmentsMsg :: "string \<Rightarrow> ResumeAssignmentsMsg" where
  "CreateResumeAssignmentsMsg colonyName = \<lparr>MsgType = ''resumeassignmentsmsg'', ResumeAssignments_ColonyName = colonyName\<rparr>"

definition CreateRunCronMsg :: "string \<Rightarrow> RunCronMsg" where
  "CreateRunCronMsg cronID = \<lparr>MsgType = ''runcronmsg'', RunCron_CronID = cronID\<rparr>"

definition CreateSearchLogsMsg :: "string \<Rightarrow> string \<Rightarrow> int \<Rightarrow> int \<Rightarrow> SearchLogsMsg" where
  "CreateSearchLogsMsg colonyName txt days cnt =
     \<lparr>MsgType = ''searchlogsmsg'', SearchLogs_ColonyName = colonyName, SearchLogs_Text = txt, SearchLogs_Days = days,
       SearchLogs_Count = cnt\<rparr>"

definition CreateSetOutputMsg :: "string \<Rightarrow> iface list \<Rightarrow> SetOutputMsg" where
  "CreateSetOutputMsg processID output =
     \<lparr>MsgType = ''setoutputmsg'', SetOutput_ProcessID = processID, SetOutput_Output = output\<rparr>"

definition CreateSubmitFunctionSpecMsg :: "FunctionSpec option \<Rightarrow> SubmitFunctionSpecMsg" where
  "CreateSubmitFunctionSpecMsg funcSpec = \<lparr>MsgType = ''submitfuncspecmsg'', SubmitFunctionSpec_FunctionSpec = funcSpec\<rparr>"

definition CreateSubmitWorkflowSpecMsg :: "WorkflowSpec option \<Rightarrow> SubmitWorkflowSpecMsg" where
  "CreateSubmitWorkflowSpecMsg workflowSpec =
     \<lparr>MsgType = ''submitworkflowspecmsg'', SubmitWorkflowSpec_WorkflowSpec = workflowSpec\<rparr>"

definition CreateVersionMsg :: "string \<Rightarrow> string \<Rightarrow> VersionMsg" where
  "CreateVersionMsg buildVersion buildTime =
     \<lparr>MsgType = ''versionmsg'', Version_BuildVersion = buildVersion, Version_BuildTime = buildTime\<rparr>"

end
