(* ===== verification/Colonies_Client.thy ===== *)
theory Colonies_Client
  imports Rpc_Messages
begin

text \<open>
  The client of the server (\<open>src/pkg/client/colonies_client.go\<close>): a call encodes its message, signs it, posts it and
  decodes the reply. Posting, signatures, base64 and JSON are fields of an environment. A decoder gives an error or
  a pointer, which is nil for the document \<open>null\<close>; lists are nil then. Subscriptions over web sockets are left out.
\<close>

section \<open>Requests\<close>

text \<open>\<open>ToJSON\<close> of the messages.\<close>

record message_codec =
  enc_AddUserMsg :: "AddUserMsg \<Rightarrow> failure + string"
  enc_GetUserMsg :: "GetUserMsg \<Rightarrow> failure + string"
  enc_GetUsersMsg :: "GetUsersMsg \<Rightarrow> failure + string"
  enc_RemoveUserMsg :: "RemoveUserMsg \<Rightarrow> failure + string"
  enc_AddColonyMsg :: "AddColonyMsg \<Rightarrow> failure + string"
  enc_RemoveColonyMsg :: "RemoveColonyMsg \<Rightarrow> failure + string"
  enc_GetColoniesMsg :: "GetColoniesMsg \<Rightarrow> failure + string"
  enc_GetColonyMsg :: "GetColonyMsg \<Rightarrow> failure + string"
  enc_AddExecutorMsg :: "AddExecutorMsg \<Rightarrow> failure + string"
  enc_ReportAllocationsMsg :: "ReportAllocationsMsg \<Rightarrow> failure + string"
  enc_GetExecutorsMsg :: "GetExecutorsMsg \<Rightarrow> failure + string"
  enc_GetExecutorMsg :: "GetExecutorMsg \<Rightarrow> failure + string"
  enc_ApproveExecutorMsg :: "ApproveExecutorMsg \<Rightarrow> failure + string"
  enc_RejectExecutorMsg :: "RejectExecutorMsg \<Rightarrow> failure + string"
  enc_RemoveExecutorMsg :: "RemoveExecutorMsg \<Rightarrow> failure + string"
  enc_SubmitFunctionSpecMsg :: "SubmitFunctionSpecMsg \<Rightarrow> failure + string"
  enc_AssignProcessMsg :: "AssignProcessMsg \<Rightarrow> failure + string"
  enc_GetProcessHistMsg :: "GetProcessHistMsg \<Rightarrow> failure + string"
  enc_GetProcessesMsg :: "GetProcessesMsg \<Rightarrow> failure + string"
  enc_GetColonyStatisticsMsg :: "GetColonyStatisticsMsg \<Rightarrow> failure + string"
  enc_GetStatisticsMsg :: "GetStatisticsMsg \<Rightarrow> failure + string"
  enc_GetProcessMsg :: "GetProcessMsg \<Rightarrow> failure + string"
  enc_RemoveProcessMsg :: "RemoveProcessMsg \<Rightarrow> failure + string"
  enc_RemoveAllProcessesMsg :: "RemoveAllProcessesMsg \<Rightarrow> failure + string"
  enc_CloseSuccessfulMsg :: "CloseSuccessfulMsg \<Rightarrow> failure + string"
  enc_CloseFailedMsg :: "CloseFailedMsg \<Rightarrow> failure + string"
  enc_SetOutputMsg :: "SetOutputMsg \<Rightarrow> failure + string"
  enc_AddAttributeMsg :: "AddAttributeMsg \<Rightarrow> failure + string"
  enc_GetAttributeMsg :: "GetAttributeMsg \<Rightarrow> failure + string"
  enc_SubmitWorkflowSpecMsg :: "SubmitWorkflowSpecMsg \<Rightarrow> failure + string"
  enc_AddChildMsg :: "AddChildMsg \<Rightarrow> failure + string"
  enc_GetProcessGraphMsg :: "GetProcessGraphMsg \<Rightarrow> failure + string"
  enc_GetProcessGraphsMsg :: "GetProcessGraphsMsg \<Rightarrow> failure + string"
  enc_RemoveProcessGraphMsg :: "RemoveProcessGraphMsg \<Rightarrow> failure + string"
  enc_RemoveAllProcessGraphsMsg :: "RemoveAllProcessGraphsMsg \<Rightarrow> failure + string"
  enc_AddGeneratorMsg :: "AddGeneratorMsg \<Rightarrow> failure + string"
  enc_GetGeneratorMsg :: "GetGeneratorMsg \<Rightarrow> failure + string"
  enc_ResolveGeneratorMsg :: "ResolveGeneratorMsg \<Rightarrow> failure + string"
  enc_GetGeneratorsMsg :: "GetGeneratorsMsg \<Rightarrow> failure + string"
  enc_PackGeneratorMsg :: "PackGeneratorMsg \<Rightarrow> failure + string"
  enc_RemoveGeneratorMsg :: "RemoveGeneratorMsg \<Rightarrow> failure + string"
  enc_AddCronMsg :: "AddCronMsg \<Rightarrow> failure + string"
  enc_GetCronMsg :: "GetCronMsg \<Rightarrow> failure + string"
  enc_GetCronsMsg :: "GetCronsMsg \<Rightarrow> failure + string"
  enc_RunCronMsg :: "RunCronMsg \<Rightarrow> failure + string"
  enc_RemoveCronMsg :: "RemoveCronMsg \<Rightarrow> failure + string"
  enc_AddFunctionMsg :: "AddFunctionMsg \<Rightarrow> failure + string"
  enc_GetFunctionsMsg :: "GetFunctionsMsg \<Rightarrow> failure + string"
  enc_RemoveFunctionMsg :: "RemoveFunctionMsg \<Rightarrow> failure + string"
  enc_GetClusterMsg :: "GetClusterMsg \<Rightarrow> failure + string"
  enc_AddLogMsg :: "AddLogMsg \<Rightarrow> failure + string"
  enc_GetLogsMsg :: "GetLogsMsg \<Rightarrow> failure + string"
  enc_SearchLogsMsg :: "SearchLogsMsg \<Rightarrow> failure + string"
  enc_AddFileMsg :: "AddFileMsg \<Rightarrow> failure + string"
  enc_GetFileMsg :: "GetFileMsg \<Rightarrow> failure + string"
  enc_GetFilesMsg :: "GetFilesMsg \<Rightarrow> failure + string"
  enc_GetFileLabelsMsg :: "GetFileLabelsMsg \<Rightarrow> failure + string"
  enc_RemoveFileMsg :: "RemoveFileMsg \<Rightarrow> failure + string"
  enc_CreateSnapshotMsg :: "CreateSnapshotMsg \<Rightarrow> failure + string"
  enc_GetSnapshotMsg :: "GetSnapshotMsg \<Rightarrow> failure + string"
  enc_GetSnapshotsMsg :: "GetSnapshotsMsg \<Rightarrow> failure + string"
  enc_RemoveSnapshotMsg :: "RemoveSnapshotMsg \<Rightarrow> failure + string"
  enc_RemoveAllSnapshotsMsg :: "RemoveAllSnapshotsMsg \<Rightarrow> failure + string"
  enc_ChangeUserIDMsg :: "ChangeUserIDMsg \<Rightarrow> failure + string"
  enc_ChangeExecutorIDMsg :: "ChangeExecutorIDMsg \<Rightarrow> failure + string"
  enc_ChangeColonyIDMsg :: "ChangeColonyIDMsg \<Rightarrow> failure + string"
  enc_ChangeServerIDMsg :: "ChangeServerIDMsg \<Rightarrow> failure + string"
  enc_PauseAssignmentsMsg :: "PauseAssignmentsMsg \<Rightarrow> failure + string"
  enc_ResumeAssignmentsMsg :: "ResumeAssignmentsMsg \<Rightarrow> failure + string"
  enc_VersionMsg :: "VersionMsg \<Rightarrow> failure + string"
  enc_GetPauseStatusMsg :: "GetPauseStatusMsg \<Rightarrow> failure + string"

text \<open>What replies are decoded to; the configuration of a cluster is kept as its text.\<close>

record result_codec =
  ConvertJSONToUser :: "string \<Rightarrow> failure + (User option)"
  ConvertJSONToUserArray :: "string \<Rightarrow> failure + (User list)"
  ConvertJSONToColony :: "string \<Rightarrow> failure + (Colony option)"
  ConvertJSONToColonyArray :: "string \<Rightarrow> failure + (Colony list)"
  ConvertJSONToExecutor :: "string \<Rightarrow> failure + (Executor option)"
  ConvertJSONToExecutorArray :: "string \<Rightarrow> failure + (Executor list)"
  ConvertJSONToProcess :: "string \<Rightarrow> failure + (Process option)"
  ConvertJSONToProcessArray :: "string \<Rightarrow> failure + (Process list)"
  ConvertJSONToStatistics :: "string \<Rightarrow> failure + (Statistics option)"
  ConvertJSONToAttribute :: "string \<Rightarrow> failure + Attribute"
  ConvertJSONToProcessGraph :: "string \<Rightarrow> failure + (ProcessGraph option)"
  ConvertJSONToProcessGraphArray :: "string \<Rightarrow> failure + (ProcessGraph list)"
  ConvertJSONToGenerator :: "string \<Rightarrow> failure + (Generator option)"
  ConvertJSONToGeneratorArray :: "string \<Rightarrow> failure + (Generator list)"
  ConvertJSONToCron :: "string \<Rightarrow> failure + (Cron option)"
  ConvertJSONToCronArray :: "string \<Rightarrow> failure + (Cron list)"
  ConvertJSONToFunction :: "string \<Rightarrow> failure + (Function option)"
  ConvertJSONToFunctionArray :: "string \<Rightarrow> failure + (Function list)"
  ConvertJSONToConfig :: "string \<Rightarrow> failure + (string option)"
  ConvertJSONToLogArray :: "string \<Rightarrow> failure + (Log list)"
  ConvertJSONToFile :: "string \<Rightarrow> failure + (File option)"
  ConvertJSONToFileArray :: "string \<Rightarrow> failure + (File list)"
  ConvertJSONToFileDataArray :: "string \<Rightarrow> failure + (FileData list)"
  ConvertJSONToLabelArray :: "string \<Rightarrow> failure + (Label list)"
  ConvertJSONToSnapshot :: "string \<Rightarrow> failure + (Snapshot option)"
  ConvertJSONToSnapshotsArray :: "string \<Rightarrow> failure + (Snapshot list)"
  CreateVersionMsgFromJSON :: "string \<Rightarrow> failure + (VersionMsg option)"
  CreatePauseStatusReplyMsgFromJSON :: "string \<Rightarrow> failure + (PauseStatusReplyMsg option)"

record 's http_env =
  post :: "string \<Rightarrow> ('s, string) op"
  wire :: wire_codec
  GenerateSignature :: "string \<Rightarrow> string \<Rightarrow> failure + string"
  messages :: message_codec
  results :: result_codec

text \<open>\<open>core.ColoniesError\<close> is what the server answered, any other error is one of the client.\<close>

datatype client_error = ColoniesError int string | ClientError string

definition CreateRPCMsg :: "'s http_env \<Rightarrow> string \<Rightarrow> string \<Rightarrow> string \<Rightarrow> failure + RPCMsg" where
  "CreateRPCMsg env payloadType payload prvKey =
     (let body = base64 (wire env) payload in
      case GenerateSignature env body prvKey of
        Inl _ \<Rightarrow> Inl (Err ''Failed to generate signature'')
      | Inr signature \<Rightarrow> Inr \<lparr>rpc_Signature = signature, rpc_PayloadType = payloadType, rpc_Payload = body\<rparr>)"

definition CreateInsecureRPCMsg :: "'s http_env \<Rightarrow> string \<Rightarrow> string \<Rightarrow> RPCMsg" where
  "CreateInsecureRPCMsg env payloadType payload =
     \<lparr>rpc_Signature = [], rpc_PayloadType = payloadType, rpc_Payload = base64 (wire env) payload\<rparr>"

definition client_fails :: "failure \<Rightarrow> ('s, client_error + 'a) op" where
  "client_fails e = retM (Inl (ClientError (err_text e)))"

text \<open>Reading a reply: a failure of the server, or the payload.\<close>

definition read_reply :: "'s http_env \<Rightarrow> string \<Rightarrow> ('s, client_error + string) op" where
  "read_reply env respBodyString =
     (case CreateRPCReplyMsgFromJSON (wire env) respBodyString of
        Inl _ \<Rightarrow> retM (Inl (ClientError (''Expected a valid Colonies RPC message, but got this: '' @ respBodyString)))
      | Inr p \<Rightarrow>
          bindM (derefM p) (\<lambda>rpcReplyMsg.
          if reply_Error rpcReplyMsg then
            (case ConvertJSONToFailure (wire env) (unbase64 (wire env) (reply_Payload rpcReplyMsg)) of
               Inl e \<Rightarrow> client_fails e
             | Inr f \<Rightarrow> bindM (derefM f) (\<lambda>failure. retM (Inl (ColoniesError (failure_Status failure) (failure_Message failure)))))
          else retM (Inr (unbase64 (wire env) (reply_Payload rpcReplyMsg)))))"

definition sendMessage :: "'s http_env \<Rightarrow> string \<Rightarrow> string \<Rightarrow> string \<Rightarrow> bool \<Rightarrow> ('s, client_error + string) op" where
  "sendMessage env payloadType jsonString prvKey insecure =
     (case (if insecure then Inr (CreateInsecureRPCMsg env payloadType jsonString) else CreateRPCMsg env payloadType jsonString prvKey) of
        Inl e \<Rightarrow> client_fails e
      | Inr rpcMsg \<Rightarrow>
          (case RPCMsg_ToJSON (wire env) rpcMsg of
             Inl e \<Rightarrow> client_fails e
           | Inr body \<Rightarrow>
               bindM (tryM (post env body)) (\<lambda>resp.
               case resp of Inl e \<Rightarrow> client_fails e | Inr respBodyString \<Rightarrow> read_reply env respBodyString)))"

text \<open>What the calls share.\<close>

definition request_as ::
  "'s http_env \<Rightarrow> string \<Rightarrow> failure + string \<Rightarrow> string \<Rightarrow> bool \<Rightarrow> (string \<Rightarrow> failure + 'a) \<Rightarrow> ('s, client_error + 'a) op" where
  "request_as env payloadType encoded prvKey insecure decode =
     (case encoded of
        Inl e \<Rightarrow> client_fails e
      | Inr jsonString \<Rightarrow>
          bindM (sendMessage env payloadType jsonString prvKey insecure) (\<lambda>res.
          case res of
            Inl e \<Rightarrow> retM (Inl e)
          | Inr respBodyString \<Rightarrow> (case decode respBodyString of Inl e \<Rightarrow> client_fails e | Inr x \<Rightarrow> retM (Inr x))))"

definition request :: "'s http_env \<Rightarrow> string \<Rightarrow> failure + string \<Rightarrow> string \<Rightarrow> (string \<Rightarrow> failure + 'a) \<Rightarrow> ('s, client_error + 'a) op" where
  "request env payloadType encoded prvKey = request_as env payloadType encoded prvKey False"

definition no_result :: "string \<Rightarrow> failure + unit" where
  "no_result respBodyString = Inr ()"

section \<open>Calls\<close>

definition client_AddUser :: "'s http_env \<Rightarrow> User option \<Rightarrow> string \<Rightarrow> ('s, client_error + User option) op" where
  "client_AddUser env user prvKey =
     request env ''addusermsg'' (enc_AddUserMsg (messages env) (CreateAddUserMsg user)) prvKey (ConvertJSONToUser
       (results env))"

definition client_GetUser :: "'s http_env \<Rightarrow> string \<Rightarrow> string \<Rightarrow> string \<Rightarrow> ('s, client_error + User option) op" where
  "client_GetUser env colonyName username prvKey =
     request env ''getusermsg'' (enc_GetUserMsg (messages env) (CreateGetUserMsg colonyName username)) prvKey
       (ConvertJSONToUser (results env))"

definition client_GetUsers :: "'s http_env \<Rightarrow> string \<Rightarrow> string \<Rightarrow> ('s, client_error + User list) op" where
  "client_GetUsers env colonyName prvKey =
     request env ''getusersmsg'' (enc_GetUsersMsg (messages env) (CreateGetUsersMsg colonyName)) prvKey
       (ConvertJSONToUserArray (results env))"

definition client_RemoveUser :: "'s http_env \<Rightarrow> string \<Rightarrow> string \<Rightarrow> string \<Rightarrow> ('s, client_error + unit) op" where
  "client_RemoveUser env colonyName username prvKey =
     request env ''removeusermsg'' (enc_RemoveUserMsg (messages env) (CreateRemoveUserMsg colonyName username)) prvKey
       no_result"

definition client_AddColony :: "'s http_env \<Rightarrow> Colony option \<Rightarrow> string \<Rightarrow> ('s, client_error + Colony option) op" where
  "client_AddColony env colony prvKey =
     request env ''addcolonymsg'' (enc_AddColonyMsg (messages env) (CreateAddColonyMsg colony)) prvKey (ConvertJSONToColony
       (results env))"

definition client_RemoveColony :: "'s http_env \<Rightarrow> string \<Rightarrow> string \<Rightarrow> ('s, client_error + unit) op" where
  "client_RemoveColony env colonyName prvKey =
     request env ''removecolonymsg'' (enc_RemoveColonyMsg (messages env) (CreateRemoveColonyMsg colonyName)) prvKey
       no_result"

definition client_GetColonies :: "'s http_env \<Rightarrow> string \<Rightarrow> ('s, client_error + Colony list) op" where
  "client_GetColonies env prvKey =
     request env ''getcoloniesmsg'' (enc_GetColoniesMsg (messages env) (CreateGetColoniesMsg)) prvKey
       (ConvertJSONToColonyArray (results env))"

definition client_GetColonyByName :: "'s http_env \<Rightarrow> string \<Rightarrow> string \<Rightarrow> ('s, client_error + Colony option) op" where
  "client_GetColonyByName env colonyName prvKey =
     request env ''getcolonymsg'' (enc_GetColonyMsg (messages env) (CreateGetColonyMsg colonyName)) prvKey
       (ConvertJSONToColony (results env))"

definition client_AddExecutor :: "'s http_env \<Rightarrow> Executor option \<Rightarrow> string \<Rightarrow> ('s, client_error + Executor option) op" where
  "client_AddExecutor env executor prvKey =
     request env ''addexecutormsg'' (enc_AddExecutorMsg (messages env) (CreateAddExecutorMsg executor)) prvKey
       (ConvertJSONToExecutor (results env))"

definition client_ReportAllocation :: "'s http_env \<Rightarrow> string \<Rightarrow> string \<Rightarrow> Allocations \<Rightarrow> string
  \<Rightarrow> ('s, client_error + unit) op" where
  "client_ReportAllocation env colonyName executorName alloc prvKey =
     request env ''reportallocationmsg'' (enc_ReportAllocationsMsg (messages env) (CreateReportAllocationsMsg colonyName
       executorName alloc)) prvKey no_result"

definition client_GetExecutors :: "'s http_env \<Rightarrow> string \<Rightarrow> string \<Rightarrow> ('s, client_error + Executor list) op" where
  "client_GetExecutors env colonyName prvKey =
     request env ''getexecutorsmsg'' (enc_GetExecutorsMsg (messages env) (CreateGetExecutorsMsg colonyName)) prvKey
       (ConvertJSONToExecutorArray (results env))"

definition client_GetExecutor :: "'s http_env \<Rightarrow> string \<Rightarrow> string \<Rightarrow> string \<Rightarrow> ('s, client_error + Executor option) op" where
  "client_GetExecutor env colonyName executorName prvKey =
     request env ''getexecutormsg'' (enc_GetExecutorMsg (messages env) (CreateGetExecutorMsg colonyName executorName)) prvKey
       (ConvertJSONToExecutor (results env))"

definition client_ApproveExecutor :: "'s http_env \<Rightarrow> string \<Rightarrow> string \<Rightarrow> string \<Rightarrow> ('s, client_error + unit) op" where
  "client_ApproveExecutor env colonyName executorName prvKey =
     request env ''approveexecutormsg'' (enc_ApproveExecutorMsg (messages env) (CreateApproveExecutorMsg colonyName
       executorName)) prvKey no_result"

definition client_RejectExecutor :: "'s http_env \<Rightarrow> string \<Rightarrow> string \<Rightarrow> string \<Rightarrow> ('s, client_error + unit) op" where
  "client_RejectExecutor env colonyName executorID prvKey =
     request env ''rejectexecutormsg'' (enc_RejectExecutorMsg (messages env) (CreateRejectExecutorMsg colonyName executorID))
       prvKey no_result"

definition client_RemoveExecutor :: "'s http_env \<Rightarrow> string \<Rightarrow> string \<Rightarrow> string \<Rightarrow> ('s, client_error + unit) op" where
  "client_RemoveExecutor env colonyName executorName prvKey =
     request env ''removeexecutormsg'' (enc_RemoveExecutorMsg (messages env) (CreateRemoveExecutorMsg colonyName
       executorName)) prvKey no_result"

definition client_Submit :: "'s http_env \<Rightarrow> FunctionSpec option \<Rightarrow> string \<Rightarrow> ('s, client_error + Process option) op" where
  "client_Submit env funcSpec prvKey =
     request env ''submitfuncspecmsg'' (enc_SubmitFunctionSpecMsg (messages env) (CreateSubmitFunctionSpecMsg funcSpec))
       prvKey (ConvertJSONToProcess (results env))"

definition client_Assign :: "'s http_env \<Rightarrow> string \<Rightarrow> int \<Rightarrow> string \<Rightarrow> string \<Rightarrow> string
  \<Rightarrow> ('s, client_error + Process option) op" where
  "client_Assign env colonyName timeout availableCPU availableMem prvKey =
     request env ''assignprocessmsg'' (enc_AssignProcessMsg (messages env) ((CreateAssignProcessMsg colonyName availableCPU
       availableMem)\<lparr>AssignProcess_Timeout := timeout\<rparr>)) prvKey (ConvertJSONToProcess (results env))"

definition client_AssignWithContext :: "'s http_env \<Rightarrow> string \<Rightarrow> int \<Rightarrow> string \<Rightarrow> string \<Rightarrow> string
  \<Rightarrow> ('s, client_error + Process option) op" where
  "client_AssignWithContext env colonyName timeout availableCPU availableMem prvKey =
     request env ''assignprocessmsg'' (enc_AssignProcessMsg (messages env) ((CreateAssignProcessMsg colonyName availableCPU
       availableMem)\<lparr>AssignProcess_Timeout := timeout\<rparr>)) prvKey (ConvertJSONToProcess (results env))"

definition client_GetProcessHistForColony :: "'s http_env \<Rightarrow> int \<Rightarrow> string \<Rightarrow> int \<Rightarrow> string
  \<Rightarrow> ('s, client_error + Process list) op" where
  "client_GetProcessHistForColony env state colonyName secs prvKey =
     request env ''getprocesshistmsg'' (enc_GetProcessHistMsg (messages env) (CreateGetProcessHistMsg colonyName [] secs
       state)) prvKey (ConvertJSONToProcessArray (results env))"

definition client_GetProcessHistForExecutor :: "'s http_env \<Rightarrow> int \<Rightarrow> string \<Rightarrow> string \<Rightarrow> int \<Rightarrow> string
  \<Rightarrow> ('s, client_error + Process list) op" where
  "client_GetProcessHistForExecutor env state colonyName executorID secs prvKey =
     request env ''getprocesshistmsg'' (enc_GetProcessHistMsg (messages env) (CreateGetProcessHistMsg colonyName executorID
       secs state)) prvKey (ConvertJSONToProcessArray (results env))"

definition client_getProcesses :: "'s http_env \<Rightarrow> int \<Rightarrow> string \<Rightarrow> string \<Rightarrow> string \<Rightarrow> string \<Rightarrow> int \<Rightarrow> string
  \<Rightarrow> ('s, client_error + Process list) op" where
  "client_getProcesses env state colonyName executorType label initiator cnt prvKey =
     request env ''getprocessesmsg'' (enc_GetProcessesMsg (messages env) (CreateGetProcessesMsg colonyName cnt state
       executorType label initiator)) prvKey (ConvertJSONToProcessArray (results env))"

definition client_GetWaitingProcesses :: "'s http_env \<Rightarrow> string \<Rightarrow> string \<Rightarrow> string \<Rightarrow> string \<Rightarrow> int \<Rightarrow> string
  \<Rightarrow> ('s, client_error + Process list) op" where
  "client_GetWaitingProcesses env colonyName executorType label initiator cnt prvKey = client_getProcesses env WAITING
    colonyName executorType label initiator cnt prvKey"

definition client_GetRunningProcesses :: "'s http_env \<Rightarrow> string \<Rightarrow> string \<Rightarrow> string \<Rightarrow> string \<Rightarrow> int \<Rightarrow> string
  \<Rightarrow> ('s, client_error + Process list) op" where
  "client_GetRunningProcesses env colonyName executorType label initiator cnt prvKey = client_getProcesses env RUNNING
    colonyName executorType label initiator cnt prvKey"

definition client_GetSuccessfulProcesses :: "'s http_env \<Rightarrow> string \<Rightarrow> string \<Rightarrow> string \<Rightarrow> string \<Rightarrow> int \<Rightarrow> string
  \<Rightarrow> ('s, client_error + Process list) op" where
  "client_GetSuccessfulProcesses env colonyName executorType label initiator cnt prvKey = client_getProcesses env SUCCESS
    colonyName executorType label initiator cnt prvKey"

definition client_GetFailedProcesses :: "'s http_env \<Rightarrow> string \<Rightarrow> string \<Rightarrow> string \<Rightarrow> string \<Rightarrow> int \<Rightarrow> string
  \<Rightarrow> ('s, client_error + Process list) op" where
  "client_GetFailedProcesses env colonyName executorType label initiator cnt prvKey = client_getProcesses env FAILED
    colonyName executorType label initiator cnt prvKey"

definition client_ColonyStatistics :: "'s http_env \<Rightarrow> string \<Rightarrow> string \<Rightarrow> ('s, client_error + Statistics option) op" where
  "client_ColonyStatistics env colonyName prvKey =
     request env ''getcolonystatsmsg'' (enc_GetColonyStatisticsMsg (messages env) (CreateGetColonyStatisticsMsg colonyName))
       prvKey (ConvertJSONToStatistics (results env))"

definition client_Statistics :: "'s http_env \<Rightarrow> string \<Rightarrow> ('s, client_error + Statistics option) op" where
  "client_Statistics env prvKey =
     request env ''getstatisticsmsg'' (enc_GetStatisticsMsg (messages env) (CreateGetStatisticsMsg)) prvKey
       (ConvertJSONToStatistics (results env))"

definition client_GetProcess :: "'s http_env \<Rightarrow> string \<Rightarrow> string \<Rightarrow> ('s, client_error + Process option) op" where
  "client_GetProcess env processID prvKey =
     request env ''getprocessmsg'' (enc_GetProcessMsg (messages env) (CreateGetProcessMsg processID)) prvKey
       (ConvertJSONToProcess (results env))"

definition client_RemoveProcess :: "'s http_env \<Rightarrow> string \<Rightarrow> string \<Rightarrow> ('s, client_error + unit) op" where
  "client_RemoveProcess env processID prvKey =
     request env ''removeprocessmsg'' (enc_RemoveProcessMsg (messages env) (CreateRemoveProcessMsg processID)) prvKey
       no_result"

definition client_RemoveAllProcesses :: "'s http_env \<Rightarrow> string \<Rightarrow> string \<Rightarrow> ('s, client_error + unit) op" where
  "client_RemoveAllProcesses env colonyName prvKey =
     request env ''removeallprocessesmsg'' (enc_RemoveAllProcessesMsg (messages env)
       ((CreateRemoveAllProcessesMsg colonyName)\<lparr>RemoveAllProcesses_State := NOTSET\<rparr>)) prvKey no_result"

definition client_RemoveAllProcessesWithState :: "'s http_env \<Rightarrow> string \<Rightarrow> int \<Rightarrow> string \<Rightarrow> ('s, client_error + unit) op" where
  "client_RemoveAllProcessesWithState env colonyName state prvKey =
     request env ''removeallprocessesmsg'' (enc_RemoveAllProcessesMsg (messages env)
       ((CreateRemoveAllProcessesMsg colonyName)\<lparr>RemoveAllProcesses_State := state\<rparr>)) prvKey no_result"

definition client_Close :: "'s http_env \<Rightarrow> string \<Rightarrow> string \<Rightarrow> ('s, client_error + unit) op" where
  "client_Close env processID prvKey =
     request env ''closesuccessfulmsg'' (enc_CloseSuccessfulMsg (messages env) (CreateCloseSuccessfulMsg processID)) prvKey
       no_result"

definition client_CloseWithOutput :: "'s http_env \<Rightarrow> string \<Rightarrow> iface list \<Rightarrow> string \<Rightarrow> ('s, client_error + unit) op" where
  "client_CloseWithOutput env processID output prvKey =
     request env ''closesuccessfulmsg'' (enc_CloseSuccessfulMsg (messages env)
       ((CreateCloseSuccessfulMsg processID)\<lparr>CloseSuccessful_Output := output\<rparr>)) prvKey no_result"

definition client_Fail :: "'s http_env \<Rightarrow> string \<Rightarrow> string list \<Rightarrow> string \<Rightarrow> ('s, client_error + unit) op" where
  "client_Fail env processID errs prvKey =
     request env ''closefailedmsg'' (enc_CloseFailedMsg (messages env) (CreateCloseFailedMsg processID errs)) prvKey
       no_result"

definition client_SetOutput :: "'s http_env \<Rightarrow> string \<Rightarrow> iface list \<Rightarrow> string \<Rightarrow> ('s, client_error + unit) op" where
  "client_SetOutput env processID output prvKey =
     request env ''setoutputmsg'' (enc_SetOutputMsg (messages env) (CreateSetOutputMsg processID output)) prvKey no_result"

definition client_AddAttribute :: "'s http_env \<Rightarrow> Attribute \<Rightarrow> string \<Rightarrow> ('s, client_error + Attribute) op" where
  "client_AddAttribute env attribute prvKey =
     request env ''addattributemsg'' (enc_AddAttributeMsg (messages env) (CreateAddAttributeMsg attribute)) prvKey
       (ConvertJSONToAttribute (results env))"

definition client_GetAttribute :: "'s http_env \<Rightarrow> string \<Rightarrow> string \<Rightarrow> ('s, client_error + Attribute) op" where
  "client_GetAttribute env attributeID prvKey =
     request env ''getattributemsg'' (enc_GetAttributeMsg (messages env) (CreateGetAttributeMsg attributeID)) prvKey
       (ConvertJSONToAttribute (results env))"

definition client_SubmitWorkflowSpec :: "'s http_env \<Rightarrow> WorkflowSpec option \<Rightarrow> string
  \<Rightarrow> ('s, client_error + ProcessGraph option) op" where
  "client_SubmitWorkflowSpec env workflowSpec prvKey =
     request env ''submitworkflowspecmsg'' (enc_SubmitWorkflowSpecMsg (messages env) (CreateSubmitWorkflowSpecMsg
       workflowSpec)) prvKey (ConvertJSONToProcessGraph (results env))"

definition client_AddChild :: "'s http_env \<Rightarrow> string \<Rightarrow> string \<Rightarrow> string \<Rightarrow> FunctionSpec option \<Rightarrow> bool \<Rightarrow> string
  \<Rightarrow> ('s, client_error + Process option) op" where
  "client_AddChild env processGraphID parentProcessID childProcessID funcSpec ins prvKey =
     request env ''addchildmsg'' (enc_AddChildMsg (messages env) (CreateAddChildMsg processGraphID parentProcessID
       childProcessID funcSpec ins)) prvKey (ConvertJSONToProcess (results env))"

definition client_GetProcessGraph :: "'s http_env \<Rightarrow> string \<Rightarrow> string \<Rightarrow> ('s, client_error + ProcessGraph option) op" where
  "client_GetProcessGraph env processGraphID prvKey =
     request env ''getprocessgraphmsg'' (enc_GetProcessGraphMsg (messages env) (CreateGetProcessGraphMsg processGraphID))
       prvKey (ConvertJSONToProcessGraph (results env))"

definition client_getProcessGraphs :: "'s http_env \<Rightarrow> int \<Rightarrow> string \<Rightarrow> int \<Rightarrow> string
  \<Rightarrow> ('s, client_error + ProcessGraph list) op" where
  "client_getProcessGraphs env state colonyName cnt prvKey =
     request env ''getprocessgraphsmsg'' (enc_GetProcessGraphsMsg (messages env) (CreateGetProcessGraphsMsg colonyName cnt
       state)) prvKey (ConvertJSONToProcessGraphArray (results env))"

definition client_GetWaitingProcessGraphs :: "'s http_env \<Rightarrow> string \<Rightarrow> int \<Rightarrow> string
  \<Rightarrow> ('s, client_error + ProcessGraph list) op" where
  "client_GetWaitingProcessGraphs env colonyName cnt prvKey = client_getProcessGraphs env WAITING colonyName cnt prvKey"

definition client_GetRunningProcessGraphs :: "'s http_env \<Rightarrow> string \<Rightarrow> int \<Rightarrow> string
  \<Rightarrow> ('s, client_error + ProcessGraph list) op" where
  "client_GetRunningProcessGraphs env colonyName cnt prvKey = client_getProcessGraphs env RUNNING colonyName cnt prvKey"

definition client_GetSuccessfulProcessGraphs :: "'s http_env \<Rightarrow> string \<Rightarrow> int \<Rightarrow> string
  \<Rightarrow> ('s, client_error + ProcessGraph list) op" where
  "client_GetSuccessfulProcessGraphs env colonyName cnt prvKey = client_getProcessGraphs env SUCCESS colonyName cnt prvKey"

definition client_GetFailedProcessGraphs :: "'s http_env \<Rightarrow> string \<Rightarrow> int \<Rightarrow> string
  \<Rightarrow> ('s, client_error + ProcessGraph list) op" where
  "client_GetFailedProcessGraphs env colonyName cnt prvKey = client_getProcessGraphs env FAILED colonyName cnt prvKey"

definition client_RemoveProcessGraph :: "'s http_env \<Rightarrow> string \<Rightarrow> string \<Rightarrow> ('s, client_error + unit) op" where
  "client_RemoveProcessGraph env processGraphID prvKey =
     request env ''removeprocessgraphmsg'' (enc_RemoveProcessGraphMsg (messages env) (CreateRemoveProcessGraphMsg
       processGraphID)) prvKey no_result"

definition client_RemoveAllProcessGraphs :: "'s http_env \<Rightarrow> string \<Rightarrow> string \<Rightarrow> ('s, client_error + unit) op" where
  "client_RemoveAllProcessGraphs env colonyName prvKey =
     request env ''removeallprocessgraphsmsg'' (enc_RemoveAllProcessGraphsMsg (messages env)
       ((CreateRemoveAllProcessGraphsMsg colonyName)\<lparr>RemoveAllProcessGraphs_State := NOTSET\<rparr>)) prvKey no_result"

definition client_RemoveAllProcessGraphsWithState :: "'s http_env \<Rightarrow> string \<Rightarrow> int \<Rightarrow> string
  \<Rightarrow> ('s, client_error + unit) op" where
  "client_RemoveAllProcessGraphsWithState env colonyName state prvKey =
     request env ''removeallprocessgraphsmsg'' (enc_RemoveAllProcessGraphsMsg (messages env)
       ((CreateRemoveAllProcessGraphsMsg colonyName)\<lparr>RemoveAllProcessGraphs_State := state\<rparr>)) prvKey no_result"

definition client_AddGenerator :: "'s http_env \<Rightarrow> Generator option \<Rightarrow> string
  \<Rightarrow> ('s, client_error + Generator option) op" where
  "client_AddGenerator env generator prvKey =
     request env ''addgeneratormsg'' (enc_AddGeneratorMsg (messages env) (CreateAddGeneratorMsg generator)) prvKey
       (ConvertJSONToGenerator (results env))"

definition client_GetGenerator :: "'s http_env \<Rightarrow> string \<Rightarrow> string \<Rightarrow> ('s, client_error + Generator option) op" where
  "client_GetGenerator env generatorID prvKey =
     request env ''getgeneratormsg'' (enc_GetGeneratorMsg (messages env) (CreateGetGeneratorMsg generatorID)) prvKey
       (ConvertJSONToGenerator (results env))"

definition client_ResolveGenerator :: "'s http_env \<Rightarrow> string \<Rightarrow> string \<Rightarrow> string
  \<Rightarrow> ('s, client_error + Generator option) op" where
  "client_ResolveGenerator env colonyName generatorName prvKey =
     request env ''resolvegeneratormsg'' (enc_ResolveGeneratorMsg (messages env) (CreateResolveGeneratorMsg colonyName
       generatorName)) prvKey (ConvertJSONToGenerator (results env))"

definition client_GetGenerators :: "'s http_env \<Rightarrow> string \<Rightarrow> int \<Rightarrow> string \<Rightarrow> ('s, client_error + Generator list) op" where
  "client_GetGenerators env colonyName cnt prvKey =
     request env ''getgeneratorsmsg'' (enc_GetGeneratorsMsg (messages env) (CreateGetGeneratorsMsg colonyName cnt)) prvKey
       (ConvertJSONToGeneratorArray (results env))"

definition client_PackGenerator :: "'s http_env \<Rightarrow> string \<Rightarrow> string \<Rightarrow> string \<Rightarrow> ('s, client_error + unit) op" where
  "client_PackGenerator env generatorID arg prvKey =
     request env ''packgeneratormsg'' (enc_PackGeneratorMsg (messages env) (CreatePackGeneratorMsg generatorID arg)) prvKey
       no_result"

definition client_RemoveGenerator :: "'s http_env \<Rightarrow> string \<Rightarrow> string \<Rightarrow> ('s, client_error + unit) op" where
  "client_RemoveGenerator env generatorID prvKey =
     request env ''removegeneratormsg'' (enc_RemoveGeneratorMsg (messages env) (CreateRemoveGeneratorMsg generatorID)) prvKey
       no_result"

definition client_AddCron :: "'s http_env \<Rightarrow> Cron option \<Rightarrow> string \<Rightarrow> ('s, client_error + Cron option) op" where
  "client_AddCron env cron prvKey =
     request env ''addcronmsg'' (enc_AddCronMsg (messages env) (CreateAddCronMsg cron)) prvKey (ConvertJSONToCron
       (results env))"

definition client_GetCron :: "'s http_env \<Rightarrow> string \<Rightarrow> string \<Rightarrow> ('s, client_error + Cron option) op" where
  "client_GetCron env cronID prvKey =
     request env ''getcronmsg'' (enc_GetCronMsg (messages env) (CreateGetCronMsg cronID)) prvKey (ConvertJSONToCron
       (results env))"

definition client_GetCrons :: "'s http_env \<Rightarrow> string \<Rightarrow> int \<Rightarrow> string \<Rightarrow> ('s, client_error + Cron list) op" where
  "client_GetCrons env colonyName cnt prvKey =
     request env ''getcronsmsg'' (enc_GetCronsMsg (messages env) (CreateGetCronsMsg colonyName cnt)) prvKey
       (ConvertJSONToCronArray (results env))"

definition client_RunCron :: "'s http_env \<Rightarrow> string \<Rightarrow> string \<Rightarrow> ('s, client_error + Cron option) op" where
  "client_RunCron env cronID prvKey =
     request env ''runcronmsg'' (enc_RunCronMsg (messages env) (CreateRunCronMsg cronID)) prvKey (ConvertJSONToCron
       (results env))"

definition client_RemoveCron :: "'s http_env \<Rightarrow> string \<Rightarrow> string \<Rightarrow> ('s, client_error + unit) op" where
  "client_RemoveCron env cronID prvKey =
     request env ''removecronmsg'' (enc_RemoveCronMsg (messages env) (CreateRemoveCronMsg cronID)) prvKey no_result"

definition client_AddFunction :: "'s http_env \<Rightarrow> Function option \<Rightarrow> string \<Rightarrow> ('s, client_error + Function option) op" where
  "client_AddFunction env func prvKey =
     request env ''addfunctionmsg'' (enc_AddFunctionMsg (messages env) (CreateAddFunctionMsg func)) prvKey
       (ConvertJSONToFunction (results env))"

definition client_GetFunctionsByExecutor :: "'s http_env \<Rightarrow> string \<Rightarrow> string \<Rightarrow> string
  \<Rightarrow> ('s, client_error + Function list) op" where
  "client_GetFunctionsByExecutor env colonyName executorName prvKey =
     request env ''getfunctionsmsg'' (enc_GetFunctionsMsg (messages env) (CreateGetFunctionsMsg colonyName executorName))
       prvKey (ConvertJSONToFunctionArray (results env))"

definition client_GetFunctionsByColony :: "'s http_env \<Rightarrow> string \<Rightarrow> string \<Rightarrow> ('s, client_error + Function list) op" where
  "client_GetFunctionsByColony env colonyName prvKey =
     request env ''getfunctionsmsg'' (enc_GetFunctionsMsg (messages env) (CreateGetFunctionsByColonyNameMsg colonyName))
       prvKey (ConvertJSONToFunctionArray (results env))"

definition client_RemoveFunction :: "'s http_env \<Rightarrow> string \<Rightarrow> string \<Rightarrow> ('s, client_error + unit) op" where
  "client_RemoveFunction env functionID prvKey =
     request env ''removefunctionmsg'' (enc_RemoveFunctionMsg (messages env) (CreateRemoveFunctionMsg functionID)) prvKey
       no_result"

definition client_GetClusterInfo :: "'s http_env \<Rightarrow> string \<Rightarrow> ('s, client_error + string option) op" where
  "client_GetClusterInfo env prvKey =
     request env ''getclustermsg'' (enc_GetClusterMsg (messages env) (CreateGetClusterMsg)) prvKey (ConvertJSONToConfig
       (results env))"

definition client_AddLog :: "'s http_env \<Rightarrow> string \<Rightarrow> string \<Rightarrow> string \<Rightarrow> ('s, client_error + unit) op" where
  "client_AddLog env processID logmsg prvKey =
     request env ''addlogmsg'' (enc_AddLogMsg (messages env) (CreateAddLogMsg processID logmsg)) prvKey no_result"

definition client_GetLogsByProcess :: "'s http_env \<Rightarrow> string \<Rightarrow> string \<Rightarrow> int \<Rightarrow> string
  \<Rightarrow> ('s, client_error + Log list) op" where
  "client_GetLogsByProcess env colonyName processID cnt prvKey =
     request env ''getlogsmsg'' (enc_GetLogsMsg (messages env) ((CreateGetLogsMsg colonyName processID cnt
       0)\<lparr>GetLogs_ExecutorName := []\<rparr>)) prvKey (ConvertJSONToLogArray (results env))"

definition client_GetLogsByProcessSince :: "'s http_env \<Rightarrow> string \<Rightarrow> string \<Rightarrow> int \<Rightarrow> int \<Rightarrow> string
  \<Rightarrow> ('s, client_error + Log list) op" where
  "client_GetLogsByProcessSince env colonyName processID cnt since prvKey =
     request env ''getlogsmsg'' (enc_GetLogsMsg (messages env) ((CreateGetLogsMsg colonyName processID cnt
       since)\<lparr>GetLogs_ExecutorName := []\<rparr>)) prvKey (ConvertJSONToLogArray (results env))"

definition client_GetLogsByExecutor :: "'s http_env \<Rightarrow> string \<Rightarrow> string \<Rightarrow> int \<Rightarrow> string
  \<Rightarrow> ('s, client_error + Log list) op" where
  "client_GetLogsByExecutor env colonyName executorName cnt prvKey =
     request env ''getlogsmsg'' (enc_GetLogsMsg (messages env) ((CreateGetLogsMsg colonyName [] cnt
       0)\<lparr>GetLogs_ExecutorName := executorName\<rparr>)) prvKey (ConvertJSONToLogArray (results env))"

definition client_GetLogsByExecutorSince :: "'s http_env \<Rightarrow> string \<Rightarrow> string \<Rightarrow> int \<Rightarrow> int \<Rightarrow> string
  \<Rightarrow> ('s, client_error + Log list) op" where
  "client_GetLogsByExecutorSince env colonyName executorName cnt since prvKey =
     request env ''getlogsmsg'' (enc_GetLogsMsg (messages env) ((CreateGetLogsMsg colonyName [] cnt
       since)\<lparr>GetLogs_ExecutorName := executorName\<rparr>)) prvKey (ConvertJSONToLogArray (results env))"

definition client_SearchLogs :: "'s http_env \<Rightarrow> string \<Rightarrow> string \<Rightarrow> int \<Rightarrow> int \<Rightarrow> string
  \<Rightarrow> ('s, client_error + Log list) op" where
  "client_SearchLogs env colonyName txt days cnt prvKey =
     request env ''searchlogsmsg'' (enc_SearchLogsMsg (messages env) ((CreateSearchLogsMsg colonyName txt days
       cnt)\<lparr>SearchLogs_ColonyName := colonyName, SearchLogs_Text := txt, SearchLogs_Days := days, SearchLogs_Count := cnt\<rparr>))
       prvKey (ConvertJSONToLogArray (results env))"

definition client_AddFile :: "'s http_env \<Rightarrow> File option \<Rightarrow> string \<Rightarrow> ('s, client_error + File option) op" where
  "client_AddFile env f prvKey =
     request env ''addfilemsg'' (enc_AddFileMsg (messages env) (CreateAddFileMsg f)) prvKey (ConvertJSONToFile
       (results env))"

definition client_GetFileByID :: "'s http_env \<Rightarrow> string \<Rightarrow> string \<Rightarrow> string \<Rightarrow> ('s, client_error + File list) op" where
  "client_GetFileByID env colonyName fileID prvKey =
     request env ''getfilemsg'' (enc_GetFileMsg (messages env) (CreateGetFileMsg colonyName fileID [] [] False)) prvKey
       (ConvertJSONToFileArray (results env))"

definition client_GetLatestFileByName :: "'s http_env \<Rightarrow> string \<Rightarrow> string \<Rightarrow> string \<Rightarrow> string
  \<Rightarrow> ('s, client_error + File list) op" where
  "client_GetLatestFileByName env colonyName label name prvKey =
     request env ''getfilemsg'' (enc_GetFileMsg (messages env) (CreateGetFileMsg colonyName [] label name True)) prvKey
       (ConvertJSONToFileArray (results env))"

definition client_GetFileByName :: "'s http_env \<Rightarrow> string \<Rightarrow> string \<Rightarrow> string \<Rightarrow> string
  \<Rightarrow> ('s, client_error + File list) op" where
  "client_GetFileByName env colonyName label name prvKey =
     request env ''getfilemsg'' (enc_GetFileMsg (messages env) (CreateGetFileMsg colonyName [] label name False)) prvKey
       (ConvertJSONToFileArray (results env))"

definition client_GetFileData :: "'s http_env \<Rightarrow> string \<Rightarrow> string \<Rightarrow> string \<Rightarrow> ('s, client_error + FileData list) op" where
  "client_GetFileData env colonyName label prvKey =
     request env ''getfilesmsg'' (enc_GetFilesMsg (messages env) (CreateGetFilesMsg colonyName label)) prvKey
       (ConvertJSONToFileDataArray (results env))"

definition client_GetFileLabels :: "'s http_env \<Rightarrow> string \<Rightarrow> string \<Rightarrow> ('s, client_error + Label list) op" where
  "client_GetFileLabels env colonyName prvKey =
     request env ''getfilelabelsmsg'' (enc_GetFileLabelsMsg (messages env) (CreateGetAllFileLabelsMsg colonyName)) prvKey
       (ConvertJSONToLabelArray (results env))"

definition client_GetFileLabelsByName :: "'s http_env \<Rightarrow> string \<Rightarrow> string \<Rightarrow> bool \<Rightarrow> string
  \<Rightarrow> ('s, client_error + Label list) op" where
  "client_GetFileLabelsByName env colonyName name exact prvKey =
     request env ''getfilelabelsmsg'' (enc_GetFileLabelsMsg (messages env) (CreateGetFileLabelsMsg colonyName name exact))
       prvKey (ConvertJSONToLabelArray (results env))"

definition client_RemoveFileByID :: "'s http_env \<Rightarrow> string \<Rightarrow> string \<Rightarrow> string \<Rightarrow> ('s, client_error + unit) op" where
  "client_RemoveFileByID env colonyName fileID prvKey =
     request env ''removefilemsg'' (enc_RemoveFileMsg (messages env) (CreateRemoveFileMsg colonyName fileID [] [])) prvKey
       no_result"

definition client_RemoveFileByName :: "'s http_env \<Rightarrow> string \<Rightarrow> string \<Rightarrow> string \<Rightarrow> string
  \<Rightarrow> ('s, client_error + unit) op" where
  "client_RemoveFileByName env colonyName label name prvKey =
     request env ''removefilemsg'' (enc_RemoveFileMsg (messages env) (CreateRemoveFileMsg colonyName [] label name)) prvKey
       no_result"

definition client_CreateSnapshot :: "'s http_env \<Rightarrow> string \<Rightarrow> string \<Rightarrow> string \<Rightarrow> string
  \<Rightarrow> ('s, client_error + Snapshot option) op" where
  "client_CreateSnapshot env colonyName label name prvKey =
     request env ''createsnapshotmsg'' (enc_CreateSnapshotMsg (messages env) (CreateCreateSnapshotMsg colonyName label name))
       prvKey (ConvertJSONToSnapshot (results env))"

definition client_GetSnapshotByID :: "'s http_env \<Rightarrow> string \<Rightarrow> string \<Rightarrow> string
  \<Rightarrow> ('s, client_error + Snapshot option) op" where
  "client_GetSnapshotByID env colonyName snapshotID prvKey =
     request env ''getsnapshotmsg'' (enc_GetSnapshotMsg (messages env) (CreateGetSnapshotMsg colonyName snapshotID []))
       prvKey (ConvertJSONToSnapshot (results env))"

definition client_GetSnapshotByName :: "'s http_env \<Rightarrow> string \<Rightarrow> string \<Rightarrow> string
  \<Rightarrow> ('s, client_error + Snapshot option) op" where
  "client_GetSnapshotByName env colonyName name prvKey =
     request env ''getsnapshotmsg'' (enc_GetSnapshotMsg (messages env) (CreateGetSnapshotMsg colonyName [] name)) prvKey
       (ConvertJSONToSnapshot (results env))"

definition client_GetSnapshotsByColonyName :: "'s http_env \<Rightarrow> string \<Rightarrow> string \<Rightarrow> ('s, client_error + Snapshot list) op" where
  "client_GetSnapshotsByColonyName env colonyName prvKey =
     request env ''getsnapshotsmsg'' (enc_GetSnapshotsMsg (messages env) (CreateGetSnapshotsMsg colonyName)) prvKey
       (ConvertJSONToSnapshotsArray (results env))"

definition client_RemoveSnapshotByID :: "'s http_env \<Rightarrow> string \<Rightarrow> string \<Rightarrow> string \<Rightarrow> ('s, client_error + unit) op" where
  "client_RemoveSnapshotByID env colonyName snapshotID prvKey =
     request env ''removesnapshotmsg'' (enc_RemoveSnapshotMsg (messages env) (CreateRemoveSnapshotMsg colonyName snapshotID
       [])) prvKey no_result"

definition client_RemoveSnapshotByName :: "'s http_env \<Rightarrow> string \<Rightarrow> string \<Rightarrow> string \<Rightarrow> ('s, client_error + unit) op" where
  "client_RemoveSnapshotByName env colonyName name prvKey =
     request env ''removesnapshotmsg'' (enc_RemoveSnapshotMsg (messages env) (CreateRemoveSnapshotMsg colonyName [] name))
       prvKey no_result"

definition client_RemoveAllSnapshots :: "'s http_env \<Rightarrow> string \<Rightarrow> string \<Rightarrow> ('s, client_error + unit) op" where
  "client_RemoveAllSnapshots env colonyName prvKey =
     request env ''removeallsnapshotmsg'' (enc_RemoveAllSnapshotsMsg (messages env) (CreateRemoveAllSnapshotsMsg colonyName))
       prvKey no_result"

definition client_ChangeUserID :: "'s http_env \<Rightarrow> string \<Rightarrow> string \<Rightarrow> string \<Rightarrow> ('s, client_error + unit) op" where
  "client_ChangeUserID env colonyName userID prvKey =
     request env ''changeuseridmsg'' (enc_ChangeUserIDMsg (messages env) (CreateChangeUserIDMsg colonyName userID)) prvKey
       no_result"

definition client_ChangeExecutorID :: "'s http_env \<Rightarrow> string \<Rightarrow> string \<Rightarrow> string \<Rightarrow> ('s, client_error + unit) op" where
  "client_ChangeExecutorID env colonyName executorID prvKey =
     request env ''changeexecutoridmsg'' (enc_ChangeExecutorIDMsg (messages env) (CreateChangeExecutorIDMsg colonyName
       executorID)) prvKey no_result"

definition client_ChangeColonyID :: "'s http_env \<Rightarrow> string \<Rightarrow> string \<Rightarrow> string \<Rightarrow> ('s, client_error + unit) op" where
  "client_ChangeColonyID env colonyName colonyID prvKey =
     request env ''changecolonyidmsg'' (enc_ChangeColonyIDMsg (messages env) (CreateChangeColonyIDMsg colonyName colonyID))
       prvKey no_result"

definition client_ChangeServerID :: "'s http_env \<Rightarrow> string \<Rightarrow> string \<Rightarrow> ('s, client_error + unit) op" where
  "client_ChangeServerID env serverID prvKey =
     request env ''changeserveridmsg'' (enc_ChangeServerIDMsg (messages env) (CreateChangeServerIDMsg serverID)) prvKey
       no_result"

definition client_PauseColonyAssignments :: "'s http_env \<Rightarrow> string \<Rightarrow> string \<Rightarrow> ('s, client_error + unit) op" where
  "client_PauseColonyAssignments env colonyName prvKey =
     request env ''pauseassignmentsmsg'' (enc_PauseAssignmentsMsg (messages env) (CreatePauseAssignmentsMsg colonyName))
       prvKey no_result"

definition client_ResumeColonyAssignments :: "'s http_env \<Rightarrow> string \<Rightarrow> string \<Rightarrow> ('s, client_error + unit) op" where
  "client_ResumeColonyAssignments env colonyName prvKey =
     request env ''resumeassignmentsmsg'' (enc_ResumeAssignmentsMsg (messages env) (CreateResumeAssignmentsMsg colonyName))
       prvKey no_result"

text \<open>The version is asked for without a signature. A reply that is null is dereferenced.\<close>

definition client_Version :: "'s http_env \<Rightarrow> ('s, client_error + string \<times> string) op" where
  "client_Version env =
     bindM (request_as env ''versionmsg'' (enc_VersionMsg (messages env) (CreateVersionMsg [] [])) [] True
       (CreateVersionMsgFromJSON (results env))) (\<lambda>res.
     case res of
       Inl e \<Rightarrow> retM (Inl e)
     | Inr p \<Rightarrow> bindM (derefM p) (\<lambda>version. retM (Inr (Version_BuildVersion version, Version_BuildTime version))))"

definition client_AreColonyAssignmentsPaused :: "'s http_env \<Rightarrow> string \<Rightarrow> string \<Rightarrow> ('s, client_error + bool) op" where
  "client_AreColonyAssignmentsPaused env colonyName prvKey =
     bindM (request env ''getpausestatusmsg'' (enc_GetPauseStatusMsg (messages env) (CreateGetPauseStatusMsg colonyName)) prvKey
       (CreatePauseStatusReplyMsgFromJSON (results env))) (\<lambda>res.
     case res of
       Inl e \<Rightarrow> retM (Inl e)
     | Inr p \<Rightarrow> bindM (derefM p) (\<lambda>reply. retM (Inr (PauseStatus_IsPaused reply))))"

end
