(* ===== verification/Fs_Client.thy ===== *)
theory Fs_Client
  imports Files Go_Strings
begin

text \<open>
  The client of the file system of a colony (\<open>src/pkg/fs/fs_client.go\<close>, \<open>s3.go\<close>): it compares a directory with the
  files under a label, copies what is missing, and removes files. Contents are in the objects of an S3 bucket, the
  server keeps their metadata.

  The requests to the server are a record of operations on its state. A sync hands one job for each file to a pool
  of workers; the jobs are run one after the other in an order that is an argument, and all of them are run, also
  when one fails.
\<close>

section \<open>Data\<close>

record FileInfo =
  fi_Name :: string
  fi_Checksum :: string
  fi_Size :: int
  fi_S3Filename :: string
  fi_Dir :: bool

record SyncPlan =
  sp_Dir :: string
  sp_LocalMissing :: "FileInfo list"
  sp_RemoteMissing :: "FileInfo list"
  sp_Conflicts :: "FileInfo list"
  sp_KeepLocal :: bool
  sp_Label :: string

record CleanPlan =
  cp_Dir :: string
  cp_FilesToRemove :: "FileInfo list"
  cp_Label :: string

text \<open>The handle of the library for S3 is left out; its requests fail only for objects that are missing.\<close>

record S3Client =
  s3c_BucketName :: string
  s3c_Endpoint :: string
  s3c_AccessKey :: string
  s3c_SecretKey :: string
  s3c_Region :: string
  s3c_TLS :: bool

text \<open>A directory lists its entries; the directories of the machine are listed by their path.\<close>

datatype entry = Content string | Directory

type_synonym directory = "(string \<times> entry) list"

record 's world =
  w_dirs :: "(string \<times> directory) list"
  w_s3 :: "string \<rightharpoonup> string"
  w_next :: nat
  w_srv :: 's

text \<open>
  What the client calls: the server, the hash of contents, random identifiers, and the JSON of the marker file; and the
  size that the operating system gives for a directory.
\<close>

record 's fs_env =
  api_GetFileData :: "string \<Rightarrow> ('s, FileData list) op"
  api_GetFileLabelsByName :: "string \<Rightarrow> bool \<Rightarrow> ('s, Label list) op"
  api_AddFile :: "File \<Rightarrow> ('s, unit) op"
  api_GetFileByID :: "string \<Rightarrow> ('s, File list) op"
  api_GetFileByName :: "string \<Rightarrow> string \<Rightarrow> ('s, File list) op"
  api_RemoveFileByID :: "string \<Rightarrow> ('s, unit) op"
  api_RemoveFileByName :: "string \<Rightarrow> string \<Rightarrow> ('s, unit) op"
  api_GetSnapshotByID :: "string \<Rightarrow> ('s, Snapshot) op"
  sha256 :: "string \<Rightarrow> string"
  random_id :: "nat \<Rightarrow> string"
  cfs_json :: "string \<Rightarrow> string"
  fs_colonyName :: string
  fs_s3Client :: S3Client
  dir_Size :: int

definition server :: "('s, 'a) op \<Rightarrow> ('s world, 'a) op" where
  "server m w = (case m (w_srv w) of (r, s) \<Rightarrow> (r, w\<lparr>w_srv := s\<rparr>))"

definition GenerateRandom :: "'s fs_env \<Rightarrow> ('s world, string) op" where
  "GenerateRandom env w = (Inr (random_id env (w_next w)), w\<lparr>w_next := Suc (w_next w)\<rparr>)"

section \<open>Local files\<close>

definition entry_at :: "string \<Rightarrow> string \<Rightarrow> 's world \<Rightarrow> entry option" where
  "entry_at dir name w = (case map_of (w_dirs w) dir of None \<Rightarrow> None | Some d \<Rightarrow> map_of d name)"

definition write_file :: "string \<Rightarrow> string \<Rightarrow> string \<Rightarrow> ('s world, unit) op" where
  "write_file dir name content w =
     (case map_of (w_dirs w) dir of
        None \<Rightarrow> (Inl (Err ''no such file or directory''), w)
      | Some d \<Rightarrow>
          if map_of d name = Some Directory then (Inl (Err ''is a directory''), w)
          else (Inr (), w\<lparr>w_dirs := AList.update dir (AList.update name (Content content) d) (w_dirs w)\<rparr>))"

text \<open>The directory a path is in, and its last element.\<close>

definition path_dir :: "string \<Rightarrow> string" where
  "path_dir p = rev (tl (dropWhile (\<lambda>c. c \<noteq> CHR ''/'') (rev p)))"

definition path_base :: "string \<Rightarrow> string" where
  "path_base p = rev (takeWhile (\<lambda>c. c \<noteq> CHR ''/'') (rev p))"

lemma path_dir_shorter: "CHR ''/'' \<in> set p \<Longrightarrow> length (path_dir p) < length p"
proof -
  assume "CHR ''/'' \<in> set p"
  then have "dropWhile (\<lambda>c. c \<noteq> CHR ''/'') (rev p) \<noteq> []" by (auto simp: dropWhile_eq_Nil_conv)
  then have "length (tl (dropWhile (\<lambda>c. c \<noteq> CHR ''/'') (rev p))) < length (dropWhile (\<lambda>c. c \<noteq> CHR ''/'') (rev p))" by simp
  also have "\<dots> \<le> length p" using length_dropWhile_le[of _ "rev p"] by simp
  finally show ?thesis by (simp add: path_dir_def)
qed

definition add_entry :: "string \<Rightarrow> string \<Rightarrow> entry \<Rightarrow> 's world \<Rightarrow> 's world" where
  "add_entry dir name e w =
     (case map_of (w_dirs w) dir of
        None \<Rightarrow> w
      | Some d \<Rightarrow> w\<lparr>w_dirs := AList.update dir (AList.update name e d) (w_dirs w)\<rparr>)"

text \<open>\<open>os.MkdirAll\<close>\<close>

function mkdir_all :: "string \<Rightarrow> 's world \<Rightarrow> 's world" where
  "mkdir_all dir w =
     (if map_of (w_dirs w) dir \<noteq> None then w
      else
        let w1 = (if CHR ''/'' \<in> set dir then add_entry (path_dir dir) (path_base dir) Directory (mkdir_all (path_dir dir) w) else w)
        in w1\<lparr>w_dirs := AList.update dir [] (w_dirs w1)\<rparr>)"
  by pat_completeness auto
termination
  by (relation "measure (length \<circ> fst)") (auto simp: path_dir_shorter)

declare mkdir_all.simps [simp del]

text \<open>The checksum of a file, an error if it cannot be read.\<close>

definition checksum :: "'s fs_env \<Rightarrow> string \<Rightarrow> string \<Rightarrow> 's world \<Rightarrow> failure + string" where
  "checksum env dir name w =
     (case entry_at dir name w of
        Some (Content c) \<Rightarrow> Inr (sha256 env c)
      | _ \<Rightarrow> Inl (Err ''cannot read file''))"

section \<open>Objects\<close>

definition s3_Upload :: "string \<Rightarrow> string \<Rightarrow> string \<Rightarrow> ('s world, unit) op" where
  "s3_Upload dir filename s3Filename w =
     (case entry_at dir filename w of
        Some (Content c) \<Rightarrow> (Inr (), w\<lparr>w_s3 := (w_s3 w)(s3Filename \<mapsto> c)\<rparr>)
      | _ \<Rightarrow> (Inl (Err ''cannot read file''), w))"

text \<open>The object is read only after the file was created: without the object an empty file is left behind.\<close>

definition s3_Download :: "string \<Rightarrow> string \<Rightarrow> string \<Rightarrow> ('s world, unit) op" where
  "s3_Download filename s3Filename downloadDir =
     thenM (write_file downloadDir filename [])
     (bindM (getM (\<lambda>w. w_s3 w s3Filename)) (\<lambda>obj.
      case obj of
        None \<Rightarrow> throwM (Err ''The specified key does not exist.'')
      | Some c \<Rightarrow> write_file downloadDir filename c))"

definition s3_Remove :: "string \<Rightarrow> ('s world, unit) op" where
  "s3_Remove filename = modifyM (\<lambda>w. w\<lparr>w_s3 := (w_s3 w)(filename := None)\<rparr>)"

section \<open>Plans\<close>

text \<open>
  The code fills its lists by ranges over Go maps, whose order is not fixed. Here they are in the order of the
  directory and of the reply; the workers take the jobs in any order.
\<close>

text \<open>The files of a directory that a sync looks at, with checksum and size; a directory that is missing has none.\<close>

definition local_files :: "'s fs_env \<Rightarrow> string \<Rightarrow> 's world \<Rightarrow> (string \<times> string \<times> int) list" where
  "local_files env dir w =
     (case map_of (w_dirs w) dir of
        None \<Rightarrow> []
      | Some d \<Rightarrow> List.map_filter (\<lambda>(name, e). case e of
          Content c \<Rightarrow> if name = ''.cfs'' then None else Some (name, sha256 env c, int (length c))
        | Directory \<Rightarrow> None) d)"

definition remote_files :: "FileData list \<Rightarrow> (string \<times> FileData) list" where
  "remote_files arr = fold (\<lambda>fd m. AList.update (fd_Name fd) fd m) arr []"

definition FileInfo_of :: "string \<Rightarrow> string \<Rightarrow> int \<Rightarrow> string \<Rightarrow> FileInfo" where
  "FileInfo_of name chk sz obj = \<lparr>fi_Name = name, fi_Checksum = chk, fi_Size = sz, fi_S3Filename = obj, fi_Dir = False\<rparr>"

definition remote_missing :: "(string \<times> string \<times> int) list \<Rightarrow> (string \<times> FileData) list \<Rightarrow> FileInfo list" where
  "remote_missing locals remotes = List.map_filter (\<lambda>(name, chk, sz).
     if map_of remotes name = None then Some (FileInfo_of name chk sz []) else None) locals"

definition local_missing :: "(string \<times> string \<times> int) list \<Rightarrow> (string \<times> FileData) list \<Rightarrow> FileInfo list" where
  "local_missing locals remotes = List.map_filter (\<lambda>(name, fd).
     if map_of locals name = None then Some (FileInfo_of name (fd_Checksum fd) (fd_Size fd) (fd_S3Filename fd)) else None) remotes"

definition conflicts_of :: "bool \<Rightarrow> (string \<times> string \<times> int) list \<Rightarrow> (string \<times> FileData) list \<Rightarrow> FileInfo list" where
  "conflicts_of keepLocal locals remotes = List.map_filter (\<lambda>(name, fd).
     case map_of locals name of
       None \<Rightarrow> None
     | Some (chk, sz) \<Rightarrow>
         if chk \<noteq> fd_Checksum fd
         then Some (if keepLocal then FileInfo_of name chk sz [] else FileInfo_of name (fd_Checksum fd) (fd_Size fd) (fd_S3Filename fd))
         else None) remotes"

definition CalcSyncPlan :: "'s fs_env \<Rightarrow> string \<Rightarrow> string \<Rightarrow> bool \<Rightarrow> ('s world, SyncPlan) op" where
  "CalcSyncPlan env dir label keepLocal =
     bindM (server (api_GetFileData env label)) (\<lambda>arr.
     bindM (getM (local_files env dir)) (\<lambda>locals.
     let remotes = remote_files arr in
     retM \<lparr>sp_Dir = dir, sp_LocalMissing = local_missing locals remotes, sp_RemoteMissing = remote_missing locals remotes,
       sp_Conflicts = conflicts_of keepLocal locals remotes, sp_KeepLocal = keepLocal, sp_Label = label\<rparr>))"

section \<open>Applying a plan\<close>

definition uploadFile :: "'s fs_env \<Rightarrow> SyncPlan \<Rightarrow> FileInfo \<Rightarrow> ('s world, unit) op" where
  "uploadFile env syncPlan fileInfo =
     bindM (getM (entry_at (sp_Dir syncPlan) (fi_Name fileInfo))) (\<lambda>stat.
     case stat of
       None \<Rightarrow> throwM (Err ''no such file or directory'')
     | Some entry \<Rightarrow>
         bindM (GenerateRandom env) (\<lambda>obj.
         let sz = (case entry of Directory \<Rightarrow> dir_Size env | Content c \<Rightarrow> int (length c));
             s3Client = fs_s3Client env;
             s3Object = \<lparr>s3_Server = s3c_Endpoint s3Client, s3_Port = - 1, s3_TLS = s3c_TLS s3Client, s3_AccessKey = s3c_AccessKey s3Client,
               s3_SecretKey = s3c_SecretKey s3Client, s3_Region = s3c_Region s3Client, s3_EncryptionKey = [], s3_EncryptionAlg = [],
               s3_Object = obj, s3_Bucket = s3c_BucketName s3Client\<rparr>;
             file = \<lparr>file_ID = [], file_ColonyName = fs_colonyName env, file_Label = sp_Label syncPlan, file_Name = fi_Name fileInfo,
               file_Size = sz, file_SequenceNumber = 0, file_Checksum = fi_Checksum fileInfo, file_ChecksumAlg = ''SHA256'',
               file_Reference = \<lparr>ref_Protocol = ''s3'', ref_S3Object = s3Object\<rparr>, file_Added = 0\<rparr>
         in thenM (whenM (sz > 0) (s3_Upload (sp_Dir syncPlan) (fi_Name fileInfo) obj)) (server (api_AddFile env file))))"

datatype sync_job = Upload FileInfo | Fetch FileInfo | FetchConflict FileInfo

fun run_job :: "'s fs_env \<Rightarrow> SyncPlan \<Rightarrow> sync_job \<Rightarrow> ('s world, unit) op" where
  "run_job env plan (Upload f) = uploadFile env plan f"
| "run_job env plan (Fetch f) =
     (if fi_Size f > 0 then s3_Download (fi_Name f) (fi_S3Filename f) (sp_Dir plan) else write_file (sp_Dir plan) (fi_Name f) [])"
| "run_job env plan (FetchConflict f) = s3_Download (fi_Name f) (fi_S3Filename f) (sp_Dir plan)"

definition jobs_of :: "SyncPlan \<Rightarrow> sync_job list" where
  "jobs_of plan = map Upload (sp_RemoteMissing plan) @ map Fetch (sp_LocalMissing plan) @
     map (if sp_KeepLocal plan then Upload else FetchConflict) (sp_Conflicts plan)"

text \<open>All jobs are run; the first error is the result.\<close>

fun run_jobs :: "('j \<Rightarrow> ('s, unit) op) \<Rightarrow> 'j list \<Rightarrow> ('s, unit) op" where
  "run_jobs run [] s = (Inr (), s)"
| "run_jobs run (j # js) s =
     (case run j s of (r, s1) \<Rightarrow> (case run_jobs run js s1 of (r', s2) \<Rightarrow> (case r of Inl e \<Rightarrow> (Inl e, s2) | Inr _ \<Rightarrow> (r', s2))))"

definition ApplySyncPlan :: "'s fs_env \<Rightarrow> (sync_job list \<Rightarrow> sync_job list) \<Rightarrow> SyncPlan \<Rightarrow> ('s world, unit) op" where
  "ApplySyncPlan env order plan =
     (if jobs_of plan = [] then retM ()
      else thenM (modifyM (mkdir_all (sp_Dir plan)))
        (thenM (write_file (sp_Dir plan) ''.cfs'' (cfs_json env (sp_Label plan)))
          (run_jobs (run_job env plan) (order (jobs_of plan)))))"

section \<open>Whole trees\<close>

definition TrimPrefix :: "string \<Rightarrow> string \<Rightarrow> string" where
  "TrimPrefix s p = (if HasPrefix s p then drop (length p) s else s)"

definition with_slash :: "string \<Rightarrow> string" where
  "with_slash label = (if HasPrefix label ''/'' then label else ''/'' @ label)"

text \<open>The directories \<open>filepath.Walk\<close> meets; paths are absolute and clean.\<close>

definition walk_dirs :: "string \<Rightarrow> 's world \<Rightarrow> string list" where
  "walk_dirs dir w = filter (\<lambda>p. p = dir \<or> HasPrefix p (dir @ ''/'')) (map fst (w_dirs w))"

definition require_dir :: "string \<Rightarrow> ('s world, unit) op" where
  "require_dir dir = bindM (getM (\<lambda>w. map_of (w_dirs w) dir)) (\<lambda>d. guardM (d \<noteq> None) (Err (dir @ '' is not a directory'')))"

definition CalcSyncPlans :: "'s fs_env \<Rightarrow> string \<Rightarrow> string \<Rightarrow> bool \<Rightarrow> ('s world, SyncPlan list) op" where
  "CalcSyncPlans env dir label0 keepLocal =
     (let label = with_slash label0 in
      thenM (require_dir dir)
      (bindM (getM (walk_dirs dir)) (\<lambda>paths.
       bindM (foldM (\<lambda>m path. let l = label @ TrimPrefix path dir in
          bindM (CalcSyncPlan env path l keepLocal) (\<lambda>p. retM (AList.update l p m))) [] paths) (\<lambda>syncPlans.
       bindM (server (api_GetFileLabelsByName env label True)) (\<lambda>allLabels.
       bindM (foldM (\<lambda>m l.
          if map_of m (label_Name l) \<noteq> None then retM m
          else bindM (CalcSyncPlan env (dir @ TrimPrefix (label_Name l) label) (label_Name l) keepLocal)
            (\<lambda>p. retM (AList.update (label_Name l) p m))) syncPlans allLabels) (\<lambda>syncPlans.
       retM (map snd syncPlans)))))))"

text \<open>One entry of a directory for a clean plan: a directory without a label of its own, or a file that the label has not.\<close>

definition clean_entry :: "'s fs_env \<Rightarrow> string \<Rightarrow> string \<Rightarrow> FileData list \<Rightarrow> string \<times> entry \<Rightarrow> ('s world, FileInfo list) op" where
  "clean_entry env dir label remotes = (\<lambda>(name, e).
     case e of
       Directory \<Rightarrow>
         bindM (server (api_GetFileLabelsByName env (label @ ''/'' @ name) True)) (\<lambda>labels.
         retM (if label @ ''/'' @ name \<in> set (map label_Name labels) then []
               else [(FileInfo_of (dir @ ''/'' @ name) [] 0 [])\<lparr>fi_Dir := True\<rparr>]))
     | Content _ \<Rightarrow>
         retM (if name = ''.cfs'' \<or> name \<in> set (map fd_Name remotes) then []
               else [FileInfo_of (dir @ ''/'' @ name) [] 0 []]))"

definition CalcCleanPlan :: "'s fs_env \<Rightarrow> string \<Rightarrow> string \<Rightarrow> ('s world, CleanPlan) op" where
  "CalcCleanPlan env dir label0 =
     (let label = with_slash label0 in
      thenM (require_dir dir)
      (bindM (server (api_GetFileData env label)) (\<lambda>filesInLabels.
       bindM (getM (\<lambda>w. case map_of (w_dirs w) dir of None \<Rightarrow> [] | Some d \<Rightarrow> d)) (\<lambda>localFiles.
       bindM (mapM (clean_entry env dir label filesInLabels) localFiles) (\<lambda>rs.
       retM \<lparr>cp_Dir = dir, cp_FilesToRemove = concat rs, cp_Label = label\<rparr>)))))"

definition calcCleanPlans :: "'s fs_env \<Rightarrow> string \<Rightarrow> string \<Rightarrow> ('s world, CleanPlan list) op" where
  "calcCleanPlans env dir label0 =
     (let label = with_slash label0 in
      thenM (require_dir dir)
      (bindM (getM (walk_dirs dir)) (\<lambda>paths.
       bindM (foldM (\<lambda>m path. let l = label @ TrimPrefix path dir in
          bindM (CalcCleanPlan env path l) (\<lambda>p. retM (AList.update l p m))) [] paths) (\<lambda>cleanPlans.
       retM (map snd cleanPlans)))))"

definition CalcCleanPlans :: "'s fs_env \<Rightarrow> string \<Rightarrow> string \<Rightarrow> ('s world, CleanPlan list) op" where
  "CalcCleanPlans env dir label0 =
     (let label = with_slash label0 in
      thenM (require_dir dir)
      (bindM (server (api_GetFileLabelsByName env label True)) (\<lambda>labels.
       if labels = [] then throwM (Err ''Root directory not found in colonyFS'') else calcCleanPlans env dir label)))"

definition delete_entry :: "string \<Rightarrow> 's world \<Rightarrow> 's world" where
  "delete_entry path w =
     (case map_of (w_dirs w) (path_dir path) of
        None \<Rightarrow> w
      | Some d \<Rightarrow> w\<lparr>w_dirs := AList.update (path_dir path) (AList.delete (path_base path) d) (w_dirs w)\<rparr>)"

definition os_RemoveAll :: "string \<Rightarrow> ('s world, unit) op" where
  "os_RemoveAll path = modifyM (\<lambda>w. delete_entry path
     (w\<lparr>w_dirs := filter (\<lambda>(p, d). \<not> (p = path \<or> HasPrefix p (path @ ''/''))) (w_dirs w)\<rparr>))"

definition os_Remove :: "string \<Rightarrow> ('s world, unit) op" where
  "os_Remove path = bindM (getM (entry_at (path_dir path) (path_base path))) (\<lambda>e.
     case e of
       Some (Content _) \<Rightarrow> modifyM (delete_entry path)
     | _ \<Rightarrow> throwM (Err ''cannot remove file''))"

definition ApplyCleanPlan :: "CleanPlan \<Rightarrow> ('s world, unit) op" where
  "ApplyCleanPlan plan = forM (cp_FilesToRemove plan) (\<lambda>f. if fi_Dir f then os_RemoveAll (fi_Name f) else os_Remove (fi_Name f))"

section \<open>Single files\<close>

definition object_of :: "File \<Rightarrow> string" where
  "object_of f = s3_Object (ref_S3Object (file_Reference f))"

definition fs_Download :: "'s fs_env \<Rightarrow> string \<Rightarrow> string \<Rightarrow> ('s world, unit) op" where
  "fs_Download env fileID downloadDir =
     bindM (server (api_GetFileByID env fileID)) (\<lambda>files.
     case files of
       [f] \<Rightarrow> s3_Download (file_Name f) (object_of f) downloadDir
     | _ \<Rightarrow> throwM (Err ''Failed to get file info''))"

definition fs_RemoveFileByID :: "'s fs_env \<Rightarrow> string \<Rightarrow> ('s world, unit) op" where
  "fs_RemoveFileByID env fileID =
     bindM (server (api_GetFileByID env fileID)) (\<lambda>files.
     case files of
       [f] \<Rightarrow> thenM (s3_Remove (object_of f)) (server (api_RemoveFileByID env fileID))
     | _ \<Rightarrow> throwM (Err ''Failed to get file info''))"

definition fs_RemoveFileByName :: "'s fs_env \<Rightarrow> string \<Rightarrow> string \<Rightarrow> ('s world, unit) op" where
  "fs_RemoveFileByName env label name =
     bindM (server (api_GetFileByName env label name)) (\<lambda>files.
     forM files (\<lambda>revision. thenM (s3_Remove (object_of revision)) (server (api_RemoveFileByID env (file_ID revision)))))"

text \<open>
  Removing all files of a label waits for as many results as there are files; without files it waits for a first
  one that never comes, which is the result \<open>None\<close>.
\<close>

definition remove_data :: "'s fs_env \<Rightarrow> string \<times> FileData \<Rightarrow> ('s world, unit) op" where
  "remove_data env = (\<lambda>(l, fd). thenM (s3_Remove (fd_S3Filename fd)) (server (api_RemoveFileByName env l (fd_Name fd))))"

definition RemoveAllFilesWithLabel ::
  "'s fs_env \<Rightarrow> ((string \<times> FileData) list \<Rightarrow> (string \<times> FileData) list) \<Rightarrow> string \<Rightarrow> ('s world, unit option) op" where
  "RemoveAllFilesWithLabel env order label =
     bindM (server (api_GetFileLabelsByName env label False)) (\<lambda>allLabels.
     bindM (mapM (\<lambda>l. bindM (server (api_GetFileData env (label_Name l))) (\<lambda>arr. retM (map (\<lambda>fd. (label_Name l, fd)) arr))) allLabels) (\<lambda>arrs.
     if concat arrs = [] then retM None
     else thenM (run_jobs (remove_data env) (order (concat arrs))) (retM (Some ()))))"

text \<open>
  A file of a snapshot is looked for in the directory itself, but stored in the subdirectory of its label. The error
  of \<open>GetFileByID\<close> is overwritten.
\<close>

definition download_revision :: "'s fs_env \<Rightarrow> string \<Rightarrow> string \<Rightarrow> string \<Rightarrow> ('s world, unit) op" where
  "download_revision env snapLabel downloadDir fileID =
     bindM (tryM (server (api_GetFileByID env fileID))) (\<lambda>r.
     case r of
       Inr [f] \<Rightarrow>
         bindM (getM (checksum env downloadDir (file_Name f))) (\<lambda>chk.
         if chk = Inr (file_Checksum f) then retM ()
         else
           let dir = downloadDir @ TrimPrefix (file_Label f) snapLabel in
           thenM (modifyM (mkdir_all dir)) (s3_Download (file_Name f) (object_of f) dir))
     | _ \<Rightarrow> throwM (Err ''Failed to download file, no revision found''))"

definition DownloadSnapshot :: "'s fs_env \<Rightarrow> string \<Rightarrow> string \<Rightarrow> ('s world, unit) op" where
  "DownloadSnapshot env snapshotID downloadDir =
     bindM (server (api_GetSnapshotByID env snapshotID)) (\<lambda>snapshot.
     forM (snap_FileIDs snapshot) (download_revision env (snap_Label snapshot) downloadDir))"


end
