(* ===== verification/Fs_Facts.thy ===== *)
theory Fs_Facts
  imports Fs_Client
begin

text \<open>
  A sync brings a directory and a label together: after it a second one has nothing to do. The client relies on the
  server through \<open>file_server\<close>, which the tables of files keep.
\<close>

section \<open>What is where\<close>

text \<open>The content of a file of a directory, as a sync sees it, and the metadata the server gives for it.\<close>

definition local_at :: "string \<Rightarrow> 's world \<Rightarrow> string \<rightharpoonup> string" where
  "local_at dir w name =
     (if name = ''.cfs'' then None else case entry_at dir name w of Some (Content c) \<Rightarrow> Some c | _ \<Rightarrow> None)"

definition data_of :: "File \<Rightarrow> FileData" where
  "data_of f = \<lparr>fd_Name = file_Name f, fd_Checksum = file_Checksum f, fd_Size = file_Size f, fd_S3Filename = object_of f\<rparr>"

lemma local_at_cfs [simp]: "local_at dir w ''.cfs'' = None"
  by (simp add: local_at_def)

text \<open>The interface of the server: what was added last under a label and name is what a request for the label gives.\<close>

locale file_server =
  fixes get_data :: "string \<Rightarrow> ('s, FileData list) op" and add_file :: "File \<Rightarrow> ('s, unit) op"
    and latest :: "'s \<Rightarrow> string \<Rightarrow> string \<rightharpoonup> FileData" and ok :: "'s \<Rightarrow> bool" and accepts :: "File \<Rightarrow> bool"
  assumes get_law: "ok s \<Longrightarrow> \<exists>s' fds. get_data l s = (Inr fds, s') \<and> ok s' \<and> latest s' = latest s \<and>
      distinct (map fd_Name fds) \<and> (\<forall>n. map_of (map (\<lambda>f. (fd_Name f, f)) fds) n = latest s l n)"
    and add_law: "ok s \<Longrightarrow> accepts f \<Longrightarrow> \<exists>s'. add_file f s = (Inr (), s') \<and> ok s' \<and>
      latest s' = (latest s)(file_Label f := (latest s (file_Label f))(file_Name f \<mapsto> data_of f))"

definition dirs_ok :: "'s world \<Rightarrow> bool" where
  "dirs_ok w \<longleftrightarrow> (\<forall>d \<in> snd ` set (w_dirs w). distinct (map fst d))"

lemma dirs_okD: "dirs_ok w \<Longrightarrow> map_of (w_dirs w) dir = Some d \<Longrightarrow> distinct (map fst d)"
  unfolding dirs_ok_def by (metis imageI map_of_SomeD snd_conv)

text \<open>Picking from a list with distinct keys keeps them distinct.\<close>

lemma map_filter_keys:
  assumes "distinct (map fst xs)" "\<And>x y. f x = Some y \<Longrightarrow> key y = fst x"
  shows "distinct (map key (List.map_filter f xs))" "key ` set (List.map_filter f xs) \<subseteq> fst ` set xs"
proof -
  show sub: "key ` set (List.map_filter f xs) \<subseteq> fst ` set xs" using assms(2) by (force simp: List.map_filter_def)
  show "distinct (map key (List.map_filter f xs))" using assms(1)
  proof (induction xs)
    case (Cons x xs)
    have "key ` set (List.map_filter f xs) \<subseteq> fst ` set xs" using assms(2) by (force simp: List.map_filter_def)
    then show ?case using Cons assms(2)[of x] by (auto simp: List.map_filter_simps split: option.splits)
  qed (simp add: List.map_filter_simps)
qed

lemma map_filter_mem:
  "distinct (map fst xs) \<Longrightarrow> y \<in> set (List.map_filter f xs) \<longleftrightarrow> (\<exists>n v. map_of xs n = Some v \<and> f (n, v) = Some y)"
  by (force simp: List.map_filter_def map_of_eq_Some_iff)

lemma map_of_local_files:
  assumes "dirs_ok w"
  shows "map_of (local_files env dir w) n = map_option (\<lambda>c. (sha256 env c, int (length c))) (local_at dir w n)"
proof (cases "map_of (w_dirs w) dir")
  case None
  then show ?thesis by (simp add: local_files_def local_at_def entry_at_def)
next
  case (Some d)
  then have "distinct (map fst d)" using assms dirs_okD by blast
  then have "map_of (List.map_filter (\<lambda>(name, e). case e of
      Content c \<Rightarrow> if name = ''.cfs'' then None else Some (name, sha256 env c, int (length c)) | Directory \<Rightarrow> None) d) n =
    (if n = ''.cfs'' then None else case map_of d n of Some (Content c) \<Rightarrow> Some (sha256 env c, int (length c)) | _ \<Rightarrow> None)"
  proof (induction d)
    case (Cons p d)
    obtain m e where p: "p = (m, e)" by (cases p)
    have "map_of d m = None" using Cons.prems p by (simp add: map_of_eq_None_iff)
    then show ?case using Cons p by (cases e) (auto simp: List.map_filter_simps)
  qed (simp add: List.map_filter_simps)
  then show ?thesis using Some by (auto simp: local_files_def local_at_def entry_at_def split: option.splits entry.splits)
qed

lemma local_files_distinct:
  assumes "dirs_ok w"
  shows "distinct (map fst (local_files env dir w))"
proof (cases "map_of (w_dirs w) dir")
  case (Some d)
  then have "distinct (map fst d)" using assms dirs_okD by blast
  then show ?thesis unfolding local_files_def Some option.case
    by (rule map_filter_keys) (auto split: entry.splits if_splits)
qed (simp add: local_files_def)

lemma map_of_remote_files:
  assumes "distinct (map fd_Name fds)"
  shows "map_of (remote_files fds) n = map_of (map (\<lambda>f. (fd_Name f, f)) fds) n" "distinct (map fst (remote_files fds))"
proof -
  have "map_of (fold (\<lambda>fd m. AList.update (fd_Name fd) fd m) fds m) n =
      (case map_of (map (\<lambda>f. (fd_Name f, f)) fds) n of Some f \<Rightarrow> Some f | None \<Rightarrow> map_of m n)" for m
    using assms
  proof (induction fds arbitrary: m)
    case (Cons f fds)
    moreover have "map_of (map (\<lambda>f. (fd_Name f, f)) fds) (fd_Name f) = None"
      using Cons.prems by (auto simp: map_of_eq_None_iff)
    ultimately show ?case by (auto simp: update_conv' split: option.splits)
  qed simp
  from this[of "[]"] show "map_of (remote_files fds) n = map_of (map (\<lambda>f. (fd_Name f, f)) fds) n"
    by (simp add: remote_files_def split: option.splits)
  have "distinct (map fst m) \<Longrightarrow> distinct (map fst (fold (\<lambda>fd m. AList.update (fd_Name fd) fd m) fds m))" for m
    by (induction fds arbitrary: m) (simp_all add: distinct_update)
  then show "distinct (map fst (remote_files fds))" by (simp add: remote_files_def)
qed

section \<open>Plans\<close>

fun job_info :: "sync_job \<Rightarrow> FileInfo" where
  "job_info (Upload f) = f"
| "job_info (Fetch f) = f"
| "job_info (FetchConflict f) = f"

abbreviation job_name :: "sync_job \<Rightarrow> string" where
  "job_name j \<equiv> fi_Name (job_info j)"

definition fetched :: "FileData \<Rightarrow> FileInfo" where
  "fetched fd = FileInfo_of (fd_Name fd) (fd_Checksum fd) (fd_Size fd) (fd_S3Filename fd)"

text \<open>What each job of a plan stands for, and that no two jobs are about the same file.\<close>

definition plan_for :: "bool \<Rightarrow> (string \<Rightarrow> (string \<times> int) option) \<Rightarrow> (string \<Rightarrow> FileData option) \<Rightarrow> SyncPlan \<Rightarrow> bool" where
  "plan_for keep loc rem plan \<longleftrightarrow>
     distinct (map job_name (jobs_of plan)) \<and>
     (\<forall>f. Upload f \<in> set (jobs_of plan) \<longleftrightarrow> (\<exists>chk sz. loc (fi_Name f) = Some (chk, sz) \<and> f = FileInfo_of (fi_Name f) chk sz [] \<and>
        (case rem (fi_Name f) of None \<Rightarrow> True | Some fd \<Rightarrow> keep \<and> chk \<noteq> fd_Checksum fd))) \<and>
     (\<forall>f. Fetch f \<in> set (jobs_of plan) \<longleftrightarrow> (\<exists>fd. rem (fi_Name f) = Some fd \<and> f = fetched fd \<and> loc (fi_Name f) = None)) \<and>
     (\<forall>f. FetchConflict f \<in> set (jobs_of plan) \<longleftrightarrow> (\<exists>fd chk sz. rem (fi_Name f) = Some fd \<and> f = fetched fd \<and> \<not> keep \<and>
        loc (fi_Name f) = Some (chk, sz) \<and> chk \<noteq> fd_Checksum fd))"

lemma FileInfo_of_name [simp]: "fi_Name (FileInfo_of n c z o') = n" "fi_Size (FileInfo_of n c z o') = z"
  "fi_S3Filename (FileInfo_of n c z o') = o'" "fi_Checksum (FileInfo_of n c z o') = c"
  by (simp_all add: FileInfo_of_def)

lemma mem_jobs:
  "Upload f \<in> set (jobs_of p) \<longleftrightarrow> f \<in> set (sp_RemoteMissing p) \<or> sp_KeepLocal p \<and> f \<in> set (sp_Conflicts p)"
  "Fetch f \<in> set (jobs_of p) \<longleftrightarrow> f \<in> set (sp_LocalMissing p)"
  "FetchConflict f \<in> set (jobs_of p) \<longleftrightarrow> \<not> sp_KeepLocal p \<and> f \<in> set (sp_Conflicts p)"
  by (auto simp: jobs_of_def)

lemma plan_lists:
  assumes L: "distinct (map fst L)" and R: "distinct (map fst R)" "\<forall>n fd. map_of R n = Some fd \<longrightarrow> fd_Name fd = n"
    and plan: "sp_KeepLocal plan = keep" "sp_LocalMissing plan = local_missing L R" "sp_RemoteMissing plan = remote_missing L R"
      "sp_Conflicts plan = conflicts_of keep L R"
  shows "plan_for keep (map_of L) (map_of R) plan"
proof -
  have rm: "f \<in> set (remote_missing L R) \<longleftrightarrow>
      (\<exists>chk sz. map_of L (fi_Name f) = Some (chk, sz) \<and> f = FileInfo_of (fi_Name f) chk sz [] \<and> map_of R (fi_Name f) = None)" for f
    unfolding remote_missing_def map_filter_mem[OF L] by (auto split: if_splits) metis
  have fetch: "FileInfo_of n (fd_Checksum fd) (fd_Size fd) (fd_S3Filename fd) = fetched fd" "fi_Name (fetched fd) = n" if "map_of R n = Some fd" for n fd
    using R(2) that by (simp_all add: fetched_def)
  have lm: "f \<in> set (local_missing L R) \<longleftrightarrow> (\<exists>fd. map_of R (fi_Name f) = Some fd \<and> f = fetched fd \<and> map_of L (fi_Name f) = None)" for f
  proof -
    have "f \<in> set (local_missing L R) \<longleftrightarrow> (\<exists>n fd. map_of R n = Some fd \<and> map_of L n = None \<and> f = fetched fd)"
      unfolding local_missing_def map_filter_mem[OF R(1)] using fetch(1) by (fastforce split: if_splits)
    also have "\<dots> \<longleftrightarrow> (\<exists>fd. map_of R (fi_Name f) = Some fd \<and> f = fetched fd \<and> map_of L (fi_Name f) = None)" using fetch(2) by blast
    finally show ?thesis .
  qed
  have co: "f \<in> set (conflicts_of keep L R) \<longleftrightarrow> (\<exists>fd chk sz. map_of R (fi_Name f) = Some fd \<and> map_of L (fi_Name f) = Some (chk, sz) \<and>
      chk \<noteq> fd_Checksum fd \<and> f = (if keep then FileInfo_of (fi_Name f) chk sz [] else fetched fd))" for f
  proof -
    have "f \<in> set (conflicts_of keep L R) \<longleftrightarrow> (\<exists>n fd chk sz. map_of R n = Some fd \<and> map_of L n = Some (chk, sz) \<and>
        chk \<noteq> fd_Checksum fd \<and> f = (if keep then FileInfo_of n chk sz [] else fetched fd))"
    proof -
      have "(case map_of L n of None \<Rightarrow> None | Some (chk, sz) \<Rightarrow> if chk \<noteq> fd_Checksum fd then Some (if keep then FileInfo_of n chk sz []
            else FileInfo_of n (fd_Checksum fd) (fd_Size fd) (fd_S3Filename fd)) else None) = Some f \<longleftrightarrow>
          (\<exists>chk sz. map_of L n = Some (chk, sz) \<and> chk \<noteq> fd_Checksum fd \<and> f = (if keep then FileInfo_of n chk sz [] else fetched fd))"
        if "map_of R n = Some fd" for n fd
        unfolding fetch(1)[OF that] by (auto split: option.splits)
      then show ?thesis unfolding conflicts_of_def map_filter_mem[OF R(1)] prod.case by blast
    qed
    also have "\<dots> \<longleftrightarrow> (\<exists>fd chk sz. map_of R (fi_Name f) = Some fd \<and> map_of L (fi_Name f) = Some (chk, sz) \<and>
      chk \<noteq> fd_Checksum fd \<and> f = (if keep then FileInfo_of (fi_Name f) chk sz [] else fetched fd))"
    proof (cases keep)
      case True
      then show ?thesis by (simp only: if_True) (metis FileInfo_of_name(1))
    next
      case False
      then show ?thesis unfolding if_not_P[OF False] using fetch(2) by blast
    qed
    finally show ?thesis .
  qed
  have "distinct (map fi_Name (remote_missing L R))" "distinct (map fi_Name (local_missing L R))" "distinct (map fi_Name (conflicts_of keep L R))"
    unfolding remote_missing_def local_missing_def conflicts_of_def
    by (rule map_filter_keys[OF L] map_filter_keys[OF R(1)]; force split: if_splits option.splits)+
  moreover have "fi_Name ` set (remote_missing L R) \<inter> fi_Name ` set (local_missing L R) = {}"
    "fi_Name ` set (remote_missing L R) \<inter> fi_Name ` set (conflicts_of keep L R) = {}"
    "fi_Name ` set (local_missing L R) \<inter> fi_Name ` set (conflicts_of keep L R) = {}"
    by (auto simp: rm lm co)
  moreover have "map job_name (jobs_of plan) = map fi_Name (remote_missing L R) @ map fi_Name (local_missing L R) @ map fi_Name (conflicts_of keep L R)"
    by (simp add: jobs_of_def plan comp_def)
  ultimately have "distinct (map job_name (jobs_of plan))" by auto
  then show ?thesis unfolding plan_for_def mem_jobs plan rm lm co
    by (auto split: option.splits)
qed

section \<open>Jobs\<close>

lemma entry_at_update [simp]:
  "map_of (w_dirs w) dir = Some d \<Longrightarrow> entry_at dir m (w\<lparr>w_dirs := AList.update dir (AList.update n e d) (w_dirs w)\<rparr>) =
     (if m = n then Some e else entry_at dir m w)"
  by (simp add: entry_at_def update_conv')

lemma dirs_ok_update:
  assumes "dirs_ok w" "distinct (map fst d)"
  shows "dirs_ok (w\<lparr>w_dirs := AList.update dir d (w_dirs w)\<rparr>)"
proof -
  have sub: "snd ` set (AList.update dir d (w_dirs w)) \<subseteq> insert d (snd ` set (w_dirs w))"
  proof -
    have "snd ` set (AList.update dir d ds) \<subseteq> insert d (snd ` set ds)" for ds by (induction ds) auto
    then show ?thesis .
  qed
  have all: "\<forall>x \<in> B. P x \<Longrightarrow> A \<subseteq> insert d B \<Longrightarrow> P d \<Longrightarrow> \<forall>x \<in> A. P x" for A B P by blast
  have "w_dirs (w\<lparr>w_dirs := AList.update dir d (w_dirs w)\<rparr>) = AList.update dir d (w_dirs w)" by simp
  then show ?thesis unfolding dirs_ok_def using all[OF assms(1)[unfolded dirs_ok_def] sub assms(2)] by (simp only:)
qed

text \<open>Writing a file changes this file only.\<close>

lemma write_file_ok:
  assumes "dirs_ok w" "map_of (w_dirs w) dir \<noteq> None" "entry_at dir n w \<noteq> Some Directory"
  obtains w' where "write_file dir n c w = (Inr (), w')" "dirs_ok w'" "map_of (w_dirs w') dir \<noteq> None"
    "\<And>m. entry_at dir m w' = (if m = n then Some (Content c) else entry_at dir m w)"
    "w_s3 w' = w_s3 w" "w_next w' = w_next w" "w_srv w' = w_srv w"
proof -
  obtain d where d: "map_of (w_dirs w) dir = Some d" using assms(2) by blast
  let ?w = "w\<lparr>w_dirs := AList.update dir (AList.update n (Content c) d) (w_dirs w)\<rparr>"
  have "distinct (map fst (AList.update n (Content c) d))" using dirs_okD[OF assms(1) d] by (rule distinct_update)
  then have "dirs_ok ?w" by (rule dirs_ok_update[OF assms(1)])
  moreover have "write_file dir n c w = (Inr (), ?w)" using assms(3) d by (simp add: write_file_def entry_at_def)
  moreover have "map_of (w_dirs ?w) dir \<noteq> None" by (simp add: update_conv')
  ultimately show thesis using entry_at_update[OF d] by (intro that[of ?w]) simp_all
qed

text \<open>A download puts the content of the object into the file.\<close>

lemma s3_Download_ok:
  assumes "dirs_ok w" "map_of (w_dirs w) dir \<noteq> None" "entry_at dir n w \<noteq> Some Directory" "w_s3 w obj = Some c"
  obtains w' where "s3_Download n obj dir w = (Inr (), w')" "dirs_ok w'" "map_of (w_dirs w') dir \<noteq> None"
    "\<And>m. entry_at dir m w' = (if m = n then Some (Content c) else entry_at dir m w)"
    "w_s3 w' = w_s3 w" "w_next w' = w_next w" "w_srv w' = w_srv w"
proof -
  obtain w1 where w1: "write_file dir n [] w = (Inr (), w1)" "dirs_ok w1" "map_of (w_dirs w1) dir \<noteq> None"
    "\<And>m. entry_at dir m w1 = (if m = n then Some (Content []) else entry_at dir m w)"
    "w_s3 w1 = w_s3 w" "w_next w1 = w_next w" "w_srv w1 = w_srv w"
    using write_file_ok[OF assms(1-3), of "[]"] by metis
  have "entry_at dir n w1 \<noteq> Some Directory" using w1(4) by simp
  from write_file_ok[OF w1(2,3) this, of c]
  obtain w2 where w2: "write_file dir n c w1 = (Inr (), w2)" "dirs_ok w2" "map_of (w_dirs w2) dir \<noteq> None"
    "\<And>m. entry_at dir m w2 = (if m = n then Some (Content c) else entry_at dir m w1)"
    "w_s3 w2 = w_s3 w1" "w_next w2 = w_next w1" "w_srv w2 = w_srv w1"
    by metis
  show thesis by (rule that[of w2]) (use assms(4) w1 w2 in \<open>simp_all add: s3_Download_def op_simps\<close>)
qed

text \<open>A file the server knows has a content with its checksum and size; an empty one has no object.\<close>

definition has_object :: "'s fs_env \<Rightarrow> 's world \<Rightarrow> string \<Rightarrow> FileData \<Rightarrow> bool" where
  "has_object env w n fd \<longleftrightarrow> fd_Name fd = n \<and>
     (\<exists>c. sha256 env c = fd_Checksum fd \<and> int (length c) = fd_Size fd \<and> (c \<noteq> [] \<longrightarrow> w_s3 w (fd_S3Filename fd) = Some c))"

text \<open>The identifiers still to come name no object yet.\<close>

definition fresh_objects :: "'s fs_env \<Rightarrow> 's world \<Rightarrow> bool" where
  "fresh_objects env w \<longleftrightarrow> (\<forall>k \<ge> w_next w. w_s3 w (random_id env k) = None)"

definition sync_inv ::
  "('s \<Rightarrow> bool) \<Rightarrow> ('s \<Rightarrow> string \<Rightarrow> string \<rightharpoonup> FileData) \<Rightarrow> 's fs_env \<Rightarrow> string \<Rightarrow> string \<Rightarrow> 's world \<Rightarrow> bool" where
  "sync_inv ok latest env dir label w \<longleftrightarrow>
     dirs_ok w \<and> map_of (w_dirs w) dir \<noteq> None \<and> ok (w_srv w) \<and> fresh_objects env w \<and>
     (\<forall>n fd. latest (w_srv w) label n = Some fd \<longrightarrow> has_object env w n fd)"

definition client_of ::
  "(string \<Rightarrow> ('s, FileData list) op) \<Rightarrow> (File \<Rightarrow> ('s, unit) op) \<Rightarrow> (File \<Rightarrow> bool) \<Rightarrow> 's fs_env \<Rightarrow> bool" where
  "client_of get_data add_file accepts env \<longleftrightarrow>
     api_GetFileData env = get_data \<and> api_AddFile env = add_file \<and> inj (random_id env) \<and>
     (\<forall>f. file_ColonyName f = fs_colonyName env \<and> s3_Port (ref_S3Object (file_Reference f)) = - 1 \<longrightarrow> accepts f)"

text \<open>The file is the same on both sides.\<close>

definition synced :: "('s \<Rightarrow> string \<Rightarrow> string \<rightharpoonup> FileData) \<Rightarrow> 's fs_env \<Rightarrow> string \<Rightarrow> string \<Rightarrow> 's world \<Rightarrow> string \<Rightarrow> bool" where
  "synced latest env dir label w n \<longleftrightarrow>
     (\<exists>c fd. local_at dir w n = Some c \<and> latest (w_srv w) label n = Some fd \<and> fd_Checksum fd = sha256 env c)"

text \<open>Nothing but the file was touched.\<close>

definition only_file :: "('s \<Rightarrow> string \<Rightarrow> string \<rightharpoonup> FileData) \<Rightarrow> string \<Rightarrow> string \<Rightarrow> string set \<Rightarrow> 's world \<Rightarrow> 's world \<Rightarrow> bool" where
  "only_file latest dir label N w w' \<longleftrightarrow>
     (\<forall>m. m \<notin> N \<longrightarrow> entry_at dir m w' = entry_at dir m w \<and> latest (w_srv w') label m = latest (w_srv w) label m)"

lemma has_object_upload:
  assumes "has_object env w n fd" "w_s3 w obj = None"
  shows "has_object env (w\<lparr>w_s3 := (w_s3 w)(obj \<mapsto> c)\<rparr>) n fd"
  using assms unfolding has_object_def by fastforce

lemma has_object_cong: "w_s3 w' = w_s3 w \<Longrightarrow> has_object env w' n fd = has_object env w n fd"
  by (simp add: has_object_def)

lemma local_at_entry: "local_at dir w n = Some c \<Longrightarrow> entry_at dir n w = Some (Content c)"
  by (auto simp: local_at_def split: if_splits option.splits entry.splits)

lemma entry_at_cong: "w_dirs w' = w_dirs w \<Longrightarrow> entry_at dir n w' = entry_at dir n w"
  by (simp add: entry_at_def)

lemma local_at_cong: "w_dirs w' = w_dirs w \<Longrightarrow> local_at dir w' n = local_at dir w n"
  by (simp add: local_at_def entry_at_def)

text \<open>What a sync keeps: the files of the side that has the say, and what only one side has.\<close>

definition sides_kept :: "('s \<Rightarrow> string \<Rightarrow> string \<rightharpoonup> FileData) \<Rightarrow> string \<Rightarrow> string \<Rightarrow> bool \<Rightarrow> 's world \<Rightarrow> 's world \<Rightarrow> bool" where
  "sides_kept latest dir label keep w w' \<longleftrightarrow>
     (\<forall>n. (local_at dir w n \<noteq> None \<and> (keep \<or> latest (w_srv w) label n = None) \<longrightarrow> local_at dir w' n = local_at dir w n) \<and>
          (latest (w_srv w) label n \<noteq> None \<and> (\<not> keep \<or> local_at dir w n = None) \<longrightarrow> latest (w_srv w') label n = latest (w_srv w) label n))"

text \<open>A job that can be done: its file is there to be uploaded, or its object is and nothing is in the way.\<close>

fun good_job :: "('s \<Rightarrow> string \<Rightarrow> string \<rightharpoonup> FileData) \<Rightarrow> 's fs_env \<Rightarrow> string \<Rightarrow> string \<Rightarrow> 's world \<Rightarrow> sync_job \<Rightarrow> bool" where
  "good_job latest env dir label w (Upload f) = (\<exists>c. local_at dir w (fi_Name f) = Some c \<and> fi_Checksum f = sha256 env c)"
| "good_job latest env dir label w (Fetch f) =
     (\<exists>fd. latest (w_srv w) label (fi_Name f) = Some fd \<and> f = fetched fd \<and> fi_Name f \<noteq> ''.cfs'' \<and>
        entry_at dir (fi_Name f) w \<noteq> Some Directory)"
| "good_job latest env dir label w (FetchConflict f) =
     (\<exists>fd. latest (w_srv w) label (fi_Name f) = Some fd \<and> f = fetched fd \<and> fi_Name f \<noteq> ''.cfs'' \<and>
        entry_at dir (fi_Name f) w \<noteq> Some Directory \<and> fd_Size fd > 0)"

text \<open>An upload leaves the file as it is, a download its metadata.\<close>

fun source_kept :: "('s \<Rightarrow> string \<Rightarrow> string \<rightharpoonup> FileData) \<Rightarrow> string \<Rightarrow> string \<Rightarrow> 's world \<Rightarrow> 's world \<Rightarrow> sync_job \<Rightarrow> bool" where
  "source_kept latest dir label w w' (Upload f) = (entry_at dir (fi_Name f) w' = entry_at dir (fi_Name f) w)"
| "source_kept latest dir label w w' (Fetch f) = (latest (w_srv w') label (fi_Name f) = latest (w_srv w) label (fi_Name f))"
| "source_kept latest dir label w w' (FetchConflict f) = (latest (w_srv w') label (fi_Name f) = latest (w_srv w) label (fi_Name f))"

text \<open>Directory and label have the same files, by their checksums.\<close>

definition in_sync :: "('s \<Rightarrow> string \<Rightarrow> string \<rightharpoonup> FileData) \<Rightarrow> 's fs_env \<Rightarrow> string \<Rightarrow> string \<Rightarrow> 's world \<Rightarrow> bool" where
  "in_sync latest env dir label w \<longleftrightarrow>
     (\<forall>n. map_option (sha256 env) (local_at dir w n) = map_option fd_Checksum (latest (w_srv w) label n))"

text \<open>Nothing is in the way of a sync: names of files are not those of directories, and no conflict is lost to an empty file.\<close>

definition no_clash :: "('s \<Rightarrow> string \<Rightarrow> string \<rightharpoonup> FileData) \<Rightarrow> 's fs_env \<Rightarrow> string \<Rightarrow> string \<Rightarrow> bool \<Rightarrow> 's world \<Rightarrow> bool" where
  "no_clash latest env dir label keep w \<longleftrightarrow>
     entry_at dir ''.cfs'' w \<noteq> Some Directory \<and> latest (w_srv w) label ''.cfs'' = None \<and>
     (\<forall>n fd. latest (w_srv w) label n = Some fd \<longrightarrow> entry_at dir n w \<noteq> Some Directory \<and>
        (keep \<or> local_at dir w n = None \<or> map_option (sha256 env) (local_at dir w n) = Some (fd_Checksum fd) \<or> fd_Size fd > 0))"

lemma synced_iff: "synced latest env dir label w n \<longleftrightarrow>
    map_option (sha256 env) (local_at dir w n) = map_option fd_Checksum (latest (w_srv w) label n) \<and> local_at dir w n \<noteq> None"
  by (auto simp: synced_def map_option_case split: option.splits)

abbreviation loc_info :: "'s fs_env \<Rightarrow> string \<Rightarrow> 's world \<Rightarrow> string \<Rightarrow> (string \<times> int) option" where
  "loc_info env dir w \<equiv> \<lambda>n. map_option (\<lambda>c. (sha256 env c, int (length c))) (local_at dir w n)"

lemmas plan_for_conj = plan_for_def[THEN iffD1]

lemmas plan_for_distinct = plan_for_conj[THEN conjunct1]
  and plan_for_Upload = plan_for_conj[THEN conjunct2, THEN conjunct1, THEN spec]
  and plan_for_Fetch = plan_for_conj[THEN conjunct2, THEN conjunct2, THEN conjunct1, THEN spec]
  and plan_for_Conflict = plan_for_conj[THEN conjunct2, THEN conjunct2, THEN conjunct2, THEN spec]

lemma plan_for_jobs:
  assumes "plan_for keep loc rem plan" "j \<in> set (jobs_of plan)"
  shows "loc (job_name j) \<noteq> None \<or> rem (job_name j) \<noteq> None" "map_option fst (loc (job_name j)) \<noteq> map_option fd_Checksum (rem (job_name j))"
  using assms by (cases j; force simp: plan_for_def split: option.splits)+

lemma in_sync_no_jobs:
  assumes "plan_for keep (loc_info env dir w) (latest (w_srv w) label) plan" "in_sync latest env dir label w"
  shows "jobs_of plan = []"
proof (rule ccontr)
  assume "jobs_of plan \<noteq> []"
  then obtain j where "j \<in> set (jobs_of plan)" by (cases "jobs_of plan") auto
  from plan_for_jobs(2)[OF assms(1) this] assms(2) show False by (simp add: in_sync_def option.map_comp comp_def)
qed

text \<open>The side that is kept is the source of the job.\<close>

lemma plan_sources:
  assumes "plan_for keep loc rem plan" "j \<in> set (jobs_of plan)"
  shows "loc (job_name j) \<noteq> None \<Longrightarrow> keep \<or> rem (job_name j) = None \<Longrightarrow> \<exists>f. j = Upload f"
    and "rem (job_name j) \<noteq> None \<Longrightarrow> \<not> keep \<or> loc (job_name j) = None \<Longrightarrow> \<exists>f. j = Fetch f \<or> j = FetchConflict f"
proof -
  have "loc (fi_Name f) \<noteq> None \<and> (rem (fi_Name f) = None \<or> keep)" if "j = Upload f" for f
    using plan_for_Upload[OF assms(1), THEN iffD1, of f] that assms(2) by (cases "rem (fi_Name f)") (auto simp del: split_paired_Ex)
  moreover have "rem (fi_Name f) \<noteq> None \<and> loc (fi_Name f) = None" if "j = Fetch f" for f
    using plan_for_Fetch[OF assms(1), THEN iffD1, of f] that assms(2) by blast
  moreover have "rem (fi_Name f) \<noteq> None \<and> \<not> keep \<and> loc (fi_Name f) \<noteq> None" if "j = FetchConflict f" for f
    using plan_for_Conflict[OF assms(1), THEN iffD1, of f] that assms(2) by blast
  ultimately show "loc (job_name j) \<noteq> None \<Longrightarrow> keep \<or> rem (job_name j) = None \<Longrightarrow> \<exists>f. j = Upload f"
    "rem (job_name j) \<noteq> None \<Longrightarrow> \<not> keep \<or> loc (job_name j) = None \<Longrightarrow> \<exists>f. j = Fetch f \<or> j = FetchConflict f"
    by (cases j; simp)+
qed

text \<open>A file that is not the same on both sides has a job.\<close>

lemma plan_for_complete:
  assumes "plan_for keep loc rem plan" "\<forall>n fd. rem n = Some fd \<longrightarrow> fd_Name fd = n"
    "map_option fst (loc n) \<noteq> map_option fd_Checksum (rem n)"
  shows "\<exists>j \<in> set (jobs_of plan). job_name j = n"
proof (cases "loc n")
  case None
  then obtain fd where fd: "rem n = Some fd" using assms(3) by (cases "rem n") auto
  then have nm: "fi_Name (fetched fd) = n" using assms(2) by (simp add: fetched_def)
  then have "Fetch (fetched fd) \<in> set (jobs_of plan)" using assms(1) None fd unfolding plan_for_def by auto
  then show ?thesis using nm by (metis job_info.simps(2))
next
  case (Some p)
  obtain chk sz where p: "loc n = Some (chk, sz)" using Some by (cases p) auto
  show ?thesis
  proof (cases "rem n = None \<or> keep")
    case True
    have "Upload (FileInfo_of n chk sz []) \<in> set (jobs_of plan)"
      using assms(1,3) True p unfolding plan_for_def by (auto split: option.splits)
    then show ?thesis by (metis job_info.simps(1) FileInfo_of_name(1))
  next
    case False
    then obtain fd where fd: "rem n = Some fd" by auto
    then have nm: "fi_Name (fetched fd) = n" using assms(2) by (simp add: fetched_def)
    then have "FetchConflict (fetched fd) \<in> set (jobs_of plan)" using assms(1,3) p False fd unfolding plan_for_def by auto
    then show ?thesis using nm by (metis job_info.simps(3))
  qed
qed

lemma only_fileD:
  assumes "only_file latest dir label N w w'" "n \<notin> N"
  shows "entry_at dir n w' = entry_at dir n w" "latest (w_srv w') label n = latest (w_srv w) label n" "local_at dir w' n = local_at dir w n"
    "synced latest env dir label w' n = synced latest env dir label w n"
  using assms by (simp_all add: only_file_def local_at_def synced_def)

lemma only_file_trans:
  "only_file latest dir label N w w1 \<Longrightarrow> only_file latest dir label M w1 w2 \<Longrightarrow> only_file latest dir label (N \<union> M) w w2"
  by (simp add: only_file_def)

lemma good_job_only:
  assumes "only_file latest dir label N w w'" "job_name j \<notin> N"
  shows "good_job latest env dir label w' j = good_job latest env dir label w j"
  using only_fileD[OF assms(1)] assms(2) by (cases j) simp_all

lemma source_kept_trans:
  assumes "only_file latest dir label N w w1" "only_file latest dir label M w1 w2"
    and "job_name j \<notin> N \<and> source_kept latest dir label w1 w2 j \<or> job_name j \<notin> M \<and> source_kept latest dir label w w1 j"
  shows "source_kept latest dir label w w2 j"
  using only_fileD[OF assms(1)] only_fileD[OF assms(2)] assms(3) by (cases j) auto

context file_server
begin

text \<open>What an upload leaves: the object under a fresh identifier, unless the file is empty, and the metadata on the server.\<close>

lemma upload_runs:
  assumes client: "client_of get_data add_file accepts env" and inv: "sync_inv ok latest env dir label w"
    and f: "local_at dir w (fi_Name f) = Some c" and plan: "sp_Dir plan = dir" "sp_Label plan = label"
  shows "\<exists>w'. uploadFile env plan f w = (Inr (), w') \<and> w_dirs w' = w_dirs w \<and> w_next w' = Suc (w_next w) \<and> ok (w_srv w') \<and>
    w_s3 w' = (if c = [] then w_s3 w else (w_s3 w)(random_id env (w_next w) \<mapsto> c)) \<and>
    latest (w_srv w') label = (latest (w_srv w) label)(fi_Name f \<mapsto> \<lparr>fd_Name = fi_Name f, fd_Checksum = fi_Checksum f,
      fd_Size = int (length c), fd_S3Filename = random_id env (w_next w)\<rparr>)"
proof -
  let ?obj = "random_id env (w_next w)"
  define w1 where "w1 = w\<lparr>w_next := Suc (w_next w)\<rparr>"
  define w2 where "w2 = (if c = [] then w1 else w1\<lparr>w_s3 := (w_s3 w1)(?obj \<mapsto> c)\<rparr>)"
  define up where "up = \<lparr>file_ID = [], file_ColonyName = fs_colonyName env, file_Label = label, file_Name = fi_Name f,
    file_Size = int (length c), file_SequenceNumber = 0, file_Checksum = fi_Checksum f, file_ChecksumAlg = ''SHA256'',
    file_Reference = \<lparr>ref_Protocol = ''s3'', ref_S3Object = \<lparr>s3_Server = s3c_Endpoint (fs_s3Client env), s3_Port = - 1,
      s3_TLS = s3c_TLS (fs_s3Client env), s3_AccessKey = s3c_AccessKey (fs_s3Client env), s3_SecretKey = s3c_SecretKey (fs_s3Client env),
      s3_Region = s3c_Region (fs_s3Client env), s3_EncryptionKey = [], s3_EncryptionAlg = [], s3_Object = ?obj,
      s3_Bucket = s3c_BucketName (fs_s3Client env)\<rparr>\<rparr>, file_Added = 0\<rparr>"
  have e: "entry_at dir (fi_Name f) w = Some (Content c)" "entry_at dir (fi_Name f) w1 = Some (Content c)"
    using local_at_entry[OF f] by (simp_all add: w1_def entry_at_def)
  have ok: "ok (w_srv w2)" using inv by (simp add: sync_inv_def w2_def w1_def)
  have "file_ColonyName up = fs_colonyName env" "s3_Port (ref_S3Object (file_Reference up)) = - 1"
    by (simp_all add: up_def)
  then have "accepts up" using client unfolding client_of_def by blast
  from add_law[OF ok this] obtain s' where s': "add_file up (w_srv w2) = (Inr (), s')" "ok s'"
    "latest s' = (latest (w_srv w2))(label := (latest (w_srv w2) label)(fi_Name f \<mapsto> data_of up))"
    by (auto simp: up_def)
  have "server (api_AddFile env up) w2 = (Inr (), w2\<lparr>w_srv := s'\<rparr>)"
    using s'(1) client by (simp add: server_def client_of_def)
  moreover have "whenM (int (length c) > 0) (s3_Upload dir (fi_Name f) ?obj) w1 = (Inr (), w2)"
    using e(2) by (simp add: s3_Upload_def w2_def)
  ultimately have run: "uploadFile env plan f w = (Inr (), w2\<lparr>w_srv := s'\<rparr>)"
    by (simp add: uploadFile_def GenerateRandom_def e(1) op_simps plan Let_def w1_def[symmetric] up_def[symmetric])
  have "w_srv w2 = w_srv w" "w_s3 w2 = (if c = [] then w_s3 w else (w_s3 w)(?obj \<mapsto> c))" "w_dirs w2 = w_dirs w" "w_next w2 = Suc (w_next w)"
    by (simp_all add: w2_def w1_def)
  then show ?thesis using run s' by (intro exI[of _ "w2\<lparr>w_srv := s'\<rparr>"]) (simp add: data_of_def up_def object_of_def)
qed

lemma upload_ok:
  assumes client: "client_of get_data add_file accepts env" and inv: "sync_inv ok latest env dir label w"
    and f: "local_at dir w (fi_Name f) = Some c" "fi_Checksum f = sha256 env c"
    and plan: "sp_Dir plan = dir" "sp_Label plan = label"
  shows "\<exists>w'. uploadFile env plan f w = (Inr (), w') \<and> sync_inv ok latest env dir label w' \<and> w_dirs w' = w_dirs w \<and>
    only_file latest dir label {fi_Name f} w w' \<and> synced latest env dir label w' (fi_Name f)"
proof -
  let ?obj = "random_id env (w_next w)"
  let ?fd = "\<lparr>fd_Name = fi_Name f, fd_Checksum = fi_Checksum f, fd_Size = int (length c), fd_S3Filename = ?obj\<rparr>"
  obtain w' where run: "uploadFile env plan f w = (Inr (), w')" and dirs: "w_dirs w' = w_dirs w" "w_next w' = Suc (w_next w)"
    and ok: "ok (w_srv w')" and s3: "w_s3 w' = (if c = [] then w_s3 w else (w_s3 w)(?obj \<mapsto> c))"
    and lat: "latest (w_srv w') label = (latest (w_srv w) label)(fi_Name f \<mapsto> ?fd)"
    using upload_runs[OF client inv f(1) plan] by blast
  have fresh: "w_s3 w ?obj = None" using inv by (simp add: sync_inv_def fresh_objects_def)
  have obj: "has_object env w' m fd" if "latest (w_srv w') label m = Some fd" for m fd
  proof (cases "m = fi_Name f")
    case True
    then have "fd = ?fd" using that lat by simp
    then show ?thesis using True f(2) s3 by (auto simp: has_object_def intro!: exI[of _ c])
  next
    case False
    then have old: "has_object env w m fd" using that lat inv by (simp add: sync_inv_def)
    have "w_s3 w' = w_s3 w \<or> w_s3 w' = w_s3 (w\<lparr>w_s3 := (w_s3 w)(?obj \<mapsto> c)\<rparr>)" using s3 by simp
    then show ?thesis using old has_object_upload[OF old fresh] has_object_cong by metis
  qed
  have "random_id env k \<noteq> ?obj" if "k > w_next w" for k
    using client that by (auto simp: client_of_def dest: injD)
  then have "fresh_objects env w'" using inv s3 dirs(2) by (auto simp: fresh_objects_def sync_inv_def)
  moreover have "dirs_ok w'" using inv dirs by (simp add: sync_inv_def dirs_ok_def)
  ultimately have "sync_inv ok latest env dir label w'" using inv obj dirs(1) ok by (simp add: sync_inv_def)
  moreover have "synced latest env dir label w' (fi_Name f)"
    using f lat local_at_cong[OF dirs(1)] by (simp add: synced_def)
  moreover have "only_file latest dir label {fi_Name f} w w'" using lat dirs by (simp add: only_file_def entry_at_def)
  ultimately show ?thesis using run dirs by blast
qed

text \<open>A file with content is downloaded, an empty one is created.\<close>

lemma fetch_ok:
  assumes inv: "sync_inv ok latest env dir label w" and fd: "latest (w_srv w) label n = Some fd" "n \<noteq> ''.cfs''"
    and free: "entry_at dir n w \<noteq> Some Directory" and plan: "sp_Dir plan = dir"
    and job: "j = Fetch (fetched fd) \<or> j = FetchConflict (fetched fd) \<and> fd_Size fd > 0"
  shows "\<exists>w'. run_job env plan j w = (Inr (), w') \<and> sync_inv ok latest env dir label w' \<and> w_srv w' = w_srv w \<and>
    only_file latest dir label {n} w w' \<and> synced latest env dir label w' n"
proof -
  obtain c where c: "sha256 env c = fd_Checksum fd" "int (length c) = fd_Size fd" "c \<noteq> [] \<longrightarrow> w_s3 w (fd_S3Filename fd) = Some c"
    and n: "fd_Name fd = n"
    using inv fd(1) by (auto simp: sync_inv_def has_object_def)
  have d: "dirs_ok w" "map_of (w_dirs w) dir \<noteq> None" using inv by (simp_all add: sync_inv_def)
  obtain w' where run: "run_job env plan j w = (Inr (), w')" and w': "dirs_ok w'" "map_of (w_dirs w') dir \<noteq> None"
    "\<And>m. entry_at dir m w' = (if m = n then Some (Content c) else entry_at dir m w)"
    "w_s3 w' = w_s3 w" "w_next w' = w_next w" "w_srv w' = w_srv w"
  proof (cases "c = []")
    case True
    then have "run_job env plan j = write_file dir n []" using job c(2) plan n by (auto simp: fetched_def)
    then show thesis using write_file_ok[OF d free, of "[]"] that True by metis
  next
    case False
    then have "fd_Size fd > 0" using c(2) by (cases c) auto
    then have "run_job env plan j = s3_Download n (fd_S3Filename fd) dir" using job plan n by (auto simp: fetched_def)
    then show thesis using s3_Download_ok[OF d free, of "fd_S3Filename fd" c] c(3) False that by metis
  qed
  have "sync_inv ok latest env dir label w'"
    using inv w' has_object_cong[OF w'(4)] by (simp add: sync_inv_def fresh_objects_def)
  moreover have "synced latest env dir label w' n" using w'(3)[of n] w'(6) fd c(1) by (simp add: synced_def local_at_def)
  moreover have "only_file latest dir label {n} w w'" using w'(3,6) by (simp add: only_file_def)
  ultimately show ?thesis using run w'(6) by blast
qed

lemma job_ok:
  assumes client: "client_of get_data add_file accepts env" and inv: "sync_inv ok latest env dir label w"
    and good: "good_job latest env dir label w j" and plan: "sp_Dir plan = dir" "sp_Label plan = label"
  shows "\<exists>w'. run_job env plan j w = (Inr (), w') \<and> sync_inv ok latest env dir label w' \<and>
    only_file latest dir label {job_name j} w w' \<and> synced latest env dir label w' (job_name j) \<and> source_kept latest dir label w w' j"
proof (cases j)
  case (Upload f)
  then obtain c where "local_at dir w (fi_Name f) = Some c" "fi_Checksum f = sha256 env c" using good by auto
  from upload_ok[OF client inv this plan] show ?thesis using Upload by (auto simp: entry_at_def)
next
  case (Fetch f)
  then obtain fd where fd: "latest (w_srv w) label (fi_Name f) = Some fd" "f = fetched fd" "fi_Name f \<noteq> ''.cfs''"
    "entry_at dir (fi_Name f) w \<noteq> Some Directory" using good by auto
  have "j = Fetch (fetched fd) \<or> j = FetchConflict (fetched fd) \<and> fd_Size fd > 0" using Fetch fd(2) by simp
  from fetch_ok[OF inv fd(1,3,4) plan(1) this] show ?thesis using Fetch by auto
next
  case (FetchConflict f)
  then obtain fd where fd: "latest (w_srv w) label (fi_Name f) = Some fd" "f = fetched fd" "fi_Name f \<noteq> ''.cfs''"
    "entry_at dir (fi_Name f) w \<noteq> Some Directory" "fd_Size fd > 0" using good by auto
  have "j = Fetch (fetched fd) \<or> j = FetchConflict (fetched fd) \<and> fd_Size fd > 0" using FetchConflict fd(2,5) by simp
  from fetch_ok[OF inv fd(1,3,4) plan(1) this] show ?thesis using FetchConflict by auto
qed

text \<open>The jobs of different files, in any order.\<close>

lemma jobs_run:
  assumes client: "client_of get_data add_file accepts env" and plan: "sp_Dir plan = dir" "sp_Label plan = label"
  shows "sync_inv ok latest env dir label w \<Longrightarrow> \<forall>j \<in> set js. good_job latest env dir label w j \<Longrightarrow> distinct (map job_name js) \<Longrightarrow>
    \<exists>w'. run_jobs (run_job env plan) js w = (Inr (), w') \<and> sync_inv ok latest env dir label w' \<and>
      only_file latest dir label (job_name ` set js) w w' \<and>
      (\<forall>j \<in> set js. synced latest env dir label w' (job_name j) \<and> source_kept latest dir label w w' j)"
proof (induction js arbitrary: w)
  case Nil
  then show ?case by (simp add: only_file_def)
next
  case (Cons j js)
  obtain w1 where w1: "run_job env plan j w = (Inr (), w1)" "sync_inv ok latest env dir label w1"
    "only_file latest dir label {job_name j} w w1" "synced latest env dir label w1 (job_name j)" "source_kept latest dir label w w1 j"
    using job_ok[OF client Cons.prems(1) _ plan, of j] Cons.prems(2) by auto
  have nj: "job_name j \<notin> job_name ` set js" using Cons.prems(3) by simp
  have new: "job_name j' \<noteq> job_name j" if "j' \<in> set js" for j'
    using nj rev_image_eqI[OF that, of "job_name j" job_name] by auto
  have "\<forall>j' \<in> set js. good_job latest env dir label w1 j'"
    using good_job_only[OF w1(3)] new Cons.prems(2) by auto
  with Cons.IH[OF w1(2)] Cons.prems(3) obtain w2 where w2: "run_jobs (run_job env plan) js w1 = (Inr (), w2)"
    "sync_inv ok latest env dir label w2" "only_file latest dir label (job_name ` set js) w1 w2"
    "\<forall>j \<in> set js. synced latest env dir label w2 (job_name j) \<and> source_kept latest dir label w1 w2 j"
    by auto
  have "synced latest env dir label w2 (job_name j)" using only_fileD(4)[OF w2(3) nj] w1(4) by simp
  moreover have "source_kept latest dir label w w2 j" using source_kept_trans[OF w1(3) w2(3)] nj w1(5) by blast
  moreover have "source_kept latest dir label w w2 j'" if "j' \<in> set js" for j'
    using source_kept_trans[OF w1(3) w2(3)] new[OF that] w2(4) that by blast
  moreover have "only_file latest dir label (job_name ` set (j # js)) w w2" using only_file_trans[OF w1(3) w2(3)] by simp
  ultimately show ?case using w1(1) w2 by (intro exI[of _ w2]) simp
qed

lemma calc_plan:
  assumes client: "client_of get_data add_file accepts env" and inv: "sync_inv ok latest env dir label w"
  shows "\<exists>plan w'. CalcSyncPlan env dir label keep w = (Inr plan, w') \<and> sync_inv ok latest env dir label w' \<and>
    w_dirs w' = w_dirs w \<and> latest (w_srv w') = latest (w_srv w) \<and> sp_Dir plan = dir \<and> sp_Label plan = label \<and>
    plan_for keep (loc_info env dir w) (latest (w_srv w) label) plan"
proof -
  have "ok (w_srv w)" and dirs: "dirs_ok w" using inv by (simp_all add: sync_inv_def)
  from get_law[OF this(1), of label] obtain s' fds where fds: "get_data label (w_srv w) = (Inr fds, s')" "ok s'"
    "latest s' = latest (w_srv w)" "distinct (map fd_Name fds)"
    "\<And>n. map_of (map (\<lambda>f. (fd_Name f, f)) fds) n = latest (w_srv w) label n"
    by blast
  let ?w = "w\<lparr>w_srv := s'\<rparr>" and ?L = "local_files env dir w" and ?R = "remote_files fds"
  let ?plan = "\<lparr>sp_Dir = dir, sp_LocalMissing = local_missing ?L ?R, sp_RemoteMissing = remote_missing ?L ?R,
    sp_Conflicts = conflicts_of keep ?L ?R, sp_KeepLocal = keep, sp_Label = label\<rparr>"
  have "local_files env dir ?w = ?L" by (simp add: local_files_def)
  then have run: "CalcSyncPlan env dir label keep w = (Inr ?plan, ?w)"
    using fds(1) client by (simp add: CalcSyncPlan_def client_of_def op_simps server_def Let_def)
  have L: "map_of ?L = loc_info env dir w" using map_of_local_files[OF dirs] by (simp add: fun_eq_iff)
  have R: "map_of ?R = latest (w_srv w) label" using map_of_remote_files(1)[OF fds(4)] fds(5) by (simp add: fun_eq_iff)
  have "\<forall>n fd. map_of ?R n = Some fd \<longrightarrow> fd_Name fd = n"
    using inv unfolding R sync_inv_def has_object_def by blast
  then have "plan_for keep (map_of ?L) (map_of ?R) ?plan"
    by (rule plan_lists[OF local_files_distinct[OF dirs] map_of_remote_files(2)[OF fds(4)]]) simp_all
  then have "plan_for keep (loc_info env dir w) (latest (w_srv w) label) ?plan" unfolding L R .
  moreover have "sync_inv ok latest env dir label ?w"
    using inv fds(2,3) by (simp add: sync_inv_def dirs_ok_def fresh_objects_def has_object_def)
  ultimately show ?thesis using run fds(3) by (intro exI[of _ ?plan] exI[of _ ?w]) simp
qed

lemma plan_good:
  assumes "plan_for keep (loc_info env dir w) (latest (w_srv w) label) plan" "no_clash latest env dir label keep w" "j \<in> set (jobs_of plan)"
  shows "good_job latest env dir label w j"
proof (cases j)
  case (Upload f)
  then obtain chk sz where u: "loc_info env dir w (fi_Name f) = Some (chk, sz)" "f = FileInfo_of (fi_Name f) chk sz []"
    using assms(3) plan_for_Upload[OF assms(1), of f] by blast
  have "fi_Checksum f = fi_Checksum (FileInfo_of (fi_Name f) chk sz [])" using u(2) by (rule arg_cong)
  also have "\<dots> = chk" by (rule FileInfo_of_name)
  finally show ?thesis using Upload u(1) by auto
next
  case (Fetch f)
  then obtain fd where "latest (w_srv w) label (fi_Name f) = Some fd" "f = fetched fd"
    using assms(3) plan_for_Fetch[OF assms(1), of f] by auto
  then show ?thesis using Fetch assms(2) by (auto simp: no_clash_def)
next
  case (FetchConflict f)
  then obtain fd chk sz where fd: "latest (w_srv w) label (fi_Name f) = Some fd" "f = fetched fd" "\<not> keep"
    "loc_info env dir w (fi_Name f) = Some (chk, sz)" "chk \<noteq> fd_Checksum fd"
    using assms(3) plan_for_Conflict[OF assms(1), of f] by auto
  then have "fd_Size fd > 0" "entry_at dir (fi_Name f) w \<noteq> Some Directory" "fi_Name f \<noteq> ''.cfs''"
    using assms(2) unfolding no_clash_def by fastforce+
  then show ?thesis using FetchConflict fd by auto
qed

text \<open>After the jobs of a plan were run, whatever else was done to the marker file, both sides are the same.\<close>

lemma jobs_sync:
  assumes plan: "plan_for keep (loc_info env dir w) (latest (w_srv w) label) plan"
    and names: "\<forall>n fd. latest (w_srv w) label n = Some fd \<longrightarrow> fd_Name fd = n" "latest (w_srv w) label ''.cfs'' = None"
    and ran: "only_file latest dir label (insert ''.cfs'' (job_name ` set (jobs_of plan))) w w'"
      "latest (w_srv w') label ''.cfs'' = None"
      "\<forall>j \<in> set (jobs_of plan). synced latest env dir label w' (job_name j) \<and> source_kept latest dir label w w' j"
  shows "in_sync latest env dir label w'" "sides_kept latest dir label keep w w'"
proof -
  have same: "local_at dir w' n = local_at dir w n \<and> latest (w_srv w') label n = latest (w_srv w) label n"
    if "\<not> (\<exists>j \<in> set (jobs_of plan). job_name j = n)" for n
    using that only_fileD(2,3)[OF ran(1), of n] names(2) ran(2) by (cases "n = ''.cfs''") auto
  show "in_sync latest env dir label w'" unfolding in_sync_def
  proof
    fix n
    show "map_option (sha256 env) (local_at dir w' n) = map_option fd_Checksum (latest (w_srv w') label n)"
    proof (cases "\<exists>j \<in> set (jobs_of plan). job_name j = n")
      case True
      then show ?thesis using ran(3) unfolding synced_iff by blast
    next
      case False
      then show ?thesis using same[OF False] plan_for_complete[OF plan names(1), of n]
        by (auto simp: option.map_comp comp_def)
    qed
  qed
  show "sides_kept latest dir label keep w w'" unfolding sides_kept_def
  proof (intro allI conjI impI; elim conjE)
    fix n assume a: "local_at dir w n \<noteq> None" "keep \<or> latest (w_srv w) label n = None"
    show "local_at dir w' n = local_at dir w n"
    proof (cases "\<exists>j \<in> set (jobs_of plan). job_name j = n")
      case True
      then obtain j f where "j \<in> set (jobs_of plan)" "job_name j = n" "j = Upload f"
        using plan_sources(1)[OF plan] a by fastforce
      then have "entry_at dir n w' = entry_at dir n w" using ran(3) by fastforce
      then show ?thesis by (simp add: local_at_def)
    qed (use same in blast)
  next
    fix n assume a: "latest (w_srv w) label n \<noteq> None" "\<not> keep \<or> local_at dir w n = None"
    show "latest (w_srv w') label n = latest (w_srv w) label n"
    proof (cases "\<exists>j \<in> set (jobs_of plan). job_name j = n")
      case True
      then obtain j f where "j \<in> set (jobs_of plan)" "job_name j = n" "j = Fetch f \<or> j = FetchConflict f"
        using plan_sources(2)[OF plan] a by fastforce
      then show ?thesis using ran(3) by fastforce
    qed (use same in blast)
  qed
qed

lemma apply_plan:
  assumes client: "client_of get_data add_file accepts env" and inv: "sync_inv ok latest env dir label w"
    and plan: "plan_for keep (loc_info env dir w) (latest (w_srv w) label) plan" "sp_Dir plan = dir" "sp_Label plan = label"
    and clash: "no_clash latest env dir label keep w" and order: "\<And>js. mset (order js) = mset js"
  shows "\<exists>w'. ApplySyncPlan env order plan w = (Inr (), w') \<and> sync_inv ok latest env dir label w' \<and>
    in_sync latest env dir label w' \<and> sides_kept latest dir label keep w w'"
proof -
  let ?js = "jobs_of plan"
  have names: "\<forall>n fd. latest (w_srv w) label n = Some fd \<longrightarrow> fd_Name fd = n" "latest (w_srv w) label ''.cfs'' = None"
    using inv clash by (simp_all add: sync_inv_def has_object_def no_clash_def)
  show ?thesis
  proof (cases "?js = []")
    case True
    have "ApplySyncPlan env order plan w = (Inr (), w)" using True by (simp add: ApplySyncPlan_def)
    moreover have "in_sync latest env dir label w" "sides_kept latest dir label keep w w"
      using jobs_sync[OF plan(1) names, of w] names(2) True by (simp_all add: only_file_def)
    ultimately show ?thesis using inv by blast
  next
    case False
    have d: "dirs_ok w" "map_of (w_dirs w) dir \<noteq> None" "entry_at dir ''.cfs'' w \<noteq> Some Directory"
      using inv clash by (simp_all add: sync_inv_def no_clash_def)
    obtain wc where wc: "write_file dir ''.cfs'' (cfs_json env label) w = (Inr (), wc)" "dirs_ok wc" "map_of (w_dirs wc) dir \<noteq> None"
      "\<And>m. entry_at dir m wc = (if m = ''.cfs'' then Some (Content (cfs_json env label)) else entry_at dir m w)"
      "w_s3 wc = w_s3 w" "w_next wc = w_next w" "w_srv wc = w_srv w"
      by (rule write_file_ok[OF d, of "cfs_json env label"], rule that)
    have invc: "sync_inv ok latest env dir label wc"
      using inv wc has_object_cong[OF wc(5)] by (simp add: sync_inv_def fresh_objects_def)
    have only: "only_file latest dir label {''.cfs''} w wc" using wc(4,7) by (simp add: only_file_def)
    have nc: "job_name j \<noteq> ''.cfs''" if "j \<in> set ?js" for j
      using plan_for_jobs(1)[OF plan(1) that] names(2) by (cases "job_name j = ''.cfs''") auto
    have same: "set (order ?js) = set ?js" using order by (metis set_mset_mset)
    have "\<forall>j \<in> set (order ?js). good_job latest env dir label wc j"
      using plan_good[OF plan(1) clash] good_job_only[OF only] nc unfolding same by blast
    moreover have "distinct (map job_name (order ?js))"
      using plan_for_distinct[OF plan(1)] order[of ?js] by (metis mset_eq_imp_distinct_iff mset_map)
    ultimately obtain w' where w': "run_jobs (run_job env plan) (order ?js) wc = (Inr (), w')" "sync_inv ok latest env dir label w'"
      "only_file latest dir label (job_name ` set ?js) wc w'"
      "\<forall>j \<in> set ?js. synced latest env dir label w' (job_name j) \<and> source_kept latest dir label wc w' j"
      using jobs_run[OF client plan(2,3) invc, of "order ?js"] same by auto
    have run: "ApplySyncPlan env order plan w = (Inr (), w')"
      using False wc(1) w'(1) d(2) by (simp add: ApplySyncPlan_def plan(2,3) op_simps mkdir_all.simps)
    have "only_file latest dir label (insert ''.cfs'' (job_name ` set ?js)) w w'" using only_file_trans[OF only w'(3)] by simp
    moreover have "''.cfs'' \<notin> job_name ` set ?js"
    proof
      assume "''.cfs'' \<in> job_name ` set ?js"
      then obtain j where "j \<in> set ?js" "''.cfs'' = job_name j" by (rule imageE)
      then show False using nc[of j] by simp
    qed
    then have "latest (w_srv w') label ''.cfs'' = None" using only_fileD(2)[OF w'(3)] wc(7) names(2) by simp
    moreover have "\<forall>j \<in> set ?js. synced latest env dir label w' (job_name j) \<and> source_kept latest dir label w w' j"
      using w'(4) source_kept_trans[OF only w'(3)] nc by blast
    ultimately show ?thesis using jobs_sync[OF plan(1) names] run w'(2) by blast
  qed
qed

text \<open>A sync succeeds, and a second one finds nothing to do.\<close>

lemma sync_runs:
  assumes client: "client_of get_data add_file accepts env" and inv: "sync_inv ok latest env dir label w"
    and clash: "no_clash latest env dir label keep w" and order: "\<And>js. mset (order js) = mset js"
  shows "\<exists>plan w1 w2. CalcSyncPlan env dir label keep w = (Inr plan, w1) \<and> ApplySyncPlan env order plan w1 = (Inr (), w2) \<and>
    sync_inv ok latest env dir label w2 \<and> in_sync latest env dir label w2 \<and> sides_kept latest dir label keep w w2 \<and>
    (\<forall>keep'. \<exists>plan' w3. CalcSyncPlan env dir label keep' w2 = (Inr plan', w3) \<and> jobs_of plan' = [])"
proof -
  obtain plan w1 where w1: "CalcSyncPlan env dir label keep w = (Inr plan, w1)" "sync_inv ok latest env dir label w1"
    "w_dirs w1 = w_dirs w" "latest (w_srv w1) = latest (w_srv w)" "sp_Dir plan = dir" "sp_Label plan = label"
    "plan_for keep (loc_info env dir w) (latest (w_srv w) label) plan"
    using calc_plan[OF client inv] by blast
  have at: "local_at dir w1 = local_at dir w" "entry_at dir n w1 = entry_at dir n w" for n
    using local_at_cong[OF w1(3)] entry_at_cong[OF w1(3)] by auto
  have "no_clash latest env dir label keep w1" using clash by (simp add: no_clash_def at w1(4))
  moreover have "plan_for keep (loc_info env dir w1) (latest (w_srv w1) label) plan" using w1(7) by (simp add: at w1(4))
  ultimately obtain w2 where w2: "ApplySyncPlan env order plan w1 = (Inr (), w2)" "sync_inv ok latest env dir label w2"
    "in_sync latest env dir label w2" "sides_kept latest dir label keep w1 w2"
    using apply_plan[OF client w1(2) _ w1(5,6)] order by blast
  have "sides_kept latest dir label keep w w2" using w2(4) by (simp add: sides_kept_def at w1(4))
  moreover have "\<exists>plan' w3. CalcSyncPlan env dir label keep' w2 = (Inr plan', w3) \<and> jobs_of plan' = []" for keep'
    using calc_plan[OF client w2(2), of keep'] in_sync_no_jobs[OF _ w2(3)] by blast
  ultimately show ?thesis using w1(1) w2(1-3) by blast
qed

end

end
