(* ===== verification/Fs_Server.thy ===== *)
theory Fs_Server
  imports Fs_Facts
begin

text \<open>
  The tables of files keep the contract \<open>file_server\<close> of the file sync client: rows are appended with growing sequence
  numbers, so the newest row of a name is the one a client is given.
\<close>

section \<open>The newest file of a name\<close>

definition latest_file :: "string \<Rightarrow> ctl_state \<Rightarrow> string \<Rightarrow> string \<rightharpoonup> FileData" where
  "latest_file colonyName s label name =
     map_option (\<lambda>r. data_of (parse_file r)) (find (named_file colonyName label name) (rev (FILES s)))"

text \<open>What the handler of an added file does once the membership was checked.\<close>

definition add_new_file :: "File \<Rightarrow> unit ctl" where
  "add_new_file file = bindM GenerateRandomID (\<lambda>fileID. AddFile (file\<lparr>file_ID := fileID\<rparr>))"

definition files_accepted :: "string \<Rightarrow> File \<Rightarrow> bool" where
  "files_accepted colonyName f \<longleftrightarrow> file_ColonyName f = colonyName \<and> int4 (s3_Port (ref_S3Object (file_Reference f)))"

definition seqnrs_ok :: "ctl_state \<Rightarrow> bool" where
  "seqnrs_ok s \<longleftrightarrow> sorted_wrt (<) (map FI_SEQNR (FILES s)) \<and> (\<forall>r \<in> set (FILES s). FI_SEQNR r \<le> FILE_SEQ s)"

definition fresh_ids :: "ctl_state \<Rightarrow> bool" where
  "fresh_ids s \<longleftrightarrow> inj (\<lambda>k. env_hash s (env_uuid s k)) \<and>
     (\<forall>k \<ge> env_ticks s. env_hash s (env_uuid s k) \<notin> FI_FILE_ID ` set (FILES s))"

text \<open>Go ranges over every key of a map once.\<close>

definition range_ok :: "ctl_state \<Rightarrow> bool" where
  "range_ok s \<longleftrightarrow> (\<forall>k ks. mset (ctl_range s k ks) = mset ks)"

definition files_ok :: "ctl_state \<Rightarrow> bool" where
  "files_ok s \<longleftrightarrow> healthy s \<and> seqnrs_ok s \<and> fresh_ids s \<and> range_ok s"

lemma find_filter_conj: "find Q (filter P xs) = find (\<lambda>x. P x \<and> Q x) xs"
  by (induction xs) auto

lemma find_in_set: "find P xs = Some x \<Longrightarrow> x \<in> set xs"
  by (auto simp: find_Some_iff)

lemma map_of_map_keys: "map_of (map (\<lambda>n. (n, g n)) ns) n = (if n \<in> set ns then Some (g n) else None)"
  by (induction ns) auto

text \<open>With growing sequence numbers the map keeps for a name the last row.\<close>

lemma keep_latest_rows:
  assumes "sorted_wrt (<) (map FI_SEQNR rows)"
  shows "map_of (foldl keep_latest [] (map parse_file rows)) n = map_option parse_file (find (\<lambda>r. FI_NAME r = n) (rev rows))"
  using assms
proof (induction rows arbitrary: n rule: rev_induct)
  case (snoc r rows)
  let ?m = "foldl keep_latest [] (map parse_file rows)"
  have IH: "map_of ?m n = map_option parse_file (find (\<lambda>r. FI_NAME r = n) (rev rows))" for n
    using snoc by (simp add: sorted_wrt_append)
  have "file_SequenceNumber f < FI_SEQNR r" if f: "map_of ?m (FI_NAME r) = Some f" for f
  proof -
    obtain r' where "r' \<in> set rows" "f = parse_file r'"
      using f find_in_set[of _ "rev rows"] unfolding IH by auto
    then show ?thesis using snoc.prems by (auto simp: sorted_wrt_append parse_file_def)
  qed
  then have "map_of (keep_latest ?m (parse_file r)) n = (if n = FI_NAME r then Some (parse_file r) else map_of ?m n)"
    by (auto simp: keep_latest_def parse_file_def update_conv' split: option.splits)
  then show ?case using IH by simp
qed simp

lemma keep_latest_keys: "distinct (map fst (foldl keep_latest [] files))"
proof -
  have "distinct (map fst (keep_latest m f))" if "distinct (map fst m)" for m f
    using that by (auto simp: keep_latest_def distinct_update split: option.splits)
  then have "distinct (map fst m) \<Longrightarrow> distinct (map fst (foldl keep_latest m files))" for m
    by (induction files arbitrary: m) auto
  then show ?thesis by simp
qed

section \<open>The contract\<close>

lemma mapM_ret:
  assumes "\<And>x. x \<in> set xs \<Longrightarrow> f x s = (Inr (g x), s)"
  shows "mapM f xs s = (Inr (map g xs), s)"
  using assms by (induction xs) (simp_all add: bindM_def)

lemma files_get_run:
  assumes "files_ok s"
  obtains fds where "GetFileDataByLabel colonyName label s = (Inr fds, s\<lparr>env_ticks := Suc (env_ticks s)\<rparr>)"
    "files_ok (s\<lparr>env_ticks := Suc (env_ticks s)\<rparr>)" "latest_file colonyName (s\<lparr>env_ticks := Suc (env_ticks s)\<rparr>) = latest_file colonyName s"
    "distinct (map fd_Name fds)" "\<And>n. map_of (map (\<lambda>f. (fd_Name f, f)) fds) n = latest_file colonyName s label n"
proof -
  let ?rows = "filter (\<lambda>r. FI_COLONY_NAME r = colonyName \<and> FI_LABEL r = label) (FILES s)"
  let ?m = "foldl keep_latest [] (map parse_file ?rows)"
  define names where "names = ctl_range s (env_ticks s) (map fst ?m)"
  let ?g = "\<lambda>name. data_of (the (map_of ?m name))"
  let ?s = "s\<lparr>env_ticks := Suc (env_ticks s)\<rparr>"
  have h: "healthy s" "seqnrs_ok s" "range_ok s" using assms by (simp_all add: files_ok_def)
  have srt: "sorted_wrt (<) (map FI_SEQNR ?rows)"
    using h(2) by (simp add: seqnrs_ok_def sorted_wrt_map sorted_wrt_filter)
  have m: "map_of ?m n = map_option parse_file (find (named_file colonyName label n) (rev (FILES s)))" for n
    unfolding keep_latest_rows[OF srt] by (simp add: rev_filter find_filter_conj named_file_def[abs_def] conj_assoc)
  have perm: "mset names = mset (map fst ?m)" using h(3) by (simp add: range_ok_def names_def)
  have set: "set names = dom (map_of ?m)" using mset_eq_setD[OF perm] by (simp add: dom_map_of_conv_image_fst)
  have dist: "distinct names" using mset_eq_imp_distinct_iff[OF perm] keep_latest_keys by blast
  have nm: "fd_Name (?g n) = n \<and> map_of ?m n \<noteq> None" if n: "n \<in> set names" for n
  proof -
    obtain r where r: "find (named_file colonyName label n) (rev (FILES s)) = Some r" using n unfolding set dom_def m by auto
    then have "named_file colonyName label n r" unfolding find_Some_iff by blast
    then show ?thesis using r by (simp add: m data_of_def parse_file_def named_file_def)
  qed
  have "GetFileDataByLabel colonyName label s = (Inr (map ?g names), ?s)"
  proof -
    have "mapM (\<lambda>name. bindM (derefM (map_of ?m name)) (\<lambda>file. retM \<lparr>fd_Name = file_Name file, fd_Checksum = file_Checksum file,
        fd_Size = file_Size file, fd_S3Filename = s3_Object (ref_S3Object (file_Reference file))\<rparr>)) names ?s = (Inr (map ?g names), ?s)"
    proof (rule mapM_ret)
      fix x assume "x \<in> set names"
      then obtain f where "map_of ?m x = Some f" using nm by blast
      then show "bindM (derefM (map_of ?m x)) (\<lambda>file. retM \<lparr>fd_Name = file_Name file, fd_Checksum = file_Checksum file,
          fd_Size = file_Size file, fd_S3Filename = s3_Object (ref_S3Object (file_Reference file))\<rparr>) ?s = (Inr (?g x), ?s)"
        by (simp add: bindM_def data_of_def object_of_def)
    qed
    then show ?thesis using h(1)
      by (simp add: GetFileDataByLabel_def select_files_def bindM_def sql_query_healthy range_keys_def names_def Let_def)
  qed
  moreover have "map fd_Name (map ?g names) = names" using nm by (simp add: map_idI)
  moreover have "map_of (map (\<lambda>f. (fd_Name f, f)) (map ?g names)) n = latest_file colonyName s label n" for n
  proof -
    have "map (\<lambda>f. (fd_Name f, f)) (map ?g names) = map (\<lambda>n. (n, ?g n)) names" using nm by simp
    then have "map_of (map (\<lambda>f. (fd_Name f, f)) (map ?g names)) n = (if n \<in> set names then Some (?g n) else None)"
      by (simp only: map_of_map_keys)
    then show ?thesis unfolding set m latest_file_def by (auto simp: m)
  qed
  moreover have "files_ok ?s" "latest_file colonyName ?s = latest_file colonyName s"
    using assms by (auto simp: files_ok_def healthy_def seqnrs_ok_def fresh_ids_def range_ok_def latest_file_def fun_eq_iff)
  ultimately show thesis using dist by (intro that[of "map ?g names"]) simp_all
qed

lemma files_get_law:
  assumes "files_ok s"
  shows "\<exists>s' fds. GetFileDataByLabel colonyName label s = (Inr fds, s') \<and> files_ok s' \<and> latest_file colonyName s' = latest_file colonyName s \<and>
      distinct (map fd_Name fds) \<and> (\<forall>n. map_of (map (\<lambda>f. (fd_Name f, f)) fds) n = latest_file colonyName s label n)"
  by (rule files_get_run[OF assms, of colonyName label]) (intro exI conjI allI, assumption+)

definition next_id :: "ctl_state \<Rightarrow> string" where
  "next_id s = env_hash s (env_uuid s (env_ticks s))"

definition with_new_file :: "File \<Rightarrow> ctl_state \<Rightarrow> ctl_state" where
  "with_new_file f s = s\<lparr>env_ticks := Suc (Suc (env_ticks s)), FILE_SEQ := FILE_SEQ s + 1,
     FILES := FILES s @ [file_row_of (FILE_SEQ s + 1) (env_clock s (Suc (env_ticks s))) (f\<lparr>file_ID := next_id s\<rparr>)]\<rparr>"

lemma files_add_run:
  assumes ok: "files_ok s" and acc: "files_accepted colonyName f"
  shows "GenerateRandomID s = (Inr (next_id s), s\<lparr>env_ticks := Suc (env_ticks s)\<rparr>)"
    "AddFile (f\<lparr>file_ID := next_id s\<rparr>) (s\<lparr>env_ticks := Suc (env_ticks s)\<rparr>) = (Inr (), with_new_file f s)"
    "files_ok (with_new_file f s)"
    "latest_file colonyName (with_new_file f s) =
      (latest_file colonyName s)(file_Label f := (latest_file colonyName s (file_Label f))(file_Name f \<mapsto> data_of f))"
proof -
  let ?id = "env_hash s (env_uuid s (env_ticks s))"
  let ?r = "file_row_of (FILE_SEQ s + 1) (env_clock s (Suc (env_ticks s))) (f\<lparr>file_ID := ?id\<rparr>)"
  let ?s = "s\<lparr>env_ticks := Suc (Suc (env_ticks s)), FILE_SEQ := FILE_SEQ s + 1, FILES := FILES s @ [?r]\<rparr>"
  have s: "with_new_file f s = ?s" by (simp add: with_new_file_def next_id_def)
  have h: "healthy s" "seqnrs_ok s" "fresh_ids s" using ok by (simp_all add: files_ok_def)
  have r: "FI_FILE_ID ?r = ?id" "FI_SEQNR ?r = FILE_SEQ s + 1" "named_file colonyName l n ?r \<longleftrightarrow> l = file_Label f \<and> n = file_Name f"
    "data_of (parse_file ?r) = data_of f" for l n
    using acc by (auto simp: file_row_of_def named_file_def files_accepted_def data_of_def parse_file_def object_of_def Let_def)
  have "?id \<notin> FI_FILE_ID ` set (FILES s)" using h(3) by (simp add: fresh_ids_def)
  then have "insert_row FI_FILE_ID ?r (FILES s) = Inr (FILES s @ [?r])" by (simp add: insert_row_def r(1))
  then show "AddFile (f\<lparr>file_ID := next_id s\<rparr>) (s\<lparr>env_ticks := Suc (env_ticks s)\<rparr>) = (Inr (), with_new_file f s)"
    unfolding s using h(1) acc
    by (simp add: AddFile_def time_Now_def nextval_def sql_connection_def healthy_def files_accepted_def next_id_def op_simps)
  show "GenerateRandomID s = (Inr (next_id s), s\<lparr>env_ticks := Suc (env_ticks s)\<rparr>)"
    by (simp add: GenerateRandomID_def uuid_New_def GenerateHash_def next_id_def op_simps)
  show "latest_file colonyName (with_new_file f s) =
      (latest_file colonyName s)(file_Label f := (latest_file colonyName s (file_Label f))(file_Name f \<mapsto> data_of f))"
    unfolding s using r(3,4) by (auto simp: latest_file_def fun_eq_iff)
  show "files_ok (with_new_file f s)" unfolding s
  proof -
    have "seqnrs_ok ?s" using h(2) r(2) by (fastforce simp: seqnrs_ok_def sorted_wrt_append)
    moreover have "env_hash s (env_uuid s k) \<noteq> ?id" if "k \<ge> Suc (Suc (env_ticks s))" for k
      using h(3) that injD[of "\<lambda>k. env_hash s (env_uuid s k)" k "env_ticks s"] by (auto simp: fresh_ids_def)
    then have "fresh_ids ?s" using h(3) r(1) by (simp add: fresh_ids_def)
    ultimately show "files_ok ?s" using ok by (simp add: files_ok_def healthy_def range_ok_def)
  qed
qed

lemma files_add_law:
  assumes "files_ok s" "files_accepted colonyName f"
  shows "\<exists>s'. add_new_file f s = (Inr (), s') \<and> files_ok s' \<and> latest_file colonyName s' =
      (latest_file colonyName s)(file_Label f := (latest_file colonyName s (file_Label f))(file_Name f \<mapsto> data_of f))"
  using files_add_run[OF assms] by (simp add: add_new_file_def bindM_def)

interpretation colony_files: file_server "GetFileDataByLabel colonyName" add_new_file "latest_file colonyName" files_ok "files_accepted colonyName"
  for colonyName
  by unfold_locales (rule files_get_law files_add_law; assumption)+

section \<open>Syncing with a colony\<close>

text \<open>
  A sync of a directory with a label of a colony succeeds, in whatever order the workers take the jobs, when the
  database and the objects are in order and no name is in the way. Afterwards both sides have the same files, a second
  sync has nothing to do, and the side that has the say (the directory with \<open>keepLocal\<close>, the label without) has kept
  all its files, as has each side those that the other did not have.
\<close>

theorem sync_converges:
  assumes "client_of (GetFileDataByLabel colonyName) add_new_file (files_accepted colonyName) env"
    and "sync_inv files_ok (latest_file colonyName) env dir label w"
    and "no_clash (latest_file colonyName) env dir label keepLocal w"
    and "\<And>js. mset (order js) = mset js"
  shows "\<exists>plan w1 w2. CalcSyncPlan env dir label keepLocal w = (Inr plan, w1) \<and> ApplySyncPlan env order plan w1 = (Inr (), w2) \<and>
    sync_inv files_ok (latest_file colonyName) env dir label w2 \<and>
    in_sync (latest_file colonyName) env dir label w2 \<and> sides_kept (latest_file colonyName) dir label keepLocal w w2 \<and>
    (\<forall>keepLocal'. \<exists>plan' w3. CalcSyncPlan env dir label keepLocal' w2 = (Inr plan', w3) \<and> jobs_of plan' = [])"
  using assms by (rule colony_files.sync_runs)

text \<open>A directory with a file of its own and one in conflict, a label with a file of its own.\<close>

definition demo_file :: "string \<Rightarrow> int \<Rightarrow> string \<Rightarrow> string \<Rightarrow> file_row" where
  "demo_file fid seqnr name content =
     \<lparr>FI_FILE_ID = fid, FI_COLONY_NAME = ''c'', FI_LABEL = ''/l'', FI_NAME = name, FI_SIZE = int (length content),
      FI_SEQNR = seqnr, FI_CHECKSUM = content, FI_CHECKSUM_ALG = ''SHA256'', FI_ADDED = 0, FI_PROTOCOL = ''s3'', FI_S3_SERVER = [],
      FI_S3_PORT = 443, FI_S3_TLS = True, FI_S3_ACCESSKEY = [], FI_S3_SECRETKEY = [], FI_S3_REGION = [], FI_S3_ENCKEY = [],
      FI_S3_ENCALG = [], FI_S3_OBJ = fid, FI_S3_BUCKET = ''b''\<rparr>"

definition demo_colony :: ctl_state where
  "demo_colony =
     pq_state.extend ((new_pq (\<lambda>s. s) (\<lambda>n. 100 + int n) (\<lambda>n. replicate (Suc n) CHR ''x'') (\<lambda>_. unitMap))
         \<lparr>FILES := [demo_file ''f1'' 1 ''b'' ''two'', demo_file ''f2'' 2 ''k'' ''theirs''], FILE_SEQ := 2\<rparr>)
       (ctl_state.fields [] True (\<lambda>_ _. Inr 0) (\<lambda>_ _. Inr ()) [] 0 (\<lambda>_. False) (\<lambda>_ ks. rev ks))"

definition demo_world :: "ctl_state world" where
  "demo_world =
     \<lparr>w_dirs = [(''/d'', [(''a'', Content ''one''), (''k'', Content ''mine''), (''sub'', Directory)])],
      w_s3 = [''f1'' \<mapsto> ''two'', ''f2'' \<mapsto> ''theirs''], w_next = 0, w_srv = demo_colony\<rparr>"

definition demo_client :: "ctl_state fs_env" where
  "demo_client =
     \<lparr>api_GetFileData = GetFileDataByLabel ''c'', api_GetFileLabelsByName = GetFileLabelsByName ''c'', api_AddFile = add_new_file,
      api_GetFileByID = (\<lambda>fid. bindM (GetFileByID ''c'' fid) (\<lambda>f. retM (case f of None \<Rightarrow> [] | Some f \<Rightarrow> [f]))),
      api_GetFileByName = GetFileByName ''c'', api_RemoveFileByID = RemoveFileByID ''c'', api_RemoveFileByName = RemoveFileByName ''c'',
      api_GetSnapshotByID = (\<lambda>_. throwM (Err ''no snapshot'')), sha256 = (\<lambda>c. c), random_id = (\<lambda>k. replicate k CHR ''x''),
      cfs_json = (\<lambda>l. l), fs_colonyName = ''c'',
      fs_s3Client = \<lparr>s3c_BucketName = ''b'', s3c_Endpoint = ''s3'', s3c_AccessKey = [], s3c_SecretKey = [], s3c_Region = [],
        s3c_TLS = True\<rparr>, dir_Size = 4096\<rparr>"

lemma replicate_inj: "inj (\<lambda>k. replicate k x)" "inj (\<lambda>k. x # replicate k x)"
  by (auto intro!: injI dest: arg_cong[where f = length])

lemma demo_client_ok: "client_of (GetFileDataByLabel ''c'') add_new_file (files_accepted ''c'') demo_client"
  by (auto simp: client_of_def demo_client_def files_accepted_def replicate_inj int4_def)

lemma demo_latest: "latest_file ''c'' demo_colony ''/l'' n =
    (if n = ''k'' then Some \<lparr>fd_Name = ''k'', fd_Checksum = ''theirs'', fd_Size = 6, fd_S3Filename = ''f2''\<rparr>
     else if n = ''b'' then Some \<lparr>fd_Name = ''b'', fd_Checksum = ''two'', fd_Size = 3, fd_S3Filename = ''f1''\<rparr> else None)"
  by (simp add: latest_file_def demo_colony_def pq_state.defs ctl_state.defs demo_file_def named_file_def parse_file_def data_of_def object_of_def)

lemma demo_colony_ok: "files_ok demo_colony"
proof -
  have "FI_FILE_ID ` set (FILES demo_colony) = {''f1'', ''f2''}"
    by (auto simp: demo_colony_def pq_state.defs ctl_state.defs demo_file_def)
  moreover have "env_hash demo_colony (env_uuid demo_colony k) = CHR ''x'' # replicate k CHR ''x''" for k
    by (simp add: demo_colony_def pq_state.defs ctl_state.defs new_pq_def)
  ultimately have "fresh_ids demo_colony" by (simp add: fresh_ids_def replicate_inj)
  then show ?thesis
    by (simp add: files_ok_def healthy_def seqnrs_ok_def range_ok_def demo_colony_def pq_state.defs ctl_state.defs new_pq_def demo_file_def)
qed

lemma demo_world_ok: "sync_inv files_ok (latest_file ''c'') demo_client ''/d'' ''/l'' demo_world"
proof -
  have "replicate k CHR ''x'' \<noteq> ''f1''" "replicate k CHR ''x'' \<noteq> ''f2''" for k by (cases k; simp)+
  then have "fresh_objects demo_client demo_world" by (simp add: fresh_objects_def demo_client_def demo_world_def)
  moreover have "has_object demo_client demo_world n fd" if "latest_file ''c'' demo_colony ''/l'' n = Some fd" for n fd
    using that unfolding demo_latest by (auto simp: has_object_def demo_world_def demo_client_def split: if_splits)
  ultimately show ?thesis using demo_colony_ok by (simp add: sync_inv_def demo_world_def dirs_ok_def)
qed

lemma demo_no_clash: "no_clash (latest_file ''c'') demo_client ''/d'' ''/l'' keepLocal demo_world"
proof -
  have srv: "w_srv demo_world = demo_colony" by (simp add: demo_world_def)
  have "entry_at ''/d'' ''b'' demo_world = None" "entry_at ''/d'' ''k'' demo_world = Some (Content ''mine'')"
    "entry_at ''/d'' ''.cfs'' demo_world = None" by (simp_all add: entry_at_def demo_world_def)
  then show ?thesis unfolding no_clash_def srv demo_latest by auto
qed

theorem sync_converges_witness:
  "\<exists>plan w1 w2. CalcSyncPlan demo_client ''/d'' ''/l'' False demo_world = (Inr plan, w1) \<and> ApplySyncPlan demo_client rev plan w1 = (Inr (), w2) \<and>
    in_sync (latest_file ''c'') demo_client ''/d'' ''/l'' w2 \<and> sides_kept (latest_file ''c'') ''/d'' ''/l'' False demo_world w2"
  using sync_converges[OF demo_client_ok demo_world_ok demo_no_clash[of False], of rev] by auto

end
