(* ===== verification/Client_Server.thy ===== *)
theory Client_Server
  imports Colonies_Client Fs_Server Request_Facts Text_Codec
begin

text \<open>
  The client and the server together: \<open>respond\<close> is what the server writes for the body of a posted request. A client whose
  requests are served that way is answered what the handler replied; the file sync client works over it.
\<close>

section \<open>Responses\<close>

text \<open>
  Replies are written one after the other into the body of the response (\<open>generateRPCErrorMsg\<close>, \<open>handleHTTPError\<close>,
  \<open>sendHTTPReply\<close> of \<open>pkg/server/colonies_server.go\<close>). The texts of the contents are a parameter.
\<close>

definition generateRPCErrorMsg :: "wire_codec \<Rightarrow> string \<Rightarrow> nat \<Rightarrow> failure + RPCReplyMsg" where
  "generateRPCErrorMsg codec err errorCode =
     (case Failure_ToJSON codec (CreateFailure (int errorCode) err) of
        Inl e \<Rightarrow> Inl e
      | Inr jsonString \<Rightarrow> Inr (CreateRPCErrorReplyMsg codec ''error'' jsonString))"

definition error_body :: "wire_codec \<Rightarrow> string \<Rightarrow> nat \<Rightarrow> string" where
  "error_body codec err errorCode =
     (let rpcReplyMsg = (case generateRPCErrorMsg codec err errorCode of Inl _ \<Rightarrow> None | Inr msg \<Rightarrow> Some msg) in
      case RPCReplyMsg_ToJSON codec rpcReplyMsg of Inl _ \<Rightarrow> [] | Inr jsonString \<Rightarrow> jsonString)"

definition payload_body :: "wire_codec \<Rightarrow> string \<Rightarrow> string \<Rightarrow> string" where
  "payload_body codec payloadType jsonString =
     (case RPCReplyMsg_ToJSON codec (Some (CreateRPCReplyMsg codec payloadType jsonString)) of
        Inl e \<Rightarrow> error_body codec (err_text e) StatusBadRequest
      | Inr rpcReplyMsgJSONString \<Rightarrow> rpcReplyMsgJSONString)"

fun reply_body :: "wire_codec \<Rightarrow> (content \<Rightarrow> string) \<Rightarrow> reply \<Rightarrow> string" where
  "reply_body codec json (ErrorReply err errorCode) = error_body codec err errorCode"
| "reply_body codec json (Reply payloadType c) = payload_body codec payloadType (json c)"
| "reply_body codec json (Redirected jsonReplyString) = jsonReplyString"

text \<open>
  The router catches a panic of the handler; the body is empty then. A panic in a command of the controller, which runs
  in a goroutine of its own, ends the server: the model goes on where the server is gone.
\<close>

definition respond :: "api_env \<Rightarrow> wire_codec \<Rightarrow> (content \<Rightarrow> string) \<Rightarrow> string \<Rightarrow> (ctl_state, string) op" where
  "respond api codec json body s =
     (case handleAPIRequest api (CreateRPCMsgFromJSON codec body) s of
        (Inr replies, s') \<Rightarrow> (Inr (concat (map (reply_body codec json) replies)), s')
      | (Inl e, s') \<Rightarrow> (if e = Panic then Inr [] else Inl e, s'))"

section \<open>Linked\<close>

text \<open>What base64 and JSON keep: texts (in UTF-8) and the messages around them.\<close>

definition wire_ok :: "wire_codec \<Rightarrow> bool" where
  "wire_ok codec \<longleftrightarrow> (\<forall>x. unbase64 codec (base64 codec x) = x) \<and>
     (\<forall>m. \<exists>js. RPCMsg_ToJSON codec m = Inr js \<and> CreateRPCMsgFromJSON codec js = Inr m) \<and>
     (\<forall>m. \<exists>js. RPCReplyMsg_ToJSON codec (Some m) = Inr js \<and> CreateRPCReplyMsgFromJSON codec js = Inr (Some m)) \<and>
     (\<forall>f. \<exists>js. Failure_ToJSON codec f = Inr js \<and> ConvertJSONToFailure codec js = Inr (Some f))"

definition linked :: "ctl_state http_env \<Rightarrow> api_env \<Rightarrow> (content \<Rightarrow> string) \<Rightarrow> bool" where
  "linked cl api json \<longleftrightarrow> wire_ok (wire cl) \<and> post cl = respond api (wire cl) json \<and> api_decodePayload api = unbase64 (wire cl)"

text \<open>What is signed with the key is recovered as the identity.\<close>

definition signs_as :: "ctl_state http_env \<Rightarrow> api_env \<Rightarrow> string \<Rightarrow> string \<Rightarrow> bool" where
  "signs_as cl api prvKey rid \<longleftrightarrow>
     (\<forall>body. \<exists>signature. GenerateSignature cl body prvKey = Inr signature \<and> api_recoverID api body signature = Inr rid)"

lemma wire_okD:
  assumes "wire_ok codec"
  shows "unbase64 codec (base64 codec x) = x"
    "\<exists>js. RPCMsg_ToJSON codec m = Inr js \<and> CreateRPCMsgFromJSON codec js = Inr m"
    "\<exists>js. RPCReplyMsg_ToJSON codec (Some r) = Inr js \<and> CreateRPCReplyMsgFromJSON codec js = Inr (Some r)"
    "\<exists>js. Failure_ToJSON codec f = Inr js \<and> ConvertJSONToFailure codec js = Inr (Some f)"
  using assms by (simp_all add: wire_ok_def)

lemma sendMessage_served:
  assumes con: "linked cl api json" and sig: "signs_as cl api prvKey rid" and pt: "pt \<noteq> ''versionmsg''"
    and h: "dispatch api rid pt js = Some handle" "handle s = (Inr replies, s')"
  shows "sendMessage cl pt js prvKey False s = read_reply cl (concat (map (reply_body (wire cl) json) replies)) s'"
proof -
  let ?w = "wire cl"
  have w: "wire_ok ?w" and post: "post cl = respond api ?w json" and dec: "api_decodePayload api = unbase64 ?w"
    using con by (simp_all add: linked_def)
  obtain sg where sg: "GenerateSignature cl (base64 ?w js) prvKey = Inr sg" "api_recoverID api (base64 ?w js) sg = Inr rid"
    using sig unfolding signs_as_def by blast
  let ?m = "\<lparr>rpc_Signature = sg, rpc_PayloadType = pt, rpc_Payload = base64 ?w js\<rparr>"
  obtain body where body: "RPCMsg_ToJSON ?w ?m = Inr body" "CreateRPCMsgFromJSON ?w body = Inr ?m" using wire_okD(2)[OF w] by blast
  have "handleAPIRequest api (Inr ?m) s = (Inr replies, s')"
    using pt sg(2) h by (simp add: handleAPIRequest_def orReply_def bindM_def tryM_def liftE_def dec wire_okD(1)[OF w])
  then show ?thesis
    using sg(1) body by (simp add: sendMessage_def CreateRPCMsg_def Let_def post respond_def bindM_def tryM_def)
qed

lemma read_reply_body:
  assumes "wire_ok (wire cl)"
  shows "read_reply cl (reply_body (wire cl) json (Reply t c)) s = (Inr (Inr (json c)), s)"
    "read_reply cl (reply_body (wire cl) json (ErrorReply msg code)) s = (Inr (Inl (ColoniesError (int code) msg)), s)"
proof -
  let ?w = "wire cl"
  obtain js where "RPCReplyMsg_ToJSON ?w (Some (CreateRPCReplyMsg ?w t (json c))) = Inr js"
    "CreateRPCReplyMsgFromJSON ?w js = Inr (Some (CreateRPCReplyMsg ?w t (json c)))" using wire_okD(3)[OF assms] by blast
  then show "read_reply cl (reply_body ?w json (Reply t c)) s = (Inr (Inr (json c)), s)"
    by (simp add: payload_body_def read_reply_def bindM_def CreateRPCReplyMsg_def wire_okD(1)[OF assms])
  obtain fjs where f: "Failure_ToJSON ?w (CreateFailure (int code) msg) = Inr fjs"
    "ConvertJSONToFailure ?w fjs = Inr (Some (CreateFailure (int code) msg))" using wire_okD(4)[OF assms] by blast
  obtain ejs where "RPCReplyMsg_ToJSON ?w (Some (CreateRPCErrorReplyMsg ?w ''error'' fjs)) = Inr ejs"
    "CreateRPCReplyMsgFromJSON ?w ejs = Inr (Some (CreateRPCErrorReplyMsg ?w ''error'' fjs))" using wire_okD(3)[OF assms] by blast
  with f show "read_reply cl (reply_body ?w json (ErrorReply msg code)) s = (Inr (Inl (ColoniesError (int code) msg)), s)"
    by (simp add: error_body_def generateRPCErrorMsg_def read_reply_def bindM_def CreateRPCErrorReplyMsg_def CreateFailure_def
        Let_def wire_okD(1)[OF assms])
qed

text \<open>
  C14: a request whose handler writes one reply is answered with it: the client gets the text of the content, or an error
  with the status and the message the server wrote; what a leader answered is read as if it came from the leader. The
  state afterwards is that of the handler.
\<close>

theorem request_answered:
  assumes "linked cl api json" "signs_as cl api prvKey rid" "pt \<noteq> ''versionmsg''"
    and "dispatch api rid pt js = Some handle" "handle s = (Inr [r], s')"
  shows "sendMessage cl pt js prvKey False s =
    (case r of
       Reply t c \<Rightarrow> (Inr (Inr (json c)), s')
     | ErrorReply msg code \<Rightarrow> (Inr (Inl (ColoniesError (int code) msg)), s')
     | Redirected body \<Rightarrow> read_reply cl body s')"
proof -
  have "wire_ok (wire cl)" using assms(1) by (simp add: linked_def)
  from read_reply_body[OF this] show ?thesis
    using sendMessage_served[OF assms] by (cases r) (simp_all del: reply_body.simps(1,2))
qed

section \<open>Members\<close>

definition member_of :: "string \<Rightarrow> string \<Rightarrow> ctl_state \<Rightarrow> bool" where
  "member_of rid c s \<longleftrightarrow> (\<forall>r \<in> set (EXECUTORS s). executor_row_ok r) \<and> (\<forall>r \<in> set (USERS s). user_row_ok r) \<and>
     c \<in> set (map CO_NAME (COLONIES s)) \<and> (valid_executor_of s rid c True \<or> known_user s rid c)"

lemma member_admitted:
  assumes "healthy s" "member_of rid c s"
  shows "RequireMembership rid c True s = (Inr (), s)"
proof -
  note ok = assms(2)[unfolded member_of_def]
  note e = checkIfExecutorIsValid_run[OF assms(1), of c rid True] and u = checkIfUserIsValid_run[OF assms(1), of c rid]
  show ?thesis by (rule e; rule u) (use ok in \<open>auto simp: RequireMembership_def bindM_def tryM_def\<close>)
qed

lemma member_of_cong:
  "EXECUTORS s' = EXECUTORS s \<Longrightarrow> USERS s' = USERS s \<Longrightarrow> COLONIES s' = COLONIES s \<Longrightarrow> member_of rid c s' = member_of rid c s"
  by (simp add: member_of_def valid_executor_of_def known_user_def)

lemmas dispatch_simps = dispatch_def dispatch_user_def dispatch_colony_def dispatch_executor_def dispatch_function_def
  dispatch_process_def dispatch_attribute_def dispatch_graph_def dispatch_generator_def dispatch_cron_def dispatch_server_def
  dispatch_log_def dispatch_file_def

lemma dispatched:
  "dispatch api rid ''closesuccessfulmsg'' js =
     Some (handleCloseSuccessfulHTTPRequest rid ''closesuccessfulmsg'' (dec_CloseSuccessfulMsg (api_process_codec api) js))"
  "dispatch api rid ''addfilemsg'' js = Some (handleAddFileHTTPRequest rid ''addfilemsg'' (dec_AddFileMsg (api_file_codec api) js))"
  "dispatch api rid ''getfilesmsg'' js = Some (handleGetFilesHTTPRequest rid ''getfilesmsg'' (dec_GetFilesMsg (api_file_codec api) js))"
  by (simp_all add: dispatch_simps)

section \<open>Errors that are written twice\<close>

text \<open>
  C34: a process was failed while its executor worked on it, so that the server refuses to close it as successful. The
  refusal is written twice into the response, which is no document then, and the client reports that it expected a valid
  message instead of the error of the server.
\<close>

theorem late_close_unreadable:
  assumes con: "linked cl api json" and sig: "signs_as cl api prvKey rid"
    and two: "\<And>m m' js js'. RPCReplyMsg_ToJSON (wire cl) (Some m) = Inr js \<Longrightarrow> RPCReplyMsg_ToJSON (wire cl) (Some m') = Inr js' \<Longrightarrow>
      \<exists>e. CreateRPCReplyMsgFromJSON (wire cl) (js @ js') = Inl e"
    and enc: "enc_CloseSuccessfulMsg (messages cl) (CreateCloseSuccessfulMsg pid) = Inr js"
    and dec: "dec_CloseSuccessfulMsg (api_process_codec api) js = Inr (CreateCloseSuccessfulMsg pid)"
    and s: "healthy s" "find_row pid s = Some r" "PR_STATE r = FAILED" "PR_ASSIGNED_EXECUTOR_ID r = rid" "rid \<noteq> []"
    and mem: "member_of rid (PR_TARGET_COLONY_NAME r) s"
  shows "\<exists>body. client_Close cl pid prvKey s =
    (Inr (Inl (ClientError (''Expected a valid Colonies RPC message, but got this: '' @ body))), s)"
proof -
  let ?e = "''Tried to set failed process as successful''"
  let ?h = "handleCloseSuccessfulHTTPRequest rid ''closesuccessfulmsg'' (Inr (CreateCloseSuccessfulMsg pid))"
  have p: "proc_AssignedExecutorID (process_view s r) = rid" "proc_ID (process_view s r) = pid"
    using s by (simp_all add: find_row_id)
  have "ctl_closeSuccessful pid rid [] s = (Inl (Err ?e), s)"
    using s by (simp add: ctl_closeSuccessful_def bindM_def thenM_def GetProcessByID_run MarkSuccessful_run)
  then have run: "?h s = (Inr [ErrorReply ?e StatusBadRequest, ErrorReply ?e StatusInternalServerError], s)"
    using s(1,2,5) p member_admitted[OF s(1) mem]
    by (simp add: handleCloseSuccessfulHTTPRequest_def withMsg_def CreateCloseSuccessfulMsg_def memberOfProcess_def orReply_def orNil_def
        orReplyTwice_def ctl_getProcess_def bindM_def tryM_def GetProcessByID_run handleHTTPError_def)
  have "dispatch api rid ''closesuccessfulmsg'' js = Some ?h" by (simp add: dispatched dec)
  from sendMessage_served[OF con sig _ this run]
  have sent: "sendMessage cl ''closesuccessfulmsg'' js prvKey False s =
      read_reply cl (error_body (wire cl) ?e StatusBadRequest @ error_body (wire cl) ?e StatusInternalServerError) s" by simp
  have w: "wire_ok (wire cl)" using con by (simp add: linked_def)
  have "\<exists>m. RPCReplyMsg_ToJSON (wire cl) (Some m) = Inr (error_body (wire cl) ?e code)" for code
    using wire_okD(4)[OF w, of "CreateFailure (int code) ?e"] wire_okD(3)[OF w]
    by (auto simp: error_body_def generateRPCErrorMsg_def) (metis sum.case(2))
  then obtain err where "CreateRPCReplyMsgFromJSON (wire cl)
      (error_body (wire cl) ?e StatusBadRequest @ error_body (wire cl) ?e StatusInternalServerError) = Inl err" using two by meson
  with sent show ?thesis by (auto simp: client_Close_def request_def request_as_def enc bindM_def read_reply_def)
qed


section \<open>File sync over requests\<close>

text \<open>An error of a call is returned as such by what calls it.\<close>

fun client_err :: "client_error \<Rightarrow> failure" where
  "client_err (ColoniesError status msg) = Err msg"
| "client_err (ClientError msg) = Err msg"

definition called :: "('s, client_error + 'a) op \<Rightarrow> ('s, 'a) op" where
  "called m = bindM m (\<lambda>res. case res of Inl e \<Rightarrow> throwM (client_err e) | Inr x \<Rightarrow> retM x)"

definition rpc_get_data :: "'s http_env \<Rightarrow> string \<Rightarrow> string \<Rightarrow> string \<Rightarrow> ('s, FileData list) op" where
  "rpc_get_data cl colonyName prvKey label = called (client_GetFileData cl colonyName label prvKey)"

definition rpc_add_file :: "'s http_env \<Rightarrow> string \<Rightarrow> File \<Rightarrow> ('s, unit) op" where
  "rpc_add_file cl prvKey f = bindM (called (client_AddFile cl (Some f) prvKey)) (\<lambda>_. retM ())"

text \<open>The messages about files arrive as they were sent.\<close>

definition file_messages_ok :: "'s http_env \<Rightarrow> api_env \<Rightarrow> (content \<Rightarrow> string) \<Rightarrow> bool" where
  "file_messages_ok cl api json \<longleftrightarrow>
     (\<forall>m. \<exists>js. enc_GetFilesMsg (messages cl) m = Inr js \<and> dec_GetFilesMsg (api_file_codec api) js = Inr m) \<and>
     (\<forall>m. \<exists>js. enc_AddFileMsg (messages cl) m = Inr js \<and> dec_AddFileMsg (api_file_codec api) js = Inr m) \<and>
     (\<forall>fds. ConvertJSONToFileDataArray (results cl) (json (FileData_json fds)) = Inr fds) \<and>
     (\<forall>f. ConvertJSONToFile (results cl) (json (File_json f)) = Inr f)"

lemma request_answer:
  assumes "linked cl api json" "signs_as cl api prvKey rid" "pt \<noteq> ''versionmsg''"
    and "dispatch api rid pt js = Some handle" "handle s = (Inr [Reply t c], s')"
    and "decode (json c) = Inr x"
  shows "called (request cl pt (Inr js) prvKey decode) s = (Inr x, s')"
proof -
  have "wire_ok (wire cl)" using assms(1) by (simp add: linked_def)
  then have "sendMessage cl pt js prvKey False s = (Inr (Inr (json c)), s')"
    using sendMessage_served[OF assms(1-5)] read_reply_body(1)[of cl json t c s'] by simp
  then show ?thesis by (simp add: called_def request_def request_as_def bindM_def assms(6))
qed

lemma rpc_get_run:
  assumes "linked cl api json" "signs_as cl api prvKey rid" "file_messages_ok cl api json"
    and s: "files_ok s" "member_of rid colonyName s" and get: "GetFileDataByLabel colonyName label s = (Inr fds, s')"
  shows "rpc_get_data cl colonyName prvKey label s = (Inr fds, s')"
proof -
  let ?m = "CreateGetFilesMsg colonyName label"
  obtain js where js: "enc_GetFilesMsg (messages cl) ?m = Inr js" "dec_GetFilesMsg (api_file_codec api) js = Inr ?m"
    using assms(3) unfolding file_messages_ok_def by blast
  have "RequireMembership rid colonyName True s = (Inr (), s)" using s member_admitted by (simp add: files_ok_def)
  then have run: "handleGetFilesHTTPRequest rid ''getfilesmsg'' (Inr ?m) s = (Inr [Reply ''getfilesmsg'' (FileData_json fds)], s')"
    using get by (simp add: handleGetFilesHTTPRequest_def withMsg_def CreateGetFilesMsg_def orReply_def bindM_def tryM_def sendHTTPReply_def)
  have "ConvertJSONToFileDataArray (results cl) (json (FileData_json fds)) = Inr fds" using assms(3) by (simp add: file_messages_ok_def)
  then show ?thesis unfolding rpc_get_data_def client_GetFileData_def js(1)
    using request_answer[OF assms(1,2) _ dispatched(3)[of api rid js, unfolded js(2)] run] by simp
qed

lemma rpc_add_run:
  assumes "linked cl api json" "signs_as cl api prvKey rid" "file_messages_ok cl api json"
    and s: "files_ok s" "member_of rid colonyName s" and f: "files_accepted colonyName f"
  shows "rpc_add_file cl prvKey f s = (Inr (), with_new_file f s)"
proof -
  let ?m = "CreateAddFileMsg (Some f)"
  obtain js where js: "enc_AddFileMsg (messages cl) ?m = Inr js" "dec_AddFileMsg (api_file_codec api) js = Inr ?m"
    using assms(3) unfolding file_messages_ok_def by blast
  have c: "file_ColonyName f = colonyName" using f by (simp add: files_accepted_def)
  note run = files_add_run[OF s(1) f]
  have "RequireMembership rid colonyName True s = (Inr (), s)" using s member_admitted by (simp add: files_ok_def)
  moreover obtain found where "GetFileByID colonyName (next_id s) (with_new_file f s) = (Inr found, with_new_file f s)"
    using run(3) by (auto simp: files_ok_def GetFileByID_def select_files_def bindM_def sql_query_healthy split: list.splits)
  ultimately have handled: "handleAddFileHTTPRequest rid ''addfilemsg'' (Inr ?m) s = (Inr [Reply ''addfilemsg'' (File_json found)], with_new_file f s)"
    using run(1,2) c by (simp add: handleAddFileHTTPRequest_def withMsg_def CreateAddFileMsg_def orNil_def orReply_def bindM_def tryM_def
        thenM_def ignoreM_def sendHTTPReply_def)
  have "ConvertJSONToFile (results cl) (json (File_json found)) = Inr found" using assms(3) by (simp add: file_messages_ok_def)
  then have "called (request cl ''addfilemsg'' (Inr js) prvKey (ConvertJSONToFile (results cl))) s = (Inr found, with_new_file f s)"
    using request_answer[OF assms(1,2) _ dispatched(2)[of api rid js, unfolded js(2)] handled] by simp
  then show ?thesis by (simp add: rpc_add_file_def client_AddFile_def js(1) bindM_def)
qed

lemma rpc_file_server:
  assumes "linked cl api json" "signs_as cl api prvKey rid" "file_messages_ok cl api json"
  shows "file_server (rpc_get_data cl colonyName prvKey) (rpc_add_file cl prvKey) (latest_file colonyName)
     (\<lambda>s. files_ok s \<and> member_of rid colonyName s) (files_accepted colonyName)"
proof
  fix s label assume s: "files_ok s \<and> member_of rid colonyName s"
  let ?s = "s\<lparr>env_ticks := Suc (env_ticks s)\<rparr>"
  have "member_of rid colonyName ?s" using s by (simp add: member_of_def valid_executor_of_def known_user_def)
  moreover obtain fds where fds: "GetFileDataByLabel colonyName label s = (Inr fds, ?s)" "files_ok ?s"
    "latest_file colonyName ?s = latest_file colonyName s" "distinct (map fd_Name fds)"
    "\<And>n. map_of (map (\<lambda>f. (fd_Name f, f)) fds) n = latest_file colonyName s label n"
    by (rule files_get_run[OF conjunct1[OF s], of colonyName label], rule that)
  moreover have "rpc_get_data cl colonyName prvKey label s = (Inr fds, ?s)"
    using s fds(1) by (intro rpc_get_run[OF assms]) simp_all
  ultimately show "\<exists>s' fds. rpc_get_data cl colonyName prvKey label s = (Inr fds, s') \<and> (files_ok s' \<and> member_of rid colonyName s') \<and>
      latest_file colonyName s' = latest_file colonyName s \<and> distinct (map fd_Name fds) \<and>
      (\<forall>n. map_of (map (\<lambda>f. (fd_Name f, f)) fds) n = latest_file colonyName s label n)" by blast
next
  fix s f assume s: "files_ok s \<and> member_of rid colonyName s" and f: "files_accepted colonyName f"
  have "member_of rid colonyName (with_new_file f s)"
    using s by (simp add: member_of_def valid_executor_of_def known_user_def with_new_file_def)
  with files_add_run(3,4)[OF conjunct1[OF s] f] rpc_add_run[OF assms conjunct1[OF s] conjunct2[OF s] f]
  show "\<exists>s'. rpc_add_file cl prvKey f s = (Inr (), s') \<and> (files_ok s' \<and> member_of rid colonyName s') \<and> latest_file colonyName s' =
      (latest_file colonyName s)(file_Label f := (latest_file colonyName s (file_Label f))(file_Name f \<mapsto> data_of f))" by blast
qed

text \<open>
  C13: the same for a client that reaches the server by requests: what a member of the colony signs with its key. JSON,
  base64 and signatures give back what was put in, and the files of the label have their objects. Further no file of
  the label has the name of a directory, or \<open>.cfs\<close>, which is no directory either, and no conflict is settled in favour of
  an empty file of the label, whose object does not exist. Then a sync succeeds, and afterwards the directory and the label
  have the same files, a second sync has nothing to do, and the side that has the say has kept its files.
\<close>

theorem sync_over_requests:
  assumes "linked cl api json" "signs_as cl api prvKey rid" "file_messages_ok cl api json"
    and "client_of (rpc_get_data cl colonyName prvKey) (rpc_add_file cl prvKey) (files_accepted colonyName) env"
    and "sync_inv (\<lambda>s. files_ok s \<and> member_of rid colonyName s) (latest_file colonyName) env dir label w"
    and "no_clash (latest_file colonyName) env dir label keepLocal w"
    and "\<And>js. mset (order js) = mset js"
  shows "\<exists>plan w1 w2. CalcSyncPlan env dir label keepLocal w = (Inr plan, w1) \<and> ApplySyncPlan env order plan w1 = (Inr (), w2) \<and>
    sync_inv (\<lambda>s. files_ok s \<and> member_of rid colonyName s) (latest_file colonyName) env dir label w2 \<and>
    in_sync (latest_file colonyName) env dir label w2 \<and> sides_kept (latest_file colonyName) dir label keepLocal w w2 \<and>
    (\<forall>keepLocal'. \<exists>plan' w3. CalcSyncPlan env dir label keepLocal' w2 = (Inr plan', w3) \<and> jobs_of plan' = [])"
  using assms(4-7) by (rule file_server.sync_runs[OF rpc_file_server[OF assms(1-3)]])


section \<open>A concrete link\<close>

definition demo_wire :: wire_codec where
  "demo_wire = \<lparr>base64 = id, unbase64 = id,
     RPCMsg_ToJSON = (\<lambda>m. Inr (enc_texts [rpc_Signature m, rpc_PayloadType m, rpc_Payload m])),
     CreateRPCMsgFromJSON = (\<lambda>js. case dec_texts js of
         [a, b, c] \<Rightarrow> Inr \<lparr>rpc_Signature = a, rpc_PayloadType = b, rpc_Payload = c\<rparr> | _ \<Rightarrow> Inl (Err ''invalid character'')),
     RPCReplyMsg_ToJSON = (\<lambda>p. case p of None \<Rightarrow> Inr ''null''
       | Some m \<Rightarrow> Inr (enc_texts [reply_PayloadType m, reply_Payload m, bool_text (reply_Error m)])),
     CreateRPCReplyMsgFromJSON = (\<lambda>js. case dec_texts js of
         [a, b, c] \<Rightarrow> Inr (Some \<lparr>reply_PayloadType = a, reply_Payload = b, reply_Error = (c = ''true'')\<rparr>)
       | _ \<Rightarrow> Inl (Err ''invalid character'')),
     Failure_ToJSON = (\<lambda>f. Inr (enc_texts [int_text (failure_Status f), failure_Message f])),
     ConvertJSONToFailure = (\<lambda>js. case dec_texts js of
         [a, b] \<Rightarrow> Inr (Some \<lparr>failure_Status = text_int a, failure_Message = b\<rparr>) | _ \<Rightarrow> Inl (Err ''invalid character''))\<rparr>"

lemma demo_wire_ok: "wire_ok demo_wire"
  by (simp add: wire_ok_def demo_wire_def)

lemma demo_wire_two:
  assumes "RPCReplyMsg_ToJSON demo_wire (Some m) = Inr js" "RPCReplyMsg_ToJSON demo_wire (Some m') = Inr js'"
  shows "\<exists>e. CreateRPCReplyMsgFromJSON demo_wire (js @ js') = Inl e"
  using assms by (auto simp: demo_wire_def)

definition file_fields :: "File \<Rightarrow> string list" where
  "file_fields f = (let r = file_Reference f; o' = ref_S3Object r in
     [file_ID f, file_ColonyName f, file_Label f, file_Name f, int_text (file_Size f), int_text (file_SequenceNumber f), file_Checksum f,
      file_ChecksumAlg f, int_text (file_Added f), ref_Protocol r, s3_Server o', int_text (s3_Port o'), bool_text (s3_TLS o'),
      s3_AccessKey o', s3_SecretKey o', s3_Region o', s3_EncryptionKey o', s3_EncryptionAlg o', s3_Object o', s3_Bucket o'])"

definition fields_file :: "string list \<Rightarrow> File" where
  "fields_file xs =
     \<lparr>file_ID = xs ! 0, file_ColonyName = xs ! 1, file_Label = xs ! 2, file_Name = xs ! 3, file_Size = text_int (xs ! 4),
      file_SequenceNumber = text_int (xs ! 5), file_Checksum = xs ! 6, file_ChecksumAlg = xs ! 7,
      file_Reference = \<lparr>ref_Protocol = xs ! 9, ref_S3Object = \<lparr>s3_Server = xs ! 10, s3_Port = text_int (xs ! 11),
        s3_TLS = (xs ! 12 = ''true''), s3_AccessKey = xs ! 13, s3_SecretKey = xs ! 14, s3_Region = xs ! 15, s3_EncryptionKey = xs ! 16,
        s3_EncryptionAlg = xs ! 17, s3_Object = xs ! 18, s3_Bucket = xs ! 19\<rparr>\<rparr>,
      file_Added = text_int (xs ! 8)\<rparr>"

lemma fields_file_fields [simp]: "fields_file (file_fields f) = f"
  by (simp add: fields_file_def file_fields_def Let_def)

definition demo_enc_File :: "File option \<Rightarrow> string" where
  "demo_enc_File f = (case f of None \<Rightarrow> [] | Some f \<Rightarrow> enc_texts (file_fields f))"

definition demo_dec_File :: "string \<Rightarrow> File option" where
  "demo_dec_File js = (if js = [] then None else Some (fields_file (dec_texts js)))"

lemma demo_File [simp]: "demo_dec_File (demo_enc_File f) = f"
proof -
  have "enc_texts (file_fields g) \<noteq> []" for g by (simp add: file_fields_def Let_def enc_texts_nonempty)
  then show ?thesis by (simp add: demo_dec_File_def demo_enc_File_def split: option.split)
qed

definition demo_dec_FileData :: "string \<Rightarrow> FileData list" where
  "demo_dec_FileData js = map (\<lambda>t. let xs = dec_texts t in
     \<lparr>fd_Name = xs ! 0, fd_Checksum = xs ! 1, fd_Size = text_int (xs ! 2), fd_S3Filename = xs ! 3\<rparr>) (dec_texts js)"

fun demo_json :: "content \<Rightarrow> string" where
  "demo_json (FileData_json fds) = enc_texts (map (\<lambda>fd. enc_texts [fd_Name fd, fd_Checksum fd, int_text (fd_Size fd), fd_S3Filename fd]) fds)"
| "demo_json (File_json f) = demo_enc_File f"
| "demo_json _ = ''{}''"

lemma demo_FileData [simp]: "demo_dec_FileData (demo_json (FileData_json fds)) = fds"
proof -
  have "(\<lambda>fd :: FileData. \<lparr>fd_Name = fd_Name fd, fd_Checksum = fd_Checksum fd, fd_Size = fd_Size fd, fd_S3Filename = fd_S3Filename fd\<rparr>) = id"
    by (simp add: fun_eq_iff)
  then show ?thesis by (simp add: demo_dec_FileData_def comp_def Let_def)
qed

definition demo_enc_GetFiles :: "GetFilesMsg \<Rightarrow> failure + string" where
  "demo_enc_GetFiles m = Inr (enc_texts [MsgType m, GetFiles_Label m, GetFiles_ColonyName m])"

definition demo_dec_GetFiles :: "string \<Rightarrow> failure + GetFilesMsg" where
  "demo_dec_GetFiles js = (case dec_texts js of
       [a, b, c] \<Rightarrow> Inr \<lparr>MsgType = a, GetFiles_Label = b, GetFiles_ColonyName = c\<rparr> | _ \<Rightarrow> Inl (Err ''unexpected end''))"

definition demo_enc_AddFile :: "AddFileMsg \<Rightarrow> failure + string" where
  "demo_enc_AddFile m = Inr (enc_texts [MsgType m, demo_enc_File (AddFile_File m)])"

definition demo_dec_AddFile :: "string \<Rightarrow> failure + AddFileMsg" where
  "demo_dec_AddFile js = (case dec_texts js of
       [a, b] \<Rightarrow> Inr \<lparr>MsgType = a, AddFile_File = demo_dec_File b\<rparr> | _ \<Rightarrow> Inl (Err ''unexpected end''))"

definition unencoded :: "'m \<Rightarrow> failure + string" where
  "unencoded m = Inl (Err ''unsupported type'')"

definition undecoded :: "string \<Rightarrow> failure + 'a" where
  "undecoded js = Inl (Err ''unexpected end'')"

definition demo_messages :: message_codec where
  "demo_messages =
     \<lparr>enc_AddUserMsg = unencoded, enc_GetUserMsg = unencoded, enc_GetUsersMsg = unencoded,
      enc_RemoveUserMsg = unencoded, enc_AddColonyMsg = unencoded, enc_RemoveColonyMsg = unencoded,
      enc_GetColoniesMsg = unencoded, enc_GetColonyMsg = unencoded, enc_AddExecutorMsg = unencoded,
      enc_ReportAllocationsMsg = unencoded, enc_GetExecutorsMsg = unencoded, enc_GetExecutorMsg = unencoded,
      enc_ApproveExecutorMsg = unencoded, enc_RejectExecutorMsg = unencoded, enc_RemoveExecutorMsg = unencoded,
      enc_SubmitFunctionSpecMsg = unencoded, enc_AssignProcessMsg = unencoded, enc_GetProcessHistMsg = unencoded,
      enc_GetProcessesMsg = unencoded, enc_GetColonyStatisticsMsg = unencoded, enc_GetStatisticsMsg = unencoded,
      enc_GetProcessMsg = unencoded, enc_RemoveProcessMsg = unencoded, enc_RemoveAllProcessesMsg = unencoded,
      enc_CloseSuccessfulMsg = (\<lambda>m. Inr (CloseSuccessful_ProcessID m)), enc_CloseFailedMsg = unencoded,
      enc_SetOutputMsg = unencoded, enc_AddAttributeMsg = unencoded, enc_GetAttributeMsg = unencoded,
      enc_SubmitWorkflowSpecMsg = unencoded, enc_AddChildMsg = unencoded, enc_GetProcessGraphMsg = unencoded,
      enc_GetProcessGraphsMsg = unencoded, enc_RemoveProcessGraphMsg = unencoded,
      enc_RemoveAllProcessGraphsMsg = unencoded, enc_AddGeneratorMsg = unencoded, enc_GetGeneratorMsg = unencoded,
      enc_ResolveGeneratorMsg = unencoded, enc_GetGeneratorsMsg = unencoded, enc_PackGeneratorMsg = unencoded,
      enc_RemoveGeneratorMsg = unencoded, enc_AddCronMsg = unencoded, enc_GetCronMsg = unencoded,
      enc_GetCronsMsg = unencoded, enc_RunCronMsg = unencoded, enc_RemoveCronMsg = unencoded,
      enc_AddFunctionMsg = unencoded, enc_GetFunctionsMsg = unencoded, enc_RemoveFunctionMsg = unencoded,
      enc_GetClusterMsg = unencoded, enc_AddLogMsg = unencoded, enc_GetLogsMsg = unencoded,
      enc_SearchLogsMsg = unencoded, enc_AddFileMsg = demo_enc_AddFile, enc_GetFileMsg = unencoded,
      enc_GetFilesMsg = demo_enc_GetFiles, enc_GetFileLabelsMsg = unencoded, enc_RemoveFileMsg = unencoded,
      enc_CreateSnapshotMsg = unencoded, enc_GetSnapshotMsg = unencoded, enc_GetSnapshotsMsg = unencoded,
      enc_RemoveSnapshotMsg = unencoded, enc_RemoveAllSnapshotsMsg = unencoded, enc_ChangeUserIDMsg = unencoded,
      enc_ChangeExecutorIDMsg = unencoded, enc_ChangeColonyIDMsg = unencoded, enc_ChangeServerIDMsg = unencoded,
      enc_PauseAssignmentsMsg = unencoded, enc_ResumeAssignmentsMsg = unencoded, enc_VersionMsg = unencoded,
      enc_GetPauseStatusMsg = unencoded\<rparr>"

definition demo_results :: result_codec where
  "demo_results =
     \<lparr>ConvertJSONToUser = undecoded, ConvertJSONToUserArray = undecoded, ConvertJSONToColony = undecoded,
      ConvertJSONToColonyArray = undecoded, ConvertJSONToExecutor = undecoded,
      ConvertJSONToExecutorArray = undecoded, ConvertJSONToProcess = undecoded,
      ConvertJSONToProcessArray = undecoded, ConvertJSONToStatistics = undecoded, ConvertJSONToAttribute = undecoded,
      ConvertJSONToProcessGraph = undecoded, ConvertJSONToProcessGraphArray = undecoded,
      ConvertJSONToGenerator = undecoded, ConvertJSONToGeneratorArray = undecoded, ConvertJSONToCron = undecoded,
      ConvertJSONToCronArray = undecoded, ConvertJSONToFunction = undecoded, ConvertJSONToFunctionArray = undecoded,
      ConvertJSONToConfig = undecoded, ConvertJSONToLogArray = undecoded,
      ConvertJSONToFile = (\<lambda>js. Inr (demo_dec_File js)), ConvertJSONToFileArray = undecoded,
      ConvertJSONToFileDataArray = (\<lambda>js. Inr (demo_dec_FileData js)), ConvertJSONToLabelArray = undecoded,
      ConvertJSONToSnapshot = undecoded, ConvertJSONToSnapshotsArray = undecoded,
      CreateVersionMsgFromJSON = undecoded, CreatePauseStatusReplyMsgFromJSON = undecoded\<rparr>"

definition demo_api :: api_env where
  "demo_api = demo_env
     \<lparr>api_file_codec := \<lparr>dec_AddFileMsg = demo_dec_AddFile, dec_GetFileMsg = refused, dec_GetFilesMsg = demo_dec_GetFiles,
        dec_GetFileLabelsMsg = refused, dec_RemoveFileMsg = refused\<rparr>,
      api_process_codec := (api_process_codec demo_env)\<lparr>dec_CloseSuccessfulMsg := (\<lambda>pid. Inr (CreateCloseSuccessfulMsg pid))\<rparr>\<rparr>"

definition demo_link :: "ctl_state http_env" where
  "demo_link = \<lparr>post = respond demo_api demo_wire demo_json, wire = demo_wire, GenerateSignature = (\<lambda>_ prvKey. Inr prvKey),
     messages = demo_messages, results = demo_results\<rparr>"

lemma demo_link_ok: "linked demo_link demo_api demo_json" "signs_as demo_link demo_api k k"
proof -
  have api: "api_decodePayload demo_api = id" "api_recoverID demo_api = (\<lambda>_ signature. Inr signature)"
    by (simp_all add: demo_api_def demo_env_def)
  show "linked demo_link demo_api demo_json" using demo_wire_ok by (simp add: linked_def demo_link_def api demo_wire_def)
  show "signs_as demo_link demo_api k k" by (simp add: signs_as_def demo_link_def api)
qed

lemma demo_file_messages: "file_messages_ok demo_link demo_api demo_json"
proof -
  have "messages demo_link = demo_messages" "results demo_link = demo_results" by (simp_all add: demo_link_def)
  moreover have "enc_GetFilesMsg demo_messages = demo_enc_GetFiles" "enc_AddFileMsg demo_messages = demo_enc_AddFile"
    by (simp_all add: demo_messages_def)
  moreover have "ConvertJSONToFileDataArray demo_results = (\<lambda>js. Inr (demo_dec_FileData js))" "ConvertJSONToFile demo_results = (\<lambda>js. Inr (demo_dec_File js))"
    by (simp_all add: demo_results_def)
  moreover have "dec_GetFilesMsg (api_file_codec demo_api) = demo_dec_GetFiles" "dec_AddFileMsg (api_file_codec demo_api) = demo_dec_AddFile"
    by (simp_all add: demo_api_def)
  ultimately show ?thesis
    by (simp add: file_messages_ok_def demo_enc_GetFiles_def demo_dec_GetFiles_def demo_enc_AddFile_def demo_dec_AddFile_def del: demo_json.simps(1))
qed

text \<open>What is no message is refused.\<close>

theorem request_answered_witness:
  "sendMessage demo_link ''getfilesmsg'' [] ''u'' False demo_server =
     (Inr (Inl (ColoniesError 400 ''Failed to get files, invalid JSON'')), demo_server)"
proof -
  have "handleGetFilesHTTPRequest ''u'' ''getfilesmsg'' (dec_GetFilesMsg (api_file_codec demo_api) []) demo_server =
      (Inr [ErrorReply ''Failed to get files, invalid JSON'' 400], demo_server)"
    by (simp add: demo_api_def demo_dec_GetFiles_def handleGetFilesHTTPRequest_def withMsg_def sendError_def
        handleHTTPError_def StatusBadRequest_def)
  from request_answered[OF demo_link_ok _ dispatched(3) this] show ?thesis by simp
qed

definition demo_late :: ctl_state where
  "demo_late = (demo_ctl FAILED FAILED)\<lparr>COLONIES := [\<lparr>CO_NAME = ''c'', CO_COLONY_ID = ''i''\<rparr>], EXECUTORS := [],
     USERS := [\<lparr>US_NAME = ''c:e'', US_USER_ID = ''e'', US_COLONY_NAME = ''c'', US_EMAIL = [], US_PHONE = []\<rparr>]\<rparr>"

theorem late_close_unreadable_witness:
  "\<exists>body. client_Close demo_link ''a'' ''e'' demo_late =
    (Inr (Inl (ClientError (''Expected a valid Colonies RPC message, but got this: '' @ body))), demo_late)"
proof (rule late_close_unreadable[OF demo_link_ok])
  have w: "wire demo_link = demo_wire" by (simp add: demo_link_def)
  show "\<exists>e. CreateRPCReplyMsgFromJSON (wire demo_link) (js @ js') = Inl e"
    if "RPCReplyMsg_ToJSON (wire demo_link) (Some m) = Inr js" "RPCReplyMsg_ToJSON (wire demo_link) (Some m') = Inr js'" for m m' js js'
    using that demo_wire_two unfolding w by blast
  show "enc_CloseSuccessfulMsg (messages demo_link) (CreateCloseSuccessfulMsg ''a'') = Inr ''a''"
    by (simp add: demo_link_def demo_messages_def CreateCloseSuccessfulMsg_def)
  show "dec_CloseSuccessfulMsg (api_process_codec demo_api) ''a'' = Inr (CreateCloseSuccessfulMsg ''a'')" by (simp add: demo_api_def)
  show "healthy demo_late" "find_row ''a'' demo_late = Some (demo_row ''a'' FAILED [] [''b''])"
    by (simp_all add: demo_late_def healthy_def find_row_def demo_ctl_def demo_db_def new_pq_def pq_state.defs ctl_state.defs demo_row_def)
  show "PR_STATE (demo_row ''a'' FAILED [] [''b'']) = FAILED" "PR_ASSIGNED_EXECUTOR_ID (demo_row ''a'' FAILED [] [''b'']) = ''e''"
    by (simp_all add: demo_row_def FAILED_def WAITING_def)
  show "member_of ''e'' (PR_TARGET_COLONY_NAME (demo_row ''a'' FAILED [] [''b''])) demo_late"
    by (simp add: member_of_def demo_late_def demo_row_def known_user_def user_row_ok_def no_colon_def colony_key_def)
qed simp

text \<open>The directory and the label of the sync with the tables, reached by a user of the colony.\<close>

definition demo_rpc_world :: "ctl_state world" where
  "demo_rpc_world = demo_world\<lparr>w_srv := demo_colony\<lparr>COLONIES := [\<lparr>CO_NAME = ''c'', CO_COLONY_ID = ''i''\<rparr>],
     USERS := [\<lparr>US_NAME = ''c:u'', US_USER_ID = ''u'', US_COLONY_NAME = ''c'', US_EMAIL = [], US_PHONE = []\<rparr>]\<rparr>\<rparr>"

definition demo_rpc_client :: "ctl_state fs_env" where
  "demo_rpc_client = demo_client\<lparr>api_GetFileData := rpc_get_data demo_link ''c'' ''u'', api_AddFile := rpc_add_file demo_link ''u''\<rparr>"

lemma demo_rpc_world_ok:
  "sync_inv (\<lambda>s. files_ok s \<and> member_of ''u'' ''c'' s) (latest_file ''c'') demo_rpc_client ''/d'' ''/l'' demo_rpc_world"
  "no_clash (latest_file ''c'') demo_rpc_client ''/d'' ''/l'' keepLocal demo_rpc_world"
proof -
  let ?s = "w_srv demo_rpc_world"
  have w: "w_dirs demo_rpc_world = w_dirs demo_world" "w_s3 demo_rpc_world = w_s3 demo_world" "w_next demo_rpc_world = w_next demo_world"
    "w_srv demo_world = demo_colony" by (simp_all add: demo_rpc_world_def demo_world_def)
  have e: "random_id demo_rpc_client = random_id demo_client" "sha256 demo_rpc_client = sha256 demo_client" by (simp_all add: demo_rpc_client_def)
  have f: "latest_file ''c'' ?s = latest_file ''c'' demo_colony" by (simp add: demo_rpc_world_def latest_file_def fun_eq_iff)
  have "files_ok ?s" using demo_colony_ok
    by (simp add: demo_rpc_world_def files_ok_def healthy_def seqnrs_ok_def fresh_ids_def range_ok_def)
  moreover have "member_of ''u'' ''c'' ?s"
  proof -
    have "EXECUTORS ?s = []" by (simp add: demo_rpc_world_def demo_colony_def new_pq_def pq_state.defs ctl_state.defs)
    then show ?thesis by (simp add: demo_rpc_world_def member_of_def known_user_def user_row_ok_def no_colon_def colony_key_def)
  qed
  ultimately show "sync_inv (\<lambda>s. files_ok s \<and> member_of ''u'' ''c'' s) (latest_file ''c'') demo_rpc_client ''/d'' ''/l'' demo_rpc_world"
    using demo_world_ok by (simp add: sync_inv_def dirs_ok_def fresh_objects_def has_object_def w e f)
  show "no_clash (latest_file ''c'') demo_rpc_client ''/d'' ''/l'' keepLocal demo_rpc_world"
    using demo_no_clash[of keepLocal] by (simp add: no_clash_def entry_at_cong[OF w(1)] local_at_cong[OF w(1)] w(4) e f)
qed

theorem sync_over_requests_witness:
  "\<exists>plan w1 w2. CalcSyncPlan demo_rpc_client ''/d'' ''/l'' False demo_rpc_world = (Inr plan, w1) \<and>
    ApplySyncPlan demo_rpc_client rev plan w1 = (Inr (), w2) \<and> in_sync (latest_file ''c'') demo_rpc_client ''/d'' ''/l'' w2"
proof -
  have "client_of (rpc_get_data demo_link ''c'' ''u'') (rpc_add_file demo_link ''u'') (files_accepted ''c'') demo_rpc_client"
    using demo_client_ok by (simp add: client_of_def demo_rpc_client_def)
  from sync_over_requests[OF demo_link_ok demo_file_messages this demo_rpc_world_ok(1) demo_rpc_world_ok(2)[of False], where order = rev] show ?thesis by auto
qed


end
