(* ===== verification/Spec2Isabelle.thy ===== *)
theory Spec2Isabelle
  imports Parsers Process_Graph_Facts Resolve_Facts Scheduler Lifecycle Controller_Facts
    Pq_Member_Facts Retention_Facts Timeout_Facts Access_Facts Request_Facts Cron_Facts
    Dht_Lookup Dht_Client Subscriptions Client_Server
begin

text \<open>
  This development models the server of ColonyOS (\<open>src/pkg\<close>) and proves what makes it correct. ColonyOS is a
  meta-operating system: users submit function specifications to a colony, the server keeps them as processes in a
  database, and executors ask for processes, run them and report back.

  \<^bold>\<open>The parts and how they interact.\<close> A client sends a signed request over HTTP. The server recovers the identity of
  the sender, decodes the message and switches over its type to a handler (\<open>pkg/server/*_handlers.go\<close>). A handler asks
  the validator who the sender is (\<open>pkg/security/validator\<close>), and then calls the database (\<open>pkg/database/postgresql\<close>) or
  the controller (\<open>pkg/server/colonies_controller.go\<close>). The controller takes its commands from a queue and runs most of
  them in goroutines of their own; it asks the scheduler (\<open>pkg/scheduler\<close>) for the process an executor is given, resolves the process graphs of workflows
  (\<open>pkg/core/processgraph.go\<close>) when a process ends, and signals changes to those who wait for them. Loops of the
  controller trigger crons and generators, fail or requeue processes that are past their deadlines, and delete old
  rows. The event handler passes the signals on to requests that wait and to subscriptions over web sockets. Beside the
  server there are the client of its requests (\<open>pkg/client\<close>), a client that syncs directories with the files of a colony
  over it (\<open>pkg/fs\<close>), and a Kademlia hash table in which servers can register (\<open>pkg/p2p/dht\<close>).

  \<^bold>\<open>How code is modelled.\<close> An operation takes a state and gives a result or a failure and the state it leaves
  (\<open>Prelude\<close>): \<open>Err\<close> is an error value, \<open>SqlErr\<close> an error of the database driver, \<open>Panic\<close> a runtime panic; errors the
  code ignores are ignored by \<open>ignoreM\<close>. Structs are records, enumerations datatypes, Go maps association lists. An \<open>int\<close>
  or \<open>int64\<close> is an integer with \<open>wrap64\<close> or the bounds of the column written out where overflow matters; bit sets and
  bytes are words. Times are nanoseconds since 1970 UTC. What the code takes from outside is part of the state or an
  argument: the clock, UUIDs and the hash (\<open>env_clock\<close>, \<open>env_uuid\<close>, \<open>env_hash\<close>, read at the counter \<open>env_ticks\<close>), lost
  connections (\<open>env_faults\<close>), the order of ranging over a map (\<open>env_orders\<close>, \<open>ctl_range\<close>), etcd (\<open>ctl_etcd_get\<close>,
  \<open>ctl_etcd_write\<close>), what other goroutines do while a handler waits (\<open>others\<close>, \<open>waits\<close>), which ready case a select
  takes (\<open>sel\<close>), and the codecs of JSON, base64 and signatures.

  \<^bold>\<open>Theories, by part.\<close>

  \<^item> \<open>Prelude\<close>: operations and their evaluation, \<open>keeps\<close> (a relation every run of an operation satisfies) with its rules,
    64-bit integers, rows of tables. \<open>Go_Strings\<close>: functions of package \<open>strings\<close>. \<open>Calendar\<close>: dates of package \<open>time\<close>.
  \<^item> \<open>Core_Types\<close>, \<open>Core_Members\<close> (\<open>pkg/core\<close>): processes, function specifications, attributes, executors, users,
    colonies, functions, crons, generators, logs, with constructors and \<open>Equals\<close> methods. \<open>Parsers\<close> (\<open>pkg/parsers\<close>):
    quantities of CPU and memory; what is written is read back.
  \<^item> \<open>Pq_State\<close>, \<open>Pq_Attributes\<close>, \<open>Pq_Processes\<close>, \<open>Pq_ProcessGraphs\<close>, \<open>Pq_Members\<close>, \<open>Pq_Colonies\<close>, \<open>Files\<close>
    (\<open>pkg/database/postgresql\<close>): the tables as lists of rows, \<open>pq_state\<close>, and one definition for every statement the
    package runs. \<open>Pq_Process_Facts\<close>, \<open>Pq_Keeps\<close> give the effect of each method on the tables and what every run keeps,
    \<open>Pq_Member_Facts\<close> the registration and removal of executors and colonies, \<open>Retention_Facts\<close> the retention policy.
  \<^item> \<open>Process_Graph\<close> (\<open>pkg/core/processgraph.go\<close>): the walk over a stored graph, \<open>Resolve\<close>, \<open>GetRoot\<close>, \<open>Depth\<close> and the
    counters. \<open>Process_Graph_Facts\<close> shows that the walk visits what is reachable once, \<open>Resolve_Facts\<close> which processes
    \<open>Resolve\<close> releases or fails, and that \<open>GetRoot\<close> and \<open>Depth\<close> end on every table.
  \<^item> \<open>Scheduler\<close> (\<open>pkg/scheduler\<close>): \<open>Select\<close> over the interface \<open>ProcessLookup\<close>, a locale that the tables interpret.
  \<^item> \<open>Controller\<close>, \<open>Cron_Generators\<close> (\<open>colonies_controller.go\<close>, \<open>generator_controller.go\<close>, \<open>cron_controller.go\<close>): \<open>ctl_state\<close> extends the tables with what the controller keeps.
    \<open>Lifecycle\<close> shows by induction over sequences of requests that no process is lost and when processes only move
    forward: requests that remove an executor or register it again, and rounds of the timeout loop, put processes back.
    \<open>Controller_Facts\<close> shows that, without these, assignments are exclusive, and which process is assigned and what becomes
    of its graph, \<open>Closing_Facts\<close> what closing does to a graph,
    \<open>Timeout_Facts\<close> deadlines, retries, pausing and resuming.
  \<^item> \<open>Event_Handler\<close>, \<open>Subscriptions\<close> (\<open>event_handler.go\<close>, \<open>ws_subscription.go\<close>, \<open>ws_handler.go\<close>): the master worker, its
    tables of listeners and bounded channels, and the calls that wait or subscribe, as a machine \<open>ev_step\<close> whose moves
    interleave. \<open>Event_Facts\<close>: the tables hold exactly the calls that listen, a signal reaches exactly those it is for,
    and a subscriber that does not read stops the handler. The text that tells listeners apart is that of type and state,
    so the claim is stated over it.
  \<^item> \<open>Cron_Spec\<close> (\<open>pkg/cron\<close>): the parser of cron expressions and the search for the next activation, as a machine with
    a step for every round of a loop. \<open>Cron_Facts\<close>: it ends, and gives the first second the schedule admits.
  \<^item> \<open>Server_Checks\<close>, \<open>Rpc\<close>, \<open>Process_Handlers\<close>, \<open>Member_Handlers\<close>, \<open>Data_Handlers\<close>, \<open>Api\<close> (\<open>pkg/server\<close>, \<open>pkg/rpc\<close>,
    \<open>pkg/security/validator\<close>): messages, checks, every HTTP handler with all the replies it writes, and the dispatcher.
    \<open>Access_Facts\<close>: a stranger changes nothing. \<open>Request_Facts\<close>: to whom membership is granted, who may act on a process.
  \<^item> \<open>Kv_Store\<close>, \<open>Routing_Table\<close>, \<open>Dht_Node\<close>, \<open>Dht_Lookup\<close>, \<open>Dht_Client\<close> (\<open>pkg/p2p/dht\<close>): the store as a refinement of
    a map, the routing table, the handlers and the dispatcher of a node, the search for contacts as a machine of its loop
    and goroutines, and the operations on other nodes. \<open>Routing_Facts\<close>, \<open>Dht_Facts\<close>: the invariant of the table, what
    a node keeps whatever messages reach it, and at which messages it panics.
  \<^item> \<open>Fs_Client\<close> (\<open>pkg/fs\<close>): plans of a sync, their jobs, cleaning, removal, snapshots. \<open>Fs_Facts\<close> shows that a sync
    converges over any server that keeps the contract \<open>file_server\<close>, \<open>Fs_Server\<close> that the tables keep it.
  \<^item> \<open>Rpc_Messages\<close>, \<open>Colonies_Client\<close> (\<open>pkg/rpc\<close>, \<open>pkg/client\<close>): the constructors of the messages and a definition for
    every call of the client. \<open>Client_Server\<close> puts client and server together: the replies of a handler as the body of
    a response, that the client is answered what the handler replied, what becomes of an error that is written twice,
    and that a sync converges over signed requests.
  \<^item> \<open>Demo\<close>, \<open>Text_Codec\<close>: a small database and a codec for the witnesses.

  \<^bold>\<open>Interfaces.\<close> Locales state what one part relies on in another, or what several operations have in common, and are
  interpreted on the model. \<open>op_relation\<close>: a relation of states that every run of an operation satisfies; it is extended
  by \<open>process_relation\<close> (interpreted as \<open>fwd\<close>, \<open>upto\<close>, \<open>unchanged\<close> for the life of a process) and \<open>store_relation\<close>
  (\<open>str\<close>, \<open>sto\<close>, \<open>mem\<close> for what requests leave alone), and interpreted for the walk over a graph (\<open>ctx\<close>) and for a node
  of the hash table (\<open>dht\<close>). \<open>run_relation\<close> extends \<open>process_relation\<close> by relations that contain the moves
  forward, so that what the requests keep is proved once for three of them (\<open>fwd_run\<close>, \<open>closed_run\<close>, \<open>rows_run\<close>). \<open>registry\<close>: adding, finding and removing by name, interpreted on executors, users and
  colonies. \<open>process_lookup\<close>: the queries of the scheduler, on the process table. \<open>time_unit\<close>: the rounds of the search of
  a cron schedule, on months, days, hours, minutes and seconds. \<open>path_store\<close>: a map from paths to values, on the tree of
  the key-value store. \<open>value_nodes\<close>: nodes that keep what is put, on the nodes of the hash table. \<open>file_server\<close>: files
  that are added and listed, on the tables of files and, in \<open>Client_Server\<close>, on the requests of the client.

  \<^bold>\<open>Fuel and bounds.\<close> The walk over a graph has one unit of fuel for each row and one more, which is enough as it visits
  no process twice; \<open>GetRoot\<close> has the rows and two more, after which a process was seen twice. \<open>bits_loop\<close> has 64 rounds,
  one for each bit of the set. The loop that retries to resolve a graph has the ten rounds of the code. \<open>Next\<close> is a
  \<open>while_option\<close> whose end is proved by a measure. The search for contacts is a relation; its moves are bounded by the
  size of the network.

  \<^bold>\<open>What is assumed.\<close> A handler of the controller is one step. The code runs most commands in goroutines of their own, so that the statements
  of two handlers can interleave; this is left out, but for the loop of \<open>assign\<close>, between whose rounds other requests
  are served. Theorems on time zones are for locations with a fixed offset of whole minutes (those of crons only for the
  location the expression uses); the definitions are general. The order of rows in a table is that of insertion where
  the code gives none. Hashes and signatures are functions without assumptions unless a theorem names them.

  \<^bold>\<open>What is not modelled.\<close> The command line (\<open>internal/cli\<close>), which reads flags and prints tables; the relay between
  servers and the election of a leader (\<open>pkg/cluster\<close>), which are calls of etcd and HTTP; the primitives of cryptography;
  the client's side of a web socket; the transport of libp2p; S3 beyond objects that are there or not; the layout of
  graphs for drawing (\<open>calcNodes\<close>); creating and dropping the schema; monitoring, build information and progress bars.
  The queue of the controller and its workers are taken as one command after the other, and a panic in a goroutine of a
  command as one in the request. The column of retries is taken to
  be large enough. \<open>cleanupParents\<close> of the key-value store is never called.
\<close>

end
